(* ===== verification/Prelude.thy ===== *)
theory Prelude
  imports Main
begin

text \<open>
  Shared vocabulary of the development: the basic value types (identifiers, instants, money),
  the application's exception classes (\<^verbatim>\<open>src/backend/app/core/exceptions.py\<close>) and the HTTP
  statuses they are turned into, the state-and-exception operations in which every service
  method is written, the request boundary of \<^verbatim>\<open>src/backend/app/db/session.py\<close>, and the
  lemmas on lists and keyed rows that all components share.
\<close>

section \<open>Basic values\<close>

text \<open>
  A UUID is an opaque identifier; a database instant counts microseconds; a \<open>money\<close> amount
  counts hundredths, the scale of the columns declared \<^verbatim>\<open>Numeric(10, 2)\<close>.
\<close>

type_synonym uuid = nat
type_synonym time = int
type_synonym money = int

section \<open>Exceptions\<close>

text \<open>
  \<open>AppError\<close> is an exception of the application's own hierarchy with its error code;
  \<open>PyError\<close> is any other Python exception (an \<^verbatim>\<open>IntegrityError\<close> of the database driver, a
  \<^verbatim>\<open>ValueError\<close>, a pydantic \<^verbatim>\<open>ValidationError\<close>), named by its class.
\<close>

datatype err_class =
    NotFound | Validation | Unauthorized | Forbidden | Conflict | RateLimit | LLMFailure
  | RAGFailure | InsufficientStock | Idempotency | NotImplemented

datatype exn = AppError err_class string | PyError string

fun status_code :: "err_class \<Rightarrow> nat" where
  "status_code NotFound = 404"
| "status_code Validation = 400"
| "status_code Unauthorized = 401"
| "status_code Forbidden = 403"
| "status_code Conflict = 409"
| "status_code RateLimit = 429"
| "status_code LLMFailure = 503"
| "status_code RAGFailure = 500"
| "status_code InsufficientStock = 409"
| "status_code Idempotency = 409"
| "status_code NotImplemented = 501"

fun default_error_code :: "err_class \<Rightarrow> string" where
  "default_error_code NotFound = ''not_found''"
| "default_error_code Validation = ''validation_error''"
| "default_error_code Unauthorized = ''unauthorized''"
| "default_error_code Forbidden = ''forbidden''"
| "default_error_code Conflict = ''conflict''"
| "default_error_code RateLimit = ''rate_limited''"
| "default_error_code LLMFailure = ''llm_error''"
| "default_error_code RAGFailure = ''rag_error''"
| "default_error_code InsufficientStock = ''insufficient_stock''"
| "default_error_code Idempotency = ''idempotency_conflict''"
| "default_error_code NotImplemented = ''not_implemented''"

text \<open>
  The handlers of \<^verbatim>\<open>create_app\<close>: an application exception is answered with its own status, a request
  that does not fit its schema with 422, everything without a handler is the server error 500.
\<close>

definition request_error :: exn where
  "request_error = PyError ''RequestValidationError''"

fun response_status :: "exn \<Rightarrow> nat" where
  "response_status (AppError c code) = status_code c"
| "response_status (PyError cls) = (if cls = ''RequestValidationError'' then 422 else 500)"

section \<open>Operations\<close>

text \<open>
  A service method reads and writes a state and may raise. The state reached before an
  exception is kept, so that effects outside the database transaction (Redis) survive it.
\<close>

type_synonym ('s, 'a) op = "'s \<Rightarrow> (exn + 'a) \<times> 's"

named_theorems op_simps

definition ret :: "'a \<Rightarrow> ('s, 'a) op" where
  "ret x s = (Inr x, s)"

definition raise :: "exn \<Rightarrow> ('s, 'a) op" where
  "raise e s = (Inl e, s)"

definition andThen :: "('s, 'a) op \<Rightarrow> ('a \<Rightarrow> ('s, 'b) op) \<Rightarrow> ('s, 'b) op" where
  "andThen m f s = (case m s of (Inl e, s') \<Rightarrow> (Inl e, s') | (Inr x, s') \<Rightarrow> f x s')"

definition gets :: "('s \<Rightarrow> 'a) \<Rightarrow> ('s, 'a) op" where
  "gets f s = (Inr (f s), s)"

definition modify :: "('s \<Rightarrow> 's) \<Rightarrow> ('s, unit) op" where
  "modify f s = (Inr (), f s)"

definition ensure :: "bool \<Rightarrow> exn \<Rightarrow> ('s, unit) op" where
  "ensure b e = (if b then ret () else raise e)"

fun require_some :: "exn \<Rightarrow> 'a option \<Rightarrow> ('s, 'a) op" where
  "require_some e None = raise e"
| "require_some e (Some x) = ret x"

fun for_each :: "('a \<Rightarrow> ('s, unit) op) \<Rightarrow> 'a list \<Rightarrow> ('s, unit) op" where
  "for_each f [] = ret ()"
| "for_each f (x # xs) = andThen (f x) (\<lambda>_. for_each f xs)"

fun map_op :: "('a \<Rightarrow> ('s, 'b) op) \<Rightarrow> 'a list \<Rightarrow> ('s, 'b list) op" where
  "map_op f [] = ret []"
| "map_op f (x # xs) = andThen (f x) (\<lambda>y. andThen (map_op f xs) (\<lambda>ys. ret (y # ys)))"

text \<open>
  The request boundary (\<^verbatim>\<open>get_db\<close>): commit when the handler returns, roll back every database
  change when it raises.
\<close>

definition transact :: "('s, 'a) op \<Rightarrow> ('s, 'a) op" where
  "transact m s = (case m s of (Inl e, s') \<Rightarrow> (Inl e, s) | (Inr x, s') \<Rightarrow> (Inr x, s'))"

lemma ret_eq [op_simps]: "ret x s = (r, s') \<longleftrightarrow> r = Inr x \<and> s' = s"
  by (auto simp: ret_def)

lemma raise_eq [op_simps]: "raise e s = (r, s') \<longleftrightarrow> r = Inl e \<and> s' = s"
  by (auto simp: raise_def)

lemma gets_eq [op_simps]: "gets f s = (r, s') \<longleftrightarrow> r = Inr (f s) \<and> s' = s"
  by (auto simp: gets_def)

lemma modify_eq [op_simps]: "modify f s = (r, s') \<longleftrightarrow> r = Inr () \<and> s' = f s"
  by (auto simp: modify_def)

lemma ensure_Inr [op_simps]: "ensure b e s = (Inr u, s') \<longleftrightarrow> b \<and> s' = s"
  by (auto simp: ensure_def ret_def raise_def)

lemma ensure_Inl [op_simps]: "ensure b e s = (Inl x, s') \<longleftrightarrow> \<not> b \<and> x = e \<and> s' = s"
  by (auto simp: ensure_def ret_def raise_def)

lemma require_some_Inr [op_simps]:
  "require_some e v s = (Inr x, s') \<longleftrightarrow> v = Some x \<and> s' = s"
  by (cases v) (auto simp: op_simps)

lemma require_some_Inl [op_simps]:
  "require_some e v s = (Inl x, s') \<longleftrightarrow> v = None \<and> x = e \<and> s' = s"
  by (cases v) (auto simp: op_simps)

lemma andThen_Inr [op_simps]:
  "andThen m f s = (Inr y, s'') \<longleftrightarrow> (\<exists>x s'. m s = (Inr x, s') \<and> f x s' = (Inr y, s''))"
  by (auto simp: andThen_def split: prod.splits sum.splits)

lemma andThen_Inl [op_simps]:
  "andThen m f s = (Inl e, s'') \<longleftrightarrow>
     m s = (Inl e, s'') \<or> (\<exists>x s'. m s = (Inr x, s') \<and> f x s' = (Inl e, s''))"
  by (auto simp: andThen_def split: prod.splits sum.splits)

lemma transact_Inr [op_simps]: "transact m s = (Inr x, s') \<longleftrightarrow> m s = (Inr x, s')"
  by (auto simp: transact_def split: prod.splits sum.splits)

lemma transact_Inl [op_simps]: "transact m s = (Inl e, s') \<longleftrightarrow> (\<exists>t. m s = (Inl e, t)) \<and> s' = s"
  by (auto simp: transact_def split: prod.splits sum.splits)

text \<open>A pure computation that may raise.\<close>

definition lift_result :: "exn + 'a \<Rightarrow> ('s, 'a) op" where
  "lift_result r = (case r of Inl e \<Rightarrow> raise e | Inr x \<Rightarrow> ret x)"

lemma lift_result_eq [op_simps]: "lift_result r s = (q, s') \<longleftrightarrow> q = r \<and> s' = s"
  by (cases r) (auto simp: lift_result_def op_simps)

lemma lift_Inr: "lift_result r s = (Inr x, t) \<longleftrightarrow> r = Inr x \<and> t = s"
  by (cases r) (auto simp: lift_result_def op_simps)

text \<open>Direct evaluation of an operation on a known state.\<close>

lemmas op_eval = ret_def raise_def andThen_def gets_def modify_def ensure_def transact_def

lemma for_each_append:
  "for_each f (xs @ ys) = andThen (for_each f xs) (\<lambda>_. for_each f ys)"
  by (induction xs)
    (auto simp: fun_eq_iff andThen_def ret_def split: prod.splits sum.splits)

text \<open>A finished run split into its result and its state.\<close>

lemma run_split: "\<not> isl (fst x) \<Longrightarrow> x = (Inr (case fst x of Inr y \<Rightarrow> y), snd x)"
  by (cases x; cases "fst x") auto

text \<open>A loop keeps what each of its steps keeps.\<close>

lemma for_each_invariant:
  assumes "for_each f xs s = (Inr u, s')"
    and "\<And>x a b. x \<in> set xs \<Longrightarrow> P a \<Longrightarrow> f x a = (Inr (), b) \<Longrightarrow> P b"
    and "P s"
  shows "P s'"
  using assms
proof (induction xs arbitrary: s)
  case Nil
  then show ?case by (simp add: op_simps)
next
  case (Cons x xs)
  then obtain t where "f x s = (Inr (), t)" "for_each f xs t = (Inr u, s')"
    by (auto simp: op_simps)
  with Cons show ?case by (metis list.set_intros(1,2))
qed

lemma map_op_Inr_list_all2:
  assumes "map_op f xs s = (Inr ys, s')"
    and "\<And>x y a b. x \<in> set xs \<Longrightarrow> f x a = (Inr y, b) \<Longrightarrow> b = a \<and> R x y"
  shows "s' = s \<and> list_all2 R xs ys"
  using assms
proof (induction xs arbitrary: ys)
  case Nil
  then show ?case by (simp add: op_simps)
next
  case (Cons x xs)
  then obtain y t zs where 1: "f x s = (Inr y, t)" "map_op f xs t = (Inr zs, s')" "ys = y # zs"
    by (auto simp: op_simps)
  with Cons.prems(2) have 2: "t = s" "R x y" by auto
  with 1 Cons show ?case by auto
qed

lemma map_op_length: "fst (map_op f xs s) = Inr ys \<Longrightarrow> length ys = length xs"
proof (induction xs arbitrary: s ys)
  case Nil
  then show ?case by (simp add: ret_def)
next
  case (Cons x xs)
  obtain r t where r: "map_op f (x # xs) s = (r, t)" by force
  with Cons.prems have "map_op f (x # xs) s = (Inr ys, t)" by simp
  then obtain y u zs where "map_op f xs u = (Inr zs, t)" "ys = y # zs" by (auto simp: op_simps)
  with Cons.IH [of u zs] show ?case by simp
qed

lemma map_op_ret: "(\<And>x. x \<in> set xs \<Longrightarrow> f x = ret (g x)) \<Longrightarrow> map_op f xs = ret (map g xs)"
  by (induction xs) (auto simp: fun_eq_iff op_eval)

lemma map_op_ret_id: "(\<And>x. x \<in> set xs \<Longrightarrow> f x = ret x) \<Longrightarrow> map_op f xs = ret xs"
  using map_op_ret [of xs f id] by simp

text \<open>
  An operation that keeps a predicate of the state however it ends. The rules follow the shape of
  the operation, so that \<open>intro keeps_intros\<close> reduces a handler to its primitive effects.
\<close>

definition keeps :: "('s \<Rightarrow> bool) \<Rightarrow> ('s, 'a) op \<Rightarrow> bool" where
  "keeps P m \<longleftrightarrow> (\<forall>s. P s \<longrightarrow> P (snd (m s)))"

named_theorems keeps_intros

lemma keepsD: "keeps P m \<Longrightarrow> P s \<Longrightarrow> m s = (r, s') \<Longrightarrow> P s'"
  by (auto simp: keeps_def dest!: spec [of _ s])

lemma keeps_ret [keeps_intros]: "keeps P (ret x)"
  by (simp add: keeps_def ret_def)

lemma keeps_raise [keeps_intros]: "keeps P (raise e)"
  by (simp add: keeps_def raise_def)

lemma keeps_gets [keeps_intros]: "keeps P (gets f)"
  by (simp add: keeps_def gets_def)

lemma keeps_ensure [keeps_intros]: "keeps P (ensure b e)"
  by (simp add: keeps_def ensure_def ret_def raise_def)

lemma keeps_require [keeps_intros]: "keeps P (require_some e v)"
  by (cases v) (simp_all add: keeps_def ret_def raise_def)

lemma keeps_lift [keeps_intros]: "keeps P (lift_result v)"
  by (cases v) (simp_all add: keeps_def lift_result_def ret_def raise_def)

lemma keeps_andThen [keeps_intros]:
  "keeps P m \<Longrightarrow> (\<And>x. keeps P (f x)) \<Longrightarrow> keeps P (andThen m f)"
  by (auto simp: keeps_def andThen_def split: prod.splits sum.splits)

lemma keeps_if [keeps_intros]:
  "(b \<Longrightarrow> keeps P m) \<Longrightarrow> (\<not> b \<Longrightarrow> keeps P n) \<Longrightarrow> keeps P (if b then m else n)"
  by simp

lemma keeps_option [keeps_intros]:
  "(v = None \<Longrightarrow> keeps P m) \<Longrightarrow> (\<And>x. v = Some x \<Longrightarrow> keeps P (f x)) \<Longrightarrow>
   keeps P (case v of None \<Rightarrow> m | Some x \<Rightarrow> f x)"
  by (cases v) simp_all

section \<open>Rows with a primary key\<close>

text \<open>
  A table is the list of its rows in insertion order; \<open>find_row\<close> is the select by primary key,
  \<open>upd_row\<close> writes the row with that key.
\<close>

definition find_row :: "('r \<Rightarrow> 'k) \<Rightarrow> 'k \<Rightarrow> 'r list \<Rightarrow> 'r option" where
  "find_row key i rows = find (\<lambda>r. key r = i) rows"

definition upd_row :: "('r \<Rightarrow> 'k) \<Rightarrow> 'k \<Rightarrow> ('r \<Rightarrow> 'r) \<Rightarrow> 'r list \<Rightarrow> 'r list" where
  "upd_row key i f rows = map (\<lambda>r. if key r = i then f r else r) rows"

definition unique_by :: "('r \<Rightarrow> 'k) \<Rightarrow> 'r list \<Rightarrow> bool" where
  "unique_by key rows \<longleftrightarrow> distinct (map key rows)"

named_theorems row_simps

lemma find_row_Nil [row_simps, simp]: "find_row key i [] = None"
  by (simp add: find_row_def)

lemma find_row_Cons [row_simps, simp]:
  "find_row key i (r # rs) = (if key r = i then Some r else find_row key i rs)"
  by (simp add: find_row_def)

lemma find_row_SomeD: "find_row key i rows = Some r \<Longrightarrow> r \<in> set rows \<and> key r = i"
  by (induction rows) (auto split: if_splits)

lemma find_row_None_iff: "find_row key i rows = None \<longleftrightarrow> i \<notin> key ` set rows"
  by (induction rows) auto

lemma find_row_append [row_simps]:
  "find_row key i (rs @ qs) = (case find_row key i rs of None \<Rightarrow> find_row key i qs | Some r \<Rightarrow> Some r)"
  by (induction rs) auto

lemma find_row_unique:
  "unique_by key rows \<Longrightarrow> r \<in> set rows \<Longrightarrow> find_row key (key r) rows = Some r"
  by (induction rows) (auto simp: unique_by_def rev_image_eqI)

lemma unique_row:
  "unique_by key rows \<Longrightarrow> find_row key i rows = Some r \<Longrightarrow> q \<in> set rows \<Longrightarrow> key q = i \<Longrightarrow> q = r"
  using find_row_unique by fastforce

lemma unique_key: "unique_by key rows \<Longrightarrow> q \<in> set rows \<Longrightarrow> r \<in> set rows \<Longrightarrow> key q = key r \<Longrightarrow> q = r"
  by (auto simp: unique_by_def distinct_map inj_on_def)

lemma upd_row_Nil [row_simps, simp]: "upd_row key i f [] = []"
  by (simp add: upd_row_def)

lemma upd_row_Cons [row_simps, simp]:
  "upd_row key i f (r # rs) = (if key r = i then f r else r) # upd_row key i f rs"
  by (simp add: upd_row_def)

lemma keys_upd_row [row_simps, simp]:
  "(\<And>r. key (f r) = key r) \<Longrightarrow> map key (upd_row key i f rows) = map key rows"
  by (induction rows) auto

lemma key_set_upd_row [row_simps]:
  "(\<And>r. key (f r) = key r) \<Longrightarrow> key ` set (upd_row key i f rows) = key ` set rows"
  by (induction rows) auto

lemma unique_upd_row [row_simps]:
  "(\<And>r. key (f r) = key r) \<Longrightarrow> unique_by key (upd_row key i f rows) = unique_by key rows"
  by (simp add: unique_by_def)

lemma find_upd_row [row_simps]:
  "(\<And>r. key (f r) = key r) \<Longrightarrow>
   find_row key j (upd_row key i f rows) =
     (if j = i then map_option f (find_row key j rows) else find_row key j rows)"
  by (induction rows) auto

lemma set_upd_row:
  "r \<in> set (upd_row key i f rows) \<Longrightarrow>
   \<exists>q \<in> set rows. (key q = i \<and> r = f q) \<or> (key q \<noteq> i \<and> r = q)"
  by (induction rows) (auto split: if_splits)

lemma upd_row_mem: "r \<in> set rows \<Longrightarrow> (if key r = i then f r else r) \<in> set (upd_row key i f rows)"
  by (induction rows) auto

lemma upd_row_absent: "i \<notin> key ` set rows \<Longrightarrow> upd_row key i f rows = rows"
  by (induction rows) auto

lemma sum_upd_row:
  fixes g :: "'r \<Rightarrow> int"
  assumes "unique_by key rows" "find_row key i rows = Some r"
  shows "sum_list (map g (upd_row key i f rows)) = sum_list (map g rows) - g r + g (f r)"
  using assms
proof (induction rows)
  case (Cons q qs)
  show ?case
  proof (cases "key q = i")
    case True
    with Cons.prems(1) have "i \<notin> key ` set qs" by (auto simp: unique_by_def)
    with True Cons.prems(2) show ?thesis by (simp add: upd_row_absent)
  next
    case False
    with Cons show ?thesis by (simp add: unique_by_def)
  qed
qed simp

section \<open>Patches\<close>

text \<open>
  One field of a partial update as pydantic reports it under \<^verbatim>\<open>model_dump(exclude_unset=True)\<close>:
  not sent, sent as \<^verbatim>\<open>null\<close>, or sent with a value.
\<close>

datatype 'a patch = Unset | Null | Val 'a

fun patch_opt :: "'a patch \<Rightarrow> 'a option \<Rightarrow> 'a option" where
  "patch_opt Unset old = old"
| "patch_opt Null old = None"
| "patch_opt (Val v) old = Some v"

fun patch_val :: "'a patch \<Rightarrow> 'a \<Rightarrow> 'a" where
  "patch_val (Val v) old = v"
| "patch_val p old = old"

fun is_null :: "'a patch \<Rightarrow> bool" where
  "is_null Null = True"
| "is_null p = False"

fun patch_all :: "('a \<Rightarrow> bool) \<Rightarrow> 'a patch \<Rightarrow> bool" where
  "patch_all P (Val v) = P v"
| "patch_all P p = True"

text \<open>The value of a field the validators see: unset and null both read as \<^verbatim>\<open>None\<close>.\<close>

fun patch_seen :: "'a patch \<Rightarrow> 'a option" where
  "patch_seen (Val v) = Some v"
| "patch_seen p = None"

section \<open>Paging\<close>

text \<open>The page metadata every list endpoint computes from \<open>skip\<close>, \<open>limit\<close> and the total.\<close>

record 'a page =
  pg_items :: "'a list"
  pg_total :: nat
  pg_page :: nat
  pg_limit :: nat
  pg_has_more :: bool

definition slice :: "nat \<Rightarrow> nat \<Rightarrow> 'a list \<Rightarrow> 'a list" where
  "slice skip limit xs = take limit (drop skip xs)"

definition make_page :: "nat \<Rightarrow> nat \<Rightarrow> 'a list \<Rightarrow> nat \<Rightarrow> 'a page" where
  "make_page skip limit items tot =
     \<lparr>pg_items = items, pg_total = tot, pg_page = skip div limit + 1, pg_limit = limit,
      pg_has_more = (skip + length items < tot)\<rparr>"

lemma distinct_sort_key: "distinct (map f (sort_key k xs)) \<longleftrightarrow> distinct (map f xs)"
  by (simp add: distinct_map)

lemma length_slice [simp]: "length (slice s l xs) = min l (length xs - s)"
  by (simp add: slice_def)

lemma slice_next: "slice s l xs @ slice (s + l) m xs = slice s (l + m) xs"
  by (simp add: slice_def take_add drop_drop add.commute)

text \<open>Consecutive pages put together are the list up to the end of the last page.\<close>

lemma concat_slices: "concat (map (\<lambda>k. slice (k * l) l xs) [0..<n]) = take (n * l) xs"
proof (induction n)
  case (Suc n)
  have "take (Suc n * l) xs = slice 0 (n * l + l) xs" by (simp add: slice_def add.commute)
  also have "\<dots> = take (n * l) xs @ slice (n * l) l xs"
    by (subst slice_next [symmetric]) (simp add: slice_def)
  finally show ?case using Suc by simp
qed simp

lemma set_slice_subset: "set (slice s l xs) \<subseteq> set xs"
  by (auto simp: slice_def dest: in_set_takeD in_set_dropD)

end
