(* ===== verification/PyText.thy ===== *)
theory PyText
  imports Prelude
begin

text \<open>
  The text handling the services rely on: Python's \<open>strip\<close>, \<open>upper\<close>, \<open>lower\<close> and \<open>replace\<close> on
  strings, the validators of \<^verbatim>\<open>core/input_validation.py\<close> and of the coupon and product schemas,
  the daily order numbers of \<^verbatim>\<open>OrderRepository._next_order_number\<close>, and the calendar date they
  carry. A string is a list of characters with code points below 256; the code inspects only
  ASCII characters of the strings modelled here, and case folding is modelled on ASCII letters.
\<close>

section \<open>Python string methods\<close>

definition code_point :: "char \<Rightarrow> nat" where
  "code_point c = of_char c"

definition py_isspace :: "char \<Rightarrow> bool" where
  "py_isspace c = (let n = code_point c in
     9 \<le> n \<and> n \<le> 13 \<or> 28 \<le> n \<and> n \<le> 32 \<or> n = 133 \<or> n = 160)"

definition py_strip :: "string \<Rightarrow> string" where
  "py_strip s = rev (dropWhile py_isspace (rev (dropWhile py_isspace s)))"

definition rstrip_char :: "char \<Rightarrow> string \<Rightarrow> string" where
  "rstrip_char c s = rev (dropWhile (\<lambda>d. d = c) (rev s))"

definition ascii_upper :: "char \<Rightarrow> char" where
  "ascii_upper c = (if 97 \<le> code_point c \<and> code_point c \<le> 122
                    then char_of (code_point c - 32) else c)"

definition ascii_lower :: "char \<Rightarrow> char" where
  "ascii_lower c = (if 65 \<le> code_point c \<and> code_point c \<le> 90
                    then char_of (code_point c + 32) else c)"

definition py_upper :: "string \<Rightarrow> string" where
  "py_upper s = map ascii_upper s"

definition py_lower :: "string \<Rightarrow> string" where
  "py_lower s = map ascii_lower s"

definition py_remove :: "char \<Rightarrow> string \<Rightarrow> string" where
  "py_remove c s = filter (\<lambda>d. d \<noteq> c) s"

definition is_digit :: "char \<Rightarrow> bool" where
  "is_digit c \<longleftrightarrow> 48 \<le> code_point c \<and> code_point c \<le> 57"

definition is_upper_letter :: "char \<Rightarrow> bool" where
  "is_upper_letter c \<longleftrightarrow> 65 \<le> code_point c \<and> code_point c \<le> 90"

text \<open>Python's truth value of an optional string: \<^verbatim>\<open>None\<close> and the empty string are false.\<close>

definition truthy :: "string option \<Rightarrow> bool" where
  "truthy s \<longleftrightarrow> s \<noteq> None \<and> s \<noteq> Some []"

lemma truthy_simps [simp]: "\<not> truthy None" "truthy (Some s) \<longleftrightarrow> s \<noteq> []"
  by (auto simp: truthy_def)

lemma dropWhile_id: "(\<And>c. c \<in> set s \<Longrightarrow> \<not> P c) \<Longrightarrow> dropWhile P s = s"
  by (cases s) auto

lemma py_strip_id: "\<forall>c\<in>set s. \<not> py_isspace c \<Longrightarrow> py_strip s = s"
  unfolding py_strip_def by (subst dropWhile_id, simp, subst dropWhile_id, simp_all)

lemma py_remove_id: "c \<notin> set s \<Longrightarrow> py_remove c s = s"
  unfolding py_remove_def by (rule filter_True) auto

lemma digit_not_space: "is_digit c \<Longrightarrow> \<not> py_isspace c"
  by (auto simp: is_digit_def py_isspace_def Let_def)

section \<open>Vietnamese phone numbers\<close>

text \<open>
  \<^verbatim>\<open>^(\+84[35789][0-9]{8}|0[35789][0-9]{8})$\<close>. The subject has been stripped, so the newline
  that Python's \<^verbatim>\<open>$\<close> would tolerate at its end cannot be there.
\<close>

fun phone_body :: "string \<Rightarrow> bool" where
  "phone_body [] = False"
| "phone_body (c # ds) = (c \<in> set ''35789'' \<and> length ds = 8 \<and> list_all is_digit ds)"

definition phone_pattern :: "string \<Rightarrow> bool" where
  "phone_pattern s \<longleftrightarrow>
     (take 3 s = ''+84'' \<and> phone_body (drop 3 s)) \<or> (take 1 s = ''0'' \<and> phone_body (drop 1 s))"

definition validate_phone :: "string \<Rightarrow> exn + string" where
  "validate_phone value =
     (let normalized = py_remove (CHR ''-'') (py_remove (CHR '' '') (py_strip value)) in
      if \<not> phone_pattern normalized then Inl (PyError ''ValueError'')
      else if take 1 normalized = ''0'' then Inr (''+84'' @ drop 1 normalized)
      else Inr normalized)"

definition canonical_phone :: "string \<Rightarrow> bool" where
  "canonical_phone p \<longleftrightarrow> take 3 p = ''+84'' \<and> phone_body (drop 3 p)"

text \<open>The field validator of the schemas: an absent or empty phone stays absent.\<close>

definition validate_phone_field :: "string option \<Rightarrow> exn + string option" where
  "validate_phone_field v =
     (case v of None \<Rightarrow> Inr None
      | Some s \<Rightarrow> if s = [] then Inr None
                  else (case validate_phone s of Inl e \<Rightarrow> Inl e | Inr p \<Rightarrow> Inr (Some p)))"

lemma take_drop_split: "take n s = xs \<Longrightarrow> s = xs @ drop n s"
  by (metis append_take_drop_id)

lemma canonical_phoneD: "canonical_phone p \<Longrightarrow> \<exists>b. p = ''+84'' @ b \<and> phone_body b"
  unfolding canonical_phone_def using take_drop_split by metis

lemma canonical_phoneI: "phone_body b \<Longrightarrow> canonical_phone (''+84'' @ b)"
  by (simp add: canonical_phone_def)

lemma phone_body_chars:
  assumes "phone_body b" shows "list_all is_digit b"
proof (cases b)
  case (Cons c ds)
  with assms have "c \<in> set ''35789''" "list_all is_digit ds" by auto
  moreover from this(1) have "is_digit c" by (auto simp: is_digit_def code_point_def)
  ultimately show ?thesis using Cons by simp
qed (use assms in simp)

lemma digit_plain: "is_digit c \<Longrightarrow> c \<noteq> CHR '' '' \<and> c \<noteq> CHR ''-''"
  by (auto simp: is_digit_def code_point_def)

lemma plus_plain: "\<not> py_isspace (CHR ''+'')"
  by (simp add: py_isspace_def code_point_def)

lemma phone_chars_kept:
  assumes "list_all is_digit b" and "set p \<subseteq> {CHR ''+'', CHR ''0'', CHR ''8'', CHR ''4''}"
  shows "py_remove (CHR ''-'') (py_remove (CHR '' '') (py_strip (p @ b))) = p @ b"
proof -
  have d: "is_digit (CHR ''0'')" "is_digit (CHR ''8'')" "is_digit (CHR ''4'')"
    by (simp_all add: is_digit_def code_point_def)
  have ok: "c = CHR ''+'' \<or> is_digit c" if "c \<in> set (p @ b)" for c
    using that assms d by (auto simp: list_all_iff)
  then have ns: "\<forall>c\<in>set (p @ b). \<not> py_isspace c"
    using digit_not_space plus_plain by blast
  have "CHR '' '' \<notin> set (p @ b)" "CHR ''-'' \<notin> set (p @ b)"
    using ok digit_plain by fastforce+
  with py_strip_id [OF ns] show ?thesis by (metis py_remove_id)
qed

lemma two_prefixes: "take 3 s = ''+84'' \<Longrightarrow> take (Suc 0) s \<noteq> ''0''"
  by (cases s) auto

lemma validate_phone_canonical: "validate_phone s = Inr p \<Longrightarrow> canonical_phone p"
  by (auto simp: validate_phone_def phone_pattern_def canonical_phone_def Let_def
           dest: two_prefixes split: if_splits)

lemma validate_phone_intl: "phone_body b \<Longrightarrow> validate_phone (''+84'' @ b) = Inr (''+84'' @ b)"
  using phone_chars_kept [of b "''+84''"] phone_body_chars [of b]
  by (simp add: validate_phone_def phone_pattern_def)

lemma validate_phone_local: "phone_body b \<Longrightarrow> validate_phone (''0'' @ b) = Inr (''+84'' @ b)"
  using phone_chars_kept [of b "''0''"] phone_body_chars [of b]
  by (simp add: validate_phone_def phone_pattern_def)

lemma validate_phone_idem: "validate_phone s = Inr p \<Longrightarrow> validate_phone p = Inr p"
  using validate_phone_canonical canonical_phoneD validate_phone_intl by metis

lemma validate_phone_field_idem:
  "validate_phone_field v = Inr w \<Longrightarrow> validate_phone_field w = Inr w"
proof -
  assume a: "validate_phone_field v = Inr w"
  show "validate_phone_field w = Inr w"
  proof (cases w)
    case (Some p)
    with a obtain s where "validate_phone s = Inr p"
      by (auto simp: validate_phone_field_def split: option.splits if_splits sum.splits)
    then have "validate_phone p = Inr p" "p \<noteq> []"
      using validate_phone_idem validate_phone_canonical canonical_phoneD by fastforce+
    with Some show ?thesis by (simp add: validate_phone_field_def)
  qed (simp add: validate_phone_field_def)
qed

section \<open>Tax codes, coupon codes and SKUs\<close>

definition tax_code_pattern :: "string \<Rightarrow> bool" where
  "tax_code_pattern s \<longleftrightarrow>
     list_all is_digit (take 10 s) \<and>
     (length s = 10 \<or>
      length s = 14 \<and> s ! 10 = CHR ''-'' \<and> list_all is_digit (drop 11 s))"

definition validate_tax_code :: "string \<Rightarrow> exn + string" where
  "validate_tax_code value =
     (let normalized = py_strip value in
      if tax_code_pattern normalized then Inr normalized else Inl (PyError ''ValueError''))"

definition code_char :: "char \<Rightarrow> bool" where
  "code_char c \<longleftrightarrow> is_upper_letter c \<or> is_digit c \<or> c = CHR ''-''"

definition normalize_coupon_code :: "string \<Rightarrow> exn + string" where
  "normalize_coupon_code value =
     (let normalized = py_strip (py_upper value) in
      if list_all code_char normalized \<and> 3 \<le> length normalized \<and> length normalized \<le> 50
      then Inr normalized else Inl (PyError ''ValueError''))"

definition normalize_sku :: "string \<Rightarrow> exn + string" where
  "normalize_sku value =
     (let normalized = py_strip (py_upper value) in
      if normalized \<noteq> [] \<and> list_all code_char normalized
      then Inr normalized else Inl (PyError ''ValueError''))"

lemma code_char_upper [simp]: "code_char c \<Longrightarrow> ascii_upper c = c"
  by (auto simp: code_char_def is_upper_letter_def is_digit_def ascii_upper_def code_point_def)

lemma code_char_not_space: "code_char c \<Longrightarrow> \<not> py_isspace c"
  by (auto simp: code_char_def is_upper_letter_def is_digit_def py_isspace_def code_point_def Let_def)

lemma code_text_fixed: "list_all code_char s \<Longrightarrow> py_strip (py_upper s) = s"
proof -
  assume a: "list_all code_char s"
  then have "py_upper s = s"
    unfolding py_upper_def by (induction s) auto
  with a show ?thesis by (simp add: py_strip_id code_char_not_space list_all_iff)
qed

lemma normalize_coupon_code_idem:
  "normalize_coupon_code s = Inr c \<Longrightarrow> normalize_coupon_code c = Inr c"
  by (auto simp: normalize_coupon_code_def Let_def code_text_fixed split: if_splits)

lemma normalize_sku_idem: "normalize_sku s = Inr c \<Longrightarrow> normalize_sku c = Inr c"
  by (auto simp: normalize_sku_def Let_def code_text_fixed split: if_splits)

section \<open>Decimal numerals\<close>

definition digit_char :: "nat \<Rightarrow> char" where
  "digit_char d = char_of (48 + d)"

definition digit_val :: "char \<Rightarrow> nat" where
  "digit_val c = code_point c - 48"

fun nat_digits :: "nat \<Rightarrow> string" where
  "nat_digits n = (if n < 10 then [digit_char n] else nat_digits (n div 10) @ [digit_char (n mod 10)])"

declare nat_digits.simps [simp del]

definition parse_nat :: "string \<Rightarrow> nat" where
  "parse_nat s = foldl (\<lambda>n c. 10 * n + digit_val c) 0 s"

text \<open>The format \<^verbatim>\<open>f"{n:0{width}d}"\<close>.\<close>

definition zero_pad :: "nat \<Rightarrow> nat \<Rightarrow> string" where
  "zero_pad width n = (let ds = nat_digits n in replicate (width - length ds) (CHR ''0'') @ ds)"

lemma digit_val_char [simp]: "d < 10 \<Longrightarrow> digit_val (digit_char d) = d"
  by (simp add: digit_val_def digit_char_def code_point_def)

lemma is_digit_char [simp]: "d < 10 \<Longrightarrow> is_digit (digit_char d)"
  by (simp add: is_digit_def digit_char_def code_point_def)

lemma nat_digits_not_Nil [simp]: "nat_digits n \<noteq> []"
  by (subst nat_digits.simps) simp

lemma nat_digits_all: "list_all is_digit (nat_digits n)"
proof (induction n rule: nat_digits.induct)
  case (1 n)
  then show ?case by (subst nat_digits.simps) simp
qed

lemma parse_nat_snoc: "parse_nat (s @ [c]) = 10 * parse_nat s + digit_val c"
  by (simp add: parse_nat_def)

lemma parse_nat_digits: "parse_nat (nat_digits n) = n"
proof (induction n rule: nat_digits.induct)
  case (1 n)
  show ?case
  proof (cases "n < 10")
    case True
    then show ?thesis by (subst nat_digits.simps) (simp add: parse_nat_def)
  next
    case False
    with 1 show ?thesis by (subst nat_digits.simps) (simp add: parse_nat_snoc)
  qed
qed

lemma parse_zero_prefix: "parse_nat (replicate k (CHR ''0'') @ s) = parse_nat s"
  by (induction k) (simp_all add: parse_nat_def digit_val_def code_point_def)

lemma parse_zero_pad [simp]: "parse_nat (zero_pad w n) = n"
  by (simp add: zero_pad_def Let_def parse_zero_prefix parse_nat_digits)

lemma zero_pad_all: "list_all is_digit (zero_pad w n)"
  by (auto simp: zero_pad_def Let_def nat_digits_all list_all_iff is_digit_def code_point_def
           dest!: nat_digits_all [THEN list_all_iff [THEN iffD1], THEN bspec])

lemma zero_pad_not_Nil [simp]: "zero_pad w n \<noteq> []"
  by (simp add: zero_pad_def Let_def)

section \<open>Calendar dates\<close>

text \<open>
  \<^verbatim>\<open>strftime("%Y%m%d")\<close> of an instant in UTC, by the proleptic Gregorian calendar of
  \<^verbatim>\<open>datetime\<close>; the epoch is 1970-01-01.
\<close>

definition civil_date :: "time \<Rightarrow> int \<times> int \<times> int" where
  "civil_date t =
     (let z = t div 86400000000 + 719468;
          era = z div 146097;
          doe = z - era * 146097;
          yoe = (doe - doe div 1460 + doe div 36524 - doe div 146096) div 365;
          doy = doe - (365 * yoe + yoe div 4 - yoe div 100);
          mp = (5 * doy + 2) div 153;
          d = doy - (153 * mp + 2) div 5 + 1;
          m = (if mp < 10 then mp + 3 else mp - 9);
          y = yoe + era * 400 + (if m \<le> 2 then 1 else 0)
      in (y, m, d))"

definition ymd :: "time \<Rightarrow> string" where
  "ymd t = (case civil_date t of (y, m, d) \<Rightarrow>
     zero_pad 4 (nat y) @ zero_pad 2 (nat m) @ zero_pad 2 (nat d))"

section \<open>Daily numbers\<close>

text \<open>
  \<^verbatim>\<open>f"{PREFIX}-{today}-{counter:03d}"\<close> and the query that finds the last counter of the day:
  the rows matching \<^verbatim>\<open>^PREFIX-today-[0-9]+$\<close>, the maximum of \<^verbatim>\<open>SUBSTRING(number FROM 13)\<close> read as
  an integer (0 without a row), plus one.
\<close>

definition number_prefix :: "string \<Rightarrow> string \<Rightarrow> string" where
  "number_prefix pre today = pre @ ''-'' @ today @ ''-''"

definition format_number :: "string \<Rightarrow> string \<Rightarrow> nat \<Rightarrow> string" where
  "format_number pre today counter = number_prefix pre today @ zero_pad 3 counter"

definition matches_day :: "string \<Rightarrow> string \<Rightarrow> string \<Rightarrow> bool" where
  "matches_day pre today number \<longleftrightarrow>
     (let p = number_prefix pre today; rest = drop (length p) number in
      take (length p) number = p \<and> rest \<noteq> [] \<and> list_all is_digit rest)"

definition next_counter :: "string \<Rightarrow> string \<Rightarrow> string list \<Rightarrow> nat" where
  "next_counter pre today numbers =
     foldr max (map (\<lambda>n. parse_nat (drop 12 n)) (filter (matches_day pre today) numbers)) 0 + 1"

definition next_number :: "string \<Rightarrow> string \<Rightarrow> string list \<Rightarrow> string" where
  "next_number pre today numbers = format_number pre today (next_counter pre today numbers)"

lemma foldr_max_ge: "x \<in> set xs \<Longrightarrow> x \<le> foldr max xs (0::nat)"
  by (induction xs) auto

lemma format_number_matches: "matches_day pre today (format_number pre today n)"
  by (simp add: matches_day_def format_number_def Let_def zero_pad_all)

lemma format_number_counter:
  assumes "length pre = 2" "length today = 8"
  shows "parse_nat (drop 12 (format_number pre today n)) = n"
proof -
  have "length (number_prefix pre today) = 12"
    using assms by (simp add: number_prefix_def)
  then have "drop 12 (format_number pre today n) = zero_pad 3 n"
    by (simp add: format_number_def)
  then show ?thesis by simp
qed

lemma next_number_fresh:
  assumes "length pre = 2" "length today = 8"
  shows "next_number pre today numbers \<notin> set numbers"
proof
  let ?c = "next_counter pre today numbers"
  assume a: "next_number pre today numbers \<in> set numbers"
  then have "?c \<in> set (map (\<lambda>n. parse_nat (drop 12 n)) (filter (matches_day pre today) numbers))"
    using format_number_matches [of pre today ?c] format_number_counter [OF assms, of ?c]
    by (force simp: next_number_def)
  then have "?c < ?c"
    using foldr_max_ge unfolding next_counter_def by fastforce
  then show False by simp
qed

end
