(* ===== verification/Database.thy ===== *)
theory Database
  imports PyText
begin

text \<open>
  The rows of the shop's tables (\<^verbatim>\<open>src/backend/app/models/\<close>) and the database as the list of
  rows of every table. Enumerated text columns carry the \<^verbatim>\<open>CHECK ... IN\<close> constraints of the
  migrations and the \<^verbatim>\<open>Literal\<close> types of the schemas, so they are datatypes. Order lines and
  delivery lines are kept inside their parent row, as the \<^verbatim>\<open>delete-orphan\<close> relationships do.
  The column \<^verbatim>\<open>updated_at\<close> is written by a database trigger and read by no operation
  modelled here; it is left out.
\<close>

section \<open>Users\<close>

datatype role = Customer | Staff | Admin | Driver

record user =
  u_id :: uuid
  u_email :: "string option"
  u_email_verified :: bool
  u_hashed_password :: "string option"
  u_full_name :: "string option"
  u_phone :: "string option"
  u_address :: "string option"
  u_delivery_ward :: "string option"
  u_delivery_city :: "string option"
  u_delivery_notes :: "string option"
  u_role :: role
  u_is_active :: bool
  u_created_at :: time

definition is_admin :: "user \<Rightarrow> bool" where
  "is_admin u \<longleftrightarrow> u_role u = Admin"

definition is_staff :: "user \<Rightarrow> bool" where
  "is_staff u \<longleftrightarrow> u_role u = Staff \<or> u_role u = Admin"

definition is_customer :: "user \<Rightarrow> bool" where
  "is_customer u \<longleftrightarrow> u_role u = Customer"

definition is_driver :: "user \<Rightarrow> bool" where
  "is_driver u \<longleftrightarrow> u_role u = Driver \<or> u_role u = Admin"

lemma admin_is_staff: "is_admin u \<Longrightarrow> is_staff u"
  by (simp add: is_admin_def is_staff_def)

section \<open>Products\<close>

datatype category = Gas | NuocUong

datatype unit_kind = Kg | Lit

record product_parent =
  pp_id :: uuid
  pp_name :: string
  pp_brand :: string
  pp_category :: category
  pp_description :: "string option"
  pp_long_description :: "string option"
  pp_image_url :: "string option"
  pp_is_active :: bool

record product =
  p_id :: uuid
  p_sku :: string
  p_name :: string
  p_brand :: string
  p_size_kg :: int
  p_category :: category
  p_unit :: unit_kind
  p_price :: money
  p_sale_price :: "money option"
  p_stock_quantity :: int
  p_description :: "string option"
  p_long_description :: "string option"
  p_image_url :: "string option"
  p_safety_info :: "string option"
  p_pricing_note :: "string option"
  p_is_active :: bool
  p_parent_id :: "uuid option"
  p_colour :: "string option"
  p_variant_label :: "string option"
  p_created_at :: time

section \<open>Coupons\<close>

datatype discount_type = Percent | Fixed

record coupon =
  c_id :: uuid
  c_code :: string
  c_discount_type :: discount_type
  c_value :: money
  c_min_order :: money
  c_max_discount :: "money option"
  c_usage_limit :: "int option"
  c_used_count :: int
  c_per_user_limit :: "int option"
  c_active :: bool
  c_starts_at :: "time option"
  c_ends_at :: "time option"
  c_created_at :: time

record redemption =
  r_id :: uuid
  r_coupon_id :: uuid
  r_user_id :: "uuid option"
  r_order_id :: "uuid option"
  r_created_at :: time

section \<open>Orders\<close>

datatype order_status = OPending | OConfirmed | OShipping | ODelivered | OCancelled

datatype payment_method = Cod | BankTransfer

datatype payment_status = PayPending | PayPaid | PayRefunded

datatype order_source = Website | Chatbot

record vat_info =
  vat_company_name :: string
  vat_tax_code :: string
  vat_address :: string

record einvoice =
  ei_provider :: string
  ei_status :: string
  ei_order_number :: "string option"
  ei_total_amount :: money
  ei_issued_at :: time

record order_item =
  oi_id :: uuid
  oi_product_id :: "uuid option"
  oi_product_name :: string
  oi_product_brand :: "string option"
  oi_product_size_kg :: "int option"
  oi_quantity :: int
  oi_unit_price :: money
  oi_subtotal :: money
  oi_is_exchange :: bool
  oi_created_at :: time

record order =
  o_id :: uuid
  o_order_number :: "string option"
  o_user_id :: "uuid option"
  o_customer_name :: string
  o_customer_phone :: string
  o_customer_email :: "string option"
  o_delivery_address :: string
  o_delivery_ward :: "string option"
  o_delivery_district :: "string option"
  o_delivery_city :: string
  o_delivery_notes :: "string option"
  o_different_recipient_name :: "string option"
  o_different_recipient_phone :: "string option"
  o_subtotal :: money
  o_shipping_fee :: money
  o_discount_amount :: money
  o_coupon_id :: "uuid option"
  o_coupon_code :: "string option"
  o_total_amount :: money
  o_vat_invoice_requested :: bool
  o_vat_info :: "vat_info option"
  o_einvoice :: "einvoice option"
  o_payment_method :: payment_method
  o_payment_status :: payment_status
  o_status :: order_status
  o_source :: order_source
  o_referral_conversation_id :: "uuid option"
  o_idempotency_key :: "uuid option"
  o_customer_notes :: "string option"
  o_internal_notes :: "string option"
  o_cancelled_at :: "time option"
  o_cancelled_reason :: "string option"
  o_delivered_at :: "time option"
  o_created_at :: time
  o_items :: "order_item list"

section \<open>Deliveries\<close>

datatype delivery_status = DPending | DShipping | DDelivered | DFailed | DCancelled

record delivery_item =
  di_id :: uuid
  di_order_item_id :: uuid
  di_quantity :: int
  di_created_at :: time

record delivery =
  d_id :: uuid
  d_order_id :: uuid
  d_code :: string
  d_status :: delivery_status
  d_driver_id :: "uuid option"
  d_scheduled_at :: "time option"
  d_delivered_at :: "time option"
  d_notes :: "string option"
  d_last_lat :: "int option"
  d_last_lng :: "int option"
  d_created_at :: time
  d_items :: "delivery_item list"

section \<open>Wishlists\<close>

record wish =
  w_user_id :: uuid
  w_product_id :: uuid
  w_created_at :: time

section \<open>The database\<close>

text \<open>
  \<open>next_id\<close> supplies the identifiers that \<^verbatim>\<open>uuid4\<close> draws: it is above every identifier in use,
  so a fresh identifier never collides.
\<close>

record db =
  users :: "user list"
  products :: "product list"
  parents :: "product_parent list"
  coupons :: "coupon list"
  redemptions :: "redemption list"
  orders :: "order list"
  deliveries :: "delivery list"
  wishes :: "wish list"
  next_id :: uuid

type_synonym 'a dbop = "(db, 'a) op"

definition fresh_id :: "uuid dbop" where
  "fresh_id s = (Inr (next_id s), s\<lparr>next_id := next_id s + 1\<rparr>)"

lemma fresh_id_eq [op_simps]:
  "fresh_id s = (r, s') \<longleftrightarrow> r = Inr (next_id s) \<and> s' = s\<lparr>next_id := next_id s + 1\<rparr>"
  by (auto simp: fresh_id_def)

definition empty_db :: db where
  "empty_db = \<lparr>users = [], products = [], parents = [], coupons = [], redemptions = [],
               orders = [], deliveries = [], wishes = [], next_id = 0\<rparr>"

end
