(* ===== verification/Products.thy ===== *)
theory Products
  imports Database "HOL-Library.List_Lexorder" "HOL-Library.Char_ord"
begin

text \<open>
  The catalog: the pricing rule (\<^verbatim>\<open>utils/pricing.py\<close>), the validators of
  \<^verbatim>\<open>schemas/product.py\<close>, \<^verbatim>\<open>ProductRepository\<close> and \<^verbatim>\<open>ProductService\<close>. The stock operations are
  offered to the order component through the locale \<open>stock_store\<close>.
\<close>

section \<open>Prices\<close>

definition effective_price :: "money \<Rightarrow> money option \<Rightarrow> money" where
  "effective_price price sale =
     (case sale of None \<Rightarrow> price
      | Some sp \<Rightarrow> if 0 < sp \<and> sp < price then sp else price)"

text \<open>\<open>(price - sale) / price * 100\<close> rounded half up to an integer.\<close>

definition discount_percent :: "money \<Rightarrow> money option \<Rightarrow> int option" where
  "discount_percent price sale =
     (case sale of None \<Rightarrow> None
      | Some sp \<Rightarrow> if 0 < sp \<and> sp < price
                   then Some ((200 * (price - sp) + price) div (2 * price)) else None)"

definition product_effective_price :: "product \<Rightarrow> money" where
  "product_effective_price p = effective_price (p_price p) (p_sale_price p)"

definition is_in_stock :: "product \<Rightarrow> bool" where
  "is_in_stock p \<longleftrightarrow> 0 < p_stock_quantity p"

definition is_low_stock :: "product \<Rightarrow> int \<Rightarrow> bool" where
  "is_low_stock p threshold \<longleftrightarrow> 0 < p_stock_quantity p \<and> p_stock_quantity p \<le> threshold"

lemma effective_price_le: "effective_price price sale \<le> price"
  by (simp add: effective_price_def split: option.splits)

lemma effective_price_pos: "0 < price \<Longrightarrow> 0 < effective_price price sale"
  by (simp add: effective_price_def split: option.splits)

lemma discount_percent_bounds:
  "discount_percent price sale = Some d \<Longrightarrow> 0 \<le> d \<and> d \<le> 100"
proof -
  assume "discount_percent price sale = Some d"
  then obtain sp where sp: "0 < sp" "sp < price" "d = (200 * (price - sp) + price) div (2 * price)"
    by (auto simp: discount_percent_def split: option.splits if_splits)
  then have p: "0 < 2 * price" by simp
  have "d \<le> (201 * price) div (2 * price)"
    unfolding sp(3) using sp(1,2) p by (intro zdiv_mono1) auto
  also have "\<dots> = 100" using p by simp
  finally have "d \<le> 100" .
  moreover have "0 \<le> d"
    unfolding sp(3) using sp(1,2) by (simp add: pos_imp_zdiv_nonneg_iff)
  ultimately show ?thesis by simp
qed

section \<open>Schema validation\<close>

definition allowed_sizes :: "int list" where
  "allowed_sizes = [600, 1200, 4500]"

definition gas_size_ok :: "int option \<Rightarrow> category \<Rightarrow> bool" where
  "gas_size_ok sz cat \<longleftrightarrow> (case sz of None \<Rightarrow> True | Some v \<Rightarrow> cat = Gas \<longrightarrow> v \<in> set allowed_sizes)"

definition sale_price_ok :: "money option \<Rightarrow> money option \<Rightarrow> bool" where
  "sale_price_ok sale price \<longleftrightarrow>
     (case sale of None \<Rightarrow> True
      | Some sp \<Rightarrow> 0 < sp \<and> (case price of None \<Rightarrow> True | Some v \<Rightarrow> sp < v))"

definition len_between :: "nat \<Rightarrow> nat \<Rightarrow> string \<Rightarrow> bool" where
  "len_between lo hi s \<longleftrightarrow> lo \<le> length s \<and> length s \<le> hi"

definition opt_max_len :: "nat \<Rightarrow> string option \<Rightarrow> bool" where
  "opt_max_len hi v \<longleftrightarrow> (case v of None \<Rightarrow> True | Some s \<Rightarrow> length s \<le> hi)"

text \<open>The payload of \<^verbatim>\<open>ProductCreate\<close>.\<close>

record product_create =
  pc_name :: string
  pc_brand :: string
  pc_size_kg :: int
  pc_category :: category
  pc_unit :: unit_kind
  pc_price :: money
  pc_sale_price :: "money option"
  pc_description :: "string option"
  pc_long_description :: "string option"
  pc_image_url :: "string option"
  pc_safety_info :: "string option"
  pc_pricing_note :: "string option"
  pc_parent_id :: "uuid option"
  pc_colour :: "string option"
  pc_variant_label :: "string option"
  pc_sku :: string
  pc_stock_quantity :: int

definition product_base_ok ::
    "string \<Rightarrow> string \<Rightarrow> int \<Rightarrow> category \<Rightarrow> money \<Rightarrow> money option \<Rightarrow> string option \<Rightarrow>
     string option \<Rightarrow> string option \<Rightarrow> bool" where
  "product_base_ok name brand sz cat price sale pnote colour label \<longleftrightarrow>
     len_between 1 255 name \<and> len_between 1 100 brand \<and> 0 < price \<and>
     opt_max_len 50 colour \<and> opt_max_len 100 label \<and>
     gas_size_ok (Some sz) cat \<and> \<not> (cat = Gas \<and> truthy pnote) \<and>
     sale_price_ok sale (Some price)"

text \<open>Parsing the request body: the normalised payload, or the schema's validation error.\<close>

definition parse_product_create :: "product_create \<Rightarrow> exn + product_create" where
  "parse_product_create pc =
     (if product_base_ok (pc_name pc) (pc_brand pc) (pc_size_kg pc) (pc_category pc) (pc_price pc)
           (pc_sale_price pc) (pc_pricing_note pc) (pc_colour pc) (pc_variant_label pc)
         \<and> len_between 1 50 (pc_sku pc) \<and> 0 \<le> pc_stock_quantity pc
      then (case normalize_sku (pc_sku pc) of
              Inl e \<Rightarrow> Inl (PyError ''ValidationError'')
            | Inr k \<Rightarrow> Inr (pc\<lparr>pc_sku := k\<rparr>))
      else Inl (PyError ''ValidationError''))"

text \<open>The payload of \<^verbatim>\<open>ProductUpdate\<close>: every field may be absent, null or a value.\<close>

record product_update =
  pu_sku :: "string patch"
  pu_name :: "string patch"
  pu_brand :: "string patch"
  pu_size_kg :: "int patch"
  pu_category :: "category patch"
  pu_unit :: "unit_kind patch"
  pu_price :: "money patch"
  pu_sale_price :: "money patch"
  pu_description :: "string patch"
  pu_long_description :: "string patch"
  pu_image_url :: "string patch"
  pu_safety_info :: "string patch"
  pu_pricing_note :: "string patch"
  pu_stock_quantity :: "int patch"
  pu_is_active :: "bool patch"
  pu_parent_id :: "uuid patch"
  pu_colour :: "string patch"
  pu_variant_label :: "string patch"

definition no_product_update :: product_update where
  "no_product_update =
     \<lparr>pu_sku = Unset, pu_name = Unset, pu_brand = Unset, pu_size_kg = Unset, pu_category = Unset,
      pu_unit = Unset, pu_price = Unset, pu_sale_price = Unset, pu_description = Unset,
      pu_long_description = Unset, pu_image_url = Unset, pu_safety_info = Unset,
      pu_pricing_note = Unset, pu_stock_quantity = Unset, pu_is_active = Unset,
      pu_parent_id = Unset, pu_colour = Unset, pu_variant_label = Unset\<rparr>"

text \<open>
  \<^verbatim>\<open>ProductUpdate.validate_product_category\<close> sees only the fields of the payload: the category
  defaults to gas, and a sale price is compared with the price of the same payload only.
\<close>

definition parse_product_update :: "product_update \<Rightarrow> exn + product_update" where
  "parse_product_update pu =
     (let cat = (case patch_seen (pu_category pu) of None \<Rightarrow> Gas | Some c \<Rightarrow> c) in
      if patch_all (len_between 1 50) (pu_sku pu) \<and> patch_all (len_between 1 255) (pu_name pu) \<and>
         patch_all (len_between 1 100) (pu_brand pu) \<and> patch_all (\<lambda>v. 0 < v) (pu_price pu) \<and>
         patch_all (\<lambda>v. 0 \<le> v) (pu_stock_quantity pu) \<and>
         patch_all (\<lambda>s. length s \<le> 50) (pu_colour pu) \<and>
         patch_all (\<lambda>s. length s \<le> 100) (pu_variant_label pu) \<and>
         gas_size_ok (patch_seen (pu_size_kg pu)) cat \<and>
         \<not> (cat = Gas \<and> truthy (patch_seen (pu_pricing_note pu))) \<and>
         sale_price_ok (patch_seen (pu_sale_price pu)) (patch_seen (pu_price pu))
      then (case pu_sku pu of
              Val k \<Rightarrow> (case normalize_sku k of
                          Inl e \<Rightarrow> Inl (PyError ''ValidationError'')
                        | Inr k' \<Rightarrow> Inr (pu\<lparr>pu_sku := Val k'\<rparr>))
            | _ \<Rightarrow> Inr pu)
      else Inl (PyError ''ValidationError''))"

text \<open>
  \<^verbatim>\<open>ProductResponse.model_validate\<close> runs the validators of \<^verbatim>\<open>ProductCreate\<close> on the stored row.
  (The stored image URL was produced by the URL parser of the same library and parses again.)
\<close>

definition product_row_ok :: "product \<Rightarrow> bool" where
  "product_row_ok p \<longleftrightarrow>
     product_base_ok (p_name p) (p_brand p) (p_size_kg p) (p_category p) (p_price p)
       (p_sale_price p) (p_pricing_note p) (p_colour p) (p_variant_label p) \<and>
     len_between 1 50 (p_sku p) \<and> 0 \<le> p_stock_quantity p \<and>
     normalize_sku (p_sku p) = Inr (p_sku p)"

definition product_response :: "product \<Rightarrow> (db, product) op" where
  "product_response p =
     (if product_base_ok (p_name p) (p_brand p) (p_size_kg p) (p_category p) (p_price p)
           (p_sale_price p) (p_pricing_note p) (p_colour p) (p_variant_label p)
         \<and> len_between 1 50 (p_sku p) \<and> 0 \<le> p_stock_quantity p
      then (case normalize_sku (p_sku p) of
              Inl e \<Rightarrow> raise (PyError ''ValidationError'')
            | Inr k \<Rightarrow> ret (p\<lparr>p_sku := k\<rparr>))
      else raise (PyError ''ValidationError''))"

lemma product_response_ok: "product_row_ok p \<Longrightarrow> product_response p = ret p"
  by (simp add: product_row_ok_def product_response_def)

lemma product_response_state: "product_response p s = (r, s') \<Longrightarrow> s' = s"
  by (auto simp: product_response_def op_simps split: if_splits sum.splits)

section \<open>ProductRepository\<close>

definition product_by_id :: "uuid \<Rightarrow> bool \<Rightarrow> db \<Rightarrow> product option" where
  "product_by_id pid active_only s =
     (case find_row p_id pid (products s) of
        None \<Rightarrow> None
      | Some p \<Rightarrow> if active_only \<and> \<not> p_is_active p then None else Some p)"

definition product_by_sku :: "string \<Rightarrow> bool \<Rightarrow> db \<Rightarrow> product option" where
  "product_by_sku sku active_only s =
     find (\<lambda>p. p_sku p = py_strip (py_upper sku) \<and> (active_only \<longrightarrow> p_is_active p)) (products s)"

text \<open>
  \<open>Product(**data)\<close> with the column defaults; a violated constraint (the unique SKU, the
  foreign key to the parent) is reported as a duplicate SKU whatever its cause.
\<close>

definition new_product :: "uuid \<Rightarrow> time \<Rightarrow> product_create \<Rightarrow> product" where
  "new_product i now pc =
     \<lparr>p_id = i, p_sku = pc_sku pc, p_name = pc_name pc, p_brand = pc_brand pc,
      p_size_kg = pc_size_kg pc, p_category = pc_category pc, p_unit = pc_unit pc,
      p_price = pc_price pc, p_sale_price = pc_sale_price pc,
      p_stock_quantity = pc_stock_quantity pc, p_description = pc_description pc,
      p_long_description = pc_long_description pc, p_image_url = pc_image_url pc,
      p_safety_info = pc_safety_info pc, p_pricing_note = pc_pricing_note pc,
      p_is_active = True, p_parent_id = pc_parent_id pc, p_colour = pc_colour pc,
      p_variant_label = pc_variant_label pc, p_created_at = now\<rparr>"

definition parent_fk_ok :: "uuid option \<Rightarrow> db \<Rightarrow> bool" where
  "parent_fk_ok pid s \<longleftrightarrow> (case pid of None \<Rightarrow> True | Some i \<Rightarrow> i \<in> pp_id ` set (parents s))"

definition repo_create_product :: "time \<Rightarrow> product_create \<Rightarrow> product dbop" where
  "repo_create_product now pc =
     andThen (gets (\<lambda>s. pc_sku pc \<notin> p_sku ` set (products s) \<and> parent_fk_ok (pc_parent_id pc) s))
       (\<lambda>ok. andThen (ensure ok (AppError Conflict ''duplicate_sku'')) (\<lambda>_.
     andThen fresh_id (\<lambda>i.
     andThen (modify (\<lambda>s. s\<lparr>products := products s @ [new_product i now pc]\<rparr>)) (\<lambda>_.
     ret (new_product i now pc)))))"

definition apply_product_update :: "product_update \<Rightarrow> product \<Rightarrow> product" where
  "apply_product_update pu p = p\<lparr>
     p_sku := patch_val (pu_sku pu) (p_sku p),
     p_name := patch_val (pu_name pu) (p_name p),
     p_brand := patch_val (pu_brand pu) (p_brand p),
     p_size_kg := patch_val (pu_size_kg pu) (p_size_kg p),
     p_category := patch_val (pu_category pu) (p_category p),
     p_unit := patch_val (pu_unit pu) (p_unit p),
     p_price := patch_val (pu_price pu) (p_price p),
     p_sale_price := patch_opt (pu_sale_price pu) (p_sale_price p),
     p_description := patch_opt (pu_description pu) (p_description p),
     p_long_description := patch_opt (pu_long_description pu) (p_long_description p),
     p_image_url := patch_opt (pu_image_url pu) (p_image_url p),
     p_safety_info := patch_opt (pu_safety_info pu) (p_safety_info p),
     p_pricing_note := patch_opt (pu_pricing_note pu) (p_pricing_note p),
     p_stock_quantity := patch_val (pu_stock_quantity pu) (p_stock_quantity p),
     p_is_active := patch_val (pu_is_active pu) (p_is_active p),
     p_parent_id := patch_opt (pu_parent_id pu) (p_parent_id p),
     p_colour := patch_opt (pu_colour pu) (p_colour p),
     p_variant_label := patch_opt (pu_variant_label pu) (p_variant_label p)\<rparr>"

text \<open>
  The constraints a flush of the changed row can violate: a null in a \<open>NOT NULL\<close> column, the
  unique SKU, the foreign key to the parent.
\<close>

definition product_update_integrity :: "uuid \<Rightarrow> product_update \<Rightarrow> product \<Rightarrow> db \<Rightarrow> bool" where
  "product_update_integrity pid pu p s \<longleftrightarrow>
     \<not> is_null (pu_sku pu) \<and> \<not> is_null (pu_name pu) \<and> \<not> is_null (pu_brand pu) \<and>
     \<not> is_null (pu_size_kg pu) \<and> \<not> is_null (pu_category pu) \<and> \<not> is_null (pu_unit pu) \<and>
     \<not> is_null (pu_price pu) \<and> \<not> is_null (pu_stock_quantity pu) \<and> \<not> is_null (pu_is_active pu) \<and>
     (\<forall>q \<in> set (products s). p_id q \<noteq> pid \<longrightarrow> p_sku q \<noteq> p_sku (apply_product_update pu p)) \<and>
     parent_fk_ok (p_parent_id (apply_product_update pu p)) s"

definition repo_update_product :: "uuid \<Rightarrow> product_update \<Rightarrow> product dbop" where
  "repo_update_product pid pu =
     andThen (gets (product_by_id pid False)) (\<lambda>m.
     andThen (require_some (AppError NotFound ''product_not_found'') m) (\<lambda>p.
     andThen (gets (product_update_integrity pid pu p)) (\<lambda>ok.
     andThen (ensure ok (AppError Conflict ''duplicate_sku'')) (\<lambda>_.
     andThen (modify (\<lambda>s. s\<lparr>products := upd_row p_id pid (apply_product_update pu) (products s)\<rparr>)) (\<lambda>_.
     ret (apply_product_update pu p))))))"

definition repo_soft_delete_product :: "uuid \<Rightarrow> bool dbop" where
  "repo_soft_delete_product pid =
     andThen (gets (product_by_id pid False)) (\<lambda>m.
       case m of
         None \<Rightarrow> ret False
       | Some p \<Rightarrow>
           andThen (modify (\<lambda>s. s\<lparr>products := upd_row p_id pid (\<lambda>p. p\<lparr>p_is_active := False\<rparr>) (products s)\<rparr>))
             (\<lambda>_. ret True))"

definition get_many_for_update :: "uuid list \<Rightarrow> db \<Rightarrow> uuid \<rightharpoonup> product" where
  "get_many_for_update ids s = (\<lambda>i. if i \<in> set ids then find_row p_id i (products s) else None)"

definition decrement_stock :: "uuid \<Rightarrow> int \<Rightarrow> product dbop" where
  "decrement_stock pid quantity =
     andThen (gets (product_by_id pid False)) (\<lambda>m.
     andThen (require_some (AppError NotFound ''product_not_found'') m) (\<lambda>p.
     andThen (ensure (quantity \<le> p_stock_quantity p) (AppError InsufficientStock ''insufficient_stock'')) (\<lambda>_.
     andThen (modify (\<lambda>s. s\<lparr>products := upd_row p_id pid
               (\<lambda>p. p\<lparr>p_stock_quantity := p_stock_quantity p - quantity\<rparr>) (products s)\<rparr>)) (\<lambda>_.
     ret (p\<lparr>p_stock_quantity := p_stock_quantity p - quantity\<rparr>)))))"

definition increment_stock :: "uuid \<Rightarrow> int \<Rightarrow> product dbop" where
  "increment_stock pid quantity =
     andThen (gets (product_by_id pid False)) (\<lambda>m.
     andThen (require_some (AppError NotFound ''product_not_found'') m) (\<lambda>p.
     andThen (modify (\<lambda>s. s\<lparr>products := upd_row p_id pid
               (\<lambda>p. p\<lparr>p_stock_quantity := p_stock_quantity p + quantity\<rparr>) (products s)\<rparr>)) (\<lambda>_.
     ret (p\<lparr>p_stock_quantity := p_stock_quantity p + quantity\<rparr>))))"

subsection \<open>Queries\<close>

text \<open>
  What the queries ask of PostgreSQL beyond comparisons: the trigram match of a product name
  (\<^verbatim>\<open>name % search\<close> or \<^verbatim>\<open>similarity(name, search) > 0.3\<close>) and the rank the database collation
  gives a text. \<^verbatim>\<open>ILIKE\<close> is the SQL pattern match.
\<close>

record pg =
  pg_similar :: "string \<Rightarrow> string \<Rightarrow> bool"
  pg_rank :: "string \<Rightarrow> int"

fun like_match :: "string \<Rightarrow> string \<Rightarrow> bool" where
  "like_match [] s = (s = [])"
| "like_match (c # p) s =
     (if c = CHR ''%'' then (like_match p s \<or> (case s of [] \<Rightarrow> False | d # t \<Rightarrow> like_match (c # p) t))
      else if c = CHR ''_'' then (case s of [] \<Rightarrow> False | d # t \<Rightarrow> like_match p t)
      else if c = CHR 0x5C then
        (case p of [] \<Rightarrow> False
         | e # q \<Rightarrow> (case s of [] \<Rightarrow> False | d # t \<Rightarrow> d = e \<and> like_match q t))
      else (case s of [] \<Rightarrow> False | d # t \<Rightarrow> d = c \<and> like_match p t))"

definition ilike :: "string \<Rightarrow> string \<Rightarrow> bool" where
  "ilike s pat = like_match (py_lower pat) (py_lower s)"

definition ilike_contains :: "string \<Rightarrow> string \<Rightarrow> bool" where
  "ilike_contains s needle = ilike s (''%'' @ needle @ ''%'')"

definition order_rows :: "('r \<Rightarrow> int) \<Rightarrow> bool \<Rightarrow> 'r list \<Rightarrow> 'r list" where
  "order_rows key ascending rows = sort_key (\<lambda>r. if ascending then key r else - key r) rows"

datatype sort_by = SortCreatedAt | SortPrice | SortName

record product_search =
  ps_search :: "string option"
  ps_brand :: "string option"
  ps_category :: "category option"
  ps_min_price :: "money option"
  ps_max_price :: "money option"
  ps_size_kg :: "int option"
  ps_in_stock_only :: bool
  ps_sort_by :: sort_by
  ps_ascending :: bool
  ps_skip :: nat
  ps_limit :: nat

definition default_search :: product_search where
  "default_search = \<lparr>ps_search = None, ps_brand = None, ps_category = None, ps_min_price = None,
     ps_max_price = None, ps_size_kg = None, ps_in_stock_only = False,
     ps_sort_by = SortCreatedAt, ps_ascending = False, ps_skip = 0, ps_limit = 20\<rparr>"

definition product_search_ok :: "product_search \<Rightarrow> bool" where
  "product_search_ok ps \<longleftrightarrow>
     1 \<le> ps_limit ps \<and> ps_limit ps \<le> 100 \<and>
     (case ps_search ps of None \<Rightarrow> True | Some s \<Rightarrow> length s \<le> 255) \<and>
     gas_size_ok (ps_size_kg ps) (case ps_category ps of None \<Rightarrow> Gas | Some c \<Rightarrow> c) \<and>
     (case (ps_min_price ps, ps_max_price ps) of (Some lo, Some hi) \<Rightarrow> lo \<le> hi | _ \<Rightarrow> True)"

definition product_matches :: "pg \<Rightarrow> product_search \<Rightarrow> bool \<Rightarrow> product \<Rightarrow> bool" where
  "product_matches g ps active_only p \<longleftrightarrow>
     (active_only \<longrightarrow> p_is_active p) \<and>
     (truthy (ps_search ps) \<longrightarrow>
        (let t = py_strip (the (ps_search ps)) in
         pg_similar g (p_name p) t \<or> ilike_contains (p_sku p) t)) \<and>
     (truthy (ps_brand ps) \<longrightarrow> ilike_contains (p_brand p) (py_strip (the (ps_brand ps)))) \<and>
     (case ps_category ps of None \<Rightarrow> True | Some c \<Rightarrow> p_category p = c) \<and>
     (case ps_min_price ps of None \<Rightarrow> True | Some v \<Rightarrow> v \<le> p_price p) \<and>
     (case ps_max_price ps of None \<Rightarrow> True | Some v \<Rightarrow> p_price p \<le> v) \<and>
     (case ps_size_kg ps of None \<Rightarrow> True | Some v \<Rightarrow> p_size_kg p = v) \<and>
     (ps_in_stock_only ps \<longrightarrow> 0 < p_stock_quantity p)"

fun sort_column :: "pg \<Rightarrow> sort_by \<Rightarrow> product \<Rightarrow> int" where
  "sort_column g SortCreatedAt p = p_created_at p"
| "sort_column g SortPrice p = p_price p"
| "sort_column g SortName p = pg_rank g (p_name p)"

definition list_products :: "pg \<Rightarrow> product_search \<Rightarrow> bool \<Rightarrow> db \<Rightarrow> product list \<times> nat" where
  "list_products g ps active_only s =
     (let rows = filter (product_matches g ps active_only) (products s) in
      (slice (ps_skip ps) (ps_limit ps) (order_rows (sort_column g (ps_sort_by ps)) (ps_ascending ps) rows),
       length rows))"

definition list_brands :: "pg \<Rightarrow> category option \<Rightarrow> bool \<Rightarrow> db \<Rightarrow> string list" where
  "list_brands g cat active_only s =
     sort_key (pg_rank g) (remdups (map p_brand (filter (\<lambda>p. (active_only \<longrightarrow> p_is_active p) \<and>
        (case cat of None \<Rightarrow> True | Some c \<Rightarrow> p_category p = c)) (products s))))"

definition low_stock_products :: "pg \<Rightarrow> int \<Rightarrow> db \<Rightarrow> product list" where
  "low_stock_products g threshold s =
     sort_key p_stock_quantity (sort_key (\<lambda>p. pg_rank g (p_name p))
       (filter (\<lambda>p. p_is_active p \<and> p_stock_quantity p \<le> threshold) (products s)))"

section \<open>Sizes as text\<close>

text \<open>\<^verbatim>\<open>f"{size_kg.normalize():f}"\<close> of a number of hundredths: no trailing zeros behind the point.\<close>

definition plain_decimal :: "nat \<Rightarrow> string" where
  "plain_decimal h =
     (if h mod 100 = 0 then nat_digits (h div 100)
      else if h mod 10 = 0 then nat_digits (h div 100) @ ''.'' @ nat_digits (h mod 100 div 10)
      else nat_digits (h div 100) @ ''.'' @ zero_pad 2 (h mod 100))"

fun unit_text :: "unit_kind \<Rightarrow> string" where
  "unit_text Kg = ''kg''"
| "unit_text Lit = [CHR ''l'', CHR 0xED, CHR ''t'']"

end
