(* ===== verification/Catalog.thy ===== *)
theory Catalog
  imports Products
begin

text \<open>
  \<^verbatim>\<open>ProductService\<close> and the parent half of \<^verbatim>\<open>ProductRepository\<close>: the storefront's catalog cards,
  the product and parent endpoints, and the catalog invariant \<open>catalog_ok\<close> every operation keeps.
\<close>

section \<open>Parents\<close>

record parent_create =
  ppc_name :: string
  ppc_brand :: string
  ppc_category :: category
  ppc_description :: "string option"
  ppc_long_description :: "string option"
  ppc_image_url :: "string option"

record parent_update =
  ppu_name :: "string patch"
  ppu_brand :: "string patch"
  ppu_category :: "category patch"
  ppu_description :: "string patch"
  ppu_long_description :: "string patch"
  ppu_image_url :: "string patch"
  ppu_is_active :: "bool patch"

text \<open>\<^verbatim>\<open>ProductParent.variants\<close>: the products that point to the parent, by price.\<close>

definition variants_of :: "uuid \<Rightarrow> db \<Rightarrow> product list" where
  "variants_of i s = sort_key p_price (filter (\<lambda>p. p_parent_id p = Some i) (products s))"

definition list_parents :: "pg \<Rightarrow> category option \<Rightarrow> nat \<Rightarrow> nat \<Rightarrow> db \<Rightarrow> product_parent list \<times> nat" where
  "list_parents g cat skip limit s =
     (let rows = filter (\<lambda>q. pp_is_active q \<and>
                   (case cat of None \<Rightarrow> True | Some c \<Rightarrow> pp_category q = c)) (parents s) in
      (slice skip limit (sort_key (\<lambda>q. pg_rank g (pp_name q)) rows), length rows))"

definition parent_by_id :: "uuid \<Rightarrow> bool \<Rightarrow> db \<Rightarrow> product_parent option" where
  "parent_by_id i active_only s =
     (case find_row pp_id i (parents s) of
        None \<Rightarrow> None
      | Some q \<Rightarrow> if active_only \<and> \<not> pp_is_active q then None else Some q)"

definition new_parent :: "uuid \<Rightarrow> parent_create \<Rightarrow> product_parent" where
  "new_parent i c = \<lparr>pp_id = i, pp_name = ppc_name c, pp_brand = ppc_brand c,
     pp_category = ppc_category c, pp_description = ppc_description c,
     pp_long_description = ppc_long_description c, pp_image_url = ppc_image_url c,
     pp_is_active = True\<rparr>"

definition repo_create_parent :: "parent_create \<Rightarrow> product_parent dbop" where
  "repo_create_parent c =
     andThen fresh_id (\<lambda>i.
     andThen (modify (\<lambda>s. s\<lparr>parents := parents s @ [new_parent i c]\<rparr>)) (\<lambda>_.
     ret (new_parent i c)))"

definition apply_parent_update :: "parent_update \<Rightarrow> product_parent \<Rightarrow> product_parent" where
  "apply_parent_update u q = q\<lparr>
     pp_name := patch_val (ppu_name u) (pp_name q),
     pp_brand := patch_val (ppu_brand u) (pp_brand q),
     pp_category := patch_val (ppu_category u) (pp_category q),
     pp_description := patch_opt (ppu_description u) (pp_description q),
     pp_long_description := patch_opt (ppu_long_description u) (pp_long_description q),
     pp_image_url := patch_opt (ppu_image_url u) (pp_image_url q),
     pp_is_active := patch_val (ppu_is_active u) (pp_is_active q)\<rparr>"

text \<open>A null in a \<open>NOT NULL\<close> column is the driver's \<^verbatim>\<open>IntegrityError\<close>; here nothing catches it.\<close>

definition repo_update_parent :: "uuid \<Rightarrow> parent_update \<Rightarrow> product_parent dbop" where
  "repo_update_parent i u =
     andThen (gets (parent_by_id i False)) (\<lambda>m.
     andThen (require_some (AppError NotFound ''product_parent_not_found'') m) (\<lambda>q.
     andThen (ensure (\<not> is_null (ppu_name u) \<and> \<not> is_null (ppu_brand u) \<and>
                      \<not> is_null (ppu_category u) \<and> \<not> is_null (ppu_is_active u))
               (PyError ''IntegrityError'')) (\<lambda>_.
     andThen (modify (\<lambda>s. s\<lparr>parents := upd_row pp_id i (apply_parent_update u) (parents s)\<rparr>)) (\<lambda>_.
     ret (apply_parent_update u q)))))"

definition deactivate_variants :: "uuid \<Rightarrow> product list \<Rightarrow> product list" where
  "deactivate_variants i rows =
     map (\<lambda>p. if p_parent_id p = Some i then p\<lparr>p_is_active := False\<rparr> else p) rows"

definition repo_soft_delete_parent :: "uuid \<Rightarrow> bool dbop" where
  "repo_soft_delete_parent i =
     andThen (gets (parent_by_id i False)) (\<lambda>m.
       case m of
         None \<Rightarrow> ret False
       | Some q \<Rightarrow>
           andThen (modify (\<lambda>s. s\<lparr>parents := upd_row pp_id i (\<lambda>q. q\<lparr>pp_is_active := False\<rparr>) (parents s),
                                  products := deactivate_variants i (products s)\<rparr>))
             (\<lambda>_. ret True))"

section \<open>ProductService\<close>

definition ensure_admin :: "user \<Rightarrow> unit dbop" where
  "ensure_admin u = ensure (is_admin u) (AppError Forbidden ''admin_required'')"

definition create_product :: "time \<Rightarrow> product_create \<Rightarrow> user \<Rightarrow> product dbop" where
  "create_product now pc admin =
     andThen (ensure_admin admin) (\<lambda>_.
     andThen (repo_create_product now pc) product_response)"

definition get_product :: "uuid \<Rightarrow> product dbop" where
  "get_product pid =
     andThen (gets (product_by_id pid True)) (\<lambda>m.
     andThen (require_some (AppError NotFound ''product_not_found'') m) product_response)"

definition get_product_by_sku :: "string \<Rightarrow> product dbop" where
  "get_product_by_sku sku =
     andThen (gets (product_by_sku sku True)) (\<lambda>m.
     andThen (require_some (AppError NotFound ''product_not_found'') m) product_response)"

definition search_products :: "pg \<Rightarrow> product_search \<Rightarrow> product page dbop" where
  "search_products g ps =
     andThen (gets (list_products g ps True)) (\<lambda>(rows, n).
     andThen (map_op product_response rows) (\<lambda>items.
     ret (make_page (ps_skip ps) (ps_limit ps) items n)))"

text \<open>Building \<^verbatim>\<open>ProductSearchParams\<close> in the code validates it.\<close>

definition make_params :: "product_search \<Rightarrow> product_search dbop" where
  "make_params ps = andThen (ensure (product_search_ok ps) (PyError ''ValidationError'')) (\<lambda>_. ret ps)"

definition list_active_catalog :: "pg \<Rightarrow> nat \<Rightarrow> product list dbop" where
  "list_active_catalog g limit =
     andThen (make_params (default_search\<lparr>ps_limit := limit, ps_sort_by := SortName, ps_ascending := True\<rparr>))
       (\<lambda>ps. andThen (search_products g ps) (\<lambda>pg. ret (pg_items pg)))"

lemma keeps_product_response: "keeps P (product_response p)"
  by (auto simp: product_response_def intro!: keeps_intros split: sum.splits)

lemma keeps_map_op: "(\<And>x. keeps P (f x)) \<Longrightarrow> keeps P (map_op f xs)"
  by (induction xs) (auto intro!: keeps_intros)

lemma keeps_search_products: "keeps P (search_products g ps)"
  by (auto simp: search_products_def intro!: keeps_intros keeps_map_op keeps_product_response split: prod.splits)

definition service_list_brands :: "pg \<Rightarrow> category option \<Rightarrow> string list dbop" where
  "service_list_brands g cat = gets (list_brands g cat True)"

record card =
  cd_id :: uuid
  cd_name :: string
  cd_brand :: string
  cd_category :: category
  cd_description :: "string option"
  cd_image_url :: "string option"
  cd_min_price :: money
  cd_max_price :: money
  cd_variant_count :: nat
  cd_in_stock :: bool

definition summarize_parent :: "product list \<Rightarrow> product_parent \<Rightarrow> card" where
  "summarize_parent variants q =
     (let active = filter p_is_active variants; prices = map p_price active in
      \<lparr>cd_id = pp_id q, cd_name = pp_name q, cd_brand = pp_brand q, cd_category = pp_category q,
       cd_description = pp_description q, cd_image_url = pp_image_url q,
       cd_min_price = (case prices of [] \<Rightarrow> 0 | v # vs \<Rightarrow> fold min vs v),
       cd_max_price = (case prices of [] \<Rightarrow> 0 | v # vs \<Rightarrow> fold max vs v),
       cd_variant_count = length active,
       cd_in_stock = list_ex (\<lambda>v. 0 < p_stock_quantity v) active\<rparr>)"

definition summarize_product :: "product \<Rightarrow> card" where
  "summarize_product p =
     \<lparr>cd_id = p_id p, cd_name = p_name p, cd_brand = p_brand p, cd_category = p_category p,
      cd_description = p_description p, cd_image_url = p_image_url p,
      cd_min_price = p_price p, cd_max_price = p_price p, cd_variant_count = 1,
      cd_in_stock = (0 < p_stock_quantity p)\<rparr>"

definition list_individual :: "pg \<Rightarrow> category \<Rightarrow> nat \<Rightarrow> nat \<Rightarrow> (card list \<times> nat) dbop" where
  "list_individual g cat skip limit =
     andThen (make_params (default_search\<lparr>ps_category := Some cat, ps_sort_by := SortName,
                ps_ascending := True, ps_skip := skip, ps_limit := limit\<rparr>)) (\<lambda>ps.
     andThen (gets (list_products g ps True)) (\<lambda>(rows, n).
     ret (map summarize_product rows, n)))"

definition list_grouped :: "pg \<Rightarrow> category \<Rightarrow> nat \<Rightarrow> nat \<Rightarrow> (card list \<times> nat) dbop" where
  "list_grouped g cat skip limit =
     andThen (gets (list_parents g (Some cat) skip limit)) (\<lambda>(rows, n).
     gets (\<lambda>s. (map (\<lambda>q. summarize_parent (variants_of (pp_id q) s) q) rows, n)))"

definition combined_fetch_limit :: nat where
  "combined_fetch_limit = 100"

definition list_grouped_catalog :: "pg \<Rightarrow> category option \<Rightarrow> nat \<Rightarrow> nat \<Rightarrow> card page dbop" where
  "list_grouped_catalog g cat skip limit =
     (case cat of
        Some Gas \<Rightarrow>
          andThen (list_individual g Gas skip limit) (\<lambda>(items, n). ret (make_page skip limit items n))
      | Some NuocUong \<Rightarrow>
          andThen (list_grouped g NuocUong skip limit) (\<lambda>(items, n). ret (make_page skip limit items n))
      | None \<Rightarrow>
          andThen (list_individual g Gas 0 combined_fetch_limit) (\<lambda>(gas, _).
          andThen (list_grouped g NuocUong 0 combined_fetch_limit) (\<lambda>(water, _).
            (let combined = sort_key cd_name (gas @ water) in
             ret (make_page skip limit (slice skip limit combined) (length combined))))))"

text \<open>\<^verbatim>\<open>ProductParentResponse\<close>: the parent's own fields and its variants, each validated.\<close>

definition parent_row_ok :: "product_parent \<Rightarrow> bool" where
  "parent_row_ok q \<longleftrightarrow> len_between 1 255 (pp_name q) \<and> len_between 1 100 (pp_brand q)"

definition parent_response :: "product_parent \<Rightarrow> (product_parent \<times> product list) dbop" where
  "parent_response q =
     andThen (ensure (parent_row_ok q) (PyError ''ValidationError'')) (\<lambda>_.
     andThen (gets (variants_of (pp_id q))) (\<lambda>vs.
     andThen (map_op product_response vs) (\<lambda>rs. ret (q, rs))))"

definition get_parent :: "uuid \<Rightarrow> (product_parent \<times> product list) dbop" where
  "get_parent i =
     andThen (gets (parent_by_id i True)) (\<lambda>m.
     andThen (require_some (AppError NotFound ''product_parent_not_found'') m) (\<lambda>q.
     andThen (parent_response q) (\<lambda>_.
     andThen (gets (variants_of (pp_id q))) (\<lambda>vs.
     andThen (map_op product_response (filter p_is_active vs)) (\<lambda>rs.
     ret (q, sort_key p_price rs))))))"

definition create_parent :: "parent_create \<Rightarrow> user \<Rightarrow> (product_parent \<times> product list) dbop" where
  "create_parent c admin =
     andThen (ensure_admin admin) (\<lambda>_. andThen (repo_create_parent c) parent_response)"

definition update_parent :: "uuid \<Rightarrow> parent_update \<Rightarrow> user \<Rightarrow> (product_parent \<times> product list) dbop" where
  "update_parent i u admin =
     andThen (ensure_admin admin) (\<lambda>_. andThen (repo_update_parent i u) parent_response)"

definition delete_parent :: "uuid \<Rightarrow> user \<Rightarrow> unit dbop" where
  "delete_parent i admin =
     andThen (ensure_admin admin) (\<lambda>_.
     andThen (repo_soft_delete_parent i) (\<lambda>deleted.
     ensure deleted (AppError NotFound ''product_parent_not_found'')))"

definition update_product :: "uuid \<Rightarrow> product_update \<Rightarrow> user \<Rightarrow> product dbop" where
  "update_product pid pu admin =
     andThen (ensure_admin admin) (\<lambda>_.
     andThen (repo_update_product pid pu) product_response)"

definition delete_product :: "uuid \<Rightarrow> user \<Rightarrow> unit dbop" where
  "delete_product pid admin =
     andThen (ensure_admin admin) (\<lambda>_.
     andThen (repo_soft_delete_product pid) (\<lambda>deleted.
     ensure deleted (AppError NotFound ''product_not_found'')))"

definition get_low_stock_products :: "pg \<Rightarrow> user \<Rightarrow> int \<Rightarrow> product list dbop" where
  "get_low_stock_products g admin threshold =
     andThen (ensure_admin admin) (\<lambda>_.
     andThen (gets (low_stock_products g threshold)) (map_op product_response))"

definition check_availability :: "uuid \<Rightarrow> int \<Rightarrow> bool dbop" where
  "check_availability pid quantity =
     andThen (gets (product_by_id pid True)) (\<lambda>m.
     andThen (require_some (AppError NotFound ''product_not_found'') m) (\<lambda>p.
     ret (quantity \<le> p_stock_quantity p)))"

definition reserve_stock :: "uuid \<Rightarrow> int \<Rightarrow> product dbop" where
  "reserve_stock pid quantity = decrement_stock pid quantity"

section \<open>The catalog invariant\<close>

text \<open>
  Keys are unique and below the identifier supply, SKUs are unique, a product's parent exists,
  and every stored row passes the validation of its response model.
\<close>

definition catalog_ok :: "db \<Rightarrow> bool" where
  "catalog_ok s \<longleftrightarrow>
     unique_by p_id (products s) \<and> unique_by p_sku (products s) \<and>
     (\<forall>p \<in> set (products s). product_row_ok p \<and> p_id p < next_id s \<and>
        parent_fk_ok (p_parent_id p) s) \<and>
     unique_by pp_id (parents s) \<and>
     (\<forall>q \<in> set (parents s). parent_row_ok q \<and> pp_id q < next_id s)"

lemma parent_fk_ok_iff: "parent_fk_ok pid s \<longleftrightarrow> (\<forall>i. pid = Some i \<longrightarrow> i \<in> pp_id ` set (parents s))"
  by (simp add: parent_fk_ok_def split: option.splits)

lemma catalog_okI:
  assumes "unique_by p_id (products s)" "unique_by p_sku (products s)"
    "\<And>p. p \<in> set (products s) \<Longrightarrow> product_row_ok p"
    "\<And>p. p \<in> set (products s) \<Longrightarrow> p_id p < next_id s"
    "\<And>p. p \<in> set (products s) \<Longrightarrow> parent_fk_ok (p_parent_id p) s"
    "unique_by pp_id (parents s)" "\<And>q. q \<in> set (parents s) \<Longrightarrow> parent_row_ok q"
    "\<And>q. q \<in> set (parents s) \<Longrightarrow> pp_id q < next_id s"
  shows "catalog_ok s"
  using assms by (auto simp: catalog_ok_def)

lemma catalog_ok_cong:
  assumes "products t = products s" "parents t = parents s" "next_id s \<le> next_id t" "catalog_ok s"
  shows "catalog_ok t"
  using assms(4) order_less_le_trans [OF _ assms(3)]
  by (simp add: catalog_ok_def parent_fk_ok_iff assms(1,2))

text \<open>Rewriting the row of one product keeps the invariant when the new row is good and its SKU
  is not another product's.\<close>

lemma unique_by_upd_key:
  assumes "unique_by key rows" "unique_by idf rows"
    and "\<And>q. q \<in> set rows \<Longrightarrow> idf q = i \<Longrightarrow> (\<forall>r \<in> set rows. idf r \<noteq> i \<longrightarrow> key r \<noteq> key (f q))"
  shows "unique_by key (upd_row idf i f rows)"
  using assms
proof (induction rows)
  case Nil
  then show ?case by (simp add: unique_by_def)
next
  case (Cons r rs)
  show ?case
  proof (cases "idf r = i")
    case True
    with Cons.prems(2) have "i \<notin> idf ` set rs" by (auto simp: unique_by_def)
    moreover have "\<forall>q \<in> set rs. key q \<noteq> key (f r)"
      using True Cons.prems(3) [of r] \<open>i \<notin> idf ` set rs\<close> by (metis imageI list.set_intros)
    ultimately show ?thesis using True Cons.prems(1)
      by (auto simp: unique_by_def upd_row_absent)
  next
    case False
    have rs: "unique_by key (upd_row idf i f rs)"
      using Cons.prems by (intro Cons.IH) (auto simp: unique_by_def)
    have "key r \<noteq> key q" if q: "q \<in> set (upd_row idf i f rs)" for q
    proof -
      from set_upd_row [OF q] obtain p where p: "p \<in> set rs"
        "(idf p = i \<and> q = f p) \<or> (idf p \<noteq> i \<and> q = p)" by blast
      then show ?thesis using Cons.prems(1) Cons.prems(3) [of p] False
        by (auto simp: unique_by_def)
    qed
    with rs False show ?thesis by (auto simp: unique_by_def)
  qed
qed

lemma catalog_ok_product_update:
  assumes ok: "catalog_ok s" and id: "\<And>p. p_id (f p) = p_id p"
    and row: "\<And>p. p \<in> set (products s) \<Longrightarrow> p_id p = i \<Longrightarrow> product_row_ok (f p)"
    and fk: "\<And>p. p \<in> set (products s) \<Longrightarrow> p_id p = i \<Longrightarrow> parent_fk_ok (p_parent_id (f p)) s"
    and sku: "\<And>p q. p \<in> set (products s) \<Longrightarrow> p_id p = i \<Longrightarrow> q \<in> set (products s) \<Longrightarrow>
                p_id q \<noteq> i \<Longrightarrow> p_sku q \<noteq> p_sku (f p)"
  shows "catalog_ok (s\<lparr>products := upd_row p_id i f (products s)\<rparr>)"
proof (rule catalog_okI)
  show "unique_by p_id (products (s\<lparr>products := upd_row p_id i f (products s)\<rparr>))"
    using ok id by (simp add: unique_upd_row catalog_ok_def)
  show "unique_by p_sku (products (s\<lparr>products := upd_row p_id i f (products s)\<rparr>))"
    using ok sku by (simp add: catalog_ok_def unique_by_upd_key)
  fix p assume "p \<in> set (products (s\<lparr>products := upd_row p_id i f (products s)\<rparr>))"
  then obtain q where "q \<in> set (products s)" "p_id q = i \<and> p = f q \<or> p_id q \<noteq> i \<and> p = q"
    using set_upd_row by fastforce
  then show "product_row_ok p" "p_id p < next_id (s\<lparr>products := upd_row p_id i f (products s)\<rparr>)"
    "parent_fk_ok (p_parent_id p) (s\<lparr>products := upd_row p_id i f (products s)\<rparr>)"
    using ok row id fk by (auto simp: catalog_ok_def parent_fk_ok_iff)
qed (use ok in \<open>auto simp: catalog_ok_def\<close>)

lemma product_by_id_SomeD:
  "product_by_id i b s = Some p \<Longrightarrow> p \<in> set (products s) \<and> p_id p = i \<and> (b \<longrightarrow> p_is_active p)"
  by (auto simp: product_by_id_def dest: find_row_SomeD split: option.splits if_splits)

lemma product_by_id_row:
  "catalog_ok s \<Longrightarrow> p \<in> set (products s) \<Longrightarrow> product_by_id (p_id p) False s = Some p"
  by (simp add: product_by_id_def catalog_ok_def find_row_unique)

section \<open>The operations keep the invariant\<close>

text \<open>A schema's payload is normalised; the row built from it passes the response model.\<close>

lemma normalize_sku_len: "normalize_sku x = Inr k \<Longrightarrow> length x \<le> n \<Longrightarrow> len_between 1 n k"
  by (auto simp: normalize_sku_def Let_def len_between_def py_strip_def py_upper_def Suc_le_eq
           split: if_splits intro!: order_trans [OF length_dropWhile_le])

lemma new_product_row_ok:
  "parse_product_create raw = Inr pc \<Longrightarrow> product_row_ok (new_product i now pc)"
  by (auto simp: parse_product_create_def product_row_ok_def new_product_def
           split: if_splits sum.splits dest: normalize_sku_idem normalize_sku_len [where n = 50]
           simp: len_between_def)

lemma create_product_keeps:
  assumes "catalog_ok s" "parse_product_create raw = Inr pc"
    and "create_product now pc a s = (Inr r, s')"
  shows "catalog_ok s'"
proof -
  let ?p = "new_product (next_id s) now pc"
  from assms(3) have fresh: "pc_sku pc \<notin> p_sku ` set (products s)" "parent_fk_ok (pc_parent_id pc) s"
    and s': "s' = s\<lparr>next_id := next_id s + 1, products := products s @ [?p]\<rparr>"
    by (auto simp: create_product_def ensure_admin_def repo_create_product_def op_simps
             dest: product_response_state)
  show ?thesis unfolding s'
    using assms(1) fresh new_product_row_ok [OF assms(2), of "next_id s" now]
    by (intro catalog_okI) (auto simp: catalog_ok_def unique_by_def new_product_def parent_fk_ok_iff)
qed

lemma updated_row_ok:
  assumes "product_row_ok p" "parse_product_update raw = Inr pu"
    and "product_response (apply_product_update pu p) s = (Inr r, s')"
  shows "product_row_ok (apply_product_update pu p) \<and> r = apply_product_update pu p"
proof -
  let ?q = "apply_product_update pu p"
  have "normalize_sku (p_sku ?q) = Inr (p_sku ?q)"
  proof (cases "pu_sku pu")
    case (Val k)
    with assms(2) show ?thesis
      by (auto simp: parse_product_update_def apply_product_update_def Let_def
               split: if_splits patch.splits sum.splits dest: normalize_sku_idem)
  qed (use assms(1) in \<open>auto simp: apply_product_update_def product_row_ok_def\<close>)
  with assms(3) show ?thesis
    by (auto simp: product_response_def product_row_ok_def op_simps split: if_splits)
qed

lemma update_product_keeps:
  assumes ok: "catalog_ok s" and raw: "parse_product_update raw = Inr pu"
    and run: "update_product pid pu a s = (Inr r, s')"
  shows "catalog_ok s'"
proof -
  from run obtain p t where p: "product_by_id pid False s = Some p"
    and integ: "product_update_integrity pid pu p s"
    and s': "s' = s\<lparr>products := upd_row p_id pid (apply_product_update pu) (products s)\<rparr>"
    and resp: "product_response (apply_product_update pu p) s' = (Inr r, s')"
    by (auto simp: update_product_def ensure_admin_def repo_update_product_def op_simps
             dest: product_response_state)
  note row = product_by_id_SomeD [OF p]
  have uniq: "q = p" if "q \<in> set (products s)" "p_id q = pid" for q
    using that row p product_by_id_row [OF ok, of q] by simp
  have "product_row_ok (apply_product_update pu p)"
    using updated_row_ok [OF _ raw resp] ok row by (auto simp: catalog_ok_def)
  then show ?thesis unfolding s'
    using ok integ uniq
    by (intro catalog_ok_product_update)
       (auto simp: apply_product_update_def product_update_integrity_def)
qed

lemma row_ok_inactive [simp]: "product_row_ok (p\<lparr>p_is_active := b\<rparr>) = product_row_ok p"
  by (simp add: product_row_ok_def)

lemma row_ok_stock: "product_row_ok p \<Longrightarrow> 0 \<le> n \<Longrightarrow> product_row_ok (p\<lparr>p_stock_quantity := n\<rparr>)"
  by (simp add: product_row_ok_def)

lemma delete_product_keeps:
  "catalog_ok s \<Longrightarrow> delete_product pid a s = (Inr r, s') \<Longrightarrow> catalog_ok s'"
  by (auto simp: delete_product_def ensure_admin_def repo_soft_delete_product_def op_simps
           split: option.splits intro!: catalog_ok_product_update)
     (auto simp: catalog_ok_def unique_by_def distinct_map dest: inj_onD)

lemma sku_unique:
  "catalog_ok s \<Longrightarrow> p \<in> set (products s) \<Longrightarrow> q \<in> set (products s) \<Longrightarrow> p_sku p = p_sku q \<Longrightarrow> p = q"
  by (auto simp: catalog_ok_def unique_by_def distinct_map dest: inj_onD)

lemma decrement_stock_keeps:
  assumes "catalog_ok s" "decrement_stock pid n s = (Inr r, s')"
  shows "catalog_ok s'"
proof -
  from assms(2) obtain p where p: "product_by_id pid False s = Some p" "n \<le> p_stock_quantity p"
    and s': "s' = s\<lparr>products := upd_row p_id pid
               (\<lambda>p. p\<lparr>p_stock_quantity := p_stock_quantity p - n\<rparr>) (products s)\<rparr>"
    by (auto simp: decrement_stock_def op_simps)
  have "q = p" if "q \<in> set (products s)" "p_id q = pid" for q
    using that p product_by_id_row [OF assms(1), of q] by simp
  then show ?thesis unfolding s' using assms(1) p(2)
    by (intro catalog_ok_product_update) (auto simp: catalog_ok_def intro!: row_ok_stock dest: sku_unique [OF assms(1)])
qed

lemma increment_stock_keeps:
  assumes "catalog_ok s" "0 \<le> n" "increment_stock pid n s = (Inr r, s')"
  shows "catalog_ok s'"
proof -
  from assms(3) have s': "s' = s\<lparr>products := upd_row p_id pid
               (\<lambda>p. p\<lparr>p_stock_quantity := p_stock_quantity p + n\<rparr>) (products s)\<rparr>"
    by (auto simp: increment_stock_def op_simps)
  show ?thesis unfolding s' using assms(1,2)
    by (intro catalog_ok_product_update)
       (auto simp: catalog_ok_def product_row_ok_def intro!: row_ok_stock dest: sku_unique [OF assms(1)])
qed

text \<open>The payload constraints of the parent schemas.\<close>

definition parse_parent_create :: "parent_create \<Rightarrow> exn + parent_create" where
  "parse_parent_create c =
     (if len_between 1 255 (ppc_name c) \<and> len_between 1 100 (ppc_brand c) then Inr c
      else Inl (PyError ''ValidationError''))"

definition parse_parent_update :: "parent_update \<Rightarrow> exn + parent_update" where
  "parse_parent_update u =
     (if patch_all (len_between 1 255) (ppu_name u) \<and> patch_all (len_between 1 100) (ppu_brand u)
      then Inr u else Inl (PyError ''ValidationError''))"

lemma parent_response_state: "parent_response q s = (r, s') \<Longrightarrow> s' = s"
proof -
  have m: "map_op product_response vs s = (w, t) \<Longrightarrow> t = s" for vs w t
    by (induction vs arbitrary: w)
       (case_tac w; auto simp: op_simps dest!: product_response_state)+
  show "parent_response q s = (r, s') \<Longrightarrow> s' = s"
    by (cases r) (auto simp: parent_response_def op_simps dest: m)
qed

lemma create_parent_keeps:
  assumes "catalog_ok s" "parse_parent_create raw = Inr c" "create_parent c a s = (Inr r, s')"
  shows "catalog_ok s'"
proof -
  let ?q = "new_parent (next_id s) c"
  from assms(3) have s': "s' = s\<lparr>next_id := next_id s + 1, parents := parents s @ [?q]\<rparr>"
    by (auto simp: create_parent_def ensure_admin_def repo_create_parent_def op_simps
             dest: parent_response_state)
  show ?thesis unfolding s' using assms(1,2)
    by (intro catalog_okI)
       (auto simp: catalog_ok_def unique_by_def new_parent_def parent_row_ok_def parent_fk_ok_iff
                   parse_parent_create_def split: if_splits option.splits)
qed

lemma update_parent_keeps:
  assumes "catalog_ok s" "parse_parent_update raw = Inr u" "update_parent i u a s = (Inr r, s')"
  shows "catalog_ok s'"
proof -
  from assms(3) have s': "s' = s\<lparr>parents := upd_row pp_id i (apply_parent_update u) (parents s)\<rparr>"
    by (auto simp: update_parent_def ensure_admin_def repo_update_parent_def op_simps
             dest: parent_response_state)
  have row: "parent_row_ok q \<Longrightarrow> parent_row_ok (apply_parent_update u q)" for q
    using assms(2)
    by (cases "ppu_name u"; cases "ppu_brand u")
       (auto simp: parse_parent_update_def parent_row_ok_def apply_parent_update_def split: if_splits)
  have id: "pp_id (apply_parent_update u q) = pp_id q" for q
    by (simp add: apply_parent_update_def)
  have ids: "pp_id ` set (upd_row pp_id i (apply_parent_update u) (parents s)) = pp_id ` set (parents s)"
    by (simp add: key_set_upd_row id)
  show ?thesis unfolding s' using assms(1)
    by (intro catalog_okI)
       (auto simp: catalog_ok_def unique_upd_row id parent_fk_ok_iff ids intro: row dest!: set_upd_row)
qed

lemma deactivate_keys [simp]:
  "map p_id (deactivate_variants i rows) = map p_id rows"
  "map p_sku (deactivate_variants i rows) = map p_sku rows"
  by (induction rows) (auto simp: deactivate_variants_def)

lemma delete_parent_keeps:
  assumes "catalog_ok s" "delete_parent i a s = (Inr r, s')"
  shows "catalog_ok s'"
proof -
  from assms(2) have s': "s' = s\<lparr>parents := upd_row pp_id i (\<lambda>q. q\<lparr>pp_is_active := False\<rparr>) (parents s),
                                 products := deactivate_variants i (products s)\<rparr>"
    by (auto simp: delete_parent_def ensure_admin_def repo_soft_delete_parent_def op_simps
             split: option.splits)
  have ps: "\<exists>q \<in> set (products s). p = q \<or> p = q\<lparr>p_is_active := False\<rparr>"
    if "p \<in> set (deactivate_variants i (products s))" for p
    using that by (auto simp: deactivate_variants_def split: if_splits)
  have ids: "pp_id ` set (upd_row pp_id i (\<lambda>q. q\<lparr>pp_is_active := False\<rparr>) (parents s)) = pp_id ` set (parents s)"
    by (simp add: key_set_upd_row)
  show ?thesis unfolding s'
  proof (rule catalog_okI, goal_cases)
    case (3 p) then show ?case using assms(1) by (auto simp: catalog_ok_def dest!: ps)
  next
    case (4 p) then show ?case using assms(1) by (auto simp: catalog_ok_def dest!: ps)
  next
    case (5 p) then show ?case using assms(1) by (auto simp: catalog_ok_def parent_fk_ok_iff ids dest!: ps)
  next
    case (7 q) then show ?case using assms(1) by (auto simp: catalog_ok_def parent_row_ok_def dest!: set_upd_row)
  next
    case (8 q) then show ?case using assms(1) by (auto simp: catalog_ok_def dest!: set_upd_row)
  qed (use assms(1) in \<open>simp_all add: catalog_ok_def unique_by_def unique_upd_row\<close>)
qed

section \<open>A small catalog\<close>

text \<open>Concrete rows the witnesses of this and the later theories evaluate on.\<close>

definition sample_user :: "uuid \<Rightarrow> role \<Rightarrow> user" where
  "sample_user i r = \<lparr>u_id = i, u_email = None, u_email_verified = False, u_hashed_password = None,
     u_full_name = None, u_phone = None, u_address = None, u_delivery_ward = None,
     u_delivery_city = None, u_delivery_notes = None, u_role = r, u_is_active = True,
     u_created_at = 0\<rparr>"

definition sample_gas :: product where
  "sample_gas = \<lparr>p_id = 1, p_sku = ''GAS-12'', p_name = ''Gas'', p_brand = ''Petro'', p_size_kg = 1200,
     p_category = Gas, p_unit = Kg, p_price = 40000000, p_sale_price = Some 35000000,
     p_stock_quantity = 5, p_description = None, p_long_description = None, p_image_url = None,
     p_safety_info = None, p_pricing_note = None, p_is_active = True, p_parent_id = None,
     p_colour = None, p_variant_label = None, p_created_at = 10\<rparr>"

definition sample_water :: product where
  "sample_water = \<lparr>p_id = 2, p_sku = ''W20'', p_name = ''Water'', p_brand = ''Vihawa'', p_size_kg = 2000,
     p_category = NuocUong, p_unit = Lit, p_price = 6000000, p_sale_price = None,
     p_stock_quantity = 30, p_description = None, p_long_description = None, p_image_url = None,
     p_safety_info = None, p_pricing_note = None, p_is_active = True, p_parent_id = Some 3,
     p_colour = None, p_variant_label = None, p_created_at = 20\<rparr>"

definition sample_parent :: product_parent where
  "sample_parent = \<lparr>pp_id = 3, pp_name = ''Vihawa'', pp_brand = ''Vihawa'', pp_category = NuocUong,
     pp_description = None, pp_long_description = None, pp_image_url = None, pp_is_active = True\<rparr>"

definition sample_db :: db where
  "sample_db = empty_db\<lparr>products := [sample_gas, sample_water], parents := [sample_parent],
     users := [sample_user 4 Admin, sample_user 5 Customer], next_id := 10\<rparr>"

definition sample_pg :: pg where
  "sample_pg = \<lparr>pg_similar = (\<lambda>a b. a = b), pg_rank = (\<lambda>x. int (length x))\<rparr>"

lemma sample_catalog_ok: "catalog_ok sample_db"
  by code_simp

section \<open>Listings\<close>

lemma set_order_rows [simp]: "set (order_rows key b rows) = set rows"
  by (simp add: order_rows_def)

lemma length_order_rows [simp]: "length (order_rows key b rows) = length rows"
  by (simp add: order_rows_def)

definition search_result :: "pg \<Rightarrow> product_search \<Rightarrow> db \<Rightarrow> product list" where
  "search_result g ps s =
     order_rows (sort_column g (ps_sort_by ps)) (ps_ascending ps)
       (filter (product_matches g ps True) (products s))"

lemma search_products_eval:
  assumes "catalog_ok s"
  shows "search_products g ps s =
    (Inr (make_page (ps_skip ps) (ps_limit ps) (slice (ps_skip ps) (ps_limit ps) (search_result g ps s))
            (length (search_result g ps s))), s)"
proof -
  have "map_op product_response (slice (ps_skip ps) (ps_limit ps) (search_result g ps s)) =
        ret (slice (ps_skip ps) (ps_limit ps) (search_result g ps s))"
    using assms set_slice_subset
    by (intro map_op_ret_id product_response_ok) (fastforce simp: search_result_def catalog_ok_def)
  then show ?thesis
    by (simp add: search_products_def list_products_def op_eval search_result_def Let_def)
qed



lemma find_deactivate:
  "find_row p_id j (deactivate_variants i rows) =
     map_option (\<lambda>p. if p_parent_id p = Some i then p\<lparr>p_is_active := False\<rparr> else p) (find_row p_id j rows)"
  by (induction rows) (auto simp: deactivate_variants_def)

text \<open>
  Deleting a parent (an administrator's request) makes the parent and each of its variants
  unavailable to the storefront, and leaves every other product exactly as available as before.
\<close>

lemma delete_parent_hides:
  assumes "catalog_ok s" and "delete_parent i admin s = (Inr u, s')"
  shows "get_parent i s' = (Inl (AppError NotFound ''product_parent_not_found''), s') \<and>
    (\<forall>p \<in> set (products s). get_product (p_id p) s' =
       (if p_parent_id p = Some i then (Inl (AppError NotFound ''product_not_found''), s')
        else (fst (get_product (p_id p) s), s')))"
proof -
  from assms(2) have s': "s' = s\<lparr>parents := upd_row pp_id i (\<lambda>q. q\<lparr>pp_is_active := False\<rparr>) (parents s),
                                 products := deactivate_variants i (products s)\<rparr>"
    by (auto simp: delete_parent_def ensure_admin_def repo_soft_delete_parent_def op_simps
             split: option.splits)
  have "parent_by_id i True s' = None"
    unfolding s' by (auto simp: parent_by_id_def find_upd_row split: option.splits)
  then have 1: "get_parent i s' = (Inl (AppError NotFound ''product_parent_not_found''), s')"
    by (simp add: get_parent_def op_eval)
  have 2: "get_product (p_id p) s' = (if p_parent_id p = Some i
       then (Inl (AppError NotFound ''product_not_found''), s') else (fst (get_product (p_id p) s), s'))"
    if p: "p \<in> set (products s)" for p
  proof -
    have f: "find_row p_id (p_id p) (products s) = Some p"
      using p assms(1) by (simp add: find_row_unique catalog_ok_def)
    have r: "product_response p = ret p"
      using p assms(1) by (simp add: product_response_ok catalog_ok_def)
    have "product_by_id (p_id p) True s' =
            (if p_parent_id p = Some i then None else product_by_id (p_id p) True s)"
      unfolding s' by (simp add: product_by_id_def find_deactivate f)
    then show ?thesis using f r by (simp add: get_product_def op_eval product_by_id_def)
  qed
  from 1 2 show ?thesis by blast
qed

lemma delete_parent_hides_witness:
  "fst (get_product 2 (snd (delete_parent 3 (sample_user 4 Admin) sample_db)))
     = Inl (AppError NotFound ''product_not_found'') \<and>
   fst (get_product 1 (snd (delete_parent 3 (sample_user 4 Admin) sample_db)))
     = fst (get_product 1 sample_db)"
proof -
  let ?s = "snd (delete_parent 3 (sample_user 4 Admin) sample_db)"
  have run: "delete_parent 3 (sample_user 4 Admin) sample_db = (Inr (), ?s)"
    by (simp add: delete_parent_def ensure_admin_def repo_soft_delete_parent_def op_eval is_admin_def
                  sample_user_def parent_by_id_def sample_db_def empty_db_def sample_parent_def)
  have rows: "sample_gas \<in> set (products sample_db)" "sample_water \<in> set (products sample_db)"
    "p_id sample_gas = 1" "p_id sample_water = 2"
    "p_parent_id sample_water = Some 3" "p_parent_id sample_gas = None"
    by (simp_all add: sample_db_def sample_gas_def sample_water_def)
  show ?thesis
    using delete_parent_hides [OF sample_catalog_ok run] rows by fastforce
qed

lemma fold_min_bounds: "(\<forall>x \<in> set xs. fold min xs a \<le> x) \<and> fold min xs a \<le> (a::int) \<and> fold min xs a \<in> insert a (set xs)"
  by (induction xs arbitrary: a) (fastforce simp: min_def split: if_splits)+

lemma fold_max_bounds: "(\<forall>x \<in> set xs. x \<le> fold max xs a) \<and> (a::int) \<le> fold max xs a \<and> fold max xs a \<in> insert a (set xs)"
  by (induction xs arbitrary: a) (fastforce simp: max_def split: if_splits)+

text \<open>
  A catalog card: the displayed price range encloses the price of every active variant and
  both ends are attained; it says "in stock" exactly if some active variant has stock.
\<close>

lemma card_price_range:
  assumes "filter p_is_active variants \<noteq> []"
  shows "let cd = summarize_parent variants q; active = filter p_is_active variants in
    (\<forall>v \<in> set active. cd_min_price cd \<le> p_price v \<and> p_price v \<le> cd_max_price cd) \<and>
    (\<exists>v \<in> set active. p_price v = cd_min_price cd) \<and> (\<exists>v \<in> set active. p_price v = cd_max_price cd) \<and>
    (cd_in_stock cd \<longleftrightarrow> (\<exists>v \<in> set active. is_in_stock v)) \<and> cd_variant_count cd = length active"
proof -
  obtain v vs where a: "filter p_is_active variants = v # vs" using assms by (cases "filter p_is_active variants") auto
  show ?thesis
    using fold_min_bounds [of "map p_price vs" "p_price v"] fold_max_bounds [of "map p_price vs" "p_price v"]
    by (auto simp: summarize_parent_def Let_def a is_in_stock_def list_ex_iff image_iff)
qed

lemma card_price_range_witness:
  "cd_min_price (summarize_parent [sample_water, sample_gas] sample_parent) = 6000000 \<and>
   cd_max_price (summarize_parent [sample_water, sample_gas] sample_parent) = 40000000 \<and>
   cd_variant_count (summarize_parent [sample_water, sample_gas] sample_parent) = 2"
proof -
  have "filter p_is_active [sample_water, sample_gas] \<noteq> []" by code_simp
  from card_price_range [OF this, of sample_parent]
  show ?thesis
    by (simp add: summarize_parent_def Let_def sample_water_def sample_gas_def)
qed

text \<open>
  An administrator's PATCH that lowers only the price of a discounted product to its sale
  price or below passes the request schema (which compares the sale price with the payload's own
  price only) and then always ends as an unhandled validation error, status 500, with nothing
  changed.
\<close>

lemma price_patch_below_sale_price_fails:
  assumes "catalog_ok s" and "is_admin admin"
    and "product_by_id pid False s = Some p" and "p_sale_price p = Some sp"
    and "0 < v" and "v \<le> sp"
  shows "let pu = no_product_update\<lparr>pu_price := Val v\<rparr> in
    parse_product_update pu = Inr pu \<and>
    transact (update_product pid pu admin) s = (Inl (PyError ''ValidationError''), s) \<and>
    response_status (PyError ''ValidationError'') = 500"
proof -
  let ?pu = "no_product_update\<lparr>pu_price := Val v\<rparr>"
  let ?q = "apply_product_update ?pu p"
  note row = product_by_id_SomeD [OF assms(3)]
  have schema: "parse_product_update ?pu = Inr ?pu"
    using assms(5) by (simp add: parse_product_update_def no_product_update_def gas_size_ok_def sale_price_ok_def)
  have q: "p_sku ?q = p_sku p" "p_parent_id ?q = p_parent_id p"
    by (simp_all add: apply_product_update_def no_product_update_def)
  have bad: "product_response ?q = raise (PyError ''ValidationError'')"
    using assms(4,6) by (simp add: product_response_def apply_product_update_def no_product_update_def
                           product_base_ok_def sale_price_ok_def)
  have "p = p'" if "p' \<in> set (products s)" "p_sku p' = p_sku p" for p'
    using sku_unique [OF assms(1)] row that by metis
  with row q have uniq: "\<forall>r \<in> set (products s). p_id r \<noteq> pid \<longrightarrow> p_sku r \<noteq> p_sku ?q" by auto
  have run: "transact (update_product pid ?pu admin) s = (Inl (PyError ''ValidationError''), s)"
    using assms(1,2,3) row uniq bad q
    by (simp add: update_product_def ensure_admin_def repo_update_product_def op_eval
                  product_update_integrity_def no_product_update_def catalog_ok_def)
  from schema run show ?thesis by simp
qed

lemma price_patch_below_sale_price_fails_witness:
  "transact (update_product 1 (no_product_update\<lparr>pu_price := Val 30000000\<rparr>) (sample_user 4 Admin)) sample_db
     = (Inl (PyError ''ValidationError''), sample_db)"
proof -
  have "is_admin (sample_user 4 Admin)" "product_by_id 1 False sample_db = Some sample_gas"
    "p_sale_price sample_gas = Some 35000000"
    by (simp_all add: is_admin_def sample_user_def product_by_id_def sample_db_def sample_gas_def)
  from price_patch_below_sale_price_fails [OF sample_catalog_ok this, of 30000000]
  show ?thesis by (simp add: Let_def)
qed

end
