(* ===== verification/Coupons.thy ===== *)
theory Coupons
  imports Catalog
begin

text \<open>
  Coupons: the schemas of \<^verbatim>\<open>schemas/coupon.py\<close>, \<^verbatim>\<open>CouponRepository\<close>, the discount computation and
  \<^verbatim>\<open>CouponService\<close>. Invariant \<open>coupons_ok\<close>: codes are normalised and unique, values are in range,
  and a coupon's use count is the number of its redemption rows.
\<close>

section \<open>Schemas\<close>

record coupon_create =
  cc_code :: string
  cc_discount_type :: discount_type
  cc_value :: money
  cc_min_order :: money
  cc_max_discount :: "money option"
  cc_usage_limit :: "int option"
  cc_per_user_limit :: "int option"
  cc_active :: bool
  cc_starts_at :: "time option"
  cc_ends_at :: "time option"

record coupon_update =
  cu_discount_type :: "discount_type patch"
  cu_value :: "money patch"
  cu_min_order :: "money patch"
  cu_max_discount :: "money patch"
  cu_usage_limit :: "int patch"
  cu_per_user_limit :: "int patch"
  cu_active :: "bool patch"
  cu_starts_at :: "time patch"
  cu_ends_at :: "time patch"

definition opt_all :: "('a \<Rightarrow> bool) \<Rightarrow> 'a option \<Rightarrow> bool" where
  "opt_all P v \<longleftrightarrow> (case v of None \<Rightarrow> True | Some x \<Rightarrow> P x)"

definition window_ok :: "time option \<Rightarrow> time option \<Rightarrow> bool" where
  "window_ok starts ends \<longleftrightarrow>
     (case (starts, ends) of (Some a, Some b) \<Rightarrow> a < b | _ \<Rightarrow> True)"

definition coupon_rules_ok ::
    "discount_type \<Rightarrow> money \<Rightarrow> money \<Rightarrow> money option \<Rightarrow> int option \<Rightarrow> int option \<Rightarrow>
     time option \<Rightarrow> time option \<Rightarrow> bool" where
  "coupon_rules_ok dt v mino maxd ulimit plimit starts ends \<longleftrightarrow>
     0 < v \<and> 0 \<le> mino \<and> opt_all (\<lambda>x. 0 < x) maxd \<and> opt_all (\<lambda>x. 1 \<le> x) ulimit \<and>
     opt_all (\<lambda>x. 1 \<le> x) plimit \<and> \<not> (dt = Percent \<and> 10000 < v) \<and> window_ok starts ends"

definition parse_coupon_create :: "coupon_create \<Rightarrow> exn + coupon_create" where
  "parse_coupon_create c =
     (if len_between 3 50 (cc_code c) \<and>
         coupon_rules_ok (cc_discount_type c) (cc_value c) (cc_min_order c) (cc_max_discount c)
           (cc_usage_limit c) (cc_per_user_limit c) (cc_starts_at c) (cc_ends_at c)
      then (case normalize_coupon_code (cc_code c) of
              Inl e \<Rightarrow> Inl (PyError ''ValidationError'')
            | Inr k \<Rightarrow> Inr (c\<lparr>cc_code := k\<rparr>))
      else Inl (PyError ''ValidationError''))"

definition parse_coupon_update :: "coupon_update \<Rightarrow> exn + coupon_update" where
  "parse_coupon_update u =
     (if patch_all (\<lambda>x. 0 < x) (cu_value u) \<and> patch_all (\<lambda>x. 0 \<le> x) (cu_min_order u) \<and>
         patch_all (\<lambda>x. 0 < x) (cu_max_discount u) \<and> patch_all (\<lambda>x. 1 \<le> x) (cu_usage_limit u) \<and>
         patch_all (\<lambda>x. 1 \<le> x) (cu_per_user_limit u)
      then Inr u else Inl (PyError ''ValidationError''))"

section \<open>CouponRepository\<close>

definition new_coupon :: "uuid \<Rightarrow> time \<Rightarrow> coupon_create \<Rightarrow> coupon" where
  "new_coupon i now c =
     \<lparr>c_id = i, c_code = cc_code c, c_discount_type = cc_discount_type c, c_value = cc_value c,
      c_min_order = cc_min_order c, c_max_discount = cc_max_discount c,
      c_usage_limit = cc_usage_limit c, c_used_count = 0, c_per_user_limit = cc_per_user_limit c,
      c_active = cc_active c, c_starts_at = cc_starts_at c, c_ends_at = cc_ends_at c,
      c_created_at = now\<rparr>"

definition repo_create_coupon :: "time \<Rightarrow> coupon_create \<Rightarrow> coupon dbop" where
  "repo_create_coupon now c =
     andThen (gets (\<lambda>s. cc_code c \<notin> c_code ` set (coupons s))) (\<lambda>ok.
     andThen (ensure ok (AppError Conflict ''duplicate_coupon_code'')) (\<lambda>_.
     andThen fresh_id (\<lambda>i.
     andThen (modify (\<lambda>s. s\<lparr>coupons := coupons s @ [new_coupon i now c]\<rparr>)) (\<lambda>_.
     ret (new_coupon i now c)))))"

definition coupon_by_id :: "uuid \<Rightarrow> db \<Rightarrow> coupon option" where
  "coupon_by_id i s = find_row c_id i (coupons s)"

definition coupon_by_code :: "string \<Rightarrow> db \<Rightarrow> coupon option" where
  "coupon_by_code code s = find_row c_code (py_strip (py_upper code)) (coupons s)"

definition count_user_redemptions :: "uuid \<Rightarrow> uuid \<Rightarrow> db \<Rightarrow> int" where
  "count_user_redemptions cid uid s =
     int (length (filter (\<lambda>r. r_coupon_id r = cid \<and> r_user_id r = Some uid) (redemptions s)))"

definition use_coupon :: "coupon \<Rightarrow> coupon" where
  "use_coupon c = c\<lparr>c_used_count := c_used_count c + 1\<rparr>"

definition repo_record_redemption ::
    "time \<Rightarrow> coupon \<Rightarrow> uuid option \<Rightarrow> uuid option \<Rightarrow> redemption dbop" where
  "repo_record_redemption now c uid oid =
     andThen fresh_id (\<lambda>i.
       (let r = \<lparr>r_id = i, r_coupon_id = c_id c, r_user_id = uid, r_order_id = oid,
                 r_created_at = now\<rparr> in
        andThen (modify (\<lambda>s. s\<lparr>coupons := upd_row c_id (c_id c) use_coupon (coupons s),
                               redemptions := redemptions s @ [r]\<rparr>)) (\<lambda>_. ret r)))"

definition apply_coupon_update :: "coupon_update \<Rightarrow> coupon \<Rightarrow> coupon" where
  "apply_coupon_update u c = c\<lparr>
     c_discount_type := patch_val (cu_discount_type u) (c_discount_type c),
     c_value := patch_val (cu_value u) (c_value c),
     c_min_order := patch_val (cu_min_order u) (c_min_order c),
     c_max_discount := patch_opt (cu_max_discount u) (c_max_discount c),
     c_usage_limit := patch_opt (cu_usage_limit u) (c_usage_limit c),
     c_per_user_limit := patch_opt (cu_per_user_limit u) (c_per_user_limit c),
     c_active := patch_val (cu_active u) (c_active c),
     c_starts_at := patch_opt (cu_starts_at u) (c_starts_at c),
     c_ends_at := patch_opt (cu_ends_at u) (c_ends_at c)\<rparr>"

definition repo_update_coupon :: "uuid \<Rightarrow> coupon_update \<Rightarrow> coupon dbop" where
  "repo_update_coupon i u =
     andThen (gets (coupon_by_id i)) (\<lambda>m.
     andThen (require_some (AppError NotFound ''coupon_not_found'') m) (\<lambda>c.
     andThen (ensure (\<not> is_null (cu_discount_type u) \<and> \<not> is_null (cu_value u) \<and>
                      \<not> is_null (cu_min_order u) \<and> \<not> is_null (cu_active u))
               (PyError ''IntegrityError'')) (\<lambda>_.
     andThen (modify (\<lambda>s. s\<lparr>coupons := upd_row c_id i (apply_coupon_update u) (coupons s)\<rparr>)) (\<lambda>_.
     ret (apply_coupon_update u c)))))"

record coupon_search =
  csp_active :: "bool option"
  csp_search :: "string option"
  csp_skip :: nat
  csp_limit :: nat

definition list_coupons_query :: "coupon_search \<Rightarrow> db \<Rightarrow> coupon list \<times> nat" where
  "list_coupons_query q s =
     (let rows = filter (\<lambda>c. (case csp_active q of None \<Rightarrow> True | Some b \<Rightarrow> c_active c = b) \<and>
            (truthy (csp_search q) \<longrightarrow>
               ilike_contains (c_code c) (py_upper (py_strip (the (csp_search q)))))) (coupons s) in
      (slice (csp_skip q) (csp_limit q) (order_rows c_created_at False rows), length rows))"

text \<open>\<^verbatim>\<open>Decimal.quantize\<close> rounds half to even.\<close>

definition round_half_even :: "int \<Rightarrow> int \<Rightarrow> int" where
  "round_half_even n d =
     (let q = n div d; r = n mod d in
      if 2 * r < d then q else if d < 2 * r then q + 1 else if even q then q else q + 1)"

definition compute_discount :: "coupon \<Rightarrow> money \<Rightarrow> money" where
  "compute_discount c sub =
     (let d0 = (if c_discount_type c = Percent then round_half_even (sub * c_value c) 10000
                else c_value c);
          d1 = (case c_max_discount c of None \<Rightarrow> d0 | Some m \<Rightarrow> if m < d0 then m else d0);
          d2 = (if sub < d1 then sub else d1)
      in if d2 < 0 then 0 else d2)"

section \<open>CouponService\<close>

definition check_eligibility :: "coupon option \<Rightarrow> money \<Rightarrow> time \<Rightarrow> exn + coupon" where
  "check_eligibility m sub now =
     (case m of
        None \<Rightarrow> Inl (AppError Validation ''coupon_not_found'')
      | Some c \<Rightarrow>
          if \<not> c_active c then Inl (AppError Validation ''coupon_inactive'')
          else if (case c_starts_at c of None \<Rightarrow> False | Some t \<Rightarrow> now < t)
          then Inl (AppError Validation ''coupon_not_started'')
          else if (case c_ends_at c of None \<Rightarrow> False | Some t \<Rightarrow> t \<le> now)
          then Inl (AppError Validation ''coupon_expired'')
          else if (case c_usage_limit c of None \<Rightarrow> False | Some n \<Rightarrow> n \<le> c_used_count c)
          then Inl (AppError Validation ''coupon_usage_exhausted'')
          else if sub < c_min_order c then Inl (AppError Validation ''coupon_min_order'')
          else Inr c)"

definition validate_coupon :: "time \<Rightarrow> string \<Rightarrow> money \<Rightarrow> (coupon \<times> money) dbop" where
  "validate_coupon now code sub =
     andThen (gets (coupon_by_code code)) (\<lambda>m.
     andThen (lift_result (check_eligibility m sub now)) (\<lambda>c.
     ret (c, compute_discount c sub)))"

definition apply_coupon :: "time \<Rightarrow> string \<Rightarrow> money \<Rightarrow> user option \<Rightarrow> (coupon \<times> money) dbop" where
  "apply_coupon now code sub usr =
     andThen (gets (coupon_by_code code)) (\<lambda>m.
     andThen (lift_result (check_eligibility m sub now)) (\<lambda>c.
     andThen (case c_per_user_limit c of
                None \<Rightarrow> ret ()
              | Some n \<Rightarrow>
                  (case usr of
                     None \<Rightarrow> raise (AppError Validation ''coupon_requires_account'')
                   | Some u \<Rightarrow>
                       andThen (gets (count_user_redemptions (c_id c) (u_id u))) (\<lambda>used.
                       ensure (\<not> n \<le> used) (AppError Validation ''coupon_per_user_exhausted'')))) (\<lambda>_.
     ret (c, compute_discount c sub))))"

definition record_redemption :: "time \<Rightarrow> coupon \<Rightarrow> user option \<Rightarrow> uuid \<Rightarrow> unit dbop" where
  "record_redemption now c usr oid =
     andThen (repo_record_redemption now c (map_option u_id usr) (Some oid)) (\<lambda>_. ret ())"

definition create_coupon :: "time \<Rightarrow> coupon_create \<Rightarrow> user \<Rightarrow> coupon dbop" where
  "create_coupon now c admin =
     andThen (ensure_admin admin) (\<lambda>_. repo_create_coupon now c)"

definition get_coupon :: "uuid \<Rightarrow> user \<Rightarrow> coupon dbop" where
  "get_coupon i admin =
     andThen (ensure_admin admin) (\<lambda>_.
     andThen (gets (coupon_by_id i)) (require_some (AppError NotFound ''coupon_not_found'')))"

definition list_coupons :: "coupon_search \<Rightarrow> user \<Rightarrow> coupon page dbop" where
  "list_coupons q admin =
     andThen (ensure_admin admin) (\<lambda>_.
     andThen (gets (list_coupons_query q)) (\<lambda>(rows, n).
     ret (make_page (csp_skip q) (csp_limit q) rows n)))"

text \<open>
  \<^verbatim>\<open>_validate_update\<close> reads the merged values; \<^verbatim>\<open>Decimal(str(None))\<close> of a null value raises.
\<close>

definition validate_coupon_update :: "coupon \<Rightarrow> coupon_update \<Rightarrow> exn + unit" where
  "validate_coupon_update c u =
     (if is_null (cu_value u) then Inl (PyError ''InvalidOperation'')
      else if \<not> is_null (cu_discount_type u) \<and>
              patch_val (cu_discount_type u) (c_discount_type c) = Percent \<and>
              10000 < patch_val (cu_value u) (c_value c)
      then Inl (AppError Validation ''invalid_coupon'')
      else if \<not> window_ok (patch_opt (cu_starts_at u) (c_starts_at c))
                          (patch_opt (cu_ends_at u) (c_ends_at c))
      then Inl (AppError Validation ''invalid_coupon'')
      else Inr ())"

definition update_coupon :: "uuid \<Rightarrow> coupon_update \<Rightarrow> user \<Rightarrow> coupon dbop" where
  "update_coupon i u admin =
     andThen (ensure_admin admin) (\<lambda>_.
     andThen (gets (coupon_by_id i)) (\<lambda>m.
     andThen (require_some (AppError NotFound ''coupon_not_found'') m) (\<lambda>c.
     andThen (lift_result (validate_coupon_update c u)) (\<lambda>_.
     repo_update_coupon i u))))"

section \<open>The discount\<close>

lemma div_mod_parts:
  assumes "0 < (d::int)"
  obtains q r where "n div d = q" "n mod d = r" "n = d * q + r" "0 \<le> r" "r < d"
  using assms by (metis pos_mod_bound pos_mod_sign mult_div_mod_eq)

lemma round_half_even_error:
  assumes "0 < d"
  shows "2 * n - d \<le> 2 * (d * round_half_even n d) \<and> 2 * (d * round_half_even n d) \<le> 2 * n + d"
proof -
  obtain q r where "n div d = q" "n mod d = r" "n = d * q + r" "0 \<le> r" "r < d"
    using div_mod_parts [OF assms] by metis
  then show ?thesis by (auto simp: round_half_even_def Let_def distrib_left)
qed

lemma round_half_even_tie:
  assumes "0 < d" and "2 * (d * round_half_even n d) = 2 * n + d \<or> 2 * (d * round_half_even n d) = 2 * n - d"
  shows "even (round_half_even n d)"
proof -
  obtain q r where "n div d = q" "n mod d = r" "n = d * q + r" "0 \<le> r" "r < d"
    using div_mod_parts [OF assms(1)] by metis
  with assms(2) show ?thesis by (auto simp: round_half_even_def Let_def distrib_left split: if_splits)
qed

lemma compute_discount_range:
  "0 \<le> sub \<Longrightarrow> 0 \<le> compute_discount c sub \<and> compute_discount c sub \<le> sub"
  by (auto simp: compute_discount_def Let_def)

lemma compute_discount_cap:
  "c_max_discount c = Some m \<Longrightarrow> 0 \<le> m \<Longrightarrow> compute_discount c sub \<le> m"
  by (auto simp: compute_discount_def Let_def)

text \<open>
  C19. The discount of a well-formed coupon on a non-negative subtotal is never negative, never
  more than the subtotal, never more than the coupon's cap; a percent coupon with no binding cap
  gives the exact percentage rounded to the nearest hundredth, ties to even.
\<close>

theorem compute_discount_correct:
  assumes "0 \<le> sub" and "coupon_rules_ok (c_discount_type c) (c_value c) (c_min_order c)
      (c_max_discount c) (c_usage_limit c) (c_per_user_limit c) (c_starts_at c) (c_ends_at c)"
  shows "let d = compute_discount c sub; exact = sub * c_value c in
    0 \<le> d \<and> d \<le> sub \<and> (\<forall>m. c_max_discount c = Some m \<longrightarrow> d \<le> m) \<and>
    (c_discount_type c = Fixed \<longrightarrow> c_max_discount c = None \<longrightarrow> d = min (c_value c) sub) \<and>
    (c_discount_type c = Percent \<longrightarrow> (case c_max_discount c of None \<Rightarrow> True | Some m \<Rightarrow> d < m) \<longrightarrow>
       2 * exact - 10000 \<le> 20000 * d \<and> 20000 * d \<le> 2 * exact + 10000 \<and>
       (20000 * d = 2 * exact + 10000 \<or> 20000 * d = 2 * exact - 10000 \<longrightarrow> even d))"
proof -
  let ?d = "compute_discount c sub" and ?r = "round_half_even (sub * c_value c) 10000"
  have v: "0 < c_value c" and pc: "c_discount_type c = Percent \<Longrightarrow> c_value c \<le> 10000"
    and m: "\<And>m. c_max_discount c = Some m \<Longrightarrow> 0 \<le> m"
    using assms(2) by (auto simp: coupon_rules_ok_def opt_all_def)
  have e: "2 * (sub * c_value c) - 10000 \<le> 20000 * ?r" "20000 * ?r \<le> 2 * (sub * c_value c) + 10000"
    using round_half_even_error [of 10000 "sub * c_value c"] by simp_all
  have tie: "20000 * ?r = 2 * (sub * c_value c) + 10000 \<or> 20000 * ?r = 2 * (sub * c_value c) - 10000
               \<Longrightarrow> even ?r"
    using round_half_even_tie [of 10000 "sub * c_value c"] by simp
  have r0: "0 \<le> ?r"
  proof -
    have "0 \<le> sub * c_value c" using assms(1) v by simp
    then show ?thesis by (auto simp: round_half_even_def Let_def)
  qed
  have rsub: "?r \<le> sub" if "c_discount_type c = Percent"
  proof -
    have "sub * c_value c \<le> sub * 10000" using assms(1) pc [OF that] by (intro mult_left_mono) auto
    with e(2) show ?thesis by linarith
  qed
  have "?d = ?r" if "c_discount_type c = Percent"
    "case c_max_discount c of None \<Rightarrow> True | Some m \<Rightarrow> ?d < m"
    using that r0 rsub by (auto simp: compute_discount_def Let_def split: option.splits if_splits)
  moreover have "c_discount_type c = Fixed \<Longrightarrow> c_max_discount c = None \<Longrightarrow> ?d = min (c_value c) sub"
    using assms(1) v by (simp add: compute_discount_def Let_def)
  ultimately show ?thesis
    using compute_discount_range [OF assms(1), of c] compute_discount_cap [of c _ sub] m e tie
    by (auto simp: Let_def)
qed

definition sample_coupon :: coupon where
  "sample_coupon = \<lparr>c_id = 6, c_code = ''TET10'', c_discount_type = Percent, c_value = 1000,
     c_min_order = 0, c_max_discount = Some 5000000, c_usage_limit = Some 2, c_used_count = 0,
     c_per_user_limit = Some 1, c_active = True, c_starts_at = None, c_ends_at = Some 1000,
     c_created_at = 0\<rparr>"

lemma compute_discount_correct_witness:
  "20000 * compute_discount sample_coupon 345 \<le> 2 * (345 * 1000) + 10000 \<and>
   compute_discount sample_coupon 345 = 34"
proof -
  have "coupon_rules_ok (c_discount_type sample_coupon) (c_value sample_coupon) (c_min_order sample_coupon)
      (c_max_discount sample_coupon) (c_usage_limit sample_coupon) (c_per_user_limit sample_coupon)
      (c_starts_at sample_coupon) (c_ends_at sample_coupon)" by code_simp
  moreover have "compute_discount sample_coupon 345 = 34" by code_simp
  ultimately show ?thesis
    using compute_discount_correct [of 345 sample_coupon] by (simp add: Let_def sample_coupon_def)
qed

section \<open>The coupon invariant\<close>

definition coupon_row_ok :: "coupon \<Rightarrow> bool" where
  "coupon_row_ok c \<longleftrightarrow>
     normalize_coupon_code (c_code c) = Inr (c_code c) \<and>
     coupon_rules_ok (c_discount_type c) (c_value c) (c_min_order c) (c_max_discount c)
       (c_usage_limit c) (c_per_user_limit c) (c_starts_at c) (c_ends_at c)"

definition uses_of :: "uuid \<Rightarrow> redemption list \<Rightarrow> int" where
  "uses_of i rs = int (length (filter (\<lambda>r. r_coupon_id r = i) rs))"

definition coupons_ok :: "db \<Rightarrow> bool" where
  "coupons_ok s \<longleftrightarrow>
     unique_by c_id (coupons s) \<and> unique_by c_code (coupons s) \<and>
     (\<forall>c \<in> set (coupons s). coupon_row_ok c \<and> c_id c < next_id s \<and>
        c_used_count c = uses_of (c_id c) (redemptions s)) \<and>
     (\<forall>r \<in> set (redemptions s). r_coupon_id r \<in> c_id ` set (coupons s))"

lemma coupons_ok_cong:
  assumes "coupons t = coupons s" "redemptions t = redemptions s" "next_id s \<le> next_id t" "coupons_ok s"
  shows "coupons_ok t"
  using assms(4) order_less_le_trans [OF _ assms(3)] by (simp add: coupons_ok_def assms(1,2))

lemma uses_of_simps [simp]:
  "uses_of i [] = 0"
  "uses_of i (rs @ [r]) = uses_of i rs + (if r_coupon_id r = i then 1 else 0)"
  by (simp_all add: uses_of_def)

lemma uses_of_absent: "(\<forall>r \<in> set rs. r_coupon_id r \<noteq> i) \<Longrightarrow> uses_of i rs = 0"
  by (simp add: uses_of_def)

lemma create_coupon_keeps:
  assumes ok: "coupons_ok s" and raw: "parse_coupon_create raw = Inr c"
    and run: "create_coupon now c a s = (Inr r, s')"
  shows "coupons_ok s'"
proof -
  let ?c = "new_coupon (next_id s) now c"
  from run have fresh: "cc_code c \<notin> c_code ` set (coupons s)"
    and s': "s' = s\<lparr>next_id := next_id s + 1, coupons := coupons s @ [?c]\<rparr>"
    by (auto simp: create_coupon_def ensure_admin_def repo_create_coupon_def op_simps)
  have "r_coupon_id x \<noteq> next_id s" if "x \<in> set (redemptions s)" for x
    using ok that by (fastforce simp: coupons_ok_def)
  then have "uses_of (next_id s) (redemptions s) = 0" by (simp add: uses_of_absent)
  moreover have "coupon_row_ok ?c"
    using raw by (auto simp: parse_coupon_create_def coupon_row_ok_def new_coupon_def
                   split: if_splits sum.splits dest: normalize_coupon_code_idem)
  ultimately show ?thesis
    unfolding s' using ok fresh by (auto simp: coupons_ok_def unique_by_def new_coupon_def less_Suc_eq)
qed

text \<open>Rewriting coupons without touching keys, keeping the use counts.\<close>

lemma coupons_ok_update:
  assumes ok: "coupons_ok s"
    and keys: "\<And>c. c_id (f c) = c_id c" "\<And>c. c_code (f c) = c_code c" "\<And>c. c_used_count (f c) = c_used_count c"
    and row: "\<And>c. c \<in> set (coupons s) \<Longrightarrow> c_id c = i \<Longrightarrow> coupon_row_ok (f c)"
  shows "coupons_ok (s\<lparr>coupons := upd_row c_id i f (coupons s)\<rparr>)"
proof -
  have code: "map c_code (upd_row c_id i f (coupons s)) = map c_code (coupons s)"
    by (simp add: upd_row_def keys)
  show ?thesis
    using ok row
    by (auto simp: coupons_ok_def unique_upd_row key_set_upd_row keys unique_by_def [of c_code] code
             dest!: set_upd_row)
qed

lemma update_coupon_keeps:
  assumes ok: "coupons_ok s" and raw: "parse_coupon_update raw = Inr u"
    and run: "update_coupon i u a s = (Inr r, s')"
  shows "coupons_ok s'"
proof -
  from run obtain c where c: "coupon_by_id i s = Some c"
    and v: "validate_coupon_update c u = Inr ()"
    and nn: "\<not> is_null (cu_discount_type u)" "\<not> is_null (cu_value u)" "\<not> is_null (cu_min_order u)"
    and s': "s' = s\<lparr>coupons := upd_row c_id i (apply_coupon_update u) (coupons s)\<rparr>"
    by (auto simp: update_coupon_def ensure_admin_def repo_update_coupon_def op_simps)
  have uniq: "d = c" if "d \<in> set (coupons s)" "c_id d = i" for d
    using that c ok find_row_unique [of c_id "coupons s" d] by (simp add: coupon_by_id_def coupons_ok_def)
  have u: "patch_all (\<lambda>x. 0 < x) (cu_value u)" "patch_all (\<lambda>x. 0 \<le> x) (cu_min_order u)"
    "patch_all (\<lambda>x. 0 < x) (cu_max_discount u)" "patch_all (\<lambda>x. 1 \<le> x) (cu_usage_limit u)"
    "patch_all (\<lambda>x. 1 \<le> x) (cu_per_user_limit u)"
    using raw by (auto simp: parse_coupon_update_def split: if_splits)
  have pv: "patch_all P p \<Longrightarrow> P old \<Longrightarrow> P (patch_val p old)" for P :: "money \<Rightarrow> bool" and p old
    by (cases p) auto
  have po: "patch_all P p \<Longrightarrow> opt_all P old \<Longrightarrow> opt_all P (patch_opt p old)"
    for P :: "int \<Rightarrow> bool" and p old
    by (cases p) (auto simp: opt_all_def)
  have "coupon_row_ok c"
    using ok c by (auto simp: coupons_ok_def coupon_by_id_def dest: find_row_SomeD)
  then have "coupon_row_ok (apply_coupon_update u c)"
    using v nn u by (auto simp: coupon_row_ok_def coupon_rules_ok_def apply_coupon_update_def
                       validate_coupon_update_def intro: pv po split: if_splits)
  with uniq show ?thesis unfolding s'
    by (intro coupons_ok_update ok) (auto simp: apply_coupon_update_def)
qed

lemma record_redemption_keeps:
  assumes ok: "coupons_ok s" and c: "c_id c \<in> c_id ` set (coupons s)"
    and run: "record_redemption now c usr oid s = (Inr u, s')"
  shows "coupons_ok s'"
proof -
  let ?r = "\<lparr>r_id = next_id s, r_coupon_id = c_id c, r_user_id = map_option u_id usr,
             r_order_id = Some oid, r_created_at = now\<rparr>"
  from run have s': "s' = s\<lparr>next_id := next_id s + 1,
      coupons := upd_row c_id (c_id c) use_coupon (coupons s), redemptions := redemptions s @ [?r]\<rparr>"
    by (auto simp: record_redemption_def repo_record_redemption_def op_simps Let_def)
  have k: "c_id (use_coupon d) = c_id d" "c_code (use_coupon d) = c_code d"
    "coupon_row_ok (use_coupon d) = coupon_row_ok d" for d
    by (simp_all add: use_coupon_def coupon_row_ok_def)
  have code: "map c_code (upd_row c_id (c_id c) use_coupon (coupons s)) = map c_code (coupons s)"
    by (simp add: upd_row_def k)
  have rows: "coupon_row_ok d \<and> c_id d < next_id s + 1 \<and>
      c_used_count d = uses_of (c_id d) (redemptions s @ [?r])"
    if "d \<in> set (upd_row c_id (c_id c) use_coupon (coupons s))" for d
  proof -
    from set_upd_row [OF that] obtain q where q: "q \<in> set (coupons s)"
      "(c_id q = c_id c \<and> d = use_coupon q) \<or> (c_id q \<noteq> c_id c \<and> d = q)" by blast
    with ok have "coupon_row_ok q" "c_id q < next_id s" "c_used_count q = uses_of (c_id q) (redemptions s)"
      by (auto simp: coupons_ok_def)
    moreover have "c_used_count (use_coupon q) = c_used_count q + 1" by (simp add: use_coupon_def)
    ultimately show ?thesis using q(2) by (elim disjE conjE) (simp_all add: k)
  qed
  have ids: "c_id ` set (upd_row c_id (c_id c) use_coupon (coupons s)) = c_id ` set (coupons s)"
    by (intro key_set_upd_row k)
  have "unique_by c_id (upd_row c_id (c_id c) use_coupon (coupons s))"
    using ok by (simp add: unique_upd_row k coupons_ok_def)
  moreover have "unique_by c_code (upd_row c_id (c_id c) use_coupon (coupons s))"
    using ok unfolding unique_by_def code by (simp add: coupons_ok_def unique_by_def)
  moreover have "\<forall>r \<in> set (redemptions s @ [?r]). r_coupon_id r \<in> c_id ` set (coupons s)"
    using ok c by (auto simp: coupons_ok_def)
  moreover have f: "coupons s' = upd_row c_id (c_id c) use_coupon (coupons s)"
    "redemptions s' = redemptions s @ [?r]" "next_id s' = next_id s + 1"
    by (simp_all add: s')
  ultimately show ?thesis using rows unfolding coupons_ok_def f ids by blast
qed

lemma apply_coupon_InrD:
  assumes "apply_coupon now code sub usr s = (Inr (c, d), s')"
  shows "s' = s \<and> coupon_by_code code s = Some c \<and> c_active c \<and> d = compute_discount c sub \<and>
    c_min_order c \<le> sub \<and> (\<forall>t. c_starts_at c = Some t \<longrightarrow> t \<le> now) \<and> (\<forall>t. c_ends_at c = Some t \<longrightarrow> now < t) \<and>
    (\<forall>n. c_usage_limit c = Some n \<longrightarrow> c_used_count c < n) \<and>
    (\<forall>n. c_per_user_limit c = Some n \<longrightarrow> (\<exists>u. usr = Some u \<and> count_user_redemptions (c_id c) (u_id u) s < n))"
proof -
  from assms obtain m t where m: "coupon_by_code code s = m"
    and e: "check_eligibility m sub now = Inr c" and d: "d = compute_discount c sub"
    and g: "(case c_per_user_limit c of None \<Rightarrow> ret ()
              | Some n \<Rightarrow> (case usr of None \<Rightarrow> raise (AppError Validation ''coupon_requires_account'')
                 | Some u \<Rightarrow> andThen (gets (count_user_redemptions (c_id c) (u_id u)))
                     (\<lambda>used. ensure (\<not> n \<le> used) (AppError Validation ''coupon_per_user_exhausted'')))) s
           = (Inr (), t)" and t: "s' = t"
    by (auto simp: apply_coupon_def op_simps)
  from e have "m = Some c \<and> c_active c \<and> c_min_order c \<le> sub \<and> (\<forall>t. c_starts_at c = Some t \<longrightarrow> t \<le> now) \<and>
      (\<forall>t. c_ends_at c = Some t \<longrightarrow> now < t) \<and> (\<forall>n. c_usage_limit c = Some n \<longrightarrow> c_used_count c < n)"
    by (auto simp: check_eligibility_def split: option.splits if_splits)
  moreover from g have "t = s \<and> (\<forall>n. c_per_user_limit c = Some n \<longrightarrow>
      (\<exists>u. usr = Some u \<and> count_user_redemptions (c_id c) (u_id u) s < n))"
    by (auto simp: op_simps split: option.splits)
  ultimately show ?thesis using m d t by simp
qed

text \<open>
  An administrator's PATCH with a null coupon value passes the request schema (the field is
  optional) and then always ends as an unhandled error, status 500, with nothing changed.
\<close>

lemma null_coupon_value_fails:
  assumes "is_admin admin" and "coupon_by_id i s = Some c" and "cu_value u = Null"
    and "parse_coupon_update u = Inr u"
  shows "transact (update_coupon i u admin) s = (Inl (PyError ''InvalidOperation''), s) \<and>
    response_status (PyError ''InvalidOperation'') = 500"
  using assms
  by (simp add: update_coupon_def ensure_admin_def op_eval lift_result_def validate_coupon_update_def)

definition no_coupon_update :: coupon_update where
  "no_coupon_update = \<lparr>cu_discount_type = Unset, cu_value = Unset, cu_min_order = Unset,
     cu_max_discount = Unset, cu_usage_limit = Unset, cu_per_user_limit = Unset, cu_active = Unset,
     cu_starts_at = Unset, cu_ends_at = Unset\<rparr>"

lemma null_coupon_value_fails_witness:
  "transact (update_coupon 6 (no_coupon_update\<lparr>cu_value := Null\<rparr>) (sample_user 4 Admin))
     (sample_db\<lparr>coupons := [sample_coupon]\<rparr>)
   = (Inl (PyError ''InvalidOperation''), sample_db\<lparr>coupons := [sample_coupon]\<rparr>)"
  using null_coupon_value_fails [of "sample_user 4 Admin" 6 "sample_db\<lparr>coupons := [sample_coupon]\<rparr>"
          sample_coupon "no_coupon_update\<lparr>cu_value := Null\<rparr>"]
  by (simp add: is_admin_def sample_user_def coupon_by_id_def sample_coupon_def
                parse_coupon_update_def no_coupon_update_def)

end
