(* ===== verification/Stock.thy ===== *)
theory Stock
  imports Catalog
begin

text \<open>
  The interface between orders and products. A store of stock offers taking and giving back units
  of one product; taking or giving a whole list is the loop the order service runs. The product
  repository's \<open>decrement_stock\<close> and \<open>increment_stock\<close> are the interpretation.
\<close>

definition discard :: "('s, 'a) op \<Rightarrow> ('s, unit) op" where
  "discard m = andThen m (\<lambda>_. ret ())"

lemma discard_eq [op_simps]:
  "discard m s = (Inr u, s') \<longleftrightarrow> (\<exists>x. m s = (Inr x, s'))"
  "discard m s = (Inl e, s') \<longleftrightarrow> m s = (Inl e, s')"
  by (auto simp: discard_def op_simps)

text \<open>The units a list of requests asks of one product.\<close>

definition demand :: "uuid \<Rightarrow> (uuid \<times> int) list \<Rightarrow> int" where
  "demand i req = sum_list (map snd (filter (\<lambda>r. fst r = i) req))"

lemma demand_simps [simp]:
  "demand i [] = 0"
  "demand i (r # req) = (if fst r = i then snd r else 0) + demand i req"
  by (simp_all add: demand_def)

lemma demand_append [simp]: "demand i (a @ b) = demand i a + demand i b"
  by (induction a) auto

lemma demand_absent: "i \<notin> fst ` set req \<Longrightarrow> demand i req = 0"
  by (induction req) auto

locale stock_store =
  fixes stock :: "'s \<Rightarrow> uuid \<rightharpoonup> int"
    and rest :: "'s \<Rightarrow> 'r"
    and take_units :: "uuid \<Rightarrow> int \<Rightarrow> ('s, 'x) op"
    and give_units :: "uuid \<Rightarrow> int \<Rightarrow> ('s, 'x) op"
  assumes take_done: "take_units i n s = (Inr x, s') \<Longrightarrow>
      \<exists>k. stock s i = Some k \<and> n \<le> k \<and> stock s' = (stock s)(i \<mapsto> k - n) \<and> rest s' = rest s"
    and take_can: "stock s i = Some k \<Longrightarrow> n \<le> k \<Longrightarrow> \<exists>x s'. take_units i n s = (Inr x, s')"
    and give_done: "give_units i n s = (Inr x, s') \<Longrightarrow>
      \<exists>k. stock s i = Some k \<and> stock s' = (stock s)(i \<mapsto> k + n) \<and> rest s' = rest s"
    and give_can: "stock s i = Some k \<Longrightarrow> \<exists>x s'. give_units i n s = (Inr x, s')"
begin

definition take_all :: "(uuid \<times> int) list \<Rightarrow> ('s, unit) op" where
  "take_all req = for_each (\<lambda>(i, n). discard (take_units i n)) req"

definition give_all :: "(uuid \<times> int) list \<Rightarrow> ('s, unit) op" where
  "give_all req = for_each (\<lambda>(i, n). discard (give_units i n)) req"

lemma take_all_done:
  "take_all req s = (Inr u, s') \<Longrightarrow>
   stock s' = (\<lambda>i. map_option (\<lambda>k. k - demand i req) (stock s i)) \<and> rest s' = rest s"
proof (induction req arbitrary: s)
  case Nil
  then show ?case by (simp add: take_all_def op_simps option.map_ident)
next
  case (Cons r req)
  obtain i n where r: "r = (i, n)" by force
  from Cons.prems obtain t x where "take_units i n s = (Inr x, t)" and rec: "take_all req t = (Inr u, s')"
    by (auto simp: take_all_def r op_simps)
  then obtain k where "stock s i = Some k" "stock t = (stock s)(i \<mapsto> k - n)" "rest t = rest s"
    using take_done by blast
  with Cons.IH [OF rec] show ?case
    by (auto simp: fun_eq_iff r option.map_comp comp_def algebra_simps)
qed

lemma take_all_can:
  "distinct (map fst req) \<Longrightarrow> (\<And>i n. (i, n) \<in> set req \<Longrightarrow> \<exists>k. stock s i = Some k \<and> n \<le> k) \<Longrightarrow>
   \<exists>s'. take_all req s = (Inr (), s')"
proof (induction req arbitrary: s)
  case Nil
  then show ?case by (simp add: take_all_def op_simps)
next
  case (Cons r req)
  obtain i n where r: "r = (i, n)" by force
  with Cons.prems(2) [of i n] take_can obtain x t where t: "take_units i n s = (Inr x, t)"
    by fastforce
  then obtain k where "stock t = (stock s)(i \<mapsto> k - n)" using take_done by blast
  with Cons.prems r have "\<exists>k. stock t j = Some k \<and> m \<le> k" if "(j, m) \<in> set req" for j m
    using that by (force simp: image_iff)
  with Cons.IH [of t] Cons.prems(1) obtain s' where "take_all req t = (Inr (), s')" by auto
  with t show ?case by (auto simp: take_all_def r op_simps)
qed

lemma give_all_done:
  "give_all req s = (Inr u, s') \<Longrightarrow>
   stock s' = (\<lambda>i. map_option (\<lambda>k. k + demand i req) (stock s i)) \<and> rest s' = rest s"
proof (induction req arbitrary: s)
  case Nil
  then show ?case by (simp add: give_all_def op_simps option.map_ident)
next
  case (Cons r req)
  obtain i n where r: "r = (i, n)" by force
  from Cons.prems obtain t x where "give_units i n s = (Inr x, t)" and rec: "give_all req t = (Inr u, s')"
    by (auto simp: give_all_def r op_simps)
  then obtain k where "stock s i = Some k" "stock t = (stock s)(i \<mapsto> k + n)" "rest t = rest s"
    using give_done by blast
  with Cons.IH [OF rec] show ?case
    by (auto simp: fun_eq_iff r option.map_comp comp_def algebra_simps)
qed

lemma give_all_can:
  "(\<And>i n. (i, n) \<in> set req \<Longrightarrow> stock s i \<noteq> None) \<Longrightarrow> \<exists>s'. give_all req s = (Inr (), s')"
proof (induction req arbitrary: s)
  case Nil
  then show ?case by (simp add: give_all_def op_simps)
next
  case (Cons r req)
  obtain i n where r: "r = (i, n)" by force
  with Cons.prems [of i n] give_can obtain x t where t: "give_units i n s = (Inr x, t)"
    by fastforce
  then obtain k where "stock t = (stock s)(i \<mapsto> k + n)" using give_done by blast
  with Cons.prems have "stock t j \<noteq> None" if "(j, m) \<in> set req" for j m
    using that by (auto simp: r)
  with Cons.IH [of t] obtain s' where "give_all req t = (Inr (), s')" by blast
  with t show ?case by (auto simp: give_all_def r op_simps)
qed

text \<open>Giving back what was taken restores the store.\<close>

lemma take_give_restores:
  assumes "take_all req s = (Inr u, t)" "give_all req t = (Inr v, s')"
  shows "stock s' = stock s \<and> rest s' = rest s"
  using take_all_done [OF assms(1)] give_all_done [OF assms(2)]
  by (simp add: option.map_comp comp_def option.map_ident)

end

section \<open>The product repository is a stock store\<close>

definition stock_of :: "db \<Rightarrow> uuid \<rightharpoonup> int" where
  "stock_of s i = map_option p_stock_quantity (find_row p_id i (products s))"

text \<open>Everything of the database except the stock quantities.\<close>

definition but_stock :: "db \<Rightarrow> db" where
  "but_stock s = s\<lparr>products := map (\<lambda>p. p\<lparr>p_stock_quantity := 0\<rparr>) (products s)\<rparr>"

lemma add_stock_row:
  fixes s :: db
  assumes "find_row p_id i (products s) = Some p"
    and "s' = s\<lparr>products := upd_row p_id i (\<lambda>p. p\<lparr>p_stock_quantity := f (p_stock_quantity p)\<rparr>) (products s)\<rparr>"
  shows "stock_of s' = (stock_of s)(i \<mapsto> f (p_stock_quantity p)) \<and> but_stock s' = but_stock s"
proof
  show "stock_of s' = (stock_of s)(i \<mapsto> f (p_stock_quantity p))"
    using assms by (auto simp: stock_of_def fun_eq_iff find_upd_row)
  have "map (\<lambda>p. p\<lparr>p_stock_quantity := 0\<rparr>) (products s') = map (\<lambda>p. p\<lparr>p_stock_quantity := 0\<rparr>) (products s)"
    unfolding assms(2) by (simp add: upd_row_def)
  then show "but_stock s' = but_stock s"
    unfolding but_stock_def using assms(2) by simp
qed

interpretation shelf: stock_store stock_of but_stock decrement_stock increment_stock
proof
  fix i n x k and s s' :: db
  show "decrement_stock i n s = (Inr x, s') \<Longrightarrow>
      \<exists>k. stock_of s i = Some k \<and> n \<le> k \<and> stock_of s' = (stock_of s)(i \<mapsto> k - n) \<and> but_stock s' = but_stock s"
    using add_stock_row [of i s _ s' "\<lambda>k. k - n"]
    by (auto simp: decrement_stock_def op_simps product_by_id_def stock_of_def split: option.splits)
  show "stock_of s i = Some k \<Longrightarrow> n \<le> k \<Longrightarrow> \<exists>x s'. decrement_stock i n s = (Inr x, s')"
    by (auto simp: decrement_stock_def op_simps product_by_id_def stock_of_def split: option.splits)
  show "increment_stock i n s = (Inr x, s') \<Longrightarrow>
      \<exists>k. stock_of s i = Some k \<and> stock_of s' = (stock_of s)(i \<mapsto> k + n) \<and> but_stock s' = but_stock s"
    using add_stock_row [of i s _ s' "\<lambda>k. k + n"]
    by (auto simp: increment_stock_def op_simps product_by_id_def stock_of_def split: option.splits)
  show "stock_of s i = Some k \<Longrightarrow> \<exists>x s'. increment_stock i n s = (Inr x, s')"
    by (auto simp: increment_stock_def op_simps product_by_id_def stock_of_def split: option.splits)
qed

end
