(* ===== verification/Lifecycle.thy ===== *)
theory Lifecycle
  imports Prelude
begin

text \<open>
  Status tables. An entity with a status column moves along a fixed table of allowed next
  statuses; a table whose every move increases a rank is acyclic. The order and the delivery
  tables are the two interpretations.
\<close>

locale status_table =
  fixes moves :: "'s \<Rightarrow> 's list"
    and rank :: "'s \<Rightarrow> nat"
  assumes move_up: "t \<in> set (moves s) \<Longrightarrow> rank s < rank t"
begin

text \<open>\<open>history s ts\<close>: the statuses \<open>ts\<close> taken one after another from \<open>s\<close>.\<close>

fun history :: "'s \<Rightarrow> 's list \<Rightarrow> bool" where
  "history s [] = True"
| "history s (t # ts) = (t \<in> set (moves s) \<and> history t ts)"

lemma history_rank: "history s ts \<Longrightarrow> t \<in> set ts \<Longrightarrow> rank s < rank t"
  by (induction ts arbitrary: s) (auto dest: move_up less_trans)

lemma no_return: "history s ts \<Longrightarrow> s \<notin> set ts"
  using history_rank by blast

lemma no_repeat: "history s ts \<Longrightarrow> distinct (s # ts)"
proof (induction ts arbitrary: s)
  case (Cons t ts)
  then have "distinct (t # ts)" "s \<notin> set (t # ts)" using no_return [OF Cons.prems] by auto
  then show ?case by simp
qed simp

lemma bounded: "history s ts \<Longrightarrow> (\<And>x. rank x \<le> n) \<Longrightarrow> rank s + length ts \<le> n"
proof (induction ts arbitrary: s)
  case (Cons t ts)
  then have "rank s < rank t" "rank t + length ts \<le> n" by (auto dest: move_up)
  then show ?case by simp
qed simp

lemma final: "moves s = [] \<Longrightarrow> history s ts \<Longrightarrow> ts = []"
  by (cases ts) auto

end

end
