(* ===== verification/Orders.thy ===== *)
theory Orders
  imports Coupons Stock Lifecycle "HOL-Library.AList"
begin

text \<open>
  Orders: the schemas of \<^verbatim>\<open>schemas/order.py\<close>, \<^verbatim>\<open>OrderRepository\<close>, \<^verbatim>\<open>OrderService\<close>, the checkout
  endpoint's retry loop and the e-invoice stub. Stock is reached through \<open>stock_store\<close>, the status
  table through \<open>status_table\<close>.
\<close>

section \<open>Schemas\<close>

record order_line =
  li_product_id :: uuid
  li_quantity :: int
  li_is_exchange :: bool

text \<open>
  \<open>ck_customer_email\<close> is the result of the library's e-mail parser. The customer's phone is
  required by the schema, but its validator may return \<^verbatim>\<open>None\<close>.
\<close>

record checkout =
  ck_items :: "order_line list"
  ck_customer_name :: string
  ck_customer_phone :: "string option"
  ck_customer_email :: "string option"
  ck_delivery_address :: string
  ck_delivery_ward :: "string option"
  ck_delivery_district :: "string option"
  ck_delivery_city :: string
  ck_delivery_notes :: "string option"
  ck_recipient_name :: "string option"
  ck_recipient_phone :: "string option"
  ck_payment_method :: payment_method
  ck_vat_invoice_requested :: bool
  ck_vat_info :: "vat_info option"
  ck_customer_notes :: "string option"
  ck_source :: order_source
  ck_referral_conversation_id :: "uuid option"
  ck_coupon_code :: "string option"

definition parse_vat_info :: "vat_info \<Rightarrow> exn + vat_info" where
  "parse_vat_info v =
     (if len_between 2 255 (vat_company_name v) \<and> len_between 5 500 (vat_address v)
      then (case validate_tax_code (vat_tax_code v) of
              Inl e \<Rightarrow> Inl (PyError ''ValidationError'')
            | Inr t \<Rightarrow> Inr (v\<lparr>vat_tax_code := t\<rparr>))
      else Inl (PyError ''ValidationError''))"

definition parse_vat_option :: "vat_info option \<Rightarrow> exn + vat_info option" where
  "parse_vat_option m =
     (case m of None \<Rightarrow> Inr None
      | Some v \<Rightarrow> (case parse_vat_info v of Inl e \<Rightarrow> Inl e | Inr w \<Rightarrow> Inr (Some w)))"

definition normalize_coupon_option :: "string option \<Rightarrow> string option" where
  "normalize_coupon_option m =
     (case m of None \<Rightarrow> None
      | Some c \<Rightarrow> (let t = py_strip (py_upper c) in if t = [] then None else Some t))"

definition order_line_ok :: "order_line \<Rightarrow> bool" where
  "order_line_ok l \<longleftrightarrow> 1 \<le> li_quantity l \<and> li_quantity l \<le> 100"

definition checkout_fields_ok :: "checkout \<Rightarrow> bool" where
  "checkout_fields_ok c \<longleftrightarrow>
     ck_items c \<noteq> [] \<and> list_all order_line_ok (ck_items c) \<and>
     len_between 2 255 (ck_customer_name c) \<and> len_between 5 500 (ck_delivery_address c) \<and>
     opt_max_len 100 (ck_delivery_ward c) \<and> opt_max_len 100 (ck_delivery_district c) \<and>
     len_between 2 100 (ck_delivery_city c) \<and> opt_max_len 1000 (ck_delivery_notes c) \<and>
     opt_all (len_between 2 255) (ck_recipient_name c) \<and> opt_max_len 1000 (ck_customer_notes c) \<and>
     opt_max_len 50 (ck_coupon_code c)"

definition parse_checkout :: "checkout \<Rightarrow> exn + checkout" where
  "parse_checkout c =
     (if \<not> checkout_fields_ok c then Inl (PyError ''ValidationError'')
      else (case (validate_phone_field (ck_customer_phone c), validate_phone_field (ck_recipient_phone c),
                  parse_vat_option (ck_vat_info c)) of
              (Inr ph, Inr rp, Inr vat) \<Rightarrow>
                if (ck_recipient_name c \<noteq> None) \<noteq> (rp \<noteq> None) then Inl (PyError ''ValidationError'')
                else if ck_vat_invoice_requested c \<noteq> (vat \<noteq> None) then Inl (PyError ''ValidationError'')
                else Inr (c\<lparr>ck_customer_phone := ph, ck_recipient_phone := rp, ck_vat_info := vat,
                            ck_coupon_code := normalize_coupon_option (ck_coupon_code c)\<rparr>)
            | _ \<Rightarrow> Inl (PyError ''ValidationError'')))"

text \<open>\<^verbatim>\<open>OrderResponse.model_validate\<close>: the order number must be set, the VAT block parses again.\<close>

definition order_response :: "order \<Rightarrow> (db, order) op" where
  "order_response ord =
     (if o_order_number ord = None then raise (PyError ''ValidationError'')
      else (case parse_vat_option (o_vat_info ord) of
              Inl e \<Rightarrow> raise e
            | Inr v \<Rightarrow> ret (ord\<lparr>o_vat_info := v\<rparr>)))"

lemma order_response_state: "order_response ord s = (r, s') \<Longrightarrow> s' = s"
  by (auto simp: order_response_def op_simps split: if_splits sum.splits)

section \<open>Status table\<close>

fun order_moves :: "order_status \<Rightarrow> order_status list" where
  "order_moves OPending = [OConfirmed, OCancelled]"
| "order_moves OConfirmed = [OShipping, OCancelled]"
| "order_moves OShipping = [ODelivered, OCancelled]"
| "order_moves ODelivered = []"
| "order_moves OCancelled = []"

fun order_rank :: "order_status \<Rightarrow> nat" where
  "order_rank OPending = 0"
| "order_rank OConfirmed = 1"
| "order_rank OShipping = 2"
| "order_rank ODelivered = 3"
| "order_rank OCancelled = 3"

interpretation order_life: status_table order_moves order_rank
  by unfold_locales (case_tac s; auto)

definition can_be_cancelled :: "order \<Rightarrow> bool" where
  "can_be_cancelled ord \<longleftrightarrow> o_status ord = OPending \<or> o_status ord = OConfirmed"

definition is_guest_order :: "order \<Rightarrow> bool" where
  "is_guest_order ord \<longleftrightarrow> o_user_id ord = None"

definition recipient_name :: "order \<Rightarrow> string" where
  "recipient_name ord =
     (if truthy (o_different_recipient_name ord) then the (o_different_recipient_name ord)
      else o_customer_name ord)"

definition recipient_phone :: "order \<Rightarrow> string" where
  "recipient_phone ord =
     (if truthy (o_different_recipient_phone ord) then the (o_different_recipient_phone ord)
      else o_customer_phone ord)"

section \<open>OrderRepository\<close>

definition order_by_id :: "uuid \<Rightarrow> db \<Rightarrow> order option" where
  "order_by_id i s = find_row o_id i (orders s)"

definition order_by_number :: "string \<Rightarrow> db \<Rightarrow> order option" where
  "order_by_number num s = find (\<lambda>ord. o_order_number ord = Some num) (orders s)"

definition order_by_key :: "uuid \<Rightarrow> db \<Rightarrow> order option" where
  "order_by_key key s = find (\<lambda>ord. o_idempotency_key ord = Some key) (orders s)"

definition order_by_number_and_phone :: "string \<Rightarrow> string \<Rightarrow> db \<Rightarrow> order option" where
  "order_by_number_and_phone num phone s =
     find (\<lambda>ord. o_order_number ord = Some num \<and> o_customer_phone ord = phone) (orders s)"

definition order_numbers :: "db \<Rightarrow> string list" where
  "order_numbers s = List.map_filter o_order_number (orders s)"

definition next_order_number :: "time \<Rightarrow> db \<Rightarrow> string" where
  "next_order_number now s = next_number ''GB'' (ymd now) (order_numbers s)"

text \<open>One element of \<open>items_data\<close>, and the row it becomes.\<close>

record line_data =
  ld_product_id :: uuid
  ld_product_name :: string
  ld_product_brand :: string
  ld_product_size_kg :: int
  ld_quantity :: int
  ld_unit_price :: money
  ld_subtotal :: money
  ld_is_exchange :: bool

definition new_order_item :: "time \<Rightarrow> line_data \<Rightarrow> order_item dbop" where
  "new_order_item now l =
     andThen fresh_id (\<lambda>i. ret
       \<lparr>oi_id = i, oi_product_id = Some (ld_product_id l), oi_product_name = ld_product_name l,
        oi_product_brand = Some (ld_product_brand l), oi_product_size_kg = Some (ld_product_size_kg l),
        oi_quantity = ld_quantity l, oi_unit_price = ld_unit_price l, oi_subtotal = ld_subtotal l,
        oi_is_exchange = ld_is_exchange l, oi_created_at = now\<rparr>)"

text \<open>
  \<open>build\<close> is the order the caller filled in: it receives the identifier, the number, the phone and
  the items. A missing customer phone violates \<open>NOT NULL\<close> and nothing catches the driver's error.
\<close>

definition create_with_items ::
    "time \<Rightarrow> string option \<Rightarrow> (uuid \<Rightarrow> string \<Rightarrow> string \<Rightarrow> order_item list \<Rightarrow> order) \<Rightarrow>
     line_data list \<Rightarrow> order dbop" where
  "create_with_items now phone build lines =
     andThen (gets (next_order_number now)) (\<lambda>num.
     andThen (require_some (PyError ''IntegrityError'') phone) (\<lambda>ph.
     andThen fresh_id (\<lambda>i.
     andThen (map_op (new_order_item now) lines) (\<lambda>items.
     andThen (modify (\<lambda>s. s\<lparr>orders := orders s @ [build i num ph items]\<rparr>)) (\<lambda>_.
     ret (build i num ph items))))))"

definition set_status :: "time \<Rightarrow> order_status \<Rightarrow> string option \<Rightarrow> order \<Rightarrow> order" where
  "set_status now st remark ord =
     ord\<lparr>o_status := st,
         o_internal_notes := (if truthy remark then remark else o_internal_notes ord),
         o_delivered_at := (if st = ODelivered then Some now else o_delivered_at ord),
         o_cancelled_at := (if st = OCancelled then Some now else o_cancelled_at ord),
         o_cancelled_reason := (if st = OCancelled then remark else o_cancelled_reason ord)\<rparr>"

definition repo_update_status :: "time \<Rightarrow> uuid \<Rightarrow> order_status \<Rightarrow> string option \<Rightarrow> order dbop" where
  "repo_update_status now i st remark =
     andThen (gets (order_by_id i)) (\<lambda>m.
     andThen (require_some (AppError NotFound ''order_not_found'') m) (\<lambda>ord.
     andThen (ensure (st \<in> set (order_moves (o_status ord)))
               (AppError Validation ''invalid_status_transition'')) (\<lambda>_.
     andThen (modify (\<lambda>s. s\<lparr>orders := upd_row o_id i (set_status now st remark) (orders s)\<rparr>)) (\<lambda>_.
     ret (set_status now st remark ord)))))"

definition repo_cancel_order :: "time \<Rightarrow> uuid \<Rightarrow> string option \<Rightarrow> order dbop" where
  "repo_cancel_order now i reason = repo_update_status now i OCancelled reason"

record order_search =
  osp_status :: "order_status option"
  osp_source :: "order_source option"
  osp_search :: "string option"
  osp_skip :: nat
  osp_limit :: nat

definition default_order_search :: order_search where
  "default_order_search =
     \<lparr>osp_status = None, osp_source = None, osp_search = None, osp_skip = 0, osp_limit = 20\<rparr>"

definition order_matches :: "order_search \<Rightarrow> order \<Rightarrow> bool" where
  "order_matches q ord \<longleftrightarrow>
     (case osp_status q of None \<Rightarrow> True | Some st \<Rightarrow> o_status ord = st) \<and>
     (case osp_source q of None \<Rightarrow> True | Some src \<Rightarrow> o_source ord = src) \<and>
     (truthy (osp_search q) \<longrightarrow>
        (let t = py_strip (the (osp_search q)) in
         (case o_order_number ord of None \<Rightarrow> False | Some num \<Rightarrow> ilike_contains num t) \<or>
         ilike_contains (o_customer_name ord) t \<or> ilike_contains (o_customer_phone ord) t))"

definition repo_list :: "(order \<Rightarrow> bool) \<Rightarrow> order_search \<Rightarrow> db \<Rightarrow> order list \<times> nat" where
  "repo_list P q s =
     (let rows = filter (\<lambda>ord. P ord \<and> order_matches q ord) (orders s) in
      (slice (osp_skip q) (osp_limit q) (order_rows o_created_at False rows), length rows))"

definition list_user_orders :: "uuid \<Rightarrow> order_search \<Rightarrow> db \<Rightarrow> order list \<times> nat" where
  "list_user_orders uid q s = repo_list (\<lambda>ord. o_user_id ord = Some uid) q s"

definition list_orders_by_phone :: "string \<Rightarrow> order_search \<Rightarrow> db \<Rightarrow> order list \<times> nat" where
  "list_orders_by_phone phone q s =
     repo_list (\<lambda>ord. o_customer_phone ord = phone \<or>
        (case o_user_id ord of None \<Rightarrow> False
         | Some u \<Rightarrow> (case find_row u_id u (users s) of None \<Rightarrow> False | Some v \<Rightarrow> u_phone v = Some phone))) q s"

definition repo_list_all_orders :: "order_search \<Rightarrow> db \<Rightarrow> order list \<times> nat" where
  "repo_list_all_orders q s = repo_list (\<lambda>ord. True) q s"

text \<open>The ordered quantity of a product over the orders that are not cancelled.\<close>

definition product_lines :: "uuid \<Rightarrow> db \<Rightarrow> order_item list" where
  "product_lines pid s =
     filter (\<lambda>it. oi_product_id it = Some pid)
       (concat (map o_items (filter (\<lambda>ord. o_status ord \<noteq> OCancelled) (orders s))))"

definition total_sold :: "uuid \<Rightarrow> db \<Rightarrow> int" where
  "total_sold pid s = sum_list (map oi_quantity (product_lines pid s))"

definition repo_best_sellers :: "pg \<Rightarrow> nat \<Rightarrow> db \<Rightarrow> (product \<times> int) list" where
  "repo_best_sellers g limit s =
     take limit (sort_key (\<lambda>(p, n). - n) (sort_key (\<lambda>(p, n). pg_rank g (p_name p))
       (map (\<lambda>p. (p, total_sold (p_id p) s))
         (filter (\<lambda>p. p_is_active p \<and> product_lines (p_id p) s \<noteq> []) (products s)))))"

section \<open>Checkout\<close>

text \<open>The delivery fee: 5,000 per unit of water, nothing for other products.\<close>

definition water_delivery_fee_per_unit :: money where
  "water_delivery_fee_per_unit = 500000"

definition calculate_delivery_fee :: "category \<Rightarrow> int \<Rightarrow> money" where
  "calculate_delivery_fee cat quantity =
     (if cat = NuocUong then water_delivery_fee_per_unit * quantity else 0)"

text \<open>
  The two dictionaries the cart is folded into; a Python dictionary keeps the order in which keys
  were first inserted, as \<^verbatim>\<open>AList.update\<close> does.
\<close>

definition add_request :: "order_line \<Rightarrow> (uuid \<times> int) list \<Rightarrow> (uuid \<times> int) list" where
  "add_request l d =
     AList.update (li_product_id l)
       ((case map_of d (li_product_id l) of None \<Rightarrow> 0 | Some n \<Rightarrow> n) + li_quantity l) d"

definition requested_by_product :: "order_line list \<Rightarrow> (uuid \<times> int) list" where
  "requested_by_product ls = fold add_request ls []"

definition add_exchange :: "order_line \<Rightarrow> (uuid \<times> bool) list \<Rightarrow> (uuid \<times> bool) list" where
  "add_exchange l d =
     AList.update (li_product_id l)
       ((case map_of d (li_product_id l) of None \<Rightarrow> False | Some b \<Rightarrow> b) \<or> li_is_exchange l) d"

definition exchange_by_product :: "order_line list \<Rightarrow> (uuid \<times> bool) list" where
  "exchange_by_product ls = fold add_exchange ls []"

text \<open>
  What a request takes from its surroundings: the clock, whether the service was built with a
  coupon service, the order in which \<^verbatim>\<open>list({...})\<close> enumerates a set of identifiers, and whether the
  session's transaction is still unused: PostgreSQL refuses \<^verbatim>\<open>SET TRANSACTION ISOLATION LEVEL\<close> once a
  query has run in the transaction.
\<close>

record order_env =
  env_now :: time
  env_coupons :: bool
  env_txn_unused :: bool
  env_set_order :: "uuid list \<Rightarrow> uuid list"

definition set_order_ok :: "(uuid list \<Rightarrow> uuid list) \<Rightarrow> bool" where
  "set_order_ok f \<longleftrightarrow> (\<forall>xs. set (f xs) = set xs \<and> distinct (f xs))"

definition check_product :: "(uuid \<rightharpoonup> product) \<Rightarrow> uuid \<Rightarrow> unit dbop" where
  "check_product prods pid =
     andThen (require_some (AppError NotFound ''product_not_found'') (prods pid)) (\<lambda>p.
     ensure (p_is_active p) (AppError Validation ''product_inactive''))"

definition price_line ::
    "(uuid \<rightharpoonup> product) \<Rightarrow> (uuid \<times> bool) list \<Rightarrow> uuid \<times> int \<Rightarrow> line_data dbop" where
  "price_line prods exch r =
     andThen (require_some (PyError ''KeyError'') (prods (fst r))) (\<lambda>p.
     andThen (ensure (snd r \<le> p_stock_quantity p) (AppError InsufficientStock ''insufficient_stock'')) (\<lambda>_.
     ret \<lparr>ld_product_id = p_id p, ld_product_name = p_name p, ld_product_brand = p_brand p,
          ld_product_size_kg = p_size_kg p, ld_quantity = snd r,
          ld_unit_price = product_effective_price p,
          ld_subtotal = product_effective_price p * snd r,
          ld_is_exchange = (map_of exch (fst r) = Some True)\<rparr>))"

definition calculate_shipping :: "(uuid \<rightharpoonup> product) \<Rightarrow> (uuid \<times> int) list \<Rightarrow> money" where
  "calculate_shipping prods req =
     sum_list (map (\<lambda>(i, n). case prods i of None \<Rightarrow> 0
                              | Some p \<Rightarrow> calculate_delivery_fee (p_category p) n) req)"

definition checkout_coupon ::
    "order_env \<Rightarrow> checkout \<Rightarrow> money \<Rightarrow> user option \<Rightarrow> (coupon option \<times> money) dbop" where
  "checkout_coupon env ck sub usr =
     (if truthy (ck_coupon_code ck)
      then andThen (ensure (env_coupons env) (AppError Validation ''coupon_unavailable'')) (\<lambda>_.
           andThen (apply_coupon (env_now env) (the (ck_coupon_code ck)) sub usr) (\<lambda>(c, d).
           ret (Some c, d)))
      else ret (None, 0))"

definition build_order ::
    "order_env \<Rightarrow> checkout \<Rightarrow> user option \<Rightarrow> uuid \<Rightarrow> money \<Rightarrow> money \<Rightarrow> money \<Rightarrow> money \<Rightarrow>
     coupon option \<Rightarrow> uuid \<Rightarrow> string \<Rightarrow> string \<Rightarrow> order_item list \<Rightarrow> order" where
  "build_order env ck usr key sub ship disc tot coup i num ph items =
     \<lparr>o_id = i, o_order_number = Some num, o_user_id = map_option u_id usr,
      o_customer_name = ck_customer_name ck, o_customer_phone = ph,
      o_customer_email = (if truthy (ck_customer_email ck) then ck_customer_email ck else None),
      o_delivery_address = ck_delivery_address ck, o_delivery_ward = ck_delivery_ward ck,
      o_delivery_district = ck_delivery_district ck, o_delivery_city = ck_delivery_city ck,
      o_delivery_notes = ck_delivery_notes ck,
      o_different_recipient_name = ck_recipient_name ck,
      o_different_recipient_phone = ck_recipient_phone ck,
      o_subtotal = sub, o_shipping_fee = ship, o_discount_amount = disc,
      o_coupon_id = map_option c_id coup, o_coupon_code = map_option c_code coup,
      o_total_amount = tot, o_vat_invoice_requested = ck_vat_invoice_requested ck,
      o_vat_info = ck_vat_info ck, o_einvoice = None, o_payment_method = ck_payment_method ck,
      o_payment_status = PayPending, o_status = OPending, o_source = ck_source ck,
      o_referral_conversation_id = ck_referral_conversation_id ck, o_idempotency_key = Some key,
      o_customer_notes = ck_customer_notes ck, o_internal_notes = None, o_cancelled_at = None,
      o_cancelled_reason = None, o_delivered_at = None, o_created_at = env_now env,
      o_items = items\<rparr>"

text \<open>The part of \<^verbatim>\<open>create_order\<close> after the cart was priced.\<close>

definition place_order ::
    "order_env \<Rightarrow> checkout \<Rightarrow> user option \<Rightarrow> uuid \<Rightarrow> (uuid \<times> int) list \<Rightarrow> line_data list \<Rightarrow>
     money \<Rightarrow> order dbop" where
  "place_order env ck usr key req lines ship =
     (let sub = sum_list (map ld_subtotal lines) in
      andThen (checkout_coupon env ck sub usr) (\<lambda>(coup, disc).
        (let raw = sub + ship - disc; tot = (if raw < 0 then 0 else raw) in
         andThen (for_each (\<lambda>(i, n). discard (decrement_stock i n)) req) (\<lambda>_.
         andThen (create_with_items (env_now env) (ck_customer_phone ck)
                    (build_order env ck usr key sub ship disc tot coup) lines) (\<lambda>ord.
         andThen (case coup of None \<Rightarrow> ret ()
                  | Some c \<Rightarrow> record_redemption (env_now env) c usr (o_id ord)) (\<lambda>_.
         order_response ord))))))"

definition create_order :: "order_env \<Rightarrow> checkout \<Rightarrow> user option \<Rightarrow> uuid \<Rightarrow> order dbop" where
  "create_order env ck usr key =
     andThen (ensure (env_txn_unused env) (PyError ''ActiveSQLTransaction'')) (\<lambda>_.
     andThen (gets (order_by_key key)) (\<lambda>existing.
       case existing of
         Some ord \<Rightarrow> order_response ord
       | None \<Rightarrow>
           (let pids = env_set_order env (map li_product_id (ck_items ck));
                req = requested_by_product (ck_items ck);
                exch = exchange_by_product (ck_items ck) in
            andThen (gets (get_many_for_update pids)) (\<lambda>prods.
            andThen (for_each (check_product prods) pids) (\<lambda>_.
            andThen (map_op (price_line prods exch) req) (\<lambda>lines.
            place_order env ck usr key req lines (calculate_shipping prods req)))))))"

text \<open>
  \<^verbatim>\<open>_create_order_with_retry\<close>: an attempt the database aborts with a serialization failure is
  rolled back and repeated, three attempts in all; any other outcome is final. \<open>aborted\<close> says which
  attempts the database aborts.
\<close>

definition serialization_failure :: exn where
  "serialization_failure = PyError ''SerializationFailure''"

definition is_serialization_failure :: "exn \<Rightarrow> bool" where
  "is_serialization_failure e \<longleftrightarrow> e = serialization_failure"

definition attempt :: "bool \<Rightarrow> (db, 'a) op \<Rightarrow> (db, 'a) op" where
  "attempt abort m s = (if abort then (Inl serialization_failure, s) else m s)"

fun retry_op :: "nat \<Rightarrow> bool list \<Rightarrow> (db, 'a) op \<Rightarrow> (db, 'a) op" where
  "retry_op 0 aborted m = attempt (case aborted of [] \<Rightarrow> False | b # _ \<Rightarrow> b) m"
| "retry_op (Suc k) [] m = attempt False m"
| "retry_op (Suc k) (b # aborted) m = (\<lambda>s.
     case attempt b m s of
       (Inl e, s') \<Rightarrow> if is_serialization_failure e then retry_op k aborted m s else (Inl e, s')
     | (Inr x, s') \<Rightarrow> (Inr x, s'))"

definition checkout_endpoint :: "bool list \<Rightarrow> order_env \<Rightarrow> checkout \<Rightarrow> user option \<Rightarrow> uuid \<Rightarrow> order dbop" where
  "checkout_endpoint aborted env raw usr key =
     transact (andThen (lift_result (parse_checkout raw)) (\<lambda>ck.
       retry_op 2 aborted (create_order env ck usr key)))"

section \<open>The other operations of OrderService\<close>

definition ensure_staff :: "user \<Rightarrow> unit dbop" where
  "ensure_staff u = ensure (is_staff u) (AppError Forbidden ''staff_required'')"

definition can_view :: "order \<Rightarrow> user option \<Rightarrow> string option \<Rightarrow> bool" where
  "can_view ord usr phone \<longleftrightarrow>
     (case usr of None \<Rightarrow> False | Some u \<Rightarrow> is_staff u \<or> o_user_id ord = Some (u_id u)) \<or>
     (truthy phone \<and> o_customer_phone ord = the phone)"

definition ensure_can_view :: "order \<Rightarrow> user option \<Rightarrow> string option \<Rightarrow> unit dbop" where
  "ensure_can_view ord usr phone = ensure (can_view ord usr phone) (AppError Forbidden ''order_forbidden'')"

definition find_order :: "uuid \<Rightarrow> order dbop" where
  "find_order i =
     andThen (gets (order_by_id i)) (require_some (AppError NotFound ''order_not_found''))"

definition order_list_response :: "order_search \<Rightarrow> order list \<times> nat \<Rightarrow> order page dbop" where
  "order_list_response q rn =
     andThen (map_op order_response (fst rn)) (\<lambda>items.
     ret (make_page (osp_skip q) (osp_limit q) items (snd rn)))"

text \<open>\<^verbatim>\<open>GuestOrderLookup\<close> normalises the phone before the service sees it.\<close>

definition parse_guest_lookup :: "string \<Rightarrow> string \<Rightarrow> exn + string" where
  "parse_guest_lookup num phone =
     (if len_between 8 20 num then
        (case validate_phone phone of Inl e \<Rightarrow> Inl (PyError ''ValidationError'') | Inr p \<Rightarrow> Inr p)
      else Inl (PyError ''ValidationError''))"

definition lookup_guest_order :: "string \<Rightarrow> string \<Rightarrow> order dbop" where
  "lookup_guest_order num phone =
     andThen (gets (order_by_number_and_phone num phone)) (\<lambda>m.
     andThen (require_some (AppError NotFound ''order_not_found'') m) order_response)"

definition lookup_endpoint :: "string \<Rightarrow> string \<Rightarrow> order dbop" where
  "lookup_endpoint num phone =
     andThen (lift_result (parse_guest_lookup num phone)) (lookup_guest_order num)"

definition get_user_orders :: "user \<Rightarrow> order_search \<Rightarrow> order page dbop" where
  "get_user_orders u q = andThen (gets (list_user_orders (u_id u) q)) (order_list_response q)"

text \<open>A malformed phone raises the validator's \<^verbatim>\<open>ValueError\<close>, for every caller.\<close>

definition get_order :: "uuid \<Rightarrow> user option \<Rightarrow> string option \<Rightarrow> order dbop" where
  "get_order i usr phone =
     andThen (find_order i) (\<lambda>ord.
     andThen (if truthy phone then andThen (lift_result (validate_phone (the phone))) (\<lambda>p. ret (Some p))
              else ret None) (\<lambda>np.
     andThen (ensure_can_view ord usr np) (\<lambda>_. order_response ord)))"

datatype skip_reason = SkipInactive | SkipOutOfStock | SkipNotFound

record reorder_item =
  ri_product_id :: uuid
  ri_sku :: string
  ri_name :: string
  ri_brand :: string
  ri_size_kg :: int
  ri_category :: category
  ri_unit :: unit_kind
  ri_price :: money
  ri_quantity :: int
  ri_image_url :: "string option"
  ri_stock_quantity :: int

record skipped_item =
  si_product_id :: "uuid option"
  si_product_name :: string
  si_reason :: skip_reason

definition reorder_line :: "db \<Rightarrow> order_item \<Rightarrow> skipped_item + reorder_item" where
  "reorder_line s it =
     (case (case oi_product_id it of None \<Rightarrow> None | Some pid \<Rightarrow> product_by_id pid False s) of
        None \<Rightarrow> Inl \<lparr>si_product_id = oi_product_id it, si_product_name = oi_product_name it,
                      si_reason = SkipNotFound\<rparr>
      | Some p \<Rightarrow>
          if \<not> p_is_active p
          then Inl \<lparr>si_product_id = Some (p_id p), si_product_name = p_name p, si_reason = SkipInactive\<rparr>
          else if p_stock_quantity p \<le> 0
          then Inl \<lparr>si_product_id = Some (p_id p), si_product_name = p_name p, si_reason = SkipOutOfStock\<rparr>
          else Inr \<lparr>ri_product_id = p_id p, ri_sku = p_sku p, ri_name = p_name p, ri_brand = p_brand p,
                    ri_size_kg = p_size_kg p, ri_category = p_category p, ri_unit = p_unit p,
                    ri_price = product_effective_price p,
                    ri_quantity = min (oi_quantity it) (p_stock_quantity p),
                    ri_image_url = p_image_url p, ri_stock_quantity = p_stock_quantity p\<rparr>)"

fun split_sums :: "('a + 'b) list \<Rightarrow> 'a list \<times> 'b list" where
  "split_sums [] = ([], [])"
| "split_sums (Inl a # xs) = (a # fst (split_sums xs), snd (split_sums xs))"
| "split_sums (Inr b # xs) = (fst (split_sums xs), b # snd (split_sums xs))"

definition reorder :: "uuid \<Rightarrow> user \<Rightarrow> (skipped_item list \<times> reorder_item list) dbop" where
  "reorder i u =
     andThen (find_order i) (\<lambda>ord.
     andThen (ensure (o_user_id ord = Some (u_id u)) (AppError Forbidden ''order_forbidden'')) (\<lambda>_.
     gets (\<lambda>s. split_sums (map (reorder_line s) (o_items ord)))))"

definition get_best_sellers :: "pg \<Rightarrow> nat \<Rightarrow> (product \<times> int) list dbop" where
  "get_best_sellers g limit =
     andThen (gets (repo_best_sellers g limit))
       (map_op (\<lambda>(p, n). andThen (product_response p) (\<lambda>r. ret (r, n))))"

definition list_all_orders :: "user \<Rightarrow> order_search \<Rightarrow> order page dbop" where
  "list_all_orders admin q =
     andThen (ensure_staff admin) (\<lambda>_.
     andThen (gets (repo_list_all_orders q)) (order_list_response q))"

text \<open>The lines of an order that still point to a product, as requests.\<close>

definition restock_list :: "order \<Rightarrow> (uuid \<times> int) list" where
  "restock_list ord =
     List.map_filter (\<lambda>it. map_option (\<lambda>pid. (pid, oi_quantity it)) (oi_product_id it)) (o_items ord)"

definition restock :: "order \<Rightarrow> unit dbop" where
  "restock ord = for_each (\<lambda>(i, n). discard (increment_stock i n)) (restock_list ord)"

definition update_order_status ::
    "time \<Rightarrow> uuid \<Rightarrow> order_status \<Rightarrow> user \<Rightarrow> string option \<Rightarrow> order dbop" where
  "update_order_status now i st admin remark =
     andThen (ensure_staff admin) (\<lambda>_.
     andThen (find_order i) (\<lambda>ord.
     andThen (ensure (st \<in> set (order_moves (o_status ord)))
               (AppError Validation ''invalid_status_transition'')) (\<lambda>_.
     andThen (if st = OCancelled then restock ord else ret ()) (\<lambda>_.
     andThen (repo_update_status now i st remark) order_response))))"

definition cancel_order ::
    "time \<Rightarrow> uuid \<Rightarrow> user option \<Rightarrow> string option \<Rightarrow> string option \<Rightarrow> order dbop" where
  "cancel_order now i usr reason phone =
     andThen (find_order i) (\<lambda>ord.
     andThen (ensure_can_view ord usr phone) (\<lambda>_.
     andThen (ensure (can_be_cancelled ord) (AppError Validation ''order_not_cancellable'')) (\<lambda>_.
     andThen (restock ord) (\<lambda>_.
     andThen (repo_cancel_order now i reason) order_response))))"

record order_stats =
  st_total :: nat
  st_pending :: nat
  st_confirmed :: nat
  st_shipping :: nat
  st_delivered :: nat
  st_cancelled :: nat

definition count_status :: "order_status \<Rightarrow> order list \<Rightarrow> nat" where
  "count_status st rows = length (filter (\<lambda>ord. o_status ord = st) rows)"

definition get_statistics :: "user \<Rightarrow> order_stats dbop" where
  "get_statistics admin =
     andThen (ensure_staff admin) (\<lambda>_.
     andThen (gets (repo_list_all_orders (default_order_search\<lparr>osp_limit := 100\<rparr>))) (\<lambda>(rows, n). ret
       \<lparr>st_total = n, st_pending = count_status OPending rows,
        st_confirmed = count_status OConfirmed rows, st_shipping = count_status OShipping rows,
        st_delivered = count_status ODelivered rows, st_cancelled = count_status OCancelled rows\<rparr>))"

section \<open>E-invoices\<close>

text \<open>The one integrated provider is the local stub; any other configured name is refused.\<close>

definition issue_invoice :: "time \<Rightarrow> order \<Rightarrow> einvoice" where
  "issue_invoice now ord =
     \<lparr>ei_provider = ''none'', ei_status = ''stub'', ei_order_number = o_order_number ord,
      ei_total_amount = o_total_amount ord, ei_issued_at = now\<rparr>"

definition get_einvoice_provider :: "string \<Rightarrow> (time \<Rightarrow> order \<Rightarrow> einvoice) dbop" where
  "get_einvoice_provider name =
     (if name = ''none'' then ret issue_invoice
      else raise (AppError NotImplemented ''einvoice_provider_not_configured''))"

definition issue_for_order :: "time \<Rightarrow> string \<Rightarrow> uuid \<Rightarrow> einvoice dbop" where
  "issue_for_order now provider i =
     andThen (find_order i) (\<lambda>ord.
     andThen (ensure (o_status ord = ODelivered) (AppError Validation ''order_not_delivered'')) (\<lambda>_.
     andThen (get_einvoice_provider provider) (\<lambda>issue.
     andThen (modify (\<lambda>s. s\<lparr>orders := upd_row o_id i (\<lambda>r. r\<lparr>o_einvoice := Some (issue now ord)\<rparr>) (orders s)\<rparr>)) (\<lambda>_.
     ret (issue now ord)))))"

end
