(* ===== verification/Checkout.thy ===== *)
theory Checkout
  imports Orders
begin

text \<open>
  Checkout: what the cart is folded into, what a successful \<open>create_order\<close> did to the database,
  when it is refused, and that a key is used once.
\<close>

section \<open>The cart\<close>

text \<open>The units of one product over all lines of the cart.\<close>

definition cart_units :: "uuid \<Rightarrow> order_line list \<Rightarrow> int" where
  "cart_units i ls = sum_list (map li_quantity (filter (\<lambda>l. li_product_id l = i) ls))"

lemma cart_units_simps [simp]:
  "cart_units i [] = 0"
  "cart_units i (ls @ [l]) = cart_units i ls + (if li_product_id l = i then li_quantity l else 0)"
  by (simp_all add: cart_units_def)

lemma requested_snoc:
  "requested_by_product (ls @ [l]) = add_request l (requested_by_product ls)"
  by (simp add: requested_by_product_def)

lemma requested_map_of:
  "map_of (requested_by_product ls) =
     (\<lambda>i. if i \<in> li_product_id ` set ls then Some (cart_units i ls) else None)"
proof (induction ls rule: rev_induct)
  case Nil
  then show ?case by (simp add: requested_by_product_def fun_eq_iff)
next
  case (snoc l ls)
  have "cart_units i ls = 0" if "i \<notin> li_product_id ` set ls" for i
    using that by (simp add: cart_units_def filter_empty_conv image_iff) (metis (mono_tags) filter_False list.map(1) sum_list.Nil)
  then show ?case
    using snoc by (auto simp: requested_snoc add_request_def update_conv' fun_eq_iff)
qed

lemma requested_distinct: "distinct (map fst (requested_by_product ls))"
  by (induction ls rule: rev_induct)
     (simp_all add: requested_snoc add_request_def distinct_update requested_by_product_def [of "[]"])

lemma requested_keys: "fst ` set (requested_by_product ls) = li_product_id ` set ls"
proof -
  have "dom (map_of (requested_by_product ls)) = li_product_id ` set ls"
    by (auto simp: requested_map_of split: if_splits)
  then show ?thesis by (simp add: dom_map_of_conv_image_fst)
qed

lemma requested_mem:
  "(i, n) \<in> set (requested_by_product ls) \<longleftrightarrow> i \<in> li_product_id ` set ls \<and> n = cart_units i ls"
  using map_of_eq_Some_iff [OF requested_distinct, of ls i n] by (auto simp: requested_map_of split: if_splits)

lemma demand_distinct:
  "distinct (map fst req) \<Longrightarrow> demand i req = (case map_of req i of None \<Rightarrow> 0 | Some n \<Rightarrow> n)"
  by (induction req) (auto simp: demand_absent)

lemma cart_units_absent: "i \<notin> li_product_id ` set ls \<Longrightarrow> cart_units i ls = 0"
  unfolding cart_units_def by (subst filter_False) auto

lemma demand_requested: "demand i (requested_by_product ls) = cart_units i ls"
  by (simp add: demand_distinct [OF requested_distinct] requested_map_of cart_units_absent)

section \<open>The steps of create_order\<close>

lemma for_each_check:
  "for_each (check_product prods) pids s = (Inr u, s') \<longleftrightarrow>
     s' = s \<and> (\<forall>i \<in> set pids. \<exists>p. prods i = Some p \<and> p_is_active p)"
  by (induction pids) (auto simp: op_simps check_product_def)

definition line_of :: "(uuid \<times> bool) list \<Rightarrow> product \<Rightarrow> int \<Rightarrow> line_data" where
  "line_of exch p n =
     \<lparr>ld_product_id = p_id p, ld_product_name = p_name p, ld_product_brand = p_brand p,
      ld_product_size_kg = p_size_kg p, ld_quantity = n, ld_unit_price = product_effective_price p,
      ld_subtotal = product_effective_price p * n, ld_is_exchange = (map_of exch (p_id p) = Some True)\<rparr>"

text \<open>The line the code builds for one entry of the request dictionary.\<close>

definition priced :: "(uuid \<times> bool) list \<Rightarrow> db \<Rightarrow> uuid \<times> int \<Rightarrow> line_data \<Rightarrow> bool" where
  "priced exch s r l \<longleftrightarrow>
     (\<exists>p. find_row p_id (fst r) (products s) = Some p \<and> snd r \<le> p_stock_quantity p \<and>
          l = line_of exch p (snd r))"

lemma get_many_SomeD:
  "get_many_for_update pids s i = Some p \<Longrightarrow> find_row p_id i (products s) = Some p \<and> p_id p = i"
  by (auto simp: get_many_for_update_def dest: find_row_SomeD split: if_splits)

lemma price_lines_done:
  assumes "map_op (price_line (get_many_for_update pids s) exch) req s = (Inr lines, s')"
  shows "s' = s \<and> list_all2 (priced exch s) req lines"
proof -
  have "b = a \<and> priced exch s r l"
    if "price_line (get_many_for_update pids s) exch r a = (Inr l, b)" for r l and a b :: db
    using that by (auto simp: price_line_def op_simps priced_def line_of_def dest!: get_many_SomeD)
  from map_op_Inr_list_all2 [OF assms this] show ?thesis .
qed

definition item_row :: "time \<Rightarrow> uuid \<Rightarrow> line_data \<Rightarrow> order_item" where
  "item_row now i l =
     \<lparr>oi_id = i, oi_product_id = Some (ld_product_id l), oi_product_name = ld_product_name l,
      oi_product_brand = Some (ld_product_brand l), oi_product_size_kg = Some (ld_product_size_kg l),
      oi_quantity = ld_quantity l, oi_unit_price = ld_unit_price l, oi_subtotal = ld_subtotal l,
      oi_is_exchange = ld_is_exchange l, oi_created_at = now\<rparr>"

lemma new_order_item_eval:
  "new_order_item now l s = (Inr (item_row now (next_id s) l), s\<lparr>next_id := next_id s + 1\<rparr>)"
  by (simp add: op_eval new_order_item_def fresh_id_def item_row_def)

lemma new_items:
  "map_op (new_order_item now) lines s =
     (Inr (map2 (item_row now) [next_id s..<next_id s + length lines] lines),
      s\<lparr>next_id := next_id s + length lines\<rparr>)"
proof (induction lines arbitrary: s)
  case (Cons l ls)
  have "[next_id s..<next_id s + length (l # ls)] = next_id s # [next_id s + 1..<next_id s + 1 + length ls]"
    by (simp add: upt_conv_Cons del: upt_Suc)
  then show ?case
    using Cons.IH [of "s\<lparr>next_id := next_id s + 1\<rparr>"]
    by (simp add: andThen_def ret_def new_order_item_eval [of now l s] del: upt_Suc)
qed (simp add: ret_def)

lemma but_stock_eqD:
  assumes "but_stock t = but_stock s"
  shows "users t = users s" "parents t = parents s" "coupons t = coupons s"
    "redemptions t = redemptions s" "orders t = orders s" "deliveries t = deliveries s"
    "wishes t = wishes s" "next_id t = next_id s"
    "map (\<lambda>p. p\<lparr>p_stock_quantity := 0\<rparr>) (products t) = map (\<lambda>p. p\<lparr>p_stock_quantity := 0\<rparr>) (products s)"
  using arg_cong [OF assms, of users] arg_cong [OF assms, of parents] arg_cong [OF assms, of coupons]
    arg_cong [OF assms, of redemptions] arg_cong [OF assms, of orders] arg_cong [OF assms, of deliveries]
    arg_cong [OF assms, of wishes] arg_cong [OF assms, of next_id]
    arg_cong [OF assms, of products]
  by (simp_all add: but_stock_def)

lemma checkout_coupon_done:
  assumes "checkout_coupon env ck sub usr s = (Inr (coup, disc), s')"
  shows "s' = s \<and> (case coup of None \<Rightarrow> disc = 0 \<and> \<not> truthy (ck_coupon_code ck)
    | Some c \<Rightarrow> truthy (ck_coupon_code ck) \<and>
        apply_coupon (env_now env) (the (ck_coupon_code ck)) sub usr s = (Inr (c, disc), s))"
  using assms
  by (auto simp: checkout_coupon_def op_simps split: if_splits dest: apply_coupon_InrD)

definition charged :: "money \<Rightarrow> money \<Rightarrow> money \<Rightarrow> money" where
  "charged sub ship disc = (if sub + ship - disc < 0 then 0 else sub + ship - disc)"

definition with_order :: "order \<Rightarrow> nat \<Rightarrow> db \<Rightarrow> db" where
  "with_order row n s = s\<lparr>next_id := next_id s + n, orders := orders s @ [row]\<rparr>"

text \<open>The row \<open>place_order\<close> stores.\<close>

definition placed_row ::
    "order_env \<Rightarrow> checkout \<Rightarrow> user option \<Rightarrow> uuid \<Rightarrow> line_data list \<Rightarrow> money \<Rightarrow> coupon option \<Rightarrow> money \<Rightarrow>
     string \<Rightarrow> db \<Rightarrow> order" where
  "placed_row env ck usr key lines ship coup disc ph s =
     (let sub = sum_list (map ld_subtotal lines) in
      build_order env ck usr key sub ship disc (charged sub ship disc) coup (next_id s)
        (next_order_number (env_now env) s) ph
        (map2 (item_row (env_now env)) [next_id s + 1..<next_id s + 1 + length lines] lines))"

definition find_product :: "db \<Rightarrow> uuid \<rightharpoonup> product" where
  "find_product s i = find_row p_id i (products s)"

lemma shipping_cong:
  "(\<And>i n. (i, n) \<in> set req \<Longrightarrow> f i = g i) \<Longrightarrow> calculate_shipping f req = calculate_shipping g req"
  unfolding calculate_shipping_def by (rule arg_cong [where f = sum_list], rule map_cong) auto

lemma place_order_done:
  assumes "place_order env ck usr key req lines ship s = (Inr ord, s')"
  shows "\<exists>coup disc ph s1 v.
    checkout_coupon env ck (sum_list (map ld_subtotal lines)) usr s = (Inr (coup, disc), s) \<and>
    shelf.take_all req s = (Inr (), s1) \<and> ck_customer_phone ck = Some ph \<and>
    (case coup of
       None \<Rightarrow> s' = with_order (placed_row env ck usr key lines ship coup disc ph s1) (1 + length lines) s1
     | Some c \<Rightarrow> record_redemption (env_now env) c usr (next_id s1)
                   (with_order (placed_row env ck usr key lines ship coup disc ph s1) (1 + length lines) s1)
                 = (Inr (), s')) \<and>
    parse_vat_option (ck_vat_info ck) = Inr v \<and>
    ord = (placed_row env ck usr key lines ship coup disc ph s1)\<lparr>o_vat_info := v\<rparr>"
proof -
  let ?sub = "sum_list (map ld_subtotal lines)"
  from assms obtain coup disc s0 s1 s2 s3 row where
    c0: "checkout_coupon env ck ?sub usr s = (Inr (coup, disc), s0)"
    and t0: "shelf.take_all req s0 = (Inr (), s1)"
    and w: "create_with_items (env_now env) (ck_customer_phone ck)
              (build_order env ck usr key ?sub ship disc (charged ?sub ship disc) coup) lines s1 = (Inr row, s2)"
    and r: "(case coup of None \<Rightarrow> ret () | Some c \<Rightarrow> record_redemption (env_now env) c usr (o_id row)) s2 = (Inr (), s3)"
    and o: "order_response row s3 = (Inr ord, s')"
    unfolding place_order_def Let_def charged_def shelf.take_all_def
    by (auto simp: op_simps split: prod.splits)
  have "s0 = s" using checkout_coupon_done [OF c0] by simp
  with c0 t0 have c: "checkout_coupon env ck ?sub usr s = (Inr (coup, disc), s)"
    and t: "shelf.take_all req s = (Inr (), s1)" by simp_all
  from w obtain ph where ph: "ck_customer_phone ck = Some ph"
    and row: "row = placed_row env ck usr key lines ship coup disc ph s1"
    and s2: "s2 = with_order row (1 + length lines) s1"
    by (auto simp: create_with_items_def op_simps new_items placed_row_def with_order_def Let_def)
  have id: "o_id row = next_id s1" and vat: "o_vat_info row = ck_vat_info ck"
    by (simp_all add: row placed_row_def build_order_def Let_def)
  from o obtain v where v: "parse_vat_option (ck_vat_info ck) = Inr v" "ord = row\<lparr>o_vat_info := v\<rparr>" "s' = s3"
    by (auto simp: order_response_def op_simps vat split: if_splits sum.splits)
  from r have "case coup of None \<Rightarrow> s' = with_order row (1 + length lines) s1
     | Some c \<Rightarrow> record_redemption (env_now env) c usr (next_id s1) (with_order row (1 + length lines) s1) = (Inr (), s')"
    by (auto simp: op_simps s2 v(3) id split: option.splits)
  with c t ph v row show ?thesis by blast
qed

lemma create_order_done:
  assumes "create_order env ck usr key s = (Inr ord, s')" and "order_by_key key s = None"
    and "set_order_ok (env_set_order env)"
  shows "\<exists>lines. list_all2 (priced (exchange_by_product (ck_items ck)) s) (requested_by_product (ck_items ck)) lines \<and>
    (\<forall>i \<in> li_product_id ` set (ck_items ck). \<exists>p. find_product s i = Some p \<and> p_is_active p) \<and>
    place_order env ck usr key (requested_by_product (ck_items ck)) lines
      (calculate_shipping (find_product s) (requested_by_product (ck_items ck))) s = (Inr ord, s')"
proof -
  let ?pids = "env_set_order env (map li_product_id (ck_items ck))"
  let ?req = "requested_by_product (ck_items ck)"
  have pids: "set ?pids = li_product_id ` set (ck_items ck)"
    using assms(3) by (simp add: set_order_ok_def)
  from assms(1,2) obtain lines t t' where
    chk: "for_each (check_product (get_many_for_update ?pids s)) ?pids s = (Inr (), t)"
    and pr: "map_op (price_line (get_many_for_update ?pids s) (exchange_by_product (ck_items ck))) ?req t = (Inr lines, t')"
    and pl: "place_order env ck usr key ?req lines (calculate_shipping (get_many_for_update ?pids s) ?req) t' = (Inr ord, s')"
    by (auto simp: create_order_def op_simps Let_def)
  from chk have t: "t = s" and act: "\<forall>i \<in> set ?pids. \<exists>p. get_many_for_update ?pids s i = Some p \<and> p_is_active p"
    by (auto simp: for_each_check)
  from price_lines_done [OF pr [unfolded t]] have t': "t' = s"
    and lines: "list_all2 (priced (exchange_by_product (ck_items ck)) s) ?req lines" by auto
  have "get_many_for_update ?pids s i = find_product s i" if "i \<in> set ?pids" for i
    using that by (simp add: get_many_for_update_def find_product_def)
  then have ship: "calculate_shipping (get_many_for_update ?pids s) ?req = calculate_shipping (find_product s) ?req"
    by (intro shipping_cong) (auto simp: requested_mem pids)
  have "\<forall>i \<in> li_product_id ` set (ck_items ck). \<exists>p. find_product s i = Some p \<and> p_is_active p"
    using act pids by (metis find_product_def get_many_SomeD)
  with lines pl show ?thesis unfolding t' ship by blast
qed

section \<open>What a placed order did\<close>

definition redemption_row :: "time \<Rightarrow> coupon \<Rightarrow> user option \<Rightarrow> uuid \<Rightarrow> uuid \<Rightarrow> redemption" where
  "redemption_row now c usr oid i =
     \<lparr>r_id = i, r_coupon_id = c_id c, r_user_id = map_option u_id usr, r_order_id = Some oid,
      r_created_at = now\<rparr>"

lemma record_redemption_done:
  "record_redemption now c usr oid s = (Inr u, s') \<longleftrightarrow>
     s' = s\<lparr>next_id := next_id s + 1, coupons := upd_row c_id (c_id c) use_coupon (coupons s),
           redemptions := redemptions s @ [redemption_row now c usr oid (next_id s)]\<rparr>"
  by (auto simp: record_redemption_def repo_record_redemption_def op_simps Let_def redemption_row_def)

lemma map_item_rows:
  "length is = length ls \<Longrightarrow> (\<And>i l. f (item_row now i l) = g l) \<Longrightarrow>
   map f (map2 (item_row now) is ls) = map g ls"
  by (induction "is" ls rule: list_induct2) auto

lemma priced_lines:
  assumes "list_all2 (priced exch s) req lines"
  shows "map (\<lambda>l. (ld_product_id l, ld_quantity l)) lines = req"
    and "\<forall>l \<in> set lines. \<exists>p. find_product s (ld_product_id l) = Some p \<and> l = line_of exch p (ld_quantity l) \<and>
           ld_quantity l \<le> p_stock_quantity p"
proof -
  have step: "(ld_product_id l, ld_quantity l) = r \<and>
      (\<exists>p. find_product s (ld_product_id l) = Some p \<and> l = line_of exch p (ld_quantity l) \<and>
           ld_quantity l \<le> p_stock_quantity p)"
    if pr: "priced exch s r l" for r l
  proof -
    from pr obtain p where p: "find_row p_id (fst r) (products s) = Some p"
      "snd r \<le> p_stock_quantity p" "l = line_of exch p (snd r)" by (auto simp: priced_def)
    have "p_id p = fst r" using find_row_SomeD [OF p(1)] by simp
    with p have "ld_product_id l = fst r" "ld_quantity l = snd r" by (simp_all add: line_of_def)
    with p show ?thesis by (auto simp: find_product_def)
  qed
  show "map (\<lambda>l. (ld_product_id l, ld_quantity l)) lines = req"
    using assms by (induction rule: list_all2_induct) (auto dest!: step)
  show "\<forall>l \<in> set lines. \<exists>p. find_product s (ld_product_id l) = Some p \<and>
           l = line_of exch p (ld_quantity l) \<and> ld_quantity l \<le> p_stock_quantity p"
    using assms by (induction rule: list_all2_induct) (simp_all add: step)
qed

lemma cart_units_pos:
  assumes "list_all order_line_ok ls" "i \<in> li_product_id ` set ls"
  shows "0 < cart_units i ls"
proof -
  let ?q = "map li_quantity (filter (\<lambda>l. li_product_id l = i) ls)"
  have "\<forall>q \<in> set ?q. 0 < q" using assms(1) by (auto simp: list_all_iff order_line_ok_def)
  moreover have "?q \<noteq> []" using assms(2) by (auto simp: filter_empty_conv)
  ultimately have "0 < sum_list ?q"
    by (cases ?q) (auto intro!: add_pos_nonneg sum_list_nonneg simp: less_imp_le)
  then show ?thesis by (simp add: cart_units_def)
qed

lemma parse_checkout_lines: "parse_checkout raw = Inr ck \<Longrightarrow> list_all order_line_ok (ck_items ck) \<and> ck_items ck \<noteq> []"
  by (auto simp: parse_checkout_def checkout_fields_ok_def split: if_splits sum.splits)

text \<open>
  The record of a successful checkout: its lines, coupon, phone and stored row, and the database
  after it, field by field.
\<close>

definition placed ::
    "order_env \<Rightarrow> checkout \<Rightarrow> user option \<Rightarrow> uuid \<Rightarrow> db \<Rightarrow> line_data list \<Rightarrow> coupon option \<Rightarrow> money \<Rightarrow>
     string \<Rightarrow> order \<Rightarrow> db \<Rightarrow> bool" where
  "placed env ck usr key s lines coup disc ph row s' \<longleftrightarrow>
     list_all2 (priced (exchange_by_product (ck_items ck)) s) (requested_by_product (ck_items ck)) lines \<and>
     checkout_coupon env ck (sum_list (map ld_subtotal lines)) usr s = (Inr (coup, disc), s) \<and>
     ck_customer_phone ck = Some ph \<and>
     row = placed_row env ck usr key lines
             (calculate_shipping (find_product s) (requested_by_product (ck_items ck))) coup disc ph s \<and>
     stock_of s' = (\<lambda>i. map_option (\<lambda>k. k - cart_units i (ck_items ck)) (stock_of s i)) \<and>
     map (\<lambda>p. p\<lparr>p_stock_quantity := 0\<rparr>) (products s') = map (\<lambda>p. p\<lparr>p_stock_quantity := 0\<rparr>) (products s) \<and>
     users s' = users s \<and> parents s' = parents s \<and> deliveries s' = deliveries s \<and>
     wishes s' = wishes s \<and>
     orders s' = orders s @ [row] \<and>
     (case coup of
        None \<Rightarrow> coupons s' = coupons s \<and> redemptions s' = redemptions s \<and>
                next_id s' = next_id s + 1 + length lines
      | Some c \<Rightarrow> coupons s' = upd_row c_id (c_id c) use_coupon (coupons s) \<and>
                  redemptions s' = redemptions s @
                    [redemption_row (env_now env) c usr (o_id row) (next_id s + 1 + length lines)] \<and>
                  next_id s' = next_id s + 1 + length lines + 1)"

lemma create_order_placed:
  assumes "create_order env ck usr key s = (Inr ord, s')" and "order_by_key key s = None"
    and "set_order_ok (env_set_order env)"
  shows "\<exists>lines coup disc ph row v. placed env ck usr key s lines coup disc ph row s' \<and>
    (\<forall>i \<in> li_product_id ` set (ck_items ck). \<exists>p. find_product s i = Some p \<and> p_is_active p) \<and>
    parse_vat_option (ck_vat_info ck) = Inr v \<and> ord = row\<lparr>o_vat_info := v\<rparr>"
proof -
  let ?req = "requested_by_product (ck_items ck)"
  let ?ship = "calculate_shipping (find_product s) ?req"
  from create_order_done [OF assms] obtain lines where
    l: "list_all2 (priced (exchange_by_product (ck_items ck)) s) ?req lines"
    and act: "\<forall>i \<in> li_product_id ` set (ck_items ck). \<exists>p. find_product s i = Some p \<and> p_is_active p"
    and pl: "place_order env ck usr key ?req lines ?ship s = (Inr ord, s')" by blast
  from place_order_done [OF pl] obtain coup disc ph s1 v where
    c: "checkout_coupon env ck (sum_list (map ld_subtotal lines)) usr s = (Inr (coup, disc), s)"
    and t: "shelf.take_all ?req s = (Inr (), s1)" and ph: "ck_customer_phone ck = Some ph"
    and s': "case coup of
       None \<Rightarrow> s' = with_order (placed_row env ck usr key lines ?ship coup disc ph s1) (1 + length lines) s1
     | Some c \<Rightarrow> record_redemption (env_now env) c usr (next_id s1)
                   (with_order (placed_row env ck usr key lines ?ship coup disc ph s1) (1 + length lines) s1)
                 = (Inr (), s')"
    and v: "parse_vat_option (ck_vat_info ck) = Inr v"
    and ord: "ord = (placed_row env ck usr key lines ?ship coup disc ph s1)\<lparr>o_vat_info := v\<rparr>" by blast
  from shelf.take_all_done [OF t] have st: "stock_of s1 = (\<lambda>i. map_option (\<lambda>k. k - cart_units i (ck_items ck)) (stock_of s i))"
    and bs: "but_stock s1 = but_stock s" by (simp_all add: demand_requested)
  note f = but_stock_eqD [OF bs]
  let ?row = "placed_row env ck usr key lines ?ship coup disc ph s"
  have row: "placed_row env ck usr key lines ?ship coup disc ph s1 = ?row"
    by (simp add: placed_row_def f next_order_number_def order_numbers_def)
  have frame: "stock_of s' = stock_of s1" "products s' = products s1" "users s' = users s1"
    "parents s' = parents s1" "deliveries s' = deliveries s1" "wishes s' = wishes s1"
    "orders s' = orders s1 @ [?row]"
    using s' unfolding row
    by (auto simp: with_order_def record_redemption_done stock_of_def fun_eq_iff split: option.splits)
  have id: "o_id (placed_row env ck usr key lines sh c d ph s) = next_id s" for sh c d
    by (simp add: placed_row_def build_order_def Let_def)
  have money: "case coup of None \<Rightarrow> coupons s' = coupons s \<and> redemptions s' = redemptions s \<and>
                next_id s' = next_id s + 1 + length lines
      | Some c \<Rightarrow> coupons s' = upd_row c_id (c_id c) use_coupon (coupons s) \<and>
                  redemptions s' = redemptions s @
                    [redemption_row (env_now env) c usr (o_id ?row) (next_id s + 1 + length lines)] \<and>
                  next_id s' = next_id s + 1 + length lines + 1"
    using s' unfolding row
    by (auto simp: id f with_order_def record_redemption_done split: option.splits)
  have "placed env ck usr key s lines coup disc ph ?row s'"
    unfolding placed_def using l c ph st f frame money by simp
  with act v ord show ?thesis unfolding row by blast
qed

lemma placed_row_fields [simp]:
  "o_id (placed_row env ck usr key lines ship coup disc ph s) = next_id s"
  "o_order_number (placed_row env ck usr key lines ship coup disc ph s) = Some (next_order_number (env_now env) s)"
  "o_items (placed_row env ck usr key lines ship coup disc ph s) =
     map2 (item_row (env_now env)) [next_id s + 1..<next_id s + 1 + length lines] lines"
  "o_subtotal (placed_row env ck usr key lines ship coup disc ph s) = sum_list (map ld_subtotal lines)"
  "o_shipping_fee (placed_row env ck usr key lines ship coup disc ph s) = ship"
  "o_discount_amount (placed_row env ck usr key lines ship coup disc ph s) = disc"
  "o_total_amount (placed_row env ck usr key lines ship coup disc ph s) =
     charged (sum_list (map ld_subtotal lines)) ship disc"
  "o_status (placed_row env ck usr key lines ship coup disc ph s) = OPending"
  "o_idempotency_key (placed_row env ck usr key lines ship coup disc ph s) = Some key"
  "o_vat_info (placed_row env ck usr key lines ship coup disc ph s) = ck_vat_info ck"
  "o_user_id (placed_row env ck usr key lines ship coup disc ph s) = map_option u_id usr"
  "o_customer_phone (placed_row env ck usr key lines ship coup disc ph s) = ph"
  "o_coupon_id (placed_row env ck usr key lines ship coup disc ph s) = map_option c_id coup"
  by (simp_all add: placed_row_def build_order_def Let_def)

lemma find_product_row:
  "catalog_ok s \<Longrightarrow> find_product s i = Some p \<Longrightarrow> product_row_ok p \<and> p_id p = i \<and> p \<in> set (products s)"
  by (auto simp: find_product_def catalog_ok_def dest: find_row_SomeD)

lemma row_price_pos: "product_row_ok p \<Longrightarrow> 0 < product_effective_price p"
  by (simp add: product_row_ok_def product_base_ok_def product_effective_price_def effective_price_pos)

lemma item_rows_set:
  assumes "it \<in> set (map2 (item_row now) is ls)" "length is = length ls"
  shows "\<exists>i l. l \<in> set ls \<and> it = item_row now i l"
  using assms by (force simp: set_zip)

text \<open>What each stored line says, in terms of the products read.\<close>

lemma placed_items:
  assumes pl: "placed env ck usr key s lines coup disc ph row s'" and cat: "catalog_ok s"
  shows "\<forall>it \<in> set (o_items row). \<exists>p. find_product s (p_id p) = Some p \<and> product_row_ok p \<and>
      p_id p \<in> li_product_id ` set (ck_items ck) \<and>
      oi_product_id it = Some (p_id p) \<and> oi_quantity it = cart_units (p_id p) (ck_items ck) \<and>
      oi_quantity it \<le> p_stock_quantity p \<and>
      oi_unit_price it = product_effective_price p \<and> oi_subtotal it = oi_unit_price it * oi_quantity it"
    and "map oi_product_id (o_items row) = map (\<lambda>r. Some (fst r)) (requested_by_product (ck_items ck))"
    and "map oi_quantity (o_items row) = map snd (requested_by_product (ck_items ck))"
    and "sum_list (map oi_subtotal (o_items row)) = o_subtotal row"
proof -
  let ?is = "[next_id s + 1..<next_id s + 1 + length lines]"
  from pl have row: "o_items row = map2 (item_row (env_now env)) ?is lines"
    "o_subtotal row = sum_list (map ld_subtotal lines)"
    and all: "list_all2 (priced (exchange_by_product (ck_items ck)) s) (requested_by_product (ck_items ck)) lines"
    by (simp_all add: placed_def)
  note req = priced_lines(1) [OF all] and ln = priced_lines(2) [OF all]
  have len: "length ?is = length lines" by (simp del: upt_Suc)
  show "\<forall>it \<in> set (o_items row). \<exists>p. find_product s (p_id p) = Some p \<and> product_row_ok p \<and>
      p_id p \<in> li_product_id ` set (ck_items ck) \<and>
      oi_product_id it = Some (p_id p) \<and> oi_quantity it = cart_units (p_id p) (ck_items ck) \<and>
      oi_quantity it \<le> p_stock_quantity p \<and>
      oi_unit_price it = product_effective_price p \<and> oi_subtotal it = oi_unit_price it * oi_quantity it"
  proof
    fix it assume "it \<in> set (o_items row)"
    then obtain i l where l: "l \<in> set lines" "it = item_row (env_now env) i l"
      using item_rows_set [of it _ ?is lines] len row by force
    with ln obtain p where p: "find_product s (ld_product_id l) = Some p"
      "l = line_of (exchange_by_product (ck_items ck)) p (ld_quantity l)" "ld_quantity l \<le> p_stock_quantity p"
      by blast
    from find_product_row [OF cat p(1)] have id: "p_id p = ld_product_id l" and ok: "product_row_ok p" by auto
    have "(ld_product_id l, ld_quantity l) \<in> set (requested_by_product (ck_items ck))"
      using l(1) by (subst req [symmetric]) force
    then have "ld_product_id l \<in> li_product_id ` set (ck_items ck)" "ld_quantity l = cart_units (ld_product_id l) (ck_items ck)"
      by (simp_all add: requested_mem)
    moreover have "ld_unit_price l = product_effective_price p" "ld_subtotal l = product_effective_price p * ld_quantity l"
      by (subst p(2), simp add: line_of_def)+
    ultimately show "\<exists>p. find_product s (p_id p) = Some p \<and> product_row_ok p \<and>
      p_id p \<in> li_product_id ` set (ck_items ck) \<and>
      oi_product_id it = Some (p_id p) \<and> oi_quantity it = cart_units (p_id p) (ck_items ck) \<and>
      oi_quantity it \<le> p_stock_quantity p \<and>
      oi_unit_price it = product_effective_price p \<and> oi_subtotal it = oi_unit_price it * oi_quantity it"
      using p ok id l(2) by (intro exI [of _ p]) (simp add: item_row_def)
  qed
  have "map oi_product_id (o_items row) = map (\<lambda>l. Some (ld_product_id l)) lines"
    "map oi_quantity (o_items row) = map ld_quantity lines"
    "map oi_subtotal (o_items row) = map ld_subtotal lines"
    unfolding row(1) by (rule map_item_rows [OF len], simp add: item_row_def)+
  then show "map oi_product_id (o_items row) = map (\<lambda>r. Some (fst r)) (requested_by_product (ck_items ck))"
    "map oi_quantity (o_items row) = map snd (requested_by_product (ck_items ck))"
    "sum_list (map oi_subtotal (o_items row)) = o_subtotal row"
    by (simp_all add: row(2) flip: req)
qed

lemma placed_discount:
  assumes "placed env ck usr key s lines coup disc ph row s'" "0 \<le> o_subtotal row"
  shows "0 \<le> disc \<and> disc \<le> o_subtotal row"
proof -
  from assms(1) have row: "o_subtotal row = sum_list (map ld_subtotal lines)"
    and c: "checkout_coupon env ck (sum_list (map ld_subtotal lines)) usr s = (Inr (coup, disc), s)"
    by (simp_all add: placed_def)
  from checkout_coupon_done [OF c] assms(2) show ?thesis
    by (auto simp: row dest!: apply_coupon_InrD intro: compute_discount_range [THEN conjunct1]
             compute_discount_range [THEN conjunct2] split: option.splits)
qed

lemma subtotal_nonneg:
  assumes "placed env ck usr key s lines coup disc ph row s'" "catalog_ok s"
    "list_all order_line_ok (ck_items ck)"
  shows "0 \<le> o_subtotal row"
proof -
  have "0 \<le> oi_subtotal it" if "it \<in> set (o_items row)" for it
  proof -
    from that placed_items(1) [OF assms(1,2)] obtain p where p: "product_row_ok p"
      "p_id p \<in> li_product_id ` set (ck_items ck)" "oi_quantity it = cart_units (p_id p) (ck_items ck)"
      "oi_unit_price it = product_effective_price p" "oi_subtotal it = oi_unit_price it * oi_quantity it"
      by blast
    with row_price_pos [OF p(1)] cart_units_pos [OF assms(3) p(2)] show ?thesis by simp
  qed
  then show ?thesis using placed_items(4) [OF assms(1,2)] by (metis (mono_tags) list.set_map imageE sum_list_nonneg)
qed

lemma shipping_nonneg:
  assumes "list_all order_line_ok ls"
  shows "0 \<le> calculate_shipping f (requested_by_product ls)"
  unfolding calculate_shipping_def
proof (rule sum_list_nonneg)
  fix x assume "x \<in> set (map (\<lambda>(i, n). case f i of None \<Rightarrow> 0 | Some p \<Rightarrow> calculate_delivery_fee (p_category p) n)
                        (requested_by_product ls))"
  then obtain i n where "(i, n) \<in> set (requested_by_product ls)"
    "x = (case f i of None \<Rightarrow> 0 | Some p \<Rightarrow> calculate_delivery_fee (p_category p) n)" by auto
  then show "0 \<le> x" using cart_units_pos [OF assms, of i]
    by (auto simp: requested_mem calculate_delivery_fee_def water_delivery_fee_per_unit_def split: option.splits)
qed

definition line_shipping :: "db \<Rightarrow> order_item \<Rightarrow> money" where
  "line_shipping s it =
     (case oi_product_id it of None \<Rightarrow> 0
      | Some i \<Rightarrow> (case find_product s i of None \<Rightarrow> 0
                   | Some p \<Rightarrow> if p_category p = NuocUong then 500000 * oi_quantity it else 0))"

lemma placed_shipping:
  assumes "placed env ck usr key s lines coup disc ph row s'" "catalog_ok s"
  shows "o_shipping_fee row = sum_list (map (line_shipping s) (o_items row))"
proof -
  let ?req = "requested_by_product (ck_items ck)"
  let ?fee = "\<lambda>(i, n). case find_product s i of None \<Rightarrow> 0 | Some p \<Rightarrow> calculate_delivery_fee (p_category p) n"
  have z: "map (\<lambda>it. (oi_product_id it, oi_quantity it)) (o_items row) = map (\<lambda>r. (Some (fst r), snd r)) ?req"
    using arg_cong2 [OF placed_items(2) [OF assms] placed_items(3) [OF assms], of zip]
    by (simp add: zip_map_map zip_same_conv_map comp_def)
  have "map (line_shipping s) (o_items row) =
        map (\<lambda>(oi, n). case oi of None \<Rightarrow> 0 | Some i \<Rightarrow> ?fee (i, n))
          (map (\<lambda>it. (oi_product_id it, oi_quantity it)) (o_items row))"
    by (auto simp: line_shipping_def calculate_delivery_fee_def water_delivery_fee_per_unit_def split: option.splits)
  also have "\<dots> = map ?fee ?req" unfolding z by (auto simp: comp_def split: option.splits)
  finally show ?thesis using assms(1) by (simp add: placed_def calculate_shipping_def)
qed

lemma vat_update_fields [simp]:
  "o_items (row\<lparr>o_vat_info := v\<rparr>) = o_items row" "o_subtotal (row\<lparr>o_vat_info := v\<rparr>) = o_subtotal row"
  "o_status (row\<lparr>o_vat_info := v\<rparr>) = o_status row"
  by simp_all

text \<open>A cart of two products, the gas in two lines, with a coupon.\<close>

definition sample_shop :: db where
  "sample_shop = sample_db\<lparr>coupons := [sample_coupon]\<rparr>"

definition sample_env :: order_env where
  "sample_env = \<lparr>env_now = 500, env_coupons = True, env_txn_unused = True, env_set_order = remdups\<rparr>"

definition sample_raw :: checkout where
  "sample_raw = \<lparr>ck_items = [\<lparr>li_product_id = 1, li_quantity = 2, li_is_exchange = False\<rparr>,
       \<lparr>li_product_id = 2, li_quantity = 3, li_is_exchange = False\<rparr>,
       \<lparr>li_product_id = 1, li_quantity = 1, li_is_exchange = True\<rparr>],
     ck_customer_name = ''An'', ck_customer_phone = Some ''0912 345 678'', ck_customer_email = None,
     ck_delivery_address = ''1 Le Loi'', ck_delivery_ward = None, ck_delivery_district = None,
     ck_delivery_city = ''HCM'', ck_delivery_notes = None, ck_recipient_name = None,
     ck_recipient_phone = None, ck_payment_method = Cod, ck_vat_invoice_requested = False,
     ck_vat_info = None, ck_customer_notes = None, ck_source = Website,
     ck_referral_conversation_id = None, ck_coupon_code = Some ''tet10''\<rparr>"

definition sample_ck :: checkout where
  "sample_ck = sample_raw\<lparr>ck_customer_phone := Some ''+84912345678'', ck_coupon_code := Some ''TET10''\<rparr>"

definition sample_order :: order where
  "sample_order = \<lparr>o_id = 10, o_order_number = Some ''GB-19700101-001'', o_user_id = Some 5,
     o_customer_name = ''An'', o_customer_phone = ''+84912345678'', o_customer_email = None,
     o_delivery_address = ''1 Le Loi'', o_delivery_ward = None, o_delivery_district = None,
     o_delivery_city = ''HCM'', o_delivery_notes = None, o_different_recipient_name = None,
     o_different_recipient_phone = None, o_subtotal = 123000000, o_shipping_fee = 1500000,
     o_discount_amount = 5000000, o_coupon_id = Some 6, o_coupon_code = Some ''TET10'',
     o_total_amount = 119500000, o_vat_invoice_requested = False, o_vat_info = None, o_einvoice = None,
     o_payment_method = Cod, o_payment_status = PayPending, o_status = OPending, o_source = Website,
     o_referral_conversation_id = None, o_idempotency_key = Some 77, o_customer_notes = None,
     o_internal_notes = None, o_cancelled_at = None, o_cancelled_reason = None, o_delivered_at = None,
     o_created_at = 500,
     o_items = [\<lparr>oi_id = 11, oi_product_id = Some 1, oi_product_name = ''Gas'', oi_product_brand = Some ''Petro'',
         oi_product_size_kg = Some 1200, oi_quantity = 3, oi_unit_price = 35000000, oi_subtotal = 105000000,
         oi_is_exchange = True, oi_created_at = 500\<rparr>,
       \<lparr>oi_id = 12, oi_product_id = Some 2, oi_product_name = ''Water'', oi_product_brand = Some ''Vihawa'',
         oi_product_size_kg = Some 2000, oi_quantity = 3, oi_unit_price = 6000000, oi_subtotal = 18000000,
         oi_is_exchange = False, oi_created_at = 500\<rparr>]\<rparr>"

definition sample_after :: db where
  "sample_after = sample_shop\<lparr>
     products := [sample_gas\<lparr>p_stock_quantity := 2\<rparr>, sample_water\<lparr>p_stock_quantity := 27\<rparr>],
     coupons := [sample_coupon\<lparr>c_used_count := 1\<rparr>],
     redemptions := [\<lparr>r_id = 13, r_coupon_id = 6, r_user_id = Some 5, r_order_id = Some 10, r_created_at = 500\<rparr>],
     orders := [sample_order], next_id := 14\<rparr>"

lemma sample_parse: "parse_checkout sample_raw = Inr sample_ck"
  by code_simp

lemma sample_shop_ok: "catalog_ok sample_shop" "coupons_ok sample_shop" "order_by_key 77 sample_shop = None"
  by code_simp+

lemma sample_set_order: "set_order_ok (env_set_order sample_env)"
  by (simp add: set_order_ok_def sample_env_def)

lemma sample_run_eq:
  "create_order sample_env sample_ck (Some (sample_user 5 Customer)) 77 sample_shop = (Inr sample_order, sample_after)"
  by code_simp

text \<open>
  C1. The amounts of a placed order. Every line is an active product of the cart, charged at its
  effective price times all units the cart asks of it; the subtotal is the sum of the lines, the
  shipping fee is 5,000 per unit of water, the discount lies between zero and the subtotal, and
  the total is subtotal plus shipping minus discount, so the clamp at zero never cuts.
\<close>

theorem checkout_amounts:
  assumes "catalog_ok s" and "parse_checkout raw = Inr ck" and "order_by_key key s = None"
    and "set_order_ok (env_set_order env)" and "create_order env ck usr key s = (Inr ord, s')"
  shows "(\<forall>it \<in> set (o_items ord). \<exists>p. find_product s (p_id p) = Some p \<and> p_is_active p \<and>
       oi_product_id it = Some (p_id p) \<and> oi_quantity it = cart_units (p_id p) (ck_items ck) \<and>
       oi_unit_price it = effective_price (p_price p) (p_sale_price p) \<and>
       oi_subtotal it = oi_unit_price it * oi_quantity it) \<and>
    distinct (map oi_product_id (o_items ord)) \<and>
    oi_product_id ` set (o_items ord) = Some ` li_product_id ` set (ck_items ck) \<and>
    o_subtotal ord = sum_list (map oi_subtotal (o_items ord)) \<and>
    o_shipping_fee ord = sum_list (map (line_shipping s) (o_items ord)) \<and>
    0 \<le> o_discount_amount ord \<and> o_discount_amount ord \<le> o_subtotal ord \<and>
    o_total_amount ord = o_subtotal ord + o_shipping_fee ord - o_discount_amount ord \<and>
    0 \<le> o_total_amount ord"
proof -
  from create_order_placed [OF assms(5,3,4)] obtain lines coup disc ph row v where
    pl: "placed env ck usr key s lines coup disc ph row s'" and ord: "ord = row\<lparr>o_vat_info := v\<rparr>"
    and act: "\<forall>i \<in> li_product_id ` set (ck_items ck). \<exists>p. find_product s i = Some p \<and> p_is_active p" by blast
  note ok = parse_checkout_lines [OF assms(2), THEN conjunct1]
  note sub = subtotal_nonneg [OF pl assms(1) ok] and ship = shipping_nonneg [OF ok, of "find_product s"]
  from pl have row: "o_discount_amount row = disc"
    "o_shipping_fee row = calculate_shipping (find_product s) (requested_by_product (ck_items ck))"
    "o_total_amount row = charged (o_subtotal row) (o_shipping_fee row) disc"
    by (simp_all add: placed_def)
  from placed_discount [OF pl sub] have d: "0 \<le> disc" "disc \<le> o_subtotal row" by simp_all
  with row ship have tot: "o_total_amount row = o_subtotal row + o_shipping_fee row - disc" "0 \<le> o_total_amount row"
    by (auto simp: charged_def)
  have ids: "distinct (map oi_product_id (o_items row))"
    "oi_product_id ` set (o_items row) = Some ` li_product_id ` set (ck_items ck)"
  proof -
    have "map oi_product_id (o_items row) = map Some (map fst (requested_by_product (ck_items ck)))"
      by (simp add: placed_items(2) [OF pl assms(1)])
    then show "distinct (map oi_product_id (o_items row))"
      using requested_distinct [of "ck_items ck"] by (simp only: distinct_map [of Some]) simp
    show "oi_product_id ` set (o_items row) = Some ` li_product_id ` set (ck_items ck)"
      using arg_cong [OF placed_items(2) [OF pl assms(1)], of set] requested_keys [of "ck_items ck"]
      by (simp add: image_image flip: image_comp) (metis image_image)
  qed
  have its: "\<forall>it \<in> set (o_items row). \<exists>p. find_product s (p_id p) = Some p \<and> p_is_active p \<and>
       oi_product_id it = Some (p_id p) \<and> oi_quantity it = cart_units (p_id p) (ck_items ck) \<and>
       oi_unit_price it = effective_price (p_price p) (p_sale_price p) \<and>
       oi_subtotal it = oi_unit_price it * oi_quantity it"
    using placed_items(1) [OF pl assms(1)] act unfolding product_effective_price_def
    by (metis option.inject)
  show ?thesis
    unfolding ord using its ids placed_items(4) [OF pl assms(1)] placed_shipping [OF pl assms(1)] d row(1) tot
    by simp
qed

lemma checkout_amounts_witness:
  "o_total_amount sample_order = 119500000 \<and> o_discount_amount sample_order \<le> o_subtotal sample_order"
  using checkout_amounts [OF sample_shop_ok(1) sample_parse sample_shop_ok(3) sample_set_order sample_run_eq]
  by (simp add: sample_order_def)

text \<open>
  C2. A placed order takes exactly the cart's units from each product's stock, never leaves a
  negative stock, changes no other column of any product, and appends exactly one order, pending
  and carrying the idempotency key, with a number no earlier order has.
\<close>

theorem checkout_takes_stock:
  assumes "catalog_ok s" and "order_by_key key s = None" and "length (ymd (env_now env)) = 8"
    and "set_order_ok (env_set_order env)" and "create_order env ck usr key s = (Inr ord, s')"
  shows "(\<forall>i. stock_of s' i = map_option (\<lambda>k. k - cart_units i (ck_items ck)) (stock_of s i)) \<and>
    (\<forall>i k. stock_of s' i = Some k \<longrightarrow> 0 \<le> k) \<and>
    map (\<lambda>p. p\<lparr>p_stock_quantity := 0\<rparr>) (products s') = map (\<lambda>p. p\<lparr>p_stock_quantity := 0\<rparr>) (products s) \<and>
    (\<exists>row num. orders s' = orders s @ [row] \<and> o_id row = o_id ord \<and> o_status row = OPending \<and>
       o_idempotency_key row = Some key \<and> o_order_number row = Some num \<and> num \<notin> set (order_numbers s))"
proof -
  from create_order_placed [OF assms(5,2,4)] obtain lines coup disc ph row v where
    pl: "placed env ck usr key s lines coup disc ph row s'" and ord: "ord = row\<lparr>o_vat_info := v\<rparr>" by blast
  have num: "next_order_number (env_now env) s \<notin> set (order_numbers s)"
    unfolding next_order_number_def by (rule next_number_fresh [OF _ assms(3)]) simp
  have st: "stock_of s' = (\<lambda>i. map_option (\<lambda>k. k - cart_units i (ck_items ck)) (stock_of s i))"
    using pl by (simp add: placed_def)
  have "0 \<le> k" if "stock_of s' i = Some k" for i k
  proof -
    from that st obtain p where p: "find_product s i = Some p" "k = p_stock_quantity p - cart_units i (ck_items ck)"
      by (auto simp: stock_of_def find_product_def)
    from find_product_row [OF assms(1) p(1)] have id: "p_id p = i" and ok: "0 \<le> p_stock_quantity p"
      by (auto simp: product_row_ok_def)
    show ?thesis
    proof (cases "i \<in> li_product_id ` set (ck_items ck)")
      case True
      then have "Some i \<in> set (map oi_product_id (o_items row))"
        using requested_keys [of "ck_items ck"] by (simp add: placed_items(2) [OF pl assms(1)]) (metis imageE image_eqI)
      then obtain it where it: "it \<in> set (o_items row)" "oi_product_id it = Some i" by auto
      with placed_items(1) [OF pl assms(1)] obtain q where "find_product s (p_id q) = Some q" "p_id q = i"
        "oi_quantity it = cart_units i (ck_items ck)" "oi_quantity it \<le> p_stock_quantity q" by force
      with p show ?thesis by simp
    next
      case False
      with p(2) ok show ?thesis by (simp add: cart_units_absent)
    qed
  qed
  with st num pl show ?thesis by (auto simp: placed_def ord)
qed

lemma checkout_takes_stock_witness:
  "stock_of sample_after 1 = Some 2 \<and> stock_of sample_after 2 = Some 27"
proof -
  have "length (ymd (env_now sample_env)) = 8" by code_simp
  from checkout_takes_stock [OF sample_shop_ok(1,3) this sample_set_order sample_run_eq]
  have "\<forall>i. stock_of sample_after i = map_option (\<lambda>k. k - cart_units i (ck_items sample_ck)) (stock_of sample_shop i)"
    by blast
  moreover have "stock_of sample_shop 1 = Some 5" "stock_of sample_shop 2 = Some 30"
    "cart_units 1 (ck_items sample_ck) = 3" "cart_units 2 (ck_items sample_ck) = 3"
    by code_simp+
  ultimately show ?thesis by simp
qed

lemma find_order_by_key:
  "order_by_key key s = None \<Longrightarrow> o_idempotency_key row = Some key \<Longrightarrow> orders t = orders s @ [row] \<Longrightarrow>
   order_by_key key t = Some row"
proof -
  have "find P xs = None \<Longrightarrow> P y \<Longrightarrow> find P (xs @ [y]) = Some y" for P :: "order \<Rightarrow> bool" and xs y
    by (induction xs) auto
  then show "order_by_key key s = None \<Longrightarrow> o_idempotency_key row = Some key \<Longrightarrow> orders t = orders s @ [row] \<Longrightarrow>
     order_by_key key t = Some row"
    by (simp add: order_by_key_def)
qed

text \<open>
  C3. A checkout is placed once per idempotency key: after a successful call, any later call with
  the same key, whatever its cart and caller, returns the same order and changes nothing.
\<close>

theorem checkout_idempotent:
  assumes "order_by_key key s = None" and "set_order_ok (env_set_order env)"
    and "create_order env ck usr key s = (Inr ord, s')" and "env_txn_unused env'"
  shows "create_order env' ck' usr' key s' = (Inr ord, s')"
proof -
  from create_order_placed [OF assms(3,1,2)] obtain lines coup disc ph row v where
    pl: "placed env ck usr key s lines coup disc ph row s'" and ord: "ord = row\<lparr>o_vat_info := v\<rparr>"
    and v: "parse_vat_option (ck_vat_info ck) = Inr v" by blast
  from pl have row: "o_idempotency_key row = Some key" "orders s' = orders s @ [row]"
    "o_order_number row \<noteq> None" "o_vat_info row = ck_vat_info ck"
    by (simp_all add: placed_def)
  have "order_by_key key s' = Some row"
    by (rule find_order_by_key [OF assms(1) row(1,2)])
  then show ?thesis
    using assms(4) row(3,4) v by (simp add: create_order_def op_eval order_response_def ord)
qed

lemma checkout_idempotent_witness:
  "create_order sample_env (sample_ck\<lparr>ck_items := []\<rparr>) None 77 sample_after = (Inr sample_order, sample_after)"
  by (rule checkout_idempotent [OF sample_shop_ok(3) sample_set_order sample_run_eq]) (simp add: sample_env_def)

section \<open>When checkout is refused, and when it must succeed\<close>

lemma price_lines_short:
  assumes "\<forall>r \<in> set req. \<exists>p. prods (fst r) = Some p" and "\<exists>r \<in> set req. \<exists>p. prods (fst r) = Some p \<and> p_stock_quantity p < snd r"
  shows "map_op (price_line prods exch) req s = (Inl (AppError InsufficientStock ''insufficient_stock''), s)"
  using assms
proof (induction req)
  case (Cons r req)
  then obtain p where p: "prods (fst r) = Some p" by auto
  show ?case
  proof (cases "p_stock_quantity p < snd r")
    case True
    then show ?thesis by (simp add: price_line_def p op_eval)
  next
    case False
    with Cons.prems p have "\<exists>r \<in> set req. \<exists>p. prods (fst r) = Some p \<and> p_stock_quantity p < snd r" by auto
    with Cons have "map_op (price_line prods exch) req s = (Inl (AppError InsufficientStock ''insufficient_stock''), s)"
      by simp
    with False show ?thesis by (simp add: price_line_def [of prods exch r] p op_eval)
  qed
qed simp

lemma price_lines_enough:
  assumes "\<forall>r \<in> set req. \<exists>p. prods (fst r) = Some p \<and> snd r \<le> p_stock_quantity p"
  shows "\<exists>lines. map_op (price_line prods exch) req s = (Inr lines, s)"
  using assms
proof (induction req)
  case (Cons r req)
  then obtain p lines where "prods (fst r) = Some p" "snd r \<le> p_stock_quantity p"
    "map_op (price_line prods exch) req s = (Inr lines, s)" by auto
  then show ?case by (simp add: price_line_def [of prods exch r] op_eval)
qed (simp add: op_eval)

text \<open>The part before pricing, for a cart of active products.\<close>

lemma create_order_active:
  assumes "order_by_key key s = None" and "set_order_ok (env_set_order env)" and "env_txn_unused env"
    and "\<forall>i \<in> li_product_id ` set (ck_items ck). \<exists>p. find_product s i = Some p \<and> p_is_active p"
  shows "\<exists>prods. (\<forall>r \<in> set (requested_by_product (ck_items ck)). prods (fst r) = find_product s (fst r)) \<and>
    create_order env ck usr key s =
      andThen (map_op (price_line prods (exchange_by_product (ck_items ck))) (requested_by_product (ck_items ck)))
        (\<lambda>lines. place_order env ck usr key (requested_by_product (ck_items ck)) lines
           (calculate_shipping prods (requested_by_product (ck_items ck)))) s"
proof -
  let ?pids = "env_set_order env (map li_product_id (ck_items ck))"
  let ?prods = "get_many_for_update ?pids s"
  have pids: "set ?pids = li_product_id ` set (ck_items ck)"
    using assms(2) by (simp add: set_order_ok_def)
  then have same: "?prods i = find_product s i" if "i \<in> li_product_id ` set (ck_items ck)" for i
    using that by (simp add: get_many_for_update_def find_product_def)
  then have "for_each (check_product ?prods) ?pids s = (Inr (), s)"
    using assms(4) pids by (simp add: for_each_check)
  then have "create_order env ck usr key s =
      andThen (map_op (price_line ?prods (exchange_by_product (ck_items ck))) (requested_by_product (ck_items ck)))
        (\<lambda>lines. place_order env ck usr key (requested_by_product (ck_items ck)) lines
           (calculate_shipping ?prods (requested_by_product (ck_items ck)))) s"
    using assms(1,3) by (simp add: create_order_def andThen_def gets_def ensure_def ret_def Let_def)
  moreover have "\<forall>r \<in> set (requested_by_product (ck_items ck)). ?prods (fst r) = find_product s (fst r)"
    using same by (auto simp: requested_mem)
  ultimately show ?thesis by blast
qed

text \<open>
  C4. A cart of active products that asks more units of some product than are in stock (summed
  over all its lines) is refused as insufficient stock, status 409, and leaves the database
  unchanged.
\<close>

theorem checkout_insufficient_stock:
  assumes "order_by_key key s = None" and "set_order_ok (env_set_order env)" and "env_txn_unused env"
    and "\<forall>i \<in> li_product_id ` set (ck_items ck). \<exists>p. find_product s i = Some p \<and> p_is_active p"
    and "stock_of s i = Some k" and "k < cart_units i (ck_items ck)" and "i \<in> li_product_id ` set (ck_items ck)"
  shows "create_order env ck usr key s = (Inl (AppError InsufficientStock ''insufficient_stock''), s) \<and>
    response_status (AppError InsufficientStock ''insufficient_stock'') = 409"
proof -
  let ?req = "requested_by_product (ck_items ck)"
  from create_order_active [OF assms(1-4), of usr] obtain prods where
    same: "\<forall>r \<in> set ?req. prods (fst r) = find_product s (fst r)"
    and eq: "create_order env ck usr key s =
      andThen (map_op (price_line prods (exchange_by_product (ck_items ck))) ?req)
        (\<lambda>lines. place_order env ck usr key ?req lines (calculate_shipping prods ?req)) s" by blast
  have mem: "(i, cart_units i (ck_items ck)) \<in> set ?req" using assms(7) by (simp add: requested_mem)
  have "\<forall>r \<in> set ?req. \<exists>p. prods (fst r) = Some p"
    using same assms(4) requested_keys [of "ck_items ck"] by (metis imageI)
  moreover have "\<exists>r \<in> set ?req. \<exists>p. prods (fst r) = Some p \<and> p_stock_quantity p < snd r"
    using mem same assms(5,6) by (force simp: stock_of_def find_product_def)
  ultimately show ?thesis by (simp add: eq price_lines_short andThen_def)
qed

lemma checkout_insufficient_stock_witness:
  "create_order sample_env (sample_ck\<lparr>ck_items := [\<lparr>li_product_id = 1, li_quantity = 3, li_is_exchange = False\<rparr>,
       \<lparr>li_product_id = 1, li_quantity = 3, li_is_exchange = False\<rparr>]\<rparr>) None 77 sample_shop
   = (Inl (AppError InsufficientStock ''insufficient_stock''), sample_shop)"
  (is "create_order _ ?ck _ _ _ = _")
proof -
  have "env_txn_unused sample_env" by (simp add: sample_env_def)
  moreover have "\<forall>i \<in> li_product_id ` set (ck_items ?ck). \<exists>p. find_product sample_shop i = Some p \<and> p_is_active p"
    by (simp add: find_product_def sample_shop_def sample_db_def sample_gas_def)
  moreover have "stock_of sample_shop 1 = Some 5" "(5::int) < cart_units 1 (ck_items ?ck)"
    "1 \<in> li_product_id ` set (ck_items ?ck)"
    by (simp_all add: stock_of_def sample_shop_def sample_db_def sample_gas_def cart_units_def)
  ultimately show ?thesis
    using checkout_insufficient_stock [OF sample_shop_ok(3) sample_set_order] by blast
qed

lemma tax_code_idem: "validate_tax_code t = Inr u \<Longrightarrow> validate_tax_code u = Inr u"
proof -
  assume a: "validate_tax_code t = Inr u"
  then have p: "tax_code_pattern u" by (auto simp: validate_tax_code_def Let_def split: if_splits)
  have "\<not> py_isspace c" if "c \<in> set u" for c
  proof -
    have "u = take 10 u @ drop 10 u" by simp
    with that have "c \<in> set (take 10 u) \<or> c \<in> set (drop 10 u)" by (metis Un_iff set_append)
    moreover have "drop 10 u = u ! 10 # drop 11 u" if "length u = 14"
      using Cons_nth_drop_Suc [of 10 u] that by simp
    ultimately have "is_digit c \<or> c = CHR ''-''"
      using p by (auto simp: tax_code_pattern_def list_all_iff)
    then show ?thesis by (auto dest: digit_not_space simp: py_isspace_def code_point_def)
  qed
  then have "py_strip u = u" by (intro py_strip_id) blast
  with p show "validate_tax_code u = Inr u" by (simp add: validate_tax_code_def)
qed

lemma parse_vat_idem: "parse_vat_option v = Inr w \<Longrightarrow> parse_vat_option w = Inr w"
  by (cases v)
     (auto simp: parse_vat_option_def parse_vat_info_def dest: tax_code_idem split: sum.splits if_splits)

lemma parse_checkout_vat: "parse_checkout raw = Inr ck \<Longrightarrow> parse_vat_option (ck_vat_info ck) = Inr (ck_vat_info ck)"
  by (auto simp: parse_checkout_def dest: parse_vat_idem split: if_splits sum.splits)



section \<open>Coupons at checkout\<close>

lemma coupon_by_code_SomeD: "coupon_by_code code s = Some c \<Longrightarrow> c \<in> set (coupons s)"
  by (auto simp: coupon_by_code_def dest: find_row_SomeD)

lemma placed_coupons_ok:
  assumes pl: "placed env ck usr key s lines coup disc ph row s'" and ok: "coupons_ok s"
  shows "coupons_ok s'"
proof (cases coup)
  case None
  with pl show ?thesis by (auto simp: placed_def intro: coupons_ok_cong [OF _ _ _ ok])
next
  case (Some c)
  let ?n = "next_id s + 1 + length lines"
  let ?t = "s\<lparr>next_id := ?n\<rparr>"
  from Some pl have "checkout_coupon env ck (sum_list (map ld_subtotal lines)) usr s = (Inr (Some c, disc), s)"
    by (simp add: placed_def)
  from checkout_coupon_done [OF this] have "apply_coupon (env_now env) (the (ck_coupon_code ck))
      (sum_list (map ld_subtotal lines)) usr s = (Inr (c, disc), s)" by simp
  then have c: "c \<in> set (coupons s)" by (auto dest!: apply_coupon_InrD coupon_by_code_SomeD)
  have "coupons_ok ?t" by (rule coupons_ok_cong [OF _ _ _ ok]) simp_all
  from record_redemption_keeps [OF this, of c "env_now env" usr "o_id row" "()"
      "?t\<lparr>next_id := next_id ?t + 1, coupons := upd_row c_id (c_id c) use_coupon (coupons ?t),
          redemptions := redemptions ?t @ [redemption_row (env_now env) c usr (o_id row) (next_id ?t)]\<rparr>"] c
  have k: "coupons_ok (?t\<lparr>next_id := next_id ?t + 1, coupons := upd_row c_id (c_id c) use_coupon (coupons ?t),
          redemptions := redemptions ?t @ [redemption_row (env_now env) c usr (o_id row) (next_id ?t)]\<rparr>)"
    by (simp add: record_redemption_done)
  show ?thesis
    by (rule coupons_ok_cong [OF _ _ _ k]) (use pl Some in \<open>simp_all add: placed_def\<close>)
qed

text \<open>
  C5. An order placed with a coupon: the coupon was active, inside its window and its minimum was
  met, the discount is the coupon's discount of the subtotal; afterwards its use count is one
  higher and still within the usage limit, and the signed-in user's redemptions are within the
  per-user limit. Use counts keep agreeing with the redemption rows.
\<close>

theorem checkout_coupon_limits:
  assumes "coupons_ok s" and "order_by_key key s = None" and "set_order_ok (env_set_order env)"
    and "create_order env ck usr key s = (Inr ord, s')" and "o_coupon_id ord = Some cid"
  shows "coupons_ok s' \<and> (\<exists>c. coupon_by_id cid s = Some c \<and> c_active c \<and>
    (\<forall>t. c_starts_at c = Some t \<longrightarrow> t \<le> env_now env) \<and> (\<forall>t. c_ends_at c = Some t \<longrightarrow> env_now env < t) \<and>
    c_min_order c \<le> o_subtotal ord \<and> o_discount_amount ord = compute_discount c (o_subtotal ord) \<and>
    coupon_by_id cid s' = Some (use_coupon c) \<and>
    (\<forall>n. c_usage_limit c = Some n \<longrightarrow> c_used_count (use_coupon c) \<le> n) \<and>
    (\<forall>n. c_per_user_limit c = Some n \<longrightarrow>
       (\<exists>u. usr = Some u \<and> count_user_redemptions cid (u_id u) s' \<le> n)))"
proof -
  from create_order_placed [OF assms(4,2,3)] obtain lines coup disc ph row v where
    pl: "placed env ck usr key s lines coup disc ph row s'" and ord: "ord = row\<lparr>o_vat_info := v\<rparr>" by blast
  from pl have row: "o_coupon_id row = map_option c_id coup" "o_discount_amount row = disc"
    "o_subtotal row = sum_list (map ld_subtotal lines)" by (simp_all add: placed_def)
  with assms(5) ord obtain c where c: "coup = Some c" "c_id c = cid" by auto
  with pl have "checkout_coupon env ck (o_subtotal row) usr s = (Inr (Some c, disc), s)"
    by (simp add: placed_def)
  from checkout_coupon_done [OF this] have "apply_coupon (env_now env) (the (ck_coupon_code ck)) (o_subtotal row) usr s = (Inr (c, disc), s)"
    by simp
  note a = apply_coupon_InrD [OF this]
  then have mem: "c \<in> set (coupons s)" by (auto dest: coupon_by_code_SomeD)
  with assms(1) have f: "coupon_by_id cid s = Some c"
    using find_row_unique [of c_id "coupons s" c] c(2) by (simp add: coupon_by_id_def coupons_ok_def)
  have k: "c_id (use_coupon d) = c_id d" for d by (simp add: use_coupon_def)
  have f': "coupon_by_id cid s' = Some (use_coupon c)"
    using pl c f by (simp add: placed_def coupon_by_id_def find_upd_row k)
  have cnt: "count_user_redemptions cid (u_id u) s' = count_user_redemptions cid (u_id u) s + 1" if "usr = Some u" for u
    using pl c that by (simp add: placed_def count_user_redemptions_def redemption_row_def)
  have lim: "c_usage_limit c = Some n \<Longrightarrow> c_used_count (use_coupon c) \<le> n" for n
    using a by (simp add: use_coupon_def)
  have per: "\<exists>u. usr = Some u \<and> count_user_redemptions cid (u_id u) s' \<le> n" if "c_per_user_limit c = Some n" for n
  proof -
    from a that c obtain u where "usr = Some u" "count_user_redemptions cid (u_id u) s < n" by auto
    with cnt [of u] show ?thesis by simp
  qed
  show ?thesis
    using placed_coupons_ok [OF pl assms(1)] f f' a lim per row ord by (simp add: Let_def)
qed

lemma checkout_coupon_limits_witness:
  "\<exists>c. coupon_by_id 6 sample_after = Some (use_coupon c) \<and> c_active c \<and>
       o_discount_amount sample_order = compute_discount c (o_subtotal sample_order)"
  using checkout_coupon_limits [OF sample_shop_ok(2,3) sample_set_order sample_run_eq, of 6]
  by (auto simp: sample_order_def)

end
