(* ===== verification/OrderLife.thy ===== *)
theory OrderLife
  imports Checkout
begin

text \<open>
  Orders after checkout: cancellation and its effect on stock, status changes, who may see an
  order, reordering, statistics, and the checkout endpoint's retry loop.
\<close>

section \<open>Looking up one order\<close>

definition order_keys_ok :: "db \<Rightarrow> bool" where
  "order_keys_ok s \<longleftrightarrow> unique_by o_id (orders s) \<and> (\<forall>ord \<in> set (orders s). o_id ord < next_id s)"

lemma find_order_Inr [op_simps]:
  "find_order i s = (Inr ord, s') \<longleftrightarrow> order_by_id i s = Some ord \<and> s' = s"
  by (auto simp: find_order_def op_simps)

lemma find_order_Inl [op_simps]:
  "find_order i s = (Inl e, s') \<longleftrightarrow> order_by_id i s = None \<and> e = AppError NotFound ''order_not_found'' \<and> s' = s"
  by (auto simp: find_order_def op_simps)

lemma order_by_id_SomeD: "order_by_id i s = Some ord \<Longrightarrow> ord \<in> set (orders s) \<and> o_id ord = i"
  by (auto simp: order_by_id_def dest: find_row_SomeD)

section \<open>Cancellation\<close>

lemma restock_give_all: "restock ord = shelf.give_all (restock_list ord)"
  by (simp add: restock_def shelf.give_all_def)

lemma demand_restock:
  "demand j (restock_list ord) = sum_list (map oi_quantity (filter (\<lambda>it. oi_product_id it = Some j) (o_items ord)))"
proof -
  have "demand j (List.map_filter (\<lambda>it. map_option (\<lambda>pid. (pid, oi_quantity it)) (oi_product_id it)) its) =
    sum_list (map oi_quantity (filter (\<lambda>it. oi_product_id it = Some j) its))" for its
    by (induction its) (auto split: option.splits)
  then show ?thesis by (simp add: restock_list_def)
qed

lemma set_status_id [simp]: "o_id (set_status now st r ord) = o_id ord"
  by (simp add: set_status_def)

text \<open>Both ways to cancel end in the same repository calls.\<close>

lemma restock_and_update_done:
  assumes "andThen (restock ord) (\<lambda>_. andThen (repo_update_status now i st r) order_response) s = (Inr x, s')"
    and "order_by_id i s = Some ord"
  shows "stock_of s' = (\<lambda>j. map_option (\<lambda>k. k + demand j (restock_list ord)) (stock_of s j)) \<and>
    st \<in> set (order_moves (o_status ord)) \<and>
    orders s' = upd_row o_id i (set_status now st r) (orders s) \<and>
    but_stock (s'\<lparr>orders := []\<rparr>) = but_stock (s\<lparr>orders := []\<rparr>) \<and>
    x = (set_status now st r ord)\<lparr>o_vat_info := o_vat_info x\<rparr>"
proof -
  from assms(1) obtain t where t: "shelf.give_all (restock_list ord) s = (Inr (), t)"
    and u: "andThen (repo_update_status now i st r) order_response t = (Inr x, s')"
    by (auto simp: op_simps restock_give_all)
  from shelf.give_all_done [OF t] have st: "stock_of t = (\<lambda>j. map_option (\<lambda>k. k + demand j (restock_list ord)) (stock_of s j))"
    and bs: "but_stock t = but_stock s" by auto
  note f = but_stock_eqD [OF bs]
  have "order_by_id i t = Some ord" using assms(2) by (simp add: order_by_id_def f)
  with u have ok: "st \<in> set (order_moves (o_status ord))"
    and resp: "order_response (set_status now st r ord) (t\<lparr>orders := upd_row o_id i (set_status now st r) (orders t)\<rparr>) = (Inr x, s')"
    by (auto simp: repo_update_status_def op_simps)
  have s': "s' = t\<lparr>orders := upd_row o_id i (set_status now st r) (orders t)\<rparr>"
    using order_response_state [OF resp] .
  have x: "x = (set_status now st r ord)\<lparr>o_vat_info := o_vat_info x\<rparr>"
    using resp by (auto simp: order_response_def op_simps split: if_splits sum.splits)
  have "stock_of s' = stock_of t" by (simp add: s' stock_of_def fun_eq_iff)
  moreover have "but_stock (s'\<lparr>orders := []\<rparr>) = (but_stock t)\<lparr>orders := []\<rparr>"
    "but_stock (s\<lparr>orders := []\<rparr>) = (but_stock s)\<lparr>orders := []\<rparr>"
    by (simp_all add: s' but_stock_def)
  ultimately show ?thesis using st ok x by (simp add: s' f bs)
qed

lemma cancel_order_done:
  assumes "cancel_order now i usr reason phone s = (Inr x, s')"
  obtains ord where "order_by_id i s = Some ord" "can_view ord usr phone" "can_be_cancelled ord"
    "andThen (restock ord) (\<lambda>_. andThen (repo_update_status now i OCancelled reason) order_response) s = (Inr x, s')"
  using assms by (auto simp: cancel_order_def op_simps ensure_can_view_def repo_cancel_order_def)

text \<open>
  C21. A customer's cancellation that succeeds: the order was pending or confirmed and visible to
  the caller; it is now cancelled with the reason, every product gets back exactly the units of the
  order's lines, and nothing else in the database changes.
\<close>

theorem cancel_restores_stock:
  assumes "cancel_order now i usr reason phone s = (Inr x, s')"
  shows "\<exists>ord. order_by_id i s = Some ord \<and> (o_status ord = OPending \<or> o_status ord = OConfirmed) \<and>
    can_view ord usr phone \<and> o_status x = OCancelled \<and> o_cancelled_reason x = reason \<and> o_items x = o_items ord \<and>
    (\<forall>j. stock_of s' j = map_option (\<lambda>k. k +
        sum_list (map oi_quantity (filter (\<lambda>it. oi_product_id it = Some j) (o_items ord)))) (stock_of s j)) \<and>
    orders s' = upd_row o_id i (set_status now OCancelled reason) (orders s) \<and>
    but_stock (s'\<lparr>orders := []\<rparr>) = but_stock (s\<lparr>orders := []\<rparr>)"
proof -
  from cancel_order_done [OF assms] obtain ord where
    o: "order_by_id i s = Some ord" "can_view ord usr phone" "can_be_cancelled ord"
    and run: "andThen (restock ord) (\<lambda>_. andThen (repo_update_status now i OCancelled reason) order_response) s = (Inr x, s')"
    by blast
  note d = demand_restock [of _ ord]
  note e = restock_and_update_done [OF run o(1)]
  then obtain w where "x = (set_status now OCancelled reason ord)\<lparr>o_vat_info := w\<rparr>" by blast
  then have "o_status x = OCancelled" "o_cancelled_reason x = reason" "o_items x = o_items ord"
    by (simp_all add: set_status_def)
  with o e show ?thesis by (simp add: d can_be_cancelled_def)
qed

lemma cancel_restores_stock_witness:
  "\<exists>x s'. cancel_order 600 (o_id sample_order) (Some (sample_user 5 Customer)) None None sample_after = (Inr x, s') \<and>
     o_status x = OCancelled \<and> stock_of s' 1 = Some 5"
proof -
  define run where "run = cancel_order 600 (o_id sample_order) (Some (sample_user 5 Customer)) None None sample_after"
  have "\<not> isl (fst run)" unfolding run_def by code_simp
  then obtain x s' where r: "cancel_order 600 (o_id sample_order) (Some (sample_user 5 Customer)) None None sample_after = (Inr x, s')"
    using run_split [of run] unfolding run_def by metis
  have o: "order_by_id (o_id sample_order) sample_after = Some sample_order" by code_simp
  have v: "sum_list (map oi_quantity (filter (\<lambda>it. oi_product_id it = Some 1) (o_items sample_order))) = 3"
    "stock_of sample_after 1 = Some 2" by code_simp+
  from cancel_restores_stock [OF r] o v have "o_status x = OCancelled" "stock_of s' 1 = Some 5" by auto
  with r show ?thesis by blast
qed

lemma restock_list_placed:
  assumes "placed env ck usr key s lines coup disc ph row s'" "catalog_ok s"
  shows "restock_list row = requested_by_product (ck_items ck)"
proof -
  have gen: "map oi_product_id its = map (\<lambda>r. Some (fst r)) req \<Longrightarrow> map oi_quantity its = map snd req \<Longrightarrow>
      List.map_filter (\<lambda>it. map_option (\<lambda>pid. (pid, oi_quantity it)) (oi_product_id it)) its = req" for its req
  proof (induction its arbitrary: req)
    case (Cons it its)
    then show ?case by (cases req) auto
  qed simp
  show ?thesis unfolding restock_list_def
    by (rule gen [OF placed_items(2,3) [OF assms]])
qed

lemma placed_find:
  assumes "placed env ck usr key s lines coup disc ph row s'" "order_keys_ok s"
  shows "order_by_id (o_id row) s' = Some row"
proof -
  have "order_by_id (next_id s) s = None"
    using assms(2) by (auto simp: order_by_id_def find_row_None_iff order_keys_ok_def)
  with assms(1) show ?thesis by (auto simp: placed_def order_by_id_def find_row_append)
qed

text \<open>
  Placing an order and cancelling it again is possible for whoever may see the order, and
  leaves the stock of every product as it was before the checkout.
\<close>

lemma place_then_cancel:
  assumes "catalog_ok s" and "order_keys_ok s" and "order_by_key key s = None"
    and "set_order_ok (env_set_order env)" and "create_order env ck usr key s = (Inr ord, s1)"
    and "can_view ord usr' phone"
  shows "\<exists>x s2. cancel_order now (o_id ord) usr' reason phone s1 = (Inr x, s2) \<and>
    o_status x = OCancelled \<and> stock_of s2 = stock_of s"
proof -
  from create_order_placed [OF assms(5,3,4)] obtain lines coup disc ph row v where
    pl: "placed env ck usr key s lines coup disc ph row s1" and ord: "ord = row\<lparr>o_vat_info := v\<rparr>"
    and vat: "parse_vat_option (ck_vat_info ck) = Inr v"
    and act: "\<forall>i \<in> li_product_id ` set (ck_items ck). \<exists>p. find_product s i = Some p \<and> p_is_active p" by blast
  have id: "o_id ord = o_id row" by (simp add: ord)
  note find = placed_find [OF pl assms(2)]
  from pl have row: "o_status row = OPending" "o_order_number row \<noteq> None" "o_vat_info row = ck_vat_info ck"
    and st: "stock_of s1 = (\<lambda>i. map_option (\<lambda>k. k - cart_units i (ck_items ck)) (stock_of s i))"
    by (simp_all add: placed_def)
  have view: "can_view row usr' phone" using assms(6) by (simp add: can_view_def ord split: option.splits)
  note rl = restock_list_placed [OF pl assms(1)]
  have "stock_of s1 i \<noteq> None" if "(i, n) \<in> set (restock_list row)" for i n
    using that act st by (fastforce simp: rl requested_mem stock_of_def find_product_def)
  then obtain t where t: "shelf.give_all (restock_list row) s1 = (Inr (), t)"
    using shelf.give_all_can [of "restock_list row" s1] by blast
  have ft: "order_by_id (o_id row) t = Some row"
    using find but_stock_eqD(5) [of t s1] shelf.give_all_done [OF t] by (simp add: order_by_id_def)
  let ?x = "(set_status now OCancelled reason row)\<lparr>o_vat_info := v\<rparr>"
  have "order_response (set_status now OCancelled reason row) q = (Inr ?x, q)" for q
    using row vat by (simp add: order_response_def set_status_def op_eval)
  then obtain s2 where run: "cancel_order now (o_id row) usr' reason phone s1 = (Inr ?x, s2)"
    using find view row(1) t ft
    by (simp add: cancel_order_def find_order_def op_eval ensure_can_view_def can_be_cancelled_def
                  restock_give_all repo_cancel_order_def repo_update_status_def)
  from cancel_order_done [OF run] find have
    "andThen (restock row) (\<lambda>_. andThen (repo_update_status now (o_id row) OCancelled reason) order_response) s1 = (Inr ?x, s2)"
    by (metis option.inject)
  from restock_and_update_done [OF this find] have
    "stock_of s2 = (\<lambda>j. map_option (\<lambda>k. k + demand j (restock_list row)) (stock_of s1 j))" by blast
  then have "stock_of s2 = stock_of s"
    by (simp add: rl demand_requested st option.map_comp comp_def option.map_ident)
  with run show ?thesis by (auto simp: id set_status_def)
qed

lemma place_then_cancel_witness:
  "\<exists>x s2. cancel_order 600 (o_id sample_order) None (Some ''changed'') (Some ''+84912345678'') sample_after = (Inr x, s2) \<and>
    o_status x = OCancelled \<and> stock_of s2 = stock_of sample_shop"
proof -
  have "can_view sample_order None (Some ''+84912345678'')" by code_simp
  moreover have "order_keys_ok sample_shop" by code_simp
  ultimately show ?thesis
    using place_then_cancel [OF sample_shop_ok(1) _ sample_shop_ok(3) sample_set_order sample_run_eq] by blast
qed

section \<open>Who sees an order\<close>

text \<open>
  An order is returned only to staff, to its owner, or to a caller who knows its phone number
  (in any accepted spelling); every other caller of an existing order with a well-formed phone or
  none gets status 403, and reading never changes the database.
\<close>

lemma get_order_access:
  assumes "order_by_id i s = Some ord" and "\<forall>p. phone = Some p \<and> p \<noteq> [] \<longrightarrow> (\<exists>n. validate_phone p = Inr n)"
  shows "let allowed =
      (\<exists>u. usr = Some u \<and> (u_role u = Staff \<or> u_role u = Admin \<or> o_user_id ord = Some (u_id u))) \<or>
      (\<exists>p. phone = Some p \<and> validate_phone p = Inr (o_customer_phone ord))
    in snd (get_order i usr phone s) = s \<and>
       (allowed \<longrightarrow> get_order i usr phone s = order_response ord s) \<and>
       (\<not> allowed \<longrightarrow> get_order i usr phone s = (Inl (AppError Forbidden ''order_forbidden''), s) \<and>
          response_status (AppError Forbidden ''order_forbidden'') = 403)"
proof -
  have canon: "validate_phone p = Inr n \<Longrightarrow> n \<noteq> []" for p n
    using validate_phone_canonical canonical_phoneD by fastforce
  have empty: "validate_phone [] \<noteq> Inr n" for n
    by (simp add: validate_phone_def py_strip_def py_remove_def phone_pattern_def)
  define np where "np = (if truthy phone then (case validate_phone (the phone) of Inr n \<Rightarrow> Some n | Inl e \<Rightarrow> None) else None)"
  have run: "get_order i usr phone s =
      (if can_view ord usr np then order_response ord s else (Inl (AppError Forbidden ''order_forbidden''), s))"
  proof (cases "truthy phone")
    case True
    then obtain p n where "phone = Some p" "p \<noteq> []" "validate_phone p = Inr n"
      using assms(2) by (cases phone) auto
    with assms(1) show ?thesis
      by (simp add: get_order_def find_order_def op_eval lift_result_def ensure_can_view_def np_def)
  next
    case False
    with assms(1) show ?thesis
      by (simp add: get_order_def find_order_def op_eval ensure_can_view_def np_def)
  qed
  have "(truthy np \<and> o_customer_phone ord = the np) \<longleftrightarrow> (\<exists>p. phone = Some p \<and> validate_phone p = Inr (o_customer_phone ord))"
    using canon empty assms(2) by (cases phone) (auto simp: np_def split: sum.splits)
  then have allowed: "can_view ord usr np \<longleftrightarrow>
      (\<exists>u. usr = Some u \<and> (u_role u = Staff \<or> u_role u = Admin \<or> o_user_id ord = Some (u_id u))) \<or>
      (\<exists>p. phone = Some p \<and> validate_phone p = Inr (o_customer_phone ord))"
    by (auto simp: can_view_def is_staff_def split: option.splits)
  have "snd (order_response ord s) = s" using order_response_state [of ord s] by (metis surj_pair snd_conv)
  then show ?thesis unfolding Let_def allowed [symmetric] run by simp
qed

lemma get_order_access_witness:
  "fst (get_order (o_id sample_order) None (Some ''0912-345-678'') sample_after) = Inr sample_order \<and>
   fst (get_order (o_id sample_order) (Some (sample_user 9 Customer)) None sample_after)
     = Inl (AppError Forbidden ''order_forbidden'')"
proof -
  have o: "order_by_id (o_id sample_order) sample_after = Some sample_order" by code_simp
  have v: "validate_phone ''0912-345-678'' = Inr (o_customer_phone sample_order)" by code_simp
  have r: "fst (order_response sample_order sample_after) = Inr sample_order" by code_simp
  have u: "o_user_id sample_order = Some 5" by code_simp
  have n: "u_role (sample_user 9 Customer) = Customer" "u_id (sample_user 9 Customer) = 9"
    by (simp_all add: sample_user_def)
  show ?thesis
    using get_order_access [OF o, of "Some ''0912-345-678''" None] get_order_access [OF o, of None "Some (sample_user 9 Customer)"]
    by (simp add: v r u n Let_def)
qed

text \<open>
  A malformed phone in the query of an existing order is an unhandled \<^verbatim>\<open>ValueError\<close>, status 500,
  for every caller, staff and owner included.
\<close>

lemma get_order_malformed_phone:
  assumes "order_by_id i s = Some ord" and "p \<noteq> []" and "validate_phone p = Inl e"
  shows "get_order i usr (Some p) s = (Inl (PyError ''ValueError''), s) \<and>
    response_status (PyError ''ValueError'') = 500"
proof -
  have "e = PyError ''ValueError''" using assms(3) by (auto simp: validate_phone_def Let_def split: if_splits)
  then show ?thesis
    using assms by (simp add: get_order_def find_order_def op_eval lift_result_def)
qed

lemma get_order_malformed_phone_witness:
  "get_order (o_id sample_order) (Some (sample_user 4 Admin)) (Some ''12'') sample_after
     = (Inl (PyError ''ValueError''), sample_after)"
proof -
  have "order_by_id (o_id sample_order) sample_after = Some sample_order"
    "validate_phone ''12'' = Inl (PyError ''ValueError'')" by code_simp+
  then show ?thesis using get_order_malformed_phone [of _ sample_after] by blast
qed

section \<open>Reordering\<close>

lemma split_sums_set:
  "set (fst (split_sums xs)) = {a. Inl a \<in> set xs}" "set (snd (split_sums xs)) = {b. Inr b \<in> set xs}"
  by (induction xs rule: split_sums.induct) auto

lemma split_sums_length: "length (fst (split_sums xs)) + length (snd (split_sums xs)) = length xs"
  by (induction xs rule: split_sums.induct) auto

lemma reorder_line_Inr:
  assumes "reorder_line s it = Inr ri"
  shows "\<exists>p. product_by_id (ri_product_id ri) False s = Some p \<and>
     oi_product_id it = Some (ri_product_id ri) \<and> p_is_active p \<and> ri_price ri = product_effective_price p \<and>
     ri_quantity ri = min (oi_quantity it) (p_stock_quantity p) \<and> 0 < p_stock_quantity p"
proof -
  from assms obtain pid p where p: "oi_product_id it = Some pid" "product_by_id pid False s = Some p"
    and rest: "p_is_active p" "0 < p_stock_quantity p" "ri_product_id ri = p_id p"
      "ri_price ri = product_effective_price p" "ri_quantity ri = min (oi_quantity it) (p_stock_quantity p)"
    by (auto simp: reorder_line_def split: option.splits if_splits)
  have "p_id p = pid" using product_by_id_SomeD [OF p(2)] by simp
  with p rest show ?thesis by simp
qed

text \<open>
  Reordering is for the owner only. Every line of the past order is either offered again or
  reported as skipped; what is offered is active, at today's effective price, in a positive
  quantity covered both by the old line and by today's stock.
\<close>

lemma reorder_sound:
  assumes "order_by_id i s = Some ord" and "\<forall>it \<in> set (o_items ord). 1 \<le> oi_quantity it"
  shows "if o_user_id ord = Some (u_id u)
    then \<exists>skipped items. reorder i u s = (Inr (skipped, items), s) \<and>
      length skipped + length items = length (o_items ord) \<and>
      (\<forall>ri \<in> set items. \<exists>it \<in> set (o_items ord). \<exists>p. product_by_id (ri_product_id ri) False s = Some p \<and>
         oi_product_id it = Some (ri_product_id ri) \<and> p_is_active p \<and>
         ri_price ri = effective_price (p_price p) (p_sale_price p) \<and>
         1 \<le> ri_quantity ri \<and> ri_quantity ri \<le> oi_quantity it \<and> ri_quantity ri \<le> p_stock_quantity p)
    else reorder i u s = (Inl (AppError Forbidden ''order_forbidden''), s)"
proof (cases "o_user_id ord = Some (u_id u)")
  case True
  let ?r = "split_sums (map (reorder_line s) (o_items ord))"
  have run: "reorder i u s = (Inr ?r, s)"
    using assms(1) True by (simp add: reorder_def find_order_def op_eval)
  have len: "length (fst ?r) + length (snd ?r) = length (o_items ord)"
    by (simp add: split_sums_length)
  have its: "\<exists>it \<in> set (o_items ord). \<exists>p. product_by_id (ri_product_id ri) False s = Some p \<and>
         oi_product_id it = Some (ri_product_id ri) \<and> p_is_active p \<and>
         ri_price ri = effective_price (p_price p) (p_sale_price p) \<and>
         1 \<le> ri_quantity ri \<and> ri_quantity ri \<le> oi_quantity it \<and> ri_quantity ri \<le> p_stock_quantity p"
    if ri: "ri \<in> set (snd ?r)" for ri
  proof -
    from ri obtain it where it: "it \<in> set (o_items ord)" "reorder_line s it = Inr ri"
      by (auto simp: split_sums_set)
    from reorder_line_Inr [OF it(2)] assms(2) it(1) show ?thesis
      by (fastforce simp: product_effective_price_def)
  qed
  show ?thesis using True run len its by (intro if_bool_eq_conj [THEN iffD2]) (cases ?r, auto)
next
  case False
  with assms(1) show ?thesis by (simp add: reorder_def find_order_def op_eval)
qed

lemma sample_order_found: "order_by_id (o_id sample_order) sample_after = Some sample_order"
  by code_simp

lemma reorder_sound_witness:
  "\<exists>skipped items. reorder (o_id sample_order) (sample_user 5 Customer) sample_after = (Inr (skipped, items), sample_after) \<and>
     length skipped + length items = 2"
proof -
  have q: "\<forall>it \<in> set (o_items sample_order). 1 \<le> oi_quantity it" "length (o_items sample_order) = 2"
    "o_user_id sample_order = Some (u_id (sample_user 5 Customer))" by code_simp+
  from reorder_sound [OF sample_order_found q(1), of "sample_user 5 Customer"] q(2,3) show ?thesis
    by auto
qed

text \<open>
  The cart a reorder rebuilds need not be acceptable to checkout: a past line of more than
  100 units (several cart lines of one product are merged) of a product with more than 100 units
  in stock is offered with a quantity above the limit of 100, and any checkout request containing
  that line is rejected by the schema.
\<close>

lemma reorder_over_line_limit:
  assumes "order_by_id i s = Some ord" and "o_user_id ord = Some (u_id u)" and "it \<in> set (o_items ord)"
    and "oi_product_id it = Some pid" and "product_by_id pid False s = Some p" and "p_is_active p"
    and "100 < oi_quantity it" and "100 < p_stock_quantity p"
  shows "\<exists>skipped items ri. reorder i u s = (Inr (skipped, items), s) \<and> ri \<in> set items \<and>
    ri_product_id ri = pid \<and> 100 < ri_quantity ri \<and>
    (\<forall>raw. (\<exists>l \<in> set (ck_items raw). li_product_id l = pid \<and> li_quantity l = ri_quantity ri) \<longrightarrow>
       parse_checkout raw = Inl (PyError ''ValidationError''))"
proof -
  let ?r = "split_sums (map (reorder_line s) (o_items ord))"
  have pid: "p_id p = pid" using product_by_id_SomeD [OF assms(5)] by simp
  from assms(4-8) obtain ri where ri: "reorder_line s it = Inr ri" "ri_product_id ri = p_id p"
    "ri_quantity ri = min (oi_quantity it) (p_stock_quantity p)"
    by (simp add: reorder_line_def)
  have "reorder i u s = (Inr (fst ?r, snd ?r), s)"
    using assms(1,2) by (simp add: reorder_def find_order_def op_eval)
  moreover have "ri \<in> set (snd ?r)" using ri(1) assms(3) by (auto simp: split_sums_set image_iff intro: sym)
  moreover have "100 < ri_quantity ri" using ri(3) assms(7,8) by simp
  moreover have "parse_checkout raw = Inl (PyError ''ValidationError'')"
    if "l \<in> set (ck_items raw)" "100 < li_quantity l" for raw l
    using that by (auto simp: parse_checkout_def checkout_fields_ok_def list_all_iff order_line_ok_def)
  ultimately show ?thesis using ri(2) pid by metis
qed

text \<open>An order of 120 units placed as two lines of 60, with 300 left in stock.\<close>

definition bulk_shop :: db where
  "bulk_shop = sample_shop\<lparr>products := [sample_gas, sample_water\<lparr>p_stock_quantity := 420\<rparr>]\<rparr>"

definition bulk_ck :: checkout where
  "bulk_ck = sample_ck\<lparr>ck_coupon_code := None, ck_items :=
     [\<lparr>li_product_id = 2, li_quantity = 60, li_is_exchange = False\<rparr>,
      \<lparr>li_product_id = 2, li_quantity = 60, li_is_exchange = False\<rparr>]\<rparr>"

definition bulk_order :: order where
  "bulk_order = sample_order\<lparr>o_subtotal := 720000000, o_shipping_fee := 60000000, o_discount_amount := 0,
     o_coupon_id := None, o_coupon_code := None, o_total_amount := 780000000,
     o_items := [\<lparr>oi_id = 11, oi_product_id = Some 2, oi_product_name = ''Water'', oi_product_brand = Some ''Vihawa'',
         oi_product_size_kg = Some 2000, oi_quantity = 120, oi_unit_price = 6000000, oi_subtotal = 720000000,
         oi_is_exchange = False, oi_created_at = 500\<rparr>]\<rparr>"

definition bulk_after :: db where
  "bulk_after = bulk_shop\<lparr>products := [sample_gas, sample_water\<lparr>p_stock_quantity := 300\<rparr>],
     orders := [bulk_order], next_id := 12\<rparr>"

lemma bulk_run:
  "create_order sample_env bulk_ck (Some (sample_user 5 Customer)) 77 bulk_shop = (Inr bulk_order, bulk_after)"
  by code_simp

lemma reorder_over_line_limit_witness:
  "\<exists>skipped items ri. reorder 10 (sample_user 5 Customer) bulk_after = (Inr (skipped, items), bulk_after) \<and>
     ri \<in> set items \<and> 100 < ri_quantity ri"
proof -
  have o: "order_by_id 10 bulk_after = Some bulk_order" "o_user_id bulk_order = Some (u_id (sample_user 5 Customer))"
    "hd (o_items bulk_order) \<in> set (o_items bulk_order)" "oi_product_id (hd (o_items bulk_order)) = Some 2"
    "100 < oi_quantity (hd (o_items bulk_order))"
    by (simp_all add: order_by_id_def bulk_after_def bulk_order_def sample_order_def sample_user_def)
  have p: "product_by_id 2 False bulk_after = Some (sample_water\<lparr>p_stock_quantity := 300\<rparr>)"
    "p_is_active (sample_water\<lparr>p_stock_quantity := 300\<rparr>)" "100 < p_stock_quantity (sample_water\<lparr>p_stock_quantity := 300\<rparr>)"
    by (simp_all add: product_by_id_def bulk_after_def sample_gas_def sample_water_def)
  from reorder_over_line_limit [OF o(1-4) p(1,2) o(5) p(3)] show ?thesis by blast
qed

section \<open>Statistics\<close>

lemma count_status_sum:
  "count_status OPending rows + count_status OConfirmed rows + count_status OShipping rows +
   count_status ODelivered rows + count_status OCancelled rows = length rows"
proof (induction rows)
  case (Cons r rows)
  then show ?case by (cases "o_status r") (simp_all add: count_status_def)
qed (simp add: count_status_def)

text \<open>
  The order statistics count the statuses of the latest 100 orders only: the five counts add
  up to the smaller of 100 and the total, so they disagree with the reported total exactly when
  there are more than 100 orders. Staff only.
\<close>

lemma statistics_counts:
  assumes "is_staff u"
  shows "\<exists>st. get_statistics u s = (Inr st, s) \<and> st_total st = length (orders s) \<and>
    st_pending st + st_confirmed st + st_shipping st + st_delivered st + st_cancelled st = min 100 (length (orders s)) \<and>
    (length (orders s) \<le> 100 \<longrightarrow>
       st_pending st = count_status OPending (orders s) \<and> st_confirmed st = count_status OConfirmed (orders s) \<and>
       st_shipping st = count_status OShipping (orders s) \<and> st_delivered st = count_status ODelivered (orders s) \<and>
       st_cancelled st = count_status OCancelled (orders s))"
proof -
  let ?all = "order_rows o_created_at False (orders s)"
  let ?q = "default_order_search\<lparr>osp_limit := 100\<rparr>"
  have matches: "order_matches ?q ord" "osp_skip ?q = 0" "osp_limit ?q = 100" for ord
    by (simp_all add: order_matches_def default_order_search_def)
  then have "filter (\<lambda>ord. True \<and> order_matches ?q ord) (orders s) = orders s"
    by (intro filter_True) blast
  then have q: "repo_list_all_orders ?q s = (take 100 ?all, length (orders s))"
    unfolding repo_list_all_orders_def repo_list_def slice_def Let_def matches(2,3) by simp
  have "count_status st ?all = count_status st (orders s)" for st
    unfolding count_status_def order_rows_def
    by (metis filter_sort length_sort)
  then have "count_status st (take 100 ?all) = count_status st (orders s)" if "length (orders s) \<le> 100" for st
    using that by simp
  then show ?thesis
    using assms count_status_sum [of "take 100 ?all"]
    by (simp add: get_statistics_def ensure_staff_def op_eval q min.commute)
qed

lemma statistics_counts_witness:
  "\<exists>st. get_statistics (sample_user 4 Admin) sample_after = (Inr st, sample_after) \<and> st_pending st = 1"
proof -
  have "is_staff (sample_user 4 Admin)" "length (orders sample_after) \<le> 100"
    "count_status OPending (orders sample_after) = 1" by code_simp+
  with statistics_counts [of "sample_user 4 Admin" sample_after] show ?thesis by auto
qed

section \<open>The retry loop\<close>

definition aborted_at :: "nat \<Rightarrow> bool list \<Rightarrow> bool" where
  "aborted_at k aborted \<longleftrightarrow> k < length aborted \<and> aborted ! k"

lemma aborted_at_simps [simp]:
  "\<not> aborted_at k []" "aborted_at 0 (b # bs) = b" "aborted_at (Suc k) (b # bs) = aborted_at k bs"
  by (auto simp: aborted_at_def)

lemma retry_op_outcome:
  "transact (retry_op n aborted m) s =
     (if \<forall>k \<le> n. aborted_at k aborted then (Inl serialization_failure, s) else transact m s)"
proof (induction n arbitrary: aborted)
  case 0
  then show ?case
    by (cases aborted) (auto simp: transact_def attempt_def serialization_failure_def)
next
  case (Suc n)
  show ?case
  proof (cases aborted)
    case Nil
    then show ?thesis by (auto simp: attempt_def transact_def)
  next
    case (Cons b bs)
    have all: "(\<forall>k \<le> Suc n. aborted_at k (b # bs)) \<longleftrightarrow> b \<and> (\<forall>k \<le> n. aborted_at k bs)"
      by (auto simp: All_less_Suc2 simp flip: less_Suc_eq_le)
    have again: "transact (retry_op (Suc n) (b # bs) m) s = transact (retry_op n bs m) s" if b
      using that by (simp add: transact_def attempt_def is_serialization_failure_def)
    have first: "transact (retry_op (Suc n) (b # bs) m) s = transact m s" if "\<not> b"
    proof (cases "fst (m s) = Inl serialization_failure")
      case True
      then obtain t where m: "m s = (Inl serialization_failure, t)" by (metis prod.collapse)
      then have "transact m s = (Inl serialization_failure, s)" by (simp add: transact_def)
      moreover have "transact (retry_op (Suc n) (b # bs) m) s = transact (retry_op n bs m) s"
        using that m by (simp add: transact_def attempt_def is_serialization_failure_def)
      ultimately show ?thesis using Suc.IH [of bs] by simp
    next
      case False
      then show ?thesis
        using that by (auto simp: transact_def attempt_def is_serialization_failure_def split: prod.splits sum.splits)
    qed
    show ?thesis unfolding Cons all using again first Suc.IH [of bs] by (cases b) (simp_all del: retry_op.simps)
  qed
qed

text \<open>
  The checkout endpoint tries at most three times: if the database aborts each of the three
  attempts, the serialization failure is reported and nothing is changed; otherwise the outcome is
  that of one single checkout.
\<close>

lemma checkout_retry:
  assumes "parse_checkout raw = Inr ck"
  shows "checkout_endpoint aborted env raw usr key s =
    (if aborted_at 0 aborted \<and> aborted_at 1 aborted \<and> aborted_at 2 aborted
     then (Inl serialization_failure, s) else transact (create_order env ck usr key) s)"
proof -
  have "checkout_endpoint aborted env raw usr key s = transact (retry_op 2 aborted (create_order env ck usr key)) s"
    using assms by (simp add: checkout_endpoint_def andThen_def lift_result_def ret_def transact_def)
  moreover have "(\<forall>k \<le> (2::nat). aborted_at k aborted) \<longleftrightarrow> aborted_at 0 aborted \<and> aborted_at 1 aborted \<and> aborted_at 2 aborted"
    by (auto simp: le_Suc_eq numeral_2_eq_2)
  ultimately show ?thesis by (simp add: retry_op_outcome)
qed

lemma checkout_retry_witness:
  "checkout_endpoint [True, True] sample_env sample_raw (Some (sample_user 5 Customer)) 77 sample_shop = (Inr sample_order, sample_after) \<and>
   checkout_endpoint [True, True, True] sample_env sample_raw None 77 sample_shop = (Inl serialization_failure, sample_shop)"
  using checkout_retry [OF sample_parse, of "[True, True]" sample_env "Some (sample_user 5 Customer)" 77 sample_shop]
    checkout_retry [OF sample_parse, of "[True, True, True]" sample_env None 77 sample_shop] sample_run_eq
  by (simp add: aborted_at_def transact_def)

end
