(* ===== verification/Deliveries.thy ===== *)
theory Deliveries
  imports OrderLife "HOL-Library.Multiset"
begin

text \<open>
  Deliveries: an order is carried out in one or more trips. \<^verbatim>\<open>DeliveryRepository\<close>, \<^verbatim>\<open>DeliveryService\<close>
  and their schemas; the roll-up of the order status; the invariant that no item is allocated
  beyond its ordered quantity. Coordinates are stored and returned unread.
\<close>

section \<open>Status table\<close>

fun delivery_moves :: "delivery_status \<Rightarrow> delivery_status list" where
  "delivery_moves DPending = [DShipping, DDelivered, DFailed, DCancelled]"
| "delivery_moves DShipping = [DDelivered, DFailed, DCancelled]"
| "delivery_moves DDelivered = []"
| "delivery_moves DFailed = []"
| "delivery_moves DCancelled = []"

fun delivery_rank :: "delivery_status \<Rightarrow> nat" where
  "delivery_rank DPending = 0"
| "delivery_rank DShipping = 1"
| "delivery_rank DDelivered = 2"
| "delivery_rank DFailed = 2"
| "delivery_rank DCancelled = 2"

interpretation delivery_life: status_table delivery_moves delivery_rank
  by unfold_locales (case_tac s; auto)

section \<open>Repository\<close>

definition delivery_by_id :: "uuid \<Rightarrow> db \<Rightarrow> delivery option" where
  "delivery_by_id i s = find_row d_id i (deliveries s)"

text \<open>\<^verbatim>\<open>Order.deliveries\<close>, oldest first.\<close>

definition order_deliveries :: "uuid \<Rightarrow> db \<Rightarrow> delivery list" where
  "order_deliveries oid s = sort_key d_created_at (filter (\<lambda>d. d_order_id d = oid) (deliveries s))"

definition deliveries_by_driver :: "uuid \<Rightarrow> db \<Rightarrow> delivery list" where
  "deliveries_by_driver uid s =
     order_rows d_created_at False (filter (\<lambda>d. d_driver_id d = Some uid) (deliveries s))"

record delivery_line =
  dl_order_item_id :: uuid
  dl_quantity :: int

definition new_delivery_item :: "time \<Rightarrow> delivery_line \<Rightarrow> delivery_item dbop" where
  "new_delivery_item now l =
     andThen fresh_id (\<lambda>i. ret \<lparr>di_id = i, di_order_item_id = dl_order_item_id l,
       di_quantity = dl_quantity l, di_created_at = now\<rparr>)"

definition repo_create_delivery ::
    "time \<Rightarrow> uuid \<Rightarrow> string \<Rightarrow> delivery_status \<Rightarrow> time option \<Rightarrow> string option \<Rightarrow> delivery_line list \<Rightarrow>
     delivery dbop" where
  "repo_create_delivery now oid code st sched remark lines =
     andThen fresh_id (\<lambda>i.
     andThen (map_op (new_delivery_item now) lines) (\<lambda>items.
       (let d = \<lparr>d_id = i, d_order_id = oid, d_code = code, d_status = st, d_driver_id = None,
                 d_scheduled_at = sched, d_delivered_at = None, d_notes = remark, d_last_lat = None,
                 d_last_lng = None, d_created_at = now, d_items = items\<rparr> in
        andThen (modify (\<lambda>s. s\<lparr>deliveries := deliveries s @ [d]\<rparr>)) (\<lambda>_. ret d))))"

definition write_delivery :: "uuid \<Rightarrow> (delivery \<Rightarrow> delivery) \<Rightarrow> unit dbop" where
  "write_delivery i f = modify (\<lambda>s. s\<lparr>deliveries := upd_row d_id i f (deliveries s)\<rparr>)"

definition write_order :: "uuid \<Rightarrow> (order \<Rightarrow> order) \<Rightarrow> unit dbop" where
  "write_order i f = modify (\<lambda>s. s\<lparr>orders := upd_row o_id i f (orders s)\<rparr>)"

section \<open>DeliveryService\<close>

record delivery_create =
  dc_items :: "delivery_line list"
  dc_scheduled_at :: "time option"
  dc_notes :: "string option"

definition parse_delivery_create :: "delivery_create \<Rightarrow> exn + delivery_create" where
  "parse_delivery_create p =
     (if dc_items p \<noteq> [] \<and> list_all (\<lambda>l. 1 \<le> dl_quantity l) (dc_items p) \<and> opt_max_len 1000 (dc_notes p)
      then Inr p else Inl (PyError ''ValidationError''))"

definition find_delivery :: "uuid \<Rightarrow> delivery dbop" where
  "find_delivery i =
     andThen (gets (delivery_by_id i)) (require_some (AppError NotFound ''delivery_not_found''))"

definition assign_driver :: "uuid \<Rightarrow> uuid option \<Rightarrow> delivery dbop" where
  "assign_driver i driver =
     andThen (find_delivery i) (\<lambda>d.
     andThen (case driver of
                None \<Rightarrow> ret ()
              | Some uid \<Rightarrow> andThen (gets (\<lambda>s. find_row u_id uid (users s))) (\<lambda>m.
                  ensure (case m of None \<Rightarrow> False | Some u \<Rightarrow> is_driver u)
                    (AppError Validation ''invalid_driver''))) (\<lambda>_.
     andThen (write_delivery i (\<lambda>d. d\<lparr>d_driver_id := driver\<rparr>)) (\<lambda>_.
     ret (d\<lparr>d_driver_id := driver\<rparr>))))"

definition carried :: "(delivery \<Rightarrow> bool) \<Rightarrow> delivery list \<Rightarrow> uuid \<Rightarrow> int" where
  "carried P ds item =
     sum_list (map di_quantity (filter (\<lambda>x. di_order_item_id x = item) (concat (map d_items (filter P ds)))))"

text \<open>\<^verbatim>\<open>_allocated_quantities\<close>: what trips that are not cancelled or failed already carry.\<close>

definition counts_as_allocated :: "delivery \<Rightarrow> bool" where
  "counts_as_allocated d \<longleftrightarrow> \<not> (d_status d = DCancelled \<or> d_status d = DFailed)"

definition allocated_quantities :: "delivery list \<Rightarrow> uuid \<Rightarrow> int" where
  "allocated_quantities ds = carried counts_as_allocated ds"

definition delivered_quantities :: "delivery list \<Rightarrow> uuid \<Rightarrow> int" where
  "delivered_quantities ds = carried (\<lambda>d. d_status d = DDelivered) ds"

fun check_delivery_lines :: "order_item list \<Rightarrow> (uuid \<Rightarrow> int) \<Rightarrow> uuid list \<Rightarrow> delivery_line list \<Rightarrow> exn + unit" where
  "check_delivery_lines items allocated seen [] = Inr ()"
| "check_delivery_lines items allocated seen (l # ls) =
     (if dl_order_item_id l \<in> set seen then Inl (AppError Validation ''delivery_duplicate_item'')
      else (case find_row oi_id (dl_order_item_id l) items of
              None \<Rightarrow> Inl (AppError Validation ''delivery_item_invalid'')
            | Some it \<Rightarrow>
                if oi_quantity it - allocated (oi_id it) < dl_quantity l
                then Inl (AppError Validation ''delivery_over_allocation'')
                else check_delivery_lines items allocated (dl_order_item_id l # seen) ls))"

definition delivery_code :: "order \<Rightarrow> nat \<Rightarrow> string" where
  "delivery_code ord n =
     (case o_order_number ord of None \<Rightarrow> ''None'' | Some num \<Rightarrow> num) @ ''-D'' @ nat_digits n"

definition fully_delivered :: "delivery list \<Rightarrow> order \<Rightarrow> bool" where
  "fully_delivered ds ord \<longleftrightarrow>
     o_items ord \<noteq> [] \<and> list_all (\<lambda>it. oi_quantity it \<le> delivered_quantities ds (oi_id it)) (o_items ord)"

definition rolled_up :: "time \<Rightarrow> delivery list \<Rightarrow> order \<Rightarrow> order" where
  "rolled_up now ds ord =
     (if fully_delivered ds ord
      then ord\<lparr>o_status := ODelivered,
               o_delivered_at := (case o_delivered_at ord of None \<Rightarrow> Some now | Some t \<Rightarrow> Some t)\<rparr>
      else if list_ex (\<lambda>d. d_status d = DShipping) ds \<and>
              (o_status ord = OPending \<or> o_status ord = OConfirmed)
      then ord\<lparr>o_status := OShipping\<rparr> else ord)"

definition roll_up_order_status :: "time \<Rightarrow> uuid \<Rightarrow> unit dbop" where
  "roll_up_order_status now oid =
     andThen (gets (\<lambda>s. (order_by_id oid s, order_deliveries oid s))) (\<lambda>(m, ds).
       case m of
         None \<Rightarrow> ret ()
       | Some ord \<Rightarrow>
           if ds = [] \<or> o_status ord = OCancelled then ret ()
           else write_order oid (rolled_up now ds))"

definition list_deliveries :: "uuid \<Rightarrow> delivery list dbop" where
  "list_deliveries oid = andThen (find_order oid) (\<lambda>ord. gets (order_deliveries oid))"

definition create_delivery :: "time \<Rightarrow> uuid \<Rightarrow> delivery_create \<Rightarrow> delivery dbop" where
  "create_delivery now oid payload =
     andThen (find_order oid) (\<lambda>ord.
     andThen (ensure (o_status ord \<noteq> OCancelled) (AppError Validation ''order_cancelled'')) (\<lambda>_.
     andThen (gets (order_deliveries oid)) (\<lambda>ds.
     andThen (lift_result (check_delivery_lines (o_items ord) (allocated_quantities ds) [] (dc_items payload))) (\<lambda>_.
     andThen (repo_create_delivery now oid (delivery_code ord (length ds + 1)) DPending
                (dc_scheduled_at payload) (dc_notes payload) (dc_items payload)) (\<lambda>d.
     andThen (roll_up_order_status now oid) (\<lambda>_.
     ret d))))))"

definition set_delivery_status ::
    "time \<Rightarrow> delivery_status \<Rightarrow> string option \<Rightarrow> delivery \<Rightarrow> delivery" where
  "set_delivery_status now st remark d =
     d\<lparr>d_status := st,
       d_notes := (case remark of None \<Rightarrow> d_notes d | Some t \<Rightarrow> Some t),
       d_delivered_at := (if st = DDelivered then Some now else d_delivered_at d)\<rparr>"

definition update_delivery_status ::
    "time \<Rightarrow> uuid \<Rightarrow> uuid \<Rightarrow> delivery_status \<Rightarrow> string option \<Rightarrow> delivery dbop" where
  "update_delivery_status now oid i st remark =
     andThen (gets (delivery_by_id i)) (\<lambda>m.
     andThen (require_some (AppError NotFound ''delivery_not_found'')
                (case m of None \<Rightarrow> None | Some d \<Rightarrow> if d_order_id d = oid then Some d else None)) (\<lambda>d.
     andThen (ensure (st \<in> set (delivery_moves (d_status d)))
                (AppError Validation ''invalid_delivery_status_transition'')) (\<lambda>_.
     andThen (write_delivery i (set_delivery_status now st remark)) (\<lambda>_.
     andThen (roll_up_order_status now oid) (\<lambda>_.
     ret (set_delivery_status now st remark d))))))"

text \<open>The driver's view of a trip: the contact of its order and the names of the carried items.\<close>

record driver_view =
  dv_delivery :: delivery
  dv_customer_name :: string
  dv_customer_phone :: string
  dv_delivery_address :: string
  dv_lines :: "(string \<times> int) list"

definition to_driver_response :: "order \<Rightarrow> delivery \<Rightarrow> driver_view" where
  "to_driver_response ord d =
     \<lparr>dv_delivery = d, dv_customer_name = o_customer_name ord, dv_customer_phone = o_customer_phone ord,
      dv_delivery_address = o_delivery_address ord,
      dv_lines = List.map_filter (\<lambda>x. map_option (\<lambda>it. (oi_product_name it, di_quantity x))
                   (find_row oi_id (di_order_item_id x) (o_items ord))) (d_items d)\<rparr>"

text \<open>The order of a delivery exists: \<open>order_id\<close> is a cascading foreign key.\<close>

definition driver_response :: "delivery \<Rightarrow> driver_view dbop" where
  "driver_response d =
     andThen (gets (order_by_id (d_order_id d))) (\<lambda>m.
     andThen (require_some (PyError ''AttributeError'') m) (\<lambda>ord.
     ret (to_driver_response ord d)))"

definition list_driver_deliveries :: "uuid \<Rightarrow> driver_view list dbop" where
  "list_driver_deliveries uid =
     andThen (gets (deliveries_by_driver uid)) (map_op driver_response)"

definition set_location :: "int option \<Rightarrow> int option \<Rightarrow> delivery \<Rightarrow> delivery" where
  "set_location lat lng d =
     (case (lat, lng) of
        (Some a, Some b) \<Rightarrow> d\<lparr>d_last_lat := Some a, d_last_lng := Some b\<rparr>
      | _ \<Rightarrow> d)"

definition driver_update_status ::
    "time \<Rightarrow> uuid \<Rightarrow> uuid \<Rightarrow> bool \<Rightarrow> delivery_status \<Rightarrow> string option \<Rightarrow> int option \<Rightarrow> int option \<Rightarrow>
     driver_view dbop" where
  "driver_update_status now i actor admin st remark lat lng =
     andThen (gets (delivery_by_id i)) (\<lambda>m.
     andThen (require_some (AppError NotFound ''delivery_not_found'')
                (case m of None \<Rightarrow> None
                 | Some d \<Rightarrow> if \<not> admin \<and> d_driver_id d \<noteq> Some actor then None else Some d)) (\<lambda>d.
     andThen (ensure (st \<in> set (delivery_moves (d_status d)))
                (AppError Validation ''invalid_delivery_status_transition'')) (\<lambda>_.
     andThen (write_delivery i (\<lambda>d. set_location lat lng (set_delivery_status now st remark d))) (\<lambda>_.
     andThen (roll_up_order_status now (d_order_id d)) (\<lambda>_.
     driver_response (set_location lat lng (set_delivery_status now st remark d)))))))"

text \<open>The driver endpoint: the schema admits \<open>delivered\<close> and \<open>failed\<close> and at most 1000 characters of
  notes; the caller is an active driver or admin.\<close>

definition driver_endpoint ::
    "time \<Rightarrow> user \<Rightarrow> uuid \<Rightarrow> delivery_status \<Rightarrow> string option \<Rightarrow> int option \<Rightarrow> int option \<Rightarrow> driver_view dbop" where
  "driver_endpoint now u i st remark lat lng =
     andThen (ensure (u_is_active u) (AppError Unauthorized ''inactive_user'')) (\<lambda>_.
     andThen (ensure (is_driver u) (AppError Forbidden ''driver_required'')) (\<lambda>_.
     andThen (ensure ((st = DDelivered \<or> st = DFailed) \<and> opt_max_len 1000 remark) (PyError ''ValidationError'')) (\<lambda>_.
     driver_update_status now i (u_id u) (is_admin u) st remark lat lng)))"

section \<open>The allocation invariant\<close>

definition load :: "uuid \<Rightarrow> delivery \<Rightarrow> int" where
  "load item d = sum_list (map di_quantity (filter (\<lambda>x. di_order_item_id x = item) (d_items d)))"

text \<open>Units of an order's item on its trips of a given kind.\<close>

definition shipped :: "(delivery \<Rightarrow> bool) \<Rightarrow> uuid \<Rightarrow> uuid \<Rightarrow> delivery list \<Rightarrow> int" where
  "shipped P oid item ds = sum_list (map (\<lambda>d. if d_order_id d = oid \<and> P d then load item d else 0) ds)"

lemma carried_eq: "carried P ds item = sum_list (map (\<lambda>d. if P d then load item d else 0) ds)"
  by (induction ds) (auto simp: carried_def load_def)

lemma carried_order_deliveries: "carried P (order_deliveries oid s) item = shipped P oid item (deliveries s)"
proof -
  have "carried P (order_deliveries oid s) item =
      sum_mset (image_mset (\<lambda>d. if P d then load item d else 0) (mset (order_deliveries oid s)))"
    by (simp add: carried_eq sum_mset_sum_list flip: mset_map)
  also have "\<dots> = sum_list (map (\<lambda>d. if P d then load item d else 0) (filter (\<lambda>d. d_order_id d = oid) (deliveries s)))"
    by (simp add: order_deliveries_def sum_mset_sum_list flip: mset_map mset_filter)
  also have "\<dots> = shipped P oid item (deliveries s)"
  proof -
    have "sum_list (map (\<lambda>d. if P d then load item d else 0) (filter (\<lambda>d. d_order_id d = oid) ds)) = shipped P oid item ds" for ds
      by (induction ds) (auto simp: shipped_def)
    then show ?thesis .
  qed
  finally show ?thesis .
qed

definition trip_row_ok :: "db \<Rightarrow> delivery \<Rightarrow> bool" where
  "trip_row_ok s d \<longleftrightarrow> d_id d < next_id s \<and> d_order_id d \<in> o_id ` set (orders s) \<and>
     list_all (\<lambda>x. 1 \<le> di_quantity x) (d_items d)"

definition trips_ok :: "db \<Rightarrow> bool" where
  "trips_ok s \<longleftrightarrow> order_keys_ok s \<and> unique_by d_id (deliveries s) \<and>
     (\<forall>d \<in> set (deliveries s). trip_row_ok s d) \<and>
     (\<forall>ord \<in> set (orders s). unique_by oi_id (o_items ord) \<and>
        (\<forall>it \<in> set (o_items ord). 1 \<le> oi_quantity it \<and>
           shipped counts_as_allocated (o_id ord) (oi_id it) (deliveries s) \<le> oi_quantity it))"

lemma load_nonneg: "trip_row_ok s d \<Longrightarrow> 0 \<le> load item d"
  unfolding load_def by (rule sum_list_nonneg) (auto simp: trip_row_ok_def list_all_iff)

lemma check_lines_done:
  assumes "check_delivery_lines items alloc seen ls = Inr ()"
  shows "distinct (map dl_order_item_id ls) \<and> set (map dl_order_item_id ls) \<inter> set seen = {} \<and>
    (\<forall>l \<in> set ls. \<exists>it \<in> set items. oi_id it = dl_order_item_id l \<and> dl_quantity l \<le> oi_quantity it - alloc (oi_id it))"
  using assms
proof (induction ls arbitrary: seen)
  case (Cons l ls)
  then obtain it where it: "dl_order_item_id l \<notin> set seen" "find_row oi_id (dl_order_item_id l) items = Some it"
    "dl_quantity l \<le> oi_quantity it - alloc (oi_id it)"
    and rec: "check_delivery_lines items alloc (dl_order_item_id l # seen) ls = Inr ()"
    by (auto split: if_splits option.splits)
  from Cons.IH [OF rec] it find_row_SomeD [OF it(2)] show ?case by auto
qed simp

definition trip_item :: "time \<Rightarrow> uuid \<Rightarrow> delivery_line \<Rightarrow> delivery_item" where
  "trip_item now i l = \<lparr>di_id = i, di_order_item_id = dl_order_item_id l, di_quantity = dl_quantity l,
     di_created_at = now\<rparr>"

lemma new_trip_items:
  "map_op (new_delivery_item now) ls s =
     (Inr (map2 (trip_item now) [next_id s..<next_id s + length ls] ls), s\<lparr>next_id := next_id s + length ls\<rparr>)"
proof (induction ls arbitrary: s)
  case (Cons l ls)
  have "[next_id s..<next_id s + length (l # ls)] = next_id s # [next_id s + 1..<next_id s + 1 + length ls]"
    by (simp add: upt_conv_Cons del: upt_Suc)
  moreover have "new_delivery_item now l s = (Inr (trip_item now (next_id s) l), s\<lparr>next_id := next_id s + 1\<rparr>)"
    by (simp add: op_eval new_delivery_item_def fresh_id_def trip_item_def)
  ultimately show ?case
    using Cons.IH [of "s\<lparr>next_id := next_id s + 1\<rparr>"] by (simp add: andThen_def ret_def del: upt_Suc)
qed (simp add: ret_def)

text \<open>The items of a new trip carry exactly the requested lines.\<close>

lemma trip_items_lines:
  "length is = length ls \<Longrightarrow>
   map (\<lambda>x. (di_order_item_id x, di_quantity x)) (map2 (trip_item now) is ls) =
   map (\<lambda>l. (dl_order_item_id l, dl_quantity l)) ls"
  by (induction "is" ls rule: list_induct2) (auto simp: trip_item_def)

lemma load_lines:
  assumes "map (\<lambda>x. (di_order_item_id x, di_quantity x)) (d_items d) = map (\<lambda>l. (dl_order_item_id l, dl_quantity l)) ls"
    and "distinct (map dl_order_item_id ls)"
  shows "load item d = (case find_row dl_order_item_id item ls of None \<Rightarrow> 0 | Some l \<Rightarrow> dl_quantity l)"
proof -
  have "load item d = demand item (map (\<lambda>x. (di_order_item_id x, di_quantity x)) (d_items d))"
    by (simp add: load_def demand_def filter_map comp_def)
  also have "\<dots> = demand item (map (\<lambda>l. (dl_order_item_id l, dl_quantity l)) ls)" by (simp add: assms(1))
  also have "\<dots> = (case find_row dl_order_item_id item ls of None \<Rightarrow> 0 | Some l \<Rightarrow> dl_quantity l)"
    using assms(2)
  proof (induction ls)
    case (Cons l ls)
    then show ?case
      by (auto simp: find_row_None_iff [THEN iffD2] demand_absent image_image split: option.splits)
  qed simp
  finally show ?thesis .
qed

section \<open>The operations keep the invariant\<close>

definition roll_row :: "time \<Rightarrow> delivery list \<Rightarrow> order \<Rightarrow> order" where
  "roll_row now ds ord = (if ds = [] \<or> o_status ord = OCancelled then ord else rolled_up now ds ord)"

lemma roll_row_keeps [simp]:
  "o_id (roll_row now ds ord) = o_id ord" "o_items (roll_row now ds ord) = o_items ord"
  "o_order_number (roll_row now ds ord) = o_order_number ord" "o_idempotency_key (roll_row now ds ord) = o_idempotency_key ord"
  by (simp_all add: roll_row_def rolled_up_def)

lemma upd_row_cong:
  "(\<And>r. r \<in> set rows \<Longrightarrow> key r = i \<Longrightarrow> f r = g r) \<Longrightarrow> upd_row key i f rows = upd_row key i g rows"
  by (induction rows) auto

lemma upd_row_id: "(\<And>r. r \<in> set rows \<Longrightarrow> key r = i \<Longrightarrow> f r = r) \<Longrightarrow> upd_row key i f rows = rows"
  by (induction rows) auto

lemma roll_up_eval:
  assumes "unique_by o_id (orders s)"
  shows "roll_up_order_status now oid s =
    (Inr (), s\<lparr>orders := upd_row o_id oid (roll_row now (order_deliveries oid s)) (orders s)\<rparr>)"
proof (cases "order_by_id oid s")
  case None
  then have "upd_row o_id oid (roll_row now (order_deliveries oid s)) (orders s) = orders s"
    by (simp add: order_by_id_def find_row_None_iff upd_row_absent)
  with None show ?thesis by (simp add: roll_up_order_status_def op_eval)
next
  case (Some ord)
  have only: "r = ord" if "r \<in> set (orders s)" "o_id r = oid" for r
    using find_row_unique [OF assms that(1)] that Some by (simp add: order_by_id_def)
  show ?thesis
  proof (cases "order_deliveries oid s = [] \<or> o_status ord = OCancelled")
    case True
    with only have "upd_row o_id oid (roll_row now (order_deliveries oid s)) (orders s) = orders s"
      by (intro upd_row_id) (auto simp: roll_row_def)
    with True Some show ?thesis by (simp add: roll_up_order_status_def op_eval)
  next
    case False
    with only have "upd_row o_id oid (roll_row now (order_deliveries oid s)) (orders s) =
        upd_row o_id oid (rolled_up now (order_deliveries oid s)) (orders s)"
      by (intro upd_row_cong) (auto simp: roll_row_def)
    with False Some show ?thesis by (auto simp: roll_up_order_status_def write_order_def op_eval)
  qed
qed

lemma trips_ok_orders:
  assumes ok: "trips_ok s" and keep: "\<And>ord. o_id (f ord) = o_id ord" "\<And>ord. o_items (f ord) = o_items ord"
  shows "trips_ok (s\<lparr>orders := upd_row o_id i f (orders s)\<rparr>)"
proof -
  have rows: "\<exists>q \<in> set (orders s). o_id ord = o_id q \<and> o_items ord = o_items q"
    if "ord \<in> set (upd_row o_id i f (orders s))" for ord
    using set_upd_row [OF that] keep by metis
  have ids: "o_id ` set (upd_row o_id i f (orders s)) = o_id ` set (orders s)"
    by (simp add: key_set_upd_row keep)
  have keys: "order_keys_ok (s\<lparr>orders := upd_row o_id i f (orders s)\<rparr>)"
    using ok rows by (fastforce simp: trips_ok_def order_keys_ok_def unique_upd_row keep)
  have "unique_by oi_id (o_items ord) \<and> (\<forall>it \<in> set (o_items ord). 1 \<le> oi_quantity it \<and>
           shipped counts_as_allocated (o_id ord) (oi_id it) (deliveries s) \<le> oi_quantity it)"
    if "ord \<in> set (upd_row o_id i f (orders s))" for ord
    using rows [OF that] ok by (auto simp: trips_ok_def)
  with ok keys show ?thesis
    by (simp add: trips_ok_def trip_row_ok_def ids)
qed

lemma sum_upd_mono:
  fixes g :: "'r \<Rightarrow> int"
  shows "(\<And>r. r \<in> set rows \<Longrightarrow> key r = i \<Longrightarrow> g (f r) \<le> g r) \<Longrightarrow>
    sum_list (map g (upd_row key i f rows)) \<le> sum_list (map g rows)"
  by (induction rows) (auto intro: add_mono)

lemma trips_ok_trip_update:
  assumes ok: "trips_ok s" and keep: "\<And>d. d_id (f d) = d_id d" "\<And>d. d_order_id (f d) = d_order_id d"
    "\<And>d. d_items (f d) = d_items d"
    and counts: "\<And>d. d \<in> set (deliveries s) \<Longrightarrow> d_id d = i \<Longrightarrow> counts_as_allocated (f d) \<Longrightarrow> counts_as_allocated d"
  shows "trips_ok (s\<lparr>deliveries := upd_row d_id i f (deliveries s)\<rparr>)"
proof -
  let ?ds = "upd_row d_id i f (deliveries s)"
  have ld: "load item (f d) = load item d" for item d by (simp add: load_def keep)
  have less: "shipped counts_as_allocated oid item ?ds \<le> shipped counts_as_allocated oid item (deliveries s)" for oid item
    unfolding shipped_def
  proof (rule sum_upd_mono)
    fix d assume d: "d \<in> set (deliveries s)" "d_id d = i"
    then have "0 \<le> load item d" using ok load_nonneg by (auto simp: trips_ok_def)
    with counts [OF d] show "(if d_order_id (f d) = oid \<and> counts_as_allocated (f d) then load item (f d) else 0)
        \<le> (if d_order_id d = oid \<and> counts_as_allocated d then load item d else 0)"
      by (auto simp: keep ld)
  qed
  have rows: "trip_row_ok s d" if "d \<in> set ?ds" for d
  proof -
    from set_upd_row [OF that] obtain q where "q \<in> set (deliveries s)" "d = f q \<or> d = q" by blast
    with ok show ?thesis by (auto simp: trips_ok_def trip_row_ok_def keep)
  qed
  have "unique_by d_id ?ds" using ok by (simp add: trips_ok_def unique_upd_row keep)
  moreover have "\<forall>ord \<in> set (orders s). unique_by oi_id (o_items ord) \<and> (\<forall>it \<in> set (o_items ord). 1 \<le> oi_quantity it \<and>
      shipped counts_as_allocated (o_id ord) (oi_id it) ?ds \<le> oi_quantity it)"
    using ok less by (fastforce simp: trips_ok_def intro: order_trans)
  ultimately show ?thesis
    using ok rows by (simp add: trips_ok_def order_keys_ok_def trip_row_ok_def)
qed

lemma trips_ok_keys: "trips_ok s \<Longrightarrow> unique_by o_id (orders s)"
  by (simp add: trips_ok_def order_keys_ok_def)

text \<open>The trip a successful \<open>create_delivery\<close> stores.\<close>

definition new_trip :: "time \<Rightarrow> order \<Rightarrow> delivery_create \<Rightarrow> db \<Rightarrow> delivery" where
  "new_trip now ord p s =
     \<lparr>d_id = next_id s, d_order_id = o_id ord, d_code = delivery_code ord (length (order_deliveries (o_id ord) s) + 1),
      d_status = DPending, d_driver_id = None, d_scheduled_at = dc_scheduled_at p, d_delivered_at = None,
      d_notes = dc_notes p, d_last_lat = None, d_last_lng = None, d_created_at = now,
      d_items = map2 (trip_item now) [next_id s + 1..<next_id s + 1 + length (dc_items p)] (dc_items p)\<rparr>"

definition with_trip :: "delivery \<Rightarrow> nat \<Rightarrow> db \<Rightarrow> db" where
  "with_trip d n s = s\<lparr>next_id := next_id s + n, deliveries := deliveries s @ [d]\<rparr>"

lemma create_delivery_done:
  assumes "create_delivery now oid p s = (Inr d, s')" and "unique_by o_id (orders s)"
  shows "\<exists>ord. order_by_id oid s = Some ord \<and> o_status ord \<noteq> OCancelled \<and>
    check_delivery_lines (o_items ord) (allocated_quantities (order_deliveries oid s)) [] (dc_items p) = Inr () \<and>
    d = new_trip now ord p s \<and>
    s' = (let t = with_trip d (1 + length (dc_items p)) s in
          t\<lparr>orders := upd_row o_id oid (roll_row now (order_deliveries oid t)) (orders t)\<rparr>)"
proof -
  from assms(1) obtain ord t where o: "order_by_id oid s = Some ord" "o_status ord \<noteq> OCancelled"
    "check_delivery_lines (o_items ord) (allocated_quantities (order_deliveries oid s)) [] (dc_items p) = Inr ()"
    and c: "repo_create_delivery now oid (delivery_code ord (length (order_deliveries oid s) + 1)) DPending
              (dc_scheduled_at p) (dc_notes p) (dc_items p) s = (Inr d, t)"
    and r: "roll_up_order_status now oid t = (Inr (), s')"
    by (auto simp: create_delivery_def op_simps)
  have oid: "o_id ord = oid" using order_by_id_SomeD [OF o(1)] by simp
  from c have d: "d = new_trip now ord p s" and t: "t = with_trip d (1 + length (dc_items p)) s"
    by (auto simp: repo_create_delivery_def op_simps new_trip_items Let_def new_trip_def with_trip_def oid)
  have "unique_by o_id (orders t)" using assms(2) by (simp add: t with_trip_def)
  from roll_up_eval [OF this, of now oid] r have
    "s' = t\<lparr>orders := upd_row o_id oid (roll_row now (order_deliveries oid t)) (orders t)\<rparr>" by simp
  with o d t show ?thesis by (auto simp: Let_def)
qed

lemma with_trip_ok:
  assumes ok: "trips_ok s" and ord: "order_by_id (o_id ord) s = Some ord"
    and chk: "check_delivery_lines (o_items ord) (allocated_quantities (order_deliveries (o_id ord) s)) [] (dc_items p) = Inr ()"
    and pos: "list_all (\<lambda>l. 1 \<le> dl_quantity l) (dc_items p)"
  shows "trips_ok (with_trip (new_trip now ord p s) (1 + length (dc_items p)) s)"
proof -
  let ?d = "new_trip now ord p s" and ?ls = "dc_items p" and ?n = "1 + length (dc_items p)"
  let ?t = "with_trip ?d ?n s"
  note mem = order_by_id_SomeD [OF ord]
  note lines = check_lines_done [OF chk]
  have im: "map (\<lambda>x. (di_order_item_id x, di_quantity x)) (d_items ?d) = map (\<lambda>l. (dl_order_item_id l, dl_quantity l)) ?ls"
    unfolding new_trip_def delivery.simps by (rule trip_items_lines) (simp del: upt_Suc)
  have ld: "load item ?d = (case find_row dl_order_item_id item ?ls of None \<Rightarrow> 0 | Some l \<Rightarrow> dl_quantity l)" for item
    using load_lines [OF im] lines by blast
  have ship: "shipped counts_as_allocated oid item (deliveries ?t) =
      shipped counts_as_allocated oid item (deliveries s) + (if oid = o_id ord then load item ?d else 0)" for oid item
    by (simp add: shipped_def with_trip_def new_trip_def counts_as_allocated_def)
  have alloc: "1 \<le> oi_quantity it \<and> shipped counts_as_allocated (o_id q) (oi_id it) (deliveries ?t) \<le> oi_quantity it"
    if q: "q \<in> set (orders s)" "it \<in> set (o_items q)" for q it
  proof (cases "o_id q = o_id ord \<and> find_row dl_order_item_id (oi_id it) ?ls \<noteq> None")
    case True
    then obtain l where l: "find_row dl_order_item_id (oi_id it) ?ls = Some l" by auto
    have "q = ord" using find_row_unique [OF trips_ok_keys [OF ok] q(1)] True ord by (simp add: order_by_id_def)
    from lines find_row_SomeD [OF l] obtain it' where it': "it' \<in> set (o_items ord)" "oi_id it' = oi_id it"
      "dl_quantity l \<le> oi_quantity it' - allocated_quantities (order_deliveries (o_id ord) s) (oi_id it')" by force
    have "it' = it" using it' q(2) \<open>q = ord\<close> ok mem
      by (auto simp: trips_ok_def unique_by_def distinct_map dest: inj_onD)
    with it'(3) l q ok show ?thesis unfolding ship
      by (simp add: ld \<open>q = ord\<close> allocated_quantities_def carried_order_deliveries trips_ok_def)
  next
    case False
    then have "(if o_id q = o_id ord then load (oi_id it) ?d else 0) = 0" by (auto simp: ld)
    with q ok show ?thesis unfolding ship by (simp add: trips_ok_def)
  qed
  have qty: "list_all (\<lambda>x. 1 \<le> di_quantity x) (d_items ?d)"
  proof -
    have "map di_quantity (d_items ?d) = map dl_quantity ?ls"
      using arg_cong [OF im, of "map snd"] by (simp add: comp_def)
    then have "di_quantity ` set (d_items ?d) = dl_quantity ` set ?ls" by (metis list.set_map)
    moreover have "\<forall>n \<in> dl_quantity ` set ?ls. 1 \<le> n" using pos by (simp add: list_all_iff)
    ultimately have "\<forall>n \<in> di_quantity ` set (d_items ?d). 1 \<le> n" by metis
    then show ?thesis by (simp add: list_all_iff)
  qed
  have "next_id s \<notin> d_id ` set (deliveries s)" using ok by (auto simp: trips_ok_def trip_row_ok_def)
  then have uniq: "unique_by d_id (deliveries ?t)"
    using ok by (auto simp: trips_ok_def unique_by_def with_trip_def new_trip_def)
  have rows: "\<forall>d \<in> set (deliveries ?t). trip_row_ok ?t d"
    using ok qty mem by (auto simp: trips_ok_def trip_row_ok_def with_trip_def) (auto simp: new_trip_def)
  have "order_keys_ok ?t" using ok by (auto simp: trips_ok_def order_keys_ok_def with_trip_def)
  with uniq rows alloc ok show ?thesis
    unfolding trips_ok_def by (simp add: with_trip_def)
qed

lemma create_delivery_keeps:
  assumes ok: "trips_ok s" and raw: "parse_delivery_create p = Inr p"
    and run: "create_delivery now oid p s = (Inr d, s')"
  shows "trips_ok s'"
proof -
  from create_delivery_done [OF run trips_ok_keys [OF ok]] obtain ord where
    o: "order_by_id oid s = Some ord"
    and c: "check_delivery_lines (o_items ord) (allocated_quantities (order_deliveries oid s)) [] (dc_items p) = Inr ()"
    and d: "d = new_trip now ord p s"
    and s': "s' = (let t = with_trip d (1 + length (dc_items p)) s in
          t\<lparr>orders := upd_row o_id oid (roll_row now (order_deliveries oid t)) (orders t)\<rparr>)" by blast
  have oid: "o_id ord = oid" using order_by_id_SomeD [OF o] by simp
  have pos: "list_all (\<lambda>l. 1 \<le> dl_quantity l) (dc_items p)"
    using raw by (simp add: parse_delivery_create_def split: if_splits)
  have "trips_ok (with_trip d (1 + length (dc_items p)) s)"
    unfolding d by (rule with_trip_ok [OF ok _ _ pos]) (simp_all add: oid o c)
  then show ?thesis unfolding s' Let_def by (rule trips_ok_orders) simp_all
qed

lemma set_delivery_status_keeps [simp]:
  "d_id (set_delivery_status now st r d) = d_id d" "d_order_id (set_delivery_status now st r d) = d_order_id d"
  "d_items (set_delivery_status now st r d) = d_items d" "d_status (set_delivery_status now st r d) = st"
  "d_code (set_delivery_status now st r d) = d_code d" "d_driver_id (set_delivery_status now st r d) = d_driver_id d"
  by (simp_all add: set_delivery_status_def)

lemma set_location_keeps [simp]:
  "d_id (set_location a b d) = d_id d" "d_order_id (set_location a b d) = d_order_id d"
  "d_items (set_location a b d) = d_items d" "d_status (set_location a b d) = d_status d"
  "d_code (set_location a b d) = d_code d" "d_driver_id (set_location a b d) = d_driver_id d"
  by (simp_all add: set_location_def split: option.splits)

lemma delivery_by_id_SomeD: "delivery_by_id i s = Some d \<Longrightarrow> d \<in> set (deliveries s) \<and> d_id d = i"
  by (auto simp: delivery_by_id_def dest: find_row_SomeD)

lemma moves_counted: "st \<in> set (delivery_moves (d_status d)) \<Longrightarrow> counts_as_allocated d"
  by (cases "d_status d") (simp_all add: counts_as_allocated_def)

text \<open>A trip's row was rewritten and its order rolled up.\<close>

definition trip_written :: "time \<Rightarrow> uuid \<Rightarrow> uuid \<Rightarrow> (delivery \<Rightarrow> delivery) \<Rightarrow> db \<Rightarrow> db" where
  "trip_written now oid i f s =
     (let t = s\<lparr>deliveries := upd_row d_id i f (deliveries s)\<rparr> in
      t\<lparr>orders := upd_row o_id oid (roll_row now (order_deliveries oid t)) (orders t)\<rparr>)"

lemma trip_written_ok:
  assumes ok: "trips_ok s" and d: "delivery_by_id i s = Some d" and mv: "st \<in> set (delivery_moves (d_status d))"
    and f: "\<And>d. d_id (f d) = d_id d" "\<And>d. d_order_id (f d) = d_order_id d" "\<And>d. d_items (f d) = d_items d"
  shows "trips_ok (trip_written now oid i f s)"
proof -
  have "q = d" if "q \<in> set (deliveries s)" "d_id q = i" for q
    using ok that d find_row_unique [of d_id "deliveries s" q] by (simp add: trips_ok_def delivery_by_id_def)
  with moves_counted [OF mv] have "trips_ok (s\<lparr>deliveries := upd_row d_id i f (deliveries s)\<rparr>)"
    by (intro trips_ok_trip_update ok f) blast
  then show ?thesis unfolding trip_written_def Let_def by (rule trips_ok_orders) simp_all
qed

lemma update_delivery_status_done:
  assumes "update_delivery_status now oid i st r s = (Inr d', s')" and "unique_by o_id (orders s)"
  shows "\<exists>d. delivery_by_id i s = Some d \<and> d_order_id d = oid \<and> st \<in> set (delivery_moves (d_status d)) \<and>
    d' = set_delivery_status now st r d \<and> s' = trip_written now oid i (set_delivery_status now st r) s"
proof -
  let ?t = "s\<lparr>deliveries := upd_row d_id i (set_delivery_status now st r) (deliveries s)\<rparr>"
  have "unique_by o_id (orders ?t)" using assms(2) by simp
  from roll_up_eval [OF this, of now oid] assms(1) show ?thesis
    by (auto simp: update_delivery_status_def op_simps write_delivery_def trip_written_def Let_def
             split: option.splits if_splits)
qed

lemma driver_update_status_done:
  assumes "driver_update_status now i actor admin st r lat lng s = (Inr v, s')" and "unique_by o_id (orders s)"
  shows "\<exists>d. delivery_by_id i s = Some d \<and> (admin \<or> d_driver_id d = Some actor) \<and>
    st \<in> set (delivery_moves (d_status d)) \<and>
    dv_delivery v = set_location lat lng (set_delivery_status now st r d) \<and>
    s' = trip_written now (d_order_id d) i (\<lambda>d. set_location lat lng (set_delivery_status now st r d)) s"
proof -
  let ?f = "\<lambda>d. set_location lat lng (set_delivery_status now st r d)"
  let ?t = "s\<lparr>deliveries := upd_row d_id i ?f (deliveries s)\<rparr>"
  from assms(1) obtain d t u where d: "delivery_by_id i s = Some d" "admin \<or> d_driver_id d = Some actor"
    "st \<in> set (delivery_moves (d_status d))"
    and r: "roll_up_order_status now (d_order_id d) ?t = (Inr u, t)" and v: "driver_response (?f d) t = (Inr v, s')"
    by (auto simp: driver_update_status_def op_simps write_delivery_def split: option.splits if_splits)
  have "unique_by o_id (orders ?t)" using assms(2) by simp
  from roll_up_eval [OF this, of now "d_order_id d"] r have
    t: "t = trip_written now (d_order_id d) i ?f s" by (simp add: trip_written_def Let_def)
  from v have "s' = t" "dv_delivery v = ?f d"
    by (auto simp: driver_response_def op_simps to_driver_response_def)
  with d t show ?thesis by blast
qed

lemma update_delivery_status_keeps:
  assumes "trips_ok s" "update_delivery_status now oid i st r s = (Inr d', s')"
  shows "trips_ok s'"
  using update_delivery_status_done [OF assms(2) trips_ok_keys [OF assms(1)]]
  by (auto intro!: trip_written_ok [OF assms(1)])

lemma driver_update_status_keeps:
  assumes "trips_ok s" "driver_update_status now i actor admin st r lat lng s = (Inr v, s')"
  shows "trips_ok s'"
  using driver_update_status_done [OF assms(2) trips_ok_keys [OF assms(1)]]
  by (auto intro!: trip_written_ok [OF assms(1)])

lemma assign_driver_done:
  assumes "assign_driver i driver s = (Inr d', s')"
  shows "\<exists>d. delivery_by_id i s = Some d \<and> d' = d\<lparr>d_driver_id := driver\<rparr> \<and>
    (\<forall>uid. driver = Some uid \<longrightarrow> (\<exists>u. find_row u_id uid (users s) = Some u \<and> is_driver u)) \<and>
    s' = s\<lparr>deliveries := upd_row d_id i (\<lambda>d. d\<lparr>d_driver_id := driver\<rparr>) (deliveries s)\<rparr>"
  using assms
  by (auto simp: assign_driver_def find_delivery_def op_simps write_delivery_def split: option.splits)

lemma assign_driver_keeps:
  assumes "trips_ok s" "assign_driver i driver s = (Inr d', s')"
  shows "trips_ok s'"
  using assign_driver_done [OF assms(2)]
  by (auto intro!: trips_ok_trip_update [OF assms(1)] simp: counts_as_allocated_def)

section \<open>Properties\<close>

lemma delivered_le_allocated:
  assumes "\<forall>d \<in> set ds. 0 \<le> load item d"
  shows "shipped (\<lambda>d. d_status d = DDelivered) oid item ds \<le> shipped counts_as_allocated oid item ds"
  unfolding shipped_def using assms
  by (intro sum_list_mono) (auto simp: counts_as_allocated_def)

lemma roll_row_delivered:
  assumes "o_status (roll_row now ds ord) = ODelivered" "o_status ord \<noteq> ODelivered"
  shows "fully_delivered ds ord"
  using assms by (auto simp: roll_row_def rolled_up_def split: if_splits)

text \<open>
  C22. When a trip's status change makes an order delivered, every item of the order has been
  delivered in exactly its ordered quantity: no less by the roll-up, no more by the allocation
  invariant.
\<close>

theorem delivered_exactly:
  assumes "trips_ok s" and "update_delivery_status now oid i st r s = (Inr d, s')"
    and "order_by_id oid s = Some ord" and "o_status ord \<noteq> ODelivered"
    and "order_by_id oid s' = Some ord'" and "o_status ord' = ODelivered"
  shows "o_items ord' = o_items ord \<and>
    (\<forall>it \<in> set (o_items ord'). delivered_quantities (order_deliveries oid s') (oi_id it) = oi_quantity it)"
proof -
  note ok' = update_delivery_status_keeps [OF assms(1,2)]
  from update_delivery_status_done [OF assms(2) trips_ok_keys [OF assms(1)]] have
    s': "s' = trip_written now oid i (set_delivery_status now st r) s" by blast
  have od: "order_deliveries oid (t\<lparr>orders := x\<rparr>) = order_deliveries oid t" for t x
    by (simp add: order_deliveries_def)
  have ord': "ord' = roll_row now (order_deliveries oid s') ord"
    using assms(3,5) unfolding s' trip_written_def Let_def od by (simp add: order_by_id_def find_upd_row)
  then have full: "fully_delivered (order_deliveries oid s') ord"
    using roll_row_delivered assms(4,6) by simp
  have items: "o_items ord' = o_items ord" by (simp add: ord')
  note mem = order_by_id_SomeD [OF assms(5)]
  have "delivered_quantities (order_deliveries oid s') (oi_id it) = oi_quantity it" if it: "it \<in> set (o_items ord')" for it
  proof -
    have "oi_quantity it \<le> delivered_quantities (order_deliveries oid s') (oi_id it)"
      using full it items by (simp add: fully_delivered_def list_all_iff)
    moreover have "delivered_quantities (order_deliveries oid s') (oi_id it) \<le> shipped counts_as_allocated oid (oi_id it) (deliveries s')"
      unfolding delivered_quantities_def carried_order_deliveries
      using ok' load_nonneg by (intro delivered_le_allocated) (auto simp: trips_ok_def)
    moreover have "shipped counts_as_allocated oid (oi_id it) (deliveries s') \<le> oi_quantity it"
      using ok' mem it by (auto simp: trips_ok_def)
    ultimately show ?thesis by simp
  qed
  with items show ?thesis by blast
qed

text \<open>An order on its way with one trip carrying everything, assigned to a driver.\<close>

definition sample_trip :: delivery where
  "sample_trip = \<lparr>d_id = 14, d_order_id = 10, d_code = ''GB-19700101-001-D1'', d_status = DShipping,
     d_driver_id = Some 7, d_scheduled_at = None, d_delivered_at = None, d_notes = None, d_last_lat = None,
     d_last_lng = None, d_created_at = 700,
     d_items = [\<lparr>di_id = 15, di_order_item_id = 11, di_quantity = 3, di_created_at = 700\<rparr>,
                \<lparr>di_id = 16, di_order_item_id = 12, di_quantity = 3, di_created_at = 700\<rparr>]\<rparr>"

definition sample_trips :: db where
  "sample_trips = sample_after\<lparr>orders := [sample_order\<lparr>o_status := OShipping\<rparr>], deliveries := [sample_trip],
     next_id := 17\<rparr>"

lemma sample_trips_ok: "trips_ok sample_trips"
  by code_simp

lemma delivered_exactly_witness:
  "\<exists>d s'. update_delivery_status 900 10 14 DDelivered None sample_trips = (Inr d, s') \<and>
     delivered_quantities (order_deliveries 10 s') 11 = 3"
proof -
  define run where "run = update_delivery_status 900 10 14 DDelivered None sample_trips"
  let ?s' = "snd run"
  have "\<not> isl (fst run)" unfolding run_def by code_simp
  then obtain d where r: "update_delivery_status 900 10 14 DDelivered None sample_trips = (Inr d, ?s')"
    using run_split [of run] unfolding run_def by metis
  have o: "order_by_id 10 sample_trips = Some (sample_order\<lparr>o_status := OShipping\<rparr>)"
    "o_status (sample_order\<lparr>o_status := OShipping\<rparr>) \<noteq> ODelivered"
    by (simp_all add: order_by_id_def sample_trips_def sample_order_def)
  let ?o = "sample_order\<lparr>o_status := ODelivered, o_delivered_at := Some 900\<rparr>"
  have o': "order_by_id 10 ?s' = Some ?o" "o_status ?o = ODelivered"
    unfolding run_def by code_simp+
  from delivered_exactly [OF sample_trips_ok r o o'] have
    "\<forall>it \<in> set (o_items ?o). delivered_quantities (order_deliveries 10 ?s') (oi_id it) = oi_quantity it" by blast
  then have "delivered_quantities (order_deliveries 10 ?s') 11 = 3" by (simp add: sample_order_def)
  with r show ?thesis by blast
qed

text \<open>
  Through the driver endpoint a driver who is not an admin changes only a trip assigned to
  them, and only to delivered or failed along the status table; every other trip stays as it was.
  Anyone else's trip answers 404, as if it did not exist, and nothing changes.
\<close>

lemma driver_own_trips_only:
  assumes "unique_by o_id (orders s)" and "u_is_active u" and "u_role u = Driver"
    and "(st = DDelivered \<or> st = DFailed) \<and> opt_max_len 1000 r"
  shows "(\<forall>v s'. driver_endpoint now u i st r lat lng s = (Inr v, s') \<longrightarrow>
      (\<exists>d. delivery_by_id i s = Some d \<and> d_driver_id d = Some (u_id u) \<and> st \<in> set (delivery_moves (d_status d)) \<and>
         d_status (dv_delivery v) = st \<and>
         filter (\<lambda>x. d_id x \<noteq> i) (deliveries s') = filter (\<lambda>x. d_id x \<noteq> i) (deliveries s))) \<and>
    ((\<forall>d. delivery_by_id i s = Some d \<longrightarrow> d_driver_id d \<noteq> Some (u_id u)) \<longrightarrow>
      driver_endpoint now u i st r lat lng s = (Inl (AppError NotFound ''delivery_not_found''), s))"
proof (intro conjI allI impI)
  fix v s' assume "driver_endpoint now u i st r lat lng s = (Inr v, s')"
  then have run: "driver_update_status now i (u_id u) (is_admin u) st r lat lng s = (Inr v, s')"
    by (auto simp: driver_endpoint_def op_simps)
  let ?f = "\<lambda>d. set_location lat lng (set_delivery_status now st r d)"
  from driver_update_status_done [OF run assms(1)] obtain d where
    d: "delivery_by_id i s = Some d" "is_admin u \<or> d_driver_id d = Some (u_id u)" "st \<in> set (delivery_moves (d_status d))"
    and v: "dv_delivery v = ?f d" and s': "s' = trip_written now (d_order_id d) i ?f s" by blast
  have "filter (\<lambda>x. d_id x \<noteq> i) (upd_row d_id i ?f ds) = filter (\<lambda>x. d_id x \<noteq> i) ds" for ds
    by (induction ds) auto
  then have "filter (\<lambda>x. d_id x \<noteq> i) (deliveries s') = filter (\<lambda>x. d_id x \<noteq> i) (deliveries s)"
    by (simp add: s' trip_written_def Let_def)
  with d v assms(3) show "\<exists>d. delivery_by_id i s = Some d \<and> d_driver_id d = Some (u_id u) \<and>
      st \<in> set (delivery_moves (d_status d)) \<and> d_status (dv_delivery v) = st \<and>
      filter (\<lambda>x. d_id x \<noteq> i) (deliveries s') = filter (\<lambda>x. d_id x \<noteq> i) (deliveries s)"
    by (auto simp: is_admin_def)
next
  assume other: "\<forall>d. delivery_by_id i s = Some d \<longrightarrow> d_driver_id d \<noteq> Some (u_id u)"
  have "\<not> is_admin u" "is_driver u" using assms(3) by (simp_all add: is_admin_def is_driver_def)
  with other assms(2,4) show "driver_endpoint now u i st r lat lng s = (Inl (AppError NotFound ''delivery_not_found''), s)"
    by (cases "delivery_by_id i s") (auto simp: driver_endpoint_def driver_update_status_def op_eval)
qed

lemma driver_own_trips_only_witness:
  "driver_endpoint 900 (sample_user 8 Driver) 14 DDelivered None None None sample_trips
     = (Inl (AppError NotFound ''delivery_not_found''), sample_trips)"
proof -
  have u: "unique_by o_id (orders sample_trips)" by (rule trips_ok_keys [OF sample_trips_ok])
  have v: "u_is_active (sample_user 8 Driver)" "u_role (sample_user 8 Driver) = Driver" "u_id (sample_user 8 Driver) = 8"
    by (simp_all add: sample_user_def)
  have "\<forall>d. delivery_by_id 14 sample_trips = Some d \<longrightarrow> d_driver_id d \<noteq> Some (u_id (sample_user 8 Driver))"
    by (simp add: delivery_by_id_def sample_trips_def sample_trip_def v)
  then show ?thesis using driver_own_trips_only [OF u v(1,2), of DDelivered None 900 14 None None]
    by (simp add: opt_max_len_def)
qed

lemma cancelled_stays [simp]:
  "roll_row now ds (set_status now' OCancelled r ord) = set_status now' OCancelled r ord"
  by (simp add: roll_row_def set_status_def)

text \<open>
  Cancelling an order that is already on its way gives the full ordered quantity back to
  stock whatever was already delivered, and leaves its trips open: a trip in progress can still be
  marked delivered afterwards, and the order then stays cancelled.
\<close>

lemma cancel_ignores_deliveries:
  assumes "trips_ok s" and "order_by_id oid s = Some ord" and "o_status ord = OShipping"
    and "update_order_status now oid OCancelled u r s = (Inr x, s')"
    and "delivery_by_id i s = Some d" and "d_order_id d = oid" and "d_status d = DShipping"
  shows "(\<forall>j. stock_of s' j = map_option (\<lambda>k. k +
        sum_list (map oi_quantity (filter (\<lambda>it. oi_product_id it = Some j) (o_items ord)))) (stock_of s j)) \<and>
    deliveries s' = deliveries s \<and>
    (\<exists>d' s''. update_delivery_status now' oid i DDelivered None s' = (Inr d', s'') \<and> d_status d' = DDelivered \<and>
       (\<exists>ord''. order_by_id oid s'' = Some ord'' \<and> o_status ord'' = OCancelled))"
proof -
  from assms(2,3,4) have run: "andThen (restock ord) (\<lambda>_. andThen (repo_update_status now oid OCancelled r) order_response) s = (Inr x, s')"
    by (auto simp: update_order_status_def ensure_staff_def op_simps)
  note e = restock_and_update_done [OF run assms(2)]
  from e have os: "orders s' = upd_row o_id oid (set_status now OCancelled r) (orders s)" by blast
  from e have "but_stock (s'\<lparr>orders := []\<rparr>) = but_stock (s\<lparr>orders := []\<rparr>)" by blast
  from but_stock_eqD(6) [OF this] have ds: "deliveries s' = deliveries s" by simp
  have uniq: "unique_by o_id (orders s')" using trips_ok_keys [OF assms(1)] by (simp add: os unique_upd_row)
  have ord': "order_by_id oid s' = Some (set_status now OCancelled r ord)"
    using assms(2) by (simp add: order_by_id_def os find_upd_row)
  let ?t = "s'\<lparr>deliveries := upd_row d_id i (set_delivery_status now' DDelivered None) (deliveries s')\<rparr>"
  have "unique_by o_id (orders ?t)" using uniq by simp
  from roll_up_eval [OF this, of now' oid] have
    up: "update_delivery_status now' oid i DDelivered None s' =
      (Inr (set_delivery_status now' DDelivered None d), trip_written now' oid i (set_delivery_status now' DDelivered None) s')"
    using assms(5-7) ds
    by (simp add: update_delivery_status_def op_eval write_delivery_def trip_written_def Let_def delivery_by_id_def)
  have "order_by_id oid (trip_written now' oid i (set_delivery_status now' DDelivered None) s') =
      Some (set_status now OCancelled r ord)"
    using ord' by (simp add: trip_written_def Let_def order_by_id_def find_upd_row cancelled_stays)
  with up e ds show ?thesis by (auto simp: demand_restock set_status_def)
qed

lemma cancel_ignores_deliveries_witness:
  "\<exists>x s'. update_order_status 800 10 OCancelled (sample_user 4 Admin) None sample_trips = (Inr x, s') \<and>
     stock_of s' 1 = Some 5 \<and> deliveries s' = [sample_trip]"
proof -
  define run where "run = update_order_status 800 10 OCancelled (sample_user 4 Admin) None sample_trips"
  have "\<not> isl (fst run)" unfolding run_def by code_simp
  then obtain x s' where r: "update_order_status 800 10 OCancelled (sample_user 4 Admin) None sample_trips = (Inr x, s')"
    using run_split [of run] unfolding run_def by metis
  let ?o = "sample_order\<lparr>o_status := OShipping\<rparr>"
  have o: "order_by_id 10 sample_trips = Some ?o" "o_status ?o = OShipping"
    by (simp_all add: order_by_id_def sample_trips_def sample_order_def)
  have t: "delivery_by_id 14 sample_trips = Some sample_trip" "d_order_id sample_trip = 10" "d_status sample_trip = DShipping"
    by (simp_all add: delivery_by_id_def sample_trips_def sample_trip_def)
  have v: "sum_list (map oi_quantity (filter (\<lambda>it. oi_product_id it = Some 1) (o_items ?o))) = 3"
    "stock_of sample_trips 1 = Some 2" "deliveries sample_trips = [sample_trip]"
    by (simp_all add: sample_order_def stock_of_def sample_trips_def sample_after_def sample_gas_def)
  from cancel_ignores_deliveries [OF sample_trips_ok o r t, of 0] v have "stock_of s' 1 = Some 5" "deliveries s' = [sample_trip]"
    by auto
  with r show ?thesis by blast
qed

end
