(* ===== verification/Shop.thy ===== *)
theory Shop
  imports Deliveries
begin

text \<open>
  The shop as a whole: every request of the catalog, coupon, order and delivery services as a step
  on the database they share, the invariant that ties their tables together, the flow of units
  between the shelf and the orders, and the life of an order as its abstract status machine.
\<close>

section \<open>The steps\<close>

text \<open>
  A request of the order or the delivery service that was answered without an exception. A checkout
  happens on a date whose year has four digits.
\<close>

inductive order_step :: "db \<Rightarrow> db \<Rightarrow> bool" where
  place: "parse_checkout raw = Inr ck \<Longrightarrow> set_order_ok (env_set_order env) \<Longrightarrow>
    length (ymd (env_now env)) = 8 \<Longrightarrow> create_order env ck usr key s = (Inr ord, t) \<Longrightarrow> order_step s t"
| status: "update_order_status now i st admin remark s = (Inr ord, t) \<Longrightarrow> order_step s t"
| cancel: "cancel_order now i usr reason phone s = (Inr ord, t) \<Longrightarrow> order_step s t"
| trip: "parse_delivery_create p = Inr p \<Longrightarrow> create_delivery now i p s = (Inr d, t) \<Longrightarrow> order_step s t"
| trip_status: "update_delivery_status now i j dst remark s = (Inr d, t) \<Longrightarrow> order_step s t"
| driver_status: "driver_update_status now j actor adm dst remark lat lng s = (Inr v, t) \<Longrightarrow> order_step s t"
| driver: "assign_driver j drv s = (Inr d, t) \<Longrightarrow> order_step s t"

text \<open>A request of the catalog or the coupon administration.\<close>

inductive admin_step :: "db \<Rightarrow> db \<Rightarrow> bool" where
  new_product: "parse_product_create raw = Inr pc \<Longrightarrow> create_product now pc admin s = (Inr r, t) \<Longrightarrow> admin_step s t"
| edit_product: "parse_product_update raw' = Inr pu \<Longrightarrow> update_product i pu admin s = (Inr r, t) \<Longrightarrow> admin_step s t"
| drop_product: "delete_product i admin s = (Inr u, t) \<Longrightarrow> admin_step s t"
| new_parent: "parse_parent_create c = Inr c' \<Longrightarrow> create_parent c' admin s = (Inr q, t) \<Longrightarrow> admin_step s t"
| edit_parent: "parse_parent_update v = Inr v' \<Longrightarrow> update_parent i v' admin s = (Inr q, t) \<Longrightarrow> admin_step s t"
| drop_parent: "delete_parent i admin s = (Inr u, t) \<Longrightarrow> admin_step s t"
| new_coupon: "parse_coupon_create k = Inr k' \<Longrightarrow> create_coupon now k' admin s = (Inr cp, t) \<Longrightarrow> admin_step s t"
| edit_coupon: "parse_coupon_update w = Inr w' \<Longrightarrow> update_coupon i w' admin s = (Inr cp, t) \<Longrightarrow> admin_step s t"

inductive_cases order_stepE: "order_step s t"
inductive_cases admin_stepE: "admin_step s t"

definition shop_step :: "db \<Rightarrow> db \<Rightarrow> bool" where
  "shop_step s t \<longleftrightarrow> order_step s t \<or> admin_step s t"

section \<open>What the administration leaves alone\<close>

text \<open>The orders, trips and redemptions; identifiers are only ever drawn.\<close>

definition trade_kept :: "db \<Rightarrow> db \<Rightarrow> bool" where
  "trade_kept s t \<longleftrightarrow> orders t = orders s \<and> deliveries t = deliveries s \<and>
     redemptions t = redemptions s \<and> next_id s \<le> next_id t"

definition catalog_kept :: "db \<Rightarrow> db \<Rightarrow> bool" where
  "catalog_kept s t \<longleftrightarrow> products t = products s \<and> parents t = parents s \<and> next_id s \<le> next_id t"

definition coupons_kept :: "db \<Rightarrow> db \<Rightarrow> bool" where
  "coupons_kept s t \<longleftrightarrow> coupons t = coupons s \<and> redemptions t = redemptions s \<and> next_id s \<le> next_id t"

lemmas kept_defs = trade_kept_def catalog_kept_def coupons_kept_def

lemma trade_kept_refl: "trade_kept s s" "coupons_kept s s" "catalog_kept s s"
  by (simp_all add: kept_defs)

lemma response_states:
  "product_response p s = (r, t) \<Longrightarrow> t = s" "parent_response q s = (r', t) \<Longrightarrow> t = s"
  by (auto dest: product_response_state parent_response_state)

lemma admin_step_trade:
  assumes "admin_step s t"
  shows "trade_kept s t"
  using assms
proof (cases rule: admin_step.cases)
  case (new_product raw pc now admin r)
  then show ?thesis
    by (auto simp: create_product_def repo_create_product_def op_simps kept_defs Let_def ensure_admin_def
             dest!: response_states split: if_splits option.splits)
next
  case (edit_product raw' pu i admin r)
  then show ?thesis
    by (auto simp: update_product_def repo_update_product_def op_simps kept_defs Let_def ensure_admin_def
             dest!: response_states split: if_splits option.splits)
qed (auto simp: delete_product_def repo_soft_delete_product_def create_parent_def repo_create_parent_def
       update_parent_def repo_update_parent_def delete_parent_def repo_soft_delete_parent_def
       create_coupon_def repo_create_coupon_def update_coupon_def repo_update_coupon_def
       op_simps kept_defs Let_def ensure_admin_def
       dest!: response_states split: if_splits option.splits sum.splits)

section \<open>How a request changes the stored orders\<close>

text \<open>
  The abstract order: its content, which nothing rewrites, and a status that moves along
  \<open>order_next\<close>. The first rule is the status table; the other two are what the trips of an order
  do to it, which may skip a status.
\<close>

inductive order_next :: "order_status \<Rightarrow> order_status \<Rightarrow> bool" where
  by_table: "st' \<in> set (order_moves st) \<Longrightarrow> order_next st st'"
| on_the_way: "st = OPending \<or> st = OConfirmed \<Longrightarrow> order_next st OShipping"
| all_carried: "st = OPending \<or> st = OConfirmed \<or> st = OShipping \<Longrightarrow> order_next st ODelivered"

inductive_simps order_next_iff: "order_next st st'"

definition order_content :: "order \<Rightarrow> order" where
  "order_content ord = ord\<lparr>o_status := OPending, o_internal_notes := None, o_delivered_at := None,
     o_cancelled_at := None, o_cancelled_reason := None\<rparr>"

definition evolves :: "order \<Rightarrow> order \<Rightarrow> bool" where
  "evolves p q \<longleftrightarrow> order_content q = order_content p \<and> (o_status q = o_status p \<or> order_next (o_status p) (o_status q))"

lemma evolves_refl [simp]: "evolves q q"
  by (simp add: evolves_def)

lemma evolves_set_status: "st \<in> set (order_moves (o_status q)) \<Longrightarrow> evolves q (set_status now st r q)"
  by (simp add: evolves_def order_content_def set_status_def by_table)

lemma evolves_roll_row: "evolves q (roll_row now ds q)"
  by (cases "o_status q")
     (auto simp: evolves_def order_content_def roll_row_def rolled_up_def order_next_iff)

lemma content_fields:
  assumes "order_content q = order_content p"
  shows "o_id q = o_id p" "o_items q = o_items p" "o_order_number q = o_order_number p"
    "o_idempotency_key q = o_idempotency_key p" "o_coupon_id q = o_coupon_id p" "o_subtotal q = o_subtotal p"
    "o_shipping_fee q = o_shipping_fee p" "o_discount_amount q = o_discount_amount p"
    "o_total_amount q = o_total_amount p" "o_user_id q = o_user_id p" "o_customer_phone q = o_customer_phone p"
  using arg_cong [OF assms, of o_id] arg_cong [OF assms, of o_items] arg_cong [OF assms, of o_order_number]
    arg_cong [OF assms, of o_idempotency_key] arg_cong [OF assms, of o_coupon_id] arg_cong [OF assms, of o_subtotal]
    arg_cong [OF assms, of o_shipping_fee] arg_cong [OF assms, of o_discount_amount]
    arg_cong [OF assms, of o_total_amount] arg_cong [OF assms, of o_user_id] arg_cong [OF assms, of o_customer_phone]
  by (simp_all add: order_content_def)

lemma list_all2_upd_row:
  "(\<And>r. r \<in> set rows \<Longrightarrow> R r (if key r = i then f r else r)) \<Longrightarrow> list_all2 R rows (upd_row key i f rows)"
  by (induction rows) auto

lemma evolves_upd_row:
  assumes "unique_by o_id rows" "find_row o_id i rows = Some q" "evolves q (f q)"
  shows "list_all2 evolves rows (upd_row o_id i f rows)"
  using unique_row [OF assms(1,2)] assms(3) by (intro list_all2_upd_row) auto

lemma evolves_upd_any: "(\<And>q. evolves q (f q)) \<Longrightarrow> list_all2 evolves rows (upd_row o_id i f rows)"
  by (intro list_all2_upd_row) auto

text \<open>The statuses an order passed through are forgotten when all its tables only look at the content.\<close>

lemma evolves_map:
  assumes "list_all2 evolves ps qs" "\<And>p q. order_content q = order_content p \<Longrightarrow> f q = f p"
  shows "map f qs = map f ps"
  using assms(1) by (induction rule: list_all2_induct) (auto simp: evolves_def dest: assms(2))

section \<open>Units on orders\<close>

definition units_of :: "uuid \<Rightarrow> order \<Rightarrow> int" where
  "units_of j ord = sum_list (map oi_quantity (filter (\<lambda>it. oi_product_id it = Some j) (o_items ord)))"

definition held_units :: "uuid \<Rightarrow> order \<Rightarrow> int" where
  "held_units j ord = (if o_status ord = OCancelled then 0 else units_of j ord)"

lemma total_sold_held: "total_sold j s = sum_list (map (held_units j) (orders s))"
proof -
  have "sum_list (map oi_quantity (filter (\<lambda>it. oi_product_id it = Some j)
      (concat (map o_items (filter (\<lambda>ord. o_status ord \<noteq> OCancelled) os))))) = sum_list (map (held_units j) os)" for os
    by (induction os) (auto simp: held_units_def units_of_def)
  then show ?thesis by (simp add: total_sold_def product_lines_def)
qed

lemma demand_units: "demand j (restock_list ord) = units_of j ord"
  by (simp add: demand_restock units_of_def)

lemma held_roll_row [simp]: "held_units j (roll_row now ds q) = held_units j q"
  by (auto simp: held_units_def units_of_def roll_row_def rolled_up_def)

lemma held_upd_same: "(\<And>q. held_units j (f q) = held_units j q) \<Longrightarrow>
    sum_list (map (held_units j) (upd_row o_id i f rows)) = sum_list (map (held_units j) rows)"
  by (induction rows) auto

section \<open>The invariant\<close>

definition order_row_ok :: "order \<Rightarrow> bool" where
  "order_row_ok ord \<longleftrightarrow> o_items ord \<noteq> [] \<and>
     list_all (\<lambda>it. 0 < oi_unit_price it \<and> oi_subtotal it = oi_unit_price it * oi_quantity it) (o_items ord) \<and>
     o_subtotal ord = sum_list (map oi_subtotal (o_items ord)) \<and> 0 \<le> o_shipping_fee ord \<and>
     0 \<le> o_discount_amount ord \<and> o_discount_amount ord \<le> o_subtotal ord \<and>
     o_total_amount ord = o_subtotal ord + o_shipping_fee ord - o_discount_amount ord"

definition order_keys :: "db \<Rightarrow> uuid list" where
  "order_keys s = List.map_filter o_idempotency_key (orders s)"

definition coupon_orders :: "uuid \<Rightarrow> db \<Rightarrow> int" where
  "coupon_orders i s = int (length (filter (\<lambda>ord. o_coupon_id ord = Some i) (orders s)))"

definition orders_ok :: "db \<Rightarrow> bool" where
  "orders_ok s \<longleftrightarrow> distinct (order_numbers s) \<and> distinct (order_keys s) \<and>
     list_all order_row_ok (orders s)"

definition shop_ok :: "db \<Rightarrow> bool" where
  "shop_ok s \<longleftrightarrow> catalog_ok s \<and> coupons_ok s \<and> trips_ok s \<and> orders_ok s \<and>
     (\<forall>i. uses_of i (redemptions s) = coupon_orders i s)"

lemma shop_okD:
  assumes "shop_ok s"
  shows "catalog_ok s" "coupons_ok s" "trips_ok s" "orders_ok s" "unique_by o_id (orders s)" "order_keys_ok s"
  using assms trips_ok_keys by (auto simp: shop_ok_def trips_ok_def)

lemma map_filter_cong_map: "map f xs = map f ys \<Longrightarrow> List.map_filter f xs = List.map_filter f ys"
proof (induction xs arbitrary: ys)
  case (Cons x xs)
  then obtain z zs where ys: "ys = z # zs" "f x = f z" "map f xs = map f zs" by (cases ys) auto
  with Cons.IH [OF ys(3)] show ?case by (cases "f z") simp_all
qed simp

lemma length_filter_map: "length (filter (\<lambda>x. f x = a) xs) = length (filter (\<lambda>y. y = a) (map f xs))"
  by (induction xs) auto

lemma list_all_by_map: "list_all P xs \<longleftrightarrow> False \<notin> set (map P xs)"
  by (auto simp: list_all_iff)

text \<open>What only reads the content of the orders survives every change of status.\<close>

lemma orders_ok_evolve:
  assumes "list_all2 evolves (orders s) (orders t)"
  shows "order_numbers t = order_numbers s" "order_keys t = order_keys s"
    "coupon_orders i t = coupon_orders i s" "orders_ok s \<Longrightarrow> orders_ok t"
proof -
  show n: "order_numbers t = order_numbers s" "order_keys t = order_keys s"
    unfolding order_numbers_def order_keys_def
    by (rule map_filter_cong_map, rule evolves_map [OF assms], rule content_fields, assumption)+
  have "map o_coupon_id (orders t) = map o_coupon_id (orders s)"
    by (rule evolves_map [OF assms], rule content_fields)
  then show "coupon_orders i t = coupon_orders i s"
    by (simp add: coupon_orders_def length_filter_map [of o_coupon_id])
  have "order_row_ok q = order_row_ok p" if "order_content q = order_content p" for p q
    unfolding order_row_ok_def content_fields [OF that] ..
  from evolves_map [OF assms this] have "list_all order_row_ok (orders t) = list_all order_row_ok (orders s)"
    by (simp add: list_all_by_map)
  with n show "orders_ok s \<Longrightarrow> orders_ok t" by (simp add: orders_ok_def)
qed

text \<open>A catalog whose rows changed in their stock only, to quantities that are not negative.\<close>

lemma catalog_ok_stock:
  assumes ok: "catalog_ok s" and rows: "map (\<lambda>p. p\<lparr>p_stock_quantity := 0\<rparr>) (products t) = map (\<lambda>p. p\<lparr>p_stock_quantity := 0\<rparr>) (products s)"
    and pars: "parents t = parents s" "next_id s \<le> next_id t" and pos: "\<And>j k. stock_of t j = Some k \<Longrightarrow> 0 \<le> k"
  shows "catalog_ok t"
proof -
  have ids: "map p_id (products t) = map p_id (products s)" "map p_sku (products t) = map p_sku (products s)"
    using arg_cong [OF rows, of "map p_id"] arg_cong [OF rows, of "map p_sku"] by (simp_all add: comp_def)
  have uniq: "unique_by p_id (products t)" using ok ids by (simp add: catalog_ok_def unique_by_def)
  have row: "product_row_ok p \<and> p_id p < next_id t \<and> parent_fk_ok (p_parent_id p) t" if p: "p \<in> set (products t)" for p
  proof -
    have "p\<lparr>p_stock_quantity := 0\<rparr> \<in> (\<lambda>p. p\<lparr>p_stock_quantity := 0\<rparr>) ` set (products s)"
      using p arg_cong [OF rows, of set] by auto
    then obtain q where q: "q \<in> set (products s)" "p\<lparr>p_stock_quantity := 0\<rparr> = q\<lparr>p_stock_quantity := 0\<rparr>" by blast
    then have pq: "p = q\<lparr>p_stock_quantity := p_stock_quantity p\<rparr>"
    proof -
      have "p = p\<lparr>p_stock_quantity := 0, p_stock_quantity := p_stock_quantity p\<rparr>" by (cases p) simp
      then show ?thesis unfolding q(2) by simp
    qed
    have "stock_of t (p_id p) = Some (p_stock_quantity p)"
      using find_row_unique [OF uniq p] by (simp add: stock_of_def)
    then have "0 \<le> p_stock_quantity p" by (rule pos)
    with pq obtain n where n: "p = q\<lparr>p_stock_quantity := n\<rparr>" "0 \<le> n" by blast
    with q(1) ok pars(2) show ?thesis
      by (auto simp: catalog_ok_def row_ok_stock parent_fk_ok_iff pars(1))
  qed
  show ?thesis
    using uniq ids ok pars row by (auto simp: catalog_ok_def unique_by_def)
qed

section \<open>What an order request did\<close>

text \<open>A stored order was rewritten in its status columns; the shelf received \<open>back\<close> units.\<close>

definition order_rewritten :: "uuid \<Rightarrow> (order \<Rightarrow> order) \<Rightarrow> (uuid \<Rightarrow> int) \<Rightarrow> db \<Rightarrow> db \<Rightarrow> bool" where
  "order_rewritten i f back s t \<longleftrightarrow> orders t = upd_row o_id i f (orders s) \<and>
     stock_of t = (\<lambda>j. map_option (\<lambda>k. k + back j) (stock_of s j)) \<and>
     map (\<lambda>p. p\<lparr>p_stock_quantity := 0\<rparr>) (products t) = map (\<lambda>p. p\<lparr>p_stock_quantity := 0\<rparr>) (products s) \<and>
     parents t = parents s \<and> coupons t = coupons s \<and> redemptions t = redemptions s \<and> next_id s \<le> next_id t"

lemma rewritten_plain:
  "t = (u\<lparr>orders := upd_row o_id i f (orders u)\<rparr>) \<Longrightarrow> orders u = orders s \<Longrightarrow> products u = products s \<Longrightarrow>
   parents u = parents s \<Longrightarrow> coupons u = coupons s \<Longrightarrow> redemptions u = redemptions s \<Longrightarrow> next_id s \<le> next_id u \<Longrightarrow>
   order_rewritten i f (\<lambda>j. 0) s t"
  by (simp add: order_rewritten_def fun_eq_iff stock_of_def option.map_ident)

lemma restocked_rewritten:
  assumes "andThen (restock q) (\<lambda>_. andThen (repo_update_status now i st r) order_response) s = (Inr x, t)"
    and "order_by_id i s = Some q"
  shows "order_rewritten i (set_status now st r) (\<lambda>j. units_of j q) s t \<and> deliveries t = deliveries s \<and>
    st \<in> set (order_moves (o_status q))"
proof -
  from restock_and_update_done [OF assms] have e: "but_stock (t\<lparr>orders := []\<rparr>) = but_stock (s\<lparr>orders := []\<rparr>)"
    "stock_of t = (\<lambda>j. map_option (\<lambda>k. k + units_of j q) (stock_of s j))" "st \<in> set (order_moves (o_status q))"
    "orders t = upd_row o_id i (set_status now st r) (orders s)" by (simp_all add: demand_units)
  from but_stock_eqD [OF e(1)] e(2-4) show ?thesis by (simp add: order_rewritten_def)
qed

lemma update_status_rewritten:
  assumes "update_order_status now i st admin r s = (Inr ord, t)"
  shows "\<exists>q. order_by_id i s = Some q \<and> st \<in> set (order_moves (o_status q)) \<and>
    order_rewritten i (set_status now st r) (\<lambda>j. if st = OCancelled then units_of j q else 0) s t \<and>
    deliveries t = deliveries s"
proof -
  from assms obtain q where q: "order_by_id i s = Some q" "st \<in> set (order_moves (o_status q))"
    and run: "andThen (if st = OCancelled then restock q else ret ())
        (\<lambda>_. andThen (repo_update_status now i st r) order_response) s = (Inr ord, t)"
    by (auto simp: update_order_status_def ensure_staff_def op_simps)
  show ?thesis
  proof (cases "st = OCancelled")
    case True
    with run q restocked_rewritten [OF _ q(1)] show ?thesis by simp
  next
    case False
    with run have "t = s\<lparr>orders := upd_row o_id i (set_status now st r) (orders s)\<rparr>"
      by (auto simp: repo_update_status_def op_simps dest!: order_response_state)
    from rewritten_plain [OF this] this False q show ?thesis by simp
  qed
qed

lemma cancel_rewritten:
  assumes "cancel_order now i usr r phone s = (Inr ord, t)"
  shows "\<exists>q. order_by_id i s = Some q \<and> OCancelled \<in> set (order_moves (o_status q)) \<and>
    order_rewritten i (set_status now OCancelled r) (\<lambda>j. units_of j q) s t \<and> deliveries t = deliveries s"
proof -
  from cancel_order_done [OF assms] obtain q where "order_by_id i s = Some q"
    "andThen (restock q) (\<lambda>_. andThen (repo_update_status now i OCancelled r) order_response) s = (Inr ord, t)"
    by blast
  with restocked_rewritten [OF this(2,1)] show ?thesis by blast
qed

lemma order_step_effect:
  assumes "order_step s t" "unique_by o_id (orders s)"
  obtains
    (replayed) "t = s"
  | (placed) raw ck env usr key lines coup disc ph row where
      "parse_checkout raw = Inr ck" "order_by_key key s = None" "length (ymd (env_now env)) = 8"
      "placed env ck usr key s lines coup disc ph row t"
      "\<forall>i \<in> li_product_id ` set (ck_items ck). \<exists>p. find_product s i = Some p \<and> p_is_active p"
  | (restatused) i q now st r where "order_by_id i s = Some q" "st \<in> set (order_moves (o_status q))"
      "order_rewritten i (set_status now st r) (\<lambda>j. if st = OCancelled then units_of j q else 0) s t"
      "deliveries t = deliveries s"
  | (rolled) i now ds where "order_rewritten i (roll_row now ds) (\<lambda>j. 0) s t"
  | (assigned) ds where "t = s\<lparr>deliveries := ds\<rparr>"
  using assms(1)
proof (cases rule: order_step.cases)
  case (place raw ck env usr key ord)
  show thesis
  proof (cases "order_by_key key s")
    case None
    from create_order_placed [OF place(4) None place(2)] obtain lines coup disc ph row where
      "placed env ck usr key s lines coup disc ph row t"
      "\<forall>i \<in> li_product_id ` set (ck_items ck). \<exists>p. find_product s i = Some p \<and> p_is_active p" by blast
    then show thesis by (rule placed [OF place(1) None place(3)])
  next
    case (Some x)
    with place(4) have "t = s" by (auto simp: create_order_def op_simps dest: order_response_state)
    then show thesis by (rule replayed)
  qed
next
  case (status now i st admin remark ord)
  from update_status_rewritten [OF status] restatused show thesis by blast
next
  case (cancel now i usr reason phone ord)
  from cancel_rewritten [OF cancel] restatused [of i _ OCancelled now reason] show thesis by auto
next
  case (trip p now i d)
  from create_delivery_done [OF trip(2) assms(2)] obtain u where
    u: "u = with_trip d (1 + length (dc_items p)) s"
    "t = u\<lparr>orders := upd_row o_id i (roll_row now (order_deliveries i u)) (orders u)\<rparr>" by (auto simp: Let_def)
  show thesis by (rule rolled [OF rewritten_plain [OF u(2)]]) (simp_all add: u(1) with_trip_def)
next
  case (trip_status now i j dst remark d)
  from update_delivery_status_done [OF trip_status assms(2)] obtain u where
    u: "u = s\<lparr>deliveries := upd_row d_id j (set_delivery_status now dst remark) (deliveries s)\<rparr>"
    "t = u\<lparr>orders := upd_row o_id i (roll_row now (order_deliveries i u)) (orders u)\<rparr>"
    by (auto simp: Let_def trip_written_def)
  show thesis by (rule rolled [OF rewritten_plain [OF u(2)]]) (simp_all add: u(1))
next
  case (driver_status now j actor adm dst remark lat lng v)
  from driver_update_status_done [OF driver_status assms(2)] obtain u i f where
    u: "u = s\<lparr>deliveries := upd_row d_id j f (deliveries s)\<rparr>"
    "t = u\<lparr>orders := upd_row o_id i (roll_row now (order_deliveries i u)) (orders u)\<rparr>"
    by (auto simp: Let_def trip_written_def)
  show thesis by (rule rolled [OF rewritten_plain [OF u(2)]]) (simp_all add: u(1))
next
  case (driver j drv d)
  from assign_driver_done [OF driver] assigned show thesis by blast
qed

lemma evolved_only:
  "list_all2 evolves (orders s) (orders t) \<Longrightarrow> \<exists>qs new. orders t = qs @ new \<and> list_all2 evolves (orders s) qs"
  by (intro exI [of _ "orders t"] exI [of _ "[]"]) simp

lemma order_step_evolves:
  assumes "order_step s t" "shop_ok s"
  shows "\<exists>qs new. orders t = qs @ new \<and> list_all2 evolves (orders s) qs"
  using assms(1) shop_okD(5) [OF assms(2)]
proof (cases rule: order_step_effect)
  case replayed
  then show ?thesis by (intro evolved_only) (simp add: list_all2_same)
next
  case (placed raw ck env usr key lines coup disc ph row)
  from placed(4) have "orders t = orders s @ [row]" by (simp add: placed_def)
  then show ?thesis by (intro exI [of _ "orders s"] exI [of _ "[row]"]) (simp add: list_all2_same)
next
  case (restatused i q now st r)
  from restatused(1) have "find_row o_id i (orders s) = Some q" by (simp add: order_by_id_def)
  from evolves_upd_row [where f = "set_status now st r", OF shop_okD(5) [OF assms(2)] this]
    evolves_set_status [OF restatused(2)] restatused(3)
  show ?thesis by (intro evolved_only) (simp add: order_rewritten_def)
next
  case (rolled i now ds)
  with evolves_upd_any [where f = "roll_row now ds", OF evolves_roll_row] show ?thesis
    by (intro evolved_only) (simp add: order_rewritten_def)
next
  case (assigned ds)
  then show ?thesis by (intro evolved_only) (simp add: list_all2_same)
qed

section \<open>Every request keeps the invariant\<close>

lemma trips_ok_cong:
  assumes "orders t = orders s" "deliveries t = deliveries s" "next_id s \<le> next_id t" "trips_ok s"
  shows "trips_ok t"
  using assms(4) order_less_le_trans [OF _ assms(3)]
  by (auto simp: trips_ok_def trip_row_ok_def order_keys_ok_def assms(1,2))

lemma admin_step_keeps:
  assumes "admin_step s t" "shop_ok s"
  shows "shop_ok t"
proof -
  note ok = shop_okD [OF assms(2)]
  from admin_step_trade [OF assms(1)] have k: "orders t = orders s" "deliveries t = deliveries s"
    "redemptions t = redemptions s" "next_id s \<le> next_id t" by (simp_all add: trade_kept_def)
  have "catalog_ok t \<and> coupons_ok t"
    using assms(1)
  proof (cases rule: admin_step.cases)
    case (new_product raw pc now admin r)
    then have "coupons t = coupons s"
      by (auto simp: create_product_def repo_create_product_def op_simps Let_def ensure_admin_def
               dest!: response_states split: if_splits option.splits)
    with k new_product create_product_keeps [OF ok(1)] coupons_ok_cong [OF _ _ _ ok(2)] show ?thesis by blast
  next
    case (edit_product raw' pu i admin r)
    then have "coupons t = coupons s"
      by (auto simp: update_product_def repo_update_product_def op_simps Let_def ensure_admin_def
               dest!: response_states split: if_splits option.splits)
    with k edit_product update_product_keeps [OF ok(1)] coupons_ok_cong [OF _ _ _ ok(2)] show ?thesis by blast
  next
    case (drop_product i admin u)
    then have "coupons t = coupons s"
      by (auto simp: delete_product_def repo_soft_delete_product_def op_simps ensure_admin_def split: option.splits)
    with k drop_product delete_product_keeps [OF ok(1)] coupons_ok_cong [OF _ _ _ ok(2)] show ?thesis by blast
  next
    case (new_parent c c' admin q)
    then have "coupons t = coupons s"
      by (auto simp: create_parent_def repo_create_parent_def op_simps ensure_admin_def dest!: response_states)
    with k new_parent create_parent_keeps [OF ok(1)] coupons_ok_cong [OF _ _ _ ok(2)] show ?thesis by blast
  next
    case (edit_parent v v' i admin q)
    then have "coupons t = coupons s"
      by (auto simp: update_parent_def repo_update_parent_def op_simps ensure_admin_def dest!: response_states
               split: option.splits)
    with k edit_parent update_parent_keeps [OF ok(1)] coupons_ok_cong [OF _ _ _ ok(2)] show ?thesis by blast
  next
    case (drop_parent i admin u)
    then have "coupons t = coupons s"
      by (auto simp: delete_parent_def repo_soft_delete_parent_def op_simps ensure_admin_def split: option.splits)
    with k drop_parent delete_parent_keeps [OF ok(1)] coupons_ok_cong [OF _ _ _ ok(2)] show ?thesis by blast
  next
    case (new_coupon k0 k' now admin cp)
    then have "products t = products s" "parents t = parents s"
      by (auto simp: create_coupon_def repo_create_coupon_def op_simps ensure_admin_def split: option.splits)
    with k new_coupon create_coupon_keeps [OF ok(2)] catalog_ok_cong [OF _ _ _ ok(1)] show ?thesis by blast
  next
    case (edit_coupon w w' i admin cp)
    then have "products t = products s" "parents t = parents s"
      by (auto simp: update_coupon_def repo_update_coupon_def op_simps ensure_admin_def split: option.splits)
    with k edit_coupon update_coupon_keeps [OF ok(2)] catalog_ok_cong [OF _ _ _ ok(1)] show ?thesis by blast
  qed
  with assms(2) trips_ok_cong [OF k(1,2,4) ok(3)] show ?thesis
    by (simp add: shop_ok_def k orders_ok_def order_numbers_def order_keys_def coupon_orders_def)
qed

lemma placed_order_ok:
  assumes pl: "placed env ck usr key s lines coup disc ph row t" and cat: "catalog_ok s"
    and raw: "parse_checkout raw = Inr ck"
  shows "order_row_ok row" "unique_by oi_id (o_items row)" "\<forall>it \<in> set (o_items row). 1 \<le> oi_quantity it"
proof -
  from parse_checkout_lines [OF raw] have ls: "list_all order_line_ok (ck_items ck)" "ck_items ck \<noteq> []" by simp_all
  note items = placed_items [OF pl cat]
  have line: "0 < oi_unit_price it \<and> oi_subtotal it = oi_unit_price it * oi_quantity it \<and> 1 \<le> oi_quantity it"
    if it: "it \<in> set (o_items row)" for it
  proof -
    from items(1) it obtain p where "product_row_ok p" "p_id p \<in> li_product_id ` set (ck_items ck)"
      "oi_quantity it = cart_units (p_id p) (ck_items ck)" "oi_unit_price it = product_effective_price p"
      "oi_subtotal it = oi_unit_price it * oi_quantity it" by blast
    with row_price_pos cart_units_pos [OF ls(1)] show ?thesis by force
  qed
  then show "\<forall>it \<in> set (o_items row). 1 \<le> oi_quantity it" by blast
  have "length (o_items row) = length (requested_by_product (ck_items ck))"
    using items(3) by (metis length_map)
  moreover have "requested_by_product (ck_items ck) \<noteq> []"
    using requested_keys [of "ck_items ck"] ls(2) by auto
  ultimately have ne: "o_items row \<noteq> []" by auto
  have sub: "0 \<le> o_subtotal row" by (rule subtotal_nonneg [OF pl cat ls(1)])
  have ship: "0 \<le> o_shipping_fee row" using pl shipping_nonneg [OF ls(1)] by (simp add: placed_def)
  have disc: "0 \<le> disc" "disc \<le> o_subtotal row" using placed_discount [OF pl sub] by simp_all
  have row: "o_discount_amount row = disc" "o_total_amount row = charged (o_subtotal row) (o_shipping_fee row) disc"
    using pl by (simp_all add: placed_def)
  show "order_row_ok row"
    using ne line sub ship disc items(4) row by (simp add: order_row_ok_def list_all_iff charged_def)
  let ?is = "[next_id s + 1..<next_id s + 1 + length lines]"
  have "map oi_id (map2 (item_row now) is ls') = is" if "length is = length ls'" for now "is" ls'
    using that by (induction "is" ls' rule: list_induct2) (auto simp: item_row_def)
  from this [of ?is lines] have "map oi_id (o_items row) = ?is" using pl by (simp add: placed_def del: upt_Suc)
  then show "unique_by oi_id (o_items row)" by (simp add: unique_by_def del: upt_Suc)
qed

lemma placed_trips_ok:
  assumes pl: "placed env ck usr key s lines coup disc ph row t" and cat: "catalog_ok s"
    and raw: "parse_checkout raw = Inr ck" and ok: "trips_ok s"
  shows "trips_ok t"
proof -
  note row = placed_order_ok [OF pl cat raw]
  from pl have t: "orders t = orders s @ [row]" "deliveries t = deliveries s" "next_id s < next_id t" "o_id row = next_id s"
    by (auto simp: placed_def split: option.splits)
  have none: "shipped counts_as_allocated (o_id row) i (deliveries s) = 0" for i
  proof -
    have "(if d_order_id d = o_id row \<and> counts_as_allocated d then load i d else 0) = 0" if "d \<in> set (deliveries s)" for d
    proof -
      have "d_order_id d < next_id s" using that ok by (fastforce simp: trips_ok_def trip_row_ok_def order_keys_ok_def)
      then show ?thesis by (simp add: t(4))
    qed
    then show ?thesis unfolding shipped_def by (simp cong: map_cong)
  qed
  have keys: "order_keys_ok t"
    using ok t by (fastforce simp: trips_ok_def order_keys_ok_def unique_by_def)
  have "trip_row_ok t d" if "d \<in> set (deliveries s)" for d
    using that ok t by (fastforce simp: trips_ok_def trip_row_ok_def)
  moreover have "unique_by oi_id (o_items q) \<and> (\<forall>it \<in> set (o_items q). 1 \<le> oi_quantity it \<and>
      shipped counts_as_allocated (o_id q) (oi_id it) (deliveries s) \<le> oi_quantity it)" if q: "q \<in> set (orders t)" for q
  proof (cases "q = row")
    case True
    with row none show ?thesis by auto
  next
    case False
    with q t(1) have "q \<in> set (orders s)" by simp
    with ok show ?thesis by (simp add: trips_ok_def)
  qed
  ultimately show ?thesis using ok keys unfolding trips_ok_def t(2) by blast
qed

lemma rewritten_trips:
  assumes "order_rewritten i (set_status now st r) back s t" "deliveries t = deliveries s" "shop_ok s"
  shows "trips_ok t"
proof -
  from assms(1) have t: "orders t = upd_row o_id i (set_status now st r) (orders s)" "next_id s \<le> next_id t"
    by (simp_all add: order_rewritten_def)
  have "trips_ok (s\<lparr>orders := upd_row o_id i (set_status now st r) (orders s)\<rparr>)"
    by (rule trips_ok_orders [OF shop_okD(3) [OF assms(3)]]) (simp_all add: set_status_def)
  from trips_ok_cong [OF _ _ _ this] t assms(2) show ?thesis by simp
qed

lemma order_step_trips:
  assumes "order_step s t" "shop_ok s"
  shows "trips_ok t"
  using assms(1)
proof (cases rule: order_step.cases)
  case (place raw ck env usr key ord)
  show ?thesis
  proof (cases "order_by_key key s")
    case None
    from create_order_placed [OF place(4) None place(2)] obtain lines coup disc ph row where
      "placed env ck usr key s lines coup disc ph row t" by blast
    from placed_trips_ok [OF this _ place(1)] shop_okD [OF assms(2)] show ?thesis by blast
  next
    case (Some x)
    with place(4) have "t = s" by (auto simp: create_order_def op_simps dest: order_response_state)
    with assms(2) show ?thesis by (simp add: shop_ok_def)
  qed
next
  case (trip p now i d)
  with create_delivery_keeps shop_okD [OF assms(2)] show ?thesis by blast
next
  case (trip_status now i j dst remark d)
  with update_delivery_status_keeps shop_okD [OF assms(2)] show ?thesis by blast
next
  case (driver_status now j actor adm dst remark lat lng v)
  with driver_update_status_keeps shop_okD [OF assms(2)] show ?thesis by blast
next
  case (driver j drv d)
  with assign_driver_keeps shop_okD [OF assms(2)] show ?thesis by blast
next
  case (status now i st admin remark ord)
  from update_status_rewritten [OF this] rewritten_trips show ?thesis using assms(2) by blast
next
  case (cancel now i usr reason phone ord)
  from cancel_rewritten [OF this] rewritten_trips show ?thesis using assms(2) by blast
qed

lemma orders_ok_placed:
  assumes pl: "placed env ck usr key s lines coup disc ph row t" and cat: "catalog_ok s"
    and raw: "parse_checkout raw = Inr ck" and key: "order_by_key key s = None" and ok: "orders_ok s"
    and today: "length (ymd (env_now env)) = 8"
  shows "orders_ok t"
proof -
  from pl have t: "orders t = orders s @ [row]" "o_order_number row = Some (next_order_number (env_now env) s)"
    "o_idempotency_key row = Some key" by (simp_all add: placed_def)
  have "next_order_number (env_now env) s \<notin> set (order_numbers s)"
    unfolding next_order_number_def by (rule next_number_fresh [OF _ today]) simp
  moreover have "key \<notin> set (order_keys s)"
    using key by (auto simp: order_by_key_def order_keys_def find_None_iff List.map_filter_def)
  moreover have "order_numbers t = order_numbers s @ [next_order_number (env_now env) s]"
    "order_keys t = order_keys s @ [key]"
    by (simp_all add: order_numbers_def order_keys_def t List.map_filter_def)
  ultimately show ?thesis
    using ok placed_order_ok(1) [OF pl cat raw] by (simp add: orders_ok_def t)
qed

lemma coupon_orders_placed:
  assumes "placed env ck usr key s lines coup disc ph row t"
    and "\<forall>i. uses_of i (redemptions s) = coupon_orders i s"
  shows "uses_of i (redemptions t) = coupon_orders i t"
  using assms by (auto simp: placed_def coupon_orders_def uses_of_def redemption_row_def split: option.splits)

lemma placed_stock_nonneg:
  assumes pl: "placed env ck usr key s lines coup disc ph row t" and cat: "catalog_ok s" and k: "stock_of t j = Some k"
  shows "0 \<le> k"
proof -
  from pl k obtain m where m: "stock_of s j = Some m" "k = m - cart_units j (ck_items ck)" by (auto simp: placed_def)
  then obtain p where p: "find_product s j = Some p" "m = p_stock_quantity p"
    by (auto simp: stock_of_def find_product_def)
  show ?thesis
  proof (cases "j \<in> li_product_id ` set (ck_items ck)")
    case True
    then have "(j, cart_units j (ck_items ck)) \<in> set (requested_by_product (ck_items ck))" by (simp add: requested_mem)
    with pl p(1) have "cart_units j (ck_items ck) \<le> p_stock_quantity p"
      by (fastforce simp: placed_def list_all2_conv_all_nth in_set_conv_nth priced_def find_product_def)
    with m p show ?thesis by simp
  next
    case False
    with m p find_product_row [OF cat p(1)] show ?thesis by (simp add: cart_units_absent product_row_ok_def)
  qed
qed

lemma units_nonneg: "\<forall>it \<in> set (o_items q). 1 \<le> oi_quantity it \<Longrightarrow> 0 \<le> units_of j q"
  unfolding units_of_def by (rule sum_list_nonneg) force

lemma rewritten_catalog:
  assumes re: "order_rewritten i f back s t" and ok: "shop_ok s" and given: "\<And>j. 0 \<le> back j"
  shows "catalog_ok t" "coupons_ok t"
proof -
  from re have t: "map (\<lambda>p. p\<lparr>p_stock_quantity := 0\<rparr>) (products t) = map (\<lambda>p. p\<lparr>p_stock_quantity := 0\<rparr>) (products s)"
    "parents t = parents s" "next_id s \<le> next_id t" "coupons t = coupons s" "redemptions t = redemptions s"
    "stock_of t = (\<lambda>j. map_option (\<lambda>k. k + back j) (stock_of s j))" by (simp_all add: order_rewritten_def)
  have "0 \<le> k" if "stock_of s j = Some k" for j k
    using that shop_okD(1) [OF ok] by (auto simp: stock_of_def catalog_ok_def product_row_ok_def dest: find_row_SomeD)
  with t(6) given have "0 \<le> k" if "stock_of t j = Some k" for j k
    using that by (auto intro: add_nonneg_nonneg)
  then show "catalog_ok t" by (rule catalog_ok_stock [OF shop_okD(1) [OF ok] t(1-3)])
  show "coupons_ok t" by (rule coupons_ok_cong [OF t(4,5,3) shop_okD(2) [OF ok]])
qed

lemma rewritten_ok:
  assumes re: "order_rewritten i f back s t" and ok: "shop_ok s" and given: "\<And>j. 0 \<le> back j"
    and ev: "list_all2 evolves (orders s) (orders t)" and trips: "trips_ok t"
  shows "shop_ok t"
  using rewritten_catalog [OF re ok given] orders_ok_evolve [OF ev] trips ok re
  by (simp add: shop_ok_def order_rewritten_def)

lemma order_step_keeps:
  assumes step: "order_step s t" and ok: "shop_ok s"
  shows "shop_ok t"
  using step shop_okD(5) [OF ok]
proof (cases rule: order_step_effect)
  case replayed
  with ok show ?thesis by simp
next
  case (placed raw ck env usr key lines coup disc ph row)
  note pl = placed(4) and o = shop_okD [OF ok]
  from pl have t: "map (\<lambda>p. p\<lparr>p_stock_quantity := 0\<rparr>) (products t) = map (\<lambda>p. p\<lparr>p_stock_quantity := 0\<rparr>) (products s)"
    "parents t = parents s" "next_id s \<le> next_id t" by (auto simp: placed_def split: option.splits)
  from catalog_ok_stock [OF o(1) t placed_stock_nonneg [OF pl o(1)]] placed_coupons_ok [OF pl o(2)]
    placed_trips_ok [OF pl o(1) placed(1) o(3)] orders_ok_placed [OF pl o(1) placed(1,2) o(4) placed(3)]
    coupon_orders_placed [OF pl] ok
  show ?thesis by (simp add: shop_ok_def)
next
  case (restatused i q now st r)
  have q: "find_row o_id i (orders s) = Some q" "q \<in> set (orders s)"
    using restatused(1) order_by_id_SomeD by (auto simp: order_by_id_def)
  have "0 \<le> (if st = OCancelled then units_of j q else 0)" for j
    using units_nonneg q(2) ok by (auto simp: shop_ok_def trips_ok_def)
  moreover have "list_all2 evolves (orders s) (orders t)"
    using evolves_upd_row [where f = "set_status now st r", OF shop_okD(5) [OF ok] q(1)]
      evolves_set_status [OF restatused(2)] restatused(3) by (simp add: order_rewritten_def)
  ultimately show ?thesis
    by (rule rewritten_ok [OF restatused(3) ok]) (rule order_step_trips [OF step ok])
next
  case (rolled i now ds)
  with evolves_upd_any [where f = "roll_row now ds", OF evolves_roll_row] have
    "list_all2 evolves (orders s) (orders t)" by (simp add: order_rewritten_def)
  then show ?thesis by (rule rewritten_ok [OF rolled ok order_refl]) (rule order_step_trips [OF step ok])
next
  case (assigned ds)
  with ok order_step_trips [OF step ok] catalog_ok_cong [of t s] coupons_ok_cong [of t s] show ?thesis
    by (simp add: shop_ok_def orders_ok_def order_numbers_def order_keys_def coupon_orders_def)
qed

lemma shop_step_keeps: "shop_step s t \<Longrightarrow> shop_ok s \<Longrightarrow> shop_ok t"
  using order_step_keeps admin_step_keeps by (auto simp: shop_step_def)

lemma shop_run_keeps: "shop_step\<^sup>*\<^sup>* s t \<Longrightarrow> shop_ok s \<Longrightarrow> shop_ok t"
  by (induction rule: rtranclp_induct) (auto intro: shop_step_keeps)

section \<open>Units flow between the shelf and the orders\<close>

lemma order_step_flow:
  assumes step: "order_step s t" and ok: "shop_ok s"
  shows "stock_of t j = map_option (\<lambda>k. k + total_sold j s - total_sold j t) (stock_of s j)"
  using step shop_okD(5) [OF ok]
proof (cases rule: order_step_effect)
  case replayed
  then show ?thesis by (simp add: option.map_ident)
next
  case (placed raw ck env usr key lines coup disc ph row)
  note pl = placed(4)
  have "units_of j row = cart_units j (ck_items ck)"
    using demand_units [of j row] by (simp add: restock_list_placed [OF pl shop_okD(1) [OF ok]] demand_requested)
  moreover have "held_units j row = units_of j row" using pl by (simp add: placed_def held_units_def)
  ultimately show ?thesis using pl by (simp add: placed_def total_sold_held)
next
  case (restatused i q now st r)
  have q: "find_row o_id i (orders s) = Some q" using restatused(1) by (simp add: order_by_id_def)
  have "o_status q \<noteq> OCancelled" using restatused(2) by (cases "o_status q") simp_all
  then have "held_units j (set_status now st r q) = held_units j q - (if st = OCancelled then units_of j q else 0)"
    by (simp add: held_units_def set_status_def units_of_def)
  with sum_upd_row [OF shop_okD(5) [OF ok] q, of "held_units j" "set_status now st r"] restatused(3)
  show ?thesis by (simp add: order_rewritten_def total_sold_held cong: option.map_cong)
next
  case (rolled i now ds)
  with held_upd_same [of j "roll_row now ds"] show ?thesis by (simp add: order_rewritten_def total_sold_held)
next
  case (assigned ds)
  then show ?thesis by (simp add: total_sold_held stock_of_def option.map_ident)
qed

section \<open>The order book\<close>

text \<open>
  The specification: a book of orders, each with a fixed content and a status. An order is entered
  as pending and from then on only moves along \<open>order_next\<close>.
\<close>

type_synonym book = "uuid \<rightharpoonup> order \<times> order_status"

inductive book_step :: "book \<Rightarrow> book \<Rightarrow> bool" where
  enter: "b i = None \<Longrightarrow> book_step b (b(i \<mapsto> (c, OPending)))"
| move: "b i = Some (c, st) \<Longrightarrow> order_next st st' \<Longrightarrow> book_step b (b(i \<mapsto> (c, st')))"

definition book :: "db \<Rightarrow> book" where
  "book s i = map_option (\<lambda>q. (order_content q, o_status q)) (order_by_id i s)"

definition closed_order :: "order_status \<Rightarrow> bool" where
  "closed_order st \<longleftrightarrow> st = ODelivered \<or> st = OCancelled"

lemma order_next_rank: "order_next st st' \<Longrightarrow> order_rank st < order_rank st'"
  by (auto simp: order_next_iff intro: order_life.move_up)

lemma closed_final: "order_next st st' \<Longrightarrow> \<not> closed_order st"
  by (auto simp: order_next_iff closed_order_def)

lemma book_run_entry:
  assumes "book_step\<^sup>*\<^sup>* b b'" "b i = Some (c, st)"
  shows "\<exists>st'. b' i = Some (c, st') \<and> order_next\<^sup>*\<^sup>* st st'"
  using assms
proof (induction rule: rtranclp_induct)
  case (step x y)
  then obtain st' where st': "x i = Some (c, st')" "order_next\<^sup>*\<^sup>* st st'" by blast
  from step.hyps(2) show ?case
  proof (cases rule: book_step.cases)
    case (enter j d)
    with st' show ?thesis by auto
  next
    case (move j d su su')
    with st' show ?thesis by (cases "j = i") (auto intro: rtranclp.rtrancl_into_rtrancl)
  qed
qed auto

lemma statuses_up: "order_next\<^sup>*\<^sup>* st st' \<Longrightarrow> st' = st \<or> order_rank st < order_rank st' \<and> \<not> closed_order st"
  by (induction rule: rtranclp_induct) (auto dest: order_next_rank closed_final)

lemma book_rewritten:
  assumes "orders t = upd_row o_id i f (orders s)" "\<And>q. order_by_id i s = Some q \<Longrightarrow> evolves q (f q)"
    and "\<And>q. o_id (f q) = o_id q"
  shows "book_step\<^sup>=\<^sup>= (book s) (book t)"
proof (cases "order_by_id i s")
  case None
  then have "orders t = orders s"
    unfolding assms(1) by (simp add: order_by_id_def find_row_None_iff upd_row_absent)
  then show ?thesis by (simp add: book_def fun_eq_iff order_by_id_def)
next
  case (Some q)
  have t: "book t = (book s)(i \<mapsto> (order_content q, o_status (f q)))"
    using Some assms(2) [OF Some]
    by (auto simp: book_def fun_eq_iff order_by_id_def assms(1) find_upd_row assms(3) evolves_def)
  have "book s i = Some (order_content q, o_status q)" using Some by (simp add: book_def)
  with assms(2) [OF Some] show ?thesis
    unfolding t evolves_def by (auto intro: move)
qed

lemma book_same: "orders t = orders s \<Longrightarrow> book t = book s"
  by (simp add: book_def fun_eq_iff order_by_id_def)

lemma shop_step_book:
  assumes "shop_step s t" "shop_ok s"
  shows "book_step\<^sup>=\<^sup>= (book s) (book t)"
proof (cases "admin_step s t")
  case True
  from admin_step_trade [OF this] have "orders t = orders s" by (simp add: trade_kept_def)
  from book_same [OF this] show ?thesis by simp
next
  case False
  with assms(1) have "order_step s t" by (simp add: shop_step_def)
  then show ?thesis using shop_okD(5) [OF assms(2)]
  proof (cases rule: order_step_effect)
    case replayed
    then show ?thesis by simp
  next
    case (placed raw ck env usr key lines coup disc ph row)
    then have t: "orders t = orders s @ [row]" "o_id row = next_id s" "o_status row = OPending"
      by (simp_all add: placed_def)
    have new: "order_by_id (next_id s) s = None"
      using shop_okD(6) [OF assms(2)] by (auto simp: order_by_id_def find_row_None_iff order_keys_ok_def)
    have "book t = (book s)(next_id s \<mapsto> (order_content row, OPending))"
      using new by (auto simp: book_def fun_eq_iff order_by_id_def t find_row_append split: option.splits)
    with new enter [of "book s" "next_id s"] show ?thesis by (simp add: book_def)
  next
    case (restatused i q now st r)
    from restatused(3) have "orders t = upd_row o_id i (set_status now st r) (orders s)" by (simp add: order_rewritten_def)
    then show ?thesis
    proof (rule book_rewritten)
      show "evolves p (set_status now st r p)" if "order_by_id i s = Some p" for p
        using that restatused(1) evolves_set_status [OF restatused(2)] by simp
    qed simp
  next
    case (rolled i now ds)
    then have "orders t = upd_row o_id i (roll_row now ds) (orders s)" by (simp add: order_rewritten_def)
    then show ?thesis by (rule book_rewritten) (rule evolves_roll_row, simp)
  next
    case (assigned ds)
    then have "orders t = orders s" by simp
    from book_same [OF this] show ?thesis by simp
  qed
qed

lemma shop_run_book: "shop_step\<^sup>*\<^sup>* s t \<Longrightarrow> shop_ok s \<Longrightarrow> book_step\<^sup>*\<^sup>* (book s) (book t)"
proof (induction rule: rtranclp_induct)
  case (step x y)
  from shop_step_book [OF step.hyps(2) shop_run_keeps [OF step.hyps(1) step.prems]] step.IH [OF step.prems]
  show ?case by auto
qed simp

section \<open>An order under its key\<close>

lemma create_order_keyed:
  assumes "create_order env ck usr key s = (Inr ord, t)" "set_order_ok (env_set_order env)"
  shows "\<exists>row. order_by_key key t = Some row \<and> order_response row t = (Inr ord, t)"
proof (cases "order_by_key key s")
  case None
  from create_order_placed [OF assms(1) None assms(2)] obtain lines coup disc ph row v where
    pl: "placed env ck usr key s lines coup disc ph row t" and ord: "ord = row\<lparr>o_vat_info := v\<rparr>"
    and v: "parse_vat_option (ck_vat_info ck) = Inr v" by blast
  from pl have row: "o_idempotency_key row = Some key" "orders t = orders s @ [row]"
    "o_order_number row \<noteq> None" "o_vat_info row = ck_vat_info ck" by (simp_all add: placed_def)
  with find_order_by_key [OF None row(1,2)] v show ?thesis by (simp add: order_response_def op_eval ord)
next
  case (Some row)
  with assms(1) have r: "order_response row s = (Inr ord, t)" by (auto simp: create_order_def op_simps)
  with order_response_state [OF r] Some show ?thesis by auto
qed

lemma find_keyed:
  "distinct (List.map_filter o_idempotency_key rows) \<Longrightarrow> r \<in> set rows \<Longrightarrow> o_idempotency_key r = Some k \<Longrightarrow>
   find (\<lambda>q. o_idempotency_key q = Some k) rows = Some r"
proof (induction rows)
  case (Cons q rows)
  have "k \<in> set (List.map_filter o_idempotency_key rows)" if "r \<in> set rows"
    using that Cons.prems(3) by (force simp: map_filter_def)
  with Cons show ?case by (auto split: option.splits)
qed simp

lemma key_order_persists:
  assumes run: "shop_step\<^sup>*\<^sup>* s t" and ok: "shop_ok s" and row: "order_by_key key s = Some row"
  shows "\<exists>row'. order_by_key key t = Some row' \<and> order_content row' = order_content row \<and>
    order_next\<^sup>*\<^sup>* (o_status row) (o_status row')"
proof -
  from row have q: "row \<in> set (orders s)" "o_idempotency_key row = Some key"
    by (auto simp: order_by_key_def find_Some_iff)
  with shop_okD(5) [OF ok] have "order_by_id (o_id row) s = Some row"
    by (simp add: order_by_id_def find_row_unique)
  then have "book s (o_id row) = Some (order_content row, o_status row)" by (simp add: book_def)
  from book_run_entry [OF shop_run_book [OF run ok] this] obtain row' where
    r: "order_by_id (o_id row) t = Some row'" "order_content row' = order_content row"
    "order_next\<^sup>*\<^sup>* (o_status row) (o_status row')" by (auto simp: book_def)
  have "order_by_key key t = Some row'"
    unfolding order_by_key_def
  proof (rule find_keyed)
    show "distinct (List.map_filter o_idempotency_key (orders t))"
      using shop_run_keeps [OF run ok] by (simp add: shop_ok_def orders_ok_def order_keys_def)
    show "row' \<in> set (orders t)" using r(1) by (auto dest: order_by_id_SomeD)
    show "o_idempotency_key row' = Some key" using content_fields(4) [OF r(2)] q(2) by simp
  qed
  with r show ?thesis by blast
qed

lemma content_vat: "order_content (q\<lparr>o_vat_info := v\<rparr>) = (order_content q)\<lparr>o_vat_info := v\<rparr>"
  by (cases q) (simp add: order_content_def)

lemma repeated_create:
  assumes run: "shop_step\<^sup>*\<^sup>* s t" and ok: "shop_ok s" and "order_by_key key s = Some row"
    and resp: "order_response row s = (Inr ord, s)" and "env_txn_unused env"
  shows "\<exists>ord'. create_order env ck usr key t = (Inr ord', t) \<and> order_content ord' = order_content ord \<and>
    order_next\<^sup>*\<^sup>* (o_status ord) (o_status ord')"
proof -
  from key_order_persists [OF run ok assms(3)] obtain row' where
    r: "order_by_key key t = Some row'" "order_content row' = order_content row"
    "order_next\<^sup>*\<^sup>* (o_status row) (o_status row')" by blast
  have same: "o_vat_info row' = o_vat_info row" "o_order_number row' = o_order_number row"
    using arg_cong [OF r(2), of o_vat_info] content_fields(3) [OF r(2)] by (simp_all add: order_content_def)
  from resp obtain v where v: "o_order_number row \<noteq> None" "parse_vat_option (o_vat_info row) = Inr v" "ord = row\<lparr>o_vat_info := v\<rparr>"
    by (auto simp: order_response_def op_simps split: if_splits sum.splits)
  have "order_content (row'\<lparr>o_vat_info := v\<rparr>) = order_content (row\<lparr>o_vat_info := v\<rparr>)"
    by (simp add: content_vat r(2))
  with v r same assms(5) show ?thesis
    by (simp add: create_order_def op_eval order_response_def)
qed

section \<open>Properties\<close>

lemma shop_ok_empty: "shop_ok empty_db"
  by (simp add: shop_ok_def catalog_ok_def coupons_ok_def trips_ok_def orders_ok_def order_keys_ok_def order_numbers_def
      order_keys_def coupon_orders_def uses_of_def unique_by_def empty_db_def List.map_filter_def)

lemma sample_shop_step: "order_step sample_shop sample_after"
  by (rule place [OF sample_parse sample_set_order _ sample_run_eq]) code_simp

lemma sample_shop_all_ok: "shop_ok sample_shop"
proof -
  have "trips_ok sample_shop" "orders_ok sample_shop" "redemptions sample_shop = []" "orders sample_shop = []" by code_simp+
  then show ?thesis using sample_shop_ok by (simp add: shop_ok_def uses_of_def coupon_orders_def)
qed

text \<open>
  C6. Whatever sequence of catalog, coupon, order and delivery requests is served, starting from a
  shop that satisfies the invariant (the empty one does): no stock is negative, the catalog, coupon
  and trip tables stay consistent, order numbers and idempotency keys are unique, the amounts of
  every order add up, and the use count of every coupon is the number of orders placed with it.
\<close>

theorem shop_invariant:
  assumes "shop_step\<^sup>*\<^sup>* s t" and "shop_ok s"
  shows "shop_ok t \<and> (\<forall>j k. stock_of t j = Some k \<longrightarrow> 0 \<le> k) \<and>
    distinct (order_numbers t) \<and> distinct (order_keys t) \<and>
    (\<forall>ord \<in> set (orders t). o_subtotal ord = sum_list (map oi_subtotal (o_items ord)) \<and>
       0 \<le> o_discount_amount ord \<and> o_discount_amount ord \<le> o_subtotal ord \<and>
       o_total_amount ord = o_subtotal ord + o_shipping_fee ord - o_discount_amount ord) \<and>
    (\<forall>c \<in> set (coupons t). c_used_count c = coupon_orders (c_id c) t)"
proof -
  note ok = shop_run_keeps [OF assms]
  have stock: "0 \<le> k" if "stock_of t j = Some k" for j k
    using that shop_okD(1) [OF ok] by (auto simp: stock_of_def catalog_ok_def product_row_ok_def dest: find_row_SomeD)
  have rows: "o_subtotal ord = sum_list (map oi_subtotal (o_items ord)) \<and> 0 \<le> o_discount_amount ord \<and>
      o_discount_amount ord \<le> o_subtotal ord \<and>
      o_total_amount ord = o_subtotal ord + o_shipping_fee ord - o_discount_amount ord" if "ord \<in> set (orders t)" for ord
  proof -
    have "order_row_ok ord" using that shop_okD(4) [OF ok] by (simp add: orders_ok_def list_all_iff)
    then show ?thesis unfolding order_row_ok_def by blast
  qed
  have uses: "c_used_count c = coupon_orders (c_id c) t" if "c \<in> set (coupons t)" for c
    using that ok by (simp add: shop_ok_def coupons_ok_def)
  show ?thesis
    using ok stock uses shop_okD(4) [OF ok] rows unfolding orders_ok_def by blast
qed

lemma shop_invariant_witness:
  "shop_ok sample_after \<and> distinct (order_numbers sample_after) \<and> distinct (order_keys sample_after)"
  using shop_invariant [OF r_into_rtranclp [where r = shop_step] sample_shop_all_ok, of sample_after] sample_shop_step
  by (simp add: shop_step_def)

text \<open>
  C7. Units are neither lost nor made up. Through any sequence of checkouts, status changes,
  cancellations and delivery updates the stock of a product and the units of it on orders that are
  not cancelled (what \<open>total_sold\<close> counts) add up to the same number.
\<close>

theorem stock_conserved:
  assumes "order_step\<^sup>*\<^sup>* s t" and "shop_ok s" and "stock_of s j = Some k"
  shows "\<exists>k'. stock_of t j = Some k' \<and> k' + total_sold j t = k + total_sold j s \<and> 0 \<le> k'"
proof -
  from assms(1) have "shop_ok t \<and> (\<exists>k'. stock_of t j = Some k' \<and> k' + total_sold j t = k + total_sold j s)"
  proof (induction rule: rtranclp_induct)
    case (step x y)
    then obtain k' where k': "shop_ok x" "stock_of x j = Some k'" "k' + total_sold j x = k + total_sold j s" by blast
    from order_step_flow [OF step.hyps(2) k'(1), of j] order_step_keeps [OF step.hyps(2) k'(1)] k' show ?case by simp
  qed (use assms in simp)
  then obtain k' where k': "shop_ok t" "stock_of t j = Some k'" "k' + total_sold j t = k + total_sold j s" by blast
  then have "0 \<le> k'"
    using shop_okD(1) [OF k'(1)] by (auto simp: stock_of_def catalog_ok_def product_row_ok_def dest: find_row_SomeD)
  with k' show ?thesis by blast
qed

lemma stock_conserved_witness: "\<exists>k'. stock_of sample_after 1 = Some k' \<and> k' + total_sold 1 sample_after = 5"
proof -
  have "stock_of sample_shop 1 = Some 5" "total_sold 1 sample_shop = 0" by code_simp+
  with stock_conserved [OF r_into_rtranclp [where r = order_step, OF sample_shop_step] sample_shop_all_ok] show ?thesis by fastforce
qed



end
