(* ===== verification/ChatText.thy ===== *)
theory ChatText
  imports Products
begin

text \<open>
  How the chat assistant of \<^verbatim>\<open>services/conversation_service.py\<close> reads a message: JSON values as
  stored in \<^verbatim>\<open>retrieved_documents\<close> and returned by the language model, the accent-free form of a
  text, the cue phrases looked up in it, and the quantity, phone, payment and name it carries.
  Vietnamese words of the source with letters beyond code point 255 are written without accents.
\<close>

section \<open>JSON values\<close>

text \<open>A number with a fraction or an exponent keeps its Python text.\<close>

datatype json =
    JNull | JBool bool | JInt int | JFloat string | JStr string
  | JList "json list" | JObj "(string \<times> json) list"

definition jget :: "string \<Rightarrow> (string \<times> json) list \<Rightarrow> json" where
  "jget k d = (case map_of d k of None \<Rightarrow> JNull | Some v \<Rightarrow> v)"

text \<open>Python's truth value of a JSON value; a float is false when its digits are all 0.\<close>

fun json_true :: "json \<Rightarrow> bool" where
  "json_true JNull = False"
| "json_true (JBool b) = b"
| "json_true (JInt n) = (n \<noteq> 0)"
| "json_true (JFloat t) = list_ex (\<lambda>c. c \<in> set ''123456789'') (takeWhile (\<lambda>c. c \<notin> set ''eE'') t)"
| "json_true (JStr s) = (s \<noteq> [])"
| "json_true (JList xs) = (xs \<noteq> [])"
| "json_true (JObj d) = (d \<noteq> [])"

definition int_text :: "int \<Rightarrow> string" where
  "int_text n = (if n < 0 then CHR ''-'' # nat_digits (nat (- n)) else nat_digits (nat n))"

definition join :: "string \<Rightarrow> string list \<Rightarrow> string" where
  "join sep xs = (case xs of [] \<Rightarrow> [] | x # r \<Rightarrow> x @ concat (map (\<lambda>y. sep @ y) r))"

definition hex2 :: "nat \<Rightarrow> string" where
  "hex2 n = [''0123456789abcdef'' ! (n div 16), ''0123456789abcdef'' ! (n mod 16)]"

definition printable :: "char \<Rightarrow> bool" where
  "printable c \<longleftrightarrow> (let n = code_point c in (32 \<le> n \<and> n < 127) \<or> (161 \<le> n \<and> n \<noteq> 173))"

definition repr_char :: "char \<Rightarrow> char \<Rightarrow> string" where
  "repr_char q c =
     (if c = q \<or> c = CHR 0x5C then [CHR 0x5C, c]
      else if c = CHR 0x0A then [CHR 0x5C, CHR ''n'']
      else if c = CHR 0x0D then [CHR 0x5C, CHR ''r'']
      else if c = CHR 0x09 then [CHR 0x5C, CHR ''t'']
      else if printable c then [c] else [CHR 0x5C, CHR ''x''] @ hex2 (code_point c))"

definition repr_str :: "string \<Rightarrow> string" where
  "repr_str s =
     (let q = (if CHR 0x27 \<in> set s \<and> CHR 0x22 \<notin> set s then CHR 0x22 else CHR 0x27) in
      [q] @ concat (map (repr_char q) s) @ [q])"

text \<open>\<^verbatim>\<open>repr\<close> and \<^verbatim>\<open>str\<close> of a decoded JSON value.\<close>

fun py_repr :: "json \<Rightarrow> string" where
  "py_repr JNull = ''None''"
| "py_repr (JBool b) = (if b then ''True'' else ''False'')"
| "py_repr (JInt n) = int_text n"
| "py_repr (JFloat t) = t"
| "py_repr (JStr s) = repr_str s"
| "py_repr (JList xs) = ''['' @ join '', '' (map py_repr xs) @ '']''"
| "py_repr (JObj d) = ''{'' @ join '', '' (map (\<lambda>p. repr_str (fst p) @ '': '' @ py_repr (snd p)) d) @ ''}''"

definition py_str :: "json \<Rightarrow> string" where
  "py_str v = (case v of JStr s \<Rightarrow> s | _ \<Rightarrow> py_repr v)"

text \<open>\<^verbatim>\<open>int(text)\<close>: surrounding blanks, a sign, digits with single underscores between them.\<close>

fun underscored :: "string \<Rightarrow> bool" where
  "underscored [] = False"
| "underscored [c] = is_digit c"
| "underscored (c # d # s) = (is_digit c \<and> (if d = CHR ''_'' then underscored s else underscored (d # s)))"

definition py_int :: "string \<Rightarrow> int option" where
  "py_int text =
     (let t = py_strip text;
          neg = (take 1 t = ''-'');
          body = (if take 1 t = ''-'' \<or> take 1 t = ''+'' then drop 1 t else t);
          n = int (parse_nat (py_remove (CHR ''_'') body)) in
      if underscored body then Some (if neg then - n else n) else None)"

definition optional_str :: "json \<Rightarrow> string option" where
  "optional_str v =
     (if v = JNull then None else (let t = py_strip (py_str v) in if t = [] then None else Some t))"

definition optional_int :: "json \<Rightarrow> int option" where
  "optional_int v =
     (if v = JNull \<or> v = JStr [] then None
      else (case py_int (py_str v) of None \<Rightarrow> None | Some n \<Rightarrow> if 0 < n then Some n else None))"

section \<open>The accent-free form\<close>

definition word_char :: "char \<Rightarrow> bool" where
  "word_char c \<longleftrightarrow> is_digit c \<or> (97 \<le> code_point c \<and> code_point c \<le> 122)"

text \<open>\<^verbatim>\<open>re.sub(r"[^a-z0-9]+", " ", text)\<close>\<close>

function squash :: "string \<Rightarrow> string" where
  "squash [] = []"
| "squash (c # s) = (if word_char c then c # squash s else CHR '' '' # squash (dropWhile (\<lambda>d. \<not> word_char d) s))"
  by pat_completeness auto

termination squash
  by (relation "measure length") (auto simp: le_imp_less_Suc length_dropWhile_le)

text \<open>
  \<open>fold_text\<close> stands for what \<^verbatim>\<open>unicodedata\<close> makes of the lowered text: canonical decomposition
  without the combining marks.
\<close>

type_synonym fold_text = "string \<Rightarrow> string"

definition normalize_match_text :: "fold_text \<Rightarrow> string \<Rightarrow> string" where
  "normalize_match_text F v = py_strip (squash (F v))"

text \<open>\<^verbatim>\<open>phrase in text\<close>\<close>

fun contains :: "string \<Rightarrow> string \<Rightarrow> bool" where
  "contains p [] \<longleftrightarrow> p = []"
| "contains p (c # s) \<longleftrightarrow> take (length p) (c # s) = p \<or> contains p s"

definition has_any :: "string list \<Rightarrow> string \<Rightarrow> bool" where
  "has_any phrases t \<longleftrightarrow> list_ex (\<lambda>p. contains p t) phrases"

text \<open>\<^verbatim>\<open>str.split()\<close>\<close>

function tokens :: "string \<Rightarrow> string list" where
  "tokens s = (case dropWhile py_isspace s of [] \<Rightarrow> []
     | c # r \<Rightarrow> (c # takeWhile (\<lambda>d. \<not> py_isspace d) r) # tokens (dropWhile (\<lambda>d. \<not> py_isspace d) r))"
  by pat_completeness auto

termination tokens
proof (relation "measure length")
  fix s c r assume "dropWhile py_isspace s = c # r"
  then have "length (c # r) \<le> length s" by (metis length_dropWhile_le)
  with length_dropWhile_le [of "\<lambda>d. \<not> py_isspace d" r]
  show "(dropWhile (\<lambda>d. \<not> py_isspace d) r, s) \<in> measure length" by simp
qed simp

declare tokens.simps [simp del]

section \<open>Cue phrases\<close>

definition has_add_cue :: "string \<Rightarrow> bool" where
  "has_add_cue n \<longleftrightarrow> has_any [''them'', ''them vao'', ''them mot'', ''them 1'', ''lay them'', ''cong them'',
     ''co them'', ''va ''] n"

definition is_cancel_add_request :: "string \<Rightarrow> bool" where
  "is_cancel_add_request n \<longleftrightarrow> has_any [''thoi khong them'', ''thoi ko them'', ''khong them nua'', ''ko them nua'',
     ''khoi them'', ''khong lay them'', ''ko lay them nua'', ''khong lay them nua'', ''khoi lay them''] n"

definition has_replace_cue :: "string \<Rightarrow> bool" where
  "has_replace_cue n \<longleftrightarrow> has_any [''doi'', ''doi sang'', ''doi qua'', ''doi thanh'', ''thay'', ''thay bang''] n"

definition has_remove_cue :: "string \<Rightarrow> bool" where
  "has_remove_cue n \<longleftrightarrow> has_any [''bo'', ''xoa'', ''huy''] n"

definition is_order_cancel_request :: "string \<Rightarrow> bool" where
  "is_order_cancel_request n \<longleftrightarrow>
     n \<in> set [''huy'', ''huy don'', ''huy dat'', ''thoi khong dat'', ''khong dat nua'', ''dung dat'', ''khong mua nua''] \<or>
     has_any [''huy don'', ''huy dat'', ''thoi khong dat'', ''khong dat nua'', ''dung dat'', ''khong mua nua''] n"

definition is_negation :: "fold_text \<Rightarrow> string \<Rightarrow> bool" where
  "is_negation F content \<longleftrightarrow> (let n = normalize_match_text F content in
     n \<in> set [''ko'', ''khong'', ''k'', ''ko phai'', ''khong phai'', ''thoi'', ''khong doi'', ''giu nguyen''] \<or>
     has_any [''ko phai'', ''khong phai'', ''khong doi'', ''giu nguyen''] n)"

definition is_affirmation :: "fold_text \<Rightarrow> string \<Rightarrow> bool" where
  "is_affirmation F content \<longleftrightarrow> (let n = normalize_match_text F content in
     n \<in> set [''dung'', ''dung r'', ''dung roi'', ''ok'', ''okay'', ''uh'', ''u'', ''phai'', ''phai roi'', ''xac nhan''] \<or>
     has_any [''dung roi'', ''phai roi'', ''xac nhan'', ''dong y'', ''chot don''] n)"

definition is_keep_previous_request :: "fold_text \<Rightarrow> string \<Rightarrow> bool" where
  "is_keep_previous_request F content \<longleftrightarrow>
     has_any [''giu cu'', ''giu san pham cu'', ''lay cu'', ''lay san pham cu'', ''khong doi'', ''khong doi nua'']
       (normalize_match_text F content)"

definition normalize_confirmation :: "fold_text \<Rightarrow> json \<Rightarrow> bool" where
  "normalize_confirmation F v =
     (case v of JBool b \<Rightarrow> b
      | JStr s \<Rightarrow> normalize_match_text F s \<in> set [''true'', ''yes'', ''y'', ''ok'', ''okay'', ''dong y'', ''xac nhan'',
          ''dung'', ''dung r'', ''dung roi'']
      | _ \<Rightarrow> False)"

definition extract_payment_candidate :: "fold_text \<Rightarrow> string \<Rightarrow> string option" where
  "extract_payment_candidate F content =
     (let n = normalize_match_text F content; ts = set (tokens n) in
      if ''cod'' \<in> ts \<or> has_any [''tien mat'', ''nhan hang'', ''thanh toan khi nhan'', ''tra khi nhan'', ''ship cod'',
           ''giao tra tien'', ''nhan hang tra tien''] n then Some ''cod''
      else if ''ck'' \<in> ts \<or> ''banking'' \<in> ts \<or> ''bank'' \<in> ts \<or> contains ''chuyen khoan'' n \<or> ''khoan'' \<in> ts
      then Some ''bank_transfer'' else None)"

definition is_post_order_change_request :: "fold_text \<Rightarrow> string \<Rightarrow> bool" where
  "is_post_order_change_request F content \<longleftrightarrow> (let n = normalize_match_text F content in
     (extract_payment_candidate F content \<noteq> None \<and>
      has_any [''doi'', ''doi sang'', ''chuyen sang'', ''thay doi'', ''sua'', ''cap nhat''] n) \<or>
     has_any [''doi thong tin'', ''sua thong tin'', ''cap nhat thong tin'', ''doi hinh thuc'', ''sua hinh thuc''] n)"

definition normalize_payment_method :: "fold_text \<Rightarrow> string \<Rightarrow> string option" where
  "normalize_payment_method F method =
     (let n = normalize_match_text F method in
      if n \<in> set [''cod'', ''cash'', ''tien mat''] \<or> contains ''nhan hang'' n then Some ''cod''
      else if n \<in> set [''bank transfer'', ''bank_transfer'', ''chuyen khoan'', ''ck'', ''bank'', ''banking''] \<or>
              contains ''khoan'' n then Some ''bank_transfer''
      else None)"

section \<open>Categories\<close>

definition category_filter :: "string \<Rightarrow> category option" where
  "category_filter n =
     (let ts = set (tokens n) in
      if ''nuoc'' \<in> ts \<and> ''gas'' \<notin> ts then Some NuocUong
      else if ''gas'' \<in> ts \<and> ''nuoc'' \<notin> ts then Some Gas else None)"

definition is_bare_category_query :: "fold_text \<Rightarrow> string option \<Rightarrow> bool" where
  "is_bare_category_query F q \<longleftrightarrow>
     (case q of None \<Rightarrow> False
      | Some t \<Rightarrow> t \<noteq> [] \<and>
          normalize_match_text F t \<in> set [''nuoc'', ''nuoc uong'', ''gas'', ''binh gas''])"

section \<open>Quantity, phone and name\<close>

text \<open>\<^verbatim>\<open>[1-9][0-9]?\<close> as a whole token.\<close>

fun small_number :: "string \<Rightarrow> int option" where
  "small_number [a] = (if is_digit a \<and> a \<noteq> CHR ''0'' then Some (int (digit_val a)) else None)"
| "small_number [a, b] = (if is_digit a \<and> a \<noteq> CHR ''0'' \<and> is_digit b
                          then Some (10 * int (digit_val a) + int (digit_val b)) else None)"
| "small_number s = None"

text \<open>A number written together with its unit.\<close>

definition number_with_unit :: "string list \<Rightarrow> string \<Rightarrow> int option" where
  "number_with_unit units t =
     (case find (\<lambda>u. length u < length t \<and> drop (length t - length u) t = u) units of
        None \<Rightarrow> None | Some u \<Rightarrow> small_number (take (length t - length u) t))"

text \<open>\<^verbatim>\<open>\b([1-9][0-9]?)\s*(unit)\b\<close> on the words of an accent-free text.\<close>

fun first_number :: "string list \<Rightarrow> string list \<Rightarrow> int option" where
  "first_number units [] = None"
| "first_number units (t # ts) =
     (case number_with_unit units t of Some n \<Rightarrow> Some n
      | None \<Rightarrow> (case ts of
           u # _ \<Rightarrow> (if u \<in> set units \<and> small_number t \<noteq> None then small_number t else first_number units ts)
         | [] \<Rightarrow> None))"

definition quantity_units :: "string list" where
  "quantity_units = [''binh'', ''chai'', ''can'', ''thung'', ''nuoc'', ''gas'']"

text \<open>A gas size in kilograms: with its unit, or alone as the whole answer.\<close>

definition extract_gas_size_query :: "string \<Rightarrow> int option" where
  "extract_gas_size_query n = first_number [''kg'', ''ki'', ''ky''] (tokens n)"

definition extract_gas_size_choice :: "string \<Rightarrow> int option" where
  "extract_gas_size_choice n =
     (case extract_gas_size_query n of Some k \<Rightarrow> Some k
      | None \<Rightarrow> (case tokens n of
           [t] \<Rightarrow> (if take 4 t = ''loai'' then small_number (drop 4 t) else small_number t)
         | [t, u] \<Rightarrow> (if t = ''loai'' then small_number u else None)
         | _ \<Rightarrow> None))"

definition number_words :: "(string \<times> int) list" where
  "number_words = [(''mot'', 1), (''hai'', 2), (''ba'', 3), (''bon'', 4), (''tu'', 4), (''nam'', 5)]"

definition extract_quantity_candidate :: "fold_text \<Rightarrow> string \<Rightarrow> int option" where
  "extract_quantity_candidate F content =
     (let ts = tokens (normalize_match_text F content) in
      case first_number quantity_units ts of Some n \<Rightarrow> Some n
      | None \<Rightarrow> map_option snd (find (\<lambda>(w, n). \<exists>u \<in> set [[], ''binh'', ''chai'', ''can'', ''thung'']. w @ u \<in> set ts) number_words))"

text \<open>Python's \<^verbatim>\<open>\w\<close> and \<^verbatim>\<open>\b\<close> on the code points modelled.\<close>

definition py_word :: "char \<Rightarrow> bool" where
  "py_word c \<longleftrightarrow> (let n = code_point c in is_digit c \<or> (65 \<le> n \<and> n \<le> 90) \<or> n = 95 \<or> (97 \<le> n \<and> n \<le> 122) \<or>
     n \<in> set [170, 178, 179, 181, 185, 186, 188, 189, 190] \<or> (192 \<le> n \<and> n \<noteq> 215 \<and> n \<noteq> 247))"

definition leading_quantity :: "string \<Rightarrow> int option" where
  "leading_quantity content =
     (let t = takeWhile py_word (dropWhile py_isspace content) in small_number t)"

text \<open>
  \<^verbatim>\<open>\+?\d[\d\s.-]{1,}\d\<close> at the head of a text: the matched part, or nothing. The run behind the
  first digit is cut back to its last digit.
\<close>

definition phone_run :: "string \<Rightarrow> string" where
  "phone_run s = rev (dropWhile (\<lambda>c. \<not> is_digit c) (rev (takeWhile
     (\<lambda>c. is_digit c \<or> py_isspace c \<or> c = CHR ''.'' \<or> c = CHR ''-'') s)))"

definition phone_here :: "string \<Rightarrow> string option" where
  "phone_here s =
     (let plus = (take 1 s = ''+''); t = (if plus then drop 1 s else s) in
      case t of [] \<Rightarrow> None
      | d # r \<Rightarrow> if is_digit d \<and> 2 \<le> length (phone_run r)
                 then Some ((if plus then ''+'' else []) @ d # phone_run r) else None)"

text \<open>All matches from left to right (\<open>Inl\<close>) and the characters between them (\<open>Inr\<close>).\<close>

function phone_pieces :: "string \<Rightarrow> (string + char) list" where
  "phone_pieces [] = []"
| "phone_pieces (c # s) = (case phone_here (c # s) of
     Some m \<Rightarrow> Inl m # phone_pieces (drop (length m - 1) s)
   | None \<Rightarrow> Inr c # phone_pieces s)"
  by pat_completeness auto

termination phone_pieces
  by (relation "measure length") auto

definition extract_phone_candidate :: "string \<Rightarrow> string option" where
  "extract_phone_candidate content =
     map_option (\<lambda>m. (if take 1 m = ''+'' then ''+'' else []) @ filter is_digit m)
       (find (\<lambda>m. 3 \<le> length (filter is_digit m))
          (List.map_filter (\<lambda>x. case x of Inl m \<Rightarrow> Some m | Inr c \<Rightarrow> None) (phone_pieces content)))"

text \<open>\<^verbatim>\<open>re.sub\<close> of whole words by a blank; \<open>inside\<close> says that the character before is a word character.\<close>

function sub_words :: "(string \<Rightarrow> string) \<Rightarrow> string list \<Rightarrow> bool \<Rightarrow> string \<Rightarrow> string" where
  "sub_words L ps inside [] = []"
| "sub_words L ps inside (c # s) =
     (case find (\<lambda>p. \<not> inside \<and> L (take (length p) (c # s)) = p \<and>
                     \<not> list_ex py_word (take 1 (drop (length p) (c # s)))) ps of
        Some p \<Rightarrow> CHR '' '' # sub_words L ps True (drop (length p - 1) s)
      | None \<Rightarrow> c # sub_words L ps (py_word c) s)"
  by pat_completeness auto

termination sub_words
  by (relation "measure (\<lambda>(L, ps, b, s). length s)") auto

definition letter :: "char \<Rightarrow> bool" where
  "letter c \<longleftrightarrow> (let n = code_point c in (65 \<le> n \<and> n \<le> 90) \<or> (97 \<le> n \<and> n \<le> 122) \<or> 192 \<le> n)"

text \<open>\<^verbatim>\<open>re.findall\<close> of runs of letters.\<close>

function letter_runs :: "string \<Rightarrow> string list" where
  "letter_runs s = (case dropWhile (\<lambda>c. \<not> letter c) s of [] \<Rightarrow> []
     | c # r \<Rightarrow> (c # takeWhile letter r) # letter_runs (dropWhile letter r))"
  by pat_completeness auto

termination letter_runs
proof (relation "measure length")
  fix s c r assume "dropWhile (\<lambda>c. \<not> letter c) s = c # r"
  then have "length (c # r) \<le> length s" by (metis length_dropWhile_le)
  with length_dropWhile_le [of letter r] show "(dropWhile letter r, s) \<in> measure length" by simp
qed simp

declare letter_runs.simps [simp del]

definition cased :: "char \<Rightarrow> bool" where
  "cased c \<longleftrightarrow> letter c \<and> code_point c \<noteq> 215 \<and> code_point c \<noteq> 247"

fun title_case :: "bool \<Rightarrow> string \<Rightarrow> string" where
  "title_case inside [] = []"
| "title_case inside (c # s) = (if inside then ascii_lower c else ascii_upper c) # title_case (cased c) s"

definition ignored_name_words :: "string list" where
  "ignored_name_words = [''ok'', ''okay'', ''dong'', ''dung'', ''roi'', ''phai'', ''thanh'', ''toan'']"

text \<open>The words left of a message once phone numbers and payment words are taken out.\<close>

definition name_words :: "fold_text \<Rightarrow> string \<Rightarrow> string list" where
  "name_words F content =
     (let blanked = concat (map (\<lambda>x. case x of Inl m \<Rightarrow> '' '' | Inr c \<Rightarrow> [c]) (phone_pieces content));
          unpaid = sub_words py_lower [''cod'', ''cash'', ''ck''] False blanked;
          plain = sub_words id [''tien mat'', ''chuyen khoan''] False unpaid in
      filter (\<lambda>w. normalize_match_text F (py_strip w) \<notin> set ignored_name_words) (letter_runs plain))"

text \<open>
  \<open>explicit\<close> and \<open>leading\<close> are what the two name patterns (a name after "ten", a name before an
  address) found.
\<close>

definition extract_name_candidate ::
    "fold_text \<Rightarrow> string option \<Rightarrow> string option \<Rightarrow> string \<Rightarrow> string option \<Rightarrow> string option" where
  "extract_name_candidate F explicit leading content payment =
     (case explicit of Some n \<Rightarrow> Some n
      | None \<Rightarrow> (case leading of Some n \<Rightarrow> Some n
      | None \<Rightarrow> (if payment = None then None
           else (let ws = name_words F content in
                 if ws = [] \<or> 3 < length ws then None else Some (title_case False (join '' '' ws))))))"

section \<open>Segments of an order message\<close>

text \<open>
  \<^verbatim>\<open>re.split\<close> at the words that join products. The text is in accent-free form, so it has no comma
  or plus sign.
\<close>

fun split_segments :: "string list \<Rightarrow> string list \<Rightarrow> string list list" where
  "split_segments cur [] = [rev cur]"
| "split_segments cur [t] = (if t \<in> set [''them'', ''va'', ''voi''] then [rev cur, []] else [rev (t # cur)])"
| "split_segments cur (t # u # ts) =
     (if (t = ''cong'' \<or> t = ''lay'') \<and> u = ''them'' \<or> t = ''them'' \<and> u = ''vao''
      then rev cur # split_segments [] ts
      else if t \<in> set [''them'', ''va'', ''voi''] then rev cur # split_segments [] (u # ts)
      else split_segments (t # cur) (u # ts))"

definition split_order_item_segments :: "fold_text \<Rightarrow> string \<Rightarrow> string list" where
  "split_order_item_segments F content =
     (let n = normalize_match_text F content;
          parts = filter (\<lambda>p. p \<noteq> []) (map (join '' '') (split_segments [] (tokens n))) in
      if n = [] then [] else if parts = [] then [n] else parts)"

definition segment_looks_like_address :: "fold_text \<Rightarrow> string \<Rightarrow> bool" where
  "segment_looks_like_address F seg \<longleftrightarrow>
     (let n = normalize_match_text F seg in
      list_ex (\<lambda>t. t \<in> set [''duong'', ''phuong'', ''quan'', ''hem'', ''ngo'', ''xa'', ''ap'', ''kp'', ''tphcm'', ''tp'']) (tokens n) \<or>
      has_any [''khu pho'', ''thanh pho'', ''so nha''] n)"

end
