(* ===== verification/ChatSlots.thy ===== *)
theory ChatSlots
  imports ChatText "HOL-Library.Char_ord" "HOL-Library.List_Lexorder" "HOL-Library.Product_Lexorder"
begin

text \<open>
  The order a chat assistant collects: the lines and contact details of \<^verbatim>\<open>ChatOrderSlots\<close>, how they are
  matched with the catalog, merged over several messages, changed by an add, replace or remove
  request, and carried from turn to turn as JSON in the assistant's messages.
\<close>

section \<open>Slots\<close>

record chat_item =
  ci_product :: "string option"
  ci_quantity :: "int option"

record chat_slots =
  cs_items :: "chat_item list"
  cs_name :: "string option"
  cs_phone :: "string option"
  cs_address :: "string option"
  cs_notes :: "string option"
  cs_payment :: "string option"
  cs_confirmed :: bool

definition empty_slots :: chat_slots where
  "empty_slots = \<lparr>cs_items = [], cs_name = None, cs_phone = None, cs_address = None, cs_notes = None,
     cs_payment = None, cs_confirmed = False\<rparr>"

text \<open>\<^verbatim>\<open>a or b\<close> on optional texts and numbers: the empty text and zero count as absent.\<close>

definition str_or :: "string option \<Rightarrow> string option \<Rightarrow> string option" where
  "str_or a b = (if truthy a then a else b)"

definition int_or :: "int option \<Rightarrow> int option \<Rightarrow> int option" where
  "int_or a b = (if a = None \<or> a = Some 0 then b else a)"

definition text_of :: "string option \<Rightarrow> string" where
  "text_of a = (case a of None \<Rightarrow> [] | Some t \<Rightarrow> t)"

section \<open>Matching the catalog\<close>

definition product_display :: "product \<Rightarrow> string" where
  "product_display p =
     (let size = plain_decimal (nat (p_size_kg p)) @ '' '' @ unit_text (p_unit p) in
      if contains (py_remove (CHR '' '') (py_lower size)) (py_remove (CHR '' '') (py_lower (p_name p)))
      then p_name p else p_name p @ '' '' @ size)"

definition match_fields :: "product \<Rightarrow> string list" where
  "match_fields p =
     (let size = plain_decimal (nat (p_size_kg p)) in
      [p_name p, p_brand p, p_sku p, product_display p, size @ ''kg'', size @ '' '' @ unit_text (p_unit p),
       size @ unit_text (p_unit p)])"

definition generic_tokens :: "string list" where
  "generic_tokens = [''binh'', ''gas'', ''chai'', ''can'', ''thung'', ''lit'', ''nuoc'', ''uong'', ''kg'']"

definition match_score :: "fold_text \<Rightarrow> string \<Rightarrow> product \<Rightarrow> nat" where
  "match_score F query p =
     (let haystack = join '' '' (map (normalize_match_text F) (match_fields p));
          known = set (tokens haystack);
          words = filter (\<lambda>t. \<not> list_all is_digit t \<and> 2 \<le> length t) (tokens query) in
      if list_ex (\<lambda>t. t \<notin> set generic_tokens \<and> t \<in> known) words
      then (if query \<noteq> [] \<and> contains query haystack then 4 else 0) + length (filter (\<lambda>t. t \<in> known) words)
      else 0)"

fun best_match :: "(product \<Rightarrow> nat) \<Rightarrow> product option \<Rightarrow> nat \<Rightarrow> product list \<Rightarrow> product option" where
  "best_match score best high [] = best"
| "best_match score best high (p # ps) =
     (if high < score p then best_match score (Some p) (score p) ps else best_match score best high ps)"

definition match_product :: "fold_text \<Rightarrow> string option \<Rightarrow> product list \<Rightarrow> product option" where
  "match_product F query prods =
     (if truthy query
      then best_match (match_score F (normalize_match_text F (the query))) None 0 prods else None)"

definition match_order_items :: "fold_text \<Rightarrow> chat_item list \<Rightarrow> product list \<Rightarrow> (chat_item \<times> product option) list" where
  "match_order_items F items prods = map (\<lambda>i. (i, match_product F (ci_product i) prods)) items"

definition matched_order_products :: "(chat_item \<times> product option) list \<Rightarrow> (chat_item \<times> product) list" where
  "matched_order_products ms = List.map_filter (\<lambda>(i, m). map_option (\<lambda>p. (i, p)) m) ms"

fun item_index :: "(chat_item \<Rightarrow> bool) \<Rightarrow> chat_item list \<Rightarrow> nat option" where
  "item_index P [] = None"
| "item_index P (i # is) = (if P i then Some 0 else map_option Suc (item_index P is))"

definition find_matching_item_index :: "fold_text \<Rightarrow> chat_item list \<Rightarrow> chat_item \<Rightarrow> product list \<Rightarrow> nat option" where
  "find_matching_item_index F items cand prods =
     (case match_product F (ci_product cand) prods of
        None \<Rightarrow> None
      | Some p \<Rightarrow> item_index (\<lambda>i. case match_product F (ci_product i) prods of
                                  None \<Rightarrow> False | Some q \<Rightarrow> p_id q = p_id p) items)"

definition is_bare_gas_item :: "fold_text \<Rightarrow> chat_item \<Rightarrow> bool" where
  "is_bare_gas_item F i \<longleftrightarrow>
     (let n = normalize_match_text F (text_of (ci_product i)) in
      is_bare_category_query F (Some n) \<and> category_filter n = Some Gas)"

definition is_incomplete_add_item :: "fold_text \<Rightarrow> chat_item \<Rightarrow> bool" where
  "is_incomplete_add_item F i \<longleftrightarrow> ci_product i = None \<or> is_bare_gas_item F i"

section \<open>Merging\<close>

definition merge_candidate_items :: "fold_text \<Rightarrow> product list \<Rightarrow> chat_item \<Rightarrow> chat_item list \<Rightarrow> chat_item list" where
  "merge_candidate_items F prods cand items =
     (if items = [] then [cand]
      else (case find_matching_item_index F items cand prods of
              None \<Rightarrow> items @ [cand]
            | Some k \<Rightarrow> items[k := \<lparr>ci_product = str_or (ci_product (items ! k)) (ci_product cand),
                                   ci_quantity = (case ci_quantity (items ! k) of None \<Rightarrow> ci_quantity cand
                                                  | Some n \<Rightarrow> Some n)\<rparr>]))"

definition overwrite_item :: "chat_item \<Rightarrow> chat_item \<Rightarrow> chat_item" where
  "overwrite_item new old = \<lparr>ci_product = str_or (ci_product new) (ci_product old),
                            ci_quantity = int_or (ci_quantity new) (ci_quantity old)\<rparr>"

definition merge_one_item :: "fold_text \<Rightarrow> chat_item \<Rightarrow> chat_item list \<Rightarrow> chat_item list" where
  "merge_one_item F new items =
     (let key = normalize_match_text F (text_of (ci_product new)) in
      case item_index (\<lambda>i. key \<noteq> [] \<and> normalize_match_text F (text_of (ci_product i)) = key) items of
        None \<Rightarrow> items @ [new]
      | Some k \<Rightarrow> items[k := overwrite_item new (items ! k)])"

definition merge_order_items :: "fold_text \<Rightarrow> chat_item list \<Rightarrow> chat_item list \<Rightarrow> chat_item list" where
  "merge_order_items F cur new =
     (if new = [] then cur else if cur = [] then new else fold (merge_one_item F) new cur)"

definition merge_slots :: "fold_text \<Rightarrow> chat_slots \<Rightarrow> chat_slots \<Rightarrow> chat_slots" where
  "merge_slots F merged source =
     merged\<lparr>cs_items := merge_order_items F (cs_items merged) (cs_items source),
            cs_name := str_or (cs_name source) (cs_name merged),
            cs_phone := str_or (cs_phone source) (cs_phone merged),
            cs_address := str_or (cs_address source) (cs_address merged),
            cs_notes := str_or (cs_notes source) (cs_notes merged),
            cs_payment := str_or (cs_payment source) (cs_payment merged),
            cs_confirmed := cs_confirmed merged \<or> cs_confirmed source\<rparr>"

definition merge_order_slots :: "fold_text \<Rightarrow> chat_slots option list \<Rightarrow> chat_slots" where
  "merge_order_slots F sources =
     fold (\<lambda>m acc. case m of None \<Rightarrow> acc | Some src \<Rightarrow> merge_slots F acc src) sources empty_slots"

section \<open>Changing the lines\<close>

definition with_order_items :: "chat_slots \<Rightarrow> chat_item list \<Rightarrow> chat_slots" where
  "with_order_items S items = S\<lparr>cs_items := items, cs_confirmed := False\<rparr>"

definition drop_incomplete_add_items :: "fold_text \<Rightarrow> chat_slots \<Rightarrow> chat_slots" where
  "drop_incomplete_add_items F S =
     S\<lparr>cs_items := filter (\<lambda>i. \<not> is_incomplete_add_item F i) (cs_items S), cs_confirmed := False\<rparr>"

definition replace_first_matching_item :: "fold_text \<Rightarrow> product list \<Rightarrow> chat_slots \<Rightarrow> chat_item \<Rightarrow> chat_slots" where
  "replace_first_matching_item F prods S cand =
     (let items = cs_items S in
      if items = [] then with_order_items S [cand]
      else (let k = (case find_matching_item_index F items cand prods of None \<Rightarrow> 0 | Some k \<Rightarrow> k) in
            with_order_items S (items[k := overwrite_item cand (items ! k)])))"

definition merge_existing_item :: "fold_text \<Rightarrow> product list \<Rightarrow> chat_item \<Rightarrow> chat_slots \<Rightarrow> chat_slots" where
  "merge_existing_item F prods cand S =
     (let items = cs_items S in
      case find_matching_item_index F items cand prods of
        None \<Rightarrow> with_order_items S (items @ [cand])
      | Some k \<Rightarrow> with_order_items S (items[k := overwrite_item cand (items ! k)]))"

definition append_order_item :: "chat_slots \<Rightarrow> chat_item \<Rightarrow> chat_slots" where
  "append_order_item S cand = S\<lparr>cs_items := cs_items S @ [cand], cs_confirmed := False\<rparr>"

definition append_order_items :: "fold_text \<Rightarrow> product list \<Rightarrow> chat_slots \<Rightarrow> chat_item list \<Rightarrow> chat_slots" where
  "append_order_items F prods S cands =
     S\<lparr>cs_items := fold (merge_candidate_items F prods) cands (cs_items S), cs_confirmed := False\<rparr>"

definition remove_order_item :: "fold_text \<Rightarrow> product list \<Rightarrow> chat_slots \<Rightarrow> chat_item \<Rightarrow> chat_slots" where
  "remove_order_item F prods S cand =
     (case find_matching_item_index F (cs_items S) cand prods of
        None \<Rightarrow> S
      | Some k \<Rightarrow> with_order_items S (take k (cs_items S) @ drop (Suc k) (cs_items S)))"

definition first_order_item :: "chat_slots option \<Rightarrow> chat_item option" where
  "first_order_item m = (case m of None \<Rightarrow> None | Some S \<Rightarrow> (case cs_items S of [] \<Rightarrow> None | i # _ \<Rightarrow> Some i))"

definition pending_change_item :: "fold_text \<Rightarrow> product list \<Rightarrow> chat_item list \<Rightarrow> chat_item list \<Rightarrow> chat_item option" where
  "pending_change_item F prods previous pending =
     (case find (\<lambda>i. find_matching_item_index F previous i prods = None) pending of
        Some i \<Rightarrow> Some i
      | None \<Rightarrow> (case pending of [] \<Rightarrow> None | i # _ \<Rightarrow> Some i))"

datatype item_operation = OpRemove | OpAdd | OpReplace | OpSet | OpMergeExisting | OpAmbiguous

definition detect_order_item_operation ::
    "fold_text \<Rightarrow> product list \<Rightarrow> string \<Rightarrow> chat_slots option \<Rightarrow> chat_item \<Rightarrow> item_operation option" where
  "detect_order_item_operation F prods content previous cand =
     (let n = normalize_match_text F content;
          old = (case previous of None \<Rightarrow> [] | Some S \<Rightarrow> cs_items S) in
      if \<not> truthy (ci_product cand) then None
      else if has_remove_cue n then Some OpRemove
      else if has_add_cue n then Some OpAdd
      else if has_replace_cue n then Some OpReplace
      else if old = [] then Some OpSet
      else if find_matching_item_index F old cand prods \<noteq> None then Some OpMergeExisting
      else Some OpAmbiguous)"

definition detect_order_items_operation ::
    "fold_text \<Rightarrow> product list \<Rightarrow> string \<Rightarrow> chat_slots option \<Rightarrow> chat_item list \<Rightarrow> item_operation option" where
  "detect_order_items_operation F prods content previous cands =
     (let named = filter (\<lambda>i. truthy (ci_product i)) cands;
          n = normalize_match_text F content;
          old = (case previous of None \<Rightarrow> [] | Some S \<Rightarrow> cs_items S) in
      if named = [] then None
      else if has_remove_cue n then Some OpRemove
      else if has_add_cue n then Some OpAdd
      else if has_replace_cue n then Some OpReplace
      else if old = [] then Some OpSet
      else if list_all (\<lambda>i. find_matching_item_index F old i prods \<noteq> None) named then Some OpMergeExisting
      else if length named = 1 then detect_order_item_operation F prods content previous (hd named)
      else Some OpAmbiguous)"

section \<open>Slots as JSON\<close>

definition text_entry :: "string \<Rightarrow> string option \<Rightarrow> (string \<times> json) list" where
  "text_entry k v = (if truthy v then [(k, JStr (the v))] else [])"

definition item_to_metadata :: "chat_item \<Rightarrow> (string \<times> json) list" where
  "item_to_metadata i =
     text_entry ''product'' (ci_product i) @
     (case ci_quantity i of None \<Rightarrow> [] | Some n \<Rightarrow> [(''quantity'', JInt n)])"

definition items_to_metadata :: "chat_item list \<Rightarrow> json list" where
  "items_to_metadata items = map JObj (filter (\<lambda>d. d \<noteq> []) (map item_to_metadata items))"

definition slots_to_metadata :: "chat_slots option \<Rightarrow> (string \<times> json) list" where
  "slots_to_metadata m =
     (case m of None \<Rightarrow> []
      | Some S \<Rightarrow>
          (let items = items_to_metadata (cs_items S) in
           (if items = [] then [] else [(''items'', JList items)]) @
           text_entry ''customer_name'' (cs_name S) @ text_entry ''customer_phone'' (cs_phone S) @
           text_entry ''delivery_address'' (cs_address S) @ text_entry ''delivery_notes'' (cs_notes S) @
           text_entry ''payment_method'' (cs_payment S)))"

definition item_from_dict :: "(string \<times> json) list \<Rightarrow> chat_item option" where
  "item_from_dict d =
     (let i = \<lparr>ci_product = optional_str (jget ''product'' d), ci_quantity = optional_int (jget ''quantity'' d)\<rparr> in
      if truthy (ci_product i) \<or> ci_quantity i \<noteq> None then Some i else None)"

definition items_from_metadata :: "json \<Rightarrow> chat_item list" where
  "items_from_metadata v =
     (case v of JList xs \<Rightarrow> List.map_filter (\<lambda>x. case x of JObj d \<Rightarrow> item_from_dict d | _ \<Rightarrow> None) xs | _ \<Rightarrow> [])"

text \<open>The lines of a payload; older payloads carry one product at the top level.\<close>

definition payload_items :: "(string \<times> json) list \<Rightarrow> chat_item list" where
  "payload_items d =
     (let items = items_from_metadata (jget ''items'' d) in
      if items = [] then (case item_from_dict d of None \<Rightarrow> [] | Some i \<Rightarrow> [i]) else items)"

definition slots_from_metadata :: "json \<Rightarrow> chat_slots option" where
  "slots_from_metadata v =
     (case v of
        JObj d \<Rightarrow> Some \<lparr>cs_items = payload_items d,
          cs_name = optional_str (jget ''customer_name'' d), cs_phone = optional_str (jget ''customer_phone'' d),
          cs_address = optional_str (jget ''delivery_address'' d), cs_notes = optional_str (jget ''delivery_notes'' d),
          cs_payment = optional_str (jget ''payment_method'' d), cs_confirmed = False\<rparr>
      | _ \<Rightarrow> None)"

text \<open>\<^verbatim>\<open>_extract_order_slots\<close> from the object the language model's answer parses to.\<close>

definition slots_from_llm :: "fold_text \<Rightarrow> (string \<times> json) list \<Rightarrow> chat_slots" where
  "slots_from_llm F d =
     \<lparr>cs_items = payload_items d,
      cs_name = optional_str (jget ''customer_name'' d), cs_phone = optional_str (jget ''customer_phone'' d),
      cs_address = optional_str (jget ''delivery_address'' d), cs_notes = optional_str (jget ''delivery_notes'' d),
      cs_payment = optional_str (jget ''payment_method'' d),
      cs_confirmed = (case map_of d ''confirmed'' of None \<Rightarrow> False | Some v \<Rightarrow> normalize_confirmation F v)\<rparr>"

section \<open>What a message adds\<close>

definition is_product_mentioned :: "fold_text \<Rightarrow> string \<Rightarrow> string list \<Rightarrow> bool" where
  "is_product_mentioned F content candidates \<longleftrightarrow>
     (let n = normalize_match_text F content in
      list_ex (\<lambda>cand. let m = normalize_match_text F cand; long = filter (\<lambda>t. 3 \<le> length t) (tokens m) in
        m \<noteq> [] \<and> (contains m n \<or> (long \<noteq> [] \<and> set long \<subseteq> set (tokens n)))) candidates)"

definition mention_fields :: "product \<Rightarrow> string list" where
  "mention_fields p =
     (let size = plain_decimal (nat (p_size_kg p)) in
      [p_name p, p_brand p, p_sku p, product_display p, size @ ''kg'', size @ '' '' @ unit_text (p_unit p)])"

definition category_item :: "fold_text \<Rightarrow> string \<Rightarrow> chat_item option" where
  "category_item F seg =
     (let n = normalize_match_text F seg; q = leading_quantity n;
          words = (if q = None then tokens n else tokens (drop (length (takeWhile py_word n)) n));
          text = join '' '' (filter (\<lambda>t. t \<notin> set [''a'', ''dat'', ''di'', ''khi'', ''mua'', ''lay'', ''cho'', ''toi'',
                   ''minh'', ''can'', ''muon'', ''luon'', ''nhe'', ''nua'', ''them'', ''voi'']) words) in
      if is_bare_category_query F (Some text)
      then Some \<lparr>ci_product = Some (if category_filter text = Some NuocUong then ''nuoc uong'' else ''gas''),
                 ci_quantity = q\<rparr>
      else None)"

definition segment_item :: "fold_text \<Rightarrow> product list \<Rightarrow> string \<Rightarrow> chat_item option" where
  "segment_item F prods seg =
     (let m = match_product F (Some seg) prods; q = extract_quantity_candidate F seg;
          n = (if m \<noteq> None \<and> q = None then leading_quantity seg else q) in
      case n of None \<Rightarrow> None
      | Some k \<Rightarrow> Some \<lparr>ci_product = map_option product_display m, ci_quantity = Some k\<rparr>)"

definition add_segment :: "fold_text \<Rightarrow> product list \<Rightarrow> string \<Rightarrow> chat_item list \<Rightarrow> chat_item list" where
  "add_segment F prods seg items =
     (if segment_looks_like_address F seg then items
      else (case (case category_item F seg of Some i \<Rightarrow> Some i | None \<Rightarrow> segment_item F prods seg) of
              None \<Rightarrow> items | Some i \<Rightarrow> merge_candidate_items F prods i items))"

definition infer_order_slots :: "fold_text \<Rightarrow> product list \<Rightarrow> string \<Rightarrow> chat_slots" where
  "infer_order_slots F prods content =
     (let items = fold (add_segment F prods) (split_order_item_segments F content) [] in
      empty_slots\<lparr>cs_items :=
        (if items = [] \<and> \<not> segment_looks_like_address F content
         then (case segment_item F prods content of None \<Rightarrow> [] | Some i \<Rightarrow> [i]) else items)\<rparr>)"

definition take_extracted :: "fold_text \<Rightarrow> product list \<Rightarrow> string \<Rightarrow> chat_item \<Rightarrow> chat_item list \<Rightarrow> chat_item list" where
  "take_extracted F prods content i items =
     (if \<not> truthy (ci_product i) then merge_candidate_items F prods i items
      else (let m = match_product F (ci_product i) prods;
                mentioned = (m \<noteq> None \<and> is_product_mentioned F content (mention_fields (the m))) \<or>
                            is_product_mentioned F content [text_of (ci_product i)];
                base = (if length items = 1 \<and> is_bare_category_query F (ci_product (hd items)) \<and> m \<noteq> None \<and>
                           \<not> is_bare_category_query F (ci_product i) \<and> mentioned then [] else items) in
            if mentioned then merge_candidate_items F prods i base else base))"

text \<open>\<open>address\<close> is the delivery address chosen between the model's and the pattern's.\<close>

definition combine_current_slots ::
    "fold_text \<Rightarrow> product list \<Rightarrow> string \<Rightarrow> string option \<Rightarrow> chat_slots \<Rightarrow> chat_slots \<Rightarrow> chat_slots" where
  "combine_current_slots F prods content address inferred extracted =
     extracted\<lparr>cs_items := fold (take_extracted F prods content) (cs_items extracted) (cs_items inferred),
               cs_address := address\<rparr>"

section \<open>Round trip of the slots\<close>

text \<open>What the readers of a message produce: stripped, non-empty texts and positive quantities.\<close>

definition clean_text :: "string option \<Rightarrow> bool" where
  "clean_text m \<longleftrightarrow> (\<forall>t. m = Some t \<longrightarrow> t \<noteq> [] \<and> py_strip t = t)"

definition clean_item :: "chat_item \<Rightarrow> bool" where
  "clean_item i \<longleftrightarrow> clean_text (ci_product i) \<and> (ci_product i \<noteq> None \<or> ci_quantity i \<noteq> None) \<and>
     (\<forall>n. ci_quantity i = Some n \<longrightarrow> 0 < n)"

definition clean_slots :: "chat_slots \<Rightarrow> bool" where
  "clean_slots S \<longleftrightarrow> list_all clean_item (cs_items S) \<and> clean_text (cs_name S) \<and> clean_text (cs_phone S) \<and>
     clean_text (cs_address S) \<and> clean_text (cs_notes S) \<and> clean_text (cs_payment S)"

lemma digits_underscored: "list_all is_digit s \<Longrightarrow> s \<noteq> [] \<Longrightarrow> underscored s"
  by (induction s rule: underscored.induct) (auto simp: is_digit_def code_point_def)

lemma py_int_digits: "0 < n \<Longrightarrow> py_int (int_text n) = Some n"
proof -
  assume n: "0 < n"
  let ?d = "nat_digits (nat n)"
  have all: "list_all is_digit ?d" by (rule nat_digits_all)
  have chars: "c \<noteq> CHR ''-'' \<and> c \<noteq> CHR ''+'' \<and> c \<noteq> CHR ''_'' \<and> \<not> py_isspace c" if "c \<in> set ?d" for c
    using all that digit_not_space [of c] by (auto simp: list_all_iff is_digit_def code_point_def)
  have "py_strip ?d = ?d" by (rule py_strip_id) (use chars in blast)
  moreover have "take 1 ?d \<noteq> [c]" if "c = CHR ''-'' \<or> c = CHR ''+''" for c
    using chars that by (cases ?d) auto
  moreover have "py_remove (CHR ''_'') ?d = ?d" by (rule py_remove_id) (use chars in blast)
  moreover have "underscored ?d" by (rule digits_underscored [OF all]) simp
  ultimately show ?thesis using n by (simp add: py_int_def int_text_def parse_nat_digits Let_def)
qed

lemma optional_int_pos: "0 < n \<Longrightarrow> optional_int (JInt n) = Some n"
  using py_int_digits [of n] by (simp add: optional_int_def py_str_def)

lemma optional_str_clean: "t \<noteq> [] \<Longrightarrow> py_strip t = t \<Longrightarrow> optional_str (JStr t) = Some t"
  by (simp add: optional_str_def py_str_def Let_def)

lemma optional_null [simp]: "optional_str JNull = None" "optional_int JNull = None"
  by (simp_all add: optional_str_def optional_int_def)

lemma jget_append [simp]: "jget k (a @ b) = (case map_of a k of None \<Rightarrow> jget k b | Some v \<Rightarrow> v)"
  by (auto simp: jget_def map_add_def split: option.splits)

lemma jget_entry:
  "clean_text m \<Longrightarrow> optional_str (jget k (text_entry k m @ r)) = (if m = None then optional_str (jget k r) else m)"
  "k \<noteq> l \<Longrightarrow> jget k (text_entry l m @ r) = jget k r"
proof -
  show "clean_text m \<Longrightarrow> optional_str (jget k (text_entry k m @ r)) = (if m = None then optional_str (jget k r) else m)"
  proof (cases m)
    case (Some t)
    assume "clean_text m"
    with Some have "t \<noteq> []" "py_strip t = t" by (simp_all add: clean_text_def)
    then show ?thesis using optional_str_clean [of t] Some by (simp add: text_entry_def jget_def)
  qed (simp add: text_entry_def)
  show "k \<noteq> l \<Longrightarrow> jget k (text_entry l m @ r) = jget k r"
    by (simp add: text_entry_def jget_def)
qed

lemma jget_last:
  "clean_text m \<Longrightarrow> optional_str (jget k (text_entry k m)) = m" "k \<noteq> l \<Longrightarrow> jget k (text_entry l m) = JNull"
  using jget_entry(1) [of m k "[]"] jget_entry(2) [of k l m "[]"] by (auto simp: jget_def)

lemma item_round_trip:
  assumes "clean_item i"
  shows "item_from_dict (item_to_metadata i) = Some i" "item_to_metadata i \<noteq> []"
proof -
  define Q where "Q = (case ci_quantity i of None \<Rightarrow> [] | Some n \<Rightarrow> [(''quantity'', JInt n)])"
  have d: "item_to_metadata i = text_entry ''product'' (ci_product i) @ Q" by (simp add: item_to_metadata_def Q_def)
  have c: "clean_text (ci_product i)" "ci_product i \<noteq> None \<or> ci_quantity i \<noteq> None"
    "\<And>n. ci_quantity i = Some n \<Longrightarrow> 0 < n" using assms by (simp_all add: clean_item_def)
  have "jget ''product'' Q = JNull" by (simp add: Q_def jget_def split: option.splits)
  then have p: "optional_str (jget ''product'' (item_to_metadata i)) = ci_product i"
    unfolding d jget_entry(1) [OF c(1)] by simp
  have "optional_int (jget ''quantity'' Q) = ci_quantity i"
    using c(3) by (simp add: Q_def jget_def optional_int_pos split: option.splits)
  then have q: "optional_int (jget ''quantity'' (item_to_metadata i)) = ci_quantity i"
    unfolding d by (subst jget_entry(2)) simp_all
  have "truthy (ci_product i) \<or> ci_quantity i \<noteq> None"
    using c(1,2) by (cases "ci_product i") (simp_all add: clean_text_def)
  then show "item_from_dict (item_to_metadata i) = Some i" by (simp add: item_from_dict_def p q)
  then show "item_to_metadata i \<noteq> []"
    using \<open>truthy (ci_product i) \<or> ci_quantity i \<noteq> None\<close>
    by (auto simp: d Q_def text_entry_def split: option.splits)
qed

lemma items_round_trip: "list_all clean_item is \<Longrightarrow> items_from_metadata (JList (items_to_metadata is)) = is"
  by (induction "is") (auto simp: items_from_metadata_def items_to_metadata_def item_round_trip)

lemma items_to_metadata_Nil: "list_all clean_item is \<Longrightarrow> items_to_metadata is = [] \<longleftrightarrow> is = []"
  by (cases "is") (auto simp: items_to_metadata_def item_round_trip)

text \<open>
  C29. The order details survive from one chat turn to the next: slots of stripped non-empty texts
  and positive quantities, written into the assistant's message as JSON, are read back unchanged,
  except that a confirmation is never carried over.
\<close>

theorem chat_slots_round_trip:
  assumes "clean_slots S"
  shows "slots_from_metadata (JObj (slots_to_metadata (Some S))) = Some (S\<lparr>cs_confirmed := False\<rparr>)"
proof -
  from assms have c: "list_all clean_item (cs_items S)" "clean_text (cs_name S)" "clean_text (cs_phone S)"
    "clean_text (cs_address S)" "clean_text (cs_notes S)" "clean_text (cs_payment S)"
    by (simp_all add: clean_slots_def)
  define rest where "rest = text_entry ''customer_name'' (cs_name S) @ text_entry ''customer_phone'' (cs_phone S) @
           text_entry ''delivery_address'' (cs_address S) @ text_entry ''delivery_notes'' (cs_notes S) @
           text_entry ''payment_method'' (cs_payment S)"
  have d: "slots_to_metadata (Some S) =
      (if cs_items S = [] then [] else [(''items'', JList (items_to_metadata (cs_items S)))]) @ rest"
    by (simp add: slots_to_metadata_def Let_def items_to_metadata_Nil [OF c(1)] rest_def)
  have "jget k rest = JNull" if "k \<in> {''items'', ''product'', ''quantity''}" for k
    using that by (auto simp: rest_def jget_entry(2) jget_last simp del: jget_append)
  then have items: "payload_items (slots_to_metadata (Some S)) = cs_items S"
    using items_round_trip [OF c(1)] unfolding d payload_items_def
    by (auto simp: Let_def item_from_dict_def items_from_metadata_def jget_def split: option.splits)
  have fields: "optional_str (jget ''customer_name'' rest) = cs_name S" "optional_str (jget ''customer_phone'' rest) = cs_phone S"
    "optional_str (jget ''delivery_address'' rest) = cs_address S" "optional_str (jget ''delivery_notes'' rest) = cs_notes S"
    "optional_str (jget ''payment_method'' rest) = cs_payment S"
    using c by (simp_all add: rest_def jget_entry jget_last del: jget_append)
  have skip: "jget k (slots_to_metadata (Some S)) = jget k rest" if "k \<noteq> ''items''" for k
    using that by (simp add: d jget_def)
  show ?thesis using items fields by (simp add: slots_from_metadata_def skip)
qed

lemma chat_slots_round_trip_witness:
  "slots_from_metadata (JObj (slots_to_metadata (Some (empty_slots\<lparr>cs_items := [\<lparr>ci_product = Some ''Gas 12 kg'', ci_quantity = Some 2\<rparr>],
     cs_name := Some ''An'', cs_confirmed := True\<rparr>)))) =
   Some (empty_slots\<lparr>cs_items := [\<lparr>ci_product = Some ''Gas 12 kg'', ci_quantity = Some 2\<rparr>], cs_name := Some ''An''\<rparr>)"
proof -
  let ?S = "empty_slots\<lparr>cs_items := [\<lparr>ci_product = Some ''Gas 12 kg'', ci_quantity = Some 2\<rparr>],
     cs_name := Some ''An'', cs_confirmed := True\<rparr>"
  have "py_strip ''An'' = ''An''" "py_strip ''Gas 12 kg'' = ''Gas 12 kg''" by code_simp+
  then have "clean_slots ?S"
    by (simp add: clean_slots_def clean_item_def clean_text_def empty_slots_def)
  from chat_slots_round_trip [OF this] show ?thesis by (simp add: empty_slots_def)
qed

end
