(* ===== verification/Users.thy ===== *)
theory Users
  imports Catalog
begin

text \<open>
  Accounts: the schemas of \<^verbatim>\<open>schemas/user.py\<close>, \<^verbatim>\<open>UserRepository\<close>, and the user management
  endpoints of administrators. The caller of an endpoint is the row the authentication dependency
  read; it may be older than the state the handler runs on.
\<close>

section \<open>Schemas\<close>

definition char_upper :: "char \<Rightarrow> bool" where
  "char_upper c \<longleftrightarrow> is_upper_letter c"

definition password_ok :: "string \<Rightarrow> bool" where
  "password_ok p \<longleftrightarrow> 6 \<le> length p \<and> length p \<le> 128 \<and> list_ex char_upper p \<and> list_ex is_digit p"

definition parse_password :: "string \<Rightarrow> exn + string" where
  "parse_password p = (if password_ok p then Inr p else Inl (PyError ''ValidationError''))"

text \<open>\<open>uc_email\<close> is the result of the library's e-mail parser.\<close>

record user_create =
  uc_email :: "string option"
  uc_full_name :: "string option"
  uc_phone :: string
  uc_password :: string

definition parse_user_create :: "user_create \<Rightarrow> exn + user_create" where
  "parse_user_create c =
     (if (case uc_full_name c of None \<Rightarrow> True | Some n \<Rightarrow> len_between 2 255 n) \<and>
         py_strip (uc_phone c) \<noteq> [] \<and> password_ok (uc_password c)
      then (case validate_phone (uc_phone c) of
              Inl e \<Rightarrow> Inl (PyError ''ValidationError'')
            | Inr p \<Rightarrow> Inr (c\<lparr>uc_phone := p,
                uc_email := (if truthy (uc_email c) then map_option py_lower (uc_email c) else None)\<rparr>))
      else Inl (PyError ''ValidationError''))"

record profile_update =
  pf_full_name :: "string patch"
  pf_phone :: "string patch"
  pf_address :: "string patch"
  pf_delivery_ward :: "string patch"
  pf_delivery_city :: "string patch"
  pf_delivery_notes :: "string patch"

text \<open>A sent empty phone is normalised to null.\<close>

definition parse_profile_update :: "profile_update \<Rightarrow> exn + profile_update" where
  "parse_profile_update u =
     (if patch_all (len_between 2 255) (pf_full_name u) \<and> patch_all (\<lambda>s. length s \<le> 100) (pf_delivery_ward u) \<and>
         patch_all (\<lambda>s. length s \<le> 100) (pf_delivery_city u)
      then (case pf_phone u of
              Val p \<Rightarrow> if p = [] then Inr (u\<lparr>pf_phone := Null\<rparr>)
                       else (case validate_phone p of
                               Inl e \<Rightarrow> Inl (PyError ''ValidationError'')
                             | Inr q \<Rightarrow> Inr (u\<lparr>pf_phone := Val q\<rparr>))
            | _ \<Rightarrow> Inr u)
      else Inl (PyError ''ValidationError''))"

section \<open>UserRepository\<close>

definition user_by_id :: "uuid \<Rightarrow> db \<Rightarrow> user option" where
  "user_by_id i s = find_row u_id i (users s)"

definition user_by_email :: "string \<Rightarrow> db \<Rightarrow> user option" where
  "user_by_email email s = find (\<lambda>u. u_email u = Some (py_lower email)) (users s)"

definition user_by_phone :: "string \<Rightarrow> db \<Rightarrow> user option" where
  "user_by_phone phone s = find (\<lambda>u. u_phone u = Some phone) (users s)"

text \<open>The partial unique indexes: no two rows share a phone or an e-mail that is set.\<close>

definition identity_free :: "uuid \<Rightarrow> user \<Rightarrow> db \<Rightarrow> bool" where
  "identity_free i u s \<longleftrightarrow>
     (\<forall>v \<in> set (users s). u_id v \<noteq> i \<longrightarrow>
        (u_phone u \<noteq> None \<longrightarrow> u_phone v \<noteq> u_phone u) \<and> (u_email u \<noteq> None \<longrightarrow> u_email v \<noteq> u_email u))"

definition new_user :: "uuid \<Rightarrow> time \<Rightarrow> string \<Rightarrow> string \<Rightarrow> user_create \<Rightarrow> user" where
  "new_user i now city hashed c =
     \<lparr>u_id = i, u_email = (if truthy (uc_email c) then map_option py_lower (uc_email c) else None),
      u_email_verified = False, u_hashed_password = Some hashed, u_full_name = uc_full_name c,
      u_phone = Some (uc_phone c), u_address = None, u_delivery_ward = None,
      u_delivery_city = Some city, u_delivery_notes = None, u_role = Customer, u_is_active = True,
      u_created_at = now\<rparr>"

definition repo_create_user :: "time \<Rightarrow> string \<Rightarrow> user_create \<Rightarrow> string \<Rightarrow> user dbop" where
  "repo_create_user now city c hashed =
     andThen fresh_id (\<lambda>i.
     andThen (gets (identity_free i (new_user i now city hashed c))) (\<lambda>ok.
     andThen (ensure ok (PyError ''IntegrityError'')) (\<lambda>_.
     andThen (modify (\<lambda>s. s\<lparr>users := users s @ [new_user i now city hashed c]\<rparr>)) (\<lambda>_.
     ret (new_user i now city hashed c)))))"

text \<open>\<^verbatim>\<open>update(user_id, data)\<close>: \<open>f\<close> sets the fields of \<open>data\<close>.\<close>

definition repo_update_user :: "uuid \<Rightarrow> (user \<Rightarrow> user) \<Rightarrow> user option dbop" where
  "repo_update_user i f =
     andThen (gets (user_by_id i)) (\<lambda>m.
       case m of
         None \<Rightarrow> ret None
       | Some u \<Rightarrow>
           andThen (gets (identity_free i (f u))) (\<lambda>ok.
           andThen (ensure ok (PyError ''IntegrityError'')) (\<lambda>_.
           andThen (modify (\<lambda>s. s\<lparr>users := upd_row u_id i f (users s)\<rparr>)) (\<lambda>_.
           ret (Some (f u))))))"

definition repo_soft_delete_user :: "uuid \<Rightarrow> bool dbop" where
  "repo_soft_delete_user i =
     andThen (gets (user_by_id i)) (\<lambda>m.
       case m of
         None \<Rightarrow> ret False
       | Some u \<Rightarrow> andThen (modify (\<lambda>s. s\<lparr>users := upd_row u_id i (\<lambda>u. u\<lparr>u_is_active := False\<rparr>) (users s)\<rparr>))
                     (\<lambda>_. ret True))"

definition repo_list_users :: "nat \<Rightarrow> nat \<Rightarrow> role option \<Rightarrow> db \<Rightarrow> user list \<times> nat" where
  "repo_list_users skip limit r s =
     (let rows = filter (\<lambda>u. case r of None \<Rightarrow> True | Some x \<Rightarrow> u_role u = x) (users s) in
      (slice skip limit (order_rows u_created_at False rows), length rows))"

definition apply_profile :: "profile_update \<Rightarrow> user \<Rightarrow> user" where
  "apply_profile c u = u\<lparr>
     u_full_name := patch_opt (pf_full_name c) (u_full_name u),
     u_phone := patch_opt (pf_phone c) (u_phone u),
     u_address := patch_opt (pf_address c) (u_address u),
     u_delivery_ward := patch_opt (pf_delivery_ward c) (u_delivery_ward u),
     u_delivery_city := patch_opt (pf_delivery_city c) (u_delivery_city u),
     u_delivery_notes := patch_opt (pf_delivery_notes c) (u_delivery_notes u)\<rparr>"

section \<open>User management\<close>

definition get_user_or_404 :: "uuid \<Rightarrow> user dbop" where
  "get_user_or_404 i =
     andThen (gets (user_by_id i)) (require_some (AppError NotFound ''user_not_found''))"

definition count_admins :: "bool \<Rightarrow> db \<Rightarrow> nat" where
  "count_admins active_only s =
     length (filter (\<lambda>u. u_role u = Admin \<and> (active_only \<longrightarrow> u_is_active u)) (users s))"

definition ensure_admin_change_is_safe :: "user \<Rightarrow> role option \<Rightarrow> bool option \<Rightarrow> unit dbop" where
  "ensure_admin_change_is_safe target new_role new_active =
     (if u_role target \<noteq> Admin then ret ()
      else andThen (gets (\<lambda>s. (count_admins False s, count_admins True s))) (\<lambda>(n, m).
           if new_role \<noteq> None \<and> new_role \<noteq> Some Admin \<and> n \<le> 1
           then raise (AppError Validation ''final_admin_required'')
           else if new_active = Some False \<and> u_is_active target \<and> m \<le> 1
           then raise (AppError Validation ''final_admin_required'')
           else ret ()))"

definition write_user :: "uuid \<Rightarrow> (user \<Rightarrow> user) \<Rightarrow> unit dbop" where
  "write_user i f = modify (\<lambda>s. s\<lparr>users := upd_row u_id i f (users s)\<rparr>)"

definition update_admin_user_role :: "uuid \<Rightarrow> role \<Rightarrow> user \<Rightarrow> user dbop" where
  "update_admin_user_role i r admin =
     andThen (ensure (i \<noteq> u_id admin) (AppError Forbidden ''self_role_change_forbidden'')) (\<lambda>_.
     andThen (get_user_or_404 i) (\<lambda>u.
     andThen (ensure_admin_change_is_safe u (Some r) None) (\<lambda>_.
     andThen (write_user i (\<lambda>u. u\<lparr>u_role := r\<rparr>)) (\<lambda>_.
     ret (u\<lparr>u_role := r\<rparr>)))))"

definition update_admin_user_status :: "uuid \<Rightarrow> bool \<Rightarrow> user \<Rightarrow> user dbop" where
  "update_admin_user_status i b admin =
     andThen (ensure (i \<noteq> u_id admin) (AppError Forbidden ''self_status_change_forbidden'')) (\<lambda>_.
     andThen (get_user_or_404 i) (\<lambda>u.
     andThen (ensure_admin_change_is_safe u None (Some b)) (\<lambda>_.
     andThen (write_user i (\<lambda>u. u\<lparr>u_is_active := b\<rparr>)) (\<lambda>_.
     ret (u\<lparr>u_is_active := b\<rparr>)))))"

definition list_admin_users ::
    "pg \<Rightarrow> string option \<Rightarrow> role option \<Rightarrow> bool option \<Rightarrow> nat \<Rightarrow> nat \<Rightarrow> user page dbop" where
  "list_admin_users g email r active skip limit =
     gets (\<lambda>s.
       let rows = filter (\<lambda>u.
             (truthy email \<longrightarrow> (case u_email u of None \<Rightarrow> False | Some e \<Rightarrow> ilike_contains e (py_lower (the email)))) \<and>
             (case r of None \<Rightarrow> True | Some x \<Rightarrow> u_role u = x) \<and>
             (case active of None \<Rightarrow> True | Some b \<Rightarrow> u_is_active u = b)) (users s);
           sorted = order_rows u_created_at False
             (sort_key (\<lambda>u. if u_email u = None then 1 else (0::nat))
               (sort_key (\<lambda>u. case u_email u of None \<Rightarrow> 0 | Some e \<Rightarrow> pg_rank g e) rows))
       in make_page skip limit (slice skip limit sorted) (length rows))"

section \<open>The last admin\<close>

lemma user_by_id_SomeD: "user_by_id i s = Some u \<Longrightarrow> u \<in> set (users s) \<and> u_id u = i"
  unfolding user_by_id_def by (rule find_row_SomeD)

text \<open>Writing one row changes the number of rows with a property by at most that row.\<close>

lemma count_upd_row:
  assumes "unique_by key rows"
  shows "length (filter P rows) \<le> Suc (length (filter P (upd_row key i f rows)))"
  using assms
proof (induction rows)
  case (Cons r rs)
  then show ?case by (cases "key r = i") (auto simp: unique_by_def upd_row_absent)
qed simp

lemma count_upd_row_keeps:
  "(\<And>r. r \<in> set rows \<Longrightarrow> key r = i \<Longrightarrow> P r \<Longrightarrow> P (f r)) \<Longrightarrow>
   length (filter P rows) \<le> length (filter P (upd_row key i f rows))"
  by (induction rows) auto

lemma admin_change_safe_Inr:
  "ensure_admin_change_is_safe t r b s = (Inr x, s') \<longleftrightarrow>
     s' = s \<and> (u_role t = Admin \<longrightarrow>
       (r \<noteq> None \<and> r \<noteq> Some Admin \<longrightarrow> 1 < count_admins False s) \<and>
       (b = Some False \<and> u_is_active t \<longrightarrow> 1 < count_admins True s))"
  by (auto simp: ensure_admin_change_is_safe_def op_eval)

lemma role_change_done:
  assumes "update_admin_user_role i r admin s = (Inr x, s')"
  shows "i \<noteq> u_id admin \<and> s' = s\<lparr>users := upd_row u_id i (\<lambda>u. u\<lparr>u_role := r\<rparr>) (users s)\<rparr> \<and>
    (\<exists>u. user_by_id i s = Some u \<and> x = u\<lparr>u_role := r\<rparr> \<and> (u_role u = Admin \<and> r \<noteq> Admin \<longrightarrow> 1 < count_admins False s))"
  using assms by (auto simp: update_admin_user_role_def get_user_or_404_def write_user_def op_simps admin_change_safe_Inr)

lemma status_change_done:
  assumes "update_admin_user_status i b admin s = (Inr x, s')"
  shows "i \<noteq> u_id admin \<and> s' = s\<lparr>users := upd_row u_id i (\<lambda>u. u\<lparr>u_is_active := b\<rparr>) (users s)\<rparr> \<and>
    (\<exists>u. user_by_id i s = Some u \<and> x = u\<lparr>u_is_active := b\<rparr> \<and>
       (u_role u = Admin \<and> \<not> b \<and> u_is_active u \<longrightarrow> 1 < count_admins True s))"
  using assms by (auto simp: update_admin_user_status_def get_user_or_404_def write_user_def op_simps admin_change_safe_Inr)

lemma role_change_keeps_admin:
  assumes "update_admin_user_role i r admin s = (Inr x, s')" and "unique_by u_id (users s)" and "1 \<le> count_admins False s"
  shows "1 \<le> count_admins False s'"
proof -
  from role_change_done [OF assms(1)] obtain u where
    s': "s' = s\<lparr>users := upd_row u_id i (\<lambda>u. u\<lparr>u_role := r\<rparr>) (users s)\<rparr>"
    and u: "user_by_id i s = Some u" "u_role u = Admin \<and> r \<noteq> Admin \<longrightarrow> 1 < count_admins False s" by blast
  show ?thesis
  proof (cases "u_role u = Admin \<and> r \<noteq> Admin")
    case True
    with u(2) count_upd_row [OF assms(2), of "\<lambda>u. u_role u = Admin" i "\<lambda>u. u\<lparr>u_role := r\<rparr>"]
    show ?thesis by (simp add: s' count_admins_def)
  next
    case False
    then have "length (filter (\<lambda>u. u_role u = Admin) (users s)) \<le>
        length (filter (\<lambda>u. u_role u = Admin) (upd_row u_id i (\<lambda>u. u\<lparr>u_role := r\<rparr>) (users s)))"
      using u(1) unique_row [OF assms(2)] by (intro count_upd_row_keeps) (auto simp: user_by_id_def)
    with assms(3) show ?thesis by (simp add: s' count_admins_def)
  qed
qed

lemma status_change_keeps_admin:
  assumes "update_admin_user_status i b admin s = (Inr x, s')" and "unique_by u_id (users s)" and "1 \<le> count_admins True s"
  shows "1 \<le> count_admins True s'"
proof -
  let ?P = "\<lambda>u. u_role u = Admin \<and> u_is_active u" let ?f = "\<lambda>u. u\<lparr>u_is_active := b\<rparr>"
  from status_change_done [OF assms(1)] obtain u where
    s': "s' = s\<lparr>users := upd_row u_id i ?f (users s)\<rparr>"
    and u: "user_by_id i s = Some u" "u_role u = Admin \<and> \<not> b \<and> u_is_active u \<longrightarrow> 1 < count_admins True s" by blast
  show ?thesis
  proof (cases "?P u \<and> \<not> b")
    case True
    with u(2) count_upd_row [OF assms(2), of ?P i ?f] show ?thesis by (simp add: s' count_admins_def)
  next
    case False
    then have "length (filter ?P (users s)) \<le> length (filter ?P (upd_row u_id i ?f (users s)))"
      using u(1) unique_row [OF assms(2)] by (intro count_upd_row_keeps) (auto simp: user_by_id_def)
    with assms(3) show ?thesis by (simp add: s' count_admins_def)
  qed
qed

text \<open>
  C23. However stale the caller's own row is: a role change leaves at least one admin account, a
  status change at least one active admin account; and an administrator whose account is an active
  admin account when the handler runs still has it afterwards, whatever the change was.
\<close>

theorem last_admin_guard:
  assumes "unique_by u_id (users s)"
  shows "(update_admin_user_role i r admin s = (Inr x, s') \<and> 1 \<le> count_admins False s \<longrightarrow> 1 \<le> count_admins False s') \<and>
    (update_admin_user_status i b admin s = (Inr x, s') \<and> 1 \<le> count_admins True s \<longrightarrow> 1 \<le> count_admins True s') \<and>
    ((update_admin_user_role i r admin s = (Inr x, s') \<or> update_admin_user_status i b admin s = (Inr x, s')) \<and>
       admin \<in> set (users s) \<longrightarrow> admin \<in> set (users s'))"
proof (intro conjI impI; (elim conjE)?)
  assume d: "update_admin_user_role i r admin s = (Inr x, s') \<or> update_admin_user_status i b admin s = (Inr x, s')"
    "admin \<in> set (users s)"
  have keep: "i \<noteq> u_id admin \<Longrightarrow> admin \<in> set rows \<Longrightarrow> admin \<in> set (upd_row u_id i f rows)" for f rows
    by (induction rows) auto
  from d(1) have "i \<noteq> u_id admin \<and> (\<exists>f. users s' = upd_row u_id i f (users s))"
    by (auto dest!: role_change_done status_change_done)
  with d(2) keep show "admin \<in> set (users s')" by auto
qed (use role_change_keeps_admin status_change_keeps_admin assms in blast)+

definition two_admins :: db where
  "two_admins = empty_db\<lparr>users := [sample_user 1 Admin, sample_user 2 Admin,
     sample_user 3 Admin\<lparr>u_is_active := False\<rparr>], next_id := 4\<rparr>"

lemma last_admin_guard_witness:
  "\<exists>x s'. update_admin_user_status 2 False (sample_user 1 Admin) two_admins = (Inr x, s') \<and>
     1 \<le> count_admins True s' \<and> sample_user 1 Admin \<in> set (users s')"
proof -
  define s' where "s' = snd (update_admin_user_status 2 False (sample_user 1 Admin) two_admins)"
  define x where "x = projr (fst (update_admin_user_status 2 False (sample_user 1 Admin) two_admins))"
  have "\<not> isl (fst (update_admin_user_status 2 False (sample_user 1 Admin) two_admins))" by code_simp
  then have r: "update_admin_user_status 2 False (sample_user 1 Admin) two_admins = (Inr x, s')"
    by (simp add: s'_def x_def)
  have u: "unique_by u_id (users two_admins)" by code_simp
  have c: "1 \<le> count_admins True two_admins" by code_simp
  have m: "sample_user 1 Admin \<in> set (users two_admins)" by (simp add: two_admins_def)
  from last_admin_guard [OF u, of 2 _ "sample_user 1 Admin" x s' False] r c m show ?thesis by blast
qed

text \<open>
  The guard of a demotion counts every admin account, deactivated ones too. Two administrators
  who demote each other, the second request having been authenticated before the first one
  committed, both succeed and leave no active admin.
\<close>

lemma demotions_leave_no_active_admin:
  "\<exists>x y s' s''.
     sample_user 1 Admin \<in> set (users two_admins) \<and> sample_user 2 Admin \<in> set (users two_admins) \<and>
     update_admin_user_role 2 Customer (sample_user 1 Admin) two_admins = (Inr x, s') \<and>
     update_admin_user_role 1 Customer (sample_user 2 Admin) s' = (Inr y, s'') \<and>
     count_admins True two_admins = 2 \<and> count_admins True s'' = 0 \<and> count_admins False s'' = 1"
  by (simp add: two_admins_def sample_user_def empty_db_def update_admin_user_role_def get_user_or_404_def
      user_by_id_def ensure_admin_change_is_safe_def count_admins_def write_user_def op_eval)

end
