(* ===== verification/KeyValue.thy ===== *)
theory KeyValue
  imports PyText
begin

text \<open>
  The Redis server as the services use it: \<^verbatim>\<open>GET\<close>, \<^verbatim>\<open>SETEX\<close>, \<^verbatim>\<open>DEL\<close>, \<^verbatim>\<open>INCR\<close> and \<^verbatim>\<open>EXPIRE\<close>.
  The server is not part of the repository, so its operations are parameters; the locale
  \<open>redis_store\<close> states the documented laws, seen by a client whose clock does not run backwards.
  \<open>ttl_redis\<close> is a store that satisfies them: a map from keys to values with an optional
  expiry instant.
\<close>

section \<open>The interface\<close>

record 'r redis =
  rd_get :: "time \<Rightarrow> string \<Rightarrow> 'r \<Rightarrow> string option"
  rd_setex :: "time \<Rightarrow> string \<Rightarrow> int \<Rightarrow> string \<Rightarrow> 'r \<Rightarrow> 'r"
  rd_delete :: "string \<Rightarrow> 'r \<Rightarrow> 'r"
  rd_incr :: "time \<Rightarrow> string \<Rightarrow> 'r \<Rightarrow> nat \<times> 'r"
  rd_expire :: "time \<Rightarrow> string \<Rightarrow> int \<Rightarrow> 'r \<Rightarrow> 'r"

text \<open>The clock counts microseconds, expiry times are given in seconds.\<close>

definition secs :: "int \<Rightarrow> time" where
  "secs n = n * 1000000"

lemma secs_mono [simp]: "secs a \<le> secs b \<longleftrightarrow> a \<le> b" "secs a < secs b \<longleftrightarrow> a < b"
  by (simp_all add: secs_def)

lemma secs_pos: "0 < n \<Longrightarrow> 0 < secs n"
  by (simp add: secs_def)

text \<open>The value \<^verbatim>\<open>INCR\<close> reads: 0 for a missing key.\<close>

definition count_in :: "string option \<Rightarrow> nat" where
  "count_in v = (case v of None \<Rightarrow> 0 | Some t \<Rightarrow> parse_nat t)"

lemma count_in_simps [simp]: "count_in None = 0" "count_in (Some (nat_digits n)) = n"
  by (simp_all add: count_in_def parse_nat_digits)

text \<open>
  The counter of a time window: increment, and give a new counter its expiry time. \<open>counting\<close> says
  that the counter stands at \<open>n\<close> and disappears at \<open>u\<close>.
\<close>

definition bump :: "'r redis \<Rightarrow> time \<Rightarrow> string \<Rightarrow> int \<Rightarrow> 'r \<Rightarrow> nat \<times> 'r" where
  "bump R now k ttl s = (case rd_incr R now k s of
     (n, r) \<Rightarrow> (n, if n = 1 then rd_expire R now k ttl r else r))"

definition counting :: "'r redis \<Rightarrow> string \<Rightarrow> nat \<Rightarrow> time \<Rightarrow> time \<Rightarrow> 'r \<Rightarrow> bool" where
  "counting R k n u now s \<longleftrightarrow> (\<forall>t. now \<le> t \<longrightarrow> rd_get R t k s = (if t < u then Some (nat_digits n) else None))"

locale redis_store =
  fixes R :: "'r redis"
  assumes expired: "now \<le> t \<Longrightarrow> rd_get R t k s = Some v \<Longrightarrow> rd_get R now k s = Some v"
    and get_setex: "0 < ttl \<Longrightarrow> now \<le> t \<Longrightarrow>
      rd_get R t k (rd_setex R now k ttl v s) = (if t < now + secs ttl then Some v else None)"
    and get_setex_other: "j \<noteq> k \<Longrightarrow> rd_get R t j (rd_setex R now k ttl v s) = rd_get R t j s"
    and get_delete: "rd_get R t k (rd_delete R k s) = None"
    and get_delete_other: "j \<noteq> k \<Longrightarrow> rd_get R t j (rd_delete R k s) = rd_get R t j s"
    and incr_count: "fst (rd_incr R now k s) = Suc (count_in (rd_get R now k s))"
    and get_incr: "now \<le> t \<Longrightarrow> rd_get R t k (snd (rd_incr R now k s)) =
      (if rd_get R now k s = None \<or> rd_get R t k s \<noteq> None
       then Some (nat_digits (Suc (count_in (rd_get R now k s)))) else None)"
    and get_incr_other: "j \<noteq> k \<Longrightarrow> rd_get R t j (snd (rd_incr R now k s)) = rd_get R t j s"
    and get_expire: "0 < ttl \<Longrightarrow> now \<le> t \<Longrightarrow> rd_get R t k (rd_expire R now k ttl s) =
      (if t < now + secs ttl then rd_get R now k s else None)"
    and get_expire_other: "j \<noteq> k \<Longrightarrow> rd_get R t j (rd_expire R now k ttl s) = rd_get R t j s"
begin

lemma gone: "now \<le> t \<Longrightarrow> rd_get R now k s = None \<Longrightarrow> rd_get R t k s = None"
  using expired by (metis not_Some_eq)

text \<open>A counter that was just incremented reads what \<^verbatim>\<open>INCR\<close> returned.\<close>

lemma get_incr_now:
  "rd_get R now k (snd (rd_incr R now k s)) = Some (nat_digits (fst (rd_incr R now k s)))"
  by (cases "rd_get R now k s = None") (simp_all add: get_incr incr_count)

lemma bump_first:
  assumes "rd_get R now k s = None" and "0 < ttl"
  shows "fst (bump R now k ttl s) = 1" and "counting R k 1 (now + secs ttl) now (snd (bump R now k ttl s))"
  using assms get_incr_now [of now k s] incr_count [of now k s]
  by (auto simp: bump_def counting_def get_expire split: prod.splits)

lemma bump_next:
  assumes "counting R k n u now s" and "now \<le> now'" and "now' < u" and "0 < n"
  shows "fst (bump R now' k ttl s) = Suc n" and "counting R k (Suc n) u now' (snd (bump R now' k ttl s))"
proof -
  have v: "rd_get R t k s = (if t < u then Some (nat_digits n) else None)" if "now' \<le> t" for t
    using assms(1,2) that by (simp add: counting_def)
  have "rd_get R now' k s = Some (nat_digits n)" using v [of now'] assms(3) by simp
  then have 1: "fst (rd_incr R now' k s) = Suc n" by (simp add: incr_count)
  then show "fst (bump R now' k ttl s) = Suc n" by (cases "rd_incr R now' k s") (simp add: bump_def)
  from 1 assms(4) have "snd (bump R now' k ttl s) = snd (rd_incr R now' k s)"
    by (cases "rd_incr R now' k s") (simp add: bump_def)
  then show "counting R k (Suc n) u now' (snd (bump R now' k ttl s))"
    using v \<open>rd_get R now' k s = Some (nat_digits n)\<close> by (auto simp: counting_def get_incr)
qed

lemma bump_other: "j \<noteq> k \<Longrightarrow> rd_get R t j (snd (bump R now k ttl s)) = rd_get R t j s"
  using get_incr_other [of j k t now s] by (auto simp: bump_def get_expire_other split: prod.splits)

end

section \<open>A store with expiry times\<close>

type_synonym ttl_store = "string \<rightharpoonup> string \<times> time option"

definition live :: "time \<Rightarrow> (string \<times> time option) option \<Rightarrow> string option" where
  "live t e = (case e of None \<Rightarrow> None
     | Some (v, u) \<Rightarrow> (case u of None \<Rightarrow> Some v | Some x \<Rightarrow> if t < x then Some v else None))"

definition ttl_incr :: "time \<Rightarrow> string \<Rightarrow> ttl_store \<Rightarrow> nat \<times> ttl_store" where
  "ttl_incr now k s =
     (case live now (s k) of
        None \<Rightarrow> (1, s(k \<mapsto> (nat_digits 1, None)))
      | Some v \<Rightarrow> (let n = Suc (parse_nat v) in (n, s(k \<mapsto> (nat_digits n, snd (the (s k)))))))"

definition ttl_expire :: "time \<Rightarrow> string \<Rightarrow> int \<Rightarrow> ttl_store \<Rightarrow> ttl_store" where
  "ttl_expire now k ttl s =
     (case live now (s k) of None \<Rightarrow> s(k := None) | Some v \<Rightarrow> s(k \<mapsto> (v, Some (now + secs ttl))))"

definition ttl_redis :: "ttl_store redis" where
  "ttl_redis = \<lparr>rd_get = (\<lambda>t k s. live t (s k)),
     rd_setex = (\<lambda>now k ttl v s. s(k \<mapsto> (v, Some (now + secs ttl)))),
     rd_delete = (\<lambda>k s. s(k := None)), rd_incr = ttl_incr, rd_expire = ttl_expire\<rparr>"

interpretation ttl: redis_store ttl_redis
  by unfold_locales
    (auto simp: ttl_redis_def live_def ttl_incr_def ttl_expire_def Let_def count_in_def
       split: option.splits prod.splits if_splits)

end
