(* ===== verification/Auth.thy ===== *)
theory Auth
  imports Users KeyValue
begin

text \<open>
  Authentication: \<^verbatim>\<open>core/security.py\<close>, \<^verbatim>\<open>services/auth_service.py\<close>, the authentication dependencies
  and the endpoints of \<^verbatim>\<open>endpoints/auth.py\<close>. The database, the Redis server and the outgoing
  mail are one state; a request that fails rolls the database back and nothing else. Password
  hashing, the signing of tokens and the Redis server are library code: parameters.
\<close>

section \<open>The text of a UUID\<close>

definition hex_digit :: "nat \<Rightarrow> char" where
  "hex_digit d = char_of (if d < 10 then 48 + d else 87 + d)"

definition is_hex :: "char \<Rightarrow> bool" where
  "is_hex c \<longleftrightarrow> is_digit c \<or> 97 \<le> code_point c \<and> code_point c \<le> 102 \<or> 65 \<le> code_point c \<and> code_point c \<le> 70"

definition hex_val :: "char \<Rightarrow> nat" where
  "hex_val c = (if is_digit c then code_point c - 48
     else if 97 \<le> code_point c then code_point c - 87 else code_point c - 55)"

fun hex_pad :: "nat \<Rightarrow> nat \<Rightarrow> string" where
  "hex_pad 0 n = []"
| "hex_pad (Suc k) n = hex_pad k (n div 16) @ [hex_digit (n mod 16)]"

text \<open>\<^verbatim>\<open>str(UUID)\<close>, and \<^verbatim>\<open>UUID(text)\<close> on plain hexadecimal text with or without hyphens.\<close>

definition uuid_text :: "uuid \<Rightarrow> string" where
  "uuid_text i = (let h = hex_pad 32 i in
     take 8 h @ ''-'' @ take 4 (drop 8 h) @ ''-'' @ take 4 (drop 12 h) @ ''-'' @ take 4 (drop 16 h) @ ''-'' @ drop 20 h)"

definition parse_uuid :: "string \<Rightarrow> exn + uuid" where
  "parse_uuid s = (let h = py_remove (CHR ''-'') s in
     if length h = 32 \<and> list_all is_hex h then Inr (foldl (\<lambda>n c. 16 * n + hex_val c) 0 h)
     else Inl (PyError ''ValueError''))"

section \<open>Tokens\<close>

text \<open>The payload of a token; a claim that is absent or of another type is \<open>None\<close>. Times are in seconds.\<close>

record claims =
  cl_sub :: "string option"
  cl_exp :: "int option"
  cl_iat :: "int option"
  cl_type :: "string option"
  cl_jti :: "string option"
  cl_role :: "string option"

fun role_text :: "role \<Rightarrow> string" where
  "role_text Customer = ''customer''"
| "role_text Staff = ''staff''"
| "role_text Admin = ''admin''"
| "role_text Driver = ''driver''"

text \<open>
  What one call reads from outside: the clock, the Redis client, bcrypt and JWT, the values its
  random sources draw, and two settings. Tokens have a type of their own.
\<close>

record ('r, 'k) auth_env =
  ae_now :: time
  ae_redis :: "'r redis"
  ae_hash :: "string \<Rightarrow> string"
  ae_verify :: "string \<Rightarrow> string \<Rightarrow> bool"
  ae_encode :: "claims \<Rightarrow> 'k"
  ae_decode :: "time \<Rightarrow> 'k \<Rightarrow> claims option"
  ae_access_jti :: string
  ae_refresh_jti :: string
  ae_reset_token :: string
  ae_otp :: nat
  ae_access_minutes :: int
  ae_refresh_days :: int
  ae_frontend_url :: string
  ae_default_city :: string

definition now_s :: "('r, 'k) auth_env \<Rightarrow> int" where
  "now_s E = ae_now E div 1000000"

datatype mail = ResetMail string string | OtpMail string string

record 'r auth_state =
  as_db :: db
  as_redis :: 'r
  as_mail :: "mail list"

type_synonym ('r, 'a) authop = "('r auth_state, 'a) op"

definition on_db :: "'a dbop \<Rightarrow> ('r, 'a) authop" where
  "on_db m s = (case m (as_db s) of (r, d) \<Rightarrow> (r, s\<lparr>as_db := d\<rparr>))"

text \<open>The request boundary: an exception rolls back the database, not Redis and not sent mail.\<close>

definition auth_request :: "('r, 'a) authop \<Rightarrow> ('r, 'a) authop" where
  "auth_request m s = (case m s of (Inl e, t) \<Rightarrow> (Inl e, t\<lparr>as_db := as_db s\<rparr>) | (Inr x, t) \<Rightarrow> (Inr x, t))"

definition cache_get :: "('r, 'k) auth_env \<Rightarrow> string \<Rightarrow> ('r, string option) authop" where
  "cache_get E k = gets (\<lambda>s. rd_get (ae_redis E) (ae_now E) k (as_redis s))"

definition cache_setex :: "('r, 'k) auth_env \<Rightarrow> string \<Rightarrow> int \<Rightarrow> string \<Rightarrow> ('r, unit) authop" where
  "cache_setex E k ttl v = modify (\<lambda>s. s\<lparr>as_redis := rd_setex (ae_redis E) (ae_now E) k ttl v (as_redis s)\<rparr>)"

definition cache_delete :: "('r, 'k) auth_env \<Rightarrow> string \<Rightarrow> ('r, unit) authop" where
  "cache_delete E k = modify (\<lambda>s. s\<lparr>as_redis := rd_delete (ae_redis E) k (as_redis s)\<rparr>)"

definition cache_incr :: "('r, 'k) auth_env \<Rightarrow> string \<Rightarrow> ('r, nat) authop" where
  "cache_incr E k s = (case rd_incr (ae_redis E) (ae_now E) k (as_redis s) of
     (n, r) \<Rightarrow> (Inr n, s\<lparr>as_redis := r\<rparr>))"

definition cache_expire :: "('r, 'k) auth_env \<Rightarrow> string \<Rightarrow> int \<Rightarrow> ('r, unit) authop" where
  "cache_expire E k ttl = modify (\<lambda>s. s\<lparr>as_redis := rd_expire (ae_redis E) (ae_now E) k ttl (as_redis s)\<rparr>)"

definition send_mail :: "mail \<Rightarrow> ('r, unit) authop" where
  "send_mail m = modify (\<lambda>s. s\<lparr>as_mail := as_mail s @ [m]\<rparr>)"

definition create_access_token :: "('r, 'k) auth_env \<Rightarrow> string \<Rightarrow> string \<Rightarrow> 'k" where
  "create_access_token E sub role = ae_encode E
     \<lparr>cl_sub = Some sub, cl_exp = Some ((ae_now E + secs (60 * ae_access_minutes E)) div 1000000),
      cl_iat = Some (now_s E), cl_type = Some ''access'', cl_jti = Some (ae_access_jti E), cl_role = Some role\<rparr>"

definition create_refresh_token :: "('r, 'k) auth_env \<Rightarrow> string \<Rightarrow> 'k" where
  "create_refresh_token E sub = ae_encode E
     \<lparr>cl_sub = Some sub, cl_exp = Some ((ae_now E + secs (86400 * ae_refresh_days E)) div 1000000),
      cl_iat = Some (now_s E), cl_type = Some ''refresh'', cl_jti = Some (ae_refresh_jti E), cl_role = None\<rparr>"

definition decode_token :: "('r, 'k) auth_env \<Rightarrow> 'k \<Rightarrow> ('r, claims) authop" where
  "decode_token E tok = require_some (AppError Unauthorized ''invalid_token'') (ae_decode E (ae_now E) tok)"

section \<open>Login\<close>

definition lockout_ttl :: int where "lockout_ttl = 900"

definition failed_login_ttl :: int where "failed_login_ttl = 3600"

definition failed_login_limit :: nat where "failed_login_limit = 5"

record 'k auth_result =
  ar_user :: user
  ar_access :: 'k
  ar_refresh :: 'k

definition failed_key :: "string \<Rightarrow> string" where
  "failed_key k = ''failed_login:'' @ py_lower k"

definition lockout_key :: "string \<Rightarrow> string" where
  "lockout_key k = ''lockout:'' @ py_lower k"

definition track_failed_login :: "('r, 'k) auth_env \<Rightarrow> string \<Rightarrow> ('r, unit) authop" where
  "track_failed_login E k =
     andThen (cache_incr E (failed_key k)) (\<lambda>attempts.
     andThen (if attempts = 1 then cache_expire E (failed_key k) failed_login_ttl else ret ()) (\<lambda>_.
     if failed_login_limit \<le> attempts then cache_setex E (lockout_key k) lockout_ttl ''1'' else ret ()))"

definition is_account_locked :: "('r, 'k) auth_env \<Rightarrow> string \<Rightarrow> ('r, bool) authop" where
  "is_account_locked E k = andThen (cache_get E (lockout_key k)) (\<lambda>v. ret (truthy v))"

definition resolve_login_user :: "string \<Rightarrow> db \<Rightarrow> user option" where
  "resolve_login_user identifier s =
     (let candidate = py_strip identifier;
          by_phone = (case validate_phone candidate of Inl e \<Rightarrow> None | Inr p \<Rightarrow> user_by_phone p s)
      in case by_phone of Some u \<Rightarrow> Some u | None \<Rightarrow> user_by_email (py_lower candidate) s)"

definition create_auth_result :: "('r, 'k) auth_env \<Rightarrow> user \<Rightarrow> 'k auth_result" where
  "create_auth_result E u =
     \<lparr>ar_user = u, ar_access = create_access_token E (uuid_text (u_id u)) (role_text (u_role u)),
      ar_refresh = create_refresh_token E (uuid_text (u_id u))\<rparr>"

definition lookup_key :: "string \<Rightarrow> string" where
  "lookup_key identifier = py_lower (py_strip identifier)"

definition login_user :: "('r, 'k) auth_env \<Rightarrow> string \<Rightarrow> string \<Rightarrow> ('r, 'k auth_result) authop" where
  "login_user E identifier password =
     (let k = lookup_key identifier;
          fail = andThen (track_failed_login E k) (\<lambda>_. raise (AppError Unauthorized ''invalid_credentials''))
      in andThen (is_account_locked E k) (\<lambda>locked.
         andThen (ensure (\<not> locked) (AppError Unauthorized ''account_locked'')) (\<lambda>_.
         andThen (on_db (gets (resolve_login_user identifier))) (\<lambda>m.
           case m of
             None \<Rightarrow> fail
           | Some u \<Rightarrow>
               if \<not> truthy (u_hashed_password u) then fail
               else if \<not> ae_verify E password (the (u_hashed_password u)) then fail
               else andThen (ensure (u_is_active u) (AppError Unauthorized ''inactive_user'')) (\<lambda>_.
                    andThen (cache_delete E (''failed_login:'' @ k)) (\<lambda>_.
                    ret (create_auth_result E u)))))))"

section \<open>Sessions\<close>

definition seconds_until_expiry :: "('r, 'k) auth_env \<Rightarrow> claims \<Rightarrow> int" where
  "seconds_until_expiry E c = (case cl_exp c of None \<Rightarrow> lockout_ttl | Some e \<Rightarrow> max 1 (e - now_s E))"

definition blacklist_payload :: "('r, 'k) auth_env \<Rightarrow> claims \<Rightarrow> ('r, unit) authop" where
  "blacklist_payload E c =
     (if truthy (cl_jti c)
      then cache_setex E (''blacklist:'' @ the (cl_jti c)) (seconds_until_expiry E c) ''1'' else ret ())"

definition raise_if_blacklisted :: "('r, 'k) auth_env \<Rightarrow> claims \<Rightarrow> ('r, unit) authop" where
  "raise_if_blacklisted E c =
     (if truthy (cl_jti c)
      then andThen (cache_get E (''blacklist:'' @ the (cl_jti c))) (\<lambda>v.
           ensure (\<not> truthy v) (AppError Unauthorized ''token_revoked''))
      else ret ())"

definition payload_user_id :: "claims \<Rightarrow> exn + uuid" where
  "payload_user_id c = (case cl_sub c of None \<Rightarrow> Inl (AppError Unauthorized ''invalid_token'') | Some t \<Rightarrow> parse_uuid t)"

definition refresh_access_token :: "('r, 'k) auth_env \<Rightarrow> 'k \<Rightarrow> ('r, 'k auth_result) authop" where
  "refresh_access_token E tok =
     andThen (decode_token E tok) (\<lambda>c.
     andThen (ensure (cl_type c = Some ''refresh'') (AppError Unauthorized ''invalid_token'')) (\<lambda>_.
     andThen (raise_if_blacklisted E c) (\<lambda>_.
     andThen (lift_result (payload_user_id c)) (\<lambda>i.
     andThen (on_db (gets (user_by_id i))) (\<lambda>m.
     andThen (require_some (AppError Unauthorized ''inactive_user'')
                (case m of None \<Rightarrow> None | Some u \<Rightarrow> if u_is_active u then Some u else None)) (\<lambda>u.
     andThen (blacklist_payload E c) (\<lambda>_.
     ret (create_auth_result E u))))))))"

definition logout_user :: "('r, 'k) auth_env \<Rightarrow> 'k \<Rightarrow> 'k option \<Rightarrow> ('r, unit) authop" where
  "logout_user E access refresh =
     andThen (decode_token E access) (\<lambda>c.
     andThen (blacklist_payload E c) (\<lambda>_.
       case refresh of
         None \<Rightarrow> ret ()
       | Some tok \<Rightarrow> andThen (decode_token E tok) (blacklist_payload E)))"

definition verify_token :: "('r, 'k) auth_env \<Rightarrow> 'k \<Rightarrow> ('r, user) authop" where
  "verify_token E tok =
     andThen (decode_token E tok) (\<lambda>c.
     andThen (ensure (cl_type c = Some ''access'') (AppError Unauthorized ''invalid_token'')) (\<lambda>_.
     andThen (raise_if_blacklisted E c) (\<lambda>_.
     andThen (lift_result (payload_user_id c)) (\<lambda>i.
     andThen (on_db (gets (user_by_id i))) (\<lambda>m.
     andThen (require_some (AppError Unauthorized ''invalid_token'') m) (\<lambda>u.
     andThen (ensure (u_is_active u) (AppError Unauthorized ''inactive_user'')) (\<lambda>_.
     ret u)))))))"

section \<open>Accounts\<close>

definition register_user :: "('r, 'k) auth_env \<Rightarrow> user_create \<Rightarrow> ('r, user) authop" where
  "register_user E payload =
     andThen (lift_result (parse_user_create payload)) (\<lambda>data.
     andThen (on_db (gets (user_by_phone (uc_phone data)))) (\<lambda>m.
     andThen (ensure (m = None) (AppError Conflict ''phone_already_exists'')) (\<lambda>_.
     andThen (on_db (gets (\<lambda>s. if truthy (uc_email data) then user_by_email (the (uc_email data)) s else None))) (\<lambda>n.
     andThen (ensure (n = None) (AppError Conflict ''email_already_exists'')) (\<lambda>_.
     on_db (repo_create_user (ae_now E) (ae_default_city E) data (ae_hash E (uc_password data))))))))"

definition set_password :: "string \<Rightarrow> user \<Rightarrow> user" where
  "set_password h u = u\<lparr>u_hashed_password := Some h\<rparr>"

definition change_password ::
    "('r, 'k) auth_env \<Rightarrow> uuid \<Rightarrow> string \<Rightarrow> string \<Rightarrow> 'k option \<Rightarrow> ('r, unit) authop" where
  "change_password E i old_password new_password access =
     andThen (on_db (gets (user_by_id i))) (\<lambda>m.
     andThen (require_some (AppError Unauthorized ''invalid_credentials'')
                (case m of None \<Rightarrow> None | Some u \<Rightarrow> if truthy (u_hashed_password u) then Some u else None)) (\<lambda>u.
     andThen (ensure (ae_verify E old_password (the (u_hashed_password u)))
                (AppError Unauthorized ''invalid_credentials'')) (\<lambda>_.
     andThen (on_db (repo_update_user i (set_password (ae_hash E new_password)))) (\<lambda>_.
       case access of
         None \<Rightarrow> ret ()
       | Some tok \<Rightarrow> andThen (decode_token E tok) (blacklist_payload E)))))"

definition update_profile :: "uuid \<Rightarrow> profile_update \<Rightarrow> user dbop" where
  "update_profile i changes =
     andThen (gets (user_by_id i)) (\<lambda>m.
     andThen (require_some (AppError Unauthorized ''invalid_session'') m) (\<lambda>u.
     andThen (gets (\<lambda>s. case patch_seen (pf_phone changes) of
                None \<Rightarrow> True
              | Some p \<Rightarrow> p = [] \<or> u_phone u = Some p \<or>
                  (case user_by_phone p s of None \<Rightarrow> True | Some v \<Rightarrow> u_id v = i))) (\<lambda>free.
     andThen (ensure free (AppError Conflict ''phone_taken'')) (\<lambda>_.
     andThen (repo_update_user i (apply_profile changes)) (\<lambda>updated.
     require_some (AppError Unauthorized ''invalid_session'') updated)))))"

section \<open>Password reset\<close>

definition password_reset_ttl :: int where "password_reset_ttl = 3600"

definition reset_key :: "string \<Rightarrow> string" where
  "reset_key token = ''password_reset:'' @ token"

definition send_password_reset_email :: "('r, 'k) auth_env \<Rightarrow> string \<Rightarrow> string \<Rightarrow> ('r, unit) authop" where
  "send_password_reset_email E email token =
     send_mail (ResetMail email (rstrip_char (CHR ''/'') (ae_frontend_url E) @ ''/reset-password?token='' @ token))"

definition request_password_reset :: "('r, 'k) auth_env \<Rightarrow> string \<Rightarrow> ('r, bool) authop" where
  "request_password_reset E email =
     andThen (on_db (gets (user_by_email (py_lower email)))) (\<lambda>m.
       case m of
         None \<Rightarrow> ret True
       | Some u \<Rightarrow>
           andThen (cache_setex E (reset_key (ae_reset_token E)) password_reset_ttl (uuid_text (u_id u))) (\<lambda>_.
           andThen (send_password_reset_email E (py_lower email) (ae_reset_token E)) (\<lambda>_.
           ret True)))"

definition reset_password :: "('r, 'k) auth_env \<Rightarrow> string \<Rightarrow> string \<Rightarrow> ('r, bool) authop" where
  "reset_password E token new_password =
     andThen (cache_get E (reset_key token)) (\<lambda>raw.
     andThen (ensure (truthy raw) (AppError Validation ''invalid_reset_token'')) (\<lambda>_.
     andThen (lift_result (parse_uuid (the raw))) (\<lambda>i.
     andThen (on_db (gets (user_by_id i))) (\<lambda>m.
     andThen (require_some (AppError Validation ''invalid_reset_token'') m) (\<lambda>u.
     andThen (on_db (repo_update_user i (set_password (ae_hash E new_password)))) (\<lambda>_.
     andThen (cache_delete E (reset_key token)) (\<lambda>_.
     ret True)))))))"

section \<open>E-mail verification\<close>

definition email_otp_ttl :: int where "email_otp_ttl = 600"

definition email_otp_resend_ttl :: int where "email_otp_resend_ttl = 3600"

definition email_otp_resend_limit :: nat where "email_otp_resend_limit = 5"

definition otp_key :: "uuid \<Rightarrow> string" where
  "otp_key i = ''email_otp:'' @ uuid_text i"

definition resend_key :: "uuid \<Rightarrow> string" where
  "resend_key i = ''email_otp_resend:'' @ uuid_text i"

definition request_email_otp :: "('r, 'k) auth_env \<Rightarrow> user \<Rightarrow> ('r, bool) authop" where
  "request_email_otp E u =
     (if \<not> truthy (u_email u) then ret False
      else andThen (cache_incr E (resend_key (u_id u))) (\<lambda>attempts.
           andThen (if attempts = 1 then cache_expire E (resend_key (u_id u)) email_otp_resend_ttl else ret ()) (\<lambda>_.
           if email_otp_resend_limit < attempts then ret False
           else andThen (cache_setex E (otp_key (u_id u)) email_otp_ttl (zero_pad 6 (ae_otp E))) (\<lambda>_.
                andThen (send_mail (OtpMail (the (u_email u)) (zero_pad 6 (ae_otp E)))) (\<lambda>_.
                ret True)))))"

definition send_email_verification :: "('r, 'k) auth_env \<Rightarrow> string \<Rightarrow> ('r, unit) authop" where
  "send_email_verification E email =
     andThen (on_db (gets (user_by_email (py_lower email)))) (\<lambda>m.
       case m of
         None \<Rightarrow> ret ()
       | Some u \<Rightarrow> if truthy (u_email u) then andThen (request_email_otp E u) (\<lambda>_. ret ()) else ret ())"

definition verify_email_otp :: "('r, 'k) auth_env \<Rightarrow> user \<Rightarrow> string \<Rightarrow> ('r, bool) authop" where
  "verify_email_otp E u code =
     andThen (cache_get E (otp_key (u_id u))) (\<lambda>raw.
       if \<not> truthy raw \<or> the raw \<noteq> code then ret False
       else andThen (on_db (repo_update_user (u_id u) (\<lambda>u. u\<lparr>u_email_verified := True\<rparr>))) (\<lambda>_.
            andThen (cache_delete E (otp_key (u_id u))) (\<lambda>_.
            andThen (cache_delete E (resend_key (u_id u))) (\<lambda>_.
            ret True))))"

definition confirm_email_otp :: "('r, 'k) auth_env \<Rightarrow> string \<Rightarrow> string \<Rightarrow> ('r, bool) authop" where
  "confirm_email_otp E email code =
     andThen (on_db (gets (user_by_email (py_lower email)))) (\<lambda>m.
       case m of None \<Rightarrow> ret False | Some u \<Rightarrow> verify_email_otp E u code)"

section \<open>Dependencies and endpoints\<close>

text \<open>The cookie comes before the bearer token; the raw header is read when neither is there.\<close>

definition current_access_token :: "'k option \<Rightarrow> 'k option \<Rightarrow> 'k option \<Rightarrow> exn + 'k" where
  "current_access_token cookie bearer header =
     (case cookie of Some t \<Rightarrow> Inr t | None \<Rightarrow>
       (case bearer of Some t \<Rightarrow> Inr t | None \<Rightarrow>
         (case header of Some t \<Rightarrow> Inr t | None \<Rightarrow> Inl (AppError Unauthorized ''not_authenticated''))))"

definition current_active_user :: "('r, 'k) auth_env \<Rightarrow> 'k \<Rightarrow> ('r, user) authop" where
  "current_active_user E tok =
     andThen (verify_token E tok) (\<lambda>u.
     andThen (ensure (u_is_active u) (AppError Unauthorized ''inactive_user'')) (\<lambda>_. ret u))"

definition current_admin :: "('r, 'k) auth_env \<Rightarrow> 'k \<Rightarrow> ('r, user) authop" where
  "current_admin E tok =
     andThen (current_active_user E tok) (\<lambda>u.
     andThen (ensure (is_admin u) (AppError Forbidden ''admin_required'')) (\<lambda>_. ret u))"

definition current_staff :: "('r, 'k) auth_env \<Rightarrow> 'k \<Rightarrow> ('r, user) authop" where
  "current_staff E tok =
     andThen (current_active_user E tok) (\<lambda>u.
     andThen (ensure (is_staff u) (AppError Forbidden ''staff_required'')) (\<lambda>_. ret u))"

definition current_driver :: "('r, 'k) auth_env \<Rightarrow> 'k \<Rightarrow> ('r, user) authop" where
  "current_driver E tok =
     andThen (current_active_user E tok) (\<lambda>u.
     andThen (ensure (is_driver u) (AppError Forbidden ''driver_required'')) (\<lambda>_. ret u))"

text \<open>Only the application's own exceptions turn the caller into a guest.\<close>

definition current_user_optional :: "('r, 'k) auth_env \<Rightarrow> 'k option \<Rightarrow> 'k option \<Rightarrow> ('r, user option) authop" where
  "current_user_optional E bearer cookie s =
     (case (case cookie of Some t \<Rightarrow> Some t | None \<Rightarrow> bearer) of
        None \<Rightarrow> (Inr None, s)
      | Some tok \<Rightarrow>
          (case verify_token E tok s of
             (Inr u, t) \<Rightarrow> (Inr (Some u), t)
           | (Inl e, t) \<Rightarrow> (case e of AppError c code \<Rightarrow> (Inr None, t) | PyError cls \<Rightarrow> (Inl e, t))))"

definition parse_login :: "string \<Rightarrow> exn + string" where
  "parse_login identifier = (if identifier = [] then Inl (PyError ''ValidationError'') else Inr (py_strip identifier))"

definition parse_otp_code :: "string \<Rightarrow> exn + string" where
  "parse_otp_code code = (let n = py_strip code in
     if length n = 6 \<and> list_all is_digit n then Inr n else Inl (PyError ''ValidationError''))"

definition login_endpoint :: "('r, 'k) auth_env \<Rightarrow> string \<Rightarrow> string \<Rightarrow> ('r, 'k auth_result) authop" where
  "login_endpoint E identifier password =
     auth_request (andThen (lift_result (parse_login identifier)) (\<lambda>i. login_user E i password))"

definition refresh_endpoint :: "('r, 'k) auth_env \<Rightarrow> 'k option \<Rightarrow> 'k option \<Rightarrow> ('r, 'k auth_result) authop" where
  "refresh_endpoint E cookie body =
     auth_request (andThen (require_some (AppError Unauthorized ''not_authenticated'')
       (case cookie of Some t \<Rightarrow> Some t | None \<Rightarrow> body)) (refresh_access_token E))"

definition change_password_endpoint :: "('r, 'k) auth_env \<Rightarrow> 'k \<Rightarrow> string \<Rightarrow> string \<Rightarrow> ('r, unit) authop" where
  "change_password_endpoint E tok old_password new_password =
     auth_request (andThen (current_active_user E tok) (\<lambda>u.
       andThen (lift_result (parse_password new_password)) (\<lambda>p.
       change_password E (u_id u) old_password p (Some tok))))"

definition reset_password_endpoint :: "('r, 'k) auth_env \<Rightarrow> string \<Rightarrow> string \<Rightarrow> ('r, bool) authop" where
  "reset_password_endpoint E token new_password =
     auth_request (andThen (lift_result (parse_password new_password)) (reset_password E token))"

definition verify_otp_endpoint :: "('r, 'k) auth_env \<Rightarrow> string \<Rightarrow> string \<Rightarrow> ('r, bool) authop" where
  "verify_otp_endpoint E email code =
     auth_request (andThen (lift_result (parse_otp_code code)) (\<lambda>c.
       andThen (confirm_email_otp E email c) (\<lambda>ok.
       andThen (ensure ok (AppError Validation ''invalid_email_otp'')) (\<lambda>_. ret True))))"

definition update_me_endpoint :: "('r, 'k) auth_env \<Rightarrow> 'k \<Rightarrow> profile_update \<Rightarrow> ('r, user) authop" where
  "update_me_endpoint E tok payload =
     auth_request (andThen (current_active_user E tok) (\<lambda>u.
       andThen (lift_result (parse_profile_update payload)) (\<lambda>c.
       on_db (update_profile (u_id u) c))))"

end
