(* ===== verification/ChatOrder.thy ===== *)
theory ChatOrder
  imports ChatSlots Shop Auth
begin

text \<open>
  The chat order dialog of \<^verbatim>\<open>ConversationService._handle_chat_order\<close>: one customer message is answered
  by a question, a summary or a placed order. The state of the dialog lives in the documents of the
  assistant's earlier messages. The readings the patterns with accented alternatives make of a
  message (an address, a delivery time, a name behind a marker word), the ward table, the language
  model's answer and \<^verbatim>\<open>uuid5\<close> are fields of \<open>chat_env\<close>.
\<close>

section \<open>The conversation\<close>

record chat_message =
  cm_assistant :: bool
  cm_documents :: json
  cm_created_at :: "time option"

datatype khu_pho = KhuPhoOk | KhuPhoMissing | KhuPhoOutOfRange

record chat_env =
  ce_fold :: fold_text
  ce_now :: time
  ce_llm :: "string \<Rightarrow> (string \<times> json) list"
  ce_address :: "string option \<Rightarrow> string \<Rightarrow> string option"
  ce_name_after :: "string \<Rightarrow> string option"
  ce_name_before :: "string \<Rightarrow> string option"
  ce_time :: "string \<Rightarrow> string option"
  ce_window :: "string \<Rightarrow> string option"
  ce_zone :: "string \<Rightarrow> (string \<times> string) option"
  ce_khu_pho :: "string \<Rightarrow> khu_pho"
  ce_uuid5 :: "string \<Rightarrow> uuid"
  ce_note :: "string \<Rightarrow> json"
  ce_order :: order_env
  ce_aborted :: "bool list"

text \<open>What the assistant says, without the wording.\<close>

datatype slot_name = NProduct | NQuantity | NName | NPhone | NAddress | NPayment

datatype prompt =
    AskSummary "(chat_item \<times> product) list" | AskMissing "slot_name list" | AskAgain "slot_name list"
  | BadPhone | OutOfArea | AskKhuPho | BadKhuPho | StockShort product | AskPayment | UnknownProduct
  | AskReuseContact | AskAccountContact | AskSize | BadSize | ShowSizes | AskCategory | AskChange
  | AskChangeHint | AskAddOrReplace | AskAddOrReplaceHint | Cancelled | AskPeriod | ChangeNoted
  | OrderPlaced "string option"

record chat_turn =
  ct_prompt :: prompt
  ct_documents :: "json list"
  ct_cards :: "product list"

text \<open>\<^verbatim>\<open>message.retrieved_documents or []\<close>, when it is a list.\<close>

fun documents :: "json \<Rightarrow> json list option" where
  "documents (JList xs) = Some xs"
| "documents JNull = Some []"
| "documents (JBool b) = (if b then None else Some [])"
| "documents (JInt n) = (if n = 0 then Some [] else None)"
| "documents (JFloat t) = None"
| "documents (JStr s) = (if s = [] then Some [] else None)"
| "documents (JObj d) = (if d = [] then Some [] else None)"

definition doc_type :: "string \<Rightarrow> json \<Rightarrow> bool" where
  "doc_type t v \<longleftrightarrow> (case v of JObj d \<Rightarrow> jget ''type'' d = JStr t | _ \<Rightarrow> False)"

definition has_metadata_type :: "string \<Rightarrow> json list \<Rightarrow> bool" where
  "has_metadata_type t docs \<longleftrightarrow> list_ex (doc_type t) docs"

definition order_state_ttl :: time where
  "order_state_ttl = 1800 * 1000000"

definition is_order_state_fresh :: "time \<Rightarrow> chat_message \<Rightarrow> bool" where
  "is_order_state_fresh now m \<longleftrightarrow> (case cm_created_at m of None \<Rightarrow> True | Some t \<Rightarrow> now - t \<le> order_state_ttl)"

text \<open>Both scans start at the latest message.\<close>

fun latest_chat_order :: "chat_message list \<Rightarrow> (string \<times> json) list option" where
  "latest_chat_order [] = None"
| "latest_chat_order (m # ms) =
     (case (case documents (cm_documents m) of None \<Rightarrow> None
            | Some docs \<Rightarrow> find (\<lambda>v. doc_type ''chat_order'' v \<and>
                (case v of JObj d \<Rightarrow> json_true (jget ''order_number'' d) | _ \<Rightarrow> False)) docs) of
        Some (JObj d) \<Rightarrow> Some d | _ \<Rightarrow> latest_chat_order ms)"

definition find_existing_chat_order :: "chat_message list \<Rightarrow> (string \<times> json) list option" where
  "find_existing_chat_order history = latest_chat_order (rev history)"

fun latest_order_state :: "fold_text \<Rightarrow> time \<Rightarrow> string \<Rightarrow> chat_message list \<Rightarrow> (string \<times> json) list option" where
  "latest_order_state F now content [] = None"
| "latest_order_state F now content (m # ms) =
     (if \<not> cm_assistant m then latest_order_state F now content ms
      else (case documents (cm_documents m) of
              None \<Rightarrow> latest_order_state F now content ms
            | Some docs \<Rightarrow>
                if has_metadata_type ''chat_order'' docs
                then (if is_affirmation F content then latest_order_state F now content ms else None)
                else (case find (doc_type ''chat_order_state'') docs of
                        Some (JObj d) \<Rightarrow>
                          (if \<not> is_order_state_fresh now m \<or> jget ''status'' d = JStr ''order_cancelled''
                           then None else Some d)
                      | _ \<Rightarrow> latest_order_state F now content ms)))"

definition find_order_state :: "chat_env \<Rightarrow> chat_message list \<Rightarrow> string \<Rightarrow> (string \<times> json) list option" where
  "find_order_state E history content = latest_order_state (ce_fold E) (ce_now E) content (rev history)"

definition has_reusable_contact :: "chat_slots \<Rightarrow> bool" where
  "has_reusable_contact S \<longleftrightarrow> truthy (cs_name S) \<or> truthy (cs_phone S) \<or> truthy (cs_address S)"

definition reusable_in :: "json \<Rightarrow> chat_slots option" where
  "reusable_in v =
     (case v of
        JObj d \<Rightarrow> (case slots_from_metadata (jget ''slots'' d) of
            Some S \<Rightarrow> if has_reusable_contact S
                      then Some (empty_slots\<lparr>cs_name := cs_name S, cs_phone := cs_phone S, cs_address := cs_address S\<rparr>)
                      else None
          | None \<Rightarrow> None)
      | _ \<Rightarrow> None)"

definition find_reusable_contact_slots :: "chat_message list \<Rightarrow> chat_slots option" where
  "find_reusable_contact_slots history =
     (case List.map_filter reusable_in
         (concat (map (\<lambda>m. case documents (cm_documents m) of None \<Rightarrow> [] | Some docs \<Rightarrow> docs) (rev history))) of
        [] \<Rightarrow> None | S # _ \<Rightarrow> Some S)"

definition account_contact_slots :: "user option \<Rightarrow> chat_slots option" where
  "account_contact_slots usr =
     map_option (\<lambda>u. empty_slots\<lparr>cs_name := u_full_name u, cs_phone := u_phone u, cs_address := u_address u,
                                cs_notes := u_delivery_notes u\<rparr>) usr"

definition previous_slots :: "(string \<times> json) list option \<Rightarrow> chat_slots option" where
  "previous_slots state = (case state of None \<Rightarrow> None | Some d \<Rightarrow> slots_from_metadata (jget ''slots'' d))"

definition state_status :: "(string \<times> json) list option \<Rightarrow> string" where
  "state_status state =
     (case state of None \<Rightarrow> [] | Some d \<Rightarrow> if d = [] then [] else
        (case map_of d ''status'' of None \<Rightarrow> [] | Some v \<Rightarrow> py_str v))"

definition pending_item_from_state :: "(string \<times> json) list option \<Rightarrow> chat_item option" where
  "pending_item_from_state state =
     (case state of None \<Rightarrow> None
      | Some d \<Rightarrow> (case items_from_metadata (jget ''pending_item'' d) of [] \<Rightarrow> None | i # _ \<Rightarrow> Some i))"

definition previous_items_from_state :: "(string \<times> json) list option \<Rightarrow> chat_slots option \<Rightarrow> chat_item list" where
  "previous_items_from_state state fallback =
     (let otherwise = (case fallback of None \<Rightarrow> [] | Some S \<Rightarrow> cs_items S) in
      case state of None \<Rightarrow> otherwise
      | Some d \<Rightarrow>
          (case items_from_metadata (jget ''previous_items'' d) of
             i # is \<Rightarrow> i # is
           | [] \<Rightarrow> (case optional_str (jget ''previous_product'' d) of
               None \<Rightarrow> otherwise
             | Some t \<Rightarrow> [\<lparr>ci_product = Some t,
                           ci_quantity = (case first_order_item fallback of None \<Rightarrow> None | Some i \<Rightarrow> ci_quantity i)\<rparr>])))"

section \<open>Answers that keep the dialog open\<close>

definition order_state_metadata :: "string \<Rightarrow> chat_slots option \<Rightarrow> (string \<times> json) list \<Rightarrow> (string \<times> json) list" where
  "order_state_metadata st m extra =
     [(''type'', JStr ''chat_order_state''), (''status'', JStr st)] @
     (if slots_to_metadata m = [] then [] else [(''slots'', JObj (slots_to_metadata m))]) @ extra"

definition state_turn ::
    "prompt \<Rightarrow> string \<Rightarrow> chat_slots option \<Rightarrow> (string \<times> json) list \<Rightarrow> product list \<Rightarrow> chat_turn" where
  "state_turn text st m extra cards =
     \<lparr>ct_prompt = text, ct_documents = [JObj (order_state_metadata st m extra)], ct_cards = cards\<rparr>"

definition pending_extra :: "chat_item \<Rightarrow> (string \<times> json) list" where
  "pending_extra i = [(''pending_item'', JList (items_to_metadata [i]))]"

definition post_order_change_turn :: "chat_env \<Rightarrow> string \<Rightarrow> (string \<times> json) list \<Rightarrow> chat_turn" where
  "post_order_change_turn E content existing =
     (let noted = AList.update ''post_order_change_request'' (JStr content) existing;
          paid = (case extract_payment_candidate (ce_fold E) content of None \<Rightarrow> noted
                  | Some m \<Rightarrow> AList.update ''requested_payment_method'' (JStr m) noted) in
      \<lparr>ct_prompt = ChangeNoted, ct_documents = [JObj paid], ct_cards = []\<rparr>)"

definition available_gas_sizes :: "product list \<Rightarrow> int list" where
  "available_gas_sizes prods = sort (remdups (map p_size_kg (filter (\<lambda>p. p_category p = Gas) prods)))"

definition mentions_product_brand :: "fold_text \<Rightarrow> string \<Rightarrow> product list \<Rightarrow> bool" where
  "mentions_product_brand F n prods \<longleftrightarrow>
     list_ex (\<lambda>p. p_category p = Gas \<and>
       (let brand = normalize_match_text F (p_brand p); own = filter (\<lambda>t. t \<noteq> ''gas'') (tokens brand) in
        own \<noteq> [] \<and> (list_ex (\<lambda>t. t \<in> set (tokens n)) own \<or> contains brand n))) prods"

definition gas_size_inquiry :: "fold_text \<Rightarrow> string \<Rightarrow> product list \<Rightarrow> prompt option" where
  "gas_size_inquiry F query prods =
     (let sizes = available_gas_sizes prods; n = normalize_match_text F query; asked = extract_gas_size_query n in
      if length sizes < 2 \<or> category_filter n \<noteq> Some Gas then None
      else (case asked of
              Some k \<Rightarrow> if 100 * k \<notin> set sizes then Some BadSize else None
            | None \<Rightarrow> if mentions_product_brand F n prods then None else Some AskSize))"

definition gas_products_for_size :: "product list \<Rightarrow> int \<Rightarrow> product list" where
  "gas_products_for_size prods k = filter (\<lambda>p. p_category p = Gas \<and> p_size_kg p = 100 * k) prods"

definition category_cards :: "fold_text \<Rightarrow> product list \<Rightarrow> string option \<Rightarrow> product list" where
  "category_cards F prods q =
     (case category_filter (normalize_match_text F (text_of q)) of
        None \<Rightarrow> [] | Some c \<Rightarrow> filter (\<lambda>p. p_category p = c) prods)"

section \<open>The turn\<close>

text \<open>What one turn starts from: the message, the earlier state and what the message was read as.\<close>

record turn_input =
  ti_content :: string
  ti_norm :: string
  ti_products :: "product list"
  ti_state :: "(string \<times> json) list option"
  ti_previous :: "chat_slots option"
  ti_base :: chat_slots
  ti_incoming :: chat_slots

definition incoming_slots :: "chat_env \<Rightarrow> product list \<Rightarrow> string \<Rightarrow> chat_slots" where
  "incoming_slots E prods content =
     (let extracted = slots_from_llm (ce_fold E) (ce_llm E content) in
      combine_current_slots (ce_fold E) prods content (ce_address E (cs_address extracted) content)
        (infer_order_slots (ce_fold E) prods content) extracted)"

definition read_turn :: "chat_env \<Rightarrow> chat_message list \<Rightarrow> product list \<Rightarrow> string \<Rightarrow> turn_input" where
  "read_turn E history prods content =
     (let state = find_order_state E history content; prev = previous_slots state in
      \<lparr>ti_content = content, ti_norm = normalize_match_text (ce_fold E) content, ti_products = prods,
       ti_state = state, ti_previous = prev,
       ti_base = (case prev of None \<Rightarrow> empty_slots | Some S \<Rightarrow> S),
       ti_incoming = incoming_slots E prods content\<rparr>)"

definition contact_slots :: "turn_input \<Rightarrow> chat_slots" where
  "contact_slots T = (ti_incoming T)\<lparr>cs_items := []\<rparr>"

text \<open>
  The answer to a product question. \<open>None\<close> leaves the message to the general case; a pair holds the
  new slots and whether the customer settled the order by dropping the open line.
\<close>

definition product_choice :: "chat_env \<Rightarrow> turn_input \<Rightarrow> chat_turn + (chat_slots \<times> bool) option" where
  "product_choice E T =
     (let F = ce_fold E; prods = ti_products T; base = ti_base T;
          pending = (case pending_item_from_state (ti_state T) of Some i \<Rightarrow> Some i
                     | None \<Rightarrow> find (is_incomplete_add_item F) (cs_items base)) in
      case pending of None \<Rightarrow> Inr None
      | Some i \<Rightarrow>
          if state_status (ti_state T) \<noteq> ''awaiting_product_choice'' \<or> \<not> is_incomplete_add_item F i then Inr None
          else if is_cancel_add_request (ti_norm T) then Inr (Some (drop_incomplete_add_items F base, False))
          else if is_affirmation F (ti_content T) then Inr (Some (drop_incomplete_add_items F base, True))
          else (case (if mentions_product_brand F (ti_norm T) prods
                      then match_product F (Some (ti_content T)) prods else None) of
                  Some p \<Rightarrow> Inr (Some (append_order_items F prods (drop_incomplete_add_items F base)
                              [\<lparr>ci_product = Some (product_display p), ci_quantity = ci_quantity i\<rparr>], False))
                | None \<Rightarrow> (case extract_gas_size_choice (ti_norm T) of
                    None \<Rightarrow> Inr None
                  | Some k \<Rightarrow>
                      Inl (if gas_products_for_size prods k = []
                           then state_turn BadSize ''awaiting_product_choice'' (Some base) (pending_extra i) []
                           else state_turn ShowSizes ''awaiting_product_choice'' (Some base) (pending_extra i)
                                  (gas_products_for_size prods k)))))"

text \<open>The answer to "replace the product?".\<close>

definition change_answer :: "chat_env \<Rightarrow> turn_input \<Rightarrow> chat_turn + chat_slots" where
  "change_answer E T =
     (let F = ce_fold E; prods = ti_products T; base = ti_base T; content = ti_content T; n = ti_norm T;
          cands = cs_items (ti_incoming T);
          old = previous_items_from_state (ti_state T) (ti_previous T);
          original = base\<lparr>cs_items := old, cs_confirmed := False\<rparr>;
          pending = (case pending_item_from_state (ti_state T) of Some i \<Rightarrow> Some i
                     | None \<Rightarrow> pending_change_item F prods old (cs_items base)) in
      case extract_payment_candidate F content of
        Some m \<Rightarrow> Inr (original\<lparr>cs_payment := Some m, cs_confirmed := False\<rparr>)
      | None \<Rightarrow>
          if is_negation F content \<and> has_add_cue n \<and> pending \<noteq> None then Inr (append_order_item original (the pending))
          else if is_affirmation F content then Inr (base\<lparr>cs_confirmed := False\<rparr>)
          else if is_negation F content \<or> is_keep_previous_request F content then Inr original
          else if has_add_cue n \<and> (cands \<noteq> [] \<or> pending \<noteq> None)
          then Inr (append_order_items F prods original
                 (if cands \<noteq> [] then cands else case pending of None \<Rightarrow> [] | Some i \<Rightarrow> [i]))
          else (case cands of
                  i # _ \<Rightarrow>
                    (if truthy (ci_product i)
                     then Inl (state_turn AskChange ''awaiting_product_change_confirmation''
                            (Some (replace_first_matching_item F prods original i))
                            ((''previous_items'', JList (items_to_metadata old)) # pending_extra i) [])
                     else Inl (state_turn AskChangeHint ''awaiting_product_change_confirmation'' (Some base)
                            [(''previous_items'', JList (items_to_metadata old)),
                             (''pending_item'', JList (case pending of None \<Rightarrow> [] | Some j \<Rightarrow> items_to_metadata [j]))] []))
                | [] \<Rightarrow> Inl (state_turn AskChangeHint ''awaiting_product_change_confirmation'' (Some base)
                            [(''previous_items'', JList (items_to_metadata old)),
                             (''pending_item'', JList (case pending of None \<Rightarrow> [] | Some j \<Rightarrow> items_to_metadata [j]))] [])))"

text \<open>The answer to "add or replace?".\<close>

definition add_or_replace_answer :: "chat_env \<Rightarrow> turn_input \<Rightarrow> chat_turn + chat_slots" where
  "add_or_replace_answer E T =
     (let F = ce_fold E; prods = ti_products T; base = ti_base T; content = ti_content T; n = ti_norm T;
          cand = first_order_item (Some (ti_incoming T));
          pending = (case pending_item_from_state (ti_state T) of Some i \<Rightarrow> Some i | None \<Rightarrow> cand) in
      case extract_payment_candidate F content of
        Some m \<Rightarrow> Inr (base\<lparr>cs_payment := Some m, cs_confirmed := False\<rparr>)
      | None \<Rightarrow>
          if pending \<noteq> None \<and> has_add_cue n then Inr (append_order_items F prods base [the pending])
          else if pending \<noteq> None \<and> (has_replace_cue n \<or> is_affirmation F content)
          then Inr (replace_first_matching_item F prods base (the pending))
          else if is_negation F content then Inr (base\<lparr>cs_confirmed := False\<rparr>)
          else if cand \<noteq> None \<and> truthy (ci_product (the cand))
          then Inl (state_turn AskAddOrReplace ''awaiting_add_or_replace'' (Some base) (pending_extra (the cand)) [])
          else Inl (state_turn AskAddOrReplaceHint ''awaiting_add_or_replace'' (Some base)
                 (case pending of None \<Rightarrow> [] | Some i \<Rightarrow> pending_extra i) []))"

text \<open>The general case: merge what the message brought.\<close>

definition general_answer :: "chat_env \<Rightarrow> turn_input \<Rightarrow> chat_turn + chat_slots" where
  "general_answer E T =
     (let F = ce_fold E; prods = ti_products T; cands = cs_items (ti_incoming T);
          S = merge_order_slots F [ti_previous T, Some (contact_slots T)] in
      if cands = [] then Inr S
      else (case detect_order_items_operation F prods (ti_content T) (ti_previous T) cands of
              Some OpAdd \<Rightarrow> Inr (append_order_items F prods S cands)
            | Some OpReplace \<Rightarrow>
                if cs_items S = [] then Inr (with_order_items S cands)
                else Inl (state_turn AskChange ''awaiting_product_change_confirmation''
                       (Some (replace_first_matching_item F prods S (hd cands)))
                       ((''previous_items'', JList (items_to_metadata (cs_items S))) # pending_extra (hd cands)) [])
            | Some OpRemove \<Rightarrow> Inr (remove_order_item F prods S (hd cands))
            | Some OpMergeExisting \<Rightarrow> Inr (fold (merge_existing_item F prods) cands S)
            | Some OpAmbiguous \<Rightarrow>
                Inl (state_turn AskAddOrReplace ''awaiting_add_or_replace'' (Some S) (pending_extra (hd cands)) [])
            | _ \<Rightarrow>
                (let S' = with_order_items S cands in
                 Inr (if ti_previous T = None \<or> cs_items (the (ti_previous T)) = []
                      then S'\<lparr>cs_confirmed := cs_confirmed (ti_incoming T)\<rparr> else S'))))"

definition collect_slots :: "chat_env \<Rightarrow> turn_input \<Rightarrow> chat_turn + chat_slots \<times> bool" where
  "collect_slots E T =
     (let merge = (\<lambda>r. case r of Inl t \<Rightarrow> Inl t
                  | Inr S \<Rightarrow> Inr (merge_order_slots (ce_fold E) [Some S, Some (contact_slots T)], False)) in
      case product_choice E T of
        Inl t \<Rightarrow> Inl t
      | Inr (Some (S, settled)) \<Rightarrow> Inr (merge_order_slots (ce_fold E) [Some S, Some (contact_slots T)], settled)
      | Inr None \<Rightarrow>
          if state_status (ti_state T) = ''awaiting_product_change_confirmation'' then merge (change_answer E T)
          else if state_status (ti_state T) = ''awaiting_add_or_replace'' then merge (add_or_replace_answer E T)
          else (case general_answer E T of Inl t \<Rightarrow> Inl t | Inr S \<Rightarrow> Inr (S, False)))"

definition with_phone_candidate :: "string \<Rightarrow> chat_slots \<Rightarrow> chat_slots" where
  "with_phone_candidate content S =
     (case extract_phone_candidate content of None \<Rightarrow> S
      | Some c \<Rightarrow> if truthy (cs_phone S) \<and> \<not> isl (validate_phone (the (cs_phone S))) then S
                  else S\<lparr>cs_phone := Some c\<rparr>)"

definition with_order_cues :: "chat_env \<Rightarrow> string \<Rightarrow> chat_slots \<Rightarrow> chat_slots" where
  "with_order_cues E content S =
     (let pay = str_or (cs_payment S) (extract_payment_candidate (ce_fold E) content);
          found = extract_name_candidate (ce_fold E) (ce_name_after E content) (ce_name_before E content) content pay in
      S\<lparr>cs_name := str_or found (cs_name S), cs_payment := pay\<rparr>)"

definition with_delivery_time :: "chat_env \<Rightarrow> string \<Rightarrow> chat_slots \<Rightarrow> chat_slots" where
  "with_delivery_time E content S = S\<lparr>cs_notes := str_or (cs_notes S) (ce_time E content)\<rparr>"

text \<open>Only an affirmation in the right state confirms, never what the model extracted.\<close>

definition turn_confirmed :: "chat_env \<Rightarrow> turn_input \<Rightarrow> bool \<Rightarrow> bool" where
  "turn_confirmed E T settled =
     (if state_status (ti_state T) \<in> set [''awaiting_reused_contact_confirmation'', ''awaiting_account_contact_confirmation'']
      then False
      else if state_status (ti_state T) = ''awaiting_confirmation''
      then is_affirmation (ce_fold E) (ti_content T) \<or> settled
      else settled)"

definition finish_slots :: "chat_env \<Rightarrow> turn_input \<Rightarrow> chat_slots \<Rightarrow> bool \<Rightarrow> chat_slots" where
  "finish_slots E T S settled =
     (with_delivery_time E (ti_content T) (with_order_cues E (ti_content T) (with_phone_candidate (ti_content T) S)))
       \<lparr>cs_confirmed := turn_confirmed E T settled\<rparr>"

definition missing_order_slots :: "chat_slots \<Rightarrow> (chat_item \<times> product option) list \<Rightarrow> slot_name list" where
  "missing_order_slots S matched =
     (if cs_items S = [] \<or> list_ex (\<lambda>m. snd m = None) matched then [NProduct] else []) @
     (if list_ex (\<lambda>i. ci_quantity i = None) (cs_items S) then [NQuantity] else []) @
     (if truthy (cs_name S) then [] else [NName]) @
     (if truthy (cs_phone S) then [] else [NPhone]) @
     (if truthy (cs_address S) then [] else [NAddress]) @
     (if truthy (cs_payment S) then [] else [NPayment])"

definition order_slots_progressed :: "chat_slots \<Rightarrow> chat_slots \<Rightarrow> bool" where
  "order_slots_progressed old new \<longleftrightarrow> cs_items old \<noteq> cs_items new \<or> cs_name old \<noteq> cs_name new \<or>
     cs_phone old \<noteq> cs_phone new \<or> cs_address old \<noteq> cs_address new \<or> cs_notes old \<noteq> cs_notes new \<or>
     cs_payment old \<noteq> cs_payment new \<or> cs_confirmed old \<noteq> cs_confirmed new"

definition is_unproductive_order_turn :: "fold_text \<Rightarrow> turn_input \<Rightarrow> chat_slots \<Rightarrow> bool" where
  "is_unproductive_order_turn F T S \<longleftrightarrow>
     (let n = ti_norm T in
      cs_items (ti_incoming T) = [] \<and>
      \<not> (is_order_cancel_request n \<or> is_affirmation F (ti_content T) \<or> is_negation F (ti_content T) \<or>
         has_add_cue n \<or> has_replace_cue n \<or> has_remove_cue n) \<and>
      \<not> order_slots_progressed (ti_base T) S)"

definition all_chosen :: "(chat_item \<times> product option) list \<Rightarrow> bool" where
  "all_chosen matched \<longleftrightarrow> matched \<noteq> [] \<and> list_all (\<lambda>(i, m). m \<noteq> None \<and> ci_quantity i \<noteq> None) matched"

definition should_confirm_reusable_contact ::
    "(string \<times> json) list option \<Rightarrow> chat_slots \<Rightarrow> (chat_item \<times> product option) list \<Rightarrow> chat_slots option \<Rightarrow> bool" where
  "should_confirm_reusable_contact state S matched reusable \<longleftrightarrow>
     state = None \<and> all_chosen matched \<and>
     (case reusable of None \<Rightarrow> False | Some R \<Rightarrow> has_reusable_contact R) \<and> \<not> has_reusable_contact S"

definition should_confirm_account_contact ::
    "(string \<times> json) list option \<Rightarrow> chat_slots \<Rightarrow> (chat_item \<times> product option) list \<Rightarrow> chat_slots option \<Rightarrow> bool" where
  "should_confirm_account_contact state S matched account \<longleftrightarrow>
     state = None \<and> all_chosen matched \<and>
     (case account of None \<Rightarrow> False | Some A \<Rightarrow> has_reusable_contact A) \<and>
     \<not> truthy (cs_name S) \<and> \<not> truthy (cs_phone S)"

text \<open>Everything an order needs, once nothing is left to ask.\<close>

record ready_order =
  ro_slots :: chat_slots
  ro_phone :: string
  ro_zone :: "string \<times> string"
  ro_payment :: string
  ro_lines :: "(chat_item \<times> product) list"

text \<open>The questions about the chosen products.\<close>

definition product_questions :: "chat_env \<Rightarrow> turn_input \<Rightarrow> chat_slots \<Rightarrow> chat_turn option" where
  "product_questions E T S =
     (let F = ce_fold E; prods = ti_products T in
      case find (\<lambda>i. is_bare_category_query F (ci_product i)) (cs_items S) of
        Some i \<Rightarrow>
          (case (if is_bare_gas_item F i then gas_size_inquiry F ''gas'' prods else None) of
             Some q \<Rightarrow> Some (state_turn q ''awaiting_product_choice'' (Some S) (pending_extra i) [])
           | None \<Rightarrow> Some (state_turn AskCategory ''awaiting_product_choice'' (Some S) (pending_extra i)
                             (category_cards F prods (ci_product i))))
      | None \<Rightarrow>
          if list_ex (\<lambda>(i, m). truthy (ci_product i) \<and> m = None) (match_order_items F (cs_items S) prods)
          then Some (state_turn UnknownProduct ''awaiting_product_choice'' (Some S) [] []) else None)"

text \<open>The questions about contact details already known, asked at the start of an order.\<close>

definition contact_questions ::
    "chat_env \<Rightarrow> turn_input \<Rightarrow> chat_message list \<Rightarrow> user option \<Rightarrow> chat_slots \<Rightarrow> chat_turn option" where
  "contact_questions E T conversation usr S =
     (let F = ce_fold E; matched = match_order_items F (cs_items S) (ti_products T);
          reusable = find_reusable_contact_slots conversation; account = account_contact_slots usr in
      if should_confirm_reusable_contact (ti_state T) S matched reusable
      then Some (state_turn AskReuseContact ''awaiting_reused_contact_confirmation''
             (Some (merge_order_slots F [Some S, reusable])) [] [])
      else if should_confirm_account_contact (ti_state T) S matched account
      then Some (state_turn AskAccountContact ''awaiting_account_contact_confirmation''
             (Some (merge_order_slots F [account, Some S])) [] [])
      else None)"

fun short_line :: "(chat_item \<times> product) list \<Rightarrow> product option" where
  "short_line [] = None"
| "short_line ((i, p) # ls) =
     (if p_stock_quantity p < (case ci_quantity i of None \<Rightarrow> 0 | Some n \<Rightarrow> n) then Some p else short_line ls)"

text \<open>The remaining questions, in the order of the code, up to the summary.\<close>

definition open_questions :: "chat_env \<Rightarrow> turn_input \<Rightarrow> chat_slots \<Rightarrow> chat_turn + ready_order" where
  "open_questions E T S =
     (let F = ce_fold E; matched = match_order_items F (cs_items S) (ti_products T);
          lines = matched_order_products matched; missing = missing_order_slots S matched;
          ask = (\<lambda>q. Inl (state_turn q ''awaiting_missing_slots'' (Some S) [] []));
          address = text_of (cs_address S) in
      if truthy (cs_phone S) \<and> isl (validate_phone (the (cs_phone S))) then ask BadPhone
      else if missing \<noteq> []
      then ask (if ti_state T \<noteq> None \<and> is_unproductive_order_turn F T S then AskAgain missing else AskMissing missing)
      else (case ce_zone E address of
              None \<Rightarrow> ask OutOfArea
            | Some zone \<Rightarrow>
                if ce_khu_pho E address = KhuPhoMissing then ask AskKhuPho
                else if ce_khu_pho E address = KhuPhoOutOfRange then ask BadKhuPho
                else (case short_line lines of
                        Some p \<Rightarrow> ask (StockShort p)
                      | None \<Rightarrow>
                          (case normalize_payment_method F (text_of (cs_payment S)) of
                             None \<Rightarrow> ask AskPayment
                           | Some pay \<Rightarrow>
                               if \<not> cs_confirmed S
                               then Inl (state_turn (AskSummary lines) ''awaiting_confirmation'' (Some S) [] [])
                               else Inr \<lparr>ro_slots = S,
                                         ro_phone = (case validate_phone (text_of (cs_phone S)) of Inl e \<Rightarrow> [] | Inr n \<Rightarrow> n),
                                         ro_zone = zone, ro_payment = pay, ro_lines = lines\<rparr>))))"

section \<open>Placing the order\<close>

definition water_item_quantity :: "(chat_item \<times> product) list \<Rightarrow> int" where
  "water_item_quantity ls = sum_list (map (\<lambda>(i, p). if p_category p = NuocUong
     then (case ci_quantity i of None \<Rightarrow> 0 | Some n \<Rightarrow> n) else 0) ls)"

definition water_delivery_fee :: "(chat_item \<times> product) list \<Rightarrow> money" where
  "water_delivery_fee ls = 500000 * water_item_quantity ls"

definition fee_note :: string where
  "fee_note = ''[Phi giao nuoc +5k/binh; len lau +5k/lau]''"

definition notes_with_water_fee :: "string option \<Rightarrow> (chat_item \<times> product) list \<Rightarrow> string option" where
  "notes_with_water_fee notes ls =
     (if water_delivery_fee ls \<le> 0 then notes
      else if truthy notes then Some (py_strip (fee_note @ '' '' @ the notes)) else Some fee_note)"

definition item_fingerprint :: "chat_item list \<Rightarrow> string" where
  "item_fingerprint items =
     join ''|'' (map (\<lambda>i. text_of (ci_product i) @ '':'' @
         (case ci_quantity i of None \<Rightarrow> [] | Some n \<Rightarrow> if n = 0 then [] else int_text n))
       (sort_key (\<lambda>i. (text_of (ci_product i), case ci_quantity i of None \<Rightarrow> 0 | Some n \<Rightarrow> n)) items))"

definition chat_order_key :: "chat_env \<Rightarrow> uuid \<Rightarrow> chat_slots \<Rightarrow> uuid" where
  "chat_order_key E conv S =
     ce_uuid5 E (''chat-order:'' @ join ''|'' [uuid_text conv, item_fingerprint (cs_items S),
        text_of (cs_phone S), text_of (cs_address S)])"

definition chat_checkout :: "uuid \<Rightarrow> ready_order \<Rightarrow> checkout" where
  "chat_checkout conv R =
     (let S = ro_slots R in
      \<lparr>ck_items = map (\<lambda>(i, p). \<lparr>li_product_id = p_id p,
         li_quantity = (case ci_quantity i of None \<Rightarrow> 0 | Some n \<Rightarrow> n), li_is_exchange = False\<rparr>) (ro_lines R),
       ck_customer_name = text_of (cs_name S), ck_customer_phone = Some (ro_phone R), ck_customer_email = None,
       ck_delivery_address = text_of (cs_address S), ck_delivery_ward = Some (fst (ro_zone R)),
       ck_delivery_district = Some (snd (ro_zone R)), ck_delivery_city = ''TP. Ho Chi Minh'',
       ck_delivery_notes = notes_with_water_fee (cs_notes S) (ro_lines R),
       ck_recipient_name = None, ck_recipient_phone = None,
       ck_payment_method = (if ro_payment R = ''cod'' then Cod else BankTransfer),
       ck_vat_invoice_requested = False, ck_vat_info = None,
       ck_customer_notes = Some ''Don duoc tao qua chat Qiki; nhan vien can goi lai xac nhan.'',
       ck_source = Chatbot, ck_referral_conversation_id = Some conv, ck_coupon_code = None\<rparr>)"

definition create_chat_order_with_retry :: "chat_env \<Rightarrow> checkout \<Rightarrow> user option \<Rightarrow> uuid \<Rightarrow> order dbop" where
  "create_chat_order_with_retry E ck usr key = retry_op 2 (ce_aborted E) (create_order (ce_order E) ck usr key)"

definition placed_turn :: "chat_env \<Rightarrow> ready_order \<Rightarrow> order \<Rightarrow> chat_turn" where
  "placed_turn E R ord =
     (let S = (ro_slots R)\<lparr>cs_phone := Some (ro_phone R), cs_payment := Some (ro_payment R)\<rparr> in
      \<lparr>ct_prompt = OrderPlaced (o_order_number ord),
       ct_documents =
         JObj [(''type'', JStr ''chat_order''), (''order_id'', JStr (uuid_text (o_id ord))),
               (''order_number'', case o_order_number ord of None \<Rightarrow> JNull | Some n \<Rightarrow> JStr n),
               (''slots'', JObj (slots_to_metadata (Some S)))] #
         (if truthy (cs_notes (ro_slots R)) then [ce_note E (the (cs_notes (ro_slots R)))] else []),
       ct_cards = []\<rparr>)"

definition place_chat_order :: "chat_env \<Rightarrow> uuid \<Rightarrow> user option \<Rightarrow> ready_order \<Rightarrow> chat_turn dbop" where
  "place_chat_order E conv usr R =
     andThen (lift_result (parse_checkout (chat_checkout conv R))) (\<lambda>ck.
     andThen (create_chat_order_with_retry E ck usr (chat_order_key E conv (ro_slots R))) (\<lambda>ord.
     ret (placed_turn E R ord)))"

text \<open>The questions and readings of one turn, up to an order ready to be placed.\<close>

definition plan_chat_order ::
    "chat_env \<Rightarrow> chat_message list \<Rightarrow> chat_message list \<Rightarrow> user option \<Rightarrow> product list \<Rightarrow> string \<Rightarrow>
     chat_turn + ready_order" where
  "plan_chat_order E history conversation usr prods content =
     (let T = read_turn E history prods content; F = ce_fold E in
      case (if is_post_order_change_request F content then find_existing_chat_order history else None) of
        Some d \<Rightarrow> Inl (post_order_change_turn E content d)
      | None \<Rightarrow>
          if ti_state T \<noteq> None \<and> is_order_cancel_request (ti_norm T)
          then Inl (state_turn Cancelled ''order_cancelled'' None [] [])
          else if ti_state T \<noteq> None \<and> truthy (ce_window E content)
          then Inl (state_turn AskPeriod ''awaiting_missing_slots'' (Some (ti_base T)) [] [])
          else (case collect_slots E T of
                  Inl t \<Rightarrow> Inl t
                | Inr (S0, settled) \<Rightarrow>
                    (let S = finish_slots E T S0 settled in
                     case product_questions E T S of Some t \<Rightarrow> Inl t
                     | None \<Rightarrow> (case contact_questions E T conversation usr S of Some t \<Rightarrow> Inl t
                     | None \<Rightarrow> open_questions E T (merge_order_slots F [account_contact_slots usr, Some S])))))"

definition handle_chat_order ::
    "chat_env \<Rightarrow> uuid \<Rightarrow> chat_message list \<Rightarrow> chat_message list \<Rightarrow> user option \<Rightarrow> product list \<Rightarrow> string \<Rightarrow>
     chat_turn dbop" where
  "handle_chat_order E conv history conversation usr prods content =
     (case plan_chat_order E history conversation usr prods content of
        Inl t \<Rightarrow> ret t | Inr R \<Rightarrow> place_chat_order E conv usr R)"

section \<open>Who confirms an order\<close>

lemma open_questions_ready:
  assumes "open_questions E T S = Inr R"
  shows "cs_confirmed S" "ro_slots R = S"
  using assms by (auto simp: open_questions_def Let_def split: if_splits option.splits)

lemma merge_keeps_confirmed:
  "cs_confirmed (merge_order_slots F [account_contact_slots usr, Some S]) = cs_confirmed S"
  by (auto simp: merge_order_slots_def merge_slots_def account_contact_slots_def empty_slots_def split: option.splits)

lemma collect_settled:
  assumes "collect_slots E T = Inr (S, True)"
  shows "state_status (ti_state T) = ''awaiting_product_choice'' \<and> is_affirmation (ce_fold E) (ti_content T)"
proof -
  have "product_choice E T = Inr (Some (S', True)) \<Longrightarrow>
      state_status (ti_state T) = ''awaiting_product_choice'' \<and> is_affirmation (ce_fold E) (ti_content T)" for S'
    by (auto simp: product_choice_def Let_def split: option.splits if_splits)
  with assms show ?thesis
    by (auto simp: collect_slots_def Let_def split: sum.splits option.splits prod.splits if_splits)
qed

lemma finish_confirmed: "cs_confirmed (finish_slots E T S settled) = turn_confirmed E T settled"
  by (simp add: finish_slots_def)

lemma plan_ready:
  assumes "plan_chat_order E history conversation usr prods content = Inr R"
  shows "is_affirmation (ce_fold E) content \<and>
    (\<exists>d. find_order_state E history content = Some d \<and>
         state_status (Some d) \<in> {''awaiting_confirmation'', ''awaiting_product_choice''})"
proof -
  let ?T = "read_turn E history prods content"
  have T: "ti_state ?T = find_order_state E history content" "ti_content ?T = content"
    by (simp_all add: read_turn_def Let_def)
  from assms obtain S settled where c: "collect_slots E ?T = Inr (S, settled)"
    and o: "open_questions E ?T (merge_order_slots (ce_fold E) [account_contact_slots usr, Some (finish_slots E ?T S settled)]) = Inr R"
    unfolding plan_chat_order_def Let_def by (auto split: option.splits if_splits sum.splits prod.splits)
  from open_questions_ready(1) [OF o] have conf: "turn_confirmed E ?T settled"
    by (simp only: merge_keeps_confirmed finish_confirmed)
  have "is_affirmation (ce_fold E) content \<and>
      state_status (ti_state ?T) \<in> {''awaiting_confirmation'', ''awaiting_product_choice''}"
  proof (cases settled)
    case True
    with c collect_settled [of E ?T S] show ?thesis by (simp add: T(2))
  next
    case False
    with conf show ?thesis by (auto simp: turn_confirmed_def T(2) split: if_splits)
  qed
  moreover from this have "ti_state ?T \<noteq> None" by (cases "ti_state ?T") (auto simp: state_status_def)
  ultimately show ?thesis unfolding T(1) by auto
qed

lemma handle_unchanged:
  assumes "plan_chat_order E history conversation usr prods content = Inl t"
  shows "handle_chat_order E conv history conversation usr prods content s = (Inr t, s)"
  using assms by (simp add: handle_chat_order_def op_eval)

section \<open>What is ready to be ordered\<close>

lemma short_line_None: "short_line ls = None \<Longrightarrow> (i, p) \<in> set ls \<Longrightarrow>
    (case ci_quantity i of None \<Rightarrow> 0 | Some n \<Rightarrow> n) \<le> p_stock_quantity p"
  by (induction ls rule: short_line.induct) (auto split: if_splits)

lemma matched_all:
  assumes "\<not> list_ex (\<lambda>m. snd m = None) (match_order_items F items prods)"
  shows "map fst (matched_order_products (match_order_items F items prods)) = items"
    and "(i, p) \<in> set (matched_order_products (match_order_items F items prods)) \<Longrightarrow>
         i \<in> set items \<and> match_product F (ci_product i) prods = Some p"
proof -
  show "map fst (matched_order_products (match_order_items F items prods)) = items"
    using assms by (induction items) (auto simp: matched_order_products_def match_order_items_def)
  show "i \<in> set items \<and> match_product F (ci_product i) prods = Some p"
    if "(i, p) \<in> set (matched_order_products (match_order_items F items prods))"
    using that by (auto simp: matched_order_products_def match_order_items_def List.map_filter_def)
qed

lemma missing_none:
  assumes "missing_order_slots S (match_order_items F (cs_items S) prods) = []"
  shows "cs_items S \<noteq> []" "\<not> list_ex (\<lambda>m. snd m = None) (match_order_items F (cs_items S) prods)"
    "\<forall>i \<in> set (cs_items S). ci_quantity i \<noteq> None" "truthy (cs_name S)" "truthy (cs_phone S)"
    "truthy (cs_address S)" "truthy (cs_payment S)"
  using assms by (auto simp: missing_order_slots_def list_ex_iff split: if_splits)

lemma ready_lines:
  assumes "open_questions E T S = Inr R"
  shows "map fst (ro_lines R) = cs_items S" "validate_phone (text_of (cs_phone S)) = Inr (ro_phone R)"
    "truthy (cs_payment S)" "truthy (cs_name S)"
    "\<forall>(i, p) \<in> set (ro_lines R). match_product (ce_fold E) (ci_product i) (ti_products T) = Some p \<and>
       (\<exists>n. ci_quantity i = Some n \<and> n \<le> p_stock_quantity p)"
proof -
  let ?m = "match_order_items (ce_fold E) (cs_items S) (ti_products T)"
  from assms have miss: "missing_order_slots S ?m = []" and stock: "short_line (matched_order_products ?m) = None"
    and ph: "\<not> (truthy (cs_phone S) \<and> isl (validate_phone (the (cs_phone S))))"
    and R: "ro_lines R = matched_order_products ?m"
      "ro_phone R = (case validate_phone (text_of (cs_phone S)) of Inl e \<Rightarrow> [] | Inr n \<Rightarrow> n)"
    by (auto simp: open_questions_def Let_def split: if_splits option.splits)
  note n = missing_none [OF miss]
  show "map fst (ro_lines R) = cs_items S" unfolding R(1) by (rule matched_all(1) [OF n(2)])
  show "truthy (cs_payment S)" "truthy (cs_name S)" by (fact n)+
  show "validate_phone (text_of (cs_phone S)) = Inr (ro_phone R)"
    using ph n(5) R(2) by (cases "cs_phone S") (auto simp: text_of_def split: sum.splits)
  show "\<forall>(i, p) \<in> set (ro_lines R). match_product (ce_fold E) (ci_product i) (ti_products T) = Some p \<and>
       (\<exists>n. ci_quantity i = Some n \<and> n \<le> p_stock_quantity p)"
  proof clarify
    fix i p assume ip: "(i, p) \<in> set (ro_lines R)"
    from matched_all(2) [OF n(2)] ip have m: "i \<in> set (cs_items S)" "match_product (ce_fold E) (ci_product i) (ti_products T) = Some p"
      by (simp_all add: R(1))
    with n(3) obtain k where "ci_quantity i = Some k" by auto
    with short_line_None [OF stock] ip m show "match_product (ce_fold E) (ci_product i) (ti_products T) = Some p \<and>
       (\<exists>n. ci_quantity i = Some n \<and> n \<le> p_stock_quantity p)" by (fastforce simp: R(1))
  qed
qed

lemma plan_open:
  assumes "plan_chat_order E history conversation usr prods content = Inr R"
  shows "\<exists>S settled. open_questions E (read_turn E history prods content)
    (merge_order_slots (ce_fold E) [account_contact_slots usr,
       Some (finish_slots E (read_turn E history prods content) S settled)]) = Inr R"
  using assms unfolding plan_chat_order_def Let_def by (auto split: option.splits if_splits sum.splits prod.splits)

lemma place_state:
  assumes "place_chat_order E conv usr R s = (r, s')" "s' \<noteq> s" "r = Inr t"
  shows "\<exists>ord. t = placed_turn E R ord"
  using assms by (auto simp: place_chat_order_def op_simps)

end
