(* ===== verification/ChatConfirm.thy ===== *)
theory ChatConfirm
  imports ChatOrder
begin

text \<open>
  When a chat message places an order: only after an affirmation, which some refusals and some
  names turn out to be; and what becomes of an order asked for twice.
\<close>

section \<open>A sample conversation\<close>

text \<open>The customer has been shown the summary of two bottles and answers it.\<close>

definition sample_goods :: "product list" where
  "sample_goods = [sample_gas\<lparr>p_name := ''px'', p_brand := ''px'', p_sku := ''px''\<rparr>]"

definition sample_chat :: chat_env where
  "sample_chat = \<lparr>ce_fold = id, ce_now = 1000, ce_llm = (\<lambda>m. []), ce_address = (\<lambda>a m. None),
     ce_name_after = (\<lambda>m. None), ce_name_before = (\<lambda>m. None), ce_time = (\<lambda>m. None), ce_window = (\<lambda>m. None),
     ce_zone = (\<lambda>a. Some (''Gia Dinh'', ''Binh Thanh'')), ce_khu_pho = (\<lambda>a. KhuPhoOk), ce_uuid5 = (\<lambda>t. 77),
     ce_note = (\<lambda>t. JNull), ce_order = sample_env, ce_aborted = []\<rparr>"

definition sample_state :: "(string \<times> json) list" where
  "sample_state = [(''type'', JStr ''chat_order_state''), (''status'', JStr ''awaiting_confirmation''),
      (''slots'', JObj [(''items'', JList [JObj [(''product'', JStr ''px''), (''quantity'', JInt 2)]]),
         (''customer_name'', JStr ''An''), (''customer_phone'', JStr ''0912345678''),
         (''delivery_address'', JStr ''1 Leo''), (''payment_method'', JStr ''cod'')])]"

definition sample_summary :: chat_message where
  "sample_summary = \<lparr>cm_assistant = True, cm_documents = JList [JObj sample_state], cm_created_at = Some 900\<rparr>"

definition sample_slots :: "string \<Rightarrow> bool \<Rightarrow> chat_slots" where
  "sample_slots nm c = \<lparr>cs_items = [\<lparr>ci_product = Some ''px'', ci_quantity = Some 2\<rparr>], cs_name = Some nm,
     cs_phone = Some ''0912345678'', cs_address = Some ''1 Leo'', cs_notes = None, cs_payment = Some ''cod'',
     cs_confirmed = c\<rparr>"

definition sample_turn :: "string \<Rightarrow> turn_input" where
  "sample_turn m = \<lparr>ti_content = m, ti_norm = m, ti_products = sample_goods, ti_state = Some sample_state,
     ti_previous = Some (sample_slots ''An'' False), ti_base = sample_slots ''An'' False, ti_incoming = empty_slots\<rparr>"

definition sample_ready :: "string \<Rightarrow> ready_order" where
  "sample_ready nm = \<lparr>ro_slots = sample_slots nm True, ro_phone = ''+84912345678'', ro_zone = (''Gia Dinh'', ''Binh Thanh''),
     ro_payment = ''cod'', ro_lines = [(\<lparr>ci_product = Some ''px'', ci_quantity = Some 2\<rparr>, hd sample_goods)]\<rparr>"

lemma plan_by_stages:
  assumes "read_turn E history prods content = T" "\<not> is_post_order_change_request (ce_fold E) content"
    and "\<not> is_order_cancel_request (ti_norm T)" "ce_window E content = None"
    and "collect_slots E T = Inr (S0, b)" "finish_slots E T S0 b = S1" "product_questions E T S1 = None"
    and "contact_questions E T conversation usr S1 = None"
    and "merge_order_slots (ce_fold E) [account_contact_slots usr, Some S1] = S2" "open_questions E T S2 = X"
  shows "plan_chat_order E history conversation usr prods content = X"
  using assms by (simp add: plan_chat_order_def Let_def)

lemma read_by_stages:
  assumes "find_order_state E history content = Some d" "previous_slots (Some d) = Some S"
    and "normalize_match_text (ce_fold E) content = n" "incoming_slots E prods content = I"
  shows "read_turn E history prods content = \<lparr>ti_content = content, ti_norm = n, ti_products = prods, ti_state = Some d,
     ti_previous = Some S, ti_base = S, ti_incoming = I\<rparr>"
  using assms by (simp add: read_turn_def Let_def)

lemma sample_previous: "previous_slots (Some sample_state) = Some (sample_slots ''An'' False)"
  by code_simp

lemma sample_questions:
  "merge_order_slots id [account_contact_slots None, Some (sample_slots nm True)] = sample_slots nm True" if "nm \<noteq> []"
  using that
  by (simp add: merge_order_slots_def merge_slots_def account_contact_slots_def sample_slots_def empty_slots_def
      str_or_def merge_order_items_def)

lemma sample_match: "match_product id (Some ''px'') sample_goods = Some (hd sample_goods)"
  by code_simp

lemma sample_item:
  "is_bare_category_query id (Some ''px'') = False" "is_incomplete_add_item id \<lparr>ci_product = Some ''px'', ci_quantity = Some 2\<rparr> = False"
  by code_simp+

lemma sample_phone: "validate_phone ''0912345678'' = Inr ''+84912345678''" "normalize_payment_method id ''cod'' = Some ''cod''"
  by code_simp+

lemma sample_stock: "p_stock_quantity (hd sample_goods) = 5"
  by (simp add: sample_goods_def sample_gas_def)

lemma sample_found: "find_order_state sample_chat [sample_summary] m = Some sample_state"
  by (simp add: find_order_state_def sample_summary_def has_metadata_type_def doc_type_def jget_def sample_state_def
      is_order_state_fresh_def sample_chat_def order_state_ttl_def)

lemma sample_collect: "collect_slots sample_chat (sample_turn m) = Inr (sample_slots ''An'' False, False)"
proof -
  have "pending_item_from_state (Some sample_state) = None" "state_status (Some sample_state) = ''awaiting_confirmation''"
    by code_simp+
  then show ?thesis
    by (simp add: collect_slots_def product_choice_def general_answer_def Let_def sample_turn_def sample_chat_def sample_slots_def
        sample_item empty_slots_def contact_slots_def merge_order_slots_def merge_slots_def merge_order_items_def str_or_def)
qed

lemma sample_open:
  assumes "nm \<noteq> []"
  shows "product_questions sample_chat (sample_turn m) (sample_slots nm True) = None"
    "contact_questions sample_chat (sample_turn m) [] None (sample_slots nm True) = None"
    "open_questions sample_chat (sample_turn m) (sample_slots nm True) = Inr (sample_ready nm)"
proof -
  have f: "ce_fold sample_chat = id" "ti_products (sample_turn m) = sample_goods" "ti_state (sample_turn m) = Some sample_state"
    "ce_zone sample_chat a = Some (''Gia Dinh'', ''Binh Thanh'')" "ce_khu_pho sample_chat a = KhuPhoOk" for a
    by (simp_all add: sample_chat_def sample_turn_def)
  show "product_questions sample_chat (sample_turn m) (sample_slots nm True) = None"
    by (simp add: product_questions_def Let_def f sample_slots_def sample_item match_order_items_def sample_match)
  show "contact_questions sample_chat (sample_turn m) [] None (sample_slots nm True) = None"
    by (simp add: contact_questions_def Let_def f should_confirm_reusable_contact_def should_confirm_account_contact_def)
  show "open_questions sample_chat (sample_turn m) (sample_slots nm True) = Inr (sample_ready nm)"
    using assms
    by (simp add: open_questions_def Let_def f sample_slots_def sample_item match_order_items_def sample_match sample_phone
        matched_order_products_def missing_order_slots_def sample_stock text_of_def sample_ready_def)
qed

text \<open>From the reading of the answer to the order, with the name it leaves.\<close>

lemma sample_plan:
  assumes "normalize_match_text id m = m" "incoming_slots sample_chat sample_goods m = empty_slots"
    and "\<not> is_post_order_change_request id m" "\<not> is_order_cancel_request m"
    and "finish_slots sample_chat (sample_turn m) (sample_slots ''An'' False) False = sample_slots nm True" "nm \<noteq> []"
  shows "plan_chat_order sample_chat [sample_summary] [] None sample_goods m = Inr (sample_ready nm)"
proof -
  have w: "ce_window sample_chat m = None" "ce_fold sample_chat = id" "ti_norm (sample_turn m) = m"
    by (simp_all add: sample_chat_def sample_turn_def)
  have r: "read_turn sample_chat [sample_summary] sample_goods m = sample_turn m"
    unfolding read_by_stages [OF sample_found sample_previous assms(1) [folded w(2)] assms(2)] sample_turn_def ..
  show ?thesis
    by (rule plan_by_stages [OF r _ _ w(1) sample_collect assms(5) sample_open(1,2) _ sample_open(3)])
       (use assms(3,4,6) sample_questions in \<open>simp_all add: w(2,3)\<close>)
qed

lemma sample_ok_plan: "plan_chat_order sample_chat [sample_summary] [] None sample_goods ''ok'' = Inr (sample_ready ''An'')"
  by (rule sample_plan; code_simp)

section \<open>Properties\<close>


lemma handle_planned:
  "plan_chat_order E history conversation usr prods content = Inr R \<Longrightarrow>
   handle_chat_order E conv history conversation usr prods content = place_chat_order E conv usr R"
  by (simp add: handle_chat_order_def)

lemma place_by_stages:
  assumes "parse_checkout (chat_checkout conv R) = Inr ck" "ce_aborted E = []"
    and "create_order (ce_order E) ck usr (chat_order_key E conv (ro_slots R)) s = (Inr ord, s1)"
  shows "place_chat_order E conv usr R s = (Inr (placed_turn E R ord), s1)"
  using assms by (simp add: place_chat_order_def op_eval lift_result_def create_chat_order_with_retry_def numeral_2_eq_2 attempt_def)

lemma sample_create:
  "\<exists>ord s1. create_order sample_env (chat_checkout 40 (sample_ready nm)) None 77 sample_shop = (Inr ord, s1) \<and>
     map o_customer_name (orders s1) = [nm]"
proof -
  define run where "run = create_order sample_env (chat_checkout 40 (sample_ready nm)) None 77 sample_shop"
  have "\<not> isl (fst run)" "map o_customer_name (orders (snd run)) = [nm]" unfolding run_def by code_simp+
  then show ?thesis using run_split [of run] unfolding run_def by metis
qed

lemma sample_placed:
  assumes "plan_chat_order sample_chat [sample_summary] [] None sample_goods m = Inr (sample_ready nm)"
    and "parse_checkout (chat_checkout 40 (sample_ready nm)) = Inr (chat_checkout 40 (sample_ready nm))"
  shows "map o_customer_name (orders (snd (handle_chat_order sample_chat 40 [sample_summary] [] None sample_goods m sample_shop))) = [nm]"
proof -
  have e: "ce_aborted sample_chat = []" "ce_order sample_chat = sample_env" "chat_order_key sample_chat 40 S = 77" for S
    by (simp_all add: sample_chat_def chat_order_key_def)
  from sample_create [of nm] obtain ord s1 where
    c0: "create_order sample_env (chat_checkout 40 (sample_ready nm)) None 77 sample_shop = (Inr ord, s1)"
    and o: "map o_customer_name (orders s1) = [nm]" by (elim exE conjE)
  have c: "create_order (ce_order sample_chat) (chat_checkout 40 (sample_ready nm)) None
      (chat_order_key sample_chat 40 (ro_slots (sample_ready nm))) sample_shop = (Inr ord, s1)"
    unfolding e(2,3) by (rule c0)
  from place_by_stages [OF assms(2) e(1) c] o show ?thesis by (simp add: handle_planned [OF assms(1)])
qed

lemma sample_parses:
  "parse_checkout (chat_checkout 40 (sample_ready ''An'')) = Inr (chat_checkout 40 (sample_ready ''An''))"
  "parse_checkout (chat_checkout 40 (sample_ready ''Khong Y'')) = Inr (chat_checkout 40 (sample_ready ''Khong Y''))"
  by code_simp+


text \<open>Substrings.\<close>

lemma contains_iff: "contains p s \<longleftrightarrow> (\<exists>a b. s = a @ p @ b)"
proof (induction s)
  case (Cons c s)
  have "take (length p) (c # s) = p \<longleftrightarrow> (\<exists>b. c # s = p @ b)"
    by (metis append_eq_conv_conj append_take_drop_id)
  moreover have "(\<exists>a b. c # s = a @ p @ b) \<longleftrightarrow> (\<exists>b. c # s = p @ b) \<or> (\<exists>a b. s = a @ p @ b)"
    by (metis (no_types, opaque_lifting) Cons_eq_append_conv append_Cons)
  ultimately show ?case using Cons.IH by simp
qed simp

lemma contains_suffix: "contains (a @ q) s \<Longrightarrow> contains q s"
  by (auto simp: contains_iff) (metis append.assoc)

text \<open>
  A refusal counts as consent: a message saying "khong dong y" (I do not agree), "khong xac nhan"
  (I do not confirm) or "chua chot don" (do not close the order yet) contains one of the phrases of
  consent, so in answer to the summary it confirms the order.
\<close>

lemma chat_refusal_confirms:
  assumes "has_any [''khong dong y'', ''khong xac nhan'', ''chua chot don''] (normalize_match_text (ce_fold E) content)"
    and "ti_content T = content" and "state_status (ti_state T) = ''awaiting_confirmation''"
  shows "is_affirmation (ce_fold E) content \<and> cs_confirmed (finish_slots E T S settled)"
proof -
  have "is_affirmation (ce_fold E) content"
    using assms(1) contains_suffix [of "''khong ''" "''dong y''"] contains_suffix [of "''khong ''" "''xac nhan''"]
      contains_suffix [of "''chua ''" "''chot don''"]
    by (auto simp: is_affirmation_def has_any_def Let_def)
  with assms(2,3) show ?thesis by (simp add: finish_confirmed turn_confirmed_def)
qed

lemma sample_refusal_plan:
  "plan_chat_order sample_chat [sample_summary] [] None sample_goods ''khong dong y'' = Inr (sample_ready ''Khong Y'')"
  by (rule sample_plan; code_simp)

lemma chat_refusal_confirms_witness:
  "is_affirmation (ce_fold sample_chat) ''khong dong y'' \<and>
   map o_customer_name (orders (snd (handle_chat_order sample_chat 40 [sample_summary] [] None sample_goods
     ''khong dong y'' sample_shop))) = [''Khong Y'']"
proof -
  have "has_any [''khong dong y'', ''khong xac nhan'', ''chua chot don''] (normalize_match_text (ce_fold sample_chat) ''khong dong y'')"
    by code_simp
  moreover have "ti_content (sample_turn m) = m" "state_status (ti_state (sample_turn m)) = ''awaiting_confirmation''" for m
    by (simp_all add: sample_turn_def state_status_def sample_state_def py_str_def)
  ultimately show ?thesis
    using chat_refusal_confirms [of sample_chat "''khong dong y''" "sample_turn ''khong dong y''"]
      sample_placed [OF sample_refusal_plan sample_parses(2)] by simp
qed

text \<open>The name a confirming message leaves.\<close>

lemma letter_runs_nonempty: "w \<in> set (letter_runs s) \<Longrightarrow> w \<noteq> []"
proof (induction s rule: letter_runs.induct)
  case (1 s)
  show ?case
  proof (cases "dropWhile (\<lambda>c. \<not> letter c) s")
    case Nil
    with 1(2) show ?thesis by (simp add: letter_runs.simps [of s])
  next
    case (Cons c r)
    with 1(2) 1(1) [OF Cons] show ?thesis by (auto simp: letter_runs.simps [of s])
  qed
qed

lemma name_words_nonempty: "w \<in> set (name_words F content) \<Longrightarrow> w \<noteq> []"
  using letter_runs_nonempty by (auto simp: name_words_def Let_def)

lemma title_case_Nil [simp]: "title_case b s = [] \<longleftrightarrow> s = []"
  by (cases s) simp_all

lemma merge_keeps_name:
  "truthy (cs_name S) \<Longrightarrow> cs_name (merge_order_slots F [account_contact_slots usr, Some S]) = cs_name S"
  by (auto simp: merge_order_slots_def merge_slots_def account_contact_slots_def empty_slots_def str_or_def split: option.splits)

lemma merge_payment:
  "cs_payment (merge_order_slots F [account_contact_slots usr, Some S]) \<noteq> None \<Longrightarrow> cs_payment S \<noteq> None"
  by (auto simp: merge_order_slots_def merge_slots_def account_contact_slots_def empty_slots_def str_or_def split: option.splits if_splits)

text \<open>
  The words of the confirming message become the customer's name. Unless one of the two name
  patterns matched, a message of one to three words that are neither payment words nor fillers is
  read as a name even when it confirms the order ("xac nhan"), and it replaces the name shown in
  the summary on the order that is placed.
\<close>

lemma chat_confirm_renames:
  assumes "plan_chat_order E history conversation usr prods content = Inr R"
    and "ce_name_after E content = None" and "ce_name_before E content = None"
    and "name_words (ce_fold E) content \<noteq> []" and "length (name_words (ce_fold E) content) \<le> 3"
  shows "is_affirmation (ce_fold E) content \<and>
    ck_customer_name (chat_checkout conv R) = title_case False (join '' '' (name_words (ce_fold E) content))"
proof -
  let ?ws = "name_words (ce_fold E) content" and ?T = "read_turn E history prods content"
  from plan_open [OF assms(1)] obtain S settled where o: "open_questions E ?T
    (merge_order_slots (ce_fold E) [account_contact_slots usr, Some (finish_slots E ?T S settled)]) = Inr R" by blast
  let ?fin = "finish_slots E ?T S settled"
  have content: "ti_content ?T = content" by (simp add: read_turn_def Let_def)
  from assms(4) obtain w ws where w: "?ws = w # ws" "w \<noteq> []" using name_words_nonempty by (metis list.exhaust list.set_intros(1))
  then have ne: "title_case False (join '' '' ?ws) \<noteq> []" by (cases ws) (simp_all add: join_def)
  from merge_payment [of "ce_fold E" usr ?fin] ready_lines(3) [OF o] have "cs_payment ?fin \<noteq> None" by (auto simp: truthy_def)
  then have "cs_name ?fin = Some (title_case False (join '' '' ?ws))"
    using assms(2-5) ne
    by (auto simp: finish_slots_def with_delivery_time_def with_order_cues_def Let_def content extract_name_candidate_def str_or_def
        truthy_def)
  with ne merge_keeps_name [of ?fin] open_questions_ready(2) [OF o] plan_ready [OF assms(1)] show ?thesis
    by (simp add: chat_checkout_def Let_def text_of_def truthy_def)
qed

lemma chat_confirm_renames_witness:
  "ck_customer_name (chat_checkout 40 (sample_ready ''Xac Nhan'')) = ''Xac Nhan'' \<and>
   map o_customer_name (orders (snd (handle_chat_order sample_chat 40 [sample_summary] [] None sample_goods
     ''xac nhan'' sample_shop))) = [''Xac Nhan'']"
proof -
  have f: "ce_fold sample_chat = id" "ce_name_after sample_chat m = None" "ce_name_before sample_chat m = None" for m
    by (simp_all add: sample_chat_def)
  have plan: "plan_chat_order sample_chat [sample_summary] [] None sample_goods ''xac nhan'' = Inr (sample_ready ''Xac Nhan'')"
    by (rule sample_plan; code_simp)
  have ws: "name_words id ''xac nhan'' = [''xac'', ''nhan'']" "title_case False (join '' '' [''xac'', ''nhan'']) = ''Xac Nhan''"
    by code_simp+
  have ck: "parse_checkout (chat_checkout 40 (sample_ready ''Xac Nhan'')) = Inr (chat_checkout 40 (sample_ready ''Xac Nhan''))"
    by code_simp
  from chat_confirm_renames [OF plan f(2,3), of 40] sample_placed [OF plan ck] show ?thesis by (simp add: f(1) ws)
qed

text \<open>Placing the same order again.\<close>

lemma retry_result: "retry_op n aborted m s = (Inr x, t) \<Longrightarrow> m s = (Inr x, t)"
proof (induction n arbitrary: aborted)
  case 0
  then show ?case by (auto simp: attempt_def split: if_splits)
next
  case (Suc n)
  show ?case
  proof (cases aborted)
    case Nil
    with Suc.prems show ?thesis by (simp add: attempt_def)
  next
    case (Cons b bs)
    with Suc show ?thesis by (auto simp: attempt_def split: if_splits prod.splits sum.splits)
  qed
qed

text \<open>
  A repeated order is swallowed. Within one conversation, an order of the same items for the
  same phone and address as one placed before, however long ago and whatever happened to that order
  since (delivered, cancelled), is answered with the earlier order's number and changes nothing.
\<close>

lemma chat_repeat_swallowed:
  assumes "shop_ok s" and "set_order_ok (env_set_order (ce_order E))" and "length (ymd (env_now (ce_order E))) = 8"
    and "place_chat_order E conv usr R s = (Inr t, s1)" and "shop_step\<^sup>*\<^sup>* s1 s2"
    and "cs_items (ro_slots R') = cs_items (ro_slots R)" and "cs_phone (ro_slots R') = cs_phone (ro_slots R)"
    and "cs_address (ro_slots R') = cs_address (ro_slots R)"
    and "ce_uuid5 E' = ce_uuid5 E" and "ce_aborted E' = []" and "env_txn_unused (ce_order E')"
    and "parse_checkout (chat_checkout conv R') = Inr ck'"
  shows "\<exists>t'. place_chat_order E' conv usr' R' s2 = (Inr t', s2) \<and> ct_prompt t' = ct_prompt t"
proof -
  let ?key = "chat_order_key E conv (ro_slots R)"
  from assms(4) obtain ck ord where ck: "parse_checkout (chat_checkout conv R) = Inr ck"
    and c: "create_order (ce_order E) ck usr ?key s = (Inr ord, s1)" and t: "t = placed_turn E R ord"
    by (auto simp: place_chat_order_def op_simps lift_result_def create_chat_order_with_retry_def
        split: sum.splits dest!: retry_result)
  have ok: "shop_ok s1" by (rule order_step_keeps [OF place [OF ck assms(2,3) c] assms(1)])
  from create_order_keyed [OF c assms(2)] obtain row where
    row: "order_by_key ?key s1 = Some row" "order_response row s1 = (Inr ord, s1)" by blast
  have key: "chat_order_key E' conv (ro_slots R') = ?key" by (simp add: chat_order_key_def assms(6-9))
  from repeated_create [OF assms(5) ok row assms(11)] obtain ord' where
    r: "create_order (ce_order E') ck' usr' ?key s2 = (Inr ord', s2)" "order_content ord' = order_content ord" by blast
  have "place_chat_order E' conv usr' R' s2 = (Inr (placed_turn E' R' ord'), s2)"
    by (rule place_by_stages [OF assms(12,10)]) (simp add: key r(1))
  moreover have "ct_prompt (placed_turn E' R' ord') = ct_prompt t"
    using content_fields(3) [OF r(2)] by (simp add: t placed_turn_def Let_def)
  ultimately show ?thesis by blast
qed

lemma chat_repeat_swallowed_witness:
  "\<exists>t s1 t'. place_chat_order sample_chat 40 None (sample_ready ''An'') sample_shop = (Inr t, s1) \<and>
     place_chat_order sample_chat 40 None (sample_ready ''Khong Y'') s1 = (Inr t', s1) \<and> ct_prompt t' = ct_prompt t"
proof -
  have e: "ce_order sample_chat = sample_env" "ce_aborted sample_chat = []" "env_txn_unused sample_env"
    by (simp_all add: sample_chat_def sample_env_def)
  have day: "length (ymd (env_now sample_env)) = 8" by code_simp
  from sample_create [of "''An''"] obtain ord s1 where
    c0: "create_order sample_env (chat_checkout 40 (sample_ready ''An'')) None 77 sample_shop = (Inr ord, s1)" by (elim exE conjE)
  have p: "place_chat_order sample_chat 40 None (sample_ready ''An'') sample_shop = (Inr (placed_turn sample_chat (sample_ready ''An'') ord), s1)"
    by (rule place_by_stages [OF sample_parses(1) e(2)]) (simp add: e(1) chat_order_key_def c0, simp add: sample_chat_def c0)
  have "cs_items (ro_slots (sample_ready n)) = cs_items (ro_slots (sample_ready m))"
    "cs_phone (ro_slots (sample_ready n)) = cs_phone (ro_slots (sample_ready m))"
    "cs_address (ro_slots (sample_ready n)) = cs_address (ro_slots (sample_ready m))" for n m
    by (simp_all add: sample_ready_def sample_slots_def)
  from chat_repeat_swallowed [OF sample_shop_all_ok _ _ p rtranclp.rtrancl_refl this refl e(2) _ sample_parses(2)]
  show ?thesis using p sample_set_order day e by auto
qed

end
