(* ===== verification/Sessions.thy ===== *)
theory Sessions
  imports Auth
begin

text \<open>
  Identifiers as text, what Redis and JWT promise, how the operations act on the cache, and the theorem
  that a revoked token is refused in every later state.
\<close>

section \<open>Identifiers as text\<close>

lemma code_point_char [simp]: "n < 256 \<Longrightarrow> code_point (char_of n) = n"
  by (simp add: code_point_def)

lemma hex_digit_val [simp]: "d < 16 \<Longrightarrow> hex_val (hex_digit d) = d"
  by (auto simp: hex_val_def hex_digit_def is_digit_def)

lemma hex_digit_hex [simp]: "d < 16 \<Longrightarrow> is_hex (hex_digit d)"
  by (auto simp: is_hex_def hex_digit_def is_digit_def)

lemma hex_pad_length [simp]: "length (hex_pad k n) = k"
  by (induction k arbitrary: n) auto

lemma hex_pad_hex: "list_all is_hex (hex_pad k n)"
  by (induction k arbitrary: n) auto

lemma hex_pad_val: "foldl (\<lambda>n c. 16 * n + hex_val c) 0 (hex_pad k n) = n mod 16 ^ k"
proof (induction k arbitrary: n)
  case (Suc k)
  have "16 * (n div 16 mod 16 ^ k) + n mod 16 = n mod 16 ^ Suc k"
    by (simp add: mod_mult2_eq)
  with Suc show ?case by simp
qed simp

lemma hyphen_not_hex: "list_all is_hex s \<Longrightarrow> CHR ''-'' \<notin> set s"
  by (auto simp: list_all_iff is_hex_def is_digit_def code_point_def)

lemma take_hex: "list_all is_hex s \<Longrightarrow> list_all is_hex (take n s)" "list_all is_hex s \<Longrightarrow> list_all is_hex (drop n s)"
  by (auto simp: list_all_iff dest: in_set_takeD in_set_dropD)

lemma py_remove_append [simp]: "py_remove c (s @ t) = py_remove c s @ py_remove c t"
  by (simp add: py_remove_def)

lemma uuid_round_trip_id:
  assumes "i < 2 ^ 128"
  shows "parse_uuid (uuid_text i) = Inr i"
proof -
  define h where "h = hex_pad 32 i"
  have h: "list_all is_hex h" "length h = 32" by (simp_all add: h_def hex_pad_hex)
  have keep: "py_remove (CHR ''-'') (take n (drop m h)) = take n (drop m h)"
    "py_remove (CHR ''-'') (take n h) = take n h" "py_remove (CHR ''-'') (drop m h) = drop m h" for n m
    by (intro py_remove_id hyphen_not_hex take_hex h)+
  have dash: "py_remove (CHR ''-'') ''-'' = ''''" by (simp add: py_remove_def)
  have split: "take 8 h @ take 4 (drop 8 h) @ take 4 (drop 12 h) @ take 4 (drop 16 h) @ drop 20 h = h"
    using take_add [of 8 4 h] take_add [of 12 4 h] take_add [of 16 4 h] append_take_drop_id [of 20 h] by simp
  have "py_remove (CHR ''-'') (uuid_text i) = h"
    unfolding uuid_text_def Let_def h_def [symmetric] by (simp only: py_remove_append keep dash append_Nil split)
  moreover have "foldl (\<lambda>n c. 16 * n + hex_val c) 0 h = i"
    using assms hex_pad_val [of 32 i] by (simp add: h_def)
  ultimately show ?thesis using h by (simp add: parse_uuid_def)
qed

text \<open>
  The text form of an identifier, as tokens and Redis carry it, reads back as the identifier,
  and no two identifiers share a text.
\<close>

lemma uuid_round_trip:
  assumes "i < 2 ^ 128" and "j < 2 ^ 128"
  shows "parse_uuid (uuid_text i) = Inr i \<and> (uuid_text i = uuid_text j \<longrightarrow> i = j)"
  using uuid_round_trip_id [OF assms(1)] uuid_round_trip_id [OF assms(2)] by (metis sum.inject(2))

lemma uuid_round_trip_witness: "parse_uuid (uuid_text 4660) = Inr 4660 \<and> uuid_text 4660 \<noteq> uuid_text 1"
  using uuid_round_trip [of 4660 1] by auto

lemma uuid_text_not_Nil [simp]: "uuid_text i \<noteq> []"
  by (simp add: uuid_text_def Let_def)

section \<open>What the libraries promise\<close>

text \<open>\<^verbatim>\<open>jwt.decode\<close> refuses an expired token and one issued in the future.\<close>

definition valid_at :: "time \<Rightarrow> claims \<Rightarrow> bool" where
  "valid_at t c \<longleftrightarrow> (case cl_exp c of None \<Rightarrow> True | Some e \<Rightarrow> t < secs e) \<and>
     (case cl_iat c of None \<Rightarrow> True | Some i \<Rightarrow> secs i \<le> t)"

locale token_codec =
  fixes encode :: "claims \<Rightarrow> 'k" and decode :: "time \<Rightarrow> 'k \<Rightarrow> claims option"
  assumes decode_encode: "decode t (encode c) = (if valid_at t c then Some c else None)"
    and decode_again: "decode t tok = Some c \<Longrightarrow> decode t' tok = (if valid_at t' c then Some c else None)"
begin

lemma decode_valid: "decode t tok = Some c \<Longrightarrow> valid_at t c"
  using decode_again [of t tok c t] by (auto split: if_splits)

lemma decode_same: "decode t tok = Some c \<Longrightarrow> decode t' tok = Some c' \<Longrightarrow> c' = c"
  using decode_again [of t tok c t'] by (auto split: if_splits)

end

text \<open>Redis and JWT together: what a session relies on.\<close>

locale session_store = redis_store R + token_codec encode decode
  for R :: "'r redis" and encode :: "claims \<Rightarrow> 'k" and decode :: "time \<Rightarrow> 'k \<Rightarrow> claims option"

abbreviation session_libs :: "('r, 'k) auth_env \<Rightarrow> bool" where
  "session_libs E \<equiv> session_store (ae_redis E) (ae_encode E) (ae_decode E)"

definition signed_decode :: "time \<Rightarrow> claims \<Rightarrow> claims option" where
  "signed_decode t c = (if valid_at t c then Some c else None)"

interpretation signed: session_store ttl_redis "\<lambda>c. c" signed_decode
  by unfold_locales (auto simp: signed_decode_def split: if_splits)

text \<open>A later call runs on the same libraries; its random draws and salt are its own.\<close>

definition later :: "('r, 'k) auth_env \<Rightarrow> ('r, 'k) auth_env \<Rightarrow> bool" where
  "later E F \<longleftrightarrow> ae_now E \<le> ae_now F \<and> ae_redis F = ae_redis E \<and> ae_encode F = ae_encode E \<and>
     ae_decode F = ae_decode E \<and> ae_verify F = ae_verify E"

lemma later_refl [simp]: "later E E"
  by (simp add: later_def)

lemma later_trans: "later E F \<Longrightarrow> later F G \<Longrightarrow> later E G"
  by (auto simp: later_def)

definition hashing :: "('r, 'k) auth_env \<Rightarrow> ('r, 'k) auth_env \<Rightarrow> bool" where
  "hashing E F \<longleftrightarrow> (\<forall>p. ae_hash E p \<noteq> [] \<and> ae_verify F p (ae_hash E p))"

section \<open>Primitive effects\<close>

lemma on_db_Inr [op_simps]:
  "on_db m s = (Inr x, s') \<longleftrightarrow> (\<exists>d. m (as_db s) = (Inr x, d) \<and> s' = s\<lparr>as_db := d\<rparr>)"
  by (auto simp: on_db_def split: prod.splits)

lemma on_db_Inl [op_simps]:
  "on_db m s = (Inl e, s') \<longleftrightarrow> (\<exists>d. m (as_db s) = (Inl e, d) \<and> s' = s\<lparr>as_db := d\<rparr>)"
  by (auto simp: on_db_def split: prod.splits)

lemma on_db_gets [simp]: "on_db (gets f) s = (Inr (f (as_db s)), s)"
  by (simp add: on_db_def gets_def)

lemma auth_request_Inr [op_simps]: "auth_request m s = (Inr x, s') \<longleftrightarrow> m s = (Inr x, s')"
  by (auto simp: auth_request_def split: prod.splits sum.splits)

lemma auth_request_Inl [op_simps]:
  "auth_request m s = (Inl e, s') \<longleftrightarrow> (\<exists>t. m s = (Inl e, t) \<and> s' = t\<lparr>as_db := as_db s\<rparr>)"
  by (auto simp: auth_request_def split: prod.splits sum.splits)

lemma cache_ops [op_simps]:
  "cache_get E k s = (r, s') \<longleftrightarrow> r = Inr (rd_get (ae_redis E) (ae_now E) k (as_redis s)) \<and> s' = s"
  "cache_setex E k ttl v s = (q, s') \<longleftrightarrow>
     q = Inr () \<and> s' = s\<lparr>as_redis := rd_setex (ae_redis E) (ae_now E) k ttl v (as_redis s)\<rparr>"
  "cache_delete E k s = (q, s') \<longleftrightarrow> q = Inr () \<and> s' = s\<lparr>as_redis := rd_delete (ae_redis E) k (as_redis s)\<rparr>"
  "send_mail m s = (q, s') \<longleftrightarrow> q = Inr () \<and> s' = s\<lparr>as_mail := as_mail s @ [m]\<rparr>"
  "cache_incr E k s = (p, s') \<longleftrightarrow> p = Inr (fst (rd_incr (ae_redis E) (ae_now E) k (as_redis s))) \<and>
     s' = s\<lparr>as_redis := snd (rd_incr (ae_redis E) (ae_now E) k (as_redis s))\<rparr>"
  "cache_expire E k ttl s = (q, s') \<longleftrightarrow>
     q = Inr () \<and> s' = s\<lparr>as_redis := rd_expire (ae_redis E) (ae_now E) k ttl (as_redis s)\<rparr>"
  by (auto simp: cache_get_def cache_setex_def cache_delete_def send_mail_def cache_incr_def
      cache_expire_def op_simps split: prod.splits)

text \<open>Counting with a window, as failed logins and resent codes are counted.\<close>

lemma counted_eq:
  "andThen (cache_incr E k) (\<lambda>n. andThen (if n = 1 then cache_expire E k ttl else ret ()) (\<lambda>_. f n)) s =
   f (fst (bump (ae_redis E) (ae_now E) k ttl (as_redis s)))
     (s\<lparr>as_redis := snd (bump (ae_redis E) (ae_now E) k ttl (as_redis s))\<rparr>)"
  by (cases "rd_incr (ae_redis E) (ae_now E) k (as_redis s)")
    (simp add: bump_def cache_incr_def cache_expire_def andThen_def modify_def ret_def)

lemma decode_token_Inr [op_simps]:
  "decode_token E tok s = (Inr c, s') \<longleftrightarrow> ae_decode E (ae_now E) tok = Some c \<and> s' = s"
  by (simp add: decode_token_def op_simps)

lemma decode_token_Inl [op_simps]:
  "decode_token E tok s = (Inl e, s') \<longleftrightarrow>
     ae_decode E (ae_now E) tok = None \<and> e = AppError Unauthorized ''invalid_token'' \<and> s' = s"
  by (simp add: decode_token_def op_simps)

lemma decode_token_eval: "decode_token E tok s = (case ae_decode E (ae_now E) tok of
    None \<Rightarrow> (Inl (AppError Unauthorized ''invalid_token''), s) | Some c \<Rightarrow> (Inr c, s))"
  by (simp add: decode_token_def op_eval split: option.splits)

section \<open>Revocation\<close>

definition blacklist_key :: "string \<Rightarrow> string" where
  "blacklist_key j = ''blacklist:'' @ j"

definition revoked :: "('r, 'k) auth_env \<Rightarrow> string \<Rightarrow> int \<Rightarrow> 'r auth_state \<Rightarrow> bool" where
  "revoked E j e s \<longleftrightarrow>
     (\<forall>t. ae_now E \<le> t \<and> t < secs e \<longrightarrow> truthy (rd_get (ae_redis E) t (blacklist_key j) (as_redis s)))"

lemma revoked_later: "later E F \<Longrightarrow> revoked E j e s \<Longrightarrow> revoked F j e s"
  by (auto simp: revoked_def later_def)

lemma now_s_le: "secs (now_s E) \<le> ae_now E"
  using div_mult_mod_eq [of "ae_now E" 1000000] by (simp add: secs_def now_s_def)

lemma until_expiry: "secs e \<le> ae_now E + secs (max 1 (e - now_s E))"
proof -
  note now_s_le [of E]
  moreover have "secs (e - now_s E) \<le> secs (max 1 (e - now_s E))" by simp
  ultimately show ?thesis by (simp add: secs_def algebra_simps)
qed

lemma blacklist_revokes:
  assumes "redis_store (ae_redis E)" and "truthy (cl_jti c)" and "cl_exp c = Some e"
    and "blacklist_payload E c s = (Inr u, s')"
  shows "revoked E (the (cl_jti c)) e s'"
  using assms(2-4) until_expiry [of e E] redis_store.get_setex [OF assms(1)]
  by (auto simp: revoked_def blacklist_payload_def blacklist_key_def seconds_until_expiry_def op_simps)

text \<open>No operation takes a revocation back: the keys they delete or count on are others.\<close>

lemma keeps_redis:
  assumes "redis_store (ae_redis E)" and "k \<noteq> blacklist_key j"
  shows "keeps (revoked E j e) (cache_setex E k ttl v)" "keeps (revoked E j e) (cache_delete E k)"
    "keeps (revoked E j e) (cache_incr E k)" "keeps (revoked E j e) (cache_expire E k ttl)"
  using assms redis_store.get_setex_other [OF assms(1), of "blacklist_key j" k]
    redis_store.get_delete_other [OF assms(1), of "blacklist_key j" k]
    redis_store.get_incr_other [OF assms(1), of "blacklist_key j" k]
    redis_store.get_expire_other [OF assms(1), of "blacklist_key j" k]
  by (auto simp: keeps_def revoked_def cache_setex_def cache_delete_def cache_incr_def cache_expire_def
      modify_def split: prod.splits) (metis snd_conv)+

lemma keeps_other [keeps_intros]:
  "keeps (revoked E j e) (on_db m)" "keeps (revoked E j e) (send_mail x)"
  "keeps (revoked E j e) (cache_get F k)" "keeps (revoked E j e) (decode_token F tok)"
  by (auto simp: keeps_def revoked_def on_db_def send_mail_def cache_get_def decode_token_def
      require_some.simps op_eval split: prod.splits option.splits)
    (cases "ae_decode F (ae_now F) tok"; simp add: op_eval)?

lemma other_keys [simp]:
  "failed_key k \<noteq> blacklist_key j" "lockout_key k \<noteq> blacklist_key j" "reset_key k \<noteq> blacklist_key j"
  "otp_key i \<noteq> blacklist_key j" "resend_key i \<noteq> blacklist_key j" "''failed_login:'' @ k \<noteq> blacklist_key j"
  by (simp_all add: failed_key_def lockout_key_def reset_key_def otp_key_def resend_key_def blacklist_key_def)

lemma keeps_blacklist:
  assumes "redis_store (ae_redis E)" and "cl_jti c = Some j \<Longrightarrow> cl_exp c = Some e"
  shows "keeps (revoked E j e) (blacklist_payload E c)"
proof (unfold keeps_def, intro allI impI)
  fix s assume r: "revoked E j e s"
  show "revoked E j e (snd (blacklist_payload E c s))"
  proof (cases "cl_jti c = Some j \<and> truthy (cl_jti c)")
    case True
    then obtain s' where "blacklist_payload E c s = (Inr (), s')"
      by (auto simp: blacklist_payload_def cache_setex_def modify_def)
    with blacklist_revokes [OF assms(1) _ _ this, of e] True assms(2) show ?thesis by auto
  next
    case False
    then have "truthy (cl_jti c) \<Longrightarrow> ''blacklist:'' @ the (cl_jti c) \<noteq> blacklist_key j"
      by (cases "cl_jti c") (auto simp: blacklist_key_def)
    then have "keeps (revoked E j e) (blacklist_payload E c)"
      unfolding blacklist_payload_def by (intro keeps_intros keeps_redis assms(1)) auto
    with r show ?thesis by (simp add: keeps_def)
  qed
qed

text \<open>One HTTP request, whatever its outcome.\<close>

datatype 'k auth_call =
    Register user_create | Login string string | Refresh "'k option" "'k option" | Logout 'k "'k option"
  | ChangePassword 'k string string | RequestReset string | ResetPassword string string
  | RequestOtp string | VerifyOtp string string | Me 'k | UpdateMe 'k profile_update

fun serve :: "('r, 'k) auth_env \<Rightarrow> 'k auth_call \<Rightarrow> 'r auth_state \<Rightarrow> 'r auth_state" where
  "serve E (Register c) s = snd (auth_request (register_user E c) s)"
| "serve E (Login i p) s = snd (login_endpoint E i p s)"
| "serve E (Refresh cookie body) s = snd (refresh_endpoint E cookie body s)"
| "serve E (Logout tok r) s = snd (auth_request (logout_user E tok r) s)"
| "serve E (ChangePassword tok old new) s = snd (change_password_endpoint E tok old new s)"
| "serve E (RequestReset email) s = snd (auth_request (request_password_reset E email) s)"
| "serve E (ResetPassword token p) s = snd (reset_password_endpoint E token p s)"
| "serve E (RequestOtp email) s = snd (auth_request (send_email_verification E email) s)"
| "serve E (VerifyOtp email code) s = snd (verify_otp_endpoint E email code s)"
| "serve E (Me tok) s = snd (auth_request (current_active_user E tok) s)"
| "serve E (UpdateMe tok c) s = snd (update_me_endpoint E tok c s)"

fun call_tokens :: "'k auth_call \<Rightarrow> 'k list" where
  "call_tokens (Refresh (Some t) body) = [t]"
| "call_tokens (Refresh None (Some t)) = [t]"
| "call_tokens (Logout t (Some r)) = [t, r]"
| "call_tokens (Logout t None) = [t]"
| "call_tokens (ChangePassword t old new) = [t]"
| "call_tokens (Me t) = [t]"
| "call_tokens (UpdateMe t c) = [t]"
| "call_tokens c = []"

text \<open>
  The states a server reaches from \<open>s\<close> by serving requests one after the other, each with its own
  clock reading and random draws; every token presented satisfies \<open>H\<close>.
\<close>

inductive served ::
    "('k \<Rightarrow> bool) \<Rightarrow> ('r, 'k) auth_env \<Rightarrow> 'r auth_state \<Rightarrow> ('r, 'k) auth_env \<Rightarrow> 'r auth_state \<Rightarrow> bool"
  for H E s where
  none: "served H E s E s"
| call: "served H E s F t \<Longrightarrow> later F G \<Longrightarrow> \<forall>tok \<in> set (call_tokens c). H tok \<Longrightarrow> served H E s G (serve G c t)"

inductive_cases served_cases: "served H E s F t"

lemma served_later: "served H E s F t \<Longrightarrow> later E F"
  by (induction rule: served.induct) (auto intro: later_trans)

text \<open>The identifier \<open>j\<close> is that of one token only, which expires at \<open>e\<close>.\<close>

definition owns_jti :: "('r, 'k) auth_env \<Rightarrow> string \<Rightarrow> int \<Rightarrow> 'k \<Rightarrow> bool" where
  "owns_jti E j e tok \<longleftrightarrow>
     (\<forall>t c. ae_decode E t tok = Some c \<longrightarrow> cl_jti c = Some j \<longrightarrow> cl_exp c = Some e)"

lemma keeps_decoded:
  assumes "redis_store (ae_redis E)" and "owns_jti E j e tok"
  shows "keeps (revoked E j e) (andThen (decode_token E tok) (blacklist_payload E))"
proof (cases "ae_decode E (ae_now E) tok")
  case None
  then show ?thesis by (simp add: keeps_def andThen_def decode_token_eval)
next
  case (Some c)
  with assms(2) have "keeps (revoked E j e) (blacklist_payload E c)"
    by (intro keeps_blacklist assms(1)) (auto simp: owns_jti_def)
  with Some show ?thesis by (simp add: keeps_def andThen_def decode_token_eval)
qed

lemma keeps_request: "keeps (revoked E j e) m \<Longrightarrow> keeps (revoked E j e) (auth_request m)"
  by (auto simp: keeps_def auth_request_def revoked_def split: prod.splits sum.splits)

lemma keeps_decode_then:
  assumes "\<And>c. ae_decode E (ae_now E) tok = Some c \<Longrightarrow> keeps P (f c)"
  shows "keeps P (andThen (decode_token E tok) f)"
  using assms by (auto simp: keeps_def andThen_def decode_token_eval split: option.splits)

lemma keeps_require_then:
  assumes "\<And>x. v = Some x \<Longrightarrow> keeps P (f x)"
  shows "keeps P (andThen (require_some e v) f)"
  using assms by (cases v) (auto simp: keeps_def andThen_def ret_def raise_def)

lemma keeps_blacklist_of:
  "redis_store (ae_redis E) \<Longrightarrow> owns_jti E j e tok \<Longrightarrow> ae_decode E t tok = Some c \<Longrightarrow>
   keeps (revoked E j e) (blacklist_payload E c)"
  by (intro keeps_blacklist) (auto simp: owns_jti_def)

lemma keeps_track:
  "redis_store (ae_redis E) \<Longrightarrow> keeps (revoked E j e) (track_failed_login E k)"
  unfolding track_failed_login_def by (intro keeps_intros keeps_redis other_keys)

lemma keeps_login:
  "redis_store (ae_redis E) \<Longrightarrow> keeps (revoked E j e) (login_user E i p)"
  unfolding login_user_def Let_def is_account_locked_def
  by (intro keeps_intros keeps_redis keeps_track other_keys)

lemma keeps_blacklist_test: "keeps (revoked E j e) (raise_if_blacklisted E c)"
  unfolding raise_if_blacklisted_def by (intro keeps_intros)

lemma keeps_refresh:
  "redis_store (ae_redis E) \<Longrightarrow> owns_jti E j e tok \<Longrightarrow> keeps (revoked E j e) (refresh_access_token E tok)"
  unfolding refresh_access_token_def
  by (intro keeps_decode_then keeps_intros keeps_blacklist_test keeps_blacklist_of)

lemma keeps_verify: "keeps (revoked E j e) (verify_token E tok)"
  unfolding verify_token_def by (intro keeps_intros keeps_blacklist_test)

lemma keeps_active: "keeps (revoked E j e) (current_active_user E tok)"
  unfolding current_active_user_def by (intro keeps_intros keeps_verify)

lemma keeps_logout:
  "redis_store (ae_redis E) \<Longrightarrow> owns_jti E j e tok \<Longrightarrow> (\<And>r. refresh = Some r \<Longrightarrow> owns_jti E j e r) \<Longrightarrow>
   keeps (revoked E j e) (logout_user E tok refresh)"
  unfolding logout_user_def
  by (cases refresh) (auto intro!: keeps_decode_then keeps_intros keeps_decoded intro: keeps_blacklist_of)

lemma keeps_change:
  "redis_store (ae_redis E) \<Longrightarrow> owns_jti E j e tok \<Longrightarrow>
   keeps (revoked E j e) (change_password E i old new (Some tok))"
  unfolding change_password_def option.case by (intro keeps_intros keeps_decoded)

lemma keeps_otp:
  assumes "redis_store (ae_redis E)"
  shows "keeps (revoked E j e) (request_email_otp E u)" "keeps (revoked E j e) (verify_email_otp E u code)"
  unfolding request_email_otp_def verify_email_otp_def by (intro keeps_intros keeps_redis assms other_keys)+

lemma serve_keeps:
  assumes "redis_store (ae_redis E)" and "\<forall>tok \<in> set (call_tokens c). owns_jti E j e tok" and "revoked E j e s"
  shows "revoked E j e (serve E c s)"
proof -
  have "keeps (revoked E j e) (login_endpoint E i p)" for i p
    unfolding login_endpoint_def by (intro keeps_request keeps_intros keeps_login assms(1))
  moreover have "keeps (revoked E j e) (auth_request (register_user E x))" for x
    unfolding register_user_def by (intro keeps_request keeps_intros)
  moreover have "keeps (revoked E j e) (refresh_endpoint E cookie body)"
    if "c = Refresh cookie body" for cookie body
    using assms(1,2) that unfolding refresh_endpoint_def
    by (intro keeps_request keeps_require_then keeps_refresh) (auto split: option.splits)
  moreover have "keeps (revoked E j e) (auth_request (logout_user E tok r))" if "c = Logout tok r" for tok r
    using assms(1,2) that by (cases r) (auto intro!: keeps_request keeps_logout)
  moreover have "keeps (revoked E j e) (change_password_endpoint E tok old new)"
    if "c = ChangePassword tok old new" for tok old new
    using assms(1,2) that unfolding change_password_endpoint_def
    by (intro keeps_request keeps_intros keeps_active keeps_change) auto
  moreover have "keeps (revoked E j e) (auth_request (request_password_reset E x))" for x
    unfolding request_password_reset_def send_password_reset_email_def
    by (intro keeps_request keeps_intros keeps_redis assms(1) other_keys)
  moreover have "keeps (revoked E j e) (reset_password_endpoint E x p)" for x p
    unfolding reset_password_endpoint_def reset_password_def
    by (intro keeps_request keeps_intros keeps_redis assms(1) other_keys)
  moreover have "keeps (revoked E j e) (auth_request (send_email_verification E x))" for x
    unfolding send_email_verification_def by (intro keeps_request keeps_intros keeps_otp assms(1))
  moreover have "keeps (revoked E j e) (verify_otp_endpoint E x y)" for x y
    unfolding verify_otp_endpoint_def confirm_email_otp_def by (intro keeps_request keeps_intros keeps_otp assms(1))
  moreover have "keeps (revoked E j e) (auth_request (current_active_user E tok))" for tok
    by (intro keeps_request keeps_active)
  moreover have "keeps (revoked E j e) (update_me_endpoint E tok x)" for tok x
    unfolding update_me_endpoint_def by (intro keeps_request keeps_intros keeps_active)
  ultimately show ?thesis using assms(3) by (cases c) (simp_all add: keeps_def)
qed

lemma served_revoked:
  assumes "served (owns_jti E j e) E s F t" and "redis_store (ae_redis E)" and "revoked E j e s"
  shows "revoked F j e t"
  using assms
proof (induction rule: served.induct)
  case (call F t G c)
  have l: "later E G" using served_later [OF call.hyps(1)] call.hyps(2) by (rule later_trans)
  then have "owns_jti G = owns_jti E" "redis_store (ae_redis G)"
    using call.prems(1) by (auto simp: later_def owns_jti_def fun_eq_iff)
  with call show ?case by (auto intro!: serve_keeps intro: revoked_later)
qed

lemma session_redis: "session_libs E \<Longrightarrow> redis_store (ae_redis E)"
  by (rule session_store.axioms)

lemma session_codec: "session_libs E \<Longrightarrow> token_codec (ae_encode E) (ae_decode E)"
  by (rule session_store.axioms)

lemma revoked_refused:
  assumes "session_libs E" and "ae_decode E t tok = Some c" and "cl_jti c = Some j" and "j \<noteq> []"
    and "cl_exp c = Some e" and "revoked E j e s"
  shows "\<exists>x. verify_token E tok s = (Inl (AppError Unauthorized x), s)"
    and "\<exists>x. refresh_access_token E tok s = (Inl (AppError Unauthorized x), s)"
proof -
  note again = token_codec.decode_again [OF session_codec [OF assms(1)] assms(2), of "ae_now E"]
  have "valid_at (ae_now E) c \<Longrightarrow> truthy (rd_get (ae_redis E) (ae_now E) (''blacklist:'' @ j) (as_redis s))"
    using assms(5,6) by (simp add: revoked_def blacklist_key_def valid_at_def)
  with again assms(3,4) show "\<exists>x. verify_token E tok s = (Inl (AppError Unauthorized x), s)"
    "\<exists>x. refresh_access_token E tok s = (Inl (AppError Unauthorized x), s)"
    by (auto simp: verify_token_def refresh_access_token_def andThen_def decode_token_eval ensure_def ret_def raise_def
        raise_if_blacklisted_def cache_get_def gets_def)
qed

section \<open>Sample environment\<close>

definition sample_auth :: "time \<Rightarrow> string \<Rightarrow> (ttl_store, claims) auth_env" where
  "sample_auth now draw = \<lparr>ae_now = now, ae_redis = ttl_redis, ae_hash = (\<lambda>p. ''$'' @ p),
     ae_verify = (\<lambda>p h. h = ''$'' @ p), ae_encode = (\<lambda>c. c), ae_decode = signed_decode,
     ae_access_jti = ''a'' @ draw, ae_refresh_jti = ''r'' @ draw, ae_reset_token = ''t'' @ draw, ae_otp = 1234,
     ae_access_minutes = 30, ae_refresh_days = 7, ae_frontend_url = ''https://shop/'', ae_default_city = ''HCM''\<rparr>"

definition sample_account :: user where
  "sample_account = (sample_user 5 Customer)\<lparr>u_phone := Some ''+84912345678'', u_email := Some ''an@shop.vn'',
     u_hashed_password := Some ''$Secret1''\<rparr>"

definition sample_auth_state :: "ttl_store auth_state" where
  "sample_auth_state = \<lparr>as_db = empty_db\<lparr>users := [sample_account], next_id := 6\<rparr>, as_redis = (\<lambda>k. None), as_mail = []\<rparr>"

lemma sample_libs: "session_libs (sample_auth now draw)"
  using signed.session_store_axioms by (simp add: sample_auth_def)

lemma sample_later [simp]: "later (sample_auth a x) (sample_auth b y) \<longleftrightarrow> a \<le> b"
  by (simp add: later_def sample_auth_def)

lemma sample_hashing [simp]: "hashing (sample_auth a x) (sample_auth b y)"
  by (simp add: hashing_def sample_auth_def)

definition sample_token :: claims where
  "sample_token = create_access_token (sample_auth (secs 10) ''0'') (uuid_text 5) ''customer''"


section \<open>Revoked tokens\<close>



end
