(* ===== verification/Accounts.thy ===== *)
theory Accounts
  imports Sessions
begin

text \<open>
  Login and registration: the lock after five failures and what it is keyed by, what a successful
  login returns, and the account a registration creates.
\<close>

section \<open>Login\<close>

lemma lower_fixed [simp]: "ascii_lower (ascii_lower c) = ascii_lower c"
  by (auto simp: ascii_lower_def code_point_def)

lemma py_lower_idem [simp]: "py_lower (py_lower s) = py_lower s"
  by (simp add: py_lower_def comp_def)

lemma lookup_key_fixed [simp]: "py_lower (lookup_key i) = lookup_key i"
  by (simp add: lookup_key_def)

lemma track_eval:
  "track_failed_login E k s =
     (let b = bump (ae_redis E) (ae_now E) (failed_key k) failed_login_ttl (as_redis s);
          t = s\<lparr>as_redis := snd b\<rparr> in
      if failed_login_limit \<le> fst b
      then (Inr (), t\<lparr>as_redis := rd_setex (ae_redis E) (ae_now E) (lockout_key k) lockout_ttl ''1'' (snd b)\<rparr>)
      else (Inr (), t))"
  unfolding track_failed_login_def counted_eq Let_def by (simp add: cache_setex_def modify_def ret_def)

definition locked_at :: "('r, 'k) auth_env \<Rightarrow> string \<Rightarrow> 'r auth_state \<Rightarrow> bool" where
  "locked_at E k s \<longleftrightarrow> truthy (rd_get (ae_redis E) (ae_now E) (lockout_key k) (as_redis s))"

definition login_accepts :: "('r, 'k) auth_env \<Rightarrow> string \<Rightarrow> user option \<Rightarrow> bool" where
  "login_accepts E p m \<longleftrightarrow>
     (case m of None \<Rightarrow> False | Some u \<Rightarrow> truthy (u_hashed_password u) \<and> ae_verify E p (the (u_hashed_password u)))"

text \<open>The four ways a login ends.\<close>

lemma login_eval:
  "login_user E i p s =
     (let k = lookup_key i; m = resolve_login_user i (as_db s) in
      if locked_at E k s then (Inl (AppError Unauthorized ''account_locked''), s)
      else if \<not> login_accepts E p m
      then (Inl (AppError Unauthorized ''invalid_credentials''), snd (track_failed_login E k s))
      else if \<not> u_is_active (the m) then (Inl (AppError Unauthorized ''inactive_user''), s)
      else (Inr (create_auth_result E (the m)),
            s\<lparr>as_redis := rd_delete (ae_redis E) (failed_key k) (as_redis s)\<rparr>))"
proof -
  have f: "andThen (track_failed_login E k) (\<lambda>_. raise x) t = (Inl x, snd (track_failed_login E k t))" for k x t
    by (simp add: track_eval Let_def andThen_def raise_def)
  show ?thesis
    by (auto simp: login_user_def Let_def is_account_locked_def andThen_def cache_get_def gets_def ret_def raise_def
        ensure_def locked_at_def login_accepts_def cache_delete_def modify_def failed_key_def on_db_def
        split: option.splits) (simp_all add: f [unfolded andThen_def])
qed

lemma login_failed:
  "login_user E i p s = (Inl (AppError Unauthorized ''invalid_credentials''), s') \<Longrightarrow>
   \<not> locked_at E (lookup_key i) s \<and> s' = snd (track_failed_login E (lookup_key i) s)"
  by (auto simp: login_eval Let_def split: if_splits)

text \<open>A run of login attempts, each with its own clock; the results and the final state.\<close>

fun attempts ::
    "(('r, 'k) auth_env \<times> string \<times> string) list \<Rightarrow> 'r auth_state \<Rightarrow> (exn + 'k auth_result) list \<times> 'r auth_state" where
  "attempts [] s = ([], s)"
| "attempts ((E, i, p) # as) s =
     (case login_user E i p s of (r, t) \<Rightarrow> (case attempts as t of (rs, u) \<Rightarrow> (r # rs, u)))"

definition refused :: "exn + 'k auth_result \<Rightarrow> bool" where
  "refused r \<longleftrightarrow> r = Inl (AppError Unauthorized ''invalid_credentials'')"

fun same_login :: "time \<Rightarrow> time \<Rightarrow> string \<Rightarrow> 'r redis \<Rightarrow> (('r, 'k) auth_env \<times> string \<times> string) list \<Rightarrow> bool" where
  "same_login from until k R [] = True"
| "same_login from until k R ((E, i, p) # as) =
     (from \<le> ae_now E \<and> ae_now E < until \<and> lookup_key i = k \<and> ae_redis E = R \<and> same_login (ae_now E) until k R as)"

lemma track_counting:
  assumes "redis_store R" and "ae_redis E = R" and "py_lower k = k" and "counting R (failed_key k) n u t (as_redis s)"
    and "t \<le> ae_now E" and "ae_now E < u" and "0 < n"
  shows "counting R (failed_key k) (Suc n) u (ae_now E) (as_redis (snd (track_failed_login E k s)))"
proof -
  note b = redis_store.bump_next [OF assms(1,4-7), of failed_login_ttl]
  have "failed_key k \<noteq> lockout_key k" by (simp add: failed_key_def lockout_key_def)
  from redis_store.get_setex_other [OF assms(1) this] b show ?thesis
    by (auto simp: track_eval Let_def assms(2) counting_def)
qed

lemma track_locks:
  assumes "redis_store R" and "ae_redis E = R" and "counting R (failed_key k) n u t (as_redis s)"
    and "t \<le> ae_now E" and "ae_now E < u" and "4 \<le> n"
    and "ae_redis F = R" and "ae_now E \<le> ae_now F" and "ae_now F < ae_now E + secs lockout_ttl"
  shows "locked_at F k (snd (track_failed_login E k s))"
proof -
  have "fst (bump R (ae_now E) (failed_key k) failed_login_ttl (as_redis s)) = Suc n"
    using assms(6) by (intro redis_store.bump_next [OF assms(1,3-5)]) simp
  then have "failed_login_limit \<le> fst (bump R (ae_now E) (failed_key k) failed_login_ttl (as_redis s))"
    using assms(6) by (simp add: failed_login_limit_def)
  with redis_store.get_setex [OF assms(1), of lockout_ttl "ae_now E" "ae_now F" "lockout_key k"] assms(7-9)
  show ?thesis by (simp add: track_eval Let_def assms(2) locked_at_def lockout_ttl_def)
qed

lemma attempts_counting:
  fixes as :: "(('r, 'k) auth_env \<times> string \<times> string) list"
  assumes "redis_store R" and "same_login t u k R as" and "\<forall>r \<in> set (fst (attempts as s)). refused r"
    and "counting R (failed_key k) n u t (as_redis s)" and "0 < n" and "as \<noteq> []" and "py_lower k = k"
    and "4 \<le> n + length as - 1"
  shows "\<exists>E s'. fst (last as) = E \<and>
    (\<forall>F :: ('r, 'k) auth_env. ae_redis F = R \<and> ae_now E \<le> ae_now F \<and> ae_now F < ae_now E + secs lockout_ttl \<longrightarrow>
      locked_at F k (snd (attempts as s)))"
  using assms(2-6,8)
proof (induction as arbitrary: s t n)
  case (Cons a as)
  obtain E i p where a: "a = (E, i, p)" by (cases a)
  obtain r s' where run: "login_user E i p s = (r, s')" by force
  with Cons.prems(2) have "r = Inl (AppError Unauthorized ''invalid_credentials'')"
    by (auto simp: a refused_def split: prod.splits)
  with run have s': "s' = snd (track_failed_login E k s)"
    using Cons.prems(1) by (auto simp: a dest!: login_failed)
  have E: "t \<le> ae_now E" "ae_now E < u" "ae_redis E = R" using Cons.prems(1) by (auto simp: a)
  show ?case
  proof (cases "as = []")
    case True
    with Cons.prems(6) have "4 \<le> n" by simp
    with track_locks [OF assms(1) E(3) Cons.prems(3) E(1,2)] True show ?thesis
      by (auto simp: a run s')
  next
    case False
    have "counting R (failed_key k) (Suc n) u (ae_now E) (as_redis s')"
      unfolding s' by (rule track_counting [OF assms(1) E(3) assms(7) Cons.prems(3) E(1,2) Cons.prems(4)])
    from Cons.IH [OF _ _ this] Cons.prems False show ?thesis by (auto simp: a run split: prod.splits)
  qed
qed simp

text \<open>
  C25. Five failed logins with the same normalised identifier within an hour, counted from the first,
  lock it: for the next 900 seconds every login with that identifier is refused with status 401,
  the right password included, and nothing changes.
\<close>

theorem five_failures_lock:
  fixes as :: "(('r, 'k) auth_env \<times> string \<times> string) list" and F :: "('r, 'k) auth_env"
  assumes "redis_store R" and "length as = 5" and "same_login t0 (t0 + secs 3600) k R as"
    and "ae_now (fst (hd as)) = t0" and "rd_get R t0 (failed_key k) (as_redis s) = None"
    and "attempts as s = (rs, s')" and "\<forall>r \<in> set rs. refused r"
    and "ae_redis F = R" and "ae_now (fst (last as)) \<le> ae_now F" and "ae_now F < ae_now (fst (last as)) + secs 900"
    and "lookup_key i = k"
  shows "login_user F i p s' = (Inl (AppError Unauthorized ''account_locked''), s')"
proof -
  obtain E j q bs where as: "as = (E, j, q) # bs" "length bs = 4" using assms(2) by (cases as) auto
  obtain r s1 where run: "login_user E j q s = (r, s1)" by force
  with assms(6,7) as have "r = Inl (AppError Unauthorized ''invalid_credentials'')"
    by (auto simp: refused_def split: prod.splits)
  with run have s1: "s1 = snd (track_failed_login E k s)" using assms(3) by (auto simp: as dest!: login_failed)
  have low: "py_lower k = k" "bs \<noteq> []" using assms(11) as(2) by auto
  have E: "ae_now E = t0" "ae_redis E = R" using assms(3,4) by (simp_all add: as)
  note b = redis_store.bump_first [OF assms(1) assms(5), of failed_login_ttl]
  have "counting R (failed_key k) 1 (t0 + secs 3600) t0 (as_redis s1)"
    using b by (simp add: s1 track_eval Let_def E failed_login_ttl_def failed_login_limit_def)
  from attempts_counting [OF assms(1) _ _ this _ low(2,1)] assms(3,6,7) as run E
  have "\<exists>E s'. fst (last bs) = E \<and> (\<forall>F :: ('r, 'k) auth_env. ae_redis F = R \<and> ae_now E \<le> ae_now F \<and>
      ae_now F < ae_now E + secs lockout_ttl \<longrightarrow> locked_at F k (snd (attempts bs s1)))"
    by (auto split: prod.splits)
  moreover have "last as = last bs" "snd (attempts bs s1) = s'"
    using as low(2) assms(6) run by (auto split: prod.splits)
  ultimately have "locked_at F k s'" using assms(8-10) by (simp add: lockout_ttl_def)
  with assms(11) show ?thesis by (simp add: login_eval)
qed

lemma five_failures_lock_witness:
  "\<exists>rs s'. attempts (map (\<lambda>n. (sample_auth (secs n) ''x'', ''0912345678'', ''wrong'')) [10, 20, 30, 40, 50])
       sample_auth_state = (rs, s') \<and>
     login_user (sample_auth (secs 900) ''y'') '' 0912345678'' ''Secret1'' s' =
       (Inl (AppError Unauthorized ''account_locked''), s')"
proof -
  let ?as = "map (\<lambda>n. (sample_auth (secs n) ''x'', ''0912345678'', ''wrong'')) [10, 20, 30, 40, 50]"
  obtain rs s' where r: "attempts ?as sample_auth_state = (rs, s')" by force
  have res: "\<forall>r \<in> set (fst (attempts ?as sample_auth_state)). refused r" by code_simp
  have k: "lookup_key ''0912345678'' = ''0912345678''" "lookup_key '' 0912345678'' = ''0912345678''" by code_simp+
  have sl: "same_login (secs 10) (secs 10 + secs 3600) ''0912345678'' ttl_redis ?as"
    by (simp add: k sample_auth_def) (simp add: secs_def)
  have n: "rd_get ttl_redis (secs 10) (failed_key ''0912345678'') (as_redis sample_auth_state) = None"
    by (simp add: ttl_redis_def live_def sample_auth_state_def)
  have "login_user (sample_auth (secs 900) ''y'') '' 0912345678'' ''Secret1'' s' =
      (Inl (AppError Unauthorized ''account_locked''), s')"
    by (rule five_failures_lock [OF ttl.redis_store_axioms _ sl _ n r _ _ _ _ k(2)])
      (use res r in \<open>simp_all add: sample_auth_def secs_def\<close>)
  with r show ?thesis by blast
qed

text \<open>
  The lock belongs to the spelling of the identifier, not to the account: while the national
  spelling of a phone number is locked, the international spelling of the same number resolves to
  the same account and a login with it goes through.
\<close>

lemma lock_follows_spelling:
  assumes "phone_body b" and "user_by_phone (''+84'' @ b) (as_db s) = Some u" and "u_is_active u"
    and "u_hashed_password u = Some (ae_hash D p)" and "hashing D E"
    and "locked_at E (lookup_key (''0'' @ b)) s" and "\<not> locked_at E (lookup_key (''+84'' @ b)) s"
  shows "resolve_login_user (''0'' @ b) (as_db s) = resolve_login_user (''+84'' @ b) (as_db s) \<and>
    login_user E (''0'' @ b) p s = (Inl (AppError Unauthorized ''account_locked''), s) \<and>
    fst (login_user E (''+84'' @ b) p s) = Inr (create_auth_result E u)"
proof -
  have d: "is_digit (CHR ''0'')" "is_digit (CHR ''8'')" "is_digit (CHR ''4'')"
    by (simp_all add: is_digit_def code_point_def)
  have strip: "py_strip (''0'' @ b) = ''0'' @ b" "py_strip (''+84'' @ b) = ''+84'' @ b"
    using phone_body_chars [OF assms(1)] digit_not_space plus_plain d
    by (auto intro!: py_strip_id simp: list_all_iff)
  have r: "resolve_login_user (''0'' @ b) (as_db s) = Some u" "resolve_login_user (''+84'' @ b) (as_db s) = Some u"
    using validate_phone_local [OF assms(1)] validate_phone_intl [OF assms(1)] assms(2)
    unfolding resolve_login_user_def strip Let_def by auto
  have "login_accepts E p (Some u)"
    using assms(4,5) by (simp add: login_accepts_def hashing_def)
  with r assms(3,6,7) show ?thesis by (simp add: login_eval)
qed

lemma lock_follows_spelling_witness:
  "\<exists>s. fst (login_user (sample_auth (secs 100) ''y'') ''+84912345678'' ''Secret1'' s) =
       Inr (create_auth_result (sample_auth (secs 100) ''y'') sample_account) \<and>
     login_user (sample_auth (secs 100) ''y'') ''0912345678'' ''Secret1'' s =
       (Inl (AppError Unauthorized ''account_locked''), s)"
proof -
  let ?E = "sample_auth (secs 100) ''y''"
  let ?s = "sample_auth_state\<lparr>as_redis := [lockout_key ''0912345678'' \<mapsto> (''1'', Some (secs 900))]\<rparr>"
  have b: "phone_body ''912345678''" by (simp add: is_digit_def code_point_def)
  have l: "lookup_key ''0912345678'' = ''0912345678''" "lookup_key ''+84912345678'' = ''+84912345678''" by code_simp+
  have "user_by_phone ''+84912345678'' (as_db ?s) = Some sample_account"
    "u_is_active sample_account" "u_hashed_password sample_account = Some (ae_hash ?E ''Secret1'')"
    by (simp_all add: user_by_phone_def sample_auth_state_def sample_account_def sample_user_def sample_auth_def)
  moreover have "locked_at ?E ''0912345678'' ?s" "\<not> locked_at ?E ''+84912345678'' ?s"
    by (simp_all add: locked_at_def sample_auth_def ttl_redis_def live_def lockout_key_def py_lower_def ascii_lower_def
        code_point_def secs_def)
  ultimately show ?thesis
    using lock_follows_spelling [OF b, of ?s sample_account ?E "''Secret1''" ?E] by (auto simp: l)
qed

text \<open>
  C26. A login only succeeds for the account its identifier resolves to, active and with a matching
  password; it writes nothing to the database. Until it expires the access token it returns is
  accepted as that account's, while the two tokens cannot be used in each other's place.
\<close>

theorem login_session:
  assumes "session_libs E" and "login_user E i p s = (Inr r, s1)" and "unique_by u_id (users (as_db s))"
    and "u_id (ar_user r) < 2 ^ 128" and "later E F" and "ae_now F < secs (now_s E + 60 * ae_access_minutes E)"
    and "\<not> truthy (rd_get (ae_redis F) (ae_now F) (blacklist_key (ae_access_jti E)) (as_redis s1))"
  shows "resolve_login_user i (as_db s) = Some (ar_user r) \<and> u_is_active (ar_user r) \<and>
    (\<exists>h. u_hashed_password (ar_user r) = Some h \<and> ae_verify E p h) \<and> as_db s1 = as_db s \<and>
    verify_token F (ar_access r) s1 = (Inr (ar_user r), s1) \<and>
    fst (verify_token F (ar_refresh r) s1) = Inl (AppError Unauthorized ''invalid_token'') \<and>
    fst (refresh_access_token F (ar_access r) s1) = Inl (AppError Unauthorized ''invalid_token'')"
proof -
  from assms(2) obtain u where u: "resolve_login_user i (as_db s) = Some u" "login_accepts E p (Some u)" "u_is_active u"
    and r: "r = create_auth_result E u" and s1: "as_db s1 = as_db s"
    by (auto simp: login_eval Let_def login_accepts_def split: if_splits option.splits)
  have "u \<in> set (users (as_db s))"
    using u(1) by (auto simp: resolve_login_user_def Let_def user_by_phone_def user_by_email_def find_Some_iff
        split: sum.splits option.splits if_splits)
  with find_row_unique [OF assms(3)] have find: "user_by_id (u_id u) (as_db s1) = Some u"
    by (simp add: user_by_id_def s1)
  have id: "parse_uuid (uuid_text (u_id u)) = Inr (u_id u)"
    using assms(4) r uuid_round_trip_id by (simp add: create_auth_result_def)
  have exp: "(ae_now E + secs (60 * m)) div 1000000 = now_s E + 60 * m" for m
    using div_mult_self2 [of 1000000 "ae_now E" "60 * m"] by (simp add: now_s_def secs_def mult.commute)
  have iat: "secs (now_s E) \<le> ae_now F"
    using assms(5) now_s_le [of E] by (auto simp: later_def)
  note dec = token_codec.decode_encode [OF session_codec [OF assms(1)]]
  have F: "ae_decode F = ae_decode E" using assms(5) by (simp add: later_def)
  obtain c where c: "ae_decode F (ae_now F) (ar_access r) = Some c" "cl_type c = Some ''access''"
      "cl_jti c = Some (ae_access_jti E)" "cl_sub c = Some (uuid_text (u_id u))"
    using assms(6) iat by (auto simp: F r create_auth_result_def create_access_token_def dec valid_at_def exp)
  have d: "ae_decode F (ae_now F) (ar_refresh r) = Some c' \<Longrightarrow> cl_type c' = Some ''refresh''" for c'
    by (auto simp: F r create_auth_result_def create_refresh_token_def dec split: if_splits)
  have "verify_token F (ar_access r) s1 = (Inr u, s1)"
    using c find id u(3) assms(7)
    by (simp add: verify_token_def andThen_def decode_token_eval ensure_def ret_def raise_if_blacklisted_def
        cache_get_def gets_def blacklist_key_def payload_user_id_def lift_result_def)
  moreover have "fst (verify_token F (ar_refresh r) s1) = Inl (AppError Unauthorized ''invalid_token'')"
    using d by (cases "ae_decode F (ae_now F) (ar_refresh r)")
      (auto simp: verify_token_def andThen_def decode_token_eval ensure_def raise_def)
  moreover have "fst (refresh_access_token F (ar_access r) s1) = Inl (AppError Unauthorized ''invalid_token'')"
    using c by (simp add: refresh_access_token_def andThen_def decode_token_eval ensure_def raise_def)
  moreover have "ar_user r = u" by (simp add: r create_auth_result_def)
  ultimately show ?thesis using u s1 by (auto simp: login_accepts_def truthy_def)
qed

lemma login_session_witness:
  "\<exists>r s1. login_user (sample_auth (secs 10) ''1'') ''0912345678'' ''Secret1'' sample_auth_state = (Inr r, s1) \<and>
     verify_token (sample_auth (secs 1000) ''2'') (ar_access r) s1 = (Inr sample_account, s1)"
proof -
  let ?E = "sample_auth (secs 10) ''1''" and ?F = "sample_auth (secs 1000) ''2''"
  let ?r = "create_auth_result ?E sample_account"
  have m: "resolve_login_user ''0912345678'' (as_db sample_auth_state) = Some sample_account" by code_simp
  obtain s1 where s1: "login_user ?E ''0912345678'' ''Secret1'' sample_auth_state = (Inr ?r, s1)"
    "as_redis s1 = rd_delete ttl_redis (failed_key (lookup_key ''0912345678'')) (as_redis sample_auth_state)"
    using m by (simp add: login_eval login_accepts_def locked_at_def sample_auth_def sample_account_def
        sample_user_def ttl_redis_def live_def sample_auth_state_def)
  have u: "unique_by u_id (users (as_db sample_auth_state))" "u_id (ar_user ?r) < 2 ^ 128"
    "ar_user ?r = sample_account"
    by (simp_all add: sample_auth_state_def unique_by_def create_auth_result_def sample_account_def sample_user_def)
  have "ae_now ?F < secs (now_s ?E + 60 * ae_access_minutes ?E)"
    "\<not> truthy (rd_get (ae_redis ?F) (ae_now ?F) (blacklist_key (ae_access_jti ?E)) (as_redis s1))"
    by (simp_all add: s1 sample_auth_def now_s_def secs_def ttl_redis_def live_def sample_auth_state_def)
  from login_session [OF sample_libs s1(1) u(1,2) _ this] s1(1) u(3) show ?thesis by auto
qed

section \<open>Registration\<close>

lemma repo_create_user_done:
  assumes "repo_create_user now city data h s = (Inr u, s')"
  shows "u = new_user (next_id s) now city h data \<and> s' = s\<lparr>users := users s @ [u], next_id := next_id s + 1\<rparr>"
  using assms by (auto simp: repo_create_user_def op_simps)

lemma parse_user_create_phone:
  "parse_user_create c = Inr d \<Longrightarrow>
   (\<exists>p. validate_phone (uc_phone c) = Inr p \<and> uc_phone d = p) \<and> uc_password d = uc_password c \<and> password_ok (uc_password d)"
  by (auto simp: parse_user_create_def split: if_splits sum.splits)

lemma find_snoc: "(\<And>v. v \<in> set xs \<Longrightarrow> \<not> P v) \<Longrightarrow> P u \<Longrightarrow> find P (xs @ [u]) = Some u"
  by (induction xs) auto

lemma register_done:
  assumes "register_user E c s = (Inr u, s1)"
  shows "\<exists>d. parse_user_create c = Inr d \<and> user_by_phone (uc_phone d) (as_db s) = None \<and>
    (truthy (uc_email d) \<longrightarrow> user_by_email (the (uc_email d)) (as_db s) = None) \<and>
    repo_create_user (ae_now E) (ae_default_city E) d (ae_hash E (uc_password d)) (as_db s) = (Inr u, as_db s1)"
proof -
  from assms obtain d where "parse_user_create c = Inr d" "user_by_phone (uc_phone d) (as_db s) = None"
    "(if truthy (uc_email d) then user_by_email (the (uc_email d)) (as_db s) else None) = None"
    "on_db (repo_create_user (ae_now E) (ae_default_city E) d (ae_hash E (uc_password d))) s = (Inr u, s1)"
    unfolding register_user_def by (simp only: andThen_Inr lift_result_eq ensure_Inr on_db_gets prod.inject sum.inject)
      (elim exE conjE, metis)
  moreover from this(4) have
    "repo_create_user (ae_now E) (ae_default_city E) d (ae_hash E (uc_password d)) (as_db s) = (Inr u, as_db s1)"
    by (simp only: on_db_Inr) auto
  ultimately show ?thesis by (cases "truthy (uc_email d)") simp_all
qed

text \<open>
  C27. Registration adds exactly one account, an active customer with the canonical phone number, no
  stored copy of the password and no account sharing its phone or e-mail; any spelling of the phone
  number then logs in with the registered password.
\<close>

theorem register_then_login:
  assumes "register_user E c s = (Inr u, s1)" and "hashing E F"
    and "validate_phone (py_strip i) = validate_phone (uc_phone c)" and "\<not> locked_at F (lookup_key i) s1"
  shows "users (as_db s1) = users (as_db s) @ [u] \<and> u_role u = Customer \<and> u_is_active u \<and>
    validate_phone (uc_phone c) = Inr (the (u_phone u)) \<and> u_hashed_password u = Some (ae_hash E (uc_password c)) \<and>
    (\<forall>v \<in> set (users (as_db s)). u_phone v \<noteq> u_phone u \<and> (truthy (u_email u) \<longrightarrow> u_email v \<noteq> u_email u)) \<and>
    fst (login_user F i (uc_password c) s1) = Inr (create_auth_result F u)"
proof -
  from register_done [OF assms(1)] obtain d where d: "parse_user_create c = Inr d" "user_by_phone (uc_phone d) (as_db s) = None"
      "truthy (uc_email d) \<longrightarrow> user_by_email (the (uc_email d)) (as_db s) = None"
    and db: "repo_create_user (ae_now E) (ae_default_city E) d (ae_hash E (uc_password d)) (as_db s) = (Inr u, as_db s1)"
    by blast
  note row = repo_create_user_done [OF db]
  from parse_user_create_phone [OF d(1)] obtain p where
    p: "validate_phone (uc_phone c) = Inr p" "uc_phone d = p" "uc_password d = uc_password c" by blast
  have u: "u_phone u = Some p" "u_role u = Customer" "u_is_active u" "u_hashed_password u = Some (ae_hash E (uc_password c))"
    "u_email u = (if truthy (uc_email d) then map_option py_lower (uc_email d) else None)"
    and db1: "users (as_db s1) = users (as_db s) @ [u]"
    using row p by (simp_all add: new_user_def)
  have new: "\<forall>v \<in> set (users (as_db s)). u_phone v \<noteq> Some p"
    using d(2) p(2) by (auto simp: user_by_phone_def find_None_iff)
  moreover have "\<forall>v \<in> set (users (as_db s)). truthy (u_email u) \<longrightarrow> u_email v \<noteq> u_email u"
    using d(3) u(5) by (auto simp: user_by_email_def find_None_iff truthy_def)
  moreover have "resolve_login_user i (as_db s1) = Some u"
  proof -
    have "find (\<lambda>u. u_phone u = Some p) (users (as_db s) @ [u]) = Some u"
      using new u(1) by (intro find_snoc) auto
    then show ?thesis
      using assms(3) p(1) by (simp add: resolve_login_user_def user_by_phone_def db1)
  qed
  then have "fst (login_user F i (uc_password c) s1) = Inr (create_auth_result F u)"
    using assms(2,4) u by (simp add: login_eval login_accepts_def hashing_def)
  ultimately show ?thesis using db1 u p by auto
qed

definition sample_signup :: user_create where
  "sample_signup = \<lparr>uc_email = None, uc_full_name = Some ''Binh'', uc_phone = ''0987 654 321'', uc_password = ''Secret2''\<rparr>"

lemma register_then_login_witness:
  "\<exists>u s1. register_user (sample_auth 0 ''1'') sample_signup sample_auth_state = (Inr u, s1) \<and> u_role u = Customer \<and>
     fst (login_user (sample_auth (secs 60) ''2'') '' 0987-654-321 '' ''Secret2'' s1) =
       Inr (create_auth_result (sample_auth (secs 60) ''2'') u)"
proof -
  let ?E = "sample_auth 0 ''1''" and ?F = "sample_auth (secs 60) ''2''"
  define run where "run = register_user ?E sample_signup sample_auth_state"
  have "\<not> isl (fst run)" unfolding run_def by code_simp
  then obtain u s1 where r: "register_user ?E sample_signup sample_auth_state = (Inr u, s1)"
    using run_split [of run] unfolding run_def by metis
  have l: "\<not> locked_at ?F (lookup_key '' 0987-654-321 '') (snd run)" unfolding run_def by code_simp
  have v: "validate_phone (py_strip '' 0987-654-321 '') = validate_phone (uc_phone sample_signup)" by code_simp
  have p: "uc_password sample_signup = ''Secret2''" by (simp add: sample_signup_def)
  from register_then_login [OF r sample_hashing v] l show ?thesis unfolding run_def r p by auto
qed

end
