(* ===== verification/Recovery.thy ===== *)
theory Recovery
  imports Accounts
begin

text \<open>
  Password reset and e-mail verification: single use, expiry, and the limit on resent codes.
\<close>

section \<open>Password reset\<close>

lemma keys_differ [simp]: "reset_key a \<noteq> blacklist_key b" "reset_key a = reset_key b \<longleftrightarrow> a = b"
  by (simp_all add: reset_key_def blacklist_key_def)

text \<open>
  What a password reset request answers, and what it leaves in the database, does not depend on
  whether the address has an account: the response is the same for any two databases.
\<close>

lemma reset_request_silent:
  "fst (request_password_reset E email s) = fst (request_password_reset F email' s') \<and>
   as_db (snd (request_password_reset E email s)) = as_db s \<and>
   fst (send_email_verification E email s) = fst (send_email_verification F email' s') \<and>
   as_db (snd (send_email_verification E email s)) = as_db s"
proof -
  have otp: "\<exists>b t. request_email_otp E u s = (Inr b, t) \<and> as_db t = as_db s"
    for E :: "('x, 'y) auth_env" and u s
    unfolding request_email_otp_def counted_eq
    by (auto simp: ret_def cache_setex_def send_mail_def andThen_def modify_def)
  have reset: "request_password_reset E email s = (Inr True, snd (request_password_reset E email s)) \<and>
      as_db (snd (request_password_reset E email s)) = as_db s" for E :: "('x, 'y) auth_env" and email s
    by (cases "user_by_email (py_lower email) (as_db s)")
      (auto simp: request_password_reset_def andThen_def ret_def cache_setex_def modify_def
        send_password_reset_email_def send_mail_def)
  have verif: "fst (send_email_verification E email s) = Inr () \<and> as_db (snd (send_email_verification E email s)) = as_db s"
    for E :: "('x, 'y) auth_env" and email s
  proof (cases "user_by_email (py_lower email) (as_db s)")
    case (Some u)
    obtain b t where "request_email_otp E u s = (Inr b, t)" "as_db t = as_db s" using otp by blast
    with Some show ?thesis by (simp add: send_email_verification_def andThen_def ret_def)
  qed (simp add: send_email_verification_def andThen_def ret_def)
  show ?thesis using reset verif by (metis fst_conv)
qed

lemma repo_update_user_done:
  assumes "user_by_id i s = Some u" and "identity_free i (f u) s"
  shows "repo_update_user i f s = (Inr (Some (f u)), s\<lparr>users := upd_row u_id i f (users s)\<rparr>)"
  using assms by (simp add: repo_update_user_def andThen_def gets_def ensure_def ret_def modify_def)

text \<open>The unique indexes hold of the stored rows.\<close>

definition accounts_ok :: "db \<Rightarrow> bool" where
  "accounts_ok s \<longleftrightarrow> unique_by u_id (users s) \<and> (\<forall>u \<in> set (users s). u_id u < 2 ^ 128 \<and> identity_free (u_id u) u s)"

lemma accounts_okD:
  assumes "accounts_ok s" and "u \<in> set (users s)"
  shows "user_by_id (u_id u) s = Some u" and "u_id u < 2 ^ 128" and "identity_free (u_id u) u s"
  using assms find_row_unique [of u_id "users s" u] by (auto simp: accounts_ok_def user_by_id_def)

text \<open>
  C28. The token a reset request mails sets the password of exactly the account that owns the
  address, for 3600 seconds and once: the second use and every use after the hour are refused with
  status 400 and change nothing.
\<close>

theorem reset_token_once:
  assumes "redis_store (ae_redis E)" and "accounts_ok (as_db s)"
    and "user_by_email (py_lower email) (as_db s) = Some u"
    and "request_password_reset E email s = (b, s1)" and "later E F" and "ae_reset_token E = token"
  shows "(ae_now F < ae_now E + secs 3600 \<longrightarrow>
      (\<exists>s2. reset_password F token new_password s1 = (Inr True, s2) \<and>
        as_db s2 = (as_db s)\<lparr>users := upd_row u_id (u_id u) (set_password (ae_hash F new_password)) (users (as_db s))\<rparr> \<and>
        (\<forall>G other. ae_redis G = ae_redis F \<longrightarrow>
          reset_password G token other s2 = (Inl (AppError Validation ''invalid_reset_token''), s2)))) \<and>
    (ae_now E + secs 3600 \<le> ae_now F \<longrightarrow>
      reset_password F token new_password s1 = (Inl (AppError Validation ''invalid_reset_token''), s1))"
proof -
  have mem: "u \<in> set (users (as_db s))"
    using assms(3) by (auto simp: user_by_email_def find_Some_iff)
  note acc = accounts_okD [OF assms(2) mem]
  have s1: "as_db s1 = as_db s"
    "as_redis s1 = rd_setex (ae_redis E) (ae_now E) (reset_key token) 3600 (uuid_text (u_id u)) (as_redis s)"
    using assms(3,4,6) by (auto simp: request_password_reset_def andThen_def cache_setex_def modify_def ret_def
        send_password_reset_email_def send_mail_def password_reset_ttl_def)
  have F: "ae_redis F = ae_redis E" "ae_now E \<le> ae_now F" using assms(5) by (auto simp: later_def)
  have raw: "rd_get (ae_redis F) (ae_now F) (reset_key token) (as_redis s1) =
      (if ae_now F < ae_now E + secs 3600 then Some (uuid_text (u_id u)) else None)"
    using redis_store.get_setex [OF assms(1), of 3600 "ae_now E" "ae_now F"] F by (simp add: s1)
  have free: "identity_free (u_id u) (set_password h u) (as_db s)" for h
    using acc(3) by (simp add: identity_free_def set_password_def)
  have upd: "repo_update_user (u_id u) (set_password h) (as_db s) = (Inr (Some (set_password h u)),
      (as_db s)\<lparr>users := upd_row u_id (u_id u) (set_password h) (users (as_db s))\<rparr>)" for h
    by (rule repo_update_user_done [OF acc(1)]) (rule free)
  have gone: "rd_get (ae_redis F) t (reset_key token) (rd_delete (ae_redis F) (reset_key token) r) = None" for t r
    by (simp add: F redis_store.get_delete [OF assms(1)])
  have "reset_password F token new_password s1 =
      (Inl (AppError Validation ''invalid_reset_token''), s1)" if "ae_now E + secs 3600 \<le> ae_now F"
    using raw that by (simp add: reset_password_def andThen_def cache_get_def gets_def ensure_def raise_def)
  moreover have "\<exists>s2. reset_password F token new_password s1 = (Inr True, s2) \<and>
      as_db s2 = (as_db s)\<lparr>users := upd_row u_id (u_id u) (set_password (ae_hash F new_password)) (users (as_db s))\<rparr> \<and>
      (\<forall>G other. ae_redis G = ae_redis F \<longrightarrow>
        reset_password G token other s2 = (Inl (AppError Validation ''invalid_reset_token''), s2))"
    if "ae_now F < ae_now E + secs 3600"
    using raw that acc(1) upd [of "ae_hash F new_password"] uuid_round_trip_id [OF acc(2)]
    by (simp add: reset_password_def andThen_def cache_get_def gets_def ensure_def raise_def ret_def lift_result_def
        s1(1) on_db_def cache_delete_def modify_def gone)
  ultimately show ?thesis by blast
qed

lemma sample_accounts_ok: "accounts_ok (as_db sample_auth_state)"
  by (simp add: accounts_ok_def unique_by_def identity_free_def sample_auth_state_def sample_account_def sample_user_def)

lemma reset_token_once_witness:
  "\<exists>b s1 s2. request_password_reset (sample_auth 0 ''1'') ''An@shop.vn'' sample_auth_state = (b, s1) \<and>
     reset_password (sample_auth (secs 60) ''2'') ''t1'' ''Fresh99'' s1 = (Inr True, s2) \<and>
     reset_password (sample_auth (secs 61) ''3'') ''t1'' ''Other99'' s2 = (Inl (AppError Validation ''invalid_reset_token''), s2)"
proof -
  let ?E = "sample_auth 0 ''1''" and ?F = "sample_auth (secs 60) ''2''" and ?G = "sample_auth (secs 61) ''3''"
  have u: "user_by_email (py_lower ''An@shop.vn'') (as_db sample_auth_state) = Some sample_account" by code_simp
  obtain b s1 where r: "request_password_reset ?E ''An@shop.vn'' sample_auth_state = (b, s1)" by force
  have e: "redis_store (ae_redis ?E)" "later ?E ?F" "ae_reset_token ?E = ''t1''" "ae_now ?F < ae_now ?E + secs 3600"
    "ae_redis ?G = ae_redis ?F"
    by (simp_all add: sample_auth_def ttl.redis_store_axioms secs_def later_def)
  from reset_token_once [OF e(1) sample_accounts_ok u r e(2,3)] e(4,5) r show ?thesis by blast
qed

section \<open>E-mail verification\<close>

lemma code_digits: "zero_pad 6 n \<noteq> []"
  by simp

lemma code_injective: "zero_pad 6 m = zero_pad 6 n \<Longrightarrow> m = n"
  by (metis parse_zero_pad)

lemma verified_free:
  "identity_free i u s \<Longrightarrow> identity_free i (u\<lparr>u_email_verified := True\<rparr>) s"
  by (simp add: identity_free_def)

lemma otp_keys [simp]: "otp_key i \<noteq> resend_key j" "resend_key j \<noteq> otp_key i"
  by (simp_all add: otp_key_def resend_key_def)

lemma request_otp_eval:
  assumes "truthy (u_email u)"
  shows "request_email_otp E u s =
    (let b = bump (ae_redis E) (ae_now E) (resend_key (u_id u)) email_otp_resend_ttl (as_redis s) in
     if email_otp_resend_limit < fst b then (Inr False, s\<lparr>as_redis := snd b\<rparr>)
     else (Inr True, s\<lparr>as_redis := rd_setex (ae_redis E) (ae_now E) (otp_key (u_id u)) email_otp_ttl
             (zero_pad 6 (ae_otp E)) (snd b), as_mail := as_mail s @ [OtpMail (the (u_email u)) (zero_pad 6 (ae_otp E))]\<rparr>))"
  using assms unfolding request_email_otp_def counted_eq
  by (simp add: Let_def ret_def cache_setex_def send_mail_def andThen_def modify_def)

text \<open>
  A verification code is mailed to the account's own address only. For 600 seconds exactly that
  code marks exactly that account as verified, once; any other code and any code after that time are
  refused and change nothing.
\<close>

lemma otp_once:
  assumes "redis_store (ae_redis E)" and "accounts_ok (as_db s)" and "u \<in> set (users (as_db s))"
    and "request_email_otp E u s = (Inr True, s1)" and "later E F"
  shows "as_mail s1 = as_mail s @ [OtpMail (the (u_email u)) (zero_pad 6 (ae_otp E))] \<and>
    (\<forall>n. n \<noteq> ae_otp E \<or> ae_now E + secs 600 \<le> ae_now F \<longrightarrow> verify_email_otp F u (zero_pad 6 n) s1 = (Inr False, s1)) \<and>
    (ae_now F < ae_now E + secs 600 \<longrightarrow>
      (\<exists>s2. verify_email_otp F u (zero_pad 6 (ae_otp E)) s1 = (Inr True, s2) \<and>
        as_db s2 = (as_db s)\<lparr>users := upd_row u_id (u_id u) (\<lambda>u. u\<lparr>u_email_verified := True\<rparr>) (users (as_db s))\<rparr> \<and>
        (\<forall>G code. ae_redis G = ae_redis F \<longrightarrow> verify_email_otp G u code s2 = (Inr False, s2))))"
proof -
  note acc = accounts_okD [OF assms(2,3)]
  have "truthy (u_email u)" using assms(4) by (auto simp: request_email_otp_def ret_def split: if_splits)
  from assms(4) request_otp_eval [OF this, of E s] obtain r where s1: "as_db s1 = as_db s"
      "as_redis s1 = rd_setex (ae_redis E) (ae_now E) (otp_key (u_id u)) 600 (zero_pad 6 (ae_otp E)) r"
      "as_mail s1 = as_mail s @ [OtpMail (the (u_email u)) (zero_pad 6 (ae_otp E))]"
    by (auto simp: Let_def email_otp_ttl_def split: if_splits)
  have F: "ae_redis F = ae_redis E" "ae_now E \<le> ae_now F" using assms(5) by (auto simp: later_def)
  have raw: "rd_get (ae_redis F) (ae_now F) (otp_key (u_id u)) (as_redis s1) =
      (if ae_now F < ae_now E + secs 600 then Some (zero_pad 6 (ae_otp E)) else None)"
    using redis_store.get_setex [OF assms(1), of 600 "ae_now E" "ae_now F"] F by (simp add: s1)
  have upd: "repo_update_user (u_id u) (\<lambda>u. u\<lparr>u_email_verified := True\<rparr>) (as_db s) =
      (Inr (Some (u\<lparr>u_email_verified := True\<rparr>)),
       (as_db s)\<lparr>users := upd_row u_id (u_id u) (\<lambda>u. u\<lparr>u_email_verified := True\<rparr>) (users (as_db s))\<rparr>)"
    by (rule repo_update_user_done [OF acc(1)]) (rule verified_free [OF acc(3)])
  have gone: "rd_get (ae_redis F) t (otp_key (u_id u))
      (rd_delete (ae_redis F) (resend_key (u_id u)) (rd_delete (ae_redis F) (otp_key (u_id u)) q)) = None" for t q
    by (simp add: F redis_store.get_delete [OF assms(1)] redis_store.get_delete_other [OF assms(1)])
  have no: "verify_email_otp F u (zero_pad 6 n) s1 = (Inr False, s1)"
    if "n \<noteq> ae_otp E \<or> ae_now E + secs 600 \<le> ae_now F" for n
    using raw that code_injective [of "ae_otp E" n]
    by (auto simp: verify_email_otp_def andThen_def cache_get_def gets_def ret_def)
  have "\<exists>s2. verify_email_otp F u (zero_pad 6 (ae_otp E)) s1 = (Inr True, s2) \<and>
      as_db s2 = (as_db s)\<lparr>users := upd_row u_id (u_id u) (\<lambda>u. u\<lparr>u_email_verified := True\<rparr>) (users (as_db s))\<rparr> \<and>
      (\<forall>G code. ae_redis G = ae_redis F \<longrightarrow> verify_email_otp G u code s2 = (Inr False, s2))"
    if "ae_now F < ae_now E + secs 600"
    using raw that upd
    by (simp add: verify_email_otp_def andThen_def cache_get_def gets_def ret_def s1(1) on_db_def cache_delete_def
        modify_def gone)
  with no s1(3) show ?thesis by blast
qed

lemma otp_once_witness:
  "\<exists>s1 s2. request_email_otp (sample_auth 0 ''1'') sample_account sample_auth_state = (Inr True, s1) \<and>
     verify_email_otp (sample_auth (secs 60) ''2'') sample_account ''001234'' s1 = (Inr True, s2) \<and>
     verify_email_otp (sample_auth (secs 61) ''3'') sample_account ''001234'' s2 = (Inr False, s2)"
proof -
  let ?E = "sample_auth 0 ''1''" and ?F = "sample_auth (secs 60) ''2''" and ?G = "sample_auth (secs 61) ''3''"
  define run where "run = request_email_otp ?E sample_account sample_auth_state"
  have "fst run = Inr True" unfolding run_def by code_simp
  then obtain s1 where r: "request_email_otp ?E sample_account sample_auth_state = (Inr True, s1)"
    by (metis run_def prod.collapse)
  have e: "redis_store (ae_redis ?E)" "later ?E ?F" "zero_pad 6 (ae_otp ?E) = ''001234''" "ae_now ?F < ae_now ?E + secs 600"
    "ae_redis ?G = ae_redis ?F"
    by (simp_all add: sample_auth_def ttl.redis_store_axioms secs_def later_def) code_simp
  have m: "sample_account \<in> set (users (as_db sample_auth_state))" by (simp add: sample_auth_state_def)
  from otp_once [OF e(1) sample_accounts_ok m r e(2)] e(3-5) r show ?thesis by metis
qed

text \<open>Repeated requests for one account, each at its own time.\<close>

fun resend :: "('r, 'k) auth_env list \<Rightarrow> user \<Rightarrow> 'r auth_state \<Rightarrow> (exn + bool) list \<times> 'r auth_state" where
  "resend [] u s = ([], s)"
| "resend (E # Es) u s =
     (case request_email_otp E u s of (r, t) \<Rightarrow> (case resend Es u t of (rs, v) \<Rightarrow> (r # rs, v)))"

fun within :: "time \<Rightarrow> time \<Rightarrow> 'r redis \<Rightarrow> ('r, 'k) auth_env list \<Rightarrow> bool" where
  "within from until R [] = True"
| "within from until R (E # Es) = (from \<le> ae_now E \<and> ae_now E < until \<and> ae_redis E = R \<and> within (ae_now E) until R Es)"

lemma resend_counted:
  assumes "redis_store R" and "within t w R Es" and "truthy (u_email u)"
    and "counting R (resend_key (u_id u)) n w t (as_redis s)" and "0 < n"
  shows "fst (resend Es u s) = map (\<lambda>i. Inr (n + i < 5)) [0..<length Es]"
  using assms(2,4,5)
proof (induction Es arbitrary: s t n)
  case (Cons E Es)
  have E: "t \<le> ae_now E" "ae_now E < w" "ae_redis E = R" "within (ae_now E) w R Es" using Cons.prems(1) by auto
  note b = redis_store.bump_next [OF assms(1) Cons.prems(2) E(1,2) Cons.prems(3), of email_otp_resend_ttl]
  obtain r s' where run: "request_email_otp E u s = (r, s')" by force
  with request_otp_eval [OF assms(3), of E s] b(1) have r: "r = Inr (n < 5)"
    by (auto simp: Let_def E email_otp_resend_limit_def split: if_splits)
  have "counting R (resend_key (u_id u)) (Suc n) w (ae_now E) (as_redis s')"
    using run request_otp_eval [OF assms(3), of E s] b(2) redis_store.get_setex_other [OF assms(1)]
    by (auto simp: Let_def E counting_def split: if_splits)
  from Cons.IH [OF E(4) this] run r show ?case
    by (cases "resend Es u s'") (simp add: upt_conv_Cons map_Suc_upt [symmetric] comp_def del: upt_Suc)
qed simp

text \<open>
  Of any number of requests for a verification code within an hour, counted from the first,
  exactly the first five are served; the others send nothing.
\<close>

lemma otp_resend_limit:
  assumes "redis_store R" and "within t (t + secs 3600) R (E # Es)" and "ae_now E = t" and "truthy (u_email u)"
    and "rd_get R t (resend_key (u_id u)) (as_redis s) = None"
  shows "fst (resend (E # Es) u s) = map (\<lambda>i. Inr (i < 5)) [0..<Suc (length Es)]"
proof -
  have E: "ae_redis E = R" "within t (t + secs 3600) R Es" using assms(2,3) by auto
  note b = redis_store.bump_first [OF assms(1,5), of email_otp_resend_ttl]
  obtain r s' where run: "request_email_otp E u s = (r, s')" by force
  with request_otp_eval [OF assms(4), of E s] b(1) have r: "r = Inr True"
    by (auto simp: Let_def E assms(3) email_otp_resend_limit_def email_otp_resend_ttl_def split: if_splits)
  have "counting R (resend_key (u_id u)) 1 (t + secs 3600) t (as_redis s')"
    using run request_otp_eval [OF assms(4), of E s] b redis_store.get_setex_other [OF assms(1)]
    by (auto simp: Let_def E assms(3) counting_def email_otp_resend_ttl_def split: if_splits)
  from resend_counted [OF assms(1) E(2) assms(4) this] run r show ?thesis
    by (cases "resend Es u s'") (simp add: upt_conv_Cons map_Suc_upt [symmetric] comp_def del: upt_Suc)
qed

lemma otp_resend_limit_witness:
  "fst (resend (map (\<lambda>n. sample_auth (secs n) ''x'') [1, 2, 3, 4, 5, 6]) sample_account sample_auth_state) =
     [Inr True, Inr True, Inr True, Inr True, Inr True, Inr False]"
proof -
  let ?E = "sample_auth (secs 1) ''x''" and ?Es = "map (\<lambda>n. sample_auth (secs n) ''x'') [2, 3, 4, 5, 6]"
  have w: "within (secs 1) (secs 1 + secs 3600) ttl_redis (?E # ?Es)" by (simp add: sample_auth_def secs_def)
  have e: "ae_now ?E = secs 1" "truthy (u_email sample_account)"
    "rd_get ttl_redis (secs 1) (resend_key (u_id sample_account)) (as_redis sample_auth_state) = None"
    by (simp_all add: sample_auth_def sample_account_def sample_auth_state_def ttl_redis_def live_def)
  from otp_resend_limit [OF ttl.redis_store_axioms w e] show ?thesis by (simp add: upt_conv_Cons)
qed

end
