(* ===== verification/PriceAlerts.thy ===== *)
theory PriceAlerts
  imports Catalog "HOL-Library.Multiset"
begin

text \<open>
  Price-change e-mails: the double opt-in subscriptions of \<^verbatim>\<open>PriceSubscriptionRepository\<close> and
  \<^verbatim>\<open>PriceAlertService\<close>, their endpoints, and the notification run of an administrator. Sent mail is
  part of the state. The texts of the messages are left out, the links and the price table they
  carry are modelled; the currency sign that ends a price is not.
\<close>

section \<open>Rows and state\<close>

record subscription =
  sb_id :: uuid
  sb_email :: string
  sb_user_id :: "uuid option"
  sb_confirmed :: bool
  sb_confirm_token :: string
  sb_unsubscribe_token :: string
  sb_confirm_expires_at :: "time option"
  sb_confirmed_at :: "time option"
  sb_unsubscribed_at :: "time option"
  sb_created_at :: time

datatype alert_mail =
    ConfirmMail string string string
  | PriceMail string "(string \<times> string) list" string

record alert_state =
  pa_db :: db
  pa_rows :: "subscription list"
  pa_next :: uuid
  pa_mail :: "alert_mail list"

type_synonym 'a alertop = "(alert_state, 'a) op"

text \<open>
  The clock, the two drawn tokens, the site's address, the collation, and which addresses the mail
  provider accepts.
\<close>

record alert_env =
  pe_now :: time
  pe_confirm_token :: string
  pe_unsubscribe_token :: string
  pe_frontend_url :: string
  pe_pg :: pg
  pe_delivers :: "string \<Rightarrow> bool"

definition confirm_token_ttl :: time where
  "confirm_token_ttl = 7 * 86400 * 1000000"

section \<open>Repository\<close>

definition sub_active :: "subscription \<Rightarrow> bool" where
  "sub_active r \<longleftrightarrow> sb_unsubscribed_at r = None"

definition active_by_email :: "string \<Rightarrow> alert_state \<Rightarrow> subscription option" where
  "active_by_email email s = find (\<lambda>r. sb_email r = email \<and> sub_active r) (pa_rows s)"

definition by_confirm_token :: "string \<Rightarrow> alert_state \<Rightarrow> subscription option" where
  "by_confirm_token token s = find_row sb_confirm_token token (pa_rows s)"

definition by_unsubscribe_token :: "string \<Rightarrow> alert_state \<Rightarrow> subscription option" where
  "by_unsubscribe_token token s = find_row sb_unsubscribe_token token (pa_rows s)"

definition confirmed_active :: "alert_state \<Rightarrow> subscription list" where
  "confirmed_active s = sort_key sb_created_at (filter (\<lambda>r. sb_confirmed r \<and> sub_active r) (pa_rows s))"

text \<open>The unique indexes: both tokens, and the e-mail among active rows.\<close>

definition sub_free :: "string \<Rightarrow> string \<Rightarrow> string \<Rightarrow> alert_state \<Rightarrow> bool" where
  "sub_free email c u s \<longleftrightarrow>
     (\<forall>r \<in> set (pa_rows s). sb_confirm_token r \<noteq> c \<and> sb_unsubscribe_token r \<noteq> u \<and> (sub_active r \<longrightarrow> sb_email r \<noteq> email))"

definition new_subscription :: "alert_env \<Rightarrow> uuid \<Rightarrow> string \<Rightarrow> uuid option \<Rightarrow> subscription" where
  "new_subscription E i email uid =
     \<lparr>sb_id = i, sb_email = email, sb_user_id = uid, sb_confirmed = False,
      sb_confirm_token = pe_confirm_token E, sb_unsubscribe_token = pe_unsubscribe_token E,
      sb_confirm_expires_at = Some (pe_now E + confirm_token_ttl), sb_confirmed_at = None,
      sb_unsubscribed_at = None, sb_created_at = pe_now E\<rparr>"

definition repo_create_subscription :: "alert_env \<Rightarrow> string \<Rightarrow> uuid option \<Rightarrow> subscription alertop" where
  "repo_create_subscription E email uid =
     andThen (gets (sub_free email (pe_confirm_token E) (pe_unsubscribe_token E))) (\<lambda>ok.
     andThen (ensure ok (PyError ''IntegrityError'')) (\<lambda>_.
     andThen (gets (\<lambda>s. new_subscription E (pa_next s) email uid)) (\<lambda>r.
     andThen (modify (\<lambda>s. s\<lparr>pa_rows := pa_rows s @ [r], pa_next := pa_next s + 1\<rparr>)) (\<lambda>_.
     ret r))))"

definition set_confirmed :: "time \<Rightarrow> subscription \<Rightarrow> subscription" where
  "set_confirmed now r = (if sb_confirmed r then r else r\<lparr>sb_confirmed := True, sb_confirmed_at := Some now\<rparr>)"

definition set_unsubscribed :: "time \<Rightarrow> subscription \<Rightarrow> subscription" where
  "set_unsubscribed now r = (if sub_active r then r\<lparr>sb_unsubscribed_at := Some now\<rparr> else r)"

definition mark_confirmed :: "time \<Rightarrow> subscription \<Rightarrow> unit alertop" where
  "mark_confirmed now r = modify (\<lambda>s. s\<lparr>pa_rows := upd_row sb_confirm_token (sb_confirm_token r) (set_confirmed now) (pa_rows s)\<rparr>)"

definition mark_unsubscribed :: "time \<Rightarrow> subscription \<Rightarrow> unit alertop" where
  "mark_unsubscribed now r =
     modify (\<lambda>s. s\<lparr>pa_rows := upd_row sb_unsubscribe_token (sb_unsubscribe_token r) (set_unsubscribed now) (pa_rows s)\<rparr>)"

section \<open>Links and texts\<close>

definition confirm_url :: "alert_env \<Rightarrow> string \<Rightarrow> string" where
  "confirm_url E token = rstrip_char (CHR ''/'') (pe_frontend_url E) @ ''/price-alerts/confirm?token='' @ token"

definition unsubscribe_url :: "alert_env \<Rightarrow> string \<Rightarrow> string" where
  "unsubscribe_url E token = rstrip_char (CHR ''/'') (pe_frontend_url E) @ ''/price-alerts/unsubscribe?token='' @ token"

text \<open>The size as the alert mails show it: \<^verbatim>\<open>rstrip\<close> also takes the zeros of a whole number.\<close>

definition size_text :: "int \<Rightarrow> string" where
  "size_text h = rstrip_char (CHR ''.'') (rstrip_char (CHR ''0'') (plain_decimal (nat h)))"

definition alert_name :: "product \<Rightarrow> string" where
  "alert_name p = p_brand p @ '' '' @ p_name p @ '' '' @ size_text (p_size_kg p) @ unit_text (p_unit p)"

definition get_display_name :: "product \<Rightarrow> string" where
  "get_display_name p = p_brand p @ '' '' @ p_name p @ '' '' @ size_text (p_size_kg p) @ '' '' @ unit_text (p_unit p)"

text \<open>\<^verbatim>\<open>f"{int(price):,}"\<close> with points between groups of three digits.\<close>

fun group_digits :: "nat \<Rightarrow> string" where
  "group_digits n = (if n < 1000 then nat_digits n else group_digits (n div 1000) @ ''.'' @ zero_pad 3 (n mod 1000))"

declare group_digits.simps [simp del]

definition format_vnd :: "money \<Rightarrow> string" where
  "format_vnd price = group_digits (nat (price div 100))"

section \<open>PriceAlertService\<close>

definition send_alert_mail :: "alert_mail \<Rightarrow> unit alertop" where
  "send_alert_mail m = modify (\<lambda>s. s\<lparr>pa_mail := pa_mail s @ [m]\<rparr>)"

definition send_confirm_email :: "alert_env \<Rightarrow> string \<Rightarrow> string \<Rightarrow> string \<Rightarrow> unit alertop" where
  "send_confirm_email E email c u = send_alert_mail (ConfirmMail email (confirm_url E c) (unsubscribe_url E u))"

text \<open>The response is the same acknowledgement on every path.\<close>

definition subscribe :: "alert_env \<Rightarrow> string \<Rightarrow> uuid option \<Rightarrow> unit alertop" where
  "subscribe E email uid =
     (let normalized = py_lower (py_strip email) in
      andThen (gets (active_by_email normalized)) (\<lambda>m.
        case m of
          Some r \<Rightarrow> if sb_confirmed r then ret ()
                    else send_confirm_email E normalized (sb_confirm_token r) (sb_unsubscribe_token r)
        | None \<Rightarrow> (\<lambda>s. case repo_create_subscription E normalized uid s of
              (Inr r, t) \<Rightarrow> send_confirm_email E normalized (pe_confirm_token E) (pe_unsubscribe_token E) t
            | (Inl e, t) \<Rightarrow> if e = PyError ''IntegrityError'' then (Inr (), s) else (Inl e, t))))"

datatype confirm_result = Confirmed | Invalid | Expired

definition confirm :: "alert_env \<Rightarrow> string \<Rightarrow> confirm_result alertop" where
  "confirm E token =
     andThen (gets (by_confirm_token token)) (\<lambda>m.
       case m of
         None \<Rightarrow> ret Invalid
       | Some r \<Rightarrow>
           if \<not> sub_active r then ret Invalid
           else if sb_confirmed r then ret Confirmed
           else if (case sb_confirm_expires_at r of None \<Rightarrow> False | Some t \<Rightarrow> t \<le> pe_now E) then ret Expired
           else andThen (mark_confirmed (pe_now E) r) (\<lambda>_. ret Confirmed))"

definition unsubscribe :: "alert_env \<Rightarrow> string \<Rightarrow> bool alertop" where
  "unsubscribe E token =
     andThen (gets (by_unsubscribe_token token)) (\<lambda>m.
       case m of
         None \<Rightarrow> ret False
       | Some r \<Rightarrow> andThen (mark_unsubscribed (pe_now E) r) (\<lambda>_. ret True))"

definition on_catalog :: "'a dbop \<Rightarrow> 'a alertop" where
  "on_catalog m s = (case m (pa_db s) of (r, d) \<Rightarrow> (r, s\<lparr>pa_db := d\<rparr>))"

definition gas_price_rows :: "alert_env \<Rightarrow> (string \<times> string) list alertop" where
  "gas_price_rows E =
     andThen (on_catalog (list_active_catalog (pe_pg E) 100)) (\<lambda>catalog.
     ret (map (\<lambda>p. (alert_name p, format_vnd (p_price p))) (filter (\<lambda>p. p_category p = Gas) catalog)))"

definition notify_price_change :: "alert_env \<Rightarrow> (nat \<times> nat) alertop" where
  "notify_price_change E =
     andThen (gas_price_rows E) (\<lambda>rows.
     andThen (gets confirmed_active) (\<lambda>recipients.
     andThen (for_each (\<lambda>r. send_alert_mail (PriceMail (sb_email r) rows (unsubscribe_url E (sb_unsubscribe_token r)))) recipients) (\<lambda>_.
     ret (length (filter (\<lambda>r. pe_delivers E (sb_email r)) recipients), length recipients))))"

section \<open>Endpoints\<close>

definition parse_subscribe :: "string \<Rightarrow> bool \<Rightarrow> exn + string" where
  "parse_subscribe email consent = (if consent then Inr email else Inl (PyError ''ValidationError''))"

definition parse_token :: "string \<Rightarrow> exn + string" where
  "parse_token token = (if len_between 1 64 token then Inr token else Inl (PyError ''ValidationError''))"

definition subscribe_endpoint :: "alert_env \<Rightarrow> string \<Rightarrow> bool \<Rightarrow> user option \<Rightarrow> unit alertop" where
  "subscribe_endpoint E email consent u =
     andThen (lift_result (parse_subscribe email consent)) (\<lambda>e. subscribe E e (map_option u_id u))"

definition confirm_endpoint :: "alert_env \<Rightarrow> string \<Rightarrow> unit alertop" where
  "confirm_endpoint E token =
     andThen (lift_result (parse_token token)) (\<lambda>t.
     andThen (confirm E t) (\<lambda>r.
     andThen (ensure (r \<noteq> Expired) (AppError Validation ''confirm_token_expired'')) (\<lambda>_.
     ensure (r \<noteq> Invalid) (AppError NotFound ''invalid_token''))))"

definition unsubscribe_endpoint :: "alert_env \<Rightarrow> string \<Rightarrow> unit alertop" where
  "unsubscribe_endpoint E token =
     andThen (lift_result (parse_token token)) (\<lambda>t.
     andThen (unsubscribe E t) (\<lambda>ok. ensure ok (AppError NotFound ''invalid_token'')))"

definition notify_endpoint :: "alert_env \<Rightarrow> user \<Rightarrow> (nat \<times> nat) alertop" where
  "notify_endpoint E u =
     andThen (ensure (is_admin u) (AppError Forbidden ''admin_required'')) (\<lambda>_. notify_price_change E)"

text \<open>One request, whatever its outcome; a failed one leaves its rows as they were.\<close>

datatype alert_call =
  Subscribe string bool "user option" | Confirm string | Unsubscribe string | Notify user

fun alert_op :: "alert_env \<Rightarrow> alert_call \<Rightarrow> unit alertop" where
  "alert_op E (Subscribe email consent u) = subscribe_endpoint E email consent u"
| "alert_op E (Confirm token) = confirm_endpoint E token"
| "alert_op E (Unsubscribe token) = unsubscribe_endpoint E token"
| "alert_op E (Notify u) = andThen (notify_endpoint E u) (\<lambda>_. ret ())"

definition alert_serve :: "alert_env \<Rightarrow> alert_call \<Rightarrow> alert_state \<Rightarrow> alert_state" where
  "alert_serve E c s = (case alert_op E c s of
     (Inr x, t) \<Rightarrow> t | (Inl e, t) \<Rightarrow> s\<lparr>pa_mail := pa_mail t\<rparr>)"

section \<open>What one request does to the rows\<close>

text \<open>
  The rows after a request: one row appended with fresh tokens and a free e-mail, the row of a token
  confirmed in time or unsubscribed, or no change.
\<close>

inductive row_step :: "alert_env \<Rightarrow> alert_call \<Rightarrow> alert_state \<Rightarrow> subscription list \<Rightarrow> bool" for E c s where
  same: "row_step E c s (pa_rows s)"
| added: "sub_free email (pe_confirm_token E) (pe_unsubscribe_token E) s \<Longrightarrow>
    row_step E c s (pa_rows s @ [new_subscription E i email uid])"
| confirmed: "c = Confirm (sb_confirm_token r) \<Longrightarrow> r \<in> set (pa_rows s) \<Longrightarrow> sub_active r \<Longrightarrow>
    (\<forall>t. sb_confirm_expires_at r = Some t \<longrightarrow> pe_now E < t) \<Longrightarrow>
    row_step E c s (upd_row sb_confirm_token (sb_confirm_token r) (set_confirmed (pe_now E)) (pa_rows s))"
| ended: "c = Unsubscribe (sb_unsubscribe_token r) \<Longrightarrow> r \<in> set (pa_rows s) \<Longrightarrow>
    row_step E c s (upd_row sb_unsubscribe_token (sb_unsubscribe_token r) (set_unsubscribed (pe_now E)) (pa_rows s))"

lemma repo_create_eval:
  "repo_create_subscription E email uid s =
     (if sub_free email (pe_confirm_token E) (pe_unsubscribe_token E) s
      then (Inr (new_subscription E (pa_next s) email uid),
            s\<lparr>pa_rows := pa_rows s @ [new_subscription E (pa_next s) email uid], pa_next := pa_next s + 1\<rparr>)
      else (Inl (PyError ''IntegrityError''), s))"
  by (simp add: repo_create_subscription_def op_eval)

lemma subscribe_eval:
  "subscribe E email uid s =
     (let n = py_lower (py_strip email) in
      case active_by_email n s of
        Some r \<Rightarrow> if sb_confirmed r then (Inr (), s)
          else (Inr (), s\<lparr>pa_mail := pa_mail s @
                 [ConfirmMail n (confirm_url E (sb_confirm_token r)) (unsubscribe_url E (sb_unsubscribe_token r))]\<rparr>)
      | None \<Rightarrow> if sub_free n (pe_confirm_token E) (pe_unsubscribe_token E) s
          then (Inr (), s\<lparr>pa_rows := pa_rows s @ [new_subscription E (pa_next s) n uid], pa_next := pa_next s + 1,
                  pa_mail := pa_mail s @ [ConfirmMail n (confirm_url E (pe_confirm_token E))
                                            (unsubscribe_url E (pe_unsubscribe_token E))]\<rparr>)
          else (Inr (), s))"
  by (auto simp: subscribe_def Let_def repo_create_eval send_confirm_email_def send_alert_mail_def op_eval
      split: option.splits)

lemma confirm_eval:
  "confirm E token s =
     (case by_confirm_token token s of
        None \<Rightarrow> (Inr Invalid, s)
      | Some r \<Rightarrow> if \<not> sub_active r then (Inr Invalid, s) else if sb_confirmed r then (Inr Confirmed, s)
          else if (\<exists>t. sb_confirm_expires_at r = Some t \<and> t \<le> pe_now E) then (Inr Expired, s)
          else (Inr Confirmed, s\<lparr>pa_rows := upd_row sb_confirm_token token (set_confirmed (pe_now E)) (pa_rows s)\<rparr>))"
  by (auto simp: confirm_def op_eval mark_confirmed_def by_confirm_token_def dest: find_row_SomeD split: option.splits)

lemma unsubscribe_eval:
  "unsubscribe E token s =
     (case by_unsubscribe_token token s of
        None \<Rightarrow> (Inr False, s)
      | Some r \<Rightarrow> (Inr True, s\<lparr>pa_rows := upd_row sb_unsubscribe_token token (set_unsubscribed (pe_now E)) (pa_rows s)\<rparr>))"
  by (auto simp: unsubscribe_def op_eval mark_unsubscribed_def by_unsubscribe_token_def dest: find_row_SomeD
      split: option.splits)

lemma send_all:
  "for_each (\<lambda>r. send_alert_mail (f r)) rs s = (Inr (), s\<lparr>pa_mail := pa_mail s @ map f rs\<rparr>)"
  by (induction rs arbitrary: s) (simp_all add: send_alert_mail_def op_eval)

lemma notify_rows:
  assumes "notify_price_change E s = (r, t)"
  shows "pa_rows t = pa_rows s"
proof -
  have c: "pa_rows u = pa_rows s" if "on_catalog m s = (q, u)" for q u and m :: "'x dbop"
    using that by (auto simp: on_catalog_def split: prod.splits)
  from assms show ?thesis
    by (auto simp: notify_price_change_def gas_price_rows_def andThen_def gets_def ret_def send_all
        split: prod.splits sum.splits dest!: c)
qed

lemma serve_rows: "row_step E c s (pa_rows (alert_serve E c s))"
proof (cases c)
  case (Subscribe email consent u)
  show ?thesis
    by (auto simp: alert_serve_def Subscribe subscribe_endpoint_def parse_subscribe_def lift_result_def op_eval
        subscribe_eval Let_def intro: same added split: option.splits)
next
  case (Confirm token)
  have "row_step E c s (upd_row sb_confirm_token token (set_confirmed (pe_now E)) (pa_rows s))"
    if "by_confirm_token token s = Some r" "sub_active r" "\<forall>t. sb_confirm_expires_at r = Some t \<longrightarrow> \<not> t \<le> pe_now E" for r
    using confirmed [of c r s E] that find_row_SomeD [of sb_confirm_token token "pa_rows s" r]
    by (auto simp: Confirm by_confirm_token_def not_le)
  then show ?thesis
    by (auto simp: alert_serve_def Confirm confirm_endpoint_def parse_token_def lift_result_def op_eval
        confirm_eval intro: same split: option.splits)
next
  case (Unsubscribe token)
  have "row_step E c s (upd_row sb_unsubscribe_token token (set_unsubscribed (pe_now E)) (pa_rows s))"
    if "by_unsubscribe_token token s = Some r" for r
    using ended [of c r s E] that find_row_SomeD [of sb_unsubscribe_token token "pa_rows s" r]
    by (auto simp: Unsubscribe by_unsubscribe_token_def)
  then show ?thesis
    by (auto simp: alert_serve_def Unsubscribe unsubscribe_endpoint_def parse_token_def lift_result_def op_eval
        unsubscribe_eval intro: same split: option.splits)
next
  case (Notify u)
  have "pa_rows (alert_serve E c s) = pa_rows s"
    by (auto simp: alert_serve_def Notify notify_endpoint_def op_eval split: prod.splits sum.splits dest: notify_rows)
  with same [of E c s] show ?thesis by simp
qed

section \<open>Invariants\<close>

definition alerts_ok :: "subscription list \<Rightarrow> bool" where
  "alerts_ok rows \<longleftrightarrow> unique_by sb_confirm_token rows \<and> unique_by sb_unsubscribe_token rows \<and>
     distinct (map sb_email (filter sub_active rows))"

lemma set_confirmed_keeps [simp]:
  "sb_email (set_confirmed t r) = sb_email r" "sb_confirm_token (set_confirmed t r) = sb_confirm_token r"
  "sb_unsubscribe_token (set_confirmed t r) = sb_unsubscribe_token r" "sub_active (set_confirmed t r) = sub_active r"
  "sb_confirm_expires_at (set_confirmed t r) = sb_confirm_expires_at r"
  "sb_unsubscribed_at (set_confirmed t r) = sb_unsubscribed_at r" "sb_confirmed (set_confirmed t r)"
  by (simp_all add: set_confirmed_def sub_active_def)

lemma set_unsubscribed_keeps [simp]:
  "sb_email (set_unsubscribed t r) = sb_email r" "sb_confirm_token (set_unsubscribed t r) = sb_confirm_token r"
  "sb_unsubscribe_token (set_unsubscribed t r) = sb_unsubscribe_token r" "\<not> sub_active (set_unsubscribed t r)"
  "sb_confirmed (set_unsubscribed t r) = sb_confirmed r"
  "sb_confirm_expires_at (set_unsubscribed t r) = sb_confirm_expires_at r"
  by (auto simp: set_unsubscribed_def sub_active_def)

lemma upd_row_other_key: "(\<And>r. g (f r) = g r) \<Longrightarrow> map g (upd_row k i f rows) = map g rows"
  by (induction rows) auto

lemma active_after_end:
  "set (map sb_email (filter sub_active (upd_row k i (set_unsubscribed t) rows))) \<subseteq> set (map sb_email (filter sub_active rows))"
  "distinct (map sb_email (filter sub_active rows)) \<Longrightarrow>
   distinct (map sb_email (filter sub_active (upd_row k i (set_unsubscribed t) rows)))"
  by (induction rows) (auto split: if_splits)

lemma active_after_confirm:
  "map sb_email (filter sub_active (upd_row k i (set_confirmed t) rows)) = map sb_email (filter sub_active rows)"
  by (induction rows) auto

lemma row_step_ok:
  assumes "row_step E c s rows" and "alerts_ok (pa_rows s)"
  shows "alerts_ok rows"
  using assms(1)
proof (cases rule: row_step.cases)
  case same
  with assms(2) show ?thesis by simp
next
  case (added email i uid)
  then show ?thesis using assms(2)
    by (auto simp: alerts_ok_def unique_by_def sub_free_def new_subscription_def sub_active_def image_iff)
next
  case (confirmed r)
  then show ?thesis using assms(2)
    by (simp add: alerts_ok_def unique_by_def active_after_confirm keys_upd_row [of sb_unsubscribe_token]
        upd_row_other_key)
next
  case (ended r)
  then show ?thesis using assms(2)
    by (simp add: alerts_ok_def unique_by_def active_after_end upd_row_other_key)
qed

text \<open>The states reached from an empty table, with the requests served on the way.\<close>

inductive reach_alerts :: "(alert_env \<times> alert_call) list \<Rightarrow> alert_state \<Rightarrow> bool" where
  start: "pa_rows s = [] \<Longrightarrow> reach_alerts [] s"
| step: "reach_alerts h s \<Longrightarrow> reach_alerts (h @ [(E, c)]) (alert_serve E c s)"

lemma reach_ok: "reach_alerts h s \<Longrightarrow> alerts_ok (pa_rows s)"
proof (induction rule: reach_alerts.induct)
  case (start s)
  then show ?case by (simp add: alerts_ok_def unique_by_def)
next
  case (step h s E c)
  then show ?case by (intro row_step_ok [OF serve_rows])
qed

definition opted_in :: "(alert_env \<times> alert_call) list \<Rightarrow> subscription \<Rightarrow> bool" where
  "opted_in h r \<longleftrightarrow> (\<exists>E. (E, Confirm (sb_confirm_token r)) \<in> set h \<and>
     (\<forall>t. sb_confirm_expires_at r = Some t \<longrightarrow> pe_now E < t))"

lemma confirmed_step:
  assumes "row_step E c s rows" and "\<forall>r \<in> set (pa_rows s). sb_confirmed r \<longrightarrow> opted_in h r"
    and "r \<in> set rows" and "sb_confirmed r" and "alerts_ok (pa_rows s)"
  shows "opted_in (h @ [(E, c)]) r"
  using assms(1)
proof (cases rule: row_step.cases)
  case same
  with assms(2-4) show ?thesis by (auto simp: opted_in_def)
next
  case (added email i uid)
  with assms(2-4) show ?thesis by (auto simp: opted_in_def new_subscription_def)
next
  case (confirmed q)
  from assms(3) confirmed(1) obtain p where p: "p \<in> set (pa_rows s)"
      "sb_confirm_token p = sb_confirm_token q \<and> r = set_confirmed (pe_now E) p \<or> r = p"
    by (auto dest!: set_upd_row)
  show ?thesis
  proof (cases "r = p")
    case True
    with assms(2,4) p(1) show ?thesis by (auto simp: opted_in_def)
  next
    case False
    with p confirmed(3) assms(5) have "p = q" "r = set_confirmed (pe_now E) q"
      by (auto simp: alerts_ok_def dest: unique_key)
    with confirmed(2,5) show ?thesis by (auto simp: opted_in_def)
  qed
next
  case (ended q)
  with assms(2-4) show ?thesis by (auto simp: opted_in_def dest!: set_upd_row)
qed

lemma reach_opted_in: "reach_alerts h s \<Longrightarrow> \<forall>r \<in> set (pa_rows s). sb_confirmed r \<longrightarrow> opted_in h r"
  by (induction rule: reach_alerts.induct) (auto intro: confirmed_step [OF serve_rows] reach_ok)

lemma notify_done:
  assumes "notify_price_change E s = (Inr (n, m), t)"
  shows "\<exists>rows. pa_mail t = pa_mail s @
      map (\<lambda>r. PriceMail (sb_email r) rows (unsubscribe_url E (sb_unsubscribe_token r))) (confirmed_active s) \<and>
    m = length (confirmed_active s) \<and> n = length (filter (\<lambda>r. pe_delivers E (sb_email r)) (confirmed_active s))"
proof -
  from assms obtain rows u where u: "gas_price_rows E s = (Inr rows, u)"
    by (auto simp: notify_price_change_def op_simps)
  then have f: "pa_rows u = pa_rows s" "pa_mail u = pa_mail s"
    by (auto simp: gas_price_rows_def on_catalog_def andThen_def ret_def split: prod.splits sum.splits)
  from assms u show ?thesis
    by (auto simp: notify_price_change_def andThen_def gets_def ret_def send_all f confirmed_active_def)
qed

text \<open>A sample run: one address subscribes and confirms.\<close>

definition sample_alert_env :: "time \<Rightarrow> string \<Rightarrow> alert_env" where
  "sample_alert_env now draw = \<lparr>pe_now = now, pe_confirm_token = ''c'' @ draw, pe_unsubscribe_token = ''u'' @ draw,
     pe_frontend_url = ''https://shop/'', pe_pg = sample_pg, pe_delivers = (\<lambda>a. True)\<rparr>"

definition sample_alerts :: alert_state where
  "sample_alerts = \<lparr>pa_db = empty_db, pa_rows = [], pa_next = 1, pa_mail = []\<rparr>"

definition subscribed :: alert_state where
  "subscribed = alert_serve (sample_alert_env 0 ''1'') (Subscribe ''An@shop.vn'' True None) sample_alerts"

definition consented :: alert_state where
  "consented = alert_serve (sample_alert_env 5 ''2'') (Confirm ''c1'') subscribed"

lemma reach_consented:
  "reach_alerts [(sample_alert_env 0 ''1'', Subscribe ''An@shop.vn'' True None), (sample_alert_env 5 ''2'', Confirm ''c1'')] consented"
  using step [OF step [OF start [of sample_alerts], of "sample_alert_env 0 ''1''" "Subscribe ''An@shop.vn'' True None"],
      of "sample_alert_env 5 ''2''" "Confirm ''c1''"]
  by (simp add: consented_def subscribed_def sample_alerts_def)

lemma subscribed_row:
  "pa_rows subscribed = [new_subscription (sample_alert_env 0 ''1'') 1 ''an@shop.vn'' None]"
  by code_simp

lemma consented_row:
  "pa_rows consented = [set_confirmed 5 (new_subscription (sample_alert_env 0 ''1'') 1 ''an@shop.vn'' None)]"
  by code_simp

text \<open>
  C32. A price notification goes once to every address it goes to, with that subscription's own
  unsubscribe link, and only to addresses whose confirmation token was presented before it expired
  and which have not unsubscribed; the answer counts the recipients and the accepted mails.
\<close>

theorem notified_opted_in:
  assumes "reach_alerts h s" and "notify_endpoint E u s = (Inr (n, m), t)"
  shows "is_admin u \<and> n \<le> m \<and> m = length (confirmed_active s) \<and>
    (\<exists>rows. pa_mail t = pa_mail s @
       map (\<lambda>r. PriceMail (sb_email r) rows (unsubscribe_url E (sb_unsubscribe_token r))) (confirmed_active s)) \<and>
    distinct (map sb_email (confirmed_active s)) \<and>
    (\<forall>r \<in> set (confirmed_active s). opted_in h r \<and> sb_unsubscribed_at r = None)"
proof -
  from assms(2) have adm: "is_admin u" and run: "notify_price_change E s = (Inr (n, m), t)"
    by (auto simp: notify_endpoint_def op_simps)
  have "filter (\<lambda>r. sb_confirmed r \<and> sub_active r) (pa_rows s) = filter sb_confirmed (filter sub_active (pa_rows s))"
    by (auto intro: filter_cong)
  moreover have "distinct (map sb_email (filter sb_confirmed (filter sub_active (pa_rows s))))"
    using reach_ok [OF assms(1)] unfolding alerts_ok_def
    by (intro distinct_map_filter [of sb_email "filter sub_active (pa_rows s)"]) blast
  ultimately have "distinct (map sb_email (confirmed_active s))"
    unfolding confirmed_active_def distinct_sort_key by metis
  moreover have "\<forall>r \<in> set (confirmed_active s). opted_in h r \<and> sb_unsubscribed_at r = None"
    using reach_opted_in [OF assms(1)] by (auto simp: confirmed_active_def sub_active_def)
  ultimately show ?thesis using adm notify_done [OF run] by (auto intro: length_filter_le)
qed

lemma notified_opted_in_witness:
  "\<exists>n m t. notify_endpoint (sample_alert_env 9 ''3'') (sample_user 4 Admin) consented = (Inr (n, m), t) \<and> m = 1 \<and>
     (\<forall>r \<in> set (confirmed_active consented). sb_unsubscribed_at r = None)"
proof -
  define run where "run = notify_endpoint (sample_alert_env 9 ''3'') (sample_user 4 Admin) consented"
  have "\<not> isl (fst run)" unfolding run_def by code_simp
  then obtain n m t where r: "notify_endpoint (sample_alert_env 9 ''3'') (sample_user 4 Admin) consented = (Inr (n, m), t)"
    using run_split [of run] unfolding run_def by (metis surj_pair)
  have "length (confirmed_active consented) = 1"
    by (simp add: confirmed_active_def consented_row new_subscription_def set_confirmed_def sub_active_def)
  with notified_opted_in [OF reach_consented r] r show ?thesis by auto
qed

section \<open>Requests served one after the other\<close>

fun play :: "(alert_env \<times> alert_call) list \<Rightarrow> alert_state \<Rightarrow> alert_state" where
  "play [] s = s"
| "play ((E, c) # cs) s = play cs (alert_serve E c s)"

lemma play_ok: "alerts_ok (pa_rows s) \<Longrightarrow> alerts_ok (pa_rows (play cs s))"
  by (induction cs s rule: play.induct) (auto intro: row_step_ok [OF serve_rows])

lemma ended_step:
  assumes "row_step E c s rows" and "r \<in> set (pa_rows s)" and "\<not> sub_active r"
  shows "\<exists>q \<in> set rows. sb_unsubscribe_token q = sb_unsubscribe_token r \<and> \<not> sub_active q"
  using assms(1)
proof (cases rule: row_step.cases)
  case (confirmed q)
  with upd_row_mem [OF assms(2), of sb_confirm_token "sb_confirm_token q" "set_confirmed (pe_now E)"] assms(3)
  show ?thesis by (intro bexI) (auto split: if_splits)
next
  case (ended q)
  with upd_row_mem [OF assms(2), of sb_unsubscribe_token "sb_unsubscribe_token q" "set_unsubscribed (pe_now E)"] assms(3)
  show ?thesis by (intro bexI) (auto split: if_splits)
qed (use assms in auto)

lemma ended_forever:
  "r \<in> set (pa_rows s) \<Longrightarrow> \<not> sub_active r \<Longrightarrow>
   \<exists>q \<in> set (pa_rows (play cs s)). sb_unsubscribe_token q = sb_unsubscribe_token r \<and> \<not> sub_active q"
proof (induction cs s arbitrary: r rule: play.induct)
  case (2 E c cs s)
  from ended_step [OF serve_rows 2(2,3), of E c] obtain q where
    "q \<in> set (pa_rows (alert_serve E c s))" "sb_unsubscribe_token q = sb_unsubscribe_token r" "\<not> sub_active q" by blast
  with 2(1) [of q] show ?case by auto
qed auto

text \<open>
  Unsubscribing is final: once the link of a subscription was followed, no later notification,
  whatever is served in between, goes out under that subscription.
\<close>

lemma unsubscribe_is_final:
  assumes "alerts_ok (pa_rows s)" and "r \<in> set (pa_rows s)"
    and "unsubscribe_endpoint E (sb_unsubscribe_token r) s = (Inr (), s1)"
    and "notify_endpoint F u (play cs s1) = (Inr (n, m), t)"
  shows "(\<exists>rows. pa_mail t = pa_mail (play cs s1) @
      map (\<lambda>q. PriceMail (sb_email q) rows (unsubscribe_url F (sb_unsubscribe_token q))) (confirmed_active (play cs s1))) \<and>
    sb_unsubscribe_token r \<notin> sb_unsubscribe_token ` set (confirmed_active (play cs s1))"
proof -
  let ?tok = "sb_unsubscribe_token r"
  from assms(1,2) have find: "by_unsubscribe_token ?tok s = Some r"
    by (simp add: by_unsubscribe_token_def alerts_ok_def find_row_unique)
  with assms(3) have s1: "pa_rows s1 = upd_row sb_unsubscribe_token ?tok (set_unsubscribed (pe_now E)) (pa_rows s)"
    by (auto simp: unsubscribe_endpoint_def op_simps unsubscribe_eval parse_token_def split: if_splits)
  with upd_row_mem [OF assms(2), of sb_unsubscribe_token ?tok "set_unsubscribed (pe_now E)"]
  have "set_unsubscribed (pe_now E) r \<in> set (pa_rows s1)" by simp
  from ended_forever [OF this, of cs] obtain q where
    q: "q \<in> set (pa_rows (play cs s1))" "sb_unsubscribe_token q = ?tok" "\<not> sub_active q" by auto
  have "alerts_ok (pa_rows s1)"
    unfolding s1 by (rule row_step_ok [OF row_step.ended assms(1)]) (use assms(2) in auto)
  then have ok: "alerts_ok (pa_rows (play cs s1))" by (rule play_ok)
  have out: "?tok \<notin> sb_unsubscribe_token ` set (confirmed_active (play cs s1))"
  proof
    assume "?tok \<in> sb_unsubscribe_token ` set (confirmed_active (play cs s1))"
    then obtain p where p: "p \<in> set (pa_rows (play cs s1))" "sub_active p" "sb_unsubscribe_token p = ?tok"
      by (auto simp: confirmed_active_def)
    with q ok have "p = q" by (auto simp: alerts_ok_def dest: unique_key)
    with p(2) q(3) show False by simp
  qed
  from assms(4) have run: "notify_price_change F (play cs s1) = (Inr (n, m), t)"
    by (auto simp: notify_endpoint_def op_simps)
  from notify_done [OF run] out show ?thesis by blast
qed

lemma unsubscribe_is_final_witness:
  "\<exists>s1 n m t. unsubscribe_endpoint (sample_alert_env 9 ''3'') ''u1'' consented = (Inr (), s1) \<and>
     notify_endpoint (sample_alert_env 20 ''5'') (sample_user 4 Admin)
       (play [(sample_alert_env 10 ''4'', Confirm ''c1'')] s1) = (Inr (n, m), t) \<and>
     ''u1'' \<notin> sb_unsubscribe_token ` set (confirmed_active (play [(sample_alert_env 10 ''4'', Confirm ''c1'')] s1))"
proof -
  let ?r = "set_confirmed 5 (new_subscription (sample_alert_env 0 ''1'') 1 ''an@shop.vn'' None)"
  define s1 where "s1 = snd (unsubscribe_endpoint (sample_alert_env 9 ''3'') ''u1'' consented)"
  define run where "run = notify_endpoint (sample_alert_env 20 ''5'') (sample_user 4 Admin)
       (play [(sample_alert_env 10 ''4'', Confirm ''c1'')] s1)"
  have "fst (unsubscribe_endpoint (sample_alert_env 9 ''3'') ''u1'' consented) = Inr ()" by code_simp
  then have u: "unsubscribe_endpoint (sample_alert_env 9 ''3'') ''u1'' consented = (Inr (), s1)"
    by (simp add: s1_def prod_eq_iff)
  have "\<not> isl (fst run)" unfolding run_def s1_def by code_simp
  then obtain n m t where r: "run = (Inr (n, m), t)"
    using run_split [of run] by (metis surj_pair)
  have ok: "alerts_ok (pa_rows consented)" by (rule reach_ok [OF reach_consented])
  have m: "?r \<in> set (pa_rows consented)" "sb_unsubscribe_token ?r = ''u1''"
    by (simp_all add: consented_row new_subscription_def sample_alert_env_def)
  have "''u1'' \<notin> sb_unsubscribe_token ` set (confirmed_active (play [(sample_alert_env 10 ''4'', Confirm ''c1'')] s1))"
    using unsubscribe_is_final [OF ok m(1), unfolded m(2), OF u r [unfolded run_def]] by (rule conjunct2)
  with u r show ?thesis unfolding run_def by blast
qed

section \<open>An expired confirmation\<close>

lemma stuck_step:
  assumes "row_step E c s rows" and "alerts_ok (pa_rows s)" and "r \<in> set (pa_rows s)" and "\<not> sb_confirmed r"
    and "sb_confirm_expires_at r = Some x" and "x \<le> pe_now E" and "c \<noteq> Unsubscribe (sb_unsubscribe_token r)"
  shows "r \<in> set rows"
  using assms(1)
proof (cases rule: row_step.cases)
  case (confirmed q)
  with assms(5,6) have "sb_confirm_token r \<noteq> sb_confirm_token q"
    using unique_key [of sb_confirm_token "pa_rows s" r q] assms(2,3) by (auto simp: alerts_ok_def)
  with upd_row_mem [OF assms(3), of sb_confirm_token "sb_confirm_token q" "set_confirmed (pe_now E)"] confirmed(1)
  show ?thesis by simp
next
  case (ended q)
  with assms(7) upd_row_mem [OF assms(3), of sb_unsubscribe_token "sb_unsubscribe_token q" "set_unsubscribed (pe_now E)"]
  show ?thesis by (auto split: if_splits)
qed (use assms in auto)

lemma stuck_play:
  "alerts_ok (pa_rows s) \<Longrightarrow> r \<in> set (pa_rows s) \<Longrightarrow> \<not> sb_confirmed r \<Longrightarrow> sb_confirm_expires_at r = Some x \<Longrightarrow>
   \<forall>(E, c) \<in> set cs. x \<le> pe_now E \<and> c \<noteq> Unsubscribe (sb_unsubscribe_token r) \<Longrightarrow>
   r \<in> set (pa_rows (play cs s)) \<and> alerts_ok (pa_rows (play cs s))"
  by (induction cs s rule: play.induct) (auto intro!: stuck_step [OF serve_rows] row_step_ok [OF serve_rows])

lemma active_row:
  assumes "alerts_ok rows" and "rows = pa_rows s" and "r \<in> set rows" and "sub_active r"
  shows "active_by_email (sb_email r) s = Some r"
proof -
  have "find (\<lambda>q. sb_email q = sb_email r \<and> sub_active q) qs = Some r"
    if "distinct (map sb_email (filter sub_active qs))" "r \<in> set qs" for qs
    using that assms(4) by (induction qs) (auto simp: image_iff split: if_splits)
  with assms show ?thesis by (simp add: active_by_email_def alerts_ok_def)
qed

text \<open>
  Subscribing again does not help an address whose confirmation link has expired: the service
  mails the same dead link again and again, following it is always answered with status 400, and the
  address stays unconfirmed in every later state unless its own unsubscribe link is used.
\<close>

lemma expired_confirmation_is_stuck:
  assumes "alerts_ok (pa_rows s)" and "r \<in> set (pa_rows s)" and "sub_active r" and "\<not> sb_confirmed r"
    and "sb_confirm_expires_at r = Some x" and "len_between 1 64 (sb_confirm_token r)"
    and "\<forall>(E, c) \<in> set cs. x \<le> pe_now E \<and> c \<noteq> Unsubscribe (sb_unsubscribe_token r)"
    and "x \<le> pe_now F" and "py_lower (py_strip email) = sb_email r"
  shows "subscribe_endpoint F email True u (play cs s) =
      (Inr (), (play cs s)\<lparr>pa_mail := pa_mail (play cs s) @
         [ConfirmMail (sb_email r) (confirm_url F (sb_confirm_token r)) (unsubscribe_url F (sb_unsubscribe_token r))]\<rparr>) \<and>
    confirm_endpoint F (sb_confirm_token r) (play cs s) =
      (Inl (AppError Validation ''confirm_token_expired''), play cs s) \<and>
    r \<notin> set (confirmed_active (play cs s))"
proof -
  from stuck_play [OF assms(1,2,4,5,7)] have r: "r \<in> set (pa_rows (play cs s))" "alerts_ok (pa_rows (play cs s))"
    by auto
  have "by_confirm_token (sb_confirm_token r) (play cs s) = Some r"
    using r by (simp add: by_confirm_token_def alerts_ok_def find_row_unique)
  moreover have "active_by_email (sb_email r) (play cs s) = Some r"
    by (rule active_row [OF r(2) refl r(1) assms(3)])
  ultimately show ?thesis using assms(3-6,8,9)
    by (simp add: subscribe_endpoint_def parse_subscribe_def lift_result_def op_eval subscribe_eval
        confirm_endpoint_def parse_token_def confirm_eval confirmed_active_def)
qed

lemma expired_confirmation_is_stuck_witness:
  "let F = sample_alert_env (confirm_token_ttl + 9) ''9''; s = play [(sample_alert_env confirm_token_ttl ''8'', Confirm ''c1'')] subscribed in
   confirm_endpoint F ''c1'' s = (Inl (AppError Validation ''confirm_token_expired''), s)"
proof -
  let ?r = "new_subscription (sample_alert_env 0 ''1'') 1 ''an@shop.vn'' None"
  have ok: "alerts_ok (pa_rows subscribed)" by (simp add: subscribed_row alerts_ok_def unique_by_def)
  have r: "?r \<in> set (pa_rows subscribed)" "sub_active ?r" "\<not> sb_confirmed ?r"
    "sb_confirm_expires_at ?r = Some confirm_token_ttl" "len_between 1 64 (sb_confirm_token ?r)"
    "sb_confirm_token ?r = ''c1''" "py_lower (py_strip ''an@shop.vn'') = sb_email ?r"
    by (simp_all add: subscribed_row new_subscription_def sub_active_def sample_alert_env_def len_between_def)
      (simp add: py_lower_def py_strip_def ascii_lower_def py_isspace_def code_point_def)
  let ?F = "sample_alert_env (confirm_token_ttl + 9) ''9''" and ?cs = "[(sample_alert_env confirm_token_ttl ''8'', Confirm ''c1'')]"
  have t: "\<forall>(E, c) \<in> set ?cs. confirm_token_ttl \<le> pe_now E \<and> c \<noteq> Unsubscribe (sb_unsubscribe_token ?r)"
    "confirm_token_ttl \<le> pe_now ?F"
    by (simp_all add: sample_alert_env_def)
  from expired_confirmation_is_stuck [OF ok r(1-5) t r(7), of None] show ?thesis unfolding Let_def r(6) by blast
qed

section \<open>Sizes in names\<close>

text \<open>The sizes a gas product may have read as they should; twenty litres of water lose their zero.\<close>

lemma size_texts:
  "map size_text allowed_sizes = [''6'', ''12'', ''45''] \<and> size_text 2000 = ''2''"
  by code_simp

end
