(* ===== verification/ProductQuery.thy ===== *)
theory ProductQuery
  imports ChatText "HOL-Library.Char_ord" "HOL-Library.List_Lexorder"
begin

text \<open>
  The deterministic reading of a product question (\<^verbatim>\<open>services/product_query.py\<close>) and of an admin
  instruction (\<^verbatim>\<open>services/admin_chat_parser.py\<close>). A \<^verbatim>\<open>Decimal\<close> read from a text is a mantissa with
  a number of decimal places. The patterns are searched from left to right; the flag of a matcher
  says that the character before is a word character.
\<close>

section \<open>Searching\<close>

definition strip_accents :: "fold_text \<Rightarrow> string \<Rightarrow> string" where
  "strip_accents F text = F (py_lower text)"

fun search_at :: "(bool \<Rightarrow> string \<Rightarrow> 'a option) \<Rightarrow> bool \<Rightarrow> string \<Rightarrow> 'a option" where
  "search_at m w [] = m w []"
| "search_at m w (c # s) = (case m w (c # s) of Some x \<Rightarrow> Some x | None \<Rightarrow> search_at m (py_word c) s)"

definition ends_word :: "string \<Rightarrow> bool" where
  "ends_word s \<longleftrightarrow> (case s of [] \<Rightarrow> True | c # r \<Rightarrow> \<not> py_word c)"

definition has_word :: "string \<Rightarrow> string \<Rightarrow> bool" where
  "has_word n word \<longleftrightarrow> search_at (\<lambda>w s. if \<not> w \<and> take (length word) s = word \<and> ends_word (drop (length word) s)
     then Some () else None) False n \<noteq> None"

definition digits :: "string \<Rightarrow> string" where
  "digits = takeWhile is_digit"

text \<open>What follows one of the units after optional blanks, the unit ending at a word boundary.\<close>

definition after_unit :: "string list \<Rightarrow> string \<Rightarrow> string option" where
  "after_unit units s =
     (let t = dropWhile py_isspace s in
      map_option (\<lambda>u. drop (length u) t)
        (find (\<lambda>u. take (length u) t = u \<and> ends_word (drop (length u) t)) units))"

lemma after_unit_length: "after_unit units s = Some r \<Longrightarrow> length r \<le> length s"
  using length_dropWhile_le [of py_isspace s] by (auto simp: after_unit_def Let_def)

section \<open>Amounts\<close>

type_synonym decimal = "int \<times> nat"

definition decimal_money :: "decimal \<Rightarrow> money" where
  "decimal_money d = (case d of (m, k) \<Rightarrow> (200 * m + 10 ^ k) div (2 * 10 ^ k))"

definition million_here :: "bool \<Rightarrow> string \<Rightarrow> decimal option" where
  "million_here w s =
     (let d = digits s; r = drop (length d) s; f = digits (drop 1 r); units = [''tr'', ''trieu''] in
      if d = [] then None
      else if take 1 r \<in> set [''.'', '',''] \<and> f \<noteq> [] \<and> after_unit units (drop (Suc (length f)) r) \<noteq> None
      then Some (int (parse_nat (d @ f)) * 1000000, length f)
      else if after_unit units r \<noteq> None then Some (int (parse_nat d) * 1000000, 0) else None)"

definition thousand_here :: "bool \<Rightarrow> string \<Rightarrow> decimal option" where
  "thousand_here w s =
     (let d = digits s in
      if d \<noteq> [] \<and> after_unit [''k'', ''nghin'', ''ngan''] (drop (length d) s) \<noteq> None
      then Some (int (parse_nat d) * 1000, 0) else None)"

text \<open>The groups of three digits behind a point or a blank, and what follows them.\<close>

fun groups :: "string \<Rightarrow> string list \<times> string" where
  "groups (p # a # b # c # s) =
     (if (p = CHR ''.'' \<or> py_isspace p) \<and> is_digit a \<and> is_digit b \<and> is_digit c
      then (case groups s of (gs, r) \<Rightarrow> ([a, b, c] # gs, r)) else ([], p # a # b # c # s))"
| "groups s = ([], s)"

definition grouped_here :: "bool \<Rightarrow> string \<Rightarrow> decimal option" where
  "grouped_here w s =
     (let d = digits s in
      case groups (drop (length d) s) of (gs, r) \<Rightarrow>
        (let kept = (if ends_word r then gs else butlast gs) in
         if \<not> w \<and> d \<noteq> [] \<and> length d \<le> 3 \<and> kept \<noteq> [] then Some (int (parse_nat (d @ concat kept)), 0) else None))"

definition bare_here :: "bool \<Rightarrow> string \<Rightarrow> decimal option" where
  "bare_here w s =
     (let d = digits s in
      if \<not> w \<and> 4 \<le> length d \<and> length d \<le> 7 \<and> ends_word (drop (length d) s) then Some (int (parse_nat d), 0) else None)"

fun first_some :: "'a option list \<Rightarrow> 'a option" where
  "first_some [] = None"
| "first_some (x # xs) = (case x of Some v \<Rightarrow> Some v | None \<Rightarrow> first_some xs)"

definition parse_price_value :: "fold_text \<Rightarrow> string \<Rightarrow> decimal option" where
  "parse_price_value F text =
     (let n = strip_accents F text in
      first_some (map (\<lambda>m. search_at m False n) [million_here, thousand_here, grouped_here, bare_here]))"

section \<open>Product questions\<close>

datatype price_kind = Cheapest | MostExpensive | Around | Under | Over

record product_query =
  pq_brand :: "string option"
  pq_size_kg :: "int option"
  pq_category :: "category option"
  pq_colour :: "string option"
  pq_price_kind :: "price_kind option"
  pq_price_value :: "decimal option"

definition is_specific :: "product_query \<Rightarrow> bool" where
  "is_specific q \<longleftrightarrow> pq_brand q \<noteq> None \<or> pq_size_kg q \<noteq> None"

definition price_kind_of :: "string \<Rightarrow> price_kind option" where
  "price_kind_of n =
     (if list_ex (has_word n) [''re nhat'', ''thap nhat''] then Some Cheapest
      else if list_ex (has_word n) [''dat nhat'', ''mac nhat'', ''cao nhat''] then Some MostExpensive
      else if list_ex (has_word n) [''duoi'', ''toi da'', ''khong qua'', ''re hon''] then Some Under
      else if list_ex (has_word n) [''tren'', ''toi thieu'', ''hon''] then Some Over
      else if list_ex (has_word n) [''tam'', ''khoang''] then Some Around else None)"

definition query_category :: "string \<Rightarrow> bool \<Rightarrow> bool \<Rightarrow> category option" where
  "query_category n has_size_kg has_size_litre =
     (if has_size_litre \<or> contains ''nuoc'' n then Some NuocUong
      else if has_size_kg \<or> contains ''gas'' n then Some Gas else None)"

text \<open>\<^verbatim>\<open>[1-9][0-9]?\<close> and a unit.\<close>

definition size_here :: "string list \<Rightarrow> bool \<Rightarrow> string \<Rightarrow> nat option" where
  "size_here units w s =
     (let d = digits s in
      if \<not> w \<and> d \<noteq> [] \<and> length d \<le> 2 \<and> hd d \<noteq> CHR ''0'' \<and> after_unit units (drop (length d) s) \<noteq> None
      then Some (parse_nat d) else None)"

text \<open>\<^verbatim>\<open>text.replace(word, "")\<close>\<close>

function remove_all :: "string \<Rightarrow> string \<Rightarrow> string" where
  "remove_all word [] = []"
| "remove_all word (c # s) =
     (if word \<noteq> [] \<and> take (length word) (c # s) = word then remove_all word (drop (length word - 1) s)
      else c # remove_all word s)"
  by pat_completeness auto

termination remove_all
  by (relation "measure (length \<circ> snd)") auto

fun best_brand :: "fold_text \<Rightarrow> string \<Rightarrow> string option \<Rightarrow> nat \<Rightarrow> string list \<Rightarrow> string option" where
  "best_brand F n best len [] = best"
| "best_brand F n best len (b # bs) =
     (let own = py_strip (remove_all ''gas'' (strip_accents F b)) in
      if own \<noteq> [] \<and> contains own n \<and> len < length own then best_brand F n (Some b) (length own) bs
      else best_brand F n best len bs)"

definition match_brand :: "fold_text \<Rightarrow> string \<Rightarrow> string list \<Rightarrow> string option" where
  "match_brand F n brands = best_brand F n None 0 brands"

definition colour_keywords :: "string list" where
  "colour_keywords = [''do'', ''xam'', ''vang'', ''bien'', ''xanh'', ''nau'', ''bo'', ''trang'']"

definition parse_product_query :: "fold_text \<Rightarrow> string \<Rightarrow> string list \<Rightarrow> product_query" where
  "parse_product_query F text brands =
     (let n = strip_accents F text;
          kg = search_at (size_here [''kg'']) False n; litre = search_at (size_here [''lit'', ''l'']) False n;
          kind = price_kind_of n; ranged = kind \<in> set [Some Around, Some Under, Some Over];
          amount = (if ranged then parse_price_value F text else None) in
      \<lparr>pq_brand = match_brand F n brands,
       pq_size_kg = map_option (\<lambda>k. 100 * int k) (if kg \<noteq> None then kg else litre),
       pq_category = query_category n (kg \<noteq> None) (litre \<noteq> None),
       pq_colour = find (has_word n) colour_keywords,
       pq_price_kind = (if ranged \<and> amount = None then None else kind), pq_price_value = amount\<rparr>)"

text \<open>Bounds on a price, as exact decimals.\<close>

definition price_bounds :: "product_query \<Rightarrow> decimal option \<times> decimal option" where
  "price_bounds q =
     (case (pq_price_value q, pq_price_kind q) of
        (Some (m, k), Some Around) \<Rightarrow> (Some (94 * m, k + 2), Some (106 * m, k + 2))
      | (Some v, Some Under) \<Rightarrow> (None, Some v)
      | (Some v, Some Over) \<Rightarrow> (Some v, None)
      | _ \<Rightarrow> (None, None))"

definition below :: "money \<Rightarrow> decimal \<Rightarrow> bool" where
  "below p d \<longleftrightarrow> (case d of (m, k) \<Rightarrow> p * 10 ^ k < 100 * m)"

definition above :: "money \<Rightarrow> decimal \<Rightarrow> bool" where
  "above p d \<longleftrightarrow> (case d of (m, k) \<Rightarrow> 100 * m < p * 10 ^ k)"

definition query_matches :: "fold_text \<Rightarrow> product_query \<Rightarrow> product \<Rightarrow> bool" where
  "query_matches F q p \<longleftrightarrow>
     (case pq_brand q of None \<Rightarrow> True | Some b \<Rightarrow> contains (strip_accents F b) (strip_accents F (p_brand p))) \<and>
     (case pq_size_kg q of None \<Rightarrow> True | Some k \<Rightarrow> p_size_kg p = k) \<and>
     (case pq_category q of None \<Rightarrow> True | Some c \<Rightarrow> p_category p = c) \<and>
     (case pq_colour q of None \<Rightarrow> True | Some col \<Rightarrow> is_specific q \<longrightarrow> has_word (strip_accents F (p_name p)) col) \<and>
     (case fst (price_bounds q) of None \<Rightarrow> True | Some lo \<Rightarrow> \<not> below (p_price p) lo) \<and>
     (case snd (price_bounds q) of None \<Rightarrow> True | Some hi \<Rightarrow> \<not> above (p_price p) hi)"

definition filter_products :: "fold_text \<Rightarrow> product list \<Rightarrow> product_query \<Rightarrow> product list" where
  "filter_products F prods q = sort_key p_price (filter (query_matches F q) prods)"

section \<open>Admin instructions\<close>

datatype admin_action = UpdatePrice | UpdateStock | SetActive

record instruction =
  in_action :: admin_action
  in_price :: "decimal option"
  in_stock :: "int option"
  in_active :: "bool option"

definition is_leading_command :: "string \<Rightarrow> string \<Rightarrow> bool" where
  "is_leading_command n word \<longleftrightarrow> word \<in> set (take 2 (tokens n))"

text \<open>\<^verbatim>\<open>re.sub\<close> of a number with one of the units by a blank.\<close>

function strip_sizes :: "string list \<Rightarrow> bool \<Rightarrow> string \<Rightarrow> string" where
  "strip_sizes units w [] = []"
| "strip_sizes units w (c # s) =
     (case (if w \<or> \<not> is_digit c then None else after_unit units (drop (length (digits s)) s)) of
        Some r \<Rightarrow> CHR '' '' # strip_sizes units True r
      | None \<Rightarrow> c # strip_sizes units (py_word c) s)"
  by pat_completeness auto

termination strip_sizes
  by (relation "measure (\<lambda>(u, w, s). length s)") (auto dest!: after_unit_length split: if_splits)

definition strip_size_tokens :: "string \<Rightarrow> string" where
  "strip_size_tokens n = strip_sizes [''lit'', ''l''] False (strip_sizes [''kg''] False n)"

text \<open>\<^verbatim>\<open>-?\d+\<close>\<close>

definition int_here :: "string \<Rightarrow> int option" where
  "int_here s =
     (let d = digits s; e = digits (drop 1 s) in
      if d \<noteq> [] then Some (int (parse_nat d))
      else if take 1 s = ''-'' \<and> e \<noteq> [] then Some (- int (parse_nat e)) else None)"

definition separated_here :: "bool \<Rightarrow> string \<Rightarrow> int option" where
  "separated_here w s =
     first_some (map (\<lambda>p. if take (length p) s = p then int_here (dropWhile py_isspace (drop (length p) s)) else None)
       [''thanh'', ''con'', ''sang'', ''toi'', ''to'', ''='', ''->''])"

text \<open>The last of all integers of the text; the flag says that a digit run is being passed over.\<close>

fun last_int :: "bool \<Rightarrow> int option \<Rightarrow> string \<Rightarrow> int option" where
  "last_int inside found [] = found"
| "last_int inside found (c # s) =
     (if is_digit c
      then last_int True (if inside then found else int_here (c # s)) s
      else if c = CHR ''-'' \<and> int_here (c # s) \<noteq> None then last_int True (int_here (c # s)) s
      else last_int False found s)"

definition extract_int :: "string \<Rightarrow> int option" where
  "extract_int s = (case search_at separated_here False s of Some v \<Rightarrow> Some v | None \<Rightarrow> last_int False None s)"

definition parse_admin_instruction :: "fold_text \<Rightarrow> string \<Rightarrow> instruction option" where
  "parse_admin_instruction F text =
     (let n = strip_accents F text; src = strip_size_tokens n;
          price = (if list_ex (has_word n) [''gia'', ''price''] then parse_price_value F src else None);
          stock = (if list_ex (has_word n) [''ton'', ''kho'', ''stock'', ''quantity'', ''so luong''] then extract_int src else None);
          shown = (\<lambda>b. Some \<lparr>in_action = SetActive, in_price = None, in_stock = None, in_active = Some b\<rparr>) in
      if price \<noteq> None then Some \<lparr>in_action = UpdatePrice, in_price = price, in_stock = None, in_active = None\<rparr>
      else if stock \<noteq> None then Some \<lparr>in_action = UpdateStock, in_price = None, in_stock = stock, in_active = None\<rparr>
      else if list_ex (has_word n) [''hien'', ''show'', ''kich hoat'', ''activate'', ''mo ban'', ''mo lai''] \<or>
              is_leading_command n ''bat'' then shown True
      else if list_ex (has_word n) [''hide'', ''ngung'', ''deactivate'', ''khoa'', ''dung ban''] \<or>
              list_ex (is_leading_command n) [''an'', ''tat''] then shown False
      else None)"

end
