(* ===== verification/Json.thy ===== *)
theory Json
  imports ChatText "HOL-Library.AList"
begin

text \<open>
  \<^verbatim>\<open>json.dumps\<close> and \<^verbatim>\<open>json.loads\<close> as the services use them, with default settings, and what they do
  with the text of a language model: \<^verbatim>\<open>ConversationService._parse_json_object\<close> and
  \<^verbatim>\<open>LlmReranker._parse_order\<close>. A number with a fraction or an exponent keeps its text; an escape of a
  character outside Latin-1 is read as a question mark.
\<close>

section \<open>Writing\<close>

definition json_char :: "char \<Rightarrow> string" where
  "json_char c =
     (if c = CHR 0x22 \<or> c = CHR 0x5C then [CHR 0x5C, c]
      else if c = CHR 0x08 then [CHR 0x5C, CHR ''b'']
      else if c = CHR 0x0C then [CHR 0x5C, CHR ''f'']
      else if c = CHR 0x0A then [CHR 0x5C, CHR ''n'']
      else if c = CHR 0x0D then [CHR 0x5C, CHR ''r'']
      else if c = CHR 0x09 then [CHR 0x5C, CHR ''t'']
      else if 32 \<le> code_point c \<and> code_point c < 127 then [c]
      else [CHR 0x5C, CHR ''u'', CHR ''0'', CHR ''0''] @ hex2 (code_point c))"

definition json_quote :: "string \<Rightarrow> string" where
  "json_quote s = CHR 0x22 # concat (map json_char s) @ [CHR 0x22]"

fun dumps :: "json \<Rightarrow> string" where
  "dumps JNull = ''null''"
| "dumps (JBool b) = (if b then ''true'' else ''false'')"
| "dumps (JInt n) = int_text n"
| "dumps (JFloat t) = t"
| "dumps (JStr s) = json_quote s"
| "dumps (JList xs) = ''['' @ join '', '' (map dumps xs) @ '']''"
| "dumps (JObj d) = ''{'' @ join '', '' (map (\<lambda>p. json_quote (fst p) @ '': '' @ dumps (snd p)) d) @ ''}''"

section \<open>Reading\<close>

definition json_space :: "char \<Rightarrow> bool" where
  "json_space c \<longleftrightarrow> c \<in> {CHR '' '', CHR 0x09, CHR 0x0A, CHR 0x0D}"

definition skip_ws :: "string \<Rightarrow> string" where
  "skip_ws = dropWhile json_space"

definition hex_value :: "char \<Rightarrow> nat option" where
  "hex_value c = (let n = code_point c in
     if is_digit c then Some (n - 48) else if 97 \<le> n \<and> n \<le> 102 then Some (n - 87)
     else if 65 \<le> n \<and> n \<le> 70 then Some (n - 55) else None)"

definition json_escape :: "char \<Rightarrow> char option" where
  "json_escape c = map_of [(CHR 0x22, CHR 0x22), (CHR 0x5C, CHR 0x5C), (CHR ''/'', CHR ''/''), (CHR ''b'', CHR 0x08),
     (CHR ''f'', CHR 0x0C), (CHR ''n'', CHR 0x0A), (CHR ''r'', CHR 0x0D), (CHR ''t'', CHR 0x09)] c"

definition json_unicode :: "string \<Rightarrow> char option" where
  "json_unicode hs =
     (case map hex_value hs of
        [Some a, Some b, Some c, Some d] \<Rightarrow>
          Some (if a = 0 \<and> b = 0 then char_of (16 * c + d) else CHR ''?'')
      | _ \<Rightarrow> None)"

text \<open>The text behind an opening quote up to the closing one.\<close>

function json_string :: "string \<Rightarrow> (string \<times> string) option" where
  "json_string [] = None"
| "json_string (c # s) =
     (if c = CHR 0x22 then Some ([], s)
      else if c = CHR 0x5C then
        (case s of [] \<Rightarrow> None
         | e # r \<Rightarrow>
             (case json_escape e of
                Some x \<Rightarrow> map_option (\<lambda>(t, q). (x # t, q)) (json_string r)
              | None \<Rightarrow> if e \<noteq> CHR ''u'' then None
                  else (case json_unicode (take 4 r) of None \<Rightarrow> None
                        | Some x \<Rightarrow> map_option (\<lambda>(t, q). (x # t, q)) (json_string (drop 4 r)))))
      else if code_point c < 32 then None
      else map_option (\<lambda>(t, q). (c # t, q)) (json_string s))"
  by pat_completeness auto

termination json_string
  by (relation "measure length") auto

definition json_fraction :: "string \<Rightarrow> string" where
  "json_fraction s =
     (case s of c # d # r \<Rightarrow> if c = CHR ''.'' \<and> is_digit d then c # d # takeWhile is_digit r else [] | _ \<Rightarrow> [])"

definition json_exponent :: "string \<Rightarrow> string" where
  "json_exponent s =
     (case s of [] \<Rightarrow> []
      | c # r \<Rightarrow>
          (let sign = (if take 1 r = ''+'' \<or> take 1 r = ''-'' then take 1 r else []);
               ds = takeWhile is_digit (drop (length sign) r) in
           if (c = CHR ''e'' \<or> c = CHR ''E'') \<and> ds \<noteq> [] then c # sign @ ds else []))"

definition json_number :: "string \<Rightarrow> (json \<times> string) option" where
  "json_number s =
     (let sign = (if take 1 s = ''-'' then ''-'' else []); t = drop (length sign) s in
      case t of [] \<Rightarrow> None
      | d # r \<Rightarrow>
          if \<not> is_digit d then None
          else (let whole = (if d = CHR ''0'' then [d] else d # takeWhile is_digit r);
                    frac = json_fraction (drop (length whole) t);
                    power = json_exponent (drop (length whole + length frac) t);
                    rest = drop (length whole + length frac + length power) t in
                if frac = [] \<and> power = []
                then Some (JInt (if sign = [] then int (parse_nat whole) else - int (parse_nat whole)), rest)
                else Some (JFloat (sign @ whole @ frac @ power), rest)))"

definition json_literal :: "string \<Rightarrow> (json \<times> string) option" where
  "json_literal s =
     (case find (\<lambda>(w, v). take (length w) s = w)
         [(''null'', JNull), (''true'', JBool True), (''false'', JBool False), (''NaN'', JFloat ''nan''),
          (''Infinity'', JFloat ''inf''), (''-Infinity'', JFloat ''-inf'')] of
        Some (w, v) \<Rightarrow> Some (v, drop (length w) s) | None \<Rightarrow> json_number s)"

text \<open>
  A value, the items of an array up to its bracket and the members of an object up to its brace. The
  fuel bounds the nesting; twice the length of the text is enough (\<open>json_value_enough\<close>).
\<close>

fun json_value :: "nat \<Rightarrow> string \<Rightarrow> (json \<times> string) option"
  and json_items :: "nat \<Rightarrow> string \<Rightarrow> (json list \<times> string) option"
  and json_members :: "nat \<Rightarrow> string \<Rightarrow> ((string \<times> json) list \<times> string) option" where
  "json_value 0 s = None"
| "json_value (Suc n) s =
     (case s of [] \<Rightarrow> None
      | c # r \<Rightarrow>
          if c = CHR 0x22 then map_option (\<lambda>(x, q). (JStr x, q)) (json_string r)
          else if c = CHR ''['' then
            (if take 1 (skip_ws r) = '']'' then Some (JList [], drop 1 (skip_ws r))
             else map_option (\<lambda>(xs, q). (JList xs, q)) (json_items n (skip_ws r)))
          else if c = CHR ''{'' then
            (if take 1 (skip_ws r) = ''}'' then Some (JObj [], drop 1 (skip_ws r))
             else map_option (\<lambda>(d, q). (JObj (fold (\<lambda>(k, v). AList.update k v) d []), q)) (json_members n (skip_ws r)))
          else json_literal s)"
| "json_items 0 s = None"
| "json_items (Suc n) s =
     (case json_value n s of None \<Rightarrow> None
      | Some (x, r) \<Rightarrow>
          (case skip_ws r of [] \<Rightarrow> None
           | d # q \<Rightarrow> if d = CHR '']'' then Some ([x], q)
               else if d = CHR '','' then map_option (\<lambda>(xs, t). (x # xs, t)) (json_items n (skip_ws q))
               else None))"
| "json_members 0 s = None"
| "json_members (Suc n) s =
     (if take 1 s \<noteq> [CHR 0x22] then None
      else (case json_string (drop 1 s) of None \<Rightarrow> None
            | Some (k, r) \<Rightarrow>
                if take 1 (skip_ws r) \<noteq> '':'' then None
                else (case json_value n (skip_ws (drop 1 (skip_ws r))) of None \<Rightarrow> None
                      | Some (v, q) \<Rightarrow>
                          (case skip_ws q of [] \<Rightarrow> None
                           | d # t \<Rightarrow> if d = CHR ''}'' then Some ([(k, v)], t)
                               else if d = CHR '','' then map_option (\<lambda>(ms, u). ((k, v) # ms, u)) (json_members n (skip_ws t))
                               else None))))"

text \<open>\<^verbatim>\<open>json.loads\<close>, with \<open>None\<close> for a \<^verbatim>\<open>JSONDecodeError\<close>.\<close>

definition loads :: "string \<Rightarrow> json option" where
  "loads s =
     (case json_value (2 * length s + 2) (skip_ws s) of
        None \<Rightarrow> None | Some (v, r) \<Rightarrow> if skip_ws r = [] then Some v else None)"

section \<open>The answers of a language model\<close>

text \<open>The greedy \<^verbatim>\<open>\{.*\}\<close>: from the first opening to the last closing brace.\<close>

definition braced :: "string \<Rightarrow> string option" where
  "braced s =
     (let t = dropWhile (\<lambda>c. c \<noteq> CHR ''{'') s; u = rev (dropWhile (\<lambda>c. c \<noteq> CHR ''}'') (rev t)) in
      if u = [] then None else Some u)"

definition parse_json_object :: "string \<Rightarrow> (string \<times> json) list" where
  "parse_json_object text =
     (case (case loads text of Some v \<Rightarrow> Some v
            | None \<Rightarrow> (case braced text of None \<Rightarrow> None | Some t \<Rightarrow> loads t)) of
        Some (JObj d) \<Rightarrow> d | _ \<Rightarrow> [])"

section \<open>What is written is read back\<close>

lemma hex_value_hex: "k < 16 \<Longrightarrow> hex_value (''0123456789abcdef'' ! k) = Some k"
proof -
  have "\<forall>k \<in> set [0..<16]. hex_value (''0123456789abcdef'' ! k) = Some k" by code_simp
  then show "k < 16 \<Longrightarrow> hex_value (''0123456789abcdef'' ! k) = Some k" by simp
qed

lemma code_point_lt [simp]: "code_point c < 256"
  by (simp add: code_point_def)

lemma char_of_code_point [simp]: "char_of (code_point c) = c"
  by (simp add: code_point_def)

lemma json_unicode_hex: "json_unicode (CHR ''0'' # CHR ''0'' # hex2 (code_point c)) = Some c"
proof -
  have "hex_value (CHR ''0'') = Some 0" by code_simp
  moreover have "code_point c div 16 < 16" "code_point c mod 16 < 16"
    using code_point_lt [of c] by (simp_all add: less_mult_imp_div_less)
  ultimately show ?thesis by (simp add: json_unicode_def hex2_def hex_value_hex)
qed

lemma json_string_char: "json_string (json_char c @ t) = map_option (\<lambda>(u, q). (c # u, q)) (json_string t)"
proof -
  have e: "json_escape (CHR 0x22) = Some (CHR 0x22)" "json_escape (CHR 0x5C) = Some (CHR 0x5C)"
    "json_escape (CHR ''b'') = Some (CHR 0x08)" "json_escape (CHR ''f'') = Some (CHR 0x0C)"
    "json_escape (CHR ''n'') = Some (CHR 0x0A)" "json_escape (CHR ''r'') = Some (CHR 0x0D)"
    "json_escape (CHR ''t'') = Some (CHR 0x09)" "json_escape (CHR ''u'') = None" by code_simp+
  have l: "length (hex2 (code_point c)) = 2" by (simp add: hex2_def)
  then obtain a b where ab: "hex2 (code_point c) = [a, b]" by (auto simp: numeral_2_eq_2 length_Suc_conv)
  with json_unicode_hex [of c] have "json_unicode [CHR ''0'', CHR ''0'', a, b] = Some c" by simp
  then show ?thesis by (auto simp: json_char_def e ab numeral_eq_Suc)
qed

lemma json_string_quoted: "json_string (concat (map json_char s) @ CHR 0x22 # rest) = Some (s, rest)"
  by (induction s) (simp_all add: json_string_char)

text \<open>Integers.\<close>

lemma nat_digits_hd: "0 < n \<Longrightarrow> hd (nat_digits n) \<noteq> CHR ''0''"
proof (induction n rule: nat_digits.induct)
  case (1 n)
  show ?case
  proof (cases "n < 10")
    case True
    have "\<forall>k \<in> set [1..<10]. digit_char k \<noteq> CHR ''0''" by code_simp
    with True 1(2) show ?thesis by (simp add: nat_digits.simps [of n])
  next
    case False
    with 1(1) show ?thesis by (simp add: nat_digits.simps [of n])
  qed
qed

definition ends_number :: "string \<Rightarrow> bool" where
  "ends_number s \<longleftrightarrow> (case s of [] \<Rightarrow> True | c # r \<Rightarrow> c = CHR '','' \<or> c = CHR '']'' \<or> c = CHR ''}'')"

lemma ends_number_simps: "ends_number s \<Longrightarrow> takeWhile is_digit s = []" "ends_number s \<Longrightarrow> json_fraction s = []"
  "ends_number s \<Longrightarrow> json_exponent s = []"
  by (auto simp: ends_number_def json_fraction_def json_exponent_def is_digit_def code_point_def Let_def split: list.splits)

lemma takeWhile_digits: "list_all is_digit ds \<Longrightarrow> ends_number s \<Longrightarrow> takeWhile is_digit (ds @ s) = ds"
  using ends_number_simps(1) [of s] by (simp add: takeWhile_append list_all_iff)

lemma json_number_nat:
  assumes "ends_number s"
  shows "json_number (nat_digits n @ s) = Some (JInt (int n), s)"
    "0 < n \<Longrightarrow> json_number (CHR ''-'' # nat_digits n @ s) = Some (JInt (- int n), s)"
proof -
  obtain d ds where d: "nat_digits n = d # ds" by (metis nat_digits_not_Nil list.exhaust)
  have all: "is_digit d" "list_all is_digit ds" using nat_digits_all [of n] by (simp_all add: d)
  have m: "d \<noteq> CHR ''-''" using all(1) by (auto simp: is_digit_def code_point_def)
  have zero: "ds = []" if "d = CHR ''0''"
  proof -
    from that nat_digits_hd [of n] have "n = 0" by (auto simp: d)
    with d show ?thesis by (simp add: nat_digits.simps)
  qed
  have "parse_nat (d # ds) = n" using parse_nat_digits [of n] by (simp add: d)
  with all m zero show "json_number (nat_digits n @ s) = Some (JInt (int n), s)"
    "0 < n \<Longrightarrow> json_number (CHR ''-'' # nat_digits n @ s) = Some (JInt (- int n), s)"
    by (auto simp: json_number_def d Let_def takeWhile_digits [OF _ assms] ends_number_simps [OF assms])
qed

lemma json_literal_digit:
  "is_digit d \<Longrightarrow> json_literal (d # s) = json_number (d # s)"
  "is_digit d \<Longrightarrow> json_literal (CHR ''-'' # d # s) = json_number (CHR ''-'' # d # s)"
proof -
  assume d: "is_digit d"
  then have "d \<noteq> CHR ''n''" "d \<noteq> CHR ''t''" "d \<noteq> CHR ''f''" "d \<noteq> CHR ''N''" "d \<noteq> CHR ''I''" "d \<noteq> CHR ''-''"
    by (auto simp: is_digit_def code_point_def)
  then show "json_literal (d # s) = json_number (d # s)"
    "json_literal (CHR ''-'' # d # s) = json_number (CHR ''-'' # d # s)"
    by (simp_all add: json_literal_def)
qed

lemma json_literal_int:
  assumes "ends_number s"
  shows "json_literal (int_text n @ s) = Some (JInt n, s)"
proof -
  have same: "json_literal (nat_digits k @ s) = json_number (nat_digits k @ s)"
    "json_literal (CHR ''-'' # nat_digits k @ s) = json_number (CHR ''-'' # nat_digits k @ s)" for k
  proof -
    obtain d ds where d: "nat_digits k = d # ds" by (metis nat_digits_not_Nil list.exhaust)
    moreover have "is_digit d" using nat_digits_all [of k] by (simp add: d)
    ultimately show "json_literal (nat_digits k @ s) = json_number (nat_digits k @ s)"
      "json_literal (CHR ''-'' # nat_digits k @ s) = json_number (CHR ''-'' # nat_digits k @ s)"
      by (simp_all add: json_literal_digit)
  qed
  show ?thesis
  proof (cases "n < 0")
    case True
    with json_number_nat(2) [OF assms, of "nat (- n)"] same(2) [of "nat (- n)"] show ?thesis by (simp add: int_text_def)
  next
    case False
    with json_number_nat(1) [OF assms, of "nat n"] same(1) [of "nat n"] show ?thesis by (simp add: int_text_def)
  qed
qed

lemma json_literal_words:
  "json_literal (''null'' @ s) = Some (JNull, s)" "json_literal (''true'' @ s) = Some (JBool True, s)"
  "json_literal (''false'' @ s) = Some (JBool False, s)"
  by (simp_all add: json_literal_def)


text \<open>Values whose objects have no key twice and that hold no fraction.\<close>

fun json_plain :: "json \<Rightarrow> bool" where
  "json_plain (JFloat t) = False"
| "json_plain (JList xs) = list_all json_plain xs"
| "json_plain (JObj d) = (distinct (map fst d) \<and> list_all (\<lambda>p. json_plain (snd p)) d)"
| "json_plain v = True"

lemma dict_of_members: "distinct (map fst (d :: (string \<times> json) list)) \<Longrightarrow> fold (\<lambda>(k, v). AList.update k v) d [] = d"
proof -
  have new: "k \<notin> fst ` set e \<Longrightarrow> AList.update k v e = e @ [(k, v)]" for k :: string and v :: json and e
    by (induction e) auto
  have "distinct (map fst (e @ d)) \<Longrightarrow> fold (\<lambda>(k, v). AList.update k v) d e = e @ d" for e :: "(string \<times> json) list"
  proof (induction d arbitrary: e)
    case (Cons p d)
    then have "fst p \<notin> fst ` set e" by auto
    then have "(case p of (k, v) \<Rightarrow> AList.update k v) e = e @ [p]" using new [of "fst p" e "snd p"] by (simp add: case_prod_beta)
    with Cons show ?case by simp
  qed simp
  from this [of "[]"] show "distinct (map fst d) \<Longrightarrow> fold (\<lambda>(k, v). AList.update k v) d [] = d" by simp
qed

lemma join_Cons2: "join sep (x # y # ys) = x @ sep @ join sep (y # ys)" "join sep [x] = x" "join sep [] = []"
  by (simp_all add: join_def)

text \<open>What a value starts with.\<close>

definition starts_value :: "string \<Rightarrow> bool" where
  "starts_value s \<longleftrightarrow> (case s of [] \<Rightarrow> False | c # r \<Rightarrow> \<not> json_space c \<and> c \<noteq> CHR '']'' \<and> c \<noteq> CHR ''}'')"

lemma starts_digits: "starts_value (nat_digits n @ s)"
proof -
  obtain d ds where d: "nat_digits n = d # ds" by (metis nat_digits_not_Nil list.exhaust)
  moreover have "is_digit d" using nat_digits_all [of n] by (simp add: d)
  ultimately show ?thesis by (auto simp: starts_value_def json_space_def is_digit_def code_point_def)
qed

lemma starts_dumps: "json_plain v \<Longrightarrow> starts_value (dumps v @ s)"
  using starts_digits by (cases v) (auto simp: starts_value_def json_space_def json_quote_def int_text_def)

lemma starts_simps: "starts_value s \<Longrightarrow> skip_ws s = s" "starts_value s \<Longrightarrow> take 1 s \<noteq> '']''" "starts_value s \<Longrightarrow> take 1 s \<noteq> ''}''"
  by (auto simp: starts_value_def skip_ws_def split: list.splits)

lemma skip_ws_simps: "skip_ws (CHR '' '' # s) = skip_ws s" "skip_ws (CHR '','' # s) = CHR '','' # s"
  "skip_ws (CHR '']'' # s) = CHR '']'' # s" "skip_ws (CHR ''}'' # s) = CHR ''}'' # s" "skip_ws (CHR '':'' # s) = CHR '':'' # s"
  "skip_ws (CHR 0x22 # s) = CHR 0x22 # s"
  by (simp_all add: skip_ws_def json_space_def)


definition member_text :: "string \<times> json \<Rightarrow> string" where
  "member_text p = json_quote (fst p) @ '': '' @ dumps (snd p)"

lemma member_parts: "drop 1 (member_text (k, v) @ s) = concat (map json_char k) @ CHR 0x22 # '': '' @ dumps v @ s"
  "take 1 (member_text (k, v) @ s) = [CHR 0x22]" "length (dumps v) + 4 \<le> length (member_text (k, v))"
  by (simp_all add: member_text_def json_quote_def)

lemma dumps_obj: "dumps (JObj d) = ''{'' @ join '', '' (map member_text d) @ ''}''"
  by (simp add: member_text_def [abs_def])

text \<open>
  The reader on what the writer wrote, for enough fuel and any text behind that can end a number.
\<close>

lemma json_value_step:
  assumes v: "\<And>v s. json_plain v \<Longrightarrow> ends_number s \<Longrightarrow> 2 * length (dumps v) + 1 \<le> n \<Longrightarrow> json_value n (dumps v @ s) = Some (v, s)"
    and items: "\<And>xs s. xs \<noteq> [] \<Longrightarrow> list_all json_plain xs \<Longrightarrow> 2 * length (join '', '' (map dumps xs)) + 2 \<le> n \<Longrightarrow>
      json_items n (join '', '' (map dumps xs) @ CHR '']'' # s) = Some (xs, s)"
    and members: "\<And>d s. d \<noteq> [] \<Longrightarrow> list_all (\<lambda>p. json_plain (snd p)) d \<Longrightarrow>
      2 * length (join '', '' (map member_text d)) + 2 \<le> n \<Longrightarrow>
      json_members n (join '', '' (map member_text d) @ CHR ''}'' # s) = Some (d, s)"
    and pv: "json_plain v" and s: "ends_number s" and n: "2 * length (dumps v) + 1 \<le> Suc n"
  shows "json_value (Suc n) (dumps v @ s) = Some (v, s)"
proof (cases v)
  case (JStr t)
  then show ?thesis by (simp add: json_quote_def json_string_quoted)
next
  case (JInt i)
  have "json_value (Suc n) (int_text i @ s) = json_literal (int_text i @ s)"
  proof -
    have "hd (int_text i) \<notin> {CHR 0x22, CHR ''['', CHR ''{''}" "int_text i \<noteq> []"
    proof -
      obtain d ds where d: "nat_digits (nat i) = d # ds" by (metis nat_digits_not_Nil list.exhaust)
      moreover have "is_digit d" using nat_digits_all [of "nat i"] by (simp add: d)
      ultimately show "hd (int_text i) \<notin> {CHR 0x22, CHR ''['', CHR ''{''}" "int_text i \<noteq> []"
        by (auto simp: int_text_def is_digit_def code_point_def)
    qed
    then show ?thesis by (cases "int_text i") simp_all
  qed
  with JInt json_literal_int [OF s, of i] show ?thesis by simp
next
  case (JList xs)
  show ?thesis
  proof (cases "xs = []")
    case True
    with JList show ?thesis by (simp add: join_Cons2 skip_ws_simps)
  next
    case False
    then obtain y ys where xs: "xs = y # ys" by (cases xs) auto
    let ?t = "join '', '' (map dumps xs) @ CHR '']'' # s"
    have "starts_value ?t"
    proof (cases ys)
      case Nil
      with xs pv JList show ?thesis by (simp add: join_Cons2 starts_dumps)
    next
      case (Cons z zs)
      with xs pv JList show ?thesis by (simp add: join_Cons2 starts_dumps)
    qed
    note st = starts_simps [OF this]
    have "json_items n ?t = Some (xs, s)"
      using items [OF False] pv n JList by simp
    with st JList show ?thesis by simp
  qed
next
  case (JObj d)
  show ?thesis
  proof (cases "d = []")
    case True
    with JObj show ?thesis by (simp add: join_Cons2 skip_ws_simps)
  next
    case False
    then obtain p ds where d: "d = p # ds" by (cases d) auto
    let ?t = "join '', '' (map member_text d) @ CHR ''}'' # s"
    have "starts_value ?t"
      using d by (cases ds) (simp_all add: join_Cons2 member_text_def json_quote_def starts_value_def json_space_def)
    note st = starts_simps [OF this]
    have len: "2 * length (join '', '' (map member_text d)) + 2 \<le> n"
      using n unfolding JObj dumps_obj by simp
    have "json_members n ?t = Some (d, s)"
      using members [OF False _ len] pv JObj by simp
    with st pv JObj show ?thesis by (simp add: dumps_obj dict_of_members del: dumps.simps)
  qed
qed (use pv in \<open>simp_all add: json_literal_words [simplified]\<close>)


lemma one_char: "take 1 (c # s) = [c]" "drop 1 (c # s) = s"
  by simp_all

lemma json_round_steps:
  "(\<forall>v s. json_plain v \<longrightarrow> ends_number s \<longrightarrow> 2 * length (dumps v) + 1 \<le> n \<longrightarrow> json_value n (dumps v @ s) = Some (v, s)) \<and>
   (\<forall>xs s. xs \<noteq> [] \<longrightarrow> list_all json_plain xs \<longrightarrow> 2 * length (join '', '' (map dumps xs)) + 2 \<le> n \<longrightarrow>
      json_items n (join '', '' (map dumps xs) @ CHR '']'' # s) = Some (xs, s)) \<and>
   (\<forall>d s. d \<noteq> [] \<longrightarrow> list_all (\<lambda>p. json_plain (snd p)) d \<longrightarrow> 2 * length (join '', '' (map member_text d)) + 2 \<le> n \<longrightarrow>
      json_members n (join '', '' (map member_text d) @ CHR ''}'' # s) = Some (d, s))"
proof (induction n)
  case (Suc n)
  have v: "json_plain v \<Longrightarrow> ends_number s \<Longrightarrow> 2 * length (dumps v) + 1 \<le> n \<Longrightarrow> json_value n (dumps v @ s) = Some (v, s)" for v s
    using Suc.IH by blast
  have items: "xs \<noteq> [] \<Longrightarrow> list_all json_plain xs \<Longrightarrow> 2 * length (join '', '' (map dumps xs)) + 2 \<le> n \<Longrightarrow>
      json_items n (join '', '' (map dumps xs) @ CHR '']'' # s) = Some (xs, s)" for xs s
    using Suc.IH by blast
  have members: "d \<noteq> [] \<Longrightarrow> list_all (\<lambda>p. json_plain (snd p)) d \<Longrightarrow> 2 * length (join '', '' (map member_text d)) + 2 \<le> n \<Longrightarrow>
      json_members n (join '', '' (map member_text d) @ CHR ''}'' # s) = Some (d, s)" for d s
    using Suc.IH by blast
  have ends: "ends_number (CHR '','' # t)" "ends_number (CHR '']'' # t)" "ends_number (CHR ''}'' # t)" for t
    by (simp_all add: ends_number_def)
  have "json_items (Suc n) (join '', '' (map dumps xs) @ CHR '']'' # s) = Some (xs, s)"
    if "xs \<noteq> []" "list_all json_plain xs" "2 * length (join '', '' (map dumps xs)) + 2 \<le> Suc n" for xs s
  proof -
    from that(1) obtain x ys where xs: "xs = x # ys" by (cases xs) auto
    show ?thesis
    proof (cases ys)
      case Nil
      have "json_value n (dumps x @ CHR '']'' # s) = Some (x, CHR '']'' # s)"
        by (rule v) (use that xs Nil ends in \<open>simp_all add: join_Cons2\<close>)
      with xs Nil show ?thesis by (simp add: join_Cons2 skip_ws_simps)
    next
      case (Cons y zs)
      let ?r = "join '', '' (map dumps ys) @ CHR '']'' # s"
      have "json_value n (dumps x @ CHR '','' # CHR '' '' # ?r) = Some (x, CHR '','' # CHR '' '' # ?r)"
        by (rule v) (use that xs Cons ends in \<open>simp_all add: join_Cons2\<close>)
      moreover have "json_items n ?r = Some (ys, s)"
        by (rule items) (use that xs Cons in \<open>simp_all add: join_Cons2\<close>)
      moreover have "starts_value ?r"
        using that(2) xs Cons starts_dumps [of y] by (cases zs) (simp_all add: join_Cons2)
      ultimately show ?thesis using xs Cons starts_simps(1) [of ?r] by (simp add: join_Cons2 skip_ws_simps)
    qed
  qed
  moreover have "json_members (Suc n) (join '', '' (map member_text d) @ CHR ''}'' # s) = Some (d, s)"
    if "d \<noteq> []" "list_all (\<lambda>p. json_plain (snd p)) d" "2 * length (join '', '' (map member_text d)) + 2 \<le> Suc n" for d s
  proof -
    from that(1) obtain k w ds where d: "d = (k, w) # ds" by (cases d) auto
    have pw: "json_plain w" using that(2) d by simp
    have len: "2 * length (dumps w) + 1 \<le> n"
      using that(3) d member_parts(3) [of w k] by (cases ds) (simp_all add: join_Cons2)
    note mp = member_parts(1,2) [of k w]
    have head: "json_string (drop 1 (member_text (k, w) @ t)) = Some (k, CHR '':'' # CHR '' '' # dumps w @ t)"
      "skip_ws (dumps w @ t) = dumps w @ t" for t
      using json_string_quoted [of k] mp(1) [of t] starts_simps(1) [OF starts_dumps [OF pw]] by simp_all
    show ?thesis
    proof (cases ds)
      case Nil
      have "json_value n (dumps w @ CHR ''}'' # s) = Some (w, CHR ''}'' # s)" by (rule v [OF pw ends(3) len])
      with d Nil mp(2) head show ?thesis by (simp add: join_Cons2 skip_ws_simps one_char del: One_nat_def)
    next
      case (Cons p es)
      let ?r = "join '', '' (map member_text ds) @ CHR ''}'' # s"
      have "json_value n (dumps w @ CHR '','' # CHR '' '' # ?r) = Some (w, CHR '','' # CHR '' '' # ?r)"
        by (rule v [OF pw ends(1) len])
      moreover have "json_members n ?r = Some (ds, s)"
        by (rule members) (use that d Cons member_parts(3) [of w k] in \<open>simp_all add: join_Cons2\<close>)
      moreover have "skip_ws ?r = ?r"
        using Cons by (cases es) (simp_all add: join_Cons2 member_text_def json_quote_def skip_ws_simps)
      ultimately show ?thesis using d Cons mp(2) head by (simp add: join_Cons2 skip_ws_simps one_char del: One_nat_def)
    qed
  qed
  ultimately show ?case using json_value_step [OF v items members] by blast
qed simp

lemma loads_dumps:
  assumes "json_plain v"
  shows "loads (dumps v) = Some v"
proof -
  have "starts_value (dumps v @ [])" by (rule starts_dumps [OF assms])
  from starts_simps(1) [OF this] have "skip_ws (dumps v) = dumps v" by simp
  moreover have "json_value (2 * length (dumps v) + 2) (dumps v @ []) = Some (v, [])"
  proof -
    have "ends_number []" "2 * length (dumps v) + 1 \<le> 2 * length (dumps v) + 2" by (simp_all add: ends_number_def)
    with json_round_steps [of "2 * length (dumps v) + 2"] assms show ?thesis by blast
  qed
  ultimately show ?thesis by (simp add: loads_def skip_ws_def del: json_value.simps)
qed


section \<open>The fuel is enough\<close>

lemma skip_ws_length: "length (skip_ws s) \<le> length s"
  by (simp add: skip_ws_def length_dropWhile_le)

lemma skip_ws_Cons: "skip_ws s = c # r \<Longrightarrow> length r < length s"
  using skip_ws_length [of s] by simp

lemma json_string_consumes: "json_string s = Some (t, q) \<Longrightarrow> length q < length s"
proof (induction s arbitrary: t rule: json_string.induct)
  case (2 c s)
  then show ?case by (fastforce split: if_splits list.splits option.splits)
qed simp

lemma json_literal_consumes: "json_literal s = Some (v, q) \<Longrightarrow> length q < length s"
proof -
  have num: "json_number s = Some (v, q) \<Longrightarrow> length q < length s"
    by (cases s; cases "tl s") (auto simp: json_number_def Let_def split: list.splits if_splits)
  show "json_literal s = Some (v, q) \<Longrightarrow> length q < length s"
    using num by (cases s) (auto simp: json_literal_def split: if_splits)
qed

lemma json_consumes:
  "(\<forall>s v r. json_value n s = Some (v, r) \<longrightarrow> length r < length s) \<and>
   (\<forall>s xs r. json_items n s = Some (xs, r) \<longrightarrow> length r < length s) \<and>
   (\<forall>s d r. json_members n s = Some (d, r) \<longrightarrow> length r < length s)"
proof (induction n)
  case (Suc n)
  have v: "json_value n s = Some (v, r) \<Longrightarrow> length r < length s" for s v r using Suc.IH by blast
  have i: "json_items n s = Some (xs, r) \<Longrightarrow> length r < length s" for s xs r using Suc.IH by blast
  have m: "json_members n s = Some (d, r) \<Longrightarrow> length r < length s" for s d r using Suc.IH by blast
  have "length r < length s" if "json_value (Suc n) s = Some (v, r)" for s v r
    using that skip_ws_length [of "tl s"]
    by (auto split: list.splits if_splits dest!: json_string_consumes json_literal_consumes i m)
  moreover have "length r < length s" if items: "json_items (Suc n) s = Some (xs, r)" for s xs r
  proof -
    from items obtain x q where 1: "json_value n s = Some (x, q)" by (auto split: option.splits)
    from items 1 obtain d u where 2: "skip_ws q = d # u" by (auto split: list.splits)
    note less = v [OF 1] skip_ws_Cons [OF 2] skip_ws_length [of u]
    from items 1 2 less show ?thesis by (auto split: if_splits dest!: i)
  qed
  moreover have "length r < length s" if mem: "json_members (Suc n) s = Some (d, r)" for s d r
  proof -
    from mem obtain k q where 1: "json_string (drop 1 s) = Some (k, q)" "take 1 (skip_ws q) = '':''"
      by (auto split: option.splits if_splits)
    from mem 1 obtain w t where 2: "json_value n (skip_ws (drop 1 (skip_ws q))) = Some (w, t)" by (auto split: option.splits if_splits)
    from mem 1 2 obtain e u where 3: "skip_ws t = e # u" by (auto split: list.splits if_splits)
    note less = json_string_consumes [OF 1(1)] v [OF 2] skip_ws_Cons [OF 3] skip_ws_length [of u] skip_ws_length [of q]
      skip_ws_length [of "drop 1 (skip_ws q)"]
    from mem 1 2 3 less show ?thesis by (auto split: if_splits dest!: m)
  qed
  ultimately show ?case by blast
qed simp

lemma json_fuel_step:
  "(\<forall>s. 2 * length s + 1 \<le> n \<longrightarrow> json_value (Suc n) s = json_value n s) \<and>
   (\<forall>s. 2 * length s + 2 \<le> n \<longrightarrow> json_items (Suc n) s = json_items n s) \<and>
   (\<forall>s. 2 * length s + 2 \<le> n \<longrightarrow> json_members (Suc n) s = json_members n s)"
proof (induction n)
  case (Suc n)
  have v: "2 * length s + 1 \<le> n \<Longrightarrow> json_value (Suc n) s = json_value n s" for s using Suc.IH by blast
  have i: "2 * length s + 2 \<le> n \<Longrightarrow> json_items (Suc n) s = json_items n s" for s using Suc.IH by blast
  have m: "2 * length s + 2 \<le> n \<Longrightarrow> json_members (Suc n) s = json_members n s" for s using Suc.IH by blast
  have "json_value (Suc (Suc n)) s = json_value (Suc n) s" if "2 * length s + 1 \<le> Suc n" for s
  proof (cases s)
    case (Cons c r)
    with that skip_ws_length [of r] have "2 * length (skip_ws r) + 2 \<le> n" by simp
    with Cons show ?thesis
      by (simp add: i m json_value.simps(2) [of "Suc n"] json_value.simps(2) [of n] del: json_value.simps json_items.simps json_members.simps)
  qed simp
  moreover have "json_items (Suc (Suc n)) s = json_items (Suc n) s" if "2 * length s + 2 \<le> Suc n" for s
  proof (cases "json_value n s")
    case None
    with v [of s] that show ?thesis by (simp del: json_value.simps)
  next
    case (Some p)
    obtain x q where p: "p = (x, q)" by (cases p)
    show ?thesis
    proof (cases "skip_ws q")
      case Nil
      with v [of s] that Some p show ?thesis by (simp del: json_value.simps)
    next
      case (Cons d u)
      have "length q < length s" using json_consumes [of n] Some p by blast
      with that skip_ws_Cons [OF Cons] skip_ws_length [of u] have "2 * length (skip_ws u) + 2 \<le> n" by simp
      note step = i [OF this] and same = v [of s]
      show ?thesis using that Some p Cons same
        by (simp add: step del: json_value.simps json_items.simps add: json_items.simps(2) [of n s] json_items.simps(2) [of "Suc n" s])
    qed
  qed
  moreover have "json_members (Suc (Suc n)) s = json_members (Suc n) s" if "2 * length s + 2 \<le> Suc n" for s
  proof (cases "json_string (drop 1 s)")
    case None
    then show ?thesis by simp
  next
    case (Some p)
    obtain k q where p: "p = (k, q)" by (cases p)
    let ?t = "skip_ws (drop 1 (skip_ws q))"
    from Some p have q: "length q < length (drop 1 s)" using json_string_consumes [of "drop 1 s" k q] by simp
    with skip_ws_length [of q] skip_ws_length [of "drop 1 (skip_ws q)"] have t: "length ?t < length s" by simp
    with that have same: "json_value (Suc n) ?t = json_value n ?t" by (intro v) simp
    show ?thesis
    proof (cases "json_value n ?t")
      case None
      with same Some p show ?thesis by (simp del: json_value.simps)
    next
      case (Some w)
      obtain x r where w: "w = (x, r)" by (cases w)
      note found = Some w and key = \<open>json_string (drop 1 s) = Some p\<close> p
      show ?thesis
      proof (cases "skip_ws r")
        case Nil
        with same found key show ?thesis by (simp del: json_value.simps)
      next
        case (Cons d u)
        have "length r < length ?t" using json_consumes [of n] found by blast
        with t that skip_ws_Cons [OF Cons] skip_ws_length [of u] have "2 * length (skip_ws u) + 2 \<le> n" by simp
        note step = m [OF this]
        show ?thesis using found key Cons same
          by (simp add: step del: json_value.simps json_members.simps add: json_members.simps(2) [of n s] json_members.simps(2) [of "Suc n" s])
      qed
    qed
  qed
  ultimately show ?case by blast
qed simp

lemma json_value_enough: "2 * length s + 1 \<le> n \<Longrightarrow> json_value (n + k) s = json_value n s"
proof (induction k)
  case (Suc k)
  then have "json_value (Suc (n + k)) s = json_value (n + k) s" using json_fuel_step [of "n + k"] by simp
  with Suc show ?case by simp
qed simp

end
