(* ===== verification/AdminChat.thy ===== *)
theory AdminChat
  imports ProductQuery Json Sessions "HOL-Library.Multiset"
begin

text \<open>
  Managing the catalog by chat (\<^verbatim>\<open>services/admin_chat_service.py\<close>): an instruction is read, resolved
  against the whole catalog and answered with a one-time token; only a second request that carries
  the token changes the product. The pending change is kept in Redis as JSON text, the audit log is
  a table of its own. The wording of the replies is left out.
\<close>

section \<open>State and environment\<close>

record chat_audit =
  au_admin :: uuid
  au_action :: string
  au_target_type :: string
  au_target :: "uuid option"
  au_before :: "(string \<times> json) list"
  au_after :: "(string \<times> json) list"

record 'r admin_env =
  an_now :: time
  an_redis :: "'r redis"
  an_token :: string
  an_fold :: fold_text
  an_pg :: pg

record 'r admin_state =
  ac_db :: db
  ac_redis :: 'r
  ac_audit :: "chat_audit list"

type_synonym ('r, 'a) adminop = "('r admin_state, 'a) op"

definition on_products :: "'a dbop \<Rightarrow> ('r, 'a) adminop" where
  "on_products m s = (case m (ac_db s) of (r, d) \<Rightarrow> (r, s\<lparr>ac_db := d\<rparr>))"

text \<open>An exception rolls back the two tables, not Redis.\<close>

definition admin_request :: "('r, 'a) adminop \<Rightarrow> ('r, 'a) adminop" where
  "admin_request m s = (case m s of (Inl e, t) \<Rightarrow> (Inl e, t\<lparr>ac_db := ac_db s, ac_audit := ac_audit s\<rparr>)
     | (Inr x, t) \<Rightarrow> (Inr x, t))"

datatype chat_status =
    ConfirmRequired | Executed | Missing | Ambiguous | InvalidValue | Unrecognized | Expired | Stale

record preview =
  pv_action :: admin_action
  pv_product :: uuid
  pv_name :: string
  pv_sku :: string
  pv_field :: string
  pv_current :: string
  pv_new :: string

record admin_reply =
  rp_status :: chat_status
  rp_token :: "string option"
  rp_action :: "preview option"

definition reply :: "chat_status \<Rightarrow> admin_reply" where
  "reply st = \<lparr>rp_status = st, rp_token = None, rp_action = None\<rparr>"

section \<open>The catalog\<close>

definition catalog_page_size :: nat where
  "catalog_page_size = 100"

definition catalog_page :: "nat \<Rightarrow> product_search" where
  "catalog_page skip = default_search\<lparr>ps_sort_by := SortName, ps_ascending := True, ps_skip := skip, ps_limit := catalog_page_size\<rparr>"

text \<open>The loop over the pages.\<close>

function load_pages :: "pg \<Rightarrow> db \<Rightarrow> nat \<Rightarrow> product list" where
  "load_pages g s skip =
     (case list_products g (catalog_page skip) False s of
        (page, n) \<Rightarrow>
          page @ (if length page < catalog_page_size \<or> n \<le> skip + catalog_page_size then []
                  else load_pages g s (skip + catalog_page_size)))"
  by pat_completeness auto

lemma catalog_page_rows:
  "list_products g (catalog_page skip) False s =
     (take catalog_page_size (drop skip (sort_key (\<lambda>p. pg_rank g (p_name p)) (products s))), length (products s))"
  by (simp add: list_products_def catalog_page_def default_search_def product_matches_def Let_def slice_def order_rows_def)

termination load_pages
  by (relation "measure (\<lambda>(g, s, skip). length (products s) - skip)") (auto simp: catalog_page_rows catalog_page_size_def)

declare load_pages.simps [simp del]

definition load_catalog :: "pg \<Rightarrow> db \<Rightarrow> product list" where
  "load_catalog g s = load_pages g s 0"

definition match_instruction :: "fold_text \<Rightarrow> string \<Rightarrow> product list \<Rightarrow> product list" where
  "match_instruction F message catalog =
     (let n = strip_accents F message;
          by_sku = filter (\<lambda>p. 4 \<le> length (p_sku p) \<and> contains (strip_accents F (p_sku p)) n) catalog;
          q = parse_product_query F message (sort (remdups (map p_brand catalog))) in
      if by_sku \<noteq> [] then by_sku
      else if is_specific q then filter_products F catalog q else [])"

section \<open>The change\<close>

text \<open>\<^verbatim>\<open>str(Decimal)\<close> and \<^verbatim>\<open>Decimal(str)\<close> for amounts that are not negative.\<close>

definition decimal_text :: "decimal \<Rightarrow> string" where
  "decimal_text d =
     (case d of (m, k) \<Rightarrow>
        if k = 0 then nat_digits (nat m)
        else (let ds = zero_pad (Suc k) (nat m) in take (length ds - k) ds @ ''.'' @ drop (length ds - k) ds))"

definition parse_decimal :: "string \<Rightarrow> decimal option" where
  "parse_decimal t =
     (let w = digits t; r = drop (length w) t; f = digits (drop 1 r) in
      if w = [] then None
      else if r = [] then Some (int (parse_nat w), 0)
      else if take 1 r = ''.'' \<and> f \<noteq> [] \<and> drop (Suc (length f)) r = [] then Some (int (parse_nat (w @ f)), length f)
      else None)"

definition value_invalid :: "instruction \<Rightarrow> bool" where
  "value_invalid i \<longleftrightarrow>
     (case in_action i of
        UpdatePrice \<Rightarrow> (case in_price i of None \<Rightarrow> True | Some (m, k) \<Rightarrow> m \<le> 0)
      | UpdateStock \<Rightarrow> (case in_stock i of None \<Rightarrow> True | Some n \<Rightarrow> n < 0)
      | SetActive \<Rightarrow> False)"

definition before_change :: "instruction \<Rightarrow> product \<Rightarrow> (string \<times> json) list" where
  "before_change i p =
     (case in_action i of
        UpdatePrice \<Rightarrow> [(''price'', JStr (decimal_text (p_price p, 2)))]
      | UpdateStock \<Rightarrow> [(''stock_quantity'', JInt (p_stock_quantity p))]
      | SetActive \<Rightarrow> [(''is_active'', JBool (p_is_active p))])"

definition after_change :: "instruction \<Rightarrow> (string \<times> json) list" where
  "after_change i =
     (case in_action i of
        UpdatePrice \<Rightarrow> [(''price'', JStr (decimal_text (the (in_price i))))]
      | UpdateStock \<Rightarrow> [(''stock_quantity'', JInt (the (in_stock i)))]
      | SetActive \<Rightarrow> [(''is_active'', JBool (the (in_active i)))])"

definition change_of :: "instruction \<Rightarrow> product_update" where
  "change_of i =
     (case in_action i of
        UpdatePrice \<Rightarrow> no_product_update\<lparr>pu_price := Val (decimal_money (the (in_price i)))\<rparr>
      | UpdateStock \<Rightarrow> no_product_update\<lparr>pu_stock_quantity := Val (the (in_stock i))\<rparr>
      | SetActive \<Rightarrow> no_product_update\<lparr>pu_is_active := Val (the (in_active i))\<rparr>)"

text \<open>Amounts in replies: whole units in groups of three digits.\<close>

function grouped_digits :: "string \<Rightarrow> string" where
  "grouped_digits ds =
     (if length ds \<le> 3 then ds else grouped_digits (take (length ds - 3) ds) @ ''.'' @ drop (length ds - 3) ds)"
  by pat_completeness auto

termination grouped_digits
  by (relation "measure length") auto

definition amount_text :: "decimal \<Rightarrow> string" where
  "amount_text d = (case d of (m, k) \<Rightarrow> grouped_digits (nat_digits (nat (m div 10 ^ k))) @ ''d'')"

definition build_preview :: "instruction \<Rightarrow> product \<Rightarrow> preview" where
  "build_preview i p =
     (let shown = (\<lambda>b. if b then ''hien thi'' else ''an'');
          row = (\<lambda>f c n. \<lparr>pv_action = in_action i, pv_product = p_id p, pv_name = p_name p, pv_sku = p_sku p,
                 pv_field = f, pv_current = c, pv_new = n\<rparr>) in
      case in_action i of
        UpdatePrice \<Rightarrow> row ''price'' (amount_text (p_price p, 2)) (amount_text (the (in_price i)))
      | UpdateStock \<Rightarrow> row ''stock_quantity'' (int_text (p_stock_quantity p)) (int_text (the (in_stock i)))
      | SetActive \<Rightarrow> row ''is_active'' (shown (p_is_active p)) (shown (the (in_active i))))"

section \<open>The pending change in Redis\<close>

fun action_text :: "admin_action \<Rightarrow> string" where
  "action_text UpdatePrice = ''update_price''"
| "action_text UpdateStock = ''update_stock''"
| "action_text SetActive = ''set_active''"

definition action_of_text :: "string \<Rightarrow> admin_action option" where
  "action_of_text t = find (\<lambda>a. action_text a = t) [UpdatePrice, UpdateStock, SetActive]"

definition pending_key :: "string \<Rightarrow> string" where
  "pending_key token = ''admin_chat:pending:'' @ token"

definition pending_ttl :: int where
  "pending_ttl = 300"

definition json_or_null :: "('a \<Rightarrow> json) \<Rightarrow> 'a option \<Rightarrow> json" where
  "json_or_null f m = (case m of None \<Rightarrow> JNull | Some x \<Rightarrow> f x)"

definition pending_payload :: "uuid \<Rightarrow> instruction \<Rightarrow> product \<Rightarrow> (string \<times> json) list" where
  "pending_payload admin i p =
     [(''admin_id'', JStr (uuid_text admin)), (''product_id'', JStr (uuid_text (p_id p))),
      (''action'', JStr (action_text (in_action i))),
      (''price_value'', json_or_null (\<lambda>d. JStr (decimal_text d)) (in_price i)),
      (''stock_value'', json_or_null JInt (in_stock i)), (''active_value'', json_or_null JBool (in_active i)),
      (''before_snapshot'', JObj (before_change i p))]"

text \<open>
  Reading the payload back. What \<open>store_pending\<close> never writes is answered with the Python exception
  the access would raise.
\<close>

definition instruction_from_payload :: "(string \<times> json) list \<Rightarrow> exn + instruction" where
  "instruction_from_payload d =
     (case (case jget ''action'' d of JStr a \<Rightarrow> action_of_text a | _ \<Rightarrow> None) of
        None \<Rightarrow> Inl (PyError ''KeyError'')
      | Some a \<Rightarrow>
          (let price = (case jget ''price_value'' d of JStr t \<Rightarrow> parse_decimal t | _ \<Rightarrow> None) in
           if jget ''price_value'' d \<noteq> JNull \<and> price = None then Inl (PyError ''InvalidOperation'')
           else Inr \<lparr>in_action = a, in_price = price,
                  in_stock = (case jget ''stock_value'' d of JInt n \<Rightarrow> Some n | _ \<Rightarrow> None),
                  in_active = (case jget ''active_value'' d of JBool b \<Rightarrow> Some b | _ \<Rightarrow> None)\<rparr>))"

definition payload_product :: "(string \<times> json) list \<Rightarrow> exn + uuid" where
  "payload_product d = (case jget ''product_id'' d of JStr t \<Rightarrow> parse_uuid t | _ \<Rightarrow> Inl (PyError ''KeyError''))"

definition pending_setex :: "'r admin_env \<Rightarrow> string \<Rightarrow> string \<Rightarrow> ('r, unit) adminop" where
  "pending_setex E k v = modify (\<lambda>s. s\<lparr>ac_redis := rd_setex (an_redis E) (an_now E) k pending_ttl v (ac_redis s)\<rparr>)"

text \<open>\<^verbatim>\<open>GETDEL\<close>\<close>

definition pending_getdel :: "'r admin_env \<Rightarrow> string \<Rightarrow> ('r, string option) adminop" where
  "pending_getdel E k s = (Inr (rd_get (an_redis E) (an_now E) k (ac_redis s)),
     s\<lparr>ac_redis := rd_delete (an_redis E) k (ac_redis s)\<rparr>)"

definition record_audit :: "chat_audit \<Rightarrow> ('r, unit) adminop" where
  "record_audit a = modify (\<lambda>s. s\<lparr>ac_audit := ac_audit s @ [a]\<rparr>)"

section \<open>The two requests\<close>

definition plan_instruction :: "'r admin_env \<Rightarrow> string \<Rightarrow> user \<Rightarrow> ('r, admin_reply) adminop" where
  "plan_instruction E message admin =
     (case parse_admin_instruction (an_fold E) message of
        None \<Rightarrow> ret (reply Unrecognized)
      | Some i \<Rightarrow>
          andThen (gets (\<lambda>s. match_instruction (an_fold E) message (load_catalog (an_pg E) (ac_db s)))) (\<lambda>found.
            case found of
              [] \<Rightarrow> ret (reply Missing)
            | [p] \<Rightarrow>
                if value_invalid i then ret (reply InvalidValue)
                else andThen (pending_setex E (pending_key (an_token E)) (dumps (JObj (pending_payload (u_id admin) i p)))) (\<lambda>_.
                  ret \<lparr>rp_status = ConfirmRequired, rp_token = Some (an_token E), rp_action = Some (build_preview i p)\<rparr>)
            | _ \<Rightarrow> ret (reply Ambiguous)))"

text \<open>The part of the confirmation behind the token.\<close>

definition apply_pending :: "(string \<times> json) list \<Rightarrow> user \<Rightarrow> ('r, admin_reply) adminop" where
  "apply_pending d admin =
     andThen (lift_result (instruction_from_payload d)) (\<lambda>i.
     andThen (lift_result (payload_product d)) (\<lambda>pid.
     andThen (gets (\<lambda>s. product_by_id pid False (ac_db s))) (\<lambda>m.
       case m of
         None \<Rightarrow> ret (reply Missing)
       | Some p \<Rightarrow>
           if value_invalid i then ret (reply InvalidValue)
           else if jget ''before_snapshot'' d \<noteq> JNull \<and> jget ''before_snapshot'' d \<noteq> JObj (before_change i p)
           then ret (reply Stale)
           else andThen (on_products (update_product pid (change_of i) admin)) (\<lambda>_.
                andThen (record_audit \<lparr>au_admin = u_id admin, au_action = action_text (in_action i), au_target_type = ''product'', au_target = Some pid,
                                      au_before = before_change i p, au_after = after_change i\<rparr>) (\<lambda>_.
                ret (reply Executed))))))"

definition execute_pending :: "'r admin_env \<Rightarrow> string \<Rightarrow> user \<Rightarrow> ('r, admin_reply) adminop" where
  "execute_pending E token admin =
     andThen (pending_getdel E (pending_key token)) (\<lambda>raw.
       case raw of
         None \<Rightarrow> ret (reply Expired)
       | Some t \<Rightarrow>
           (case loads t of
              None \<Rightarrow> raise (PyError ''JSONDecodeError'')
            | Some (JObj d) \<Rightarrow>
                if jget ''admin_id'' d \<noteq> JStr (uuid_text (u_id admin)) then ret (reply Expired)
                else apply_pending d admin
            | Some v \<Rightarrow> raise (PyError ''AttributeError'')))"

record chat_request =
  cr_message :: string
  cr_confirm :: bool
  cr_token :: "string option"

definition parse_chat_request :: "chat_request \<Rightarrow> exn + chat_request" where
  "parse_chat_request q =
     (if length (cr_message q) \<le> 500 \<and> (case cr_token q of None \<Rightarrow> True | Some t \<Rightarrow> length t \<le> 64)
      then Inr q else Inl (PyError ''ValidationError''))"

definition handle_instruction :: "'r admin_env \<Rightarrow> chat_request \<Rightarrow> user \<Rightarrow> ('r, admin_reply) adminop" where
  "handle_instruction E q admin =
     (if cr_confirm q \<and> truthy (cr_token q) then execute_pending E (the (cr_token q)) admin
      else plan_instruction E (cr_message q) admin)"

text \<open>The endpoint, for a caller the authentication dependency has resolved.\<close>

definition admin_chat_endpoint :: "'r admin_env \<Rightarrow> chat_request \<Rightarrow> user \<Rightarrow> ('r, admin_reply) adminop" where
  "admin_chat_endpoint E q admin =
     admin_request (
       andThen (ensure (is_admin admin) (AppError Forbidden ''admin_required'')) (\<lambda>_.
       andThen (lift_result (parse_chat_request q)) (\<lambda>q'.
       handle_instruction E q' admin)))"

section \<open>The catalog is loaded whole\<close>

lemma load_pages_rows: "load_pages g s skip = drop skip (sort_key (\<lambda>p. pg_rank g (p_name p)) (products s))"
proof (induction g s skip rule: load_pages.induct)
  case (1 g s skip)
  let ?rows = "sort_key (\<lambda>p. pg_rank g (p_name p)) (products s)"
  let ?page = "take catalog_page_size (drop skip ?rows)"
  show ?case
  proof (cases "length ?page < catalog_page_size \<or> length (products s) \<le> skip + catalog_page_size")
    case True
    then have "?page = drop skip ?rows" by auto
    with True show ?thesis by (simp add: load_pages.simps [of g s skip] catalog_page_rows)
  next
    case False
    then have "load_pages g s (skip + catalog_page_size) = drop (skip + catalog_page_size) ?rows"
      using 1 [OF catalog_page_rows [symmetric]] by auto
    with False show ?thesis
      by (simp add: load_pages.simps [of g s skip] catalog_page_rows add.commute flip: drop_drop)
  qed
qed

section \<open>The pending change is read back\<close>

lemma digits_append: "list_all is_digit ds \<Longrightarrow> digits (ds @ s) = ds @ digits s"
  by (simp add: digits_def takeWhile_append list_all_iff)

lemma digits_point [simp]: "digits (CHR ''.'' # s) = []" "digits [] = []"
  by (simp_all add: digits_def is_digit_def code_point_def)

lemma parse_decimal_text: "0 \<le> m \<Longrightarrow> parse_decimal (decimal_text (m, k)) = Some (m, k)"
proof (cases "k = 0")
  case True
  assume "0 \<le> m"
  with True digits_append [OF nat_digits_all, of "nat m" "[]"] show ?thesis
    by (simp add: parse_decimal_def decimal_text_def parse_nat_digits Let_def)
next
  case False
  assume m: "0 \<le> m"
  define ds where "ds = zero_pad (Suc k) (nat m)"
  define w f where "w = take (length ds - k) ds" and "f = drop (length ds - k) ds"
  have "Suc k \<le> length ds" by (simp add: ds_def zero_pad_def Let_def)
  moreover have "list_all is_digit ds" by (simp add: ds_def zero_pad_all)
  ultimately have wf: "w \<noteq> []" "length f = k" "list_all is_digit w" "list_all is_digit f" "w @ f = ds"
    by (auto simp: w_def f_def list_all_iff dest: in_set_takeD in_set_dropD)
  have "decimal_text (m, k) = w @ ''.'' @ f" using False by (simp add: decimal_text_def Let_def ds_def w_def f_def)
  moreover have "digits (w @ CHR ''.'' # f) = w" "digits f = f"
    using digits_append [OF wf(3), of "CHR ''.'' # f"] digits_append [OF wf(4), of "[]"] by simp_all
  moreover have "int (parse_nat ds) = m" using m by (simp add: ds_def)
  ultimately show ?thesis using wf False by (auto simp: parse_decimal_def Let_def)
qed

lemma action_text_back: "action_of_text (action_text a) = Some a"
  by (cases a) (simp_all add: action_of_text_def)

text \<open>An instruction whose amount is not negative.\<close>

definition readable :: "instruction \<Rightarrow> bool" where
  "readable i \<longleftrightarrow> (case in_price i of None \<Rightarrow> True | Some (m, k) \<Rightarrow> 0 \<le> m)"

lemma payload_fields:
  "jget ''admin_id'' (pending_payload a i p) = JStr (uuid_text a)"
  "jget ''product_id'' (pending_payload a i p) = JStr (uuid_text (p_id p))"
  "jget ''action'' (pending_payload a i p) = JStr (action_text (in_action i))"
  "jget ''price_value'' (pending_payload a i p) = json_or_null (\<lambda>d. JStr (decimal_text d)) (in_price i)"
  "jget ''stock_value'' (pending_payload a i p) = json_or_null JInt (in_stock i)"
  "jget ''active_value'' (pending_payload a i p) = json_or_null JBool (in_active i)"
  "jget ''before_snapshot'' (pending_payload a i p) = JObj (before_change i p)"
  by (simp_all add: jget_def pending_payload_def)

lemma payload_instruction: "readable i \<Longrightarrow> instruction_from_payload (pending_payload a i p) = Inr i"
  by (cases i; cases "in_price i")
     (auto simp: instruction_from_payload_def payload_fields action_text_back json_or_null_def readable_def parse_decimal_text
       split: option.splits prod.splits)

lemma payload_stored:
  "loads (dumps (JObj (pending_payload a i p))) = Some (JObj (pending_payload a i p))"
proof (rule loads_dumps)
  have n: "json_plain (json_or_null (\<lambda>d. JStr (f d)) m)" "json_plain (json_or_null JInt m')" "json_plain (json_or_null JBool m'')"
    for f and m :: "decimal option" and m' m'' by (simp_all add: json_or_null_def split: option.splits)
  have b: "json_plain (JObj (before_change i p))" by (cases "in_action i") (simp_all add: before_change_def)
  show "json_plain (JObj (pending_payload a i p))" using n b by (simp add: pending_payload_def)
qed

section \<open>What the two requests do\<close>

lemma nonneg_values:
  "million_here w s = Some (m, k) \<Longrightarrow> 0 \<le> m" "thousand_here w s = Some (m, k) \<Longrightarrow> 0 \<le> m"
  "grouped_here w s = Some (m, k) \<Longrightarrow> 0 \<le> m" "bare_here w s = Some (m, k) \<Longrightarrow> 0 \<le> m"
  by (auto simp: million_here_def thousand_here_def grouped_here_def bare_here_def Let_def split: if_splits prod.splits)

lemma search_at_Some: "search_at f w s = Some x \<Longrightarrow> \<exists>w' s'. f w' s' = Some x"
  by (induction s arbitrary: w) (auto split: option.splits)

lemma price_nonneg: "parse_price_value F t = Some (m, k) \<Longrightarrow> 0 \<le> m"
  by (auto simp: parse_price_value_def Let_def split: option.splits dest!: search_at_Some nonneg_values)

lemma instruction_readable: "parse_admin_instruction F t = Some i \<Longrightarrow> readable i"
  by (auto simp: parse_admin_instruction_def Let_def readable_def price_nonneg split: if_splits)

lemma plan_confirm:
  assumes "plan_instruction E message admin s = (Inr r, s1)" and "rp_status r = ConfirmRequired"
  shows "\<exists>i p. parse_admin_instruction (an_fold E) message = Some i \<and> \<not> value_invalid i \<and>
    match_instruction (an_fold E) message (load_catalog (an_pg E) (ac_db s)) = [p] \<and>
    s1 = s\<lparr>ac_redis := rd_setex (an_redis E) (an_now E) (pending_key (an_token E)) pending_ttl
            (dumps (JObj (pending_payload (u_id admin) i p))) (ac_redis s)\<rparr> \<and>
    r = \<lparr>rp_status = ConfirmRequired, rp_token = Some (an_token E),
         rp_action = Some (build_preview i p)\<rparr>"
  using assms
  by (auto simp: plan_instruction_def pending_setex_def reply_def op_simps split: option.splits list.splits if_splits)

lemma plan_keeps: "plan_instruction E message admin s = (r, t) \<Longrightarrow> ac_db t = ac_db s \<and> ac_audit t = ac_audit s"
proof -
  let ?P = "\<lambda>t. ac_db t = ac_db s \<and> ac_audit t = ac_audit s"
  have modify: "keeps ?P (pending_setex E k v)" for k v
    by (simp add: keeps_def pending_setex_def modify_def)
  have "keeps ?P (plan_instruction E message admin)"
    unfolding plan_instruction_def
    by (intro keeps_intros modify) (auto split: list.split intro!: keeps_intros modify)
  moreover assume "plan_instruction E message admin s = (r, t)"
  ultimately show ?thesis by (auto dest: keepsD)
qed

lemma update_product_done:
  assumes "update_product pid pu admin s = (Inr q, t)"
  shows "t = s\<lparr>products := upd_row p_id pid (apply_product_update pu) (products s)\<rparr> \<and> is_admin admin"
  using assms
  by (auto simp: update_product_def repo_update_product_def ensure_admin_def op_simps product_response_def
      split: if_splits sum.splits)

lemma apply_executed:
  assumes "apply_pending d admin s = (Inr r, t)" and "rp_status r = Executed"
  shows "\<exists>i pid p. instruction_from_payload d = Inr i \<and> payload_product d = Inr pid \<and> \<not> value_invalid i \<and>
    product_by_id pid False (ac_db s) = Some p \<and>
    (jget ''before_snapshot'' d = JNull \<or> jget ''before_snapshot'' d = JObj (before_change i p)) \<and>
    t = s\<lparr>ac_db := (ac_db s)\<lparr>products := upd_row p_id pid (apply_product_update (change_of i)) (products (ac_db s))\<rparr>,
          ac_audit := ac_audit s @ [\<lparr>au_admin = u_id admin, au_action = action_text (in_action i), au_target_type = ''product'', au_target = Some pid,
             au_before = before_change i p, au_after = after_change i\<rparr>]\<rparr>"
  using assms
  by (auto simp: apply_pending_def reply_def op_simps lift_result_def on_products_def record_audit_def
      split: sum.splits option.splits if_splits prod.splits dest!: update_product_done)

lemma match_subset: "p \<in> set (match_instruction F m ps) \<Longrightarrow> p \<in> set ps"
  by (auto simp: match_instruction_def filter_products_def Let_def split: if_splits)

lemma load_catalog_rows: "load_catalog g s = sort_key (\<lambda>p. pg_rank g (p_name p)) (products s)"
  by (simp add: load_catalog_def load_pages_rows)

lemma execute_executed:
  assumes "execute_pending E token admin s = (Inr r, t)" and "rp_status r = Executed"
  obtains d where "rd_get (an_redis E) (an_now E) (pending_key token) (ac_redis s) \<noteq> None"
    "loads (the (rd_get (an_redis E) (an_now E) (pending_key token) (ac_redis s))) = Some (JObj d)"
    "jget ''admin_id'' d = JStr (uuid_text (u_id admin))"
    "apply_pending d admin (s\<lparr>ac_redis := rd_delete (an_redis E) (pending_key token) (ac_redis s)\<rparr>) = (Inr r, t)"
  using assms
  by (auto simp: execute_pending_def pending_getdel_def op_simps reply_def split: option.splits json.splits if_splits)


text \<open>
  C10. A confirmed change is the change that was previewed: when a token issued for an instruction is
  confirmed with success, then within 300 seconds, by the administrator who asked, while the field
  still has the value that was shown; the product named by the instruction, and nothing else, changes
  as the preview said, one audit entry records both values, and the token is spent.
\<close>
theorem admin_chat_confirm:
  assumes "redis_store (an_redis E)" "an_redis E2 = an_redis E" "an_now E \<le> an_now E2"
    and "plan_instruction E message admin s = (Inr r, s1)" "rp_status r = ConfirmRequired"
    and "rd_get (an_redis E) (an_now E2) (pending_key (an_token E)) (ac_redis s2)
         = rd_get (an_redis E) (an_now E2) (pending_key (an_token E)) (ac_redis s1)"
    and "execute_pending E2 (an_token E) admin2 s2 = (Inr r2, t)" "rp_status r2 = Executed"
    and "u_id admin < 2 ^ 128" "u_id admin2 < 2 ^ 128" "list_all (\<lambda>p. p_id p < 2 ^ 128) (products (ac_db s))"
  shows "an_now E2 < an_now E + secs 300 \<and> u_id admin2 = u_id admin \<and>
    (\<exists>i p q. parse_admin_instruction (an_fold E) message = Some i \<and> \<not> value_invalid i \<and>
      match_instruction (an_fold E) message (load_catalog (an_pg E) (ac_db s)) = [p] \<and>
      rp_action r = Some (build_preview i p) \<and>
      product_by_id (p_id p) False (ac_db s2) = Some q \<and> before_change i q = before_change i p \<and>
      ac_db t = (ac_db s2)\<lparr>products := upd_row p_id (p_id p) (apply_product_update (change_of i)) (products (ac_db s2))\<rparr> \<and>
      ac_audit t = ac_audit s2 @ [\<lparr>au_admin = u_id admin, au_action = action_text (in_action i), au_target_type = ''product'', au_target = Some (p_id p),
         au_before = before_change i p, au_after = after_change i\<rparr>]) \<and>
    (\<forall>u. rd_get (an_redis E) u (pending_key (an_token E)) (ac_redis t) = None)"
proof -
  let ?R = "an_redis E" and ?k = "pending_key (an_token E)"
  from plan_confirm [OF assms(4,5)] obtain i p where ip:
    "parse_admin_instruction (an_fold E) message = Some i" "\<not> value_invalid i"
    "match_instruction (an_fold E) message (load_catalog (an_pg E) (ac_db s)) = [p]"
    and r: "rp_action r = Some (build_preview i p)"
    and s1: "ac_redis s1 = rd_setex ?R (an_now E) ?k pending_ttl (dumps (JObj (pending_payload (u_id admin) i p))) (ac_redis s)"
    by auto
  have live: "rd_get ?R (an_now E2) ?k (ac_redis s2) =
      (if an_now E2 < an_now E + secs 300 then Some (dumps (JObj (pending_payload (u_id admin) i p))) else None)"
    using assms(3,6) redis_store.get_setex [OF assms(1), of pending_ttl "an_now E" "an_now E2"]
    by (simp add: s1 pending_ttl_def)
  from execute_executed [OF assms(7,8)] obtain d where
    d: "rd_get ?R (an_now E2) ?k (ac_redis s2) \<noteq> None"
      "loads (the (rd_get ?R (an_now E2) ?k (ac_redis s2))) = Some (JObj d)"
      "jget ''admin_id'' d = JStr (uuid_text (u_id admin2))"
      "apply_pending d admin2 (s2\<lparr>ac_redis := rd_delete ?R ?k (ac_redis s2)\<rparr>) = (Inr r2, t)"
    unfolding assms(2) by metis
  from d(1) live have now: "an_now E2 < an_now E + secs 300" by (simp split: if_splits)
  with d(2) live payload_stored have d_eq: "d = pending_payload (u_id admin) i p" by simp
  have p: "p_id p < 2 ^ 128"
    using match_subset [of p "an_fold E" message "load_catalog (an_pg E) (ac_db s)"] ip(3) assms(11)
    by (simp add: load_catalog_rows list_all_iff)
  from d(3) d_eq have eq: "uuid_text (u_id admin) = uuid_text (u_id admin2)" by (simp add: payload_fields)
  have same: "u_id admin2 = u_id admin" using uuid_round_trip [OF assms(9,10)] eq by simp
  from apply_executed [OF d(4) assms(8)] d_eq p
    payload_instruction [OF instruction_readable [OF ip(1)]] uuid_round_trip_id [OF p]
  obtain q where "product_by_id (p_id p) False (ac_db s2) = Some q" "before_change i q = before_change i p"
    "t = s2\<lparr>ac_redis := rd_delete ?R ?k (ac_redis s2),
       ac_db := (ac_db s2)\<lparr>products := upd_row p_id (p_id p) (apply_product_update (change_of i)) (products (ac_db s2))\<rparr>,
       ac_audit := ac_audit s2 @ [\<lparr>au_admin = u_id admin2, au_action = action_text (in_action i), au_target_type = ''product'', au_target = Some (p_id p),
         au_before = before_change i q, au_after = after_change i\<rparr>]\<rparr>"
    by (auto simp: payload_fields payload_product_def)
  then show ?thesis using ip r now same redis_store.get_delete [OF assms(1)] by auto
qed


lemma apply_changes:
  assumes "apply_pending d admin s = (Inr r, t)" and "ac_db t \<noteq> ac_db s \<or> ac_audit t \<noteq> ac_audit s"
  shows "r = reply Executed"
  using assms
  by (auto simp: apply_pending_def op_simps split: option.splits if_splits)

lemma execute_changes:
  assumes "execute_pending E token admin s = (Inr r, t)" and "ac_db t \<noteq> ac_db s \<or> ac_audit t \<noteq> ac_audit s"
  shows "r = reply Executed"
  using assms
  by (auto simp: execute_pending_def pending_getdel_def op_simps split: option.splits json.splits if_splits dest!: apply_changes)

text \<open>
  C11. No chat request changes the catalog or the audit log unless an administrator confirms it with a
  token under which Redis still holds a pending change that this administrator was shown; and such a
  request is answered as executed.
\<close>
theorem admin_change_needs_token:
  assumes "admin_chat_endpoint E q admin s = (r, t)" and "ac_db t \<noteq> ac_db s \<or> ac_audit t \<noteq> ac_audit s"
  shows "is_admin admin \<and> cr_confirm q \<and> r = Inr (reply Executed) \<and>
    (\<exists>token text d. cr_token q = Some token \<and> token \<noteq> [] \<and>
       rd_get (an_redis E) (an_now E) (pending_key token) (ac_redis s) = Some text \<and>
       loads text = Some (JObj d) \<and> jget ''admin_id'' d = JStr (uuid_text (u_id admin)))"
proof -
  from assms obtain x where r: "r = Inr x" and h: "is_admin admin" "handle_instruction E q admin s = (Inr x, t)"
    by (cases r) (auto simp: admin_chat_endpoint_def admin_request_def op_simps parse_chat_request_def
       split: prod.splits sum.splits if_splits)
  have c: "cr_confirm q" "truthy (cr_token q)"
    using h(2) assms(2) by (auto simp: handle_instruction_def split: if_splits dest: plan_keeps)
  then obtain token where token: "cr_token q = Some token" "token \<noteq> []" by (cases "cr_token q") auto
  with h c have e: "execute_pending E token admin s = (Inr x, t)" by (simp add: handle_instruction_def)
  from execute_changes [OF this assms(2)] have x: "x = reply Executed" .
  from e x have "execute_pending E token admin s = (Inr (reply Executed), t)" by simp
  then obtain d where "rd_get (an_redis E) (an_now E) (pending_key token) (ac_redis s) \<noteq> None"
    "loads (the (rd_get (an_redis E) (an_now E) (pending_key token) (ac_redis s))) = Some (JObj d)"
    "jget ''admin_id'' d = JStr (uuid_text (u_id admin))"
    by (rule execute_executed) (simp add: reply_def)
  with x r h(1) c(1) token show ?thesis by fastforce
qed

section \<open>A concrete conversation\<close>

definition sample_admin_env :: "time \<Rightarrow> ttl_store admin_env" where
  "sample_admin_env now = \<lparr>an_now = now, an_redis = ttl_redis, an_token = ''tok'', an_fold = id, an_pg = sample_pg\<rparr>"

definition sample_admin_state :: "ttl_store admin_state" where
  "sample_admin_state = \<lparr>ac_db = sample_db, ac_redis = Map.empty, ac_audit = []\<rparr>"

definition sample_message :: string where
  "sample_message = ''ton GAS-12 7''"

definition sample_instruction :: instruction where
  "sample_instruction = \<lparr>in_action = UpdateStock, in_price = None, in_stock = Some 7, in_active = None\<rparr>"

lemma sample_read: "parse_admin_instruction id sample_message = Some sample_instruction"
  by code_simp

lemma sample_catalog: "load_catalog sample_pg sample_db = [sample_gas, sample_water]"
  unfolding load_catalog_rows by code_simp

lemma sample_resolved: "match_instruction id sample_message [sample_gas, sample_water] = [sample_gas]"
  by code_simp

definition sample_pending :: string where
  "sample_pending = dumps (JObj (pending_payload 4 sample_instruction sample_gas))"

definition sample_plan_reply :: admin_reply where
  "sample_plan_reply = \<lparr>rp_status = ConfirmRequired, rp_token = Some ''tok'',
     rp_action = Some (build_preview sample_instruction sample_gas)\<rparr>"

definition sample_planned :: "ttl_store admin_state" where
  "sample_planned = sample_admin_state\<lparr>ac_redis := rd_setex ttl_redis 0 (pending_key ''tok'') 300 sample_pending Map.empty\<rparr>"

definition sample_executed :: "ttl_store admin_state" where
  "sample_executed = \<lparr>ac_db = sample_db\<lparr>products := [sample_gas\<lparr>p_stock_quantity := 7\<rparr>, sample_water]\<rparr>,
     ac_redis = rd_delete ttl_redis (pending_key ''tok'') (ac_redis sample_planned),
     ac_audit = [\<lparr>au_admin = 4, au_action = ''update_stock'', au_target_type = ''product'', au_target = Some 1,
       au_before = [(''stock_quantity'', JInt 5)], au_after = [(''stock_quantity'', JInt 7)]\<rparr>]\<rparr>"

lemma sample_ids: "u_id (sample_user 4 Admin) = 4" "p_id sample_gas = 1" "p_name sample_gas = ''Gas''" "p_sku sample_gas = ''GAS-12''"
  by (simp_all add: sample_user_def sample_gas_def)

lemma sample_instruction_fields: "in_action sample_instruction = UpdateStock" "in_stock sample_instruction = Some 7"
  "\<not> value_invalid sample_instruction" "readable sample_instruction"
  by (simp_all add: sample_instruction_def value_invalid_def readable_def)

lemma sample_plan_run:
  "plan_instruction (sample_admin_env 0) sample_message (sample_user 4 Admin) sample_admin_state = (Inr sample_plan_reply, sample_planned)"
  by (simp add: plan_instruction_def sample_admin_env_def sample_admin_state_def sample_read sample_catalog sample_resolved
      sample_instruction_fields sample_ids pending_setex_def op_eval sample_plan_reply_def sample_planned_def sample_pending_def pending_ttl_def)

lemma sample_apply:
  "fst (update_product 1 (no_product_update\<lparr>pu_stock_quantity := Val 7\<rparr>) (sample_user 4 Admin) sample_db) =
     Inr (sample_gas\<lparr>p_stock_quantity := 7\<rparr>) \<and>
   products (snd (update_product 1 (no_product_update\<lparr>pu_stock_quantity := Val 7\<rparr>) (sample_user 4 Admin) sample_db)) =
     [sample_gas\<lparr>p_stock_quantity := 7\<rparr>, sample_water]"
  by code_simp

lemma sample_update:
  "update_product 1 (no_product_update\<lparr>pu_stock_quantity := Val 7\<rparr>) (sample_user 4 Admin) sample_db =
     (Inr (sample_gas\<lparr>p_stock_quantity := 7\<rparr>), sample_db\<lparr>products := [sample_gas\<lparr>p_stock_quantity := 7\<rparr>, sample_water]\<rparr>)"
proof -
  have run: "update_product 1 (no_product_update\<lparr>pu_stock_quantity := Val 7\<rparr>) (sample_user 4 Admin) sample_db =
      (Inr (sample_gas\<lparr>p_stock_quantity := 7\<rparr>), snd (update_product 1 (no_product_update\<lparr>pu_stock_quantity := Val 7\<rparr>) (sample_user 4 Admin) sample_db))"
    using sample_apply by (metis prod.collapse)
  then show ?thesis using update_product_done [OF run] sample_apply by simp
qed

lemma sample_live: "rd_get ttl_redis 5 (pending_key ''tok'') (ac_redis sample_planned) = Some sample_pending"
  by (simp add: sample_planned_def ttl_redis_def live_def secs_def)

lemma sample_pending_read: "loads sample_pending = Some (JObj (pending_payload 4 sample_instruction sample_gas))"
  by (simp only: sample_pending_def payload_stored)

lemma sample_execute_run:
  "execute_pending (sample_admin_env 5) ''tok'' (sample_user 4 Admin) sample_planned = (Inr (reply Executed), sample_executed)"
proof -
  have "product_by_id 1 False sample_db = Some sample_gas" by code_simp
  moreover have "parse_uuid (uuid_text 1) = Inr 1" by (rule uuid_round_trip_id) simp
  moreover have "before_change sample_instruction sample_gas = [(''stock_quantity'', JInt 5)]"
    by (simp add: before_change_def sample_instruction_fields sample_gas_def)
  moreover have "change_of sample_instruction = no_product_update\<lparr>pu_stock_quantity := Val 7\<rparr>"
    "after_change sample_instruction = [(''stock_quantity'', JInt 7)]"
    by (simp_all add: change_of_def after_change_def sample_instruction_fields)
  moreover have "ac_db sample_planned = sample_db" "ac_audit sample_planned = []"
    by (simp_all add: sample_planned_def sample_admin_state_def)
  ultimately show ?thesis
    using payload_instruction [OF sample_instruction_fields(4), of 4 sample_gas]
    by (simp del: One_nat_def add: execute_pending_def pending_getdel_def op_eval sample_admin_env_def sample_live
        sample_pending_read payload_fields sample_ids apply_pending_def lift_result_def payload_product_def
        sample_instruction_fields sample_update on_products_def record_audit_def sample_executed_def)
qed

lemma admin_chat_confirm_witness:
  "(\<exists>i q. product_by_id 1 False sample_db = Some q \<and> before_change i q = before_change i sample_gas) \<and>
   ac_audit sample_executed \<noteq> [] \<and> rd_get ttl_redis 6 (pending_key ''tok'') (ac_redis sample_executed) = None"
proof -
  have env: "an_redis (sample_admin_env n) = ttl_redis" "an_token (sample_admin_env n) = ''tok''" "an_now (sample_admin_env n) = n"
    "an_fold (sample_admin_env n) = id" "an_pg (sample_admin_env n) = sample_pg" for n
    by (simp_all add: sample_admin_env_def)
  have ids: "list_all (\<lambda>p. p_id p < 2 ^ 128) (products (ac_db sample_admin_state))"
    by (simp add: sample_admin_state_def sample_db_def empty_db_def sample_gas_def sample_water_def)
  have "ac_db sample_planned = sample_db" "ac_db sample_admin_state = sample_db"
    by (simp_all add: sample_planned_def sample_admin_state_def)
  with admin_chat_confirm [of "sample_admin_env 0" "sample_admin_env 5" sample_message "sample_user 4 Admin" sample_admin_state
      sample_plan_reply sample_planned sample_planned "sample_user 4 Admin" "reply Executed" sample_executed]
  show ?thesis using ttl.redis_store_axioms sample_plan_run sample_execute_run ids
    by (auto simp: env sample_plan_reply_def reply_def sample_ids sample_read sample_catalog sample_resolved)
qed


definition sample_confirm :: chat_request where
  "sample_confirm = \<lparr>cr_message = [], cr_confirm = True, cr_token = Some ''tok''\<rparr>"

lemma admin_change_needs_token_witness:
  "cr_confirm sample_confirm \<and> is_admin (sample_user 4 Admin) \<and>
   admin_chat_endpoint (sample_admin_env 5) sample_confirm (sample_user 4 Admin) sample_planned = (Inr (reply Executed), sample_executed)"
proof -
  have "is_admin (sample_user 4 Admin)" by code_simp
  then have run: "admin_chat_endpoint (sample_admin_env 5) sample_confirm (sample_user 4 Admin) sample_planned
      = (Inr (reply Executed), sample_executed)"
    using sample_execute_run
    by (simp add: admin_chat_endpoint_def admin_request_def op_eval lift_result_def parse_chat_request_def
        handle_instruction_def sample_confirm_def)
  have "ac_audit sample_executed \<noteq> ac_audit sample_planned"
    by (simp add: sample_executed_def sample_planned_def sample_admin_state_def)
  with admin_change_needs_token [OF run] run show ?thesis by simp
qed

end
