(* ===== verification/Safety.thy ===== *)
theory Safety
  imports ChatText
begin

text \<open>
  The emergency detector that runs before any retrieval or generation
  (\<^verbatim>\<open>rag/safety.py\<close>). The phrases and patterns are written without accents: a message matches an
  accented phrase exactly when its accent-free form matches the accent-free phrase. The curly
  apostrophes lie beyond the code points modelled.
\<close>

section \<open>The detector\<close>

datatype detected_via = ByKeyword | ByNothing

record safety_result =
  sr_emergency :: bool
  sr_via :: detected_via
  sr_matched :: "string option"

definition emergency_keywords_vi :: "string list" where
  "emergency_keywords_vi =
     [''ro gas'', ''ro ri gas'', ''ro khi gas'', ''xi gas'', ''thoat gas'', ''khi gas thoat'', ''gas thoat ra'',
      ''gas dang thoat'', ''gas tran'', ''mui gas'', ''ngui thay gas'', ''ngui mui gas'', ''gas nong nac'',
      ''boc mui gas'', ''chay'', ''chay no'', ''phat no'', ''no binh gas'', ''no gas'', ''gas no'', ''binh gas no'',
      ''boc lua'', ''bat lua'', ''dang chay'', ''lua chay'', ''ngat'', ''kho tho'', ''ngat tho'', ''ngat khi'',
      ''khan cap'', ''nguy hiem'', ''cap cuu'', ''tai nan'']"

definition emergency_keywords_en :: "string list" where
  "emergency_keywords_en =
     [''gas leak'', ''gas leaking'', ''leaking gas'', ''smell gas'', ''smell of gas'', ''gas smell'', ''smelling gas'',
      ''explosion'', ''explode'', ''exploded'', ''on fire'', ''catching fire'', ''fire'', ''burning'', ''suffocat'',
      ''can'' @ [CHR 0x27] @ ''t breathe'', ''cannot breathe'', ''cant breathe'', ''choking'', ''emergency'', ''dangerous'']"

text \<open>A pattern is the list of its literal pieces, any text being allowed between them.\<close>

definition suspicious_patterns :: "string list list" where
  "suspicious_patterns =
     [[''co'', ''gas'', ''thoat ra''], [''gas'', ''thoat ra''], [''gas'', ''ri'', ''ra ngoai''],
      [''binh gas'', ''hong'', ''nang''], [''binh gas'', ''phi'', ''khi''],
      [''van gas'', ''khoa'', ''khong'', ''duoc''], [''day'', ''gas'', ''nut'']]"

definition fold_apostrophe :: "char \<Rightarrow> char" where
  "fold_apostrophe c = (if c = CHR 0x60 then CHR 0x27 else c)"

text \<open>\<^verbatim>\<open>" ".join(text.split())\<close>\<close>

definition squeeze :: "string \<Rightarrow> string" where
  "squeeze s = join '' '' (tokens s)"

definition safety_normalize :: "string \<Rightarrow> string" where
  "safety_normalize query = squeeze (map fold_apostrophe (py_lower query))"

definition ascii_fold :: "fold_text \<Rightarrow> string \<Rightarrow> string" where
  "ascii_fold F query = py_lower (F query)"

definition check_keywords :: "fold_text \<Rightarrow> string \<Rightarrow> string option" where
  "check_keywords F query =
     (let n = safety_normalize query in
      find (\<lambda>k. let kn = safety_normalize k in contains kn n \<or> contains (ascii_fold F kn) (ascii_fold F n))
        (emergency_keywords_vi @ emergency_keywords_en))"

text \<open>The text from the first occurrence of a piece on, and up to its last occurrence.\<close>

fun from_first :: "string \<Rightarrow> string \<Rightarrow> string option" where
  "from_first p [] = (if p = [] then Some [] else None)"
| "from_first p (c # s) = (if take (length p) (c # s) = p then Some (c # s) else from_first p s)"

definition upto_last :: "string \<Rightarrow> string \<Rightarrow> string" where
  "upto_last p s = (case from_first (rev p) (rev s) of None \<Rightarrow> s | Some r \<Rightarrow> rev r)"

fun pieces_in :: "string list \<Rightarrow> string \<Rightarrow> bool" where
  "pieces_in [] t = True"
| "pieces_in (p # ps) t = (case from_first p t of None \<Rightarrow> False | Some r \<Rightarrow> pieces_in ps (drop (length p) r))"

definition pattern_search :: "string list \<Rightarrow> string \<Rightarrow> string option" where
  "pattern_search ps t =
     (if pieces_in ps t then map_option (upto_last (last ps)) (from_first (hd ps) t) else None)"

definition check_patterns :: "fold_text \<Rightarrow> string \<Rightarrow> string option" where
  "check_patterns F query =
     (let n = safety_normalize query; a = ascii_fold F n in
      case find (\<lambda>ps. pieces_in ps n \<or> pieces_in ps a) suspicious_patterns of
        None \<Rightarrow> None
      | Some ps \<Rightarrow> (case pattern_search ps n of Some t \<Rightarrow> Some t | None \<Rightarrow> pattern_search ps a))"

definition check_query :: "fold_text \<Rightarrow> string \<Rightarrow> safety_result" where
  "check_query F query =
     (case check_keywords F query of
        Some k \<Rightarrow> \<lparr>sr_emergency = True, sr_via = ByKeyword, sr_matched = Some k\<rparr>
      | None \<Rightarrow> (case check_patterns F query of
          Some t \<Rightarrow> \<lparr>sr_emergency = True, sr_via = ByKeyword, sr_matched = Some t\<rparr>
        | None \<Rightarrow> \<lparr>sr_emergency = False, sr_via = ByNothing, sr_matched = None\<rparr>))"

text \<open>The two fixed texts are named, not spelled out.\<close>

datatype language = Vi | En

datatype fixed_reply = SafetyReply language | TurnLimitReply language

definition emergency_response :: "language \<Rightarrow> fixed_reply" where
  "emergency_response l = SafetyReply l"

section \<open>Texts inside texts\<close>

lemma contains_split: "contains p t \<longleftrightarrow> (\<exists>a b. t = a @ p @ b)"
proof (induction t)
  case (Cons c t)
  have "(\<exists>a b. c # t = a @ p @ b) \<longleftrightarrow> (\<exists>b. c # t = p @ b) \<or> (\<exists>a b. t = a @ p @ b)"
    by (metis (no_types, opaque_lifting) append_Cons append_Nil neq_Nil_conv list.inject)
  moreover have "take (length p) (c # t) = p \<longleftrightarrow> (\<exists>b. c # t = p @ b)"
    by (metis append_eq_conv_conj append_take_drop_id)
  ultimately show ?case using Cons by simp
qed simp

lemma contains_wider: "contains p t \<Longrightarrow> contains p (a @ t @ b)"
  unfolding contains_split by (metis append.assoc)

lemma join_Cons: "join sep (x # xs) = x @ (if xs = [] then [] else sep @ join sep xs)"
  by (cases xs) (simp_all add: join_def)

lemma join_Nil [simp]: "join sep [] = []"
  by (simp add: join_def)

lemma tokens_space: "py_isspace c \<Longrightarrow> tokens (c # s) = tokens s"
  by (simp add: tokens.simps [of "c # s"] tokens.simps [of s])

lemma tokens_word:
  "\<not> py_isspace c \<Longrightarrow>
   tokens (c # s) = (c # takeWhile (\<lambda>d. \<not> py_isspace d) s) # tokens (dropWhile (\<lambda>d. \<not> py_isspace d) s)"
  by (simp add: tokens.simps [of "c # s"])

lemma tokens_Nil [simp]: "tokens [] = []"
  by (simp add: tokens.simps [of "[]"])

lemma squeeze_Nil: "squeeze s = [] \<longleftrightarrow> tokens s = []"
proof (cases "dropWhile py_isspace s")
  case Nil
  have "tokens s = []" by (subst tokens.simps) (simp only: Nil list.case)
  then show ?thesis by (simp add: squeeze_def)
next
  case (Cons c r)
  have "tokens s = (c # takeWhile (\<lambda>d. \<not> py_isspace d) r) # tokens (dropWhile (\<lambda>d. \<not> py_isspace d) r)"
    by (subst tokens.simps) (simp only: Cons list.case)
  then show ?thesis by (simp add: squeeze_def join_Cons)
qed

lemma squeeze_Cons: "\<exists>a. squeeze (c # s) = a @ squeeze s"
proof (cases "py_isspace c")
  case True
  then show ?thesis by (simp add: squeeze_def tokens_space)
next
  case c: False
  show ?thesis
  proof (cases s)
    case Nil
    then show ?thesis by (simp add: squeeze_def)
  next
    case (Cons d r)
    then show ?thesis
      using c by (cases "py_isspace d") (auto simp: squeeze_def tokens_word tokens_space join_Cons)
  qed
qed

lemma squeeze_after: "\<exists>a. squeeze (p @ s) = a @ squeeze s"
proof (induction p)
  case (Cons c p)
  then show ?case using squeeze_Cons [of c "p @ s"] by (metis append.assoc append_Cons)
qed simp

lemma squeeze_before: "\<exists>b. squeeze (s @ t) = squeeze s @ b"
proof (induction s rule: tokens.induct)
  case (1 s)
  show ?case
  proof (cases "dropWhile py_isspace s")
    case Nil
    then have "tokens s = []" by (subst tokens.simps) (simp only: Nil list.case)
    then show ?thesis by (simp add: squeeze_def)
  next
    case (Cons c r)
    let ?w = "\<lambda>d. \<not> py_isspace d"
    let ?rest = "dropWhile ?w r"
    from Cons have s: "dropWhile py_isspace (s @ t) = c # r @ t"
      by (metis append_Cons append_is_Nil_conv dropWhile_append dropWhile_eq_Nil_conv list.distinct(1))
    have toks: "tokens s = (c # takeWhile ?w r) # tokens ?rest"
      "tokens (s @ t) = (c # takeWhile ?w (r @ t)) # tokens (dropWhile ?w (r @ t))"
      using Cons s by (simp_all add: tokens.simps [of s] tokens.simps [of "s @ t"])
    show ?thesis
    proof (cases "?rest = []")
      case True
      then have "takeWhile ?w r = r" using takeWhile_dropWhile_id [of ?w r] by simp
      moreover from True have "takeWhile ?w (r @ t) = r @ takeWhile ?w t"
        by (intro takeWhile_append2) (auto simp: dropWhile_eq_Nil_conv)
      ultimately have "tokens s = [c # r]" "tokens (s @ t) = (c # r @ takeWhile ?w t) # tokens (dropWhile ?w (r @ t))"
        using toks True by (simp_all only: tokens_Nil)
      then show ?thesis by (simp add: squeeze_def join_Cons)
    next
      case False
      then have rest: "dropWhile ?w (r @ t) = ?rest @ t" "takeWhile ?w (r @ t) = takeWhile ?w r"
        by (metis dropWhile_append dropWhile_eq_Nil_conv, metis dropWhile_eq_Nil_conv takeWhile_append)
      from 1 [OF Cons] obtain b where b: "squeeze (?rest @ t) = squeeze ?rest @ b" by blast
      have "tokens (?rest @ t) \<noteq> []" if "tokens ?rest \<noteq> []"
        using b that by (metis squeeze_Nil append_is_Nil_conv)
      with toks rest b show ?thesis by (auto simp: squeeze_def join_Cons)
    qed
  qed
qed

lemma squeeze_inside: "\<exists>a b. squeeze (p @ q @ s) = a @ squeeze q @ b"
  using squeeze_after [of p "q @ s"] squeeze_before [of q s] by (metis append.assoc)

lemma normalize_inside: "\<exists>a b. safety_normalize (p @ q @ s) = a @ safety_normalize q @ b"
  using squeeze_inside by (simp add: safety_normalize_def py_lower_def)

section \<open>Patterns\<close>

lemma from_first_Some: "from_first p t = Some r \<Longrightarrow> \<exists>a b. t = a @ r \<and> r = p @ b"
proof (induction t)
  case (Cons c t)
  then show ?case
    by (metis append_Cons append_Nil append_take_drop_id from_first.simps(2) option.inject)
qed (auto split: if_splits)

lemma from_first_earliest: "t = a @ p @ b \<Longrightarrow> \<exists>a' x. from_first p t = Some (x @ p @ b) \<and> t = a' @ x @ p @ b"
proof (induction t arbitrary: a)
  case (Cons c t)
  show ?case
  proof (cases "take (length p) (c # t) = p")
    case True
    with Cons.prems show ?thesis by (metis append_Nil from_first.simps(2) append.assoc)
  next
    case False
    with Cons.prems have "a \<noteq> []" by auto
    then obtain a' where "a = c # a'" using Cons.prems by (cases a) auto
    with Cons.prems have "t = a' @ p @ b" by simp
    from Cons.IH [OF this] False show ?thesis by (metis append_Cons from_first.simps(2))
  qed
qed simp

lemma pieces_longer: "pieces_in ps t \<Longrightarrow> pieces_in ps (a @ t @ b)"
proof (induction ps arbitrary: t a b)
  case (Cons p ps)
  then obtain r where r: "from_first p t = Some r" "pieces_in ps (drop (length p) r)"
    by (auto split: option.splits)
  then obtain u v where uv: "t = u @ r" "r = p @ v" using from_first_Some by metis
  then have "a @ t @ b = (a @ u) @ p @ (v @ b)" by simp
  from from_first_earliest [OF this] obtain x where x: "from_first p (a @ t @ b) = Some (x @ p @ v @ b)" by blast
  from from_first_Some [OF x] obtain y where y: "x @ p @ v @ b = p @ y" by blast
  have "drop (length p) (x @ p @ v @ b) = drop (length p) (x @ p) @ v @ b" by simp
  moreover have "pieces_in ps v" using r uv by simp
  ultimately show ?case using x Cons.IH [of v "drop (length p) (x @ p)" b] by simp
qed simp

section \<open>Recall\<close>

text \<open>An emergency verdict in terms of its two tests.\<close>

lemma keyword_emergency:
  "check_keywords F query \<noteq> None \<longleftrightarrow>
   (\<exists>k \<in> set (emergency_keywords_vi @ emergency_keywords_en). contains (safety_normalize k) (safety_normalize query) \<or>
      contains (ascii_fold F (safety_normalize k)) (ascii_fold F (safety_normalize query)))"
  by (simp only: check_keywords_def Let_def find_None_iff) blast

lemma pattern_emergency:
  "check_patterns F query \<noteq> None \<longleftrightarrow>
   (\<exists>ps \<in> set suspicious_patterns. pieces_in ps (safety_normalize query) \<or> pieces_in ps (ascii_fold F (safety_normalize query)))"
proof -
  have hit: "pattern_search ps t = None \<longleftrightarrow> \<not> pieces_in ps t" if "ps \<in> set suspicious_patterns" for ps t
    using that by (auto simp: pattern_search_def suspicious_patterns_def split: option.splits)
  have found: "find P xs = Some x \<Longrightarrow> P x \<and> x \<in> set xs" for P :: "string list \<Rightarrow> bool" and xs x
    by (auto simp: find_Some_iff)
  show ?thesis
  proof (cases "find (\<lambda>ps. pieces_in ps (safety_normalize query) \<or> pieces_in ps (ascii_fold F (safety_normalize query))) suspicious_patterns")
    case None
    then have "check_patterns F query = None" by (simp only: check_patterns_def Let_def option.case)
    with None show ?thesis by (auto simp: find_None_iff)
  next
    case (Some ps)
    from found [OF this] hit [of ps] Some show ?thesis
      by (auto simp: check_patterns_def Let_def split: option.splits)
  qed
qed

lemma emergency_iff: "sr_emergency (check_query F query) \<longleftrightarrow> check_keywords F query \<noteq> None \<or> check_patterns F query \<noteq> None"
  by (auto simp: check_query_def split: option.splits)

text \<open>
  Detection does not depend on what surrounds an emergency: when a message is recognised as an
  emergency, every message that contains it, whatever is written before and after, is recognised too.
\<close>
lemma emergency_in_context:
  assumes "\<And>x y. F (x @ y) = F x @ F y" and "sr_emergency (check_query F query)"
  shows "sr_emergency (check_query F (before @ query @ after))"
proof -
  from normalize_inside obtain a b where n: "safety_normalize (before @ query @ after) = a @ safety_normalize query @ b"
    by blast
  have f: "ascii_fold F (a @ safety_normalize query @ b)
      = ascii_fold F a @ ascii_fold F (safety_normalize query) @ ascii_fold F b"
    by (simp add: ascii_fold_def assms(1) py_lower_def)
  from assms(2) show ?thesis
    unfolding emergency_iff keyword_emergency pattern_emergency n f
    using contains_wider pieces_longer by blast
qed

end
