(* ===== verification/Llm.thy ===== *)
theory Llm
  imports PyText
begin

text \<open>
  The chain of language-model providers with failover (\<^verbatim>\<open>llm/providers/fallback_provider.py\<close>,
  \<^verbatim>\<open>llm/exceptions.py\<close>, \<^verbatim>\<open>llm/schemas.py\<close>). A provider is a service outside the program: what it
  answers to a request, or how its answer stream ends, is a parameter. A request is left abstract.
\<close>

section \<open>Providers\<close>

datatype llm_error =
    LlmConnection | LlmTimeout | LlmRateLimit | LlmInvalidRequest | LlmQuota | LlmParsing | LlmProvider
  | NotLlm string

fun llm_status :: "llm_error \<Rightarrow> nat" where
  "llm_status LlmInvalidRequest = 400"
| "llm_status LlmQuota = 429"
| "llm_status (NotLlm cls) = 500"
| "llm_status e = 503"

text \<open>An exception of a provider; its HTTP status is \<open>llm_status\<close>.\<close>

fun llm_exn :: "llm_error \<Rightarrow> exn" where
  "llm_exn LlmConnection = AppError LLMFailure ''llm_connection_error''"
| "llm_exn LlmTimeout = AppError LLMFailure ''llm_timeout''"
| "llm_exn LlmRateLimit = AppError LLMFailure ''llm_rate_limited''"
| "llm_exn LlmInvalidRequest = AppError LLMFailure ''llm_invalid_request''"
| "llm_exn LlmQuota = AppError LLMFailure ''llm_quota_exceeded''"
| "llm_exn LlmParsing = AppError LLMFailure ''llm_parsing_error''"
| "llm_exn LlmProvider = AppError LLMFailure ''llm_provider_error''"
| "llm_exn (NotLlm cls) = PyError cls"

text \<open>The errors after which an embedding or an intent is sought elsewhere.\<close>

definition quota_error :: "llm_error \<Rightarrow> bool" where
  "quota_error e \<longleftrightarrow> e = LlmQuota \<or> e = LlmRateLimit"

record stream_chunk =
  sc_delta :: string
  sc_provider :: "string option"
  sc_model :: "string option"
  sc_tokens :: "int option"

record ('q, 'a) provider =
  pr_name :: string
  pr_model :: string
  pr_generate :: "'q \<Rightarrow> llm_error + 'a"
  pr_stream :: "'q \<Rightarrow> stream_chunk list \<times> llm_error option"
  pr_healthy :: bool

section \<open>The chain\<close>

definition fallback_errors :: "llm_error list" where
  "fallback_errors = [LlmQuota, LlmRateLimit]"

record ('q, 'a) chain =
  ch_providers :: "('q, 'a) provider list"
  ch_errors :: "llm_error list"

definition make_chain :: "('q, 'a) provider list \<Rightarrow> llm_error list \<Rightarrow> exn + ('q, 'a) chain" where
  "make_chain providers extra =
     (if providers = [] then Inl (PyError ''ValueError'')
      else Inr \<lparr>ch_providers = providers, ch_errors = fallback_errors @ extra\<rparr>)"

definition give_up :: "llm_error option \<Rightarrow> llm_error" where
  "give_up last_error = (case last_error of None \<Rightarrow> NotLlm ''RuntimeError'' | Some e \<Rightarrow> e)"

fun generate_from :: "llm_error list \<Rightarrow> 'q \<Rightarrow> llm_error option \<Rightarrow> ('q, 'a) provider list \<Rightarrow> llm_error + 'a" where
  "generate_from errs q last_error [] = Inl (give_up last_error)"
| "generate_from errs q last_error (p # ps) =
     (case pr_generate p q of
        Inr a \<Rightarrow> Inr a
      | Inl e \<Rightarrow> if e \<in> set errs then generate_from errs q (Some e) ps else Inl e)"

definition chain_generate :: "('q, 'a) chain \<Rightarrow> 'q \<Rightarrow> llm_error + 'a" where
  "chain_generate ch q = generate_from (ch_errors ch) q None (ch_providers ch)"

text \<open>A chunk is attributed to the provider that served it.\<close>

definition attribute :: "('q, 'a) provider \<Rightarrow> stream_chunk \<Rightarrow> stream_chunk" where
  "attribute p c = c\<lparr>sc_provider := (if truthy (sc_provider c) then sc_provider c else Some (pr_name p)),
     sc_model := (if truthy (sc_model c) then sc_model c else Some (pr_model p))\<rparr>"

text \<open>What the consumer of the stream receives, and the exception that ends it.\<close>

fun stream_from :: "llm_error list \<Rightarrow> 'q \<Rightarrow> llm_error option \<Rightarrow> ('q, 'a) provider list \<Rightarrow> stream_chunk list \<times> llm_error option" where
  "stream_from errs q last_error [] = ([], Some (give_up last_error))"
| "stream_from errs q last_error (p # ps) =
     (case pr_stream p q of
        (cs, None) \<Rightarrow> (map (attribute p) cs, None)
      | (cs, Some e) \<Rightarrow>
          if e \<in> set errs \<and> cs = [] then stream_from errs q (Some e) ps else (map (attribute p) cs, Some e))"

definition chain_stream :: "('q, 'a) chain \<Rightarrow> 'q \<Rightarrow> stream_chunk list \<times> llm_error option" where
  "chain_stream ch q = stream_from (ch_errors ch) q None (ch_providers ch)"

definition chain_healthy :: "('q, 'a) chain \<Rightarrow> bool" where
  "chain_healthy ch \<longleftrightarrow> list_ex pr_healthy (ch_providers ch)"

section \<open>One provider serves\<close>

text \<open>The provider at position \<open>i\<close> is the first whose stream does not fail over.\<close>

definition failed_over :: "llm_error list \<Rightarrow> 'q \<Rightarrow> ('q, 'a) provider \<Rightarrow> bool" where
  "failed_over errs q p \<longleftrightarrow> fst (pr_stream p q) = [] \<and> (\<exists>e \<in> set errs. snd (pr_stream p q) = Some e)"

lemma stream_from_serves:
  assumes "ps \<noteq> []"
  shows "\<exists>i < length ps. stream_from errs q e0 ps =
      (map (attribute (ps ! i)) (fst (pr_stream (ps ! i) q)), snd (pr_stream (ps ! i) q)) \<and>
    (\<forall>j < i. failed_over errs q (ps ! j)) \<and>
    (failed_over errs q (ps ! i) \<longrightarrow> Suc i = length ps)"
  using assms
proof (induction ps arbitrary: e0)
  case (Cons p ps)
  obtain cs e where pe: "pr_stream p q = (cs, e)" by force
  show ?case
  proof (cases "failed_over errs q p")
    case False
    then have "stream_from errs q e0 (p # ps) = (map (attribute p) cs, e)"
      using pe by (auto simp: failed_over_def split: option.splits)
    with False pe show ?thesis by (intro exI [of _ 0]) simp
  next
    case True
    then have s: "stream_from errs q e0 (p # ps) = stream_from errs q e ps" and cs: "cs = []" "e \<noteq> None"
      using pe by (auto simp: failed_over_def)
    show ?thesis
    proof (cases "ps = []")
      case True
      with s cs pe show ?thesis by (intro exI [of _ 0]) (auto simp: give_up_def)
    next
      case False
      from Cons.IH [OF False] obtain i where i: "i < length ps"
        "stream_from errs q e ps = (map (attribute (ps ! i)) (fst (pr_stream (ps ! i) q)), snd (pr_stream (ps ! i) q))"
        "\<forall>j < i. failed_over errs q (ps ! j)" "failed_over errs q (ps ! i) \<longrightarrow> Suc i = length ps" by blast
      with s \<open>failed_over errs q p\<close> show ?thesis
        by (intro exI [of _ "Suc i"]) (auto simp: nth_Cons split: nat.splits)
    qed
  qed
qed simp

text \<open>
  A streamed answer never mixes providers: what a chain emits is the stream of exactly one of its
  providers, attributed to it and ended by that provider's own error if it fails, and every provider
  before it failed with a failover error before its first chunk.
\<close>
lemma stream_one_provider:
  assumes "make_chain ps extra = Inr ch"
  shows "\<exists>i < length ps. chain_stream ch q =
      (map (attribute (ps ! i)) (fst (pr_stream (ps ! i) q)), snd (pr_stream (ps ! i) q)) \<and>
    (\<forall>j < i. failed_over (fallback_errors @ extra) q (ps ! j)) \<and>
    (failed_over (fallback_errors @ extra) q (ps ! i) \<longrightarrow> Suc i = length ps)"
  using assms stream_from_serves [of ps "fallback_errors @ extra" q None]
  by (auto simp: make_chain_def chain_stream_def split: if_splits)

definition sample_provider :: "string \<Rightarrow> stream_chunk list \<times> llm_error option \<Rightarrow> (unit, string) provider" where
  "sample_provider name answer = \<lparr>pr_name = name, pr_model = ''m'', pr_generate = (\<lambda>_. Inl LlmQuota),
     pr_stream = (\<lambda>_. answer), pr_healthy = True\<rparr>"

definition sample_chain :: "(unit, string) provider list" where
  "sample_chain = [sample_provider ''gemini'' ([], Some LlmQuota),
     sample_provider ''groq'' ([\<lparr>sc_delta = ''xin'', sc_provider = None, sc_model = None, sc_tokens = None\<rparr>], Some LlmTimeout)]"

lemma stream_one_provider_witness:
  "(\<exists>i < 2. chain_stream \<lparr>ch_providers = sample_chain, ch_errors = fallback_errors\<rparr> () =
     (map (attribute (sample_chain ! i)) (fst (pr_stream (sample_chain ! i) ())), snd (pr_stream (sample_chain ! i) ()))) \<and>
   chain_stream \<lparr>ch_providers = sample_chain, ch_errors = fallback_errors\<rparr> () =
     ([\<lparr>sc_delta = ''xin'', sc_provider = Some ''groq'', sc_model = Some ''m'', sc_tokens = None\<rparr>], Some LlmTimeout)"
proof -
  have "make_chain sample_chain [] = Inr \<lparr>ch_providers = sample_chain, ch_errors = fallback_errors\<rparr>"
    by (simp add: make_chain_def sample_chain_def)
  from stream_one_provider [OF this, of "()"] have "\<exists>i < length sample_chain.
      chain_stream \<lparr>ch_providers = sample_chain, ch_errors = fallback_errors\<rparr> () =
      (map (attribute (sample_chain ! i)) (fst (pr_stream (sample_chain ! i) ())), snd (pr_stream (sample_chain ! i) ()))"
    by blast
  moreover have "length sample_chain = 2" by (simp add: sample_chain_def)
  moreover have "chain_stream \<lparr>ch_providers = sample_chain, ch_errors = fallback_errors\<rparr> () =
     ([\<lparr>sc_delta = ''xin'', sc_provider = Some ''groq'', sc_model = Some ''m'', sc_tokens = None\<rparr>], Some LlmTimeout)"
    by code_simp
  ultimately show ?thesis by simp
qed

end
