(* ===== verification/Address.thy ===== *)
theory Address
  imports ProductQuery
begin

text \<open>
  Wards, delivery zones and khu pho numbers in free-form addresses (\<^verbatim>\<open>services/address_lookup.py\<close> with
  the tables \<^verbatim>\<open>data/hcmc_ward_district.json\<close> and \<^verbatim>\<open>data/ward_khu_pho.json\<close>). Ward and zone names are
  written without accents.
\<close>

section \<open>The tables\<close>

definition ward_zones :: "(string \<times> string) list" where
  "ward_zones =
     [(''1'', ''Binh Thanh''), (''2'', ''Binh Thanh''), (''3'', ''Binh Thanh''), (''5'', ''Binh Thanh''),
      (''6'', ''Binh Thanh''), (''7'', ''Binh Thanh''), (''11'', ''Binh Thanh''), (''12'', ''Binh Thanh''),
      (''13'', ''Binh Thanh''), (''14'', ''Binh Thanh''), (''15'', ''Binh Thanh''), (''17'', ''Binh Thanh''),
      (''19'', ''Binh Thanh''), (''21'', ''Binh Thanh''), (''22'', ''Binh Thanh''), (''24'', ''Binh Thanh''),
      (''25'', ''Binh Thanh''), (''26'', ''Binh Thanh''), (''27'', ''Binh Thanh''), (''28'', ''Binh Thanh''),
      (''binh chieu'', ''Thu Duc''), (''binh loi trung'', ''Binh Thanh''), (''binh quoi'', ''Binh Thanh''),
      (''binh thanh'', ''Binh Thanh''), (''binh tho'', ''Thu Duc''), (''gia dinh'', ''Binh Thanh''),
      (''hiep binh'', ''Thu Duc''), (''hiep binh chanh'', ''Thu Duc''), (''hiep binh phuoc'', ''Thu Duc''),
      (''linh chieu'', ''Thu Duc''), (''linh dong'', ''Thu Duc''), (''linh tay'', ''Thu Duc''),
      (''linh trung'', ''Thu Duc''), (''linh xuan'', ''Thu Duc''), (''tam binh'', ''Thu Duc''),
      (''tam phu'', ''Thu Duc''), (''thanh my tay'', ''Binh Thanh''), (''thu duc'', ''Thu Duc''),
      (''truong tho'', ''Thu Duc'')]"

definition khu_pho_table :: "(string \<times> (string \<times> int)) list" where
  "khu_pho_table =
     [(''gia dinh'', (''Binh Thanh'', 62)), (''binh thanh'', (''Binh Thanh'', 53)),
      (''binh loi trung'', (''Binh Thanh'', 61)), (''thanh my tay'', (''Binh Thanh'', 76)),
      (''binh quoi'', (''Binh Thanh'', 19)), (''hiep binh'', (''Thu Duc'', 91)),
      (''tam binh'', (''Thu Duc'', 66)), (''thu duc'', (''Thu Duc'', 52)), (''linh xuan'', (''Thu Duc'', 63))]"

definition khu_pho_display :: "(string \<times> string) list" where
  "khu_pho_display =
     [(''gia dinh'', ''Gia Dinh''), (''binh thanh'', ''Binh Thanh''), (''binh loi trung'', ''Binh Loi Trung''),
      (''thanh my tay'', ''Thanh My Tay''), (''binh quoi'', ''Binh Quoi''), (''hiep binh'', ''Hiep Binh''),
      (''tam binh'', ''Tam Binh''), (''thu duc'', ''Thu Duc''), (''linh xuan'', ''Linh Xuan'')]"

definition conflicting_phrases :: "string list" where
  "conflicting_phrases =
     [''go vap'', ''tan binh'', ''tan phu'', ''phu nhuan'', ''quan 1'', ''quan 3'', ''quan 4'', ''quan 5'', ''quan 6'',
      ''quan 7'', ''quan 8'', ''quan 10'', ''quan 11'', ''quan 12'', ''thu duc'']"

section \<open>Normal form\<close>

text \<open>\<^verbatim>\<open>re.sub(r"\s+", " ", text)\<close>\<close>

function collapse :: "string \<Rightarrow> string" where
  "collapse [] = []"
| "collapse (c # s) = (if py_isspace c then CHR '' '' # collapse (dropWhile py_isspace s) else c # collapse s)"
  by pat_completeness auto

termination collapse
  by (relation "measure length") (auto simp: le_imp_less_Suc length_dropWhile_le)

definition address_key :: "fold_text \<Rightarrow> string \<Rightarrow> string" where
  "address_key F text = collapse (F (py_strip (py_lower text)))"

text \<open>What follows a literal, and what follows the blanks after it.\<close>

definition after_lit :: "string \<Rightarrow> string \<Rightarrow> string option" where
  "after_lit p s = (if take (length p) s = p then Some (drop (length p) s) else None)"

definition skip_dot :: "string \<Rightarrow> string" where
  "skip_dot s = (if take 1 s = ''.'' then drop 1 s else s)"

definition skip_blanks :: "string \<Rightarrow> string" where
  "skip_blanks s = dropWhile py_isspace s"

text \<open>The ward prefix \<^verbatim>\<open>\b(?:phuong|p\.?|p)\s+\<close> at the head of a text.\<close>

definition prefix_here :: "string \<Rightarrow> string option" where
  "prefix_here s =
     (case find (\<lambda>p. case after_lit p s of Some (c # r) \<Rightarrow> py_isspace c | _ \<Rightarrow> False) [''phuong'', ''p.'', ''p''] of
        None \<Rightarrow> None | Some p \<Rightarrow> map_option skip_blanks (after_lit p s))"

lemma prefix_here_length: "prefix_here s = Some r \<Longrightarrow> length r < length s"
proof -
  assume "prefix_here s = Some r"
  then obtain p where p: "find (\<lambda>p. case after_lit p s of Some (c # r) \<Rightarrow> py_isspace c | _ \<Rightarrow> False) [''phuong'', ''p.'', ''p''] = Some p"
    and r: "map_option skip_blanks (after_lit p s) = Some r"
    by (auto simp: prefix_here_def split: option.splits)
  then have "p \<in> set [''phuong'', ''p.'', ''p'']" unfolding find_Some_iff by (metis nth_mem)
  then have "p \<noteq> []" by auto
  with r length_dropWhile_le [of py_isspace "drop (length p) s"] show ?thesis
    by (cases s) (auto simp: after_lit_def skip_blanks_def split: if_splits intro: le_less_trans)
qed

function sub_prefixes :: "bool \<Rightarrow> string \<Rightarrow> string" where
  "sub_prefixes w [] = []"
| "sub_prefixes w (c # s) =
     (case (if w then None else prefix_here (c # s)) of
        Some r \<Rightarrow> CHR '' '' # sub_prefixes False r
      | None \<Rightarrow> c # sub_prefixes (py_word c) s)"
  by pat_completeness auto

termination sub_prefixes
  by (relation "measure (\<lambda>(w, s). length s)") (auto split: if_splits dest: prefix_here_length)

definition strip_ward_prefixes :: "string \<Rightarrow> string" where
  "strip_ward_prefixes text = py_strip (collapse (sub_prefixes False text))"

section \<open>Numbered wards\<close>

definition all_digits :: "string \<Rightarrow> bool" where
  "all_digits s \<longleftrightarrow> s \<noteq> [] \<and> list_all is_digit s"

text \<open>\<^verbatim>\<open>\bphuong\s+N\b\<close> and \<^verbatim>\<open>\bp\.?\s*N\b\<close>\<close>

definition ward_number_here :: "string \<Rightarrow> bool \<Rightarrow> string \<Rightarrow> unit option" where
  "ward_number_here n w s =
     (let ends = (\<lambda>t. case after_lit n t of Some r \<Rightarrow> ends_word r | None \<Rightarrow> False) in
      if \<not> w \<and> ((case after_lit ''phuong'' s of Some (c # r) \<Rightarrow> py_isspace c \<and> ends (skip_blanks r) | _ \<Rightarrow> False) \<or>
                (case after_lit ''p'' s of Some r \<Rightarrow> ends (skip_blanks (skip_dot r)) | None \<Rightarrow> False))
      then Some () else None)"

definition contains_numbered_ward :: "string \<Rightarrow> string \<Rightarrow> bool" where
  "contains_numbered_ward text n \<longleftrightarrow> search_at (ward_number_here n) False text \<noteq> None"

text \<open>
  \<^verbatim>\<open>\b(?:quan|q)\.?\s*(?!binh thanh\b)(?:\d{1,2}|[a-z]+(?:\s+[a-z]+){0,3})\b\<close>: the value starts right after
  the blanks, and its first number or word ends at a word boundary.
\<close>

definition district_value :: "string \<Rightarrow> bool" where
  "district_value s \<longleftrightarrow>
     \<not> (case after_lit ''binh thanh'' s of Some r \<Rightarrow> ends_word r | None \<Rightarrow> False) \<and>
     (let d = takeWhile is_digit s; l = takeWhile (\<lambda>c. 97 \<le> code_point c \<and> code_point c \<le> 122) s in
      (d \<noteq> [] \<and> length d \<le> 2 \<and> ends_word (drop (length d) s)) \<or> (l \<noteq> [] \<and> ends_word (drop (length l) s)))"

definition district_here :: "bool \<Rightarrow> string \<Rightarrow> unit option" where
  "district_here w s =
     (if \<not> w \<and> list_ex (\<lambda>p. case after_lit p s of Some r \<Rightarrow> district_value (skip_blanks (skip_dot r)) | None \<Rightarrow> False)
                 [''quan'', ''q'']
      then Some () else None)"

definition conflicting_district :: "string \<Rightarrow> bool" where
  "conflicting_district text \<longleftrightarrow> search_at district_here False text \<noteq> None"

definition safe_binh_thanh_context :: "string \<Rightarrow> bool" where
  "safe_binh_thanh_context text \<longleftrightarrow>
     has_word text ''binh thanh'' \<and> \<not> conflicting_district text \<and> \<not> list_ex (has_word text) conflicting_phrases"

section \<open>Resolution\<close>

record ward_zone =
  wz_ward :: string
  wz_zone :: string

definition sorted_wards :: "(string \<times> string) list" where
  "sorted_wards = sort_key (\<lambda>e. - int (length (fst e))) ward_zones"

definition guarded :: "string \<Rightarrow> string \<Rightarrow> string \<Rightarrow> ward_zone option" where
  "guarded ward zone text =
     (if all_digits ward \<and> \<not> safe_binh_thanh_context text then None else Some \<lparr>wz_ward = ward, wz_zone = zone\<rparr>)"

definition resolve_ward :: "fold_text \<Rightarrow> string \<Rightarrow> ward_zone option" where
  "resolve_ward F text =
     (let n = address_key F text; bare = strip_ward_prefixes n in
      if n = [] then None
      else case map_of ward_zones n of
        Some z \<Rightarrow> guarded n z n
      | None \<Rightarrow>
          (case map_of ward_zones bare of
             Some z \<Rightarrow> guarded bare z n
           | None \<Rightarrow>
               map_option (\<lambda>e. \<lparr>wz_ward = fst e, wz_zone = snd e\<rparr>)
                 (case find (\<lambda>e. all_digits (fst e) \<and> contains_numbered_ward n (fst e) \<and> safe_binh_thanh_context n) sorted_wards of
                    Some e \<Rightarrow> Some e
                  | None \<Rightarrow> find (\<lambda>e. \<not> all_digits (fst e) \<and> has_word bare (fst e)) sorted_wards)))"

definition resolve_zone :: "fold_text \<Rightarrow> string \<Rightarrow> string option" where
  "resolve_zone F text = map_option wz_zone (resolve_ward F text)"

section \<open>Khu pho numbers\<close>

text \<open>\<^verbatim>\<open>\b(?:khu\s*pho|kp\.?)\s*(?:so\s*)?(\d{1,3})\b\<close>\<close>

definition khu_pho_number :: "string \<Rightarrow> int option" where
  "khu_pho_number s =
     (let t = skip_blanks s; u = (case after_lit ''so'' t of Some r \<Rightarrow> skip_blanks r | None \<Rightarrow> t); d = takeWhile is_digit u in
      if d \<noteq> [] \<and> length d \<le> 3 \<and> ends_word (drop (length d) u) then Some (int (parse_nat d)) else None)"

definition khu_pho_here :: "bool \<Rightarrow> string \<Rightarrow> int option" where
  "khu_pho_here w s =
     (if w then None
      else case (case after_lit ''khu'' s of Some r \<Rightarrow> after_lit ''pho'' (skip_blanks r) | None \<Rightarrow> None) of
        Some r \<Rightarrow> khu_pho_number r
      | None \<Rightarrow> (case after_lit ''kp'' s of Some r \<Rightarrow> khu_pho_number (skip_dot r) | None \<Rightarrow> None))"

definition extract_khu_pho :: "fold_text \<Rightarrow> string \<Rightarrow> int option" where
  "extract_khu_pho F text = search_at khu_pho_here False (address_key F text)"

datatype khu_pho_status = KhuPhoOk | KhuPhoMissing | KhuPhoOutOfRange

record khu_pho_result =
  kp_status :: khu_pho_status
  kp_ward :: "string option"
  kp_ward_display :: "string option"
  kp_max :: "int option"
  kp_number :: "int option"

definition khu_pho_unchecked :: khu_pho_result where
  "khu_pho_unchecked = \<lparr>kp_status = KhuPhoOk, kp_ward = None, kp_ward_display = None, kp_max = None, kp_number = None\<rparr>"

definition khu_pho_max :: "fold_text \<Rightarrow> string \<Rightarrow> int option" where
  "khu_pho_max F text =
     (case resolve_ward F text of
        None \<Rightarrow> None | Some m \<Rightarrow> map_option snd (map_of khu_pho_table (address_key F (wz_ward m))))"

definition validate_khu_pho :: "fold_text \<Rightarrow> string \<Rightarrow> khu_pho_result" where
  "validate_khu_pho F text =
     (case resolve_ward F text of
        None \<Rightarrow> khu_pho_unchecked
      | Some m \<Rightarrow>
          (let key = address_key F (wz_ward m) in
           case map_of khu_pho_table key of
             None \<Rightarrow> khu_pho_unchecked
           | Some (zone, mx) \<Rightarrow>
               (let result = (\<lambda>st num. \<lparr>kp_status = st, kp_ward = Some key,
                      kp_ward_display = Some (case map_of khu_pho_display key of Some d \<Rightarrow> d | None \<Rightarrow> key),
                      kp_max = Some mx, kp_number = num\<rparr>) in
                case extract_khu_pho F text of
                  None \<Rightarrow> result KhuPhoMissing None
                | Some k \<Rightarrow> result (if k < 1 \<or> mx < k then KhuPhoOutOfRange else KhuPhoOk) (Some k))))"

section \<open>What a resolution promises\<close>

lemma find_in: "find P xs = Some x \<Longrightarrow> x \<in> set xs \<and> P x"
  by (auto simp: find_Some_iff)

lemma search_at_mono:
  assumes "\<And>w s. f w s \<noteq> None \<Longrightarrow> g w s \<noteq> None" and "search_at f w s \<noteq> None"
  shows "search_at g w s \<noteq> None"
  using assms(2)
proof (induction s arbitrary: w)
  case Nil
  then show ?case using assms(1) by simp
next
  case (Cons c s)
  show ?case
  proof (cases "g w (c # s)")
    case None
    with assms(1) have "f w (c # s) = None" by blast
    with Cons None show ?thesis by simp
  qed simp
qed

lemma ward_zone_resolved:
  assumes "resolve_ward F text = Some m"
  shows "(wz_ward m, wz_zone m) \<in> set ward_zones \<and>
    (all_digits (wz_ward m) \<longrightarrow> safe_binh_thanh_context (address_key F text))"
proof -
  let ?n = "address_key F text"
  let ?bare = "strip_ward_prefixes ?n"
  have table: "e \<in> set ward_zones" if "e \<in> set sorted_wards" for e
    using that by (simp add: sorted_wards_def)
  have guard: "(wz_ward m, wz_zone m) \<in> set ward_zones \<and> (all_digits (wz_ward m) \<longrightarrow> safe_binh_thanh_context ?n)"
    if "map_of ward_zones k = Some z" "guarded k z ?n = Some m" for k z
    using that map_of_SomeD [OF that(1)] by (auto simp: guarded_def split: if_splits)
  show ?thesis
  proof (cases "map_of ward_zones ?n")
    case (Some z)
    with assms guard show ?thesis by (simp add: resolve_ward_def Let_def split: if_splits)
  next
    case direct: None
    show ?thesis
    proof (cases "map_of ward_zones ?bare")
      case (Some z)
      with assms direct guard show ?thesis by (simp add: resolve_ward_def Let_def split: if_splits)
    next
      case None
      with assms direct show ?thesis
        by (auto simp: resolve_ward_def Let_def split: if_splits option.splits dest!: find_in table)
    qed
  qed
qed

text \<open>
  A resolved ward is a ward of the table with the zone of the table, and a numbered ward is
  resolved only for an address that names Binh Thanh and neither another district nor an unknown one.
\<close>
lemma ward_resolution_sound:
  assumes "resolve_ward F text = Some m"
  shows "(wz_ward m, wz_zone m) \<in> set ward_zones \<and>
    (all_digits (wz_ward m) \<longrightarrow> has_word (address_key F text) ''binh thanh'' \<and>
       \<not> conflicting_district (address_key F text) \<and> \<not> list_ex (has_word (address_key F text)) conflicting_phrases)"
  using ward_zone_resolved [OF assms] by (simp add: safe_binh_thanh_context_def)

lemma ward_resolution_sound_witness:
  "resolve_ward id ''P. 25, q. Binh Thanh'' = Some \<lparr>wz_ward = ''25'', wz_zone = ''Binh Thanh''\<rparr> \<and>
   has_word ''p. 25, q. binh thanh'' ''binh thanh'' \<and> \<not> conflicting_district ''p. 25, q. binh thanh''"
proof -
  have r: "resolve_ward id ''P. 25, q. Binh Thanh'' = Some \<lparr>wz_ward = ''25'', wz_zone = ''Binh Thanh''\<rparr>" by code_simp
  have k: "address_key id ''P. 25, q. Binh Thanh'' = ''p. 25, q. binh thanh''" by code_simp
  have d: "all_digits ''25''" by code_simp
  from ward_resolution_sound [OF r] r d show ?thesis unfolding k by simp
qed

lemma quan_conflicts: "has_word n ''quan'' \<Longrightarrow> conflicting_district n"
proof -
  have hit: "district_here w s \<noteq> None" if "\<not> w" "take 4 s = ''quan''" "ends_word (drop 4 s)" for w s
  proof -
    from that(2) have s: "s = ''quan'' @ drop 4 s" by (metis append_take_drop_id)
    define r where "r = drop 4 s"
    let ?l = "\<lambda>c. 97 \<le> code_point c \<and> code_point c \<le> 122"
    have "takeWhile ?l r = []"
      using that(3) by (cases r) (auto simp: ends_word_def r_def [symmetric] py_word_def Let_def)
    moreover have "?l (CHR ''u'')" "?l (CHR ''a'')" "?l (CHR ''n'')" by (simp_all add: code_point_def)
    ultimately have "takeWhile ?l (''uan'' @ r) = ''uan''" by simp
    moreover have "after_lit ''binh thanh'' (''uan'' @ r) = None" by (simp add: after_lit_def)
    ultimately have v: "district_value (''uan'' @ r)"
      using that(3) by (simp add: district_value_def Let_def r_def)
    have "skip_blanks (skip_dot (''uan'' @ r)) = ''uan'' @ r"
      by (simp add: skip_blanks_def skip_dot_def py_isspace_def code_point_def Let_def)
    with v have "case after_lit ''q'' s of Some r \<Rightarrow> district_value (skip_blanks (skip_dot r)) | None \<Rightarrow> False"
      by (subst s) (simp add: after_lit_def r_def)
    with that(1) show ?thesis by (simp add: district_here_def)
  qed
  assume "has_word n ''quan''"
  then show ?thesis
    unfolding conflicting_district_def has_word_def
    by (rule search_at_mono [rotated]) (use hit in \<open>auto simp: eval_nat_numeral split: if_splits\<close>)
qed

text \<open>
  An address that spells out the word "quan" (district) never resolves to a numbered ward, even
  when the district it names is Binh Thanh: the word itself is read as another district. With
  "q. Binh Thanh" the same address resolves to the ward; with "quan Binh Thanh" it is taken for the new
  ward Binh Thanh, and a khu pho number is demanded that old addresses do not have.
\<close>
lemma quan_hides_numbered_ward:
  assumes "has_word (address_key F text) ''quan''" and "resolve_ward F text = Some m"
  shows "\<not> all_digits (wz_ward m)"
  using ward_zone_resolved [OF assms(2)] quan_conflicts [OF assms(1)] by (auto simp: safe_binh_thanh_context_def)

lemma sample_spelled: "resolve_ward id ''Phuong 25, quan Binh Thanh'' = Some \<lparr>wz_ward = ''binh thanh'', wz_zone = ''Binh Thanh''\<rparr>"
  by code_simp

lemma sample_short: "resolve_ward id ''Phuong 25, q. Binh Thanh'' = Some \<lparr>wz_ward = ''25'', wz_zone = ''Binh Thanh''\<rparr>"
  by code_simp

lemma quan_hides_numbered_ward_witness:
  "\<not> all_digits ''binh thanh'' \<and> kp_status (validate_khu_pho id ''Phuong 25, quan Binh Thanh'') = KhuPhoMissing \<and>
   kp_status (validate_khu_pho id ''Phuong 25, q. Binh Thanh'') = KhuPhoOk"
proof -
  have "has_word (address_key id ''Phuong 25, quan Binh Thanh'') ''quan''" by code_simp
  from quan_hides_numbered_ward [OF this sample_spelled] have "\<not> all_digits ''binh thanh''"
    by (simp only: ward_zone.select_convs not_False_eq_True)
  moreover have "address_key id ''binh thanh'' = ''binh thanh''" "address_key id ''25'' = ''25''" by code_simp+
  moreover have "map_of khu_pho_table ''binh thanh'' = Some (''Binh Thanh'', 53)" "map_of khu_pho_table ''25'' = None"
    by (simp_all add: khu_pho_table_def)
  moreover have "extract_khu_pho id ''Phuong 25, quan Binh Thanh'' = None" by code_simp
  ultimately show ?thesis
    by (simp add: validate_khu_pho_def sample_spelled sample_short khu_pho_unchecked_def Let_def)
qed

end
