(* ===== verification/Rag.thy ===== *)
theory Rag
  imports Safety Json Llm Address Complex_Main
begin

text \<open>
  Retrieval-augmented answers (\<^verbatim>\<open>rag/text_processor.py\<close>, \<^verbatim>\<open>rag/context_builder.py\<close>,
  \<^verbatim>\<open>rag/reranker.py\<close>, \<^verbatim>\<open>rag/pipeline.py\<close>). The retriever, the language model, the sentence
  tokenizer, Unicode composition and the prompt templates are parameters. Similarities are exact
  rationals.
\<close>

section \<open>Sentences and chunks\<close>

text \<open>
  \<open>nfc\<close> stands for Unicode composition and the replacement of typographic quotes and dashes; the
  tokenizer answers \<open>None\<close> when \<^verbatim>\<open>underthesea\<close> is not available.
\<close>

record text_env =
  tx_nfc :: "string \<Rightarrow> string"
  tx_tokenize :: "string \<Rightarrow> string list option"

definition text_normalize :: "text_env \<Rightarrow> string \<Rightarrow> string" where
  "text_normalize T text = (if text = [] then [] else squeeze (tx_nfc T text))"

text \<open>\<^verbatim>\<open>re.split(r"(?<=[.!?])\s+", text)\<close>; the flag says that the character before ends a sentence.\<close>

function sentence_split :: "bool \<Rightarrow> string \<Rightarrow> string \<Rightarrow> string list" where
  "sentence_split ended cur [] = [rev cur]"
| "sentence_split ended cur (c # s) =
     (if ended \<and> py_isspace c then rev cur # sentence_split False [] (dropWhile py_isspace s)
      else sentence_split (c \<in> set ''.!?'') (c # cur) s)"
  by pat_completeness auto

termination sentence_split
  by (relation "measure (\<lambda>(e, cur, s). length s)") (auto simp: le_imp_less_Suc length_dropWhile_le)

definition segment_sentences :: "text_env \<Rightarrow> string \<Rightarrow> string list" where
  "segment_sentences T text =
     (let n = text_normalize T text in
      if n = [] then []
      else filter (\<lambda>s. s \<noteq> [])
        (map py_strip (case tx_tokenize T n of Some ss \<Rightarrow> ss | None \<Rightarrow> sentence_split False [] n)))"

definition join_sp :: "string list \<Rightarrow> string" where
  "join_sp = join '' ''"

definition joined_length :: "string list \<Rightarrow> nat" where
  "joined_length ss = sum_list (map (\<lambda>s. length s + 1) ss)"

text \<open>The last sentences of a chunk that the next one repeats; the list is given from its end.\<close>

fun keep_back :: "nat \<Rightarrow> string list \<Rightarrow> nat \<Rightarrow> string list \<Rightarrow> string list" where
  "keep_back overlap kept l [] = kept"
| "keep_back overlap kept l (e # es) =
     (let l' = l + length e + 1 in
      if overlap \<le> l' then e # kept else keep_back overlap (e # kept) l' es)"

definition chunk_step :: "nat \<Rightarrow> nat \<Rightarrow> string list \<times> string list \<times> nat \<Rightarrow> string \<Rightarrow> string list \<times> string list \<times> nat" where
  "chunk_step chunk_size overlap st sentence =
     (case st of (chunks, cur, l) \<Rightarrow>
        if chunk_size < length sentence
        then (if cur \<noteq> [] then (chunks @ [join_sp cur, sentence], [], 0) else (chunks @ [sentence], cur, l))
        else if cur \<noteq> [] \<and> chunk_size < l + length sentence + 1
        then (let next = (if 0 < overlap then keep_back overlap [] 0 (rev cur) @ [sentence] else [sentence]) in
              (chunks @ [join_sp cur], next, joined_length next))
        else (chunks, cur @ [sentence], l + length sentence + 1))"

definition close_chunks :: "string list \<times> string list \<times> nat \<Rightarrow> string list" where
  "close_chunks st = (case st of (chunks, cur, l) \<Rightarrow> if cur \<noteq> [] then chunks @ [join_sp cur] else chunks)"

definition chunk_sentences :: "nat \<Rightarrow> nat \<Rightarrow> string list \<Rightarrow> string list" where
  "chunk_sentences chunk_size overlap ss = close_chunks (foldl (chunk_step chunk_size overlap) ([], [], 0) ss)"

definition chunk_text :: "text_env \<Rightarrow> string \<Rightarrow> nat \<Rightarrow> nat \<Rightarrow> string list" where
  "chunk_text T text chunk_size overlap =
     (let n = text_normalize T text in
      if n = [] then []
      else if length n \<le> chunk_size then [n]
      else chunk_sentences chunk_size overlap (segment_sentences T n))"

subsection \<open>Chunks are overlapping windows of sentences\<close>

definition window :: "'a list \<Rightarrow> nat \<times> nat \<Rightarrow> 'a list" where
  "window xs w = (case w of (i, j) \<Rightarrow> take (j - i) (drop i xs))"

text \<open>
  Windows that cover the positions from \<open>e\<close> to \<open>n\<close>: each starts inside or right after what is covered
  and reaches beyond it.
\<close>

fun covers :: "nat \<Rightarrow> nat \<Rightarrow> (nat \<times> nat) list \<Rightarrow> bool" where
  "covers e n [] \<longleftrightarrow> e = n"
| "covers e n ((i, j) # ws) \<longleftrightarrow> i \<le> e \<and> e < j \<and> covers j n ws"

lemma covers_snoc: "covers e m ws \<Longrightarrow> i \<le> m \<Longrightarrow> m < j \<Longrightarrow> covers e j (ws @ [(i, j)])"
  by (induction ws arbitrary: e) auto

lemma keep_back_suffix: "es \<noteq> [] \<Longrightarrow> \<exists>k. 0 < k \<and> k \<le> length es \<and> keep_back ov kept l es = rev (take k es) @ kept"
proof (induction es arbitrary: kept l)
  case (Cons e es)
  show ?case
  proof (cases "ov \<le> l + length e + 1 \<or> es = []")
    case True
    then show ?thesis by (intro exI [of _ 1]) (auto simp: Let_def)
  next
    case False
    with Cons.IH [of "e # kept" "l + length e + 1"] obtain k where
      "0 < k" "k \<le> length es" "keep_back ov (e # kept) (l + length e + 1) es = rev (take k es) @ e # kept" by blast
    with False show ?thesis by (intro exI [of _ "Suc k"]) (simp add: Let_def)
  qed
qed simp

text \<open>After \<open>k\<close> sentences: the closed chunks cover a part, the open one is the window up to \<open>k\<close>.\<close>

definition chunked :: "string list \<Rightarrow> nat \<Rightarrow> string list \<times> string list \<times> nat \<Rightarrow> bool" where
  "chunked ss k st \<longleftrightarrow> (case st of (chunks, cur, l) \<Rightarrow>
     \<exists>ws e. chunks = map (join_sp \<circ> window ss) ws \<and> covers 0 e ws \<and>
       (if cur = [] then e = k else \<exists>i. i \<le> e \<and> e < k \<and> cur = window ss (i, k)))"

lemma window_snoc: "i \<le> k \<Longrightarrow> k < length ss \<Longrightarrow> window ss (i, k) @ [ss ! k] = window ss (i, Suc k)"
  by (simp add: window_def take_Suc_conv_app_nth [of "k - i" "drop i ss"] Suc_diff_le)

lemma window_tail: "i \<le> k \<Longrightarrow> k \<le> length ss \<Longrightarrow> n \<le> k - i \<Longrightarrow> rev (take n (rev (window ss (i, k)))) = window ss (k - n, k)"
  by (simp add: window_def take_rev drop_take min_absorb2)

lemma window_one: "k < length ss \<Longrightarrow> window ss (k, Suc k) = [ss ! k]"
  by (simp add: window_def take_Suc_conv_app_nth)

lemma chunkedI:
  "chunks = map (join_sp \<circ> window ss) ws \<Longrightarrow> covers 0 e ws \<Longrightarrow> cur \<noteq> [] \<Longrightarrow> i \<le> e \<Longrightarrow> e < k \<Longrightarrow>
   cur = window ss (i, k) \<Longrightarrow> chunked ss k (chunks, cur, l)"
  by (auto simp: chunked_def)

lemma chunk_step_window:
  assumes "chunked ss k st" and "k < length ss"
  shows "chunked ss (Suc k) (chunk_step sz ov st (ss ! k))"
proof -
  obtain chunks cur l where st: "st = (chunks, cur, l)" by (cases st)
  from assms(1) st obtain ws e where ws: "chunks = map (join_sp \<circ> window ss) ws" "covers 0 e ws"
    and cur: "if cur = [] then e = k else \<exists>i. i \<le> e \<and> e < k \<and> cur = window ss (i, k)"
    by (auto simp: chunked_def)
  let ?s = "ss ! k"
  have closed: "covers 0 k (ws @ [(i, k)])" if "i \<le> e" "e < k" for i
    using covers_snoc [OF ws(2) that(1,2)] .
  consider (long) "sz < length ?s" | (full) "\<not> sz < length ?s" "cur \<noteq> []" "sz < l + length ?s + 1"
    | (fits) "\<not> sz < length ?s" "cur = [] \<or> \<not> sz < l + length ?s + 1" by blast
  then show ?thesis
  proof cases
    case long
    show ?thesis
    proof (cases "cur = []")
      case True
      with long st ws cur have "covers 0 (Suc k) (ws @ [(k, Suc k)])" by (simp add: covers_snoc)
      with True long st ws assms(2) show ?thesis
        by (auto simp: chunk_step_def chunked_def window_one join_sp_def join_def intro!: exI [of _ "ws @ [(k, Suc k)]"])
    next
      case False
      with cur obtain i where i: "i \<le> e" "e < k" "cur = window ss (i, k)" by auto
      with closed have "covers 0 (Suc k) ((ws @ [(i, k)]) @ [(k, Suc k)])" by (intro covers_snoc) auto
      with False long st ws i assms(2) show ?thesis
        by (auto simp: chunk_step_def chunked_def window_one join_sp_def join_def intro!: exI [of _ "ws @ [(i, k), (k, Suc k)]"])
    qed
  next
    case full
    with cur obtain i where i: "i \<le> e" "e < k" "cur = window ss (i, k)" by auto
    define next_chunk where "next_chunk = (if 0 < ov then keep_back ov [] 0 (rev cur) @ [?s] else [?s])"
    have "\<exists>j. j \<le> k \<and> next_chunk = window ss (j, Suc k)"
    proof (cases "0 < ov")
      case True
      from keep_back_suffix [of "rev cur" ov "[]" 0] full(2) obtain n where
        n: "n \<le> length cur" "keep_back ov [] 0 (rev cur) = rev (take n (rev cur))" by auto
      then have "n \<le> k - i" using i by (simp add: window_def)
      with n i assms(2) have "keep_back ov [] 0 (rev cur) = window ss (k - n, k)" by (simp add: window_tail)
      with True assms(2) show ?thesis by (intro exI [of _ "k - n"]) (simp add: next_chunk_def window_snoc)
    next
      case False
      with assms(2) show ?thesis by (intro exI [of _ k]) (simp add: next_chunk_def window_one)
    qed
    then obtain j where j: "j \<le> k" "next_chunk = window ss (j, Suc k)" by blast
    have "next_chunk \<noteq> []" by (simp add: next_chunk_def)
    then have "chunked ss (Suc k) (chunks @ [join_sp cur], next_chunk, joined_length next_chunk)"
      using ws i j closed [OF i(1,2)] by (intro chunkedI [of _ ss "ws @ [(i, k)]" k _ j]) simp_all
    moreover have "chunk_step sz ov st ?s = (chunks @ [join_sp cur], next_chunk, joined_length next_chunk)"
      using full st by (simp add: chunk_step_def Let_def next_chunk_def)
    ultimately show ?thesis by simp
  next
    case fits
    show ?thesis
    proof (cases "cur = []")
      case True
      with cur have "e = k" by simp
      with True fits st ws assms(2) show ?thesis
        by (auto simp: chunk_step_def chunked_def window_one intro!: exI [of _ ws] exI [of _ k])
    next
      case False
      with cur obtain i where i: "i \<le> e" "e < k" "cur = window ss (i, k)" by auto
      with assms(2) have "cur @ [?s] = window ss (i, Suc k)" by (simp add: window_snoc)
      moreover from this have "window ss (i, Suc k) \<noteq> []" by (metis append_is_Nil_conv list.distinct(1))
      ultimately have "chunked ss (Suc k) (chunks, cur @ [?s], l + length ?s + 1)" using ws i
        by (intro chunkedI [of _ ss ws e _ i]) simp_all
      with False fits st show ?thesis by (simp add: chunk_step_def)
    qed
  qed
qed

lemma chunked_all: "n \<le> length ss \<Longrightarrow> chunked ss n (foldl (chunk_step sz ov) ([], [], 0) (take n ss))"
proof (induction n)
  case 0
  show ?case by (auto simp: chunked_def intro!: exI [of _ "[]"])
next
  case (Suc n)
  then show ?case using chunk_step_window [of ss n] by (simp add: take_Suc_conv_app_nth)
qed

lemma chunk_sentences_windows:
  "\<exists>ws. chunk_sentences sz ov ss = map (join_sp \<circ> window ss) ws \<and> covers 0 (length ss) ws"
proof -
  obtain chunks cur l where st: "foldl (chunk_step sz ov) ([], [], 0) ss = (chunks, cur, l)"
    by (cases "foldl (chunk_step sz ov) ([], [], 0) ss")
  with chunked_all [of "length ss" ss sz ov] obtain ws e where ws: "chunks = map (join_sp \<circ> window ss) ws" "covers 0 e ws"
    "if cur = [] then e = length ss else \<exists>i. i \<le> e \<and> e < length ss \<and> cur = window ss (i, length ss)"
    by (auto simp: chunked_def)
  show ?thesis
  proof (cases "cur = []")
    case True
    with st ws show ?thesis by (auto simp: chunk_sentences_def close_chunks_def)
  next
    case False
    with ws obtain i where i: "i \<le> e" "e < length ss" "cur = window ss (i, length ss)" by auto
    with st ws False show ?thesis
      by (intro exI [of _ "ws @ [(i, length ss)]"]) (simp add: chunk_sentences_def close_chunks_def covers_snoc)
  qed
qed

text \<open>
  Cutting a document into chunks loses nothing and keeps the order: every chunk is a run of
  consecutive sentences, the first chunk starts at the first sentence, each later chunk starts inside
  or right after what the chunks before it cover and goes beyond it, and the last one ends at the last
  sentence.
\<close>
lemma chunks_cover_sentences:
  assumes "chunk_size < length (text_normalize T text)"
  shows "\<exists>ws. chunk_text T text chunk_size overlap =
      map (\<lambda>w. join_sp (window (segment_sentences T (text_normalize T text)) w)) ws \<and>
    covers 0 (length (segment_sentences T (text_normalize T text))) ws"
  using assms chunk_sentences_windows [of chunk_size overlap "segment_sentences T (text_normalize T text)"]
  by (auto simp: chunk_text_def Let_def comp_def)

definition sample_text_env :: text_env where
  "sample_text_env = \<lparr>tx_nfc = id, tx_tokenize = (\<lambda>_. None)\<rparr>"

lemma chunks_cover_sentences_witness:
  "chunk_text sample_text_env ''Mot. Hai.  Ba bon. Nam.'' 12 3 = [''Mot. Hai.'', ''Hai. Ba bon.'', ''Ba bon. Nam.''] \<and>
   (\<exists>ws. [''Mot. Hai.'', ''Hai. Ba bon.'', ''Ba bon. Nam.''] = map (\<lambda>w. join_sp (window [''Mot.'', ''Hai.'', ''Ba bon.'', ''Nam.''] w)) ws \<and>
     covers 0 4 ws)"
proof -
  have n: "text_normalize sample_text_env ''Mot. Hai.  Ba bon. Nam.'' = ''Mot. Hai. Ba bon. Nam.''" by code_simp
  have s: "segment_sentences sample_text_env ''Mot. Hai. Ba bon. Nam.'' = [''Mot.'', ''Hai.'', ''Ba bon.'', ''Nam.'']" by code_simp
  have c: "chunk_text sample_text_env ''Mot. Hai.  Ba bon. Nam.'' 12 3 = [''Mot. Hai.'', ''Hai. Ba bon.'', ''Ba bon. Nam.'']" by code_simp
  show ?thesis using chunks_cover_sentences [of 12 sample_text_env "''Mot. Hai.  Ba bon. Nam.''" 3] unfolding n s c
    by (simp add: eval_nat_numeral)
qed

subsection \<open>The size of a chunk\<close>

lemma join_sp_length: "ss \<noteq> [] \<Longrightarrow> length (join_sp ss) + 1 = joined_length ss"
  by (induction ss) (auto simp: join_sp_def joined_length_def join_Cons)

lemma joined_append [simp]: "joined_length (xs @ ys) = joined_length xs + joined_length ys" "joined_length [] = 0"
  by (simp_all add: joined_length_def)

lemma keep_back_length:
  "\<forall>e \<in> set es. length e \<le> sz \<Longrightarrow> l \<le> ov + sz \<Longrightarrow> joined_length kept = l \<Longrightarrow> l < ov \<or> es = [] \<Longrightarrow>
   joined_length (keep_back ov kept l es) \<le> ov + sz"
proof (induction es arbitrary: kept l)
  case (Cons e es)
  have "joined_length (e # kept) = l + length e + 1" using Cons.prems(3) by (simp add: joined_length_def)
  then show ?case using Cons by (auto simp: Let_def)
qed simp

definition sized :: "nat \<Rightarrow> nat \<Rightarrow> string list \<Rightarrow> string list \<times> string list \<times> nat \<Rightarrow> bool" where
  "sized sz ov ss st \<longleftrightarrow> (case st of (chunks, cur, l) \<Rightarrow>
     (\<forall>c \<in> set chunks. length c \<le> 2 * sz + ov \<or> c \<in> set ss) \<and> (\<forall>s \<in> set cur. length s \<le> sz) \<and>
     l = joined_length cur \<and> l \<le> 2 * sz + ov + 1)"

lemma sized_step:
  assumes "sized sz ov ss st" and "s \<in> set ss"
  shows "sized sz ov ss (chunk_step sz ov st s)"
proof -
  obtain chunks cur l where st: "st = (chunks, cur, l)" by (cases st)
  from assms(1) st have old: "\<And>c. c \<in> set chunks \<Longrightarrow> length c \<le> 2 * sz + ov \<or> c \<in> set ss"
    "\<forall>s \<in> set cur. length s \<le> sz" "l = joined_length cur" "l \<le> 2 * sz + ov + 1"
    by (auto simp: sized_def)
  have joined: "length (join_sp cur) \<le> 2 * sz + ov" if "cur \<noteq> []"
    using join_sp_length [OF that] old by linarith
  have kept: "joined_length (keep_back ov [] 0 (rev cur)) \<le> ov + sz" if "0 < ov"
    using keep_back_length [of "rev cur" sz 0 ov "[]"] old(2) that by simp
  have members: "\<forall>x \<in> set (keep_back ov [] 0 (rev cur)). length x \<le> sz" if "cur \<noteq> []"
  proof -
    from keep_back_suffix [of "rev cur" ov "[]" 0] that obtain n where
      "keep_back ov [] 0 (rev cur) = rev (take n (rev cur))" by auto
    then show ?thesis using old(2) by (auto dest: in_set_takeD)
  qed
  show ?thesis
    using assms(2) st old joined kept members
    by (auto simp: sized_def chunk_step_def Let_def joined_length_def split: if_splits)
qed

text \<open>
  No chunk is longer than twice the chunk size plus the overlap, except a single sentence that alone
  exceeds the chunk size.
\<close>
lemma chunk_length_bound:
  assumes "c \<in> set (chunk_text T text chunk_size overlap)"
  shows "length c \<le> 2 * chunk_size + overlap \<or> c \<in> set (segment_sentences T (text_normalize T text))"
proof -
  let ?ss = "segment_sentences T (text_normalize T text)"
  have inv: "sized chunk_size overlap ?ss (foldl (chunk_step chunk_size overlap) st xs)"
    if "sized chunk_size overlap ?ss st" "set xs \<subseteq> set ?ss" for xs st
    using that
  proof (induction xs arbitrary: st)
    case (Cons x xs)
    then show ?case using sized_step [OF Cons.prems(1), of x] by simp
  qed simp
  obtain chunks cur l where st: "foldl (chunk_step chunk_size overlap) ([], [], 0) ?ss = (chunks, cur, l)"
    by (cases "foldl (chunk_step chunk_size overlap) ([], [], 0) ?ss")
  have "sized chunk_size overlap ?ss (chunks, cur, l)"
    unfolding st [symmetric] by (rule inv) (auto simp: sized_def)
  then have "c \<in> set (chunk_sentences chunk_size overlap ?ss) \<Longrightarrow> length c \<le> 2 * chunk_size + overlap \<or> c \<in> set ?ss"
    using join_sp_length [of cur] by (auto simp: chunk_sentences_def close_chunks_def st sized_def split: if_splits)
  with assms show ?thesis by (auto simp: chunk_text_def Let_def split: if_splits)
qed

text \<open>The bound is the best of its kind: a chunk well above the chunk size.\<close>

lemma chunk_length_bound_witness:
  "length (''Hai ba bon nam. Sau bay tam chin.'') \<le> 2 * 20 + 5 \<or>
   ''Hai ba bon nam. Sau bay tam chin.'' \<in> set (segment_sentences sample_text_env (text_normalize sample_text_env ''Mot hai. Hai ba bon nam. Sau bay tam chin.''))"
proof -
  have "''Hai ba bon nam. Sau bay tam chin.'' \<in> set (chunk_text sample_text_env ''Mot hai. Hai ba bon nam. Sau bay tam chin.'' 20 5)"
    by code_simp
  from chunk_length_bound [OF this] show ?thesis by blast
qed

section \<open>The prompt context\<close>

record retrieved_doc =
  rd_id :: uuid
  rd_title :: string
  rd_content :: string
  rd_category :: string
  rd_similarity :: rat
  rd_source :: "string option"

definition document_text :: "nat \<Rightarrow> retrieved_doc \<Rightarrow> string" where
  "document_text index d =
     ''[Tai lieu '' @ nat_digits index @ '' - Loai: '' @ rd_category d @ '' - Tieu de: '' @ rd_title d @ '']'' @
     [CHR 0x0A] @ rd_content d @ [CHR 0x0A]"

text \<open>The parts that fit; the first that does not is cut, and left out when 100 characters or less remain.\<close>

fun context_parts :: "nat \<Rightarrow> nat \<Rightarrow> nat \<Rightarrow> retrieved_doc list \<Rightarrow> string list" where
  "context_parts max_chars index used [] = []"
| "context_parts max_chars index used (d # ds) =
     (let t = document_text index d in
      if max_chars < used + length t
      then (if 100 < max_chars - used then [take (max_chars - used) t @ ''...''] else [])
      else t # context_parts max_chars (Suc index) (used + length t) ds)"

definition combine_context :: "string \<Rightarrow> string option \<Rightarrow> string" where
  "combine_context knowledge catalog =
     (if \<not> truthy catalog then knowledge
      else ''Thong tin tu co so kien thuc:'' @ [CHR 0x0A] @ knowledge @ [CHR 0x0A, CHR 0x0A] @
           ''Thong tin san pham dang ban:'' @ [CHR 0x0A] @ py_strip (the catalog))"

definition build_context :: "retrieved_doc list \<Rightarrow> nat \<Rightarrow> string option \<Rightarrow> string" where
  "build_context docs max_chars catalog =
     (if docs = [] then combine_context ''Khong co thong tin lien quan trong co so du lieu.'' catalog
      else combine_context (join [CHR 0x0A] (context_parts max_chars 1 0 docs)) catalog)"

definition role_label :: "string \<Rightarrow> string" where
  "role_label r =
     (case map_of [(''user'', ''Khach hang''), (''assistant'', ''Bot''), (''staff'', ''Nhan vien''), (''system'', ''He thong'')] r of
        Some l \<Rightarrow> l | None \<Rightarrow> r)"

text \<open>A message is a role and a content; a missing key reads as the empty text.\<close>

definition format_history :: "(string \<times> string) list \<Rightarrow> nat \<Rightarrow> string" where
  "format_history messages max_messages =
     (if messages = [] then ''(Chua co lich su tro chuyen)''
      else join [CHR 0x0A] (map (\<lambda>(r, c). role_label r @ '': '' @ c) (drop (length messages - max_messages) messages)))"

lemma context_parts_length:
  "used \<le> max_chars \<Longrightarrow> length (concat (context_parts max_chars index used ds)) + used \<le> max_chars + 3"
proof (induction ds arbitrary: index used)
  case (Cons d ds)
  show ?case
  proof (cases "max_chars < used + length (document_text index d)")
    case True
    with Cons.prems show ?thesis by (simp add: Let_def min_def)
  next
    case False
    with Cons.IH [of "used + length (document_text index d)" "Suc index"] show ?thesis
      by (simp add: Let_def)
  qed
qed simp

lemma context_parts_count: "length (context_parts max_chars index used ds) \<le> length ds"
  by (induction ds arbitrary: index used) (auto simp: Let_def)

lemma join_newline_length: "length (join [c] xs) \<le> length (concat xs) + (length xs - 1)"
proof (induction xs)
  case (Cons x xs)
  then show ?case by (cases xs) (auto simp: join_Cons)
qed simp

text \<open>What the documents contribute to a prompt is bounded by \<open>max_chars\<close>, the ellipsis and the separators.\<close>

lemma context_bounded:
  assumes "docs \<noteq> []"
  shows "length (build_context docs max_chars None) \<le> max_chars + 3 + (length docs - 1)"
proof -
  let ?parts = "context_parts max_chars 1 0 docs"
  have "length (join [CHR 0x0A] ?parts) \<le> length (concat ?parts) + (length ?parts - 1)" by (rule join_newline_length)
  also have "\<dots> \<le> max_chars + 3 + (length docs - 1)"
    using context_parts_length [of 0 max_chars 1 docs] context_parts_count [of max_chars 1 0 docs] by linarith
  finally show ?thesis using assms by (simp add: build_context_def combine_context_def)
qed

section \<open>Reranking\<close>

text \<open>\<^verbatim>\<open>re.search(r"\[[^\]]*\]", text)\<close>\<close>

fun json_array :: "string \<Rightarrow> string option" where
  "json_array [] = None"
| "json_array (c # s) =
     (if c = CHR ''['' \<and> CHR '']'' \<in> set s then Some (c # takeWhile (\<lambda>d. d \<noteq> CHR '']'') s @ '']'') else json_array s)"

text \<open>\<^verbatim>\<open>int(value)\<close> of a decoded JSON value; truncation of a float is a parameter.\<close>

definition int_of_json :: "(string \<Rightarrow> exn + int) \<Rightarrow> json \<Rightarrow> exn + int" where
  "int_of_json trunc v =
     (case v of
        JInt n \<Rightarrow> Inr n
      | JBool b \<Rightarrow> Inr (if b then 1 else 0)
      | JFloat t \<Rightarrow> trunc t
      | JStr t \<Rightarrow> (case py_int t of Some n \<Rightarrow> Inr n | None \<Rightarrow> Inl (PyError ''ValueError''))
      | _ \<Rightarrow> Inl (PyError ''TypeError''))"

fun pick_order :: "(string \<Rightarrow> exn + int) \<Rightarrow> nat \<Rightarrow> nat list \<Rightarrow> json list \<Rightarrow> exn + nat list" where
  "pick_order trunc count order [] = Inr order"
| "pick_order trunc count order (v # vs) =
     (case int_of_json trunc v of
        Inl e \<Rightarrow> Inl e
      | Inr k \<Rightarrow> pick_order trunc count
          (if 0 \<le> k \<and> k < int count \<and> nat k \<notin> set order then order @ [nat k] else order) vs)"

definition parse_order :: "(string \<Rightarrow> exn + int) \<Rightarrow> string \<Rightarrow> nat \<Rightarrow> exn + nat list" where
  "parse_order trunc text count =
     (case json_array text of
        None \<Rightarrow> Inl (PyError ''ValueError'')
      | Some t \<Rightarrow>
          (case loads t of
             None \<Rightarrow> Inl (PyError ''JSONDecodeError'')
           | Some (JList []) \<Rightarrow> Inr []
           | Some (JList vs) \<Rightarrow>
               (case pick_order trunc count [] vs of
                  Inl e \<Rightarrow> Inl e
                | Inr order \<Rightarrow> if order = [] then Inl (PyError ''ValueError'') else Inr order)
           | Some v \<Rightarrow> Inl (PyError ''ValueError'')))"

definition format_candidates :: "retrieved_doc list \<Rightarrow> string" where
  "format_candidates ds =
     join [CHR 0x0A] (map (\<lambda>(i, d). nat_digits i @ ''. '' @ rd_title d @ '': '' @ take 240 (squeeze (rd_content d))) (enumerate 0 ds))"

record rerank_env =
  rr_generate :: "string \<Rightarrow> string \<Rightarrow> exn + string"
  rr_trunc :: "string \<Rightarrow> exn + int"

definition rerank :: "rerank_env \<Rightarrow> string \<Rightarrow> retrieved_doc list \<Rightarrow> nat \<Rightarrow> retrieved_doc list" where
  "rerank R query candidates top_n =
     (if length candidates \<le> 1 then take top_n candidates
      else case rr_generate R query (format_candidates candidates) of
          Inl e \<Rightarrow> take top_n candidates
        | Inr text \<Rightarrow>
            (case parse_order (rr_trunc R) text (length candidates) of
               Inl e \<Rightarrow> take top_n candidates
             | Inr order \<Rightarrow> take top_n (map (\<lambda>i. candidates ! i) order)))"

lemma pick_order_selects:
  assumes "pick_order trunc count order vs = Inr r" and "distinct order" and "\<forall>i \<in> set order. i < count"
  shows "distinct r \<and> (\<forall>i \<in> set r. i < count)"
  using assms
proof (induction vs arbitrary: order)
  case (Cons v vs)
  from Cons.prems(1) obtain k where k: "int_of_json trunc v = Inr k"
    by (cases "int_of_json trunc v") simp_all
  define order' where "order' = (if 0 \<le> k \<and> k < int count \<and> nat k \<notin> set order then order @ [nat k] else order)"
  have "pick_order trunc count order' vs = Inr r" using Cons.prems(1) k by (simp add: order'_def)
  moreover have "distinct order'" "\<forall>i \<in> set order'. i < count"
    using Cons.prems(2,3) by (auto simp: order'_def)
  ultimately show ?case by (rule Cons.IH)
qed simp

lemma parse_order_picks:
  "parse_order trunc text count = Inr r \<Longrightarrow> r = [] \<or> (\<exists>vs. pick_order trunc count [] vs = Inr r)"
  by (auto simp: parse_order_def simp del: pick_order.simps split: option.splits json.splits list.splits sum.splits if_splits)

lemma parse_order_selects:
  assumes "parse_order trunc text count = Inr r"
  shows "distinct r \<and> (\<forall>i \<in> set r. i < count)"
proof -
  from parse_order_picks [OF assms] consider "r = []" | vs where "pick_order trunc count [] vs = Inr r" by blast
  then show ?thesis by cases (use pick_order_selects [of trunc count "[]" _ r] in simp_all)
qed

lemma rerank_cases:
  "rerank R query candidates top_n = take top_n candidates \<or>
   (\<exists>r. rerank R query candidates top_n = take top_n (map (\<lambda>i. candidates ! i) r) \<and> distinct r \<and>
      (\<forall>i \<in> set r. i < length candidates))"
proof (cases "rr_generate R query (format_candidates candidates)")
  case (Inr answer)
  show ?thesis
  proof (cases "length candidates \<le> 1")
    case False
    with Inr show ?thesis
      using parse_order_selects [of "rr_trunc R" answer "length candidates"]
      by (cases "parse_order (rr_trunc R) answer (length candidates)") (auto simp: rerank_def)
  qed (simp add: rerank_def)
qed (simp add: rerank_def)

text \<open>
  Whatever the model answers, be it an error, no JSON, indices out of range or repeated ones,
  reranking returns a selection of the candidates, each at most once, and at most \<open>top_n\<close> of them.
\<close>
lemma rerank_selects:
  "\<exists>order. distinct order \<and> length order \<le> top_n \<and> set order \<subseteq> {..<length candidates} \<and>
     rerank R query candidates top_n = map (\<lambda>i. candidates ! i) order"
proof -
  have kept: "take top_n candidates = map (\<lambda>i. candidates ! i) (take top_n [0..<length candidates])"
    by (simp add: take_map [symmetric] map_nth)
  have selection: ?thesis
    if "rerank R query candidates top_n = map (\<lambda>i. candidates ! i) (take top_n r)"
      "distinct r" "\<forall>i \<in> set r. i < length candidates" for r
    using that by (intro exI [of _ "take top_n r"]) (auto dest: in_set_takeD)
  from rerank_cases [of R query candidates top_n] consider "rerank R query candidates top_n = take top_n candidates"
    | r where "rerank R query candidates top_n = take top_n (map (\<lambda>i. candidates ! i) r)"
        "distinct r" "\<forall>i \<in> set r. i < length candidates" by blast
  then show ?thesis
  proof cases
    case 1
    with kept show ?thesis by (intro selection [of "[0..<length candidates]"]) auto
  next
    case 2
    then show ?thesis by (intro selection) (auto simp: take_map)
  qed
qed

section \<open>The pipeline\<close>

text \<open>
  \<open>rg_generate\<close> is the model's answer to a prompt under a system prompt, \<open>rg_render\<close> the prompt template
  of a language filled with context, history and date. A provider error is an \<open>AppError\<close> of class
  \<open>LLMFailure\<close>.
\<close>

record rag_env =
  rg_fold :: fold_text
  rg_retrieve :: "string \<Rightarrow> nat \<Rightarrow> string option \<Rightarrow> exn + retrieved_doc list"
  rg_rerank :: rerank_env
  rg_rerank_enabled :: bool
  rg_retrieve_k :: nat
  rg_top_n :: nat
  rg_render :: "language \<Rightarrow> string \<Rightarrow> string \<Rightarrow> string"
  rg_generate :: "string \<Rightarrow> string \<Rightarrow> exn + string"
  rg_stream :: "string \<Rightarrow> string \<Rightarrow> stream_chunk list \<times> llm_error option"

datatype rag_answer = Fixed fixed_reply | Generated string

record rag_response =
  ra_answer :: rag_answer
  ra_sources :: "retrieved_doc list"
  ra_count :: nat
  ra_critical :: bool
  ra_confidence :: rat

text \<open>The exceptions of the retriever that are answered with an empty result.\<close>

definition retrieval_caught :: "exn \<Rightarrow> bool" where
  "retrieval_caught e \<longleftrightarrow>
     (case e of AppError c code \<Rightarrow> c = LLMFailure
      | PyError cls \<Rightarrow> cls \<in> set [''RuntimeError'', ''ValueError'', ''TypeError'', ''SQLAlchemyError''])"

definition rag_retrieve :: "rag_env \<Rightarrow> string \<Rightarrow> nat \<Rightarrow> string option \<Rightarrow> exn + retrieved_doc list" where
  "rag_retrieve E query top_k category =
     (case rg_retrieve E query (if rg_rerank_enabled E then rg_retrieve_k E else top_k) category of
        Inl e \<Rightarrow> if retrieval_caught e then Inr [] else Inl e
      | Inr ds \<Rightarrow> Inr (if rg_rerank_enabled E then rerank (rg_rerank E) query ds (rg_top_n E) else ds))"

definition address_note :: "rag_env \<Rightarrow> string \<Rightarrow> string option" where
  "address_note E query =
     map_option (\<lambda>m. ''Luu y dia chi: Phuong '' @ title_case False (wz_ward m) @ '' thuoc khu vuc giao '' @ wz_zone m @ ''.'')
       (resolve_ward (rg_fold E) query)"

definition system_prompt :: "rag_env \<Rightarrow> string \<Rightarrow> retrieved_doc list \<Rightarrow> (string \<times> string) list \<Rightarrow> string option \<Rightarrow> language \<Rightarrow> string" where
  "system_prompt E query docs history catalog l =
     (let c = build_context docs 3000 catalog;
          context = (case address_note E query of None \<Rightarrow> c | Some n \<Rightarrow> n @ [CHR 0x0A, CHR 0x0A] @ c) in
      rg_render E l context (format_history history 5))"

definition top_similarity :: "retrieved_doc list \<Rightarrow> rat" where
  "top_similarity ds = (case ds of [] \<Rightarrow> 0 | d # r \<Rightarrow> rd_similarity d)"

definition rag_query ::
  "rag_env \<Rightarrow> string \<Rightarrow> (string \<times> string) list \<Rightarrow> string option \<Rightarrow> nat \<Rightarrow> string option \<Rightarrow> language \<Rightarrow> exn + rag_response" where
  "rag_query E query history category top_k catalog l =
     (if sr_emergency (check_query (rg_fold E) query)
      then Inr \<lparr>ra_answer = Fixed (emergency_response l), ra_sources = [], ra_count = 0, ra_critical = True, ra_confidence = 1\<rparr>
      else case rag_retrieve E query top_k category of
        Inl e \<Rightarrow> Inl e
      | Inr ds \<Rightarrow>
          (case rg_generate E query (system_prompt E query ds history catalog l) of
             Inl e \<Rightarrow> Inl e
           | Inr answer \<Rightarrow> Inr \<lparr>ra_answer = Generated answer, ra_sources = ds, ra_count = length ds, ra_critical = False,
                               ra_confidence = top_similarity ds\<rparr>))"

text \<open>
  The streamed variant: the pieces sent, the exception that ends the stream, the documents put into the
  sources sink and, when the stream ended well, the attribution put into the generation sink.
\<close>

record rag_streamed =
  rs_pieces :: "rag_answer list"
  rs_error :: "(exn + llm_error) option"
  rs_sources :: "retrieved_doc list"
  rs_sink :: "(string option \<times> string option \<times> int option) option"

definition last_given :: "'a option list \<Rightarrow> 'a option" where
  "last_given xs = (case filter (\<lambda>x. x \<noteq> None) xs of [] \<Rightarrow> None | ys \<Rightarrow> last ys)"

definition rag_stream ::
  "rag_env \<Rightarrow> string \<Rightarrow> (string \<times> string) list \<Rightarrow> string option \<Rightarrow> nat \<Rightarrow> string option \<Rightarrow> language \<Rightarrow> rag_streamed" where
  "rag_stream E query history category top_k catalog l =
     (if sr_emergency (check_query (rg_fold E) query)
      then \<lparr>rs_pieces = [Fixed (emergency_response l)], rs_error = None, rs_sources = [], rs_sink = None\<rparr>
      else case rag_retrieve E query top_k category of
        Inl e \<Rightarrow> \<lparr>rs_pieces = [], rs_error = Some (Inl e), rs_sources = [], rs_sink = None\<rparr>
      | Inr ds \<Rightarrow>
          (case rg_stream E query (system_prompt E query ds history catalog l) of
             (cs, err) \<Rightarrow>
               \<lparr>rs_pieces = map (\<lambda>c. Generated (sc_delta c)) cs, rs_error = map_option Inr err, rs_sources = ds,
                rs_sink = (if err = None
                           then Some (last_given (map sc_provider cs), last_given (map sc_model cs), last_given (map sc_tokens cs))
                           else None)\<rparr>))"

text \<open>
  C30. A message in which an emergency occurs, whatever is written around it, is answered with the fixed
  guidance in the customer's language: whatever the retriever, the model, the prompt templates and the
  reranker would do, the plain and the streamed answer are the fixed text, with no source and no model
  involved.
\<close>
theorem emergency_answer_fixed:
  assumes "\<And>x y. rg_fold E (x @ y) = rg_fold E x @ rg_fold E y" and "sr_emergency (check_query (rg_fold E) core)"
  shows "rag_query E (before @ core @ after) history category top_k catalog l =
      Inr \<lparr>ra_answer = Fixed (SafetyReply l), ra_sources = [], ra_count = 0, ra_critical = True, ra_confidence = 1\<rparr> \<and>
    rag_stream E (before @ core @ after) history category top_k catalog l =
      \<lparr>rs_pieces = [Fixed (SafetyReply l)], rs_error = None, rs_sources = [], rs_sink = None\<rparr>"
  using emergency_in_context [of "rg_fold E" core before after] assms
  by (simp add: rag_query_def rag_stream_def emergency_response_def)

definition sample_rag :: rag_env where
  "sample_rag = \<lparr>rg_fold = id, rg_retrieve = (\<lambda>_ _ _. Inl (PyError ''KeyError'')),
     rg_rerank = \<lparr>rr_generate = (\<lambda>_ _. Inr ''[]''), rr_trunc = (\<lambda>_. Inr 0)\<rparr>, rg_rerank_enabled = False,
     rg_retrieve_k = 20, rg_top_n = 5, rg_render = (\<lambda>_ _ _. []),
     rg_generate = (\<lambda>_ _. Inl (AppError LLMFailure ''llm_timeout'')), rg_stream = (\<lambda>_ _. ([], Some LlmTimeout))\<rparr>"

lemma emergency_answer_fixed_witness:
  "rag_query sample_rag (''alo shop oi, '' @ ''nha toi   Xi GAS'' @ '' o bep'') [] None 5 None Vi =
     Inr \<lparr>ra_answer = Fixed (SafetyReply Vi), ra_sources = [], ra_count = 0, ra_critical = True, ra_confidence = 1\<rparr>"
proof -
  have f: "rg_fold sample_rag = id" by (simp add: sample_rag_def)
  have "sr_emergency (check_query id ''nha toi   Xi GAS'')" by code_simp
  then show ?thesis
    using emergency_answer_fixed [of sample_rag "''nha toi   Xi GAS''" "''alo shop oi, ''" "'' o bep''"] unfolding f
    by (simp only: id_apply)
qed

text \<open>A generated answer names its sources and never more of them than asked for.\<close>

lemma rag_sources:
  assumes "rag_query E query history category top_k catalog l = Inr r" and "\<not> ra_critical r"
    and "\<And>k ds. rg_retrieve E query k category = Inr ds \<Longrightarrow> length ds \<le> k"
  shows "length (ra_sources r) \<le> (if rg_rerank_enabled E then rg_top_n E else top_k) \<and> ra_count r = length (ra_sources r)"
proof -
  have short: "length (rerank R q ds n) \<le> n" for R q ds n
    using rerank_cases [of R q ds n] by auto
  from assms(1,2) obtain ds where ds: "rag_retrieve E query top_k category = Inr ds" "ra_sources r = ds" "ra_count r = length ds"
    by (auto simp: rag_query_def split: if_splits sum.splits)
  with short assms(3) show ?thesis
    by (auto simp: rag_retrieve_def split: sum.splits if_splits)
qed

end
