(* ===== verification/Agent.thy ===== *)
theory Agent
  imports AdminChat Rag
begin

text \<open>
  The conversational agent (\<^verbatim>\<open>agent/graph.py\<close>, \<^verbatim>\<open>agent/state.py\<close>, \<^verbatim>\<open>agent/nodes/\<close>,
  \<^verbatim>\<open>agent/tools/\<close>): a checkpointed state, a graph of nodes that each return an update of it, the
  authorization matrix of the tools and the confirmation gate. The graph engine is modelled by what the
  nodes rely on: an update overwrites the keys it names, messages are appended, an edge function picks
  the next node, an \<^verbatim>\<open>interrupt\<close> without a resume value pauses the turn, and a resumed turn runs the
  paused node again from its first line. The Vietnamese prose of the prompts is written without accents;
  the text of an exception is a parameter.
\<close>

section \<open>State\<close>

datatype agent_message = HumanMsg string | AiMsg rag_answer

record tool_call =
  tc_name :: string
  tc_args :: "(string \<times> json) list"

record tool_result =
  tr_name :: string
  tr_ok :: bool
  tr_result :: "(string \<times> json) list"

record doc_summary =
  ds_id :: uuid
  ds_title :: string
  ds_content :: string
  ds_similarity :: rat

record agent_state =
  ag_messages :: "agent_message list"
  ag_session :: string
  ag_user :: "string option"
  ag_locale :: language
  ag_docs :: "doc_summary list"
  ag_calls :: "tool_call list"
  ag_results :: "tool_result list"
  ag_emergency :: bool
  ag_pattern :: "string option"
  ag_turns :: nat
  ag_confidence :: "rat option"
  ag_provider :: "string option"

text \<open>What a node reads from a thread that has no checkpoint yet.\<close>

definition fresh_thread :: agent_state where
  "fresh_thread = \<lparr>ag_messages = [], ag_session = [], ag_user = None, ag_locale = Vi, ag_docs = [], ag_calls = [],
     ag_results = [], ag_emergency = False, ag_pattern = None, ag_turns = 0, ag_confidence = None, ag_provider = None\<rparr>"

definition max_agent_turns :: nat where
  "max_agent_turns = 8"

type_synonym 'r tool = "(string \<times> json) list \<Rightarrow> ('r, (string \<times> json) list) adminop"

record 'r agent_env =
  ge_fold :: fold_text
  ge_now :: time
  ge_redis :: "'r redis"
  ge_gate :: bool
  ge_audit :: bool
  ge_user :: "user option"
  ge_hash :: "string \<Rightarrow> string"
  ge_tools :: "string \<Rightarrow> 'r tool option"
  ge_retrieve :: "string \<Rightarrow> nat \<Rightarrow> exn + retrieved_doc list"
  ge_stream :: "string \<Rightarrow> string \<Rightarrow> stream_chunk list \<times> llm_error option"
  ge_provider :: string
  ge_render :: "language \<Rightarrow> string \<Rightarrow> string \<Rightarrow> string"
  ge_fixed :: "fixed_reply \<Rightarrow> string"
  ge_error :: "exn \<Rightarrow> string"

section \<open>Authorization of tools\<close>

datatype tool_mode = ReadTool | WriteTool

record tool_policy =
  tp_mode :: tool_mode
  tp_auth :: bool
  tp_confirm :: bool

definition read_public :: tool_policy where
  "read_public = \<lparr>tp_mode = ReadTool, tp_auth = False, tp_confirm = False\<rparr>"

definition write_auth_confirm :: tool_policy where
  "write_auth_confirm = \<lparr>tp_mode = WriteTool, tp_auth = True, tp_confirm = True\<rparr>"

definition tool_registry :: "(string \<times> tool_policy) list" where
  "tool_registry =
     [(''search_products'', read_public), (''check_inventory'', read_public), (''lookup_safety_policy'', read_public),
      (''recommend_products'', read_public), (''_mock_create_order_example'', write_auth_confirm),
      (''_mock_customer_history_example'', \<lparr>tp_mode = ReadTool, tp_auth = True, tp_confirm = False\<rparr>)]"

definition get_tool_policy :: "string \<Rightarrow> tool_policy" where
  "get_tool_policy n = (case map_of tool_registry n of Some p \<Rightarrow> p | None \<Rightarrow> write_auth_confirm)"

section \<open>The confirmation gate\<close>

text \<open>\<^verbatim>\<open>json.dumps(args, sort_keys=True)\<close>\<close>

fun sort_keys :: "json \<Rightarrow> json" where
  "sort_keys (JList vs) = JList (map sort_keys vs)"
| "sort_keys (JObj d) = JObj (sort_key fst (map (\<lambda>p. (fst p, sort_keys (snd p))) d))"
| "sort_keys v = v"

definition derive_pending_token :: "(string \<Rightarrow> string) \<Rightarrow> string \<Rightarrow> string \<Rightarrow> string \<Rightarrow> (string \<times> json) list \<Rightarrow> string" where
  "derive_pending_token H session user n args =
     take 32 (H (session @ '':'' @ user @ '':'' @ n @ '':'' @ dumps (sort_keys (JObj args))))"

definition gate_key :: "string \<Rightarrow> string" where
  "gate_key token = ''agent_tool:pending:'' @ token"

definition gate_payload :: "string \<Rightarrow> string \<Rightarrow> (string \<times> json) list \<Rightarrow> (string \<times> json) list \<Rightarrow> (string \<times> json) list" where
  "gate_payload user n args before =
     [(''user_id'', JStr user), (''tool_name'', JStr n), (''args'', JObj args), (''before_snapshot'', JObj before)]"

definition store_pending :: "'r agent_env \<Rightarrow> string \<Rightarrow> string \<Rightarrow> string \<Rightarrow> (string \<times> json) list \<Rightarrow> (string \<times> json) list \<Rightarrow> 'r admin_state \<Rightarrow> 'r admin_state" where
  "store_pending E token user n args before w =
     w\<lparr>ac_redis := rd_setex (ge_redis E) (ge_now E) (gate_key token) 300 (dumps (JObj (gate_payload user n args before))) (ac_redis w)\<rparr>"

text \<open>\<^verbatim>\<open>GETDEL\<close>; a payload that is no JSON object would raise.\<close>

definition claim_pending :: "'r agent_env \<Rightarrow> string \<Rightarrow> 'r admin_state \<Rightarrow> (exn + (string \<times> json) list option) \<times> 'r admin_state" where
  "claim_pending E token w =
     ((case rd_get (ge_redis E) (ge_now E) (gate_key token) (ac_redis w) of
         None \<Rightarrow> Inr None
       | Some raw \<Rightarrow> (case loads raw of Some (JObj d) \<Rightarrow> Inr (Some d) | _ \<Rightarrow> Inl (PyError ''JSONDecodeError''))),
      w\<lparr>ac_redis := rd_delete (ge_redis E) (gate_key token) (ac_redis w)\<rparr>)"

text \<open>
  What the executor decides about a call: run it (and, after a confirmation, audit it against a
  snapshot), refuse it with a structured result, pause the turn with a prompt, or fail.
\<close>

datatype decision =
    Run "(string \<times> json) list option" | Refuse "(string \<times> json) list" | AskUser "(string \<times> json) list" | Broken exn

definition refusal :: "string \<Rightarrow> (string \<times> json) list" where
  "refusal code = [(''ok'', JBool False), (''error'', JStr code)]"

definition explained :: "string \<Rightarrow> string \<Rightarrow> (string \<times> json) list" where
  "explained code t = refusal code @ [(''message'', JStr t)]"

definition confirm_prompt :: "string \<Rightarrow> (string \<times> json) list \<Rightarrow> string \<Rightarrow> (string \<times> json) list" where
  "confirm_prompt n args token =
     [(''type'', JStr ''confirm_required''), (''tool'', JStr n), (''args'', JObj args), (''pending_token'', JStr token)]"

definition approves :: "json \<Rightarrow> bool" where
  "approves v \<longleftrightarrow> (case v of JObj d \<Rightarrow> jget ''approved'' d = JBool True | _ \<Rightarrow> False)"

definition names_token :: "string \<Rightarrow> json \<Rightarrow> bool" where
  "names_token token v \<longleftrightarrow> (case v of JObj d \<Rightarrow> jget ''pending_token'' d = JStr token | _ \<Rightarrow> False)"

text \<open>The resume values of the node, consumed by its interrupts in order.\<close>

definition run_confirm_gate ::
  "'r agent_env \<Rightarrow> string \<Rightarrow> json list \<Rightarrow> user \<Rightarrow> tool_call \<Rightarrow> 'r admin_state \<Rightarrow> decision \<times> json list \<times> 'r admin_state" where
  "run_confirm_gate E session resumes u c w =
     (let user = uuid_text (u_id u); n = tc_name c; args = tc_args c;
          token = derive_pending_token (ge_hash E) session user n args;
          w1 = store_pending E token user n args [] w in
      case resumes of
        [] \<Rightarrow> (AskUser (confirm_prompt n args token), [], w1)
      | v # rest \<Rightarrow>
          if \<not> approves v then (Refuse (refusal ''confirmation_declined''), rest, w1)
          else if \<not> names_token token v then (Refuse (refusal ''confirmation_invalid''), rest, w1)
          else case claim_pending E token w1 of
            (Inl e, w2) \<Rightarrow> (Broken e, rest, w2)
          | (Inr None, w2) \<Rightarrow> (Refuse (refusal ''confirmation_expired''), rest, w2)
          | (Inr (Some d), w2) \<Rightarrow>
              (if jget ''user_id'' d \<noteq> JStr user \<or> jget ''tool_name'' d \<noteq> JStr n \<or> jget ''args'' d \<noteq> JObj args
               then Refuse (refusal ''confirmation_invalid'')
               else Run (Some (case jget ''before_snapshot'' d of JObj b \<Rightarrow> b | _ \<Rightarrow> [])), rest, w2))"

definition authorize ::
  "'r agent_env \<Rightarrow> string \<Rightarrow> json list \<Rightarrow> tool_call \<Rightarrow> 'r admin_state \<Rightarrow> decision \<times> json list \<times> 'r admin_state" where
  "authorize E session resumes c w =
     (let p = get_tool_policy (tc_name c) in
      case ge_user E of
        None \<Rightarrow> if tp_auth p \<or> tp_confirm p then (Refuse (explained ''authentication_required'' ''This action requires a signed-in user.''), resumes, w) else (Run None, resumes, w)
      | Some u \<Rightarrow>
          if \<not> tp_confirm p then (Run None, resumes, w)
          else if \<not> ge_gate E then (Refuse (refusal ''confirmation_unavailable''), resumes, w)
          else run_confirm_gate E session resumes u c w)"

section \<open>The tool executor\<close>

definition tool_audit :: "user \<Rightarrow> tool_call \<Rightarrow> (string \<times> json) list \<Rightarrow> (string \<times> json) list \<Rightarrow> chat_audit" where
  "tool_audit u c before result =
     \<lparr>au_admin = u_id u, au_action = ''agent_tool:'' @ tc_name c, au_target_type = ''agent_tool_call'', au_target = None,
      au_before = before, au_after = [(''tool'', JStr (tc_name c)), (''args'', JObj (tc_args c)), (''result'', JObj result)]\<rparr>"

text \<open>The call itself: an exception becomes a structured result, its effects stay.\<close>

definition invoke_tool :: "'r agent_env \<Rightarrow> 'r tool \<Rightarrow> tool_call \<Rightarrow> 'r admin_state \<Rightarrow> (string \<times> json) list \<times> 'r admin_state" where
  "invoke_tool E tool c w =
     (case tool (tc_args c) w of (Inr r, w') \<Rightarrow> (r, w') | (Inl e, w') \<Rightarrow> (explained ''tool_execution_failed'' (ge_error E e), w'))"

text \<open>\<^verbatim>\<open>bool(result.get("ok", False))\<close>\<close>

definition result_ok :: "(string \<times> json) list \<Rightarrow> bool" where
  "result_ok r \<longleftrightarrow> json_true (jget ''ok'' r)"

datatype 'a outcome = Finished 'a | Paused "(string \<times> json) list" | Failed "exn + llm_error"

fun run_calls ::
  "'r agent_env \<Rightarrow> string \<Rightarrow> json list \<Rightarrow> tool_result list \<Rightarrow> tool_call list \<Rightarrow> 'r admin_state \<Rightarrow> tool_result list outcome \<times> 'r admin_state" where
  "run_calls E session resumes acc [] w = (Finished acc, w)"
| "run_calls E session resumes acc (c # cs) w =
     (let answered = (\<lambda>ok r. acc @ [\<lparr>tr_name = tc_name c, tr_ok = ok, tr_result = r\<rparr>]) in
      case ge_tools E (tc_name c) of
        None \<Rightarrow> run_calls E session resumes (answered False [(''error'', JStr ''unknown_tool'')]) cs w
      | Some tool \<Rightarrow>
          (case authorize E session resumes c w of
             (Refuse r, rest, w1) \<Rightarrow> run_calls E session rest (answered False r) cs w1
           | (AskUser p, rest, w1) \<Rightarrow> (Paused p, w1)
           | (Broken e, rest, w1) \<Rightarrow> (Failed (Inl e), w1)
           | (Run before, rest, w1) \<Rightarrow>
               (case invoke_tool E tool c w1 of
                  (r, w2) \<Rightarrow>
                    run_calls E session rest (answered (result_ok r) r) cs
                      (case (before, ge_user E) of
                         (Some b, Some u) \<Rightarrow>
                           if result_ok r \<and> ge_audit E then w2\<lparr>ac_audit := ac_audit w2 @ [tool_audit u c b r]\<rparr> else w2
                       | _ \<Rightarrow> w2))))"

section \<open>The nodes\<close>

text \<open>The text of the latest human message.\<close>

definition last_human :: "agent_state \<Rightarrow> string" where
  "last_human st =
     (case find (\<lambda>m. case m of HumanMsg t \<Rightarrow> True | AiMsg a \<Rightarrow> False) (rev (ag_messages st)) of
        Some (HumanMsg t) \<Rightarrow> t | _ \<Rightarrow> [])"

definition intake_guardrail :: "'r agent_env \<Rightarrow> agent_state \<Rightarrow> agent_state" where
  "intake_guardrail E st =
     (let r = check_query (ge_fold E) (last_human st) in
      st\<lparr>ag_turns := ag_turns st + 1, ag_emergency := sr_emergency r, ag_pattern := sr_matched r\<rparr>)"

definition safety_emergency :: "agent_state \<Rightarrow> agent_state" where
  "safety_emergency st = st\<lparr>ag_messages := ag_messages st @ [AiMsg (Fixed (emergency_response (ag_locale st)))], ag_confidence := Some 1\<rparr>"

definition turn_limit :: "agent_state \<Rightarrow> agent_state" where
  "turn_limit st = st\<lparr>ag_messages := ag_messages st @ [AiMsg (Fixed (TurnLimitReply (ag_locale st)))]\<rparr>"

definition stock_keywords :: "string list" where
  "stock_keywords = [''con hang'', ''con khong'', ''ton kho'', ''in stock'', ''available'']"

definition safety_info_keywords :: "string list" where
  "safety_info_keywords =
     [''bao quan'', ''an toan'', ''kiem tra dinh ky'', ''phong ngua'', ''safety'', ''how to store'', ''maintenance'']"

definition product_keywords :: "string list" where
  "product_keywords = [''gas'', ''binh'', ''nuoc uong'', ''gia'', ''kg'', ''lit'', ''price'', ''bottle'', ''cylinder'']"

text \<open>The product of the latest product search, when that search found exactly one.\<close>

fun remembered_in :: "tool_result list \<Rightarrow> string option" where
  "remembered_in [] = None"
| "remembered_in (r # rs) =
     (if tr_name r \<noteq> ''search_products'' then remembered_in rs
      else case jget ''products'' (tr_result r) of
          JList [JObj p] \<Rightarrow> Some (py_str (jget ''id'' p))
        | _ \<Rightarrow> None)"

definition remembered_product_id :: "agent_state \<Rightarrow> string option" where
  "remembered_product_id st = remembered_in (rev (ag_results st))"

definition agent_router :: "'r agent_env \<Rightarrow> agent_state \<Rightarrow> agent_state" where
  "agent_router E st =
     (let t = strip_accents (ge_fold E) (last_human st); seen = remembered_product_id st in
      st\<lparr>ag_calls :=
        (if truthy seen \<and> has_any stock_keywords t
         then [\<lparr>tc_name = ''check_inventory'', tc_args = [(''product_id'', JStr (the seen)), (''quantity'', JInt 1)]\<rparr>]
         else if has_any safety_info_keywords t then [\<lparr>tc_name = ''lookup_safety_policy'', tc_args = [(''query'', JStr t)]\<rparr>]
         else if has_any product_keywords t then [\<lparr>tc_name = ''search_products'', tc_args = [(''query'', JStr t)]\<rparr>]
         else [])\<rparr>)"

definition summarize_doc :: "retrieved_doc \<Rightarrow> doc_summary" where
  "summarize_doc d = \<lparr>ds_id = rd_id d, ds_title = rd_title d, ds_content = take 800 (rd_content d), ds_similarity = rd_similarity d\<rparr>"

definition retriever_node :: "'r agent_env \<Rightarrow> agent_state \<Rightarrow> agent_state outcome" where
  "retriever_node E st =
     (case ge_retrieve E (last_human st) 5 of
        Inl e \<Rightarrow> Failed (Inl e)
      | Inr ds \<Rightarrow> Finished (st\<lparr>ag_docs := map summarize_doc ds, ag_confidence := Some (top_similarity ds)\<rparr>))"

definition verifier :: "agent_state \<Rightarrow> agent_state" where
  "verifier st =
     (if ag_confidence st \<noteq> None then st
      else st\<lparr>ag_confidence := Some (if list_ex tr_ok (ag_results st) then 1 else 0)\<rparr>)"

definition answer_text :: "'r agent_env \<Rightarrow> rag_answer \<Rightarrow> string" where
  "answer_text E a = (case a of Fixed r \<Rightarrow> ge_fixed E r | Generated t \<Rightarrow> t)"

definition history_payload :: "'r agent_env \<Rightarrow> agent_state \<Rightarrow> (string \<times> string) list" where
  "history_payload E st =
     map (\<lambda>m. case m of HumanMsg t \<Rightarrow> (''user'', t) | AiMsg a \<Rightarrow> (''assistant'', answer_text E a)) (butlast (ag_messages st))"

definition blank_line :: string where
  "blank_line = [CHR 0x0A, CHR 0x0A]"

definition tool_results_context :: "agent_state \<Rightarrow> string" where
  "tool_results_context st =
     join blank_line (map (\<lambda>r. ''[Ket qua cong cu '' @ tr_name r @ '']'' @ [CHR 0x0A] @ py_repr (JObj (tr_result r))) (ag_results st))"

definition retrieved_docs_context :: "agent_state \<Rightarrow> string" where
  "retrieved_docs_context st =
     (if ag_docs st = [] then ''Khong co thong tin lien quan trong co so du lieu.''
      else join blank_line (map (\<lambda>(i, d). ''[Tai lieu '' @ nat_digits i @ '' - '' @ ds_title d @ '']'' @ [CHR 0x0A] @ ds_content d)
             (enumerate 1 (ag_docs st))))"

definition responder :: "'r agent_env \<Rightarrow> agent_state \<Rightarrow> agent_state outcome" where
  "responder E st =
     (let context = (if ag_results st \<noteq> [] then tool_results_context st else retrieved_docs_context st);
          system = ge_render E (ag_locale st) context (format_history (history_payload E st) 5) in
      case ge_stream E (last_human st) system of
        (cs, Some e) \<Rightarrow> Failed (Inr e)
      | (cs, None) \<Rightarrow>
          (let served = last_given (map sc_provider cs) in
           Finished (st\<lparr>ag_messages := ag_messages st @ [AiMsg (Generated (concat (map sc_delta cs)))],
                        ag_provider := (if truthy served then served else Some (ge_provider E))\<rparr>)))"

section \<open>The graph\<close>

datatype node = Intake | TurnLimit | SafetyEmergency | Router | ToolExecutor | Retriever | Verifier | Responder

definition route_after_intake :: "agent_state \<Rightarrow> node" where
  "route_after_intake st =
     (if max_agent_turns < ag_turns st then TurnLimit else if ag_emergency st then SafetyEmergency else Router)"

definition route_after_router :: "agent_state \<Rightarrow> node" where
  "route_after_router st = (if ag_calls st \<noteq> [] then ToolExecutor else Retriever)"

fun next_node :: "node \<Rightarrow> agent_state \<Rightarrow> node option" where
  "next_node Intake st = Some (route_after_intake st)"
| "next_node Router st = Some (route_after_router st)"
| "next_node ToolExecutor st = Some Verifier"
| "next_node Retriever st = Some Verifier"
| "next_node Verifier st = Some Responder"
| "next_node TurnLimit st = None"
| "next_node SafetyEmergency st = None"
| "next_node Responder st = None"

text \<open>One node; the tool executor is the only one that touches the world.\<close>

fun run_node :: "'r agent_env \<Rightarrow> json list \<Rightarrow> node \<Rightarrow> agent_state \<Rightarrow> 'r admin_state \<Rightarrow> agent_state outcome \<times> 'r admin_state" where
  "run_node E resumes Intake st w = (Finished (intake_guardrail E st), w)"
| "run_node E resumes TurnLimit st w = (Finished (turn_limit st), w)"
| "run_node E resumes SafetyEmergency st w = (Finished (safety_emergency st), w)"
| "run_node E resumes Router st w = (Finished (agent_router E st), w)"
| "run_node E resumes ToolExecutor st w =
     (case run_calls E (ag_session st) resumes [] (ag_calls st) w of
        (Finished rs, w') \<Rightarrow> (Finished (st\<lparr>ag_results := rs\<rparr>), w')
      | (Paused p, w') \<Rightarrow> (Paused p, w')
      | (Failed e, w') \<Rightarrow> (Failed e, w'))"
| "run_node E resumes Retriever st w = (retriever_node E st, w)"
| "run_node E resumes Verifier st w = (Finished (verifier st), w)"
| "run_node E resumes Responder st w = (responder E st, w)"

text \<open>
  How a run ends: in a state, paused before the node with the checkpointed state, failed with the state
  of the last checkpoint, or out of supersteps (\<^verbatim>\<open>RECURSION_LIMIT\<close>).
\<close>

datatype run_end = Ended agent_state | Waiting agent_state "(string \<times> json) list" | Crashed agent_state "exn + llm_error" | OutOfSteps

definition recursion_limit :: nat where
  "recursion_limit = 25"

fun run_graph :: "nat \<Rightarrow> 'r agent_env \<Rightarrow> json list \<Rightarrow> node \<Rightarrow> agent_state \<Rightarrow> 'r admin_state \<Rightarrow> run_end \<times> 'r admin_state" where
  "run_graph 0 E resumes n st w = (OutOfSteps, w)"
| "run_graph (Suc k) E resumes n st w =
     (case run_node E resumes n st w of
        (Paused p, w') \<Rightarrow> (Waiting st p, w')
      | (Failed e, w') \<Rightarrow> (Crashed st e, w')
      | (Finished st', w') \<Rightarrow>
          (case next_node n st' of None \<Rightarrow> (Ended st', w') | Some m \<Rightarrow> run_graph k E resumes m st' w'))"

text \<open>A posted message, and the resumption of a paused turn at the tool executor.\<close>

definition post_message :: "'r agent_env \<Rightarrow> string \<Rightarrow> string \<Rightarrow> language \<Rightarrow> agent_state \<Rightarrow> agent_state" where
  "post_message E session content l st =
     st\<lparr>ag_messages := ag_messages st @ [HumanMsg content], ag_session := session,
        ag_user := map_option (\<lambda>u. uuid_text (u_id u)) (ge_user E), ag_locale := l\<rparr>"

definition agent_turn :: "'r agent_env \<Rightarrow> string \<Rightarrow> string \<Rightarrow> language \<Rightarrow> agent_state \<Rightarrow> 'r admin_state \<Rightarrow> run_end \<times> 'r admin_state" where
  "agent_turn E session content l st w = run_graph recursion_limit E [] Intake (post_message E session content l st) w"

definition resume_turn :: "'r agent_env \<Rightarrow> json list \<Rightarrow> agent_state \<Rightarrow> 'r admin_state \<Rightarrow> run_end \<times> 'r admin_state" where
  "resume_turn E resumes st w = run_graph recursion_limit E resumes ToolExecutor st w"

section \<open>The production tools\<close>

text \<open>
  Arguments of the wrong JSON type are refused as a failed call; the coercions of the argument schema
  between JSON types are not modelled.
\<close>

definition bad_args :: exn where
  "bad_args = PyError ''ValidationError''"

definition arg_text :: "string \<Rightarrow> (string \<times> json) list \<Rightarrow> exn + string option" where
  "arg_text k d = (case jget k d of JNull \<Rightarrow> Inr None | JStr s \<Rightarrow> Inr (Some s) | _ \<Rightarrow> Inl bad_args)"

definition arg_number :: "string \<Rightarrow> (string \<times> json) list \<Rightarrow> exn + decimal option" where
  "arg_number k d =
     (case jget k d of
        JNull \<Rightarrow> Inr None
      | JInt n \<Rightarrow> Inr (Some (n, 0))
      | JFloat t \<Rightarrow> (case parse_decimal t of Some v \<Rightarrow> Inr (Some v) | None \<Rightarrow> Inl bad_args)
      | _ \<Rightarrow> Inl bad_args)"

definition arg_flag :: "string \<Rightarrow> (string \<times> json) list \<Rightarrow> exn + bool" where
  "arg_flag k d = (case map_of d k of None \<Rightarrow> Inr False | Some (JBool b) \<Rightarrow> Inr b | _ \<Rightarrow> Inl bad_args)"

definition arg_count :: "string \<Rightarrow> int \<Rightarrow> (string \<times> json) list \<Rightarrow> exn + int" where
  "arg_count k dflt d = (case map_of d k of None \<Rightarrow> Inr dflt | Some (JInt n) \<Rightarrow> Inr n | _ \<Rightarrow> Inl bad_args)"

definition arg_category :: "(string \<times> json) list \<Rightarrow> exn + category option" where
  "arg_category d =
     (case jget ''category'' d of
        JNull \<Rightarrow> Inr None
      | JStr s \<Rightarrow> if s = ''gas'' then Inr (Some Gas) else if s = ''nuoc_uong'' then Inr (Some NuocUong) else Inl bad_args
      | _ \<Rightarrow> Inl bad_args)"

text \<open>Hundredths: an upper bound is rounded down, a size that is no hundredth equals no size.\<close>

definition floor_money :: "decimal \<Rightarrow> money" where
  "floor_money d = (case d of (m, k) \<Rightarrow> (100 * m) div 10 ^ k)"

definition exact_size :: "decimal \<Rightarrow> int" where
  "exact_size d = (case d of (m, k) \<Rightarrow> if (100 * m) mod 10 ^ k = 0 then (100 * m) div 10 ^ k else - 1)"

definition category_text :: "category \<Rightarrow> string" where
  "category_text c = (case c of Gas \<Rightarrow> ''gas'' | NuocUong \<Rightarrow> ''nuoc_uong'')"

definition search_result_row :: "product \<Rightarrow> json" where
  "search_result_row p = JObj
     [(''id'', JStr (uuid_text (p_id p))), (''sku'', JStr (p_sku p)), (''name'', JStr (p_name p)), (''brand'', JStr (p_brand p)),
      (''category'', JStr (category_text (p_category p))), (''size_kg'', JStr (decimal_text (p_size_kg p, 2))),
      (''unit'', JStr (unit_text (p_unit p))), (''price'', JStr (decimal_text (effective_price (p_price p) (p_sale_price p), 2))),
      (''in_stock'', JBool (0 < p_stock_quantity p)), (''stock_quantity'', JInt (p_stock_quantity p))]"

definition search_args :: "(string \<times> json) list \<Rightarrow> exn + product_search" where
  "search_args d =
     (case (arg_text ''query'' d, arg_category d, arg_text ''brand'' d) of
        (Inr q, Inr cat, Inr b) \<Rightarrow>
          (case (arg_number ''size_kg'' d, arg_number ''max_price'' d, arg_flag ''in_stock_only'' d) of
             (Inr sz, Inr mx, Inr stock) \<Rightarrow>
               (case arg_count ''limit'' 5 d of
                  Inr n \<Rightarrow> if n < 1 \<or> 10 < n then Inl bad_args
                    else Inr (default_search\<lparr>ps_search := q, ps_category := cat, ps_brand := b, ps_size_kg := map_option exact_size sz,
                           ps_max_price := map_option floor_money mx, ps_in_stock_only := stock, ps_sort_by := SortPrice,
                           ps_ascending := True, ps_limit := nat n\<rparr>)
                | Inl e \<Rightarrow> Inl e)
           | _ \<Rightarrow> Inl bad_args)
      | _ \<Rightarrow> Inl bad_args)"

definition is_value_error :: "exn \<Rightarrow> bool" where
  "is_value_error e \<longleftrightarrow> e = PyError ''ValueError'' \<or> e = PyError ''ValidationError''"

text \<open>\<^verbatim>\<open>try ... except\<close>: the caught exceptions are answered, the state stays as it is.\<close>

definition answering :: "(exn \<Rightarrow> 'a option) \<Rightarrow> ('s, 'a) op \<Rightarrow> ('s, 'a) op" where
  "answering h m s = (case m s of (Inl e, s') \<Rightarrow> (case h e of Some a \<Rightarrow> (Inr a, s') | None \<Rightarrow> (Inl e, s')) | (Inr x, s') \<Rightarrow> (Inr x, s'))"

definition search_products_tool :: "(exn \<Rightarrow> string) \<Rightarrow> pg \<Rightarrow> 'r tool" where
  "search_products_tool err g args = on_products (
     andThen (lift_result (search_args args)) (\<lambda>ps.
     andThen (make_params ps) (\<lambda>ps'.
     answering (\<lambda>e. if is_value_error e then Some (explained ''invalid_filter'' (err e)) else None) (
       andThen (search_products g ps') (\<lambda>pg.
       ret [(''ok'', JBool True), (''total'', JInt (int (pg_total pg))), (''products'', JList (map search_result_row (pg_items pg)))])))))"

definition check_inventory_tool :: "'r tool" where
  "check_inventory_tool args = on_products (
     andThen (lift_result (case (jget ''product_id'' args, arg_count ''quantity'' 1 args) of
                (JStr t, Inr n) \<Rightarrow> if 1 \<le> n then Inr (t, n) else Inl bad_args | _ \<Rightarrow> Inl bad_args)) (\<lambda>(t, n).
     case parse_uuid t of
       Inl e \<Rightarrow> ret (explained ''invalid_product_id'' ([CHR 0x27] @ t @ [CHR 0x27] @ '' is not a valid product id.''))
     | Inr pid \<Rightarrow>
         answering (\<lambda>e. case e of AppError NotFound code \<Rightarrow> Some (explained ''product_not_found'' ''No active product with that id. Use search_products first.'') | _ \<Rightarrow> None) (
           andThen (get_product pid) (\<lambda>p.
           ret [(''ok'', JBool True), (''product_id'', JStr (uuid_text (p_id p))), (''sku'', JStr (p_sku p)), (''name'', JStr (p_name p)),
                (''stock_quantity'', JInt (p_stock_quantity p)), (''requested_quantity'', JInt n),
                (''available'', JBool (n \<le> p_stock_quantity p))]))))"

text \<open>
  The knowledge-base search and the recommendations behind the other two tools are parameters that read.
\<close>

definition build_tools ::
  "(exn \<Rightarrow> string) \<Rightarrow> pg \<Rightarrow> (db \<Rightarrow> (string \<times> json) list \<Rightarrow> exn + (string \<times> json) list) \<Rightarrow> (db \<Rightarrow> (string \<times> json) list \<Rightarrow> exn + (string \<times> json) list) \<Rightarrow>
   string \<Rightarrow> 'r tool option" where
  "build_tools err g lookup recommend n =
     (if n = ''search_products'' then Some (search_products_tool err g)
      else if n = ''check_inventory'' then Some check_inventory_tool
      else if n = ''lookup_safety_policy'' then Some (\<lambda>args w. (lookup (ac_db w) args, w))
      else if n = ''recommend_products'' then Some (\<lambda>args w. (recommend (ac_db w) args, w))
      else None)"

section \<open>Every turn ends\<close>

fun node_rank :: "node \<Rightarrow> nat" where
  "node_rank Intake = 5"
| "node_rank Router = 4"
| "node_rank ToolExecutor = 3"
| "node_rank Retriever = 3"
| "node_rank Verifier = 2"
| "node_rank Responder = 1"
| "node_rank TurnLimit = 1"
| "node_rank SafetyEmergency = 1"

lemma next_node_rank: "next_node n st = Some m \<Longrightarrow> 0 < node_rank m \<and> node_rank m < node_rank n"
  by (cases n) (auto simp: route_after_intake_def route_after_router_def)

lemma run_graph_steps:
  "node_rank n \<le> k \<Longrightarrow> k \<le> k' \<Longrightarrow> fst (run_graph k E rs n st w) \<noteq> OutOfSteps \<and> run_graph k' E rs n st w = run_graph k E rs n st w"
proof (induction k arbitrary: k' n st w)
  case 0
  then show ?case by (cases n) simp_all
next
  case (Suc k)
  from Suc.prems obtain j where j: "k' = Suc j" "k \<le> j" by (cases k') simp_all
  have next_run: "fst (run_graph k E rs m st' w') \<noteq> OutOfSteps \<and> run_graph j E rs m st' w' = run_graph k E rs m st' w'"
    if "next_node n st' = Some m" for m st' w'
    using Suc.IH [of m j] next_node_rank [OF that] Suc.prems(1) j(2) by simp
  show ?case
    unfolding j(1)
    by (auto simp: next_run split: outcome.splits option.splits prod.splits)
qed

text \<open>
  C33. Every posted message and every resumed turn comes to an end: no run needs more than five nodes,
  the recursion limit is never reached, and the run with the limit is the run of five steps.
\<close>
theorem agent_turn_ends:
  "fst (agent_turn E session content l st w) \<noteq> OutOfSteps \<and> fst (resume_turn E rs st w) \<noteq> OutOfSteps \<and>
   agent_turn E session content l st w = run_graph 5 E [] Intake (post_message E session content l st) w \<and>
   resume_turn E rs st w = run_graph 3 E rs ToolExecutor st w"
  using run_graph_steps [of Intake 5 25 E "[]" "post_message E session content l st" w]
    run_graph_steps [of ToolExecutor 3 25 E rs st w]
  by (simp add: agent_turn_def resume_turn_def recursion_limit_def)

lemma agent_turn_five: "agent_turn E session content l st w = run_graph 5 E [] Intake (post_message E session content l st) w"
  using run_graph_steps [of Intake 5 25 E "[]" "post_message E session content l st" w]
  by (simp add: agent_turn_def recursion_limit_def)

section \<open>Emergencies\<close>

lemma last_human_posted: "last_human (post_message E session content l st) = content"
  by (simp add: last_human_def post_message_def)

text \<open>
  C34. A message that is an emergency ends the turn at once with a fixed text and leaves the world alone:
  no tool, no retrieval, no model. In the first eight turns of a thread the text is the emergency
  guidance; from the ninth message on it is the hand-over reply of the turn limit, the guidance is no
  longer given.
\<close>
theorem emergency_turn:
  assumes "sr_emergency (check_query (ge_fold E) content)"
  shows "\<exists>t. agent_turn E session content l st w = (Ended t, w) \<and>
    ag_messages t = ag_messages st @ [HumanMsg content,
      AiMsg (Fixed (if ag_turns st < max_agent_turns then SafetyReply l else TurnLimitReply l))]"
proof -
  have "ag_turns (post_message E session content l st) = ag_turns st"
    "ag_locale (post_message E session content l st) = l"
    "ag_messages (post_message E session content l st) = ag_messages st @ [HumanMsg content]"
    by (simp_all add: post_message_def)
  then show ?thesis
    using assms unfolding agent_turn_five
    by (auto simp: eval_nat_numeral intake_guardrail_def last_human_posted Let_def route_after_intake_def
        max_agent_turns_def turn_limit_def safety_emergency_def emergency_response_def)
qed

text \<open>A concrete agent: a guest, or an account behind the gate, and a model that repeats its instructions.\<close>

definition sample_agent :: "user option \<Rightarrow> ttl_store agent_env" where
  "sample_agent who = \<lparr>ge_fold = id, ge_now = 0, ge_redis = ttl_redis, ge_gate = True, ge_audit = True, ge_user = who, ge_hash = id,
     ge_tools = (\<lambda>n. if n = ''_mock_create_order_example'' then Some (\<lambda>args w. (Inr [(''ok'', JBool True)], w)) else None),
     ge_retrieve = (\<lambda>q k. Inr []),
     ge_stream = (\<lambda>q system. ([\<lparr>sc_delta = system, sc_provider = None, sc_model = None, sc_tokens = None\<rparr>], None)),
     ge_provider = ''gemini'', ge_render = (\<lambda>l context history. context), ge_fixed = (\<lambda>r. []), ge_error = (\<lambda>e. [])\<rparr>"

definition sample_thread :: agent_state where
  "sample_thread = fresh_thread\<lparr>ag_results := [\<lparr>tr_name = ''unknown'', tr_ok = False, tr_result = [(''error'', JStr ''unknown_tool'')]\<rparr>]\<rparr>"

lemma emergency_turn_witness:
  "(\<exists>t. agent_turn (sample_agent None) ''s'' ''nha toi xi gas'' Vi fresh_thread sample_admin_state = (Ended t, sample_admin_state) \<and>
     ag_messages t = [HumanMsg ''nha toi xi gas'', AiMsg (Fixed (SafetyReply Vi))]) \<and>
   (\<exists>t. agent_turn (sample_agent None) ''s'' ''nha toi xi gas'' Vi (fresh_thread\<lparr>ag_turns := 8\<rparr>) sample_admin_state
       = (Ended t, sample_admin_state) \<and>
     ag_messages t = [HumanMsg ''nha toi xi gas'', AiMsg (Fixed (TurnLimitReply Vi))])"
proof -
  have e: "sr_emergency (check_query (ge_fold (sample_agent None)) ''nha toi xi gas'')"
  proof -
    have "sr_emergency (check_query id ''nha toi xi gas'')" by code_simp
    then show ?thesis by (simp add: sample_agent_def)
  qed
  show ?thesis
    using emergency_turn [OF e, of "''s''" Vi fresh_thread sample_admin_state]
      emergency_turn [OF e, of "''s''" Vi "fresh_thread\<lparr>ag_turns := 8\<rparr>" sample_admin_state]
    by (simp add: fresh_thread_def max_agent_turns_def)
qed

section \<open>Stale tool results\<close>

lemma turn_short:
  assumes "route_after_intake (intake_guardrail E (post_message E session content l st)) \<noteq> Router"
  shows "\<exists>t. agent_turn E session content l st w = (Ended t, w) \<and>
    t = (if max_agent_turns < ag_turns (intake_guardrail E (post_message E session content l st))
         then turn_limit (intake_guardrail E (post_message E session content l st))
         else safety_emergency (intake_guardrail E (post_message E session content l st)))"
  using assms unfolding agent_turn_five
  by (auto simp: eval_nat_numeral route_after_intake_def split: if_splits)

lemma turn_retrieval:
  assumes "route_after_intake (intake_guardrail E (post_message E session content l st)) = Router"
    and "ag_calls (agent_router E (intake_guardrail E (post_message E session content l st))) = []"
    and "agent_turn E session content l st w = (Ended t, w1)"
  shows "\<exists>ds. responder E (verifier ((agent_router E (intake_guardrail E (post_message E session content l st)))
      \<lparr>ag_docs := map summarize_doc ds, ag_confidence := Some (top_similarity ds)\<rparr>)) = Finished t \<and> w1 = w"
proof -
  let ?s1 = "agent_router E (intake_guardrail E (post_message E session content l st))"
  have step: "agent_turn E session content l st w = run_graph 3 E [] Retriever ?s1 w"
    using assms(1,2) unfolding agent_turn_five by (simp add: eval_nat_numeral route_after_router_def)
  show ?thesis
  proof (cases "retriever_node E ?s1")
    case (Finished s2)
    then have "run_graph 3 E [] Retriever ?s1 w =
        (case responder E (verifier s2) of Paused p \<Rightarrow> (Waiting (verifier s2) p, w) | Failed e \<Rightarrow> (Crashed (verifier s2) e, w)
         | Finished t \<Rightarrow> (Ended t, w))"
      by (simp add: eval_nat_numeral split: outcome.splits)
    with step assms(3) have "responder E (verifier s2) = Finished t" "w1 = w" by (auto split: outcome.splits)
    moreover from Finished obtain ds where "s2 = ?s1\<lparr>ag_docs := map summarize_doc ds, ag_confidence := Some (top_similarity ds)\<rparr>"
      by (auto simp: retriever_node_def split: sum.splits)
    ultimately show ?thesis by blast
  qed (use step assms(3) in \<open>simp_all add: eval_nat_numeral\<close>)
qed

text \<open>The answer to a state that holds tool results.\<close>

lemma responder_tools:
  assumes "ag_results s \<noteq> []" and "responder E (verifier (s\<lparr>ag_docs := d, ag_confidence := c\<rparr>)) = Finished u"
  shows "ag_messages u = ag_messages s @ [AiMsg (Generated (concat (map sc_delta (fst (ge_stream E (last_human s)
    (ge_render E (ag_locale s) (tool_results_context s) (format_history (history_payload E s) 5)))))))]"
proof -
  define v where "v = verifier (s\<lparr>ag_docs := d, ag_confidence := c\<rparr>)"
  have v: "ag_messages v = ag_messages s" "ag_results v = ag_results s" "ag_locale v = ag_locale s"
    by (simp_all add: v_def verifier_def)
  then have "last_human v = last_human s" "tool_results_context v = tool_results_context s" "history_payload E v = history_payload E s"
    by (simp_all add: last_human_def tool_results_context_def history_payload_def)
  with v assms show ?thesis
    unfolding v_def [symmetric] by (auto simp: responder_def Let_def split: prod.splits option.splits)
qed

text \<open>
  Once a tool was used in a thread, its results stay in the state, and every later turn that goes to
  the retriever is answered from them: the answer is the same whatever documents the retriever finds.
\<close>
lemma answer_ignores_retrieval:
  assumes "ag_results st \<noteq> []"
    and "ag_calls (agent_router E (intake_guardrail E (post_message E session content l st))) = []"
    and "agent_turn E session content l st w = (Ended t, w1)"
    and "agent_turn (E\<lparr>ge_retrieve := R\<rparr>) session content l st w = (Ended t', w2)"
  shows "ag_messages t' = ag_messages t \<and> w1 = w \<and> w2 = w"
proof -
  let ?F = "E\<lparr>ge_retrieve := R\<rparr>"
  let ?s0 = "intake_guardrail E (post_message E session content l st)"
  let ?s1 = "agent_router E ?s0"
  have same: "intake_guardrail ?F (post_message ?F session content l st) = ?s0" "agent_router ?F ?s0 = ?s1"
    by (simp_all add: intake_guardrail_def post_message_def agent_router_def Let_def)
  show ?thesis
  proof (cases "route_after_intake ?s0 = Router")
    case False
    with same have F: "route_after_intake (intake_guardrail ?F (post_message ?F session content l st)) \<noteq> Router" by simp
    from turn_short [OF False, of w] turn_short [OF F, of w] assms(3,4) same show ?thesis by auto
  next
    case True
    with same have F: "route_after_intake (intake_guardrail ?F (post_message ?F session content l st)) = Router"
      "ag_calls (agent_router ?F (intake_guardrail ?F (post_message ?F session content l st))) = []"
      using assms(2) by simp_all
    from turn_retrieval [OF True assms(2,3)] turn_retrieval [OF F assms(4)] same obtain ds ds' where
      t: "responder E (verifier (?s1\<lparr>ag_docs := map summarize_doc ds, ag_confidence := Some (top_similarity ds)\<rparr>)) = Finished t"
      "responder ?F (verifier (?s1\<lparr>ag_docs := map summarize_doc ds', ag_confidence := Some (top_similarity ds')\<rparr>)) = Finished t'"
      "w1 = w" "w2 = w" by metis
    have "ag_results ?s1 \<noteq> []"
      using assms(1) by (simp add: agent_router_def intake_guardrail_def post_message_def Let_def)
    moreover have "answer_text ?F = answer_text E" by (auto simp: answer_text_def fun_eq_iff split: rag_answer.split)
    then have "history_payload ?F = history_payload E" by (auto simp: history_payload_def fun_eq_iff split: agent_message.split)
    ultimately show ?thesis
      using responder_tools [OF _ t(1)] responder_tools [OF _ t(2)] t(3,4) by simp
  qed
qed

definition sample_doc :: retrieved_doc where
  "sample_doc = \<lparr>rd_id = 1, rd_title = ''Doi tra'', rd_content = ''Trong 7 ngay.'', rd_category = ''policy'', rd_similarity = 1, rd_source = None\<rparr>"

definition sample_next :: "retrieved_doc list \<Rightarrow> agent_state" where
  "sample_next ds = sample_thread\<lparr>ag_messages := [HumanMsg ''a'', AiMsg (Generated (tool_results_context sample_thread))],
     ag_session := ''s'', ag_turns := 1, ag_docs := map summarize_doc ds, ag_confidence := Some (top_similarity ds),
     ag_provider := Some ''gemini''\<rparr>"

text \<open>A message of a single letter a is no emergency.\<close>

definition other_letters :: string where
  "other_letters = ''gnclhef''"

lemma keeps_letters: "c \<in> set other_letters \<Longrightarrow> c \<in> set k \<Longrightarrow> c \<in> set (safety_normalize k)"
proof -
  assume c: "c \<in> set other_letters" "c \<in> set k"
  have "map safety_normalize (map (\<lambda>c. [c]) other_letters) = map (\<lambda>c. [c]) other_letters" by code_simp
  with c(1) have n: "safety_normalize [c] = [c]" by simp
  from c(2) obtain p s where "k = p @ [c] @ s" by (auto dest: split_list)
  with normalize_inside [of p "[c]" s] n show ?thesis by auto
qed

lemma sample_calm: "check_query id ''a'' = \<lparr>sr_emergency = False, sr_via = ByNothing, sr_matched = None\<rparr>"
proof -
  have n: "safety_normalize ''a'' = ''a''" by code_simp
  have f: "ascii_fold id ''a'' = ''a''" by code_simp
  have lower: "list_all (\<lambda>c. ascii_lower c = c) other_letters" by code_simp
  have listed: "list_all (list_ex (\<lambda>c. c \<in> set other_letters)) (emergency_keywords_vi @ emergency_keywords_en)" by code_simp
  have "check_keywords id ''a'' = None"
  proof (rule ccontr)
    assume "check_keywords id ''a'' \<noteq> None"
    then obtain k where k: "k \<in> set (emergency_keywords_vi @ emergency_keywords_en)"
      "contains (safety_normalize k) ''a'' \<or> contains (ascii_fold id (safety_normalize k)) ''a''"
      unfolding keyword_emergency n f by blast
    from k(1) listed have "\<exists>c \<in> set k. c \<in> set other_letters"
      unfolding list_all_iff list_ex_iff by (rule bspec [rotated])
    then obtain c where c: "c \<in> set other_letters" "c \<in> set k" by blast
    then have "c \<in> set (safety_normalize k)" by (rule keeps_letters)
    moreover from this c(1) lower have "c \<in> set (ascii_fold id (safety_normalize k))"
      by (force simp: ascii_fold_def py_lower_def list_all_iff)
    moreover have "set q \<subseteq> set ''a''" if "contains q ''a''" for q
      using that set_take_subset [of "length q" "''a''"] by auto
    ultimately have "c \<in> set ''a''" using k(2) by blast
    with c(1) show False by (simp add: other_letters_def)
  qed
  moreover have "check_patterns id ''a'' = None" by (simp add: check_patterns_def n f suspicious_patterns_def)
  ultimately show ?thesis by (simp add: check_query_def)
qed

lemma sample_routed: "ag_calls (agent_router (sample_agent None) (intake_guardrail (sample_agent None)
    (post_message (sample_agent None) ''s'' ''a'' Vi sample_thread))) = []"
proof -
  have "strip_accents id ''a'' = ''a''" by code_simp
  moreover have "\<not> has_any stock_keywords ''a''" "\<not> has_any safety_info_keywords ''a''" "\<not> has_any product_keywords ''a''"
    by code_simp+
  ultimately show ?thesis
    by (simp add: agent_router_def Let_def last_human_def intake_guardrail_def post_message_def sample_agent_def)
qed

lemma sample_agent_turn:
  "agent_turn ((sample_agent None)\<lparr>ge_retrieve := \<lambda>q k. Inr ds\<rparr>) ''s'' ''a'' Vi sample_thread sample_admin_state
   = (Ended (sample_next ds), sample_admin_state)"
proof -
  have "strip_accents id ''a'' = ''a''" by code_simp
  moreover have "\<not> has_any stock_keywords ''a''" "\<not> has_any safety_info_keywords ''a''" "\<not> has_any product_keywords ''a''"
    by code_simp+
  ultimately show ?thesis
    unfolding agent_turn_five
    by (simp add: eval_nat_numeral intake_guardrail_def agent_router_def Let_def last_human_def post_message_def sample_agent_def
        route_after_intake_def route_after_router_def sample_calm max_agent_turns_def retriever_node_def verifier_def responder_def
        sample_thread_def fresh_thread_def sample_next_def tool_results_context_def last_given_def)
qed

lemma answer_ignores_retrieval_witness:
  "ag_docs (sample_next [sample_doc]) \<noteq> ag_docs (sample_next []) \<and>
   ag_messages (sample_next [sample_doc]) = ag_messages (sample_next []) \<and>
   agent_turn ((sample_agent None)\<lparr>ge_retrieve := \<lambda>q k. Inr [sample_doc]\<rparr>) ''s'' ''a'' Vi sample_thread sample_admin_state
     = (Ended (sample_next [sample_doc]), sample_admin_state)"
proof -
  have same: "(sample_agent None)\<lparr>ge_retrieve := \<lambda>q k. Inr []\<rparr> = sample_agent None" by (simp add: sample_agent_def)
  have results: "ag_results sample_thread \<noteq> []" by (simp add: sample_thread_def)
  from answer_ignores_retrieval [OF results sample_routed sample_agent_turn [of "[]", unfolded same] sample_agent_turn]
  show ?thesis using sample_agent_turn by (simp add: sample_next_def sample_thread_def fresh_thread_def)
qed

section \<open>Authorization\<close>

lemma store_pending_world [simp]:
  "ac_db (store_pending E token user n args b w) = ac_db w" "ac_audit (store_pending E token user n args b w) = ac_audit w"
  by (simp_all add: store_pending_def)

lemma claim_pending_world: "claim_pending E token w = (r, w') \<Longrightarrow> ac_db w' = ac_db w \<and> ac_audit w' = ac_audit w"
  by (auto simp: claim_pending_def)

lemma gate_world:
  "run_confirm_gate E session rs u c w = (d, rest, w') \<Longrightarrow> ac_db w' = ac_db w \<and> ac_audit w' = ac_audit w \<and> set rest \<subseteq> set rs"
  by (auto simp: run_confirm_gate_def Let_def split: list.splits if_splits prod.splits sum.splits option.splits dest!: claim_pending_world)

lemma authorize_world:
  "authorize E session rs c w = (d, rest, w') \<Longrightarrow> ac_db w' = ac_db w \<and> ac_audit w' = ac_audit w \<and> set rest \<subseteq> set rs"
  by (auto simp: authorize_def Let_def split: option.splits if_splits dest!: gate_world)

text \<open>The user has approved this very call.\<close>

definition approved_call :: "'r agent_env \<Rightarrow> string \<Rightarrow> json list \<Rightarrow> tool_call \<Rightarrow> bool" where
  "approved_call E session rs c \<longleftrightarrow>
     (case ge_user E of None \<Rightarrow> False
      | Some u \<Rightarrow> ge_gate E \<and>
          (\<exists>v \<in> set rs. approves v \<and>
             names_token (derive_pending_token (ge_hash E) session (uuid_text (u_id u)) (tc_name c) (tc_args c)) v))"

lemma gate_run:
  "run_confirm_gate E session rs u c w = (Run b, rest, w') \<Longrightarrow>
   \<exists>v \<in> set rs. approves v \<and> names_token (derive_pending_token (ge_hash E) session (uuid_text (u_id u)) (tc_name c) (tc_args c)) v"
  by (auto simp: run_confirm_gate_def Let_def split: list.splits if_splits prod.splits sum.splits option.splits)

lemma authorize_run:
  assumes "authorize E session rs c w = (Run b, rest, w')" and "tp_confirm (get_tool_policy (tc_name c))"
  shows "approved_call E session rs c"
  using assms
  by (auto simp: authorize_def Let_def approved_call_def split: option.splits if_splits dest!: gate_run)

lemma approved_more: "approved_call E session rest c \<Longrightarrow> set rest \<subseteq> set rs \<Longrightarrow> approved_call E session rs c"
  by (auto simp: approved_call_def split: option.splits)

lemma run_calls_approved:
  assumes "run_calls E session rs acc cs w = (out, w')" and "\<forall>c \<in> set cs. tp_confirm (get_tool_policy (tc_name c))"
    and "ac_db w' \<noteq> ac_db w \<or> ac_audit w' \<noteq> ac_audit w"
  shows "\<exists>c \<in> set cs. approved_call E session rs c"
  using assms
proof (induction cs arbitrary: rs acc w)
  case (Cons c cs)
  show ?case
  proof (cases "ge_tools E (tc_name c)")
    case None
    with Cons.prems have "\<exists>c \<in> set cs. approved_call E session rs c" by (intro Cons.IH) (auto simp: Let_def)
    then show ?thesis by simp
  next
    case (Some tool)
    obtain d rest w1 where a: "authorize E session rs c w = (d, rest, w1)" by (metis prod_cases3)
    note keep = authorize_world [OF a]
    show ?thesis
    proof (cases d)
      case (Run b)
      with a Cons.prems(2) have "approved_call E session rs c" by (auto dest: authorize_run)
      then show ?thesis by simp
    next
      case (Refuse r)
      with Some a Cons.prems(1) have "run_calls E session rest (acc @ [\<lparr>tr_name = tc_name c, tr_ok = False, tr_result = r\<rparr>]) cs w1 = (out, w')"
        by (simp add: Let_def)
      from Cons.IH [OF this] Cons.prems(2,3) keep have "\<exists>c \<in> set cs. approved_call E session rest c" by simp
      with keep show ?thesis by (auto intro: approved_more)
    qed (use Some a keep Cons.prems in \<open>auto simp: Let_def\<close>)
  qed
qed simp

text \<open>
  C35. Tools behind the confirmation gate, every tool without an entry in the registry among them, change
  nothing until a signed-in user has approved the call: when the queued calls all need confirmation
  and the shop's data or the audit log change, one of them was approved with the token derived for this
  session, user, tool and arguments.
\<close>
theorem write_tools_need_approval:
  assumes "run_node E rs ToolExecutor st w = (out, w')"
    and "\<forall>c \<in> set (ag_calls st). map_of tool_registry (tc_name c) = None \<or> tp_confirm (get_tool_policy (tc_name c))"
    and "ac_db w' \<noteq> ac_db w \<or> ac_audit w' \<noteq> ac_audit w"
  shows "\<exists>c u v. c \<in> set (ag_calls st) \<and> ge_user E = Some u \<and> ge_gate E \<and> v \<in> set rs \<and> approves v \<and>
    names_token (derive_pending_token (ge_hash E) (ag_session st) (uuid_text (u_id u)) (tc_name c) (tc_args c)) v"
proof -
  have "\<forall>c \<in> set (ag_calls st). tp_confirm (get_tool_policy (tc_name c))"
    using assms(2) by (auto simp: get_tool_policy_def write_auth_confirm_def)
  moreover obtain o' where "run_calls E (ag_session st) rs [] (ag_calls st) w = (o', w')"
    using assms(1) by (auto split: prod.splits outcome.splits)
  ultimately obtain c where "c \<in> set (ag_calls st)" "approved_call E (ag_session st) rs c"
    using run_calls_approved assms(3) by blast
  then show ?thesis by (auto simp: approved_call_def split: option.splits)
qed

lemma gate_accepts:
  assumes "redis_store (ge_redis E)" and "ge_user E = Some u" and "ge_gate E" and "json_plain (JObj (tc_args c))"
    and "tp_confirm (get_tool_policy (tc_name c))" and "approves v"
    and "names_token (derive_pending_token (ge_hash E) session (uuid_text (u_id u)) (tc_name c) (tc_args c)) v"
  shows "\<exists>w'. ac_db w' = ac_db w \<and> ac_audit w' = ac_audit w \<and> authorize E session (v # rest) c w = (Run (Some []), rest, w') \<and>
    rd_get (ge_redis E) (ge_now E) (gate_key (derive_pending_token (ge_hash E) session (uuid_text (u_id u)) (tc_name c) (tc_args c))) (ac_redis w') = None"
proof -
  let ?token = "derive_pending_token (ge_hash E) session (uuid_text (u_id u)) (tc_name c) (tc_args c)"
  let ?payload = "gate_payload (uuid_text (u_id u)) (tc_name c) (tc_args c) []"
  let ?w1 = "store_pending E ?token (uuid_text (u_id u)) (tc_name c) (tc_args c) [] w"
  have "json_plain (JObj ?payload)" using assms(4) by (simp add: gate_payload_def)
  then have loads: "loads (dumps (JObj ?payload)) = Some (JObj ?payload)" by (rule loads_dumps)
  have "rd_get (ge_redis E) (ge_now E) (gate_key ?token) (ac_redis ?w1) = Some (dumps (JObj ?payload))"
    using redis_store.get_setex [OF assms(1), of 300 "ge_now E" "ge_now E"] by (simp add: store_pending_def secs_def)
  then have claim: "claim_pending E ?token ?w1 = (Inr (Some ?payload), ?w1\<lparr>ac_redis := rd_delete (ge_redis E) (gate_key ?token) (ac_redis ?w1)\<rparr>)"
    by (simp only: claim_pending_def loads option.case json.case)
  have fields: "jget ''user_id'' ?payload = JStr (uuid_text (u_id u))" "jget ''tool_name'' ?payload = JStr (tc_name c)"
    "jget ''args'' ?payload = JObj (tc_args c)" "jget ''before_snapshot'' ?payload = JObj []"
    by (simp_all add: gate_payload_def jget_def)
  have "authorize E session (v # rest) c w = (Run (Some []), rest, ?w1\<lparr>ac_redis := rd_delete (ge_redis E) (gate_key ?token) (ac_redis ?w1)\<rparr>)"
    using assms(2,3,5,6,7) by (simp add: authorize_def run_confirm_gate_def Let_def claim fields)
  then show ?thesis using redis_store.get_delete [OF assms(1)]
    by (intro exI [where x = "?w1\<lparr>ac_redis := rd_delete (ge_redis E) (gate_key ?token) (ac_redis ?w1)\<rparr>"]) simp
qed

text \<open>
  An approval does not expire: because a resumed turn stores the pending record again before it
  claims it, an approval that names the token is accepted at any time, whatever Redis still holds, and
  as often as it is presented.
\<close>
lemma approval_never_expires:
  assumes "redis_store (ge_redis E)" and "ge_user E = Some u" and "ge_gate E" and "json_plain (JObj (tc_args c))"
    and "tp_confirm (get_tool_policy (tc_name c))" and "approves v"
    and "names_token (derive_pending_token (ge_hash E) session (uuid_text (u_id u)) (tc_name c) (tc_args c)) v"
  shows "\<exists>w'. authorize E session (v # rest) c w = (Run (Some []), rest, w') \<and>
    rd_get (ge_redis E) (ge_now E) (gate_key (derive_pending_token (ge_hash E) session (uuid_text (u_id u)) (tc_name c) (tc_args c))) (ac_redis w') = None"
  using gate_accepts [OF assms] by blast

definition sample_write_call :: tool_call where
  "sample_write_call = \<lparr>tc_name = ''_mock_create_order_example'', tc_args = [(''quantity'', JInt 1)]\<rparr>"

definition sample_signed :: "ttl_store agent_env" where
  "sample_signed = sample_agent (Some (sample_user 7 Customer))"

definition sample_write_token :: string where
  "sample_write_token = derive_pending_token id ''s'' (uuid_text 7) (tc_name sample_write_call) (tc_args sample_write_call)"

definition sample_approval :: json where
  "sample_approval = JObj [(''approved'', JBool True), (''pending_token'', JStr sample_write_token)]"

definition sample_queued :: agent_state where
  "sample_queued = fresh_thread\<lparr>ag_session := ''s'', ag_calls := [sample_write_call]\<rparr>"

lemma sample_signed_fields [simp]:
  "ge_redis sample_signed = ttl_redis" "ge_user sample_signed = Some (sample_user 7 Customer)" "ge_gate sample_signed"
  "ge_hash sample_signed = id" "ge_audit sample_signed" "u_id (sample_user 7 Customer) = 7"
  "ge_tools sample_signed (tc_name sample_write_call) = Some (\<lambda>args w. (Inr [(''ok'', JBool True)], w))"
  by (simp_all add: sample_signed_def sample_agent_def sample_write_call_def sample_user_def)

lemma sample_approved:
  "json_plain (JObj (tc_args sample_write_call))" "tp_confirm (get_tool_policy (tc_name sample_write_call))" "approves sample_approval"
  "names_token sample_write_token sample_approval"
  by (simp_all add: sample_write_call_def get_tool_policy_def tool_registry_def read_public_def write_auth_confirm_def sample_approval_def
      approves_def names_token_def jget_def)

lemma approval_never_expires_witness:
  "\<exists>w. fst (authorize sample_signed ''s'' [sample_approval] sample_write_call sample_admin_state) = Run (Some []) \<and>
     authorize sample_signed ''s'' [sample_approval] sample_write_call sample_admin_state = (Run (Some []), [], w) \<and>
     fst (authorize sample_signed ''s'' [sample_approval] sample_write_call w) = Run (Some [])"
proof -
  note run = approval_never_expires [of sample_signed "sample_user 7 Customer" sample_write_call sample_approval "''s''" "[]"]
  obtain w where w: "authorize sample_signed ''s'' [sample_approval] sample_write_call sample_admin_state = (Run (Some []), [], w)"
    using run [of sample_admin_state] ttl.redis_store_axioms sample_approved by (auto simp: sample_write_token_def)
  moreover have "fst (authorize sample_signed ''s'' [sample_approval] sample_write_call w) = Run (Some [])"
    using run [of w] ttl.redis_store_axioms sample_approved by (auto simp: sample_write_token_def)
  ultimately show ?thesis by auto
qed

lemma write_tools_need_approval_witness:
  "\<exists>w. snd (run_node sample_signed [sample_approval] ToolExecutor sample_queued sample_admin_state) = w \<and> length (ac_audit w) = 1 \<and>
     (\<exists>v. v \<in> set [sample_approval] \<and> approves v \<and> names_token sample_write_token v)"
proof -
  obtain w1 where w1: "ac_audit w1 = []"
    "authorize sample_signed ''s'' [sample_approval] sample_write_call sample_admin_state = (Run (Some []), [], w1)"
    using gate_accepts [of sample_signed "sample_user 7 Customer" sample_write_call sample_approval "''s''" sample_admin_state "[]"]
      ttl.redis_store_axioms sample_approved by (auto simp: sample_write_token_def sample_admin_state_def)
  then obtain out w where run: "run_node sample_signed [sample_approval] ToolExecutor sample_queued sample_admin_state = (out, w)"
    and audit: "length (ac_audit w) = 1"
    by (simp add: sample_queued_def invoke_tool_def result_ok_def jget_def)
  have "ac_audit w \<noteq> ac_audit sample_admin_state" using audit by (auto simp: sample_admin_state_def)
  moreover have "ag_calls sample_queued = [sample_write_call]" "ag_session sample_queued = ''s''" by (simp_all add: sample_queued_def)
  ultimately show ?thesis
    using write_tools_need_approval [OF run] audit run sample_approved(2) by (auto simp: sample_write_token_def)
qed

section \<open>The production tools read\<close>

definition keeps_shop :: "'r tool \<Rightarrow> bool" where
  "keeps_shop tool \<longleftrightarrow> (\<forall>args w. ac_db (snd (tool args w)) = ac_db w \<and> ac_audit (snd (tool args w)) = ac_audit w)"

lemma on_products_keeps:
  assumes "\<And>d. keeps (\<lambda>s. s = d) m"
  shows "ac_db (snd (on_products m w)) = ac_db w \<and> ac_audit (snd (on_products m w)) = ac_audit w"
proof -
  obtain r d where "m (ac_db w) = (r, d)" by force
  with assms [of "ac_db w"] have "d = ac_db w" by (auto dest: keepsD)
  with \<open>m (ac_db w) = (r, d)\<close> show ?thesis by (simp add: on_products_def)
qed

lemma keeps_answering: "keeps P m \<Longrightarrow> keeps P (answering h m)"
  unfolding keeps_def answering_def
  by (auto split: prod.splits sum.splits option.splits)

lemma production_tools_keep: "build_tools err g lookup recommend n = Some tool \<Longrightarrow> keeps_shop tool"
proof -
  have "keeps_shop (search_products_tool err g)"
    unfolding keeps_shop_def search_products_tool_def
    by (intro allI on_products_keeps keeps_intros keeps_answering keeps_search_products) (auto simp: make_params_def intro!: keeps_intros)
  moreover have "keeps_shop check_inventory_tool"
    unfolding keeps_shop_def check_inventory_tool_def
    by (intro allI on_products_keeps keeps_intros)
      (auto simp: get_product_def intro!: keeps_intros keeps_answering keeps_product_response split: sum.splits)
  ultimately show "build_tools err g lookup recommend n = Some tool \<Longrightarrow> keeps_shop tool"
    by (auto simp: build_tools_def keeps_shop_def split: if_splits)
qed

text \<open>Calls that need no confirmation, of tools that read, leave the shop alone.\<close>

lemma authorize_unconfirmed:
  "authorize E session rs c w = (d, rest, w') \<Longrightarrow> \<not> tp_confirm (get_tool_policy (tc_name c)) \<Longrightarrow>
   w' = w \<and> (d = Run None \<or> (\<exists>r. d = Refuse r))"
  by (auto simp: authorize_def Let_def split: option.splits if_splits)

lemma invoke_tool_keeps: "keeps_shop tool \<Longrightarrow> invoke_tool E tool c w = (r, w') \<Longrightarrow> ac_db w' = ac_db w \<and> ac_audit w' = ac_audit w"
  unfolding invoke_tool_def keeps_shop_def
  by (auto split: prod.splits sum.splits) (metis snd_conv)+

lemma run_calls_keep:
  assumes "run_calls E session rs acc cs w = (out, w')"
    and "\<And>n tool. ge_tools E n = Some tool \<Longrightarrow> keeps_shop tool \<and> \<not> tp_confirm (get_tool_policy n)"
  shows "ac_db w' = ac_db w \<and> ac_audit w' = ac_audit w"
  using assms(1)
proof (induction cs arbitrary: rs acc w)
  case (Cons c cs)
  show ?case
  proof (cases "ge_tools E (tc_name c)")
    case None
    with Cons show ?thesis by (simp add: Let_def)
  next
    case (Some tool)
    obtain d rest w1 where a: "authorize E session rs c w = (d, rest, w1)" by (metis prod_cases3)
    obtain r w2 where i: "invoke_tool E tool c w1 = (r, w2)" by force
    note tool = assms(2) [OF Some]
    from authorize_unconfirmed [OF a] tool have "w1 = w" "d = Run None \<or> (\<exists>r. d = Refuse r)" by auto
    with invoke_tool_keeps [OF _ i] tool Some a i Cons show ?thesis by (auto simp: Let_def)
  qed
qed simp

lemma run_graph_keep:
  assumes "\<And>n tool. ge_tools E n = Some tool \<Longrightarrow> keeps_shop tool \<and> \<not> tp_confirm (get_tool_policy n)"
  shows "ac_db (snd (run_graph k E rs n st w)) = ac_db w \<and> ac_audit (snd (run_graph k E rs n st w)) = ac_audit w"
proof (induction k arbitrary: n st w)
  case (Suc k)
  obtain out w1 where r: "run_node E rs n st w = (out, w1)" by force
  then have "ac_db w1 = ac_db w \<and> ac_audit w1 = ac_audit w"
    by (cases n) (auto split: prod.splits outcome.splits dest: run_calls_keep [OF _ assms])
  then show ?case using r Suc by (auto split: outcome.splits option.splits)
qed simp

text \<open>
  With the tools the application registers, the agent only reads: whatever is posted and however a
  paused turn is resumed, the shop's data and the audit log stay as they are.
\<close>
lemma production_agent_reads_only:
  assumes "ge_tools E = build_tools err g lookup recommend"
  shows "ac_db (snd (agent_turn E session content l st w)) = ac_db w \<and> ac_audit (snd (agent_turn E session content l st w)) = ac_audit w \<and>
    ac_db (snd (resume_turn E rs st w)) = ac_db w \<and> ac_audit (snd (resume_turn E rs st w)) = ac_audit w"
proof -
  have "keeps_shop tool \<and> \<not> tp_confirm (get_tool_policy n)" if "ge_tools E n = Some tool" for n tool
    using that production_tools_keep [of err g lookup recommend n tool] unfolding assms
    by (auto simp: build_tools_def get_tool_policy_def tool_registry_def read_public_def split: if_splits)
  from run_graph_keep [OF this] show ?thesis by (simp add: agent_turn_def resume_turn_def)
qed

lemma production_agent_reads_only_witness:
  "ac_db (snd (agent_turn ((sample_agent None)\<lparr>ge_tools := build_tools (\<lambda>e. []) sample_pg (\<lambda>d a. Inr []) (\<lambda>d a. Inr [])\<rparr>)
     ''s'' ''gia gas'' Vi fresh_thread sample_admin_state)) = sample_db"
proof -
  have "ac_db sample_admin_state = sample_db" by (simp add: sample_admin_state_def)
  then show ?thesis
    using production_agent_reads_only [of "(sample_agent None)\<lparr>ge_tools := build_tools (\<lambda>e. []) sample_pg (\<lambda>d a. Inr []) (\<lambda>d a. Inr [])\<rparr>"
        "\<lambda>e. []" sample_pg "\<lambda>d a. Inr []" "\<lambda>d a. Inr []" "''s''" "''gia gas''" Vi fresh_thread sample_admin_state]
    by simp
qed

end
