(* ===== verification/KnowledgeFile.thy ===== *)
theory KnowledgeFile
  imports Rag
begin

text \<open>
  Reading an uploaded knowledge-base file (\<^verbatim>\<open>_parse_import\<close> and \<^verbatim>\<open>parse_front_matter\<close> of
  \<^verbatim>\<open>services/knowledge_base_service.py\<close>): JSON, CSV with the excel dialect of the standard library, and
  text with front matter. The field size limit of the CSV reader is left out.
\<close>

section \<open>Lines and separators\<close>

text \<open>The text before and after the first occurrence of a separator.\<close>

fun split_once :: "string \<Rightarrow> string \<Rightarrow> (string \<times> string) option" where
  "split_once sep [] = None"
| "split_once sep (c # s) =
     (if take (length sep) (c # s) = sep then Some ([], drop (length sep) (c # s))
      else map_option (\<lambda>(a, b). (c # a, b)) (split_once sep s))"

text \<open>\<^verbatim>\<open>str.splitlines\<close>\<close>

definition line_end :: "char \<Rightarrow> bool" where
  "line_end c \<longleftrightarrow> code_point c \<in> {10, 11, 12, 13, 28, 29, 30, 133}"

fun splitlines_from :: "string \<Rightarrow> string \<Rightarrow> string list" where
  "splitlines_from cur [] = (if cur = [] then [] else [rev cur])"
| "splitlines_from cur (c # s) =
     (if c = CHR 0x0D \<and> s \<noteq> [] \<and> hd s = CHR 0x0A then splitlines_from (c # cur) s
      else if line_end c then rev (if cur \<noteq> [] \<and> c = CHR 0x0A \<and> hd cur = CHR 0x0D then tl cur else cur) # splitlines_from [] s
      else splitlines_from (c # cur) s)"

definition splitlines :: "string \<Rightarrow> string list" where
  "splitlines s = splitlines_from [] s"

text \<open>\<^verbatim>\<open>filename.rsplit(".", 1)\<close>: the pieces around the last dot, the whole name twice without one.\<close>

definition name_stem :: "string \<Rightarrow> string" where
  "name_stem f = (case split_once ''.'' (rev f) of None \<Rightarrow> f | Some (a, b) \<Rightarrow> rev b)"

definition name_suffix :: "string \<Rightarrow> string" where
  "name_suffix f = (case split_once ''.'' (rev f) of None \<Rightarrow> f | Some (a, b) \<Rightarrow> rev a)"

section \<open>Front matter\<close>

definition front_line :: "(string \<times> string) list \<Rightarrow> string \<Rightarrow> (string \<times> string) list" where
  "front_line d l = (case split_once '':'' l of None \<Rightarrow> d | Some (k, v) \<Rightarrow> AList.update (py_strip k) (py_strip v) d)"

definition parse_front_matter :: "string \<Rightarrow> (string \<times> string) list \<times> string" where
  "parse_front_matter content =
     (if take 3 content \<noteq> ''---'' then ([], py_strip content)
      else case split_once ''---'' (drop 3 content) of
        None \<Rightarrow> ([], py_strip content)
      | Some (head, body) \<Rightarrow> (foldl front_line [] (splitlines (py_strip head)), py_strip body))"

section \<open>CSV\<close>

datatype csv_mode = StartRecord | StartField | InField | InQuoted | QuoteInQuoted | EatNewline

text \<open>The reader: its state, the field and the record being read, the records read.\<close>

record csv_reader =
  cv_mode :: csv_mode
  cv_field :: string
  cv_fields :: "string list"
  cv_rows :: "string list list"

definition csv_save :: "csv_reader \<Rightarrow> csv_reader" where
  "csv_save r = r\<lparr>cv_fields := cv_fields r @ [cv_field r], cv_field := []\<rparr>"

definition csv_put :: "char \<Rightarrow> csv_reader \<Rightarrow> csv_reader" where
  "csv_put c r = r\<lparr>cv_field := cv_field r @ [c]\<rparr>"

definition csv_emit :: "csv_reader \<Rightarrow> csv_reader" where
  "csv_emit r = r\<lparr>cv_mode := StartRecord, cv_rows := cv_rows r @ [cv_fields r], cv_fields := []\<rparr>"

definition csv_newline :: "char \<Rightarrow> bool" where
  "csv_newline c \<longleftrightarrow> c = CHR 0x0A \<or> c = CHR 0x0D"

definition csv_start :: "char \<Rightarrow> csv_reader \<Rightarrow> csv_reader" where
  "csv_start c r =
     (if csv_newline c then (csv_save r)\<lparr>cv_mode := EatNewline\<rparr>
      else if c = CHR 0x22 then r\<lparr>cv_mode := InQuoted\<rparr>
      else if c = CHR '','' then (csv_save r)\<lparr>cv_mode := StartField\<rparr>
      else (csv_put c r)\<lparr>cv_mode := InField\<rparr>)"

fun csv_char :: "csv_mode \<Rightarrow> char \<Rightarrow> csv_reader \<Rightarrow> exn + csv_reader" where
  "csv_char StartRecord c r = Inr (if csv_newline c then r\<lparr>cv_mode := EatNewline\<rparr> else csv_start c r)"
| "csv_char StartField c r = Inr (csv_start c r)"
| "csv_char InField c r = Inr
     (if csv_newline c then (csv_save r)\<lparr>cv_mode := EatNewline\<rparr>
      else if c = CHR '','' then (csv_save r)\<lparr>cv_mode := StartField\<rparr>
      else csv_put c r)"
| "csv_char InQuoted c r = Inr (if c = CHR 0x22 then r\<lparr>cv_mode := QuoteInQuoted\<rparr> else csv_put c r)"
| "csv_char QuoteInQuoted c r = Inr
     (if c = CHR 0x22 then (csv_put c r)\<lparr>cv_mode := InQuoted\<rparr>
      else if c = CHR '','' then (csv_save r)\<lparr>cv_mode := StartField\<rparr>
      else if csv_newline c then (csv_save r)\<lparr>cv_mode := EatNewline\<rparr>
      else (csv_put c r)\<lparr>cv_mode := InField\<rparr>)"
| "csv_char EatNewline c r = (if csv_newline c then Inr r else Inl (PyError ''Error''))"

text \<open>The end of a line of the file.\<close>

definition csv_line_end :: "csv_reader \<Rightarrow> csv_reader" where
  "csv_line_end r =
     (case cv_mode r of
        InQuoted \<Rightarrow> r
      | EatNewline \<Rightarrow> csv_emit r
      | StartRecord \<Rightarrow> csv_emit r
      | _ \<Rightarrow> csv_emit (csv_save r))"

text \<open>
  The lines of \<^verbatim>\<open>StringIO\<close> end at a line feed, which belongs to the line; the end of the text inside a
  quoted field closes the record.
\<close>

fun csv_read :: "string \<Rightarrow> csv_reader \<Rightarrow> exn + csv_reader" where
  "csv_read [] r = Inr (if cv_mode r = InQuoted then csv_emit (csv_save r) else r)"
| "csv_read (c # s) r =
     (case csv_char (cv_mode r) c r of
        Inl e \<Rightarrow> Inl e
      | Inr r' \<Rightarrow> csv_read s (if c = CHR 0x0A \<or> s = [] then csv_line_end r' else r'))"

definition csv_rows :: "string \<Rightarrow> exn + string list list" where
  "csv_rows raw = map_sum id cv_rows (csv_read raw \<lparr>cv_mode = StartRecord, cv_field = [], cv_fields = [], cv_rows = []\<rparr>)"

text \<open>
  \<^verbatim>\<open>DictReader\<close>: the first record names the fields, empty records are skipped, missing fields are
  \<^verbatim>\<open>None\<close>; surplus fields go to the key \<^verbatim>\<open>None\<close>, which no reader asks for.
\<close>

definition dict_row :: "string list \<Rightarrow> string list \<Rightarrow> (string \<times> json) list" where
  "dict_row names row =
     foldl (\<lambda>d (k, v). AList.update k v d) []
       (zip names (map JStr row) @ map (\<lambda>k. (k, JNull)) (drop (length row) names))"

definition dict_rows :: "string \<Rightarrow> exn + (string \<times> json) list list" where
  "dict_rows raw =
     map_sum id (\<lambda>rows. case rows of [] \<Rightarrow> [] | names # rest \<Rightarrow> map (dict_row names) (filter (\<lambda>r. r \<noteq> []) rest)) (csv_rows raw)"

end
