(* ===== verification/Knowledge.thy ===== *)
theory Knowledge
  imports KnowledgeFile Auth
begin

text \<open>
  The knowledge base (\<^verbatim>\<open>services/knowledge_base_service.py\<close>, \<^verbatim>\<open>repositories/knowledge_base_repository.py\<close>,
  \<^verbatim>\<open>schemas/knowledge_base.py\<close>, \<^verbatim>\<open>api/v1/endpoints/knowledge_base.py\<close> and the \<^verbatim>\<open>match_documents\<close> functions
  of the migrations): documents with one vector column per embedding provider, the cache of query
  vectors, vector, keyword and hybrid search, and the import of files. The embedding services, BM25, the
  distance of two vectors and the float operations are parameters; so are the JSON text of a cached vector
  and the order in which a set is iterated.
\<close>

section \<open>State\<close>

record 'v kb_doc =
  kd_id :: uuid
  kd_title :: string
  kd_content :: string
  kd_category :: string
  kd_source :: "string option"
  kd_gemini :: "'v option"
  kd_jina :: "'v option"
  kd_ollama :: "'v option"
  kd_bge :: "'v option"
  kd_metadata :: json
  kd_active :: bool
  kd_created :: time

record ('v, 'r) kb_state =
  kb_docs :: "'v kb_doc list"
  kb_cache :: 'r

record 'v vectors =
  ve_gemini :: "'v option"
  ve_jina :: "'v option"
  ve_ollama :: "'v option"
  ve_bge :: "'v option"

definition no_vectors :: "'v vectors" where
  "no_vectors = \<lparr>ve_gemini = None, ve_jina = None, ve_ollama = None, ve_bge = None\<rparr>"

datatype embedding_provider = Gemini | Ollama | Bge

text \<open>
  \<open>ke_fits\<close> says whether a vector has the dimension of a column, named by its match function; \<open>ke_ids\<close> are
  the ids of the rows a request creates; \<open>ke_redis\<close> is missing in a service built without a cache.
\<close>

record ('v, 'r) kb_env =
  ke_now :: time
  ke_ids :: "nat \<Rightarrow> uuid"
  ke_text :: text_env
  ke_provider :: embedding_provider
  ke_dims :: nat
  ke_ttl :: int
  ke_redis :: "'r redis option"
  ke_hash :: "string \<Rightarrow> string"
  ke_entry :: "'v \<Rightarrow> string \<Rightarrow> string"
  ke_read :: "string \<Rightarrow> ('v \<times> string) option"
  ke_gemini :: "string \<Rightarrow> llm_error + 'v"
  ke_gemini_batch :: "string list \<Rightarrow> llm_error + 'v list"
  ke_jina :: "string \<Rightarrow> string \<Rightarrow> llm_error + 'v"
  ke_jina_batch :: "string \<Rightarrow> string list \<Rightarrow> llm_error + 'v list"
  ke_ollama :: "string \<Rightarrow> llm_error + 'v"
  ke_ollama_batch :: "string list \<Rightarrow> llm_error + 'v list"
  ke_bge :: "string \<Rightarrow> llm_error + 'v"
  ke_bge_batch :: "string list \<Rightarrow> llm_error + 'v list"
  ke_fits :: "string \<Rightarrow> 'v \<Rightarrow> bool"
  ke_distance :: "'v \<Rightarrow> 'v \<Rightarrow> rat"
  ke_bm25 :: "string list list \<Rightarrow> string list \<Rightarrow> rat list"
  ke_ratio :: "rat \<Rightarrow> rat \<Rightarrow> rat"
  ke_blend :: "rat \<Rightarrow> rat \<Rightarrow> rat"
  ke_set_order :: "uuid list \<Rightarrow> uuid list"
  ke_threshold_ollama :: rat
  ke_threshold_bge :: rat

type_synonym ('v, 'r, 'a) kbop = "(('v, 'r) kb_state, 'a) op"

section \<open>Payloads\<close>

definition kb_categories :: "string list" where
  "kb_categories = [''safety'', ''product_info'', ''delivery'', ''pricing'', ''company'', ''faq'', ''technical'']"

record kb_create =
  kc_title :: string
  kc_content :: string
  kc_category :: string
  kc_source :: "string option"
  kc_metadata :: "(string \<times> json) list"

definition schema_error :: exn where
  "schema_error = PyError ''ValidationError''"

definition kb_fields_ok :: "string \<Rightarrow> string \<Rightarrow> string \<Rightarrow> string option \<Rightarrow> bool" where
  "kb_fields_ok title content category source \<longleftrightarrow>
     1 \<le> length title \<and> length title \<le> 255 \<and> 1 \<le> length content \<and> category \<in> set kb_categories \<and>
     (case source of None \<Rightarrow> True | Some t \<Rightarrow> length t \<le> 255)"

definition parse_kb_create :: "kb_create \<Rightarrow> exn + kb_create" where
  "parse_kb_create c =
     (if kb_fields_ok (kc_title c) (kc_content c) (kc_category c) (kc_source c) then Inr c else Inl request_error)"

record kb_update =
  ku_title :: "string patch"
  ku_content :: "string patch"
  ku_category :: "string patch"
  ku_source :: "string patch"
  ku_metadata :: "(string \<times> json) list patch"
  ku_active :: "bool patch"

definition parse_kb_update :: "kb_update \<Rightarrow> exn + kb_update" where
  "parse_kb_update u =
     (if patch_all (\<lambda>t. 1 \<le> length t \<and> length t \<le> 255) (ku_title u) \<and> patch_all (\<lambda>t. 1 \<le> length t) (ku_content u) \<and>
         patch_all (\<lambda>c. c \<in> set kb_categories) (ku_category u) \<and> patch_all (\<lambda>t. length t \<le> 255) (ku_source u)
      then Inr u else Inl request_error)"

text \<open>
  The values of a row as they reach the table: an imported record may hold any JSON value. \<^verbatim>\<open>metadata or {}\<close>
  replaces every false value.
\<close>

record kb_row =
  kr_title :: json
  kr_content :: json
  kr_category :: json
  kr_source :: json
  kr_metadata :: json

definition normalize_value :: "text_env \<Rightarrow> json \<Rightarrow> json" where
  "normalize_value T v = (if v = JNull then JNull else JStr (text_normalize T (py_str v)))"

definition or_empty :: "json \<Rightarrow> json" where
  "or_empty v = (if json_true v then v else JObj [])"

definition normalize_payload :: "text_env \<Rightarrow> kb_row \<Rightarrow> kb_row" where
  "normalize_payload T r =
     r\<lparr>kr_title := normalize_value T (kr_title r), kr_content := normalize_value T (kr_content r), kr_metadata := or_empty (kr_metadata r)\<rparr>"

definition create_row :: "kb_create \<Rightarrow> kb_row" where
  "create_row c = \<lparr>kr_title = JStr (kc_title c), kr_content = JStr (kc_content c), kr_category = JStr (kc_category c),
     kr_source = (case kc_source c of None \<Rightarrow> JNull | Some t \<Rightarrow> JStr t), kr_metadata = JObj (kc_metadata c)\<rparr>"

definition import_row :: "string option \<Rightarrow> (string \<times> json) list \<Rightarrow> kb_row" where
  "import_row category d =
     (let field = (\<lambda>k v. case map_of d k of None \<Rightarrow> v | Some x \<Rightarrow> x) in
      \<lparr>kr_title = field ''title'' (JStr ''Untitled''), kr_content = field ''content'' (JStr ''''),
       kr_category = (if truthy category then JStr (the category) else field ''category'' (JStr ''faq'')),
       kr_source = field ''source'' (JStr ''upload''), kr_metadata = field ''metadata'' (JObj [])\<rparr>)"

text \<open>A record that is no JSON object has no \<^verbatim>\<open>get\<close>.\<close>

definition import_record :: "text_env \<Rightarrow> string option \<Rightarrow> json \<Rightarrow> exn + kb_row" where
  "import_record T category v =
     (case v of JObj d \<Rightarrow> Inr (normalize_payload T (import_row category d)) | _ \<Rightarrow> Inl (PyError ''AttributeError''))"

fun sequence :: "('e + 'a) list \<Rightarrow> 'e + 'a list" where
  "sequence [] = Inr []"
| "sequence (r # rs) = (case r of Inl e \<Rightarrow> Inl e | Inr x \<Rightarrow> map_sum id (\<lambda>xs. x # xs) (sequence rs))"

definition text_row :: "string \<Rightarrow> string option \<Rightarrow> string \<Rightarrow> kb_row" where
  "text_row raw category filename =
     (case parse_front_matter raw of (metadata, body) \<Rightarrow>
        let field = (\<lambda>k v. case map_of metadata k of None \<Rightarrow> v | Some x \<Rightarrow> x) in
        \<lparr>kr_title = JStr (field ''title'' (name_stem filename)), kr_content = JStr body,
         kr_category = JStr (if truthy category then the category else field ''category'' ''faq''),
         kr_source = JStr (field ''source'' ''upload''), kr_metadata = JObj (map (\<lambda>(k, v). (k, JStr v)) metadata)\<rparr>)"

definition parse_import :: "text_env \<Rightarrow> string \<Rightarrow> string \<Rightarrow> string option \<Rightarrow> exn + kb_row list" where
  "parse_import T raw filename category =
     (let suffix = py_lower (name_suffix filename) in
      if suffix = ''json'' then
        (case loads raw of
           None \<Rightarrow> Inl (PyError ''JSONDecodeError'')
         | Some v \<Rightarrow> sequence (map (import_record T category) (case v of JList vs \<Rightarrow> vs | _ \<Rightarrow> [v])))
      else if suffix = ''csv'' then
        (case dict_rows raw of Inl e \<Rightarrow> Inl e | Inr ds \<Rightarrow> sequence (map (\<lambda>d. import_record T category (JObj d)) ds))
      else Inr [normalize_payload T (text_row raw category filename)])"

section \<open>Repository\<close>

definition match_fns :: "string list" where
  "match_fns = [''match_documents'', ''match_documents_jina'', ''match_documents_ollama'', ''match_documents_bge'']"

definition vectors_fit :: "('v, 'r) kb_env \<Rightarrow> 'v vectors \<Rightarrow> bool" where
  "vectors_fit E v \<longleftrightarrow>
     (\<forall>x \<in> set_option (ve_gemini v). ke_fits E ''match_documents'' x) \<and>
     (\<forall>x \<in> set_option (ve_jina v). ke_fits E ''match_documents_jina'' x) \<and>
     (\<forall>x \<in> set_option (ve_ollama v). ke_fits E ''match_documents_ollama'' x) \<and>
     (\<forall>x \<in> set_option (ve_bge v). ke_fits E ''match_documents_bge'' x)"

text \<open>What the table accepts for a column: not null unless it is nullable, text of bounded length.\<close>

definition text_column :: "nat \<Rightarrow> json \<Rightarrow> exn + string" where
  "text_column n v =
     (case v of JStr s \<Rightarrow> if n < length s then Inl (PyError ''DBAPIError'') else Inr s
      | JNull \<Rightarrow> Inl (PyError ''IntegrityError'') | _ \<Rightarrow> Inl (PyError ''DBAPIError''))"

definition nullable_column :: "nat \<Rightarrow> json \<Rightarrow> exn + string option" where
  "nullable_column n v = (if v = JNull then Inr None else map_sum id Some (text_column n v))"

definition content_column :: "json \<Rightarrow> exn + string" where
  "content_column v = (case v of JStr s \<Rightarrow> Inr s | JNull \<Rightarrow> Inl (PyError ''IntegrityError'') | _ \<Rightarrow> Inl (PyError ''DBAPIError''))"

definition new_doc :: "('v, 'r) kb_env \<Rightarrow> uuid \<Rightarrow> kb_row \<Rightarrow> 'v vectors \<Rightarrow> exn + 'v kb_doc" where
  "new_doc E i r v =
     (case (text_column 255 (kr_title r), content_column (kr_content r), text_column 50 (kr_category r), nullable_column 255 (kr_source r)) of
        (Inr title, Inr content, Inr category, Inr source) \<Rightarrow>
          if vectors_fit E v then
            Inr \<lparr>kd_id = i, kd_title = title, kd_content = content, kd_category = category, kd_source = source,
              kd_gemini = ve_gemini v, kd_jina = ve_jina v, kd_ollama = ve_ollama v, kd_bge = ve_bge v,
              kd_metadata = kr_metadata r, kd_active = True, kd_created = ke_now E\<rparr>
          else Inl (PyError ''StatementError'')
      | (Inl e, _, _, _) \<Rightarrow> Inl e | (_, Inl e, _, _) \<Rightarrow> Inl e | (_, _, Inl e, _) \<Rightarrow> Inl e | (_, _, _, Inl e) \<Rightarrow> Inl e)"

definition insert_docs :: "'v kb_doc list \<Rightarrow> ('v, 'r, unit) kbop" where
  "insert_docs ds = modify (\<lambda>s. s\<lparr>kb_docs := kb_docs s @ ds\<rparr>)"

definition repo_kb_create :: "('v, 'r) kb_env \<Rightarrow> kb_row \<Rightarrow> 'v vectors \<Rightarrow> ('v, 'r, 'v kb_doc) kbop" where
  "repo_kb_create E r v =
     andThen (lift_result (new_doc E (ke_ids E 0) r v)) (\<lambda>d.
     andThen (insert_docs [d]) (\<lambda>_. ret d))"

definition repo_create_batch :: "('v, 'r) kb_env \<Rightarrow> (kb_row \<times> 'v vectors) list \<Rightarrow> ('v, 'r, 'v kb_doc list) kbop" where
  "repo_create_batch E items =
     andThen (lift_result (sequence (map (\<lambda>(i, r, v). new_doc E (ke_ids E i) r v) (enumerate 0 items)))) (\<lambda>ds.
     andThen (insert_docs ds) (\<lambda>_. ret ds))"

definition kb_by_id :: "uuid \<Rightarrow> ('v, 'r) kb_state \<Rightarrow> 'v kb_doc option" where
  "kb_by_id i s = find_row kd_id i (kb_docs s)"

definition kb_not_found :: exn where
  "kb_not_found = AppError NotFound ''kb_not_found''"

definition newer :: "'a option \<Rightarrow> 'a option \<Rightarrow> 'a option" where
  "newer new old = (case new of None \<Rightarrow> old | Some x \<Rightarrow> Some x)"

text \<open>The fields of an update as they are set on the row; a vector is set only when there is a new one.\<close>

definition apply_kb_update :: "kb_update \<Rightarrow> 'v vectors \<Rightarrow> 'v kb_doc \<Rightarrow> 'v kb_doc" where
  "apply_kb_update u v d =
     d\<lparr>kd_title := patch_val (ku_title u) (kd_title d), kd_content := patch_val (ku_content u) (kd_content d),
       kd_category := patch_val (ku_category u) (kd_category d), kd_source := patch_opt (ku_source u) (kd_source d),
       kd_metadata := (case ku_metadata u of Unset \<Rightarrow> kd_metadata d | Null \<Rightarrow> JObj [] | Val m \<Rightarrow> JObj m),
       kd_active := patch_val (ku_active u) (kd_active d),
       kd_gemini := newer (ve_gemini v) (kd_gemini d), kd_jina := newer (ve_jina v) (kd_jina d),
       kd_ollama := newer (ve_ollama v) (kd_ollama d), kd_bge := newer (ve_bge v) (kd_bge d)\<rparr>"

definition repo_kb_update :: "('v, 'r) kb_env \<Rightarrow> uuid \<Rightarrow> kb_update \<Rightarrow> 'v vectors \<Rightarrow> ('v, 'r, 'v kb_doc) kbop" where
  "repo_kb_update E i u v =
     andThen (gets (kb_by_id i)) (\<lambda>found.
     andThen (require_some kb_not_found found) (\<lambda>d.
     andThen (ensure (\<not> is_null (ku_title u) \<and> \<not> is_null (ku_content u) \<and> \<not> is_null (ku_category u) \<and> \<not> is_null (ku_active u))
       (PyError ''IntegrityError'')) (\<lambda>_.
     andThen (ensure (patch_all (\<lambda>t. length t \<le> 255) (ku_title u)) (PyError ''DBAPIError'')) (\<lambda>_.
     andThen (ensure (vectors_fit E v) (PyError ''StatementError'')) (\<lambda>_.
     andThen (modify (\<lambda>s. s\<lparr>kb_docs := upd_row kd_id i (apply_kb_update u v) (kb_docs s)\<rparr>)) (\<lambda>_.
     ret (apply_kb_update u v d)))))))"

definition repo_soft_delete :: "uuid \<Rightarrow> ('v, 'r, bool) kbop" where
  "repo_soft_delete i =
     andThen (gets (kb_by_id i)) (\<lambda>found.
     if found = None then ret False
     else andThen (modify (\<lambda>s. s\<lparr>kb_docs := upd_row kd_id i (\<lambda>d. d\<lparr>kd_active := False\<rparr>) (kb_docs s)\<rparr>)) (\<lambda>_. ret True))"

definition filter_docs :: "string option \<Rightarrow> bool \<Rightarrow> 'v kb_doc list \<Rightarrow> 'v kb_doc list" where
  "filter_docs category active_only ds =
     filter (\<lambda>d. (truthy category \<longrightarrow> kd_category d = the category) \<and> (active_only \<longrightarrow> kd_active d)) ds"

definition newest_docs :: "'v kb_doc list \<Rightarrow> 'v kb_doc list" where
  "newest_docs ds = sort_key (\<lambda>d. - kd_created d) ds"

definition repo_list_documents :: "nat \<Rightarrow> nat \<Rightarrow> string option \<Rightarrow> bool \<Rightarrow> 'v kb_doc list \<Rightarrow> 'v kb_doc list \<times> nat" where
  "repo_list_documents skip limit category active_only docs =
     (let rows = filter_docs category active_only docs in (slice skip limit (newest_docs rows), length rows))"

record kb_hit =
  kh_id :: uuid
  kh_title :: string
  kh_content :: string
  kh_category :: string
  kh_similarity :: rat
  kh_source :: "string option"

definition kb_column :: "string \<Rightarrow> 'v kb_doc \<Rightarrow> 'v option" where
  "kb_column f d =
     (if f = ''match_documents_jina'' then kd_jina d
      else if f = ''match_documents_ollama'' then kd_ollama d
      else if f = ''match_documents_bge'' then kd_bge d
      else kd_gemini d)"

text \<open>The match functions of the database, which differ in the column they read.\<close>

definition searchable :: "string option \<Rightarrow> 'v kb_doc \<Rightarrow> bool" where
  "searchable category d \<longleftrightarrow> kd_active d \<and> (case category of None \<Rightarrow> True | Some c \<Rightarrow> kd_category d = c)"

definition match_rows :: "string \<Rightarrow> string option \<Rightarrow> 'v kb_doc list \<Rightarrow> ('v kb_doc \<times> 'v) list" where
  "match_rows f category docs =
     concat (map (\<lambda>d. case kb_column f d of None \<Rightarrow> [] | Some v \<Rightarrow> [(d, v)]) (filter (searchable category) docs))"

definition vector_hit :: "('v, 'r) kb_env \<Rightarrow> 'v \<Rightarrow> 'v kb_doc \<times> 'v \<Rightarrow> kb_hit" where
  "vector_hit E q p = (case p of (d, v) \<Rightarrow>
     \<lparr>kh_id = kd_id d, kh_title = kd_title d, kh_content = kd_content d, kh_category = kd_category d,
      kh_similarity = 1 - ke_distance E v q, kh_source = None\<rparr>)"

definition match_documents :: "('v, 'r) kb_env \<Rightarrow> string \<Rightarrow> 'v \<Rightarrow> rat \<Rightarrow> nat \<Rightarrow> string option \<Rightarrow> 'v kb_doc list \<Rightarrow> kb_hit list" where
  "match_documents E f q threshold k category docs =
     take k (map (vector_hit E q)
       (sort_key (\<lambda>p. ke_distance E (snd p) q)
         (filter (\<lambda>p. threshold < 1 - ke_distance E (snd p) q) (match_rows f category docs))))"

text \<open>A vector of another dimension is an error of the statement, answered with no results.\<close>

definition similarity_search :: "('v, 'r) kb_env \<Rightarrow> 'v \<Rightarrow> nat \<Rightarrow> rat \<Rightarrow> string option \<Rightarrow> string \<Rightarrow> 'v kb_doc list \<Rightarrow> kb_hit list" where
  "similarity_search E q k threshold category f docs =
     (let fn = (if f \<in> set match_fns then f else ''match_documents'') in
      if ke_fits E fn q then match_documents E fn q threshold k category docs else [])"

definition kb_tokenize :: "string \<Rightarrow> string list" where
  "kb_tokenize t = tokens (py_lower t)"

definition doc_tokens :: "'v kb_doc \<Rightarrow> string list" where
  "doc_tokens d = kb_tokenize (kd_title d @ '' '' @ kd_content d)"

definition search_hit :: "'v kb_doc \<Rightarrow> rat \<Rightarrow> kb_hit" where
  "search_hit d similarity = \<lparr>kh_id = kd_id d, kh_title = kd_title d, kh_content = kd_content d, kh_category = kd_category d,
     kh_similarity = similarity, kh_source = kd_source d\<rparr>"

definition bm25_hit :: "('v, 'r) kb_env \<Rightarrow> rat \<Rightarrow> 'v kb_doc \<times> rat \<Rightarrow> kb_hit" where
  "bm25_hit E best p = search_hit (fst p) (if best \<noteq> 0 then ke_ratio E (snd p) best else 0)"

definition bm25_search :: "('v, 'r) kb_env \<Rightarrow> string \<Rightarrow> nat \<Rightarrow> string option \<Rightarrow> 'v kb_doc list \<Rightarrow> exn + kb_hit list" where
  "bm25_search E query k category docs =
     (case repo_list_documents 0 1000 category True docs of (ds, tot) \<Rightarrow>
        if ds = [] then Inr []
        else
          (let scores = ke_bm25 E (map doc_tokens ds) (kb_tokenize query) in
           if length scores \<noteq> length ds then Inl (PyError ''ValueError'')
           else
             Inr (map (bm25_hit E (Max (set scores))) (take k (sort_key (\<lambda>p. - snd p) (zip ds scores))))))"

definition hit_of :: "uuid \<Rightarrow> kb_hit list \<Rightarrow> kb_hit option" where
  "hit_of i hs = find_row kh_id i (rev hs)"

definition blend_hit :: "('v, 'r) kb_env \<Rightarrow> kb_hit list \<Rightarrow> kb_hit list \<Rightarrow> uuid \<Rightarrow> kb_hit" where
  "blend_hit E semantic keyword i =
     (let keyword_score = (case hit_of i keyword of None \<Rightarrow> 0 | Some h \<Rightarrow> kh_similarity h) in
      case hit_of i semantic of
        None \<Rightarrow> (the (hit_of i keyword))\<lparr>kh_similarity := ke_blend E 0 keyword_score\<rparr>
      | Some h \<Rightarrow> h\<lparr>kh_similarity := ke_blend E (kh_similarity h) keyword_score\<rparr>)"

definition hybrid_search :: "('v, 'r) kb_env \<Rightarrow> string \<Rightarrow> 'v \<Rightarrow> nat \<Rightarrow> string option \<Rightarrow> string \<Rightarrow> rat \<Rightarrow> 'v kb_doc list \<Rightarrow> exn + kb_hit list" where
  "hybrid_search E query q k category f threshold docs =
     (let semantic = similarity_search E q (max (k * 3) k) threshold category f docs in
      case bm25_search E query (max (k * 5) 20) category docs of
        Inl e \<Rightarrow> Inl e
      | Inr keyword \<Rightarrow>
          (let ids = ke_set_order E (remdups (map kh_id semantic @ map kh_id keyword)) in
           Inr (take k (sort_key (\<lambda>h. - kh_similarity h) (map (blend_hit E semantic keyword) ids)))))"

definition count_by_category :: "'v kb_doc list \<Rightarrow> (string \<times> nat) list" where
  "count_by_category docs =
     (let cs = map kd_category (filter kd_active docs) in map (\<lambda>c. (c, length (filter (\<lambda>x. x = c) cs))) (remdups cs))"

record kb_statistics =
  ks_total :: nat
  ks_active :: nat
  ks_recent :: nat
  ks_by_category :: "(string \<times> nat) list"

definition repo_statistics :: "time \<Rightarrow> 'v kb_doc list \<Rightarrow> kb_statistics" where
  "repo_statistics now docs =
     \<lparr>ks_total = length docs, ks_active = length (filter kd_active docs),
      ks_recent = length (filter (\<lambda>d. now - secs (7 * 86400) \<le> kd_created d) docs), ks_by_category = count_by_category docs\<rparr>"

section \<open>Service\<close>

definition ensure_kb_staff :: "user \<Rightarrow> ('v, 'r, unit) kbop" where
  "ensure_kb_staff u = ensure (is_staff u) (AppError Forbidden ''staff_required'')"

definition embedding_text :: "string \<Rightarrow> string \<Rightarrow> string" where
  "embedding_text title content = title @ [CHR 0x0A, CHR 0x0A] @ content"

text \<open>Gemini may be exhausted: the document then keeps only a Jina vector.\<close>

definition embed_document :: "('v, 'r) kb_env \<Rightarrow> string \<Rightarrow> string \<Rightarrow> exn + 'v vectors" where
  "embed_document E title content =
     (let t = embedding_text title content in
      case ke_provider E of
        Ollama \<Rightarrow> (case ke_ollama E t of Inl e \<Rightarrow> Inl (llm_exn e) | Inr v \<Rightarrow> Inr (no_vectors\<lparr>ve_ollama := Some v\<rparr>))
      | Bge \<Rightarrow> (case ke_bge E t of Inl e \<Rightarrow> Inl (llm_exn e) | Inr v \<Rightarrow> Inr (no_vectors\<lparr>ve_bge := Some v\<rparr>))
      | Gemini \<Rightarrow>
          (case ke_gemini E t of
             Inl e \<Rightarrow>
               if quota_error e
               then (case ke_jina E ''retrieval.passage'' t of Inl e \<Rightarrow> Inl (llm_exn e) | Inr w \<Rightarrow> Inr (no_vectors\<lparr>ve_jina := Some w\<rparr>))
               else Inl (llm_exn e)
           | Inr v \<Rightarrow>
               (case ke_jina E ''retrieval.passage'' t of
                  Inl e \<Rightarrow> Inl (llm_exn e) | Inr w \<Rightarrow> Inr (no_vectors\<lparr>ve_gemini := Some v, ve_jina := Some w\<rparr>))))"

record kb_response =
  kv_id :: uuid
  kv_title :: string
  kv_content :: string
  kv_category :: string
  kv_source :: "string option"
  kv_metadata :: "(string \<times> json) list"
  kv_active :: bool
  kv_created :: time

text \<open>The response schema validates what the table holds.\<close>

definition kb_response_of :: "'v kb_doc \<Rightarrow> exn + kb_response" where
  "kb_response_of d =
     (case or_empty (kd_metadata d) of
        JObj m \<Rightarrow>
          if kb_fields_ok (kd_title d) (kd_content d) (kd_category d) (kd_source d)
          then Inr \<lparr>kv_id = kd_id d, kv_title = kd_title d, kv_content = kd_content d, kv_category = kd_category d,
                 kv_source = kd_source d, kv_metadata = m, kv_active = kd_active d, kv_created = kd_created d\<rparr>
          else Inl schema_error
      | _ \<Rightarrow> Inl schema_error)"

definition create_document :: "('v, 'r) kb_env \<Rightarrow> kb_create \<Rightarrow> user \<Rightarrow> ('v, 'r, kb_response) kbop" where
  "create_document E c u =
     andThen (ensure_kb_staff u) (\<lambda>_.
     let r = normalize_payload (ke_text E) (create_row c) in
     andThen (lift_result (embed_document E (py_str (kr_title r)) (py_str (kr_content r)))) (\<lambda>v.
     andThen (repo_kb_create E r v) (\<lambda>d. lift_result (kb_response_of d))))"

definition normalize_patch :: "text_env \<Rightarrow> string patch \<Rightarrow> string patch" where
  "normalize_patch T p = (case p of Val t \<Rightarrow> Val (text_normalize T t) | _ \<Rightarrow> p)"

definition normalize_update :: "text_env \<Rightarrow> kb_update \<Rightarrow> kb_update" where
  "normalize_update T u = u\<lparr>ku_title := normalize_patch T (ku_title u), ku_content := normalize_patch T (ku_content u)\<rparr>"

text \<open>\<^verbatim>\<open>str(normalized.get(key, old))\<close>\<close>

definition patched_text :: "string patch \<Rightarrow> string \<Rightarrow> string" where
  "patched_text p old = (case p of Unset \<Rightarrow> old | Null \<Rightarrow> ''None'' | Val t \<Rightarrow> t)"

text \<open>A new title or content is embedded together with what stays of the other.\<close>

definition update_vectors :: "('v, 'r) kb_env \<Rightarrow> kb_update \<Rightarrow> 'v kb_doc \<Rightarrow> exn + 'v vectors" where
  "update_vectors E n d =
     (if ku_title n \<noteq> Unset \<or> ku_content n \<noteq> Unset
      then embed_document E (patched_text (ku_title n) (kd_title d)) (patched_text (ku_content n) (kd_content d))
      else Inr no_vectors)"

definition update_document :: "('v, 'r) kb_env \<Rightarrow> uuid \<Rightarrow> kb_update \<Rightarrow> user \<Rightarrow> ('v, 'r, kb_response) kbop" where
  "update_document E i u who =
     andThen (ensure_kb_staff who) (\<lambda>_.
     andThen (gets (kb_by_id i)) (\<lambda>found.
     andThen (require_some kb_not_found found) (\<lambda>d.
     let n = normalize_update (ke_text E) u in
     andThen (lift_result (update_vectors E n d)) (\<lambda>v.
     andThen (repo_kb_update E i n v) (\<lambda>d'. lift_result (kb_response_of d'))))))"

definition delete_document :: "uuid \<Rightarrow> user \<Rightarrow> ('v, 'r, unit) kbop" where
  "delete_document i u =
     andThen (ensure_kb_staff u) (\<lambda>_.
     andThen (repo_soft_delete i) (\<lambda>deleted. ensure deleted kb_not_found))"

definition get_document :: "uuid \<Rightarrow> user \<Rightarrow> ('v, 'r, kb_response) kbop" where
  "get_document i u =
     andThen (ensure_kb_staff u) (\<lambda>_.
     andThen (gets (kb_by_id i)) (\<lambda>found.
     andThen (require_some kb_not_found found) (\<lambda>d. lift_result (kb_response_of d))))"

definition list_documents :: "nat \<Rightarrow> nat \<Rightarrow> string option \<Rightarrow> bool \<Rightarrow> user \<Rightarrow> ('v, 'r, kb_response page) kbop" where
  "list_documents skip limit category active_only u =
     andThen (ensure_kb_staff u) (\<lambda>_.
     andThen (gets (\<lambda>s. repo_list_documents skip limit category active_only (kb_docs s))) (\<lambda>(ds, tot).
     andThen (lift_result (sequence (map kb_response_of ds))) (\<lambda>items. ret (make_page skip limit items tot))))"

section \<open>Query vectors and their cache\<close>

definition threshold_for_provider :: "('v, 'r) kb_env \<Rightarrow> rat" where
  "threshold_for_provider E = (case ke_provider E of Ollama \<Rightarrow> ke_threshold_ollama E | Bge \<Rightarrow> ke_threshold_bge E | Gemini \<Rightarrow> 0)"

definition compute_query_embedding :: "('v, 'r) kb_env \<Rightarrow> string \<Rightarrow> exn + 'v \<times> string" where
  "compute_query_embedding E query =
     (case ke_provider E of
        Ollama \<Rightarrow> map_sum llm_exn (\<lambda>v. (v, ''match_documents_ollama'')) (ke_ollama E query)
      | Bge \<Rightarrow> map_sum llm_exn (\<lambda>v. (v, ''match_documents_bge'')) (ke_bge E query)
      | Gemini \<Rightarrow>
          (case ke_gemini E query of
             Inr v \<Rightarrow> Inr (v, ''match_documents'')
           | Inl e \<Rightarrow>
               if quota_error e then map_sum llm_exn (\<lambda>v. (v, ''match_documents_jina'')) (ke_jina E ''retrieval.query'' query)
               else Inl (llm_exn e)))"

definition provider_text :: "embedding_provider \<Rightarrow> string" where
  "provider_text p = (case p of Gemini \<Rightarrow> ''gemini'' | Ollama \<Rightarrow> ''ollama'' | Bge \<Rightarrow> ''bge'')"

definition query_cache_key :: "('v, 'r) kb_env \<Rightarrow> string \<Rightarrow> string" where
  "query_cache_key E query = ''kbq:'' @ provider_text (ke_provider E) @ '':d'' @ nat_digits (ke_dims E) @ '':'' @ ke_hash E query"

definition cache_get_query :: "('v, 'r) kb_env \<Rightarrow> string \<Rightarrow> 'r \<Rightarrow> ('v \<times> string) option" where
  "cache_get_query E key c =
     (case ke_redis E of
        None \<Rightarrow> None
      | Some R \<Rightarrow>
          if ke_ttl E \<le> 0 then None
          else (case rd_get R (ke_now E) key c of None \<Rightarrow> None | Some raw \<Rightarrow> ke_read E raw))"

definition cache_set_query :: "('v, 'r) kb_env \<Rightarrow> string \<Rightarrow> 'v \<Rightarrow> string \<Rightarrow> 'r \<Rightarrow> 'r" where
  "cache_set_query E key v f c =
     (case ke_redis E of
        None \<Rightarrow> c
      | Some R \<Rightarrow> if ke_ttl E \<le> 0 then c else rd_setex R (ke_now E) key (ke_ttl E) (ke_entry E v f) c)"

definition embed_query :: "('v, 'r) kb_env \<Rightarrow> string \<Rightarrow> ('v, 'r, 'v \<times> string) kbop" where
  "embed_query E query =
     (let key = query_cache_key E query in
      andThen (gets (\<lambda>s. cache_get_query E key (kb_cache s))) (\<lambda>hit.
      case hit of
        Some r \<Rightarrow> ret r
      | None \<Rightarrow>
          andThen (lift_result (compute_query_embedding E query)) (\<lambda>(v, f).
          andThen (modify (\<lambda>s. s\<lparr>kb_cache := cache_set_query E key v f (kb_cache s)\<rparr>)) (\<lambda>_. ret (v, f)))))"

definition search_documents :: "('v, 'r) kb_env \<Rightarrow> string \<Rightarrow> nat \<Rightarrow> string option \<Rightarrow> bool \<Rightarrow> ('v, 'r, kb_hit list) kbop" where
  "search_documents E query k category use_hybrid =
     (let n = text_normalize (ke_text E) query in
      if n = [] then ret []
      else
        andThen (embed_query E n) (\<lambda>(v, f).
        andThen (gets kb_docs) (\<lambda>docs.
        lift_result
          (if use_hybrid then hybrid_search E n v k category f (threshold_for_provider E) docs
           else Inr (similarity_search E v k (threshold_for_provider E) category f docs)))))"

text \<open>The retriever of the answers: always hybrid; its own weight is not used.\<close>

definition hybrid_retrieve :: "('v, 'r) kb_env \<Rightarrow> string \<Rightarrow> nat \<Rightarrow> string option \<Rightarrow> ('v, 'r, retrieved_doc list) kbop" where
  "hybrid_retrieve E query k category =
     andThen (search_documents E query k category True) (\<lambda>hs.
     ret (map (\<lambda>h. \<lparr>rd_id = kh_id h, rd_title = kh_title h, rd_content = kh_content h, rd_category = kh_category h,
                  rd_similarity = kh_similarity h, rd_source = (if truthy (kh_source h) then kh_source h else None)\<rparr>) hs))"

section \<open>Import\<close>

definition batch_vectors :: "('v, 'r) kb_env \<Rightarrow> string list \<Rightarrow> exn + 'v vectors list" where
  "batch_vectors E ts =
     (case ke_provider E of
        Ollama \<Rightarrow> map_sum llm_exn (map (\<lambda>v. no_vectors\<lparr>ve_ollama := Some v\<rparr>)) (ke_ollama_batch E ts)
      | Bge \<Rightarrow> map_sum llm_exn (map (\<lambda>v. no_vectors\<lparr>ve_bge := Some v\<rparr>)) (ke_bge_batch E ts)
      | Gemini \<Rightarrow>
          (case ke_gemini_batch E ts of
             Inl e \<Rightarrow> Inl (llm_exn e)
           | Inr vs \<Rightarrow>
               (case ke_jina_batch E ''retrieval.passage'' ts of
                  Inl e \<Rightarrow> Inl (llm_exn e)
                | Inr ws \<Rightarrow>
                    if length vs = length ws
                    then Inr (map (\<lambda>(v, w). no_vectors\<lparr>ve_gemini := Some v, ve_jina := Some w\<rparr>) (zip vs ws))
                    else Inl (PyError ''ValueError''))))"

definition bulk_import :: "('v, 'r) kb_env \<Rightarrow> string \<Rightarrow> string option \<Rightarrow> string option \<Rightarrow> user \<Rightarrow> ('v, 'r, nat) kbop" where
  "bulk_import E raw filename category u =
     andThen (ensure_kb_staff u) (\<lambda>_.
     andThen (lift_result (parse_import (ke_text E) raw (if truthy filename then the filename else ''upload.txt'') category)) (\<lambda>rows.
     andThen (ensure (rows \<noteq> []) (AppError Validation ''kb_empty_import'')) (\<lambda>_.
     andThen (lift_result (batch_vectors E (map (\<lambda>r. embedding_text (py_str (kr_title r)) (py_str (kr_content r))) rows))) (\<lambda>vs.
     andThen (ensure (length rows = length vs) (PyError ''ValueError'')) (\<lambda>_.
     andThen (repo_create_batch E (zip rows vs)) (\<lambda>ds. ret (length ds)))))))"

definition kb_statistics_of :: "('v, 'r) kb_env \<Rightarrow> user \<Rightarrow> ('v, 'r, kb_statistics) kbop" where
  "kb_statistics_of E u = andThen (ensure_kb_staff u) (\<lambda>_. gets (\<lambda>s. repo_statistics (ke_now E) (kb_docs s)))"

section \<open>Endpoints\<close>

datatype kb_call =
    ListDocs nat nat "string option" bool | CreateDoc kb_create | Statistics | ImportFile string "string option" "string option"
  | GetDoc uuid | UpdateDoc uuid kb_update | DeleteDoc uuid | SearchDocs string nat "string option" bool

datatype kb_reply = Page "kb_response page" | Document kb_response | Stats kb_statistics | Imported nat | Deleted | Hits "kb_hit list"

definition replying :: "('a \<Rightarrow> kb_reply) \<Rightarrow> ('v, 'r, 'a) kbop \<Rightarrow> ('v, 'r, kb_reply) kbop" where
  "replying f m = andThen m (\<lambda>x. ret (f x))"

definition category_param :: "string option \<Rightarrow> exn + unit" where
  "category_param c = (if (case c of None \<Rightarrow> True | Some t \<Rightarrow> t \<in> set kb_categories) then Inr () else Inl request_error)"

definition admin_only :: "user \<Rightarrow> ('v, 'r, unit) kbop" where
  "admin_only u = ensure (is_admin u) (AppError Forbidden ''admin_required'')"

fun kb_endpoint :: "('v, 'r) kb_env \<Rightarrow> user \<Rightarrow> kb_call \<Rightarrow> ('v, 'r, kb_reply) kbop" where
  "kb_endpoint E u (ListDocs skip limit category active_only) =
     andThen (admin_only u) (\<lambda>_. andThen (lift_result (category_param category)) (\<lambda>_.
     andThen (ensure (1 \<le> limit \<and> limit \<le> 100) request_error) (\<lambda>_. replying Page (list_documents skip limit category active_only u))))"
| "kb_endpoint E u (CreateDoc c) =
     andThen (admin_only u) (\<lambda>_. andThen (lift_result (parse_kb_create c)) (\<lambda>c'. replying Document (create_document E c' u)))"
| "kb_endpoint E u Statistics = andThen (admin_only u) (\<lambda>_. replying Stats (kb_statistics_of E u))"
| "kb_endpoint E u (ImportFile raw filename category) =
     andThen (admin_only u) (\<lambda>_. andThen (lift_result (category_param category)) (\<lambda>_.
     replying Imported (bulk_import E raw filename category u)))"
| "kb_endpoint E u (GetDoc i) = andThen (admin_only u) (\<lambda>_. replying Document (get_document i u))"
| "kb_endpoint E u (UpdateDoc i p) =
     andThen (admin_only u) (\<lambda>_. andThen (lift_result (parse_kb_update p)) (\<lambda>p'. replying Document (update_document E i p' u)))"
| "kb_endpoint E u (DeleteDoc i) = andThen (admin_only u) (\<lambda>_. replying (\<lambda>_. Deleted) (delete_document i u))"
| "kb_endpoint E u (SearchDocs query k category use_hybrid) =
     andThen (ensure (is_staff u) (AppError Forbidden ''staff_required'')) (\<lambda>_. andThen (lift_result (category_param category)) (\<lambda>_.
     andThen (ensure (1 \<le> length query \<and> length query \<le> 1000 \<and> 1 \<le> k \<and> k \<le> 20) request_error) (\<lambda>_.
     replying Hits (search_documents E query k category use_hybrid))))"

text \<open>One request: an exception rolls the table back, the cache keeps what was written.\<close>

definition kb_request :: "('v, 'r) kb_env \<Rightarrow> user \<Rightarrow> kb_call \<Rightarrow> ('v, 'r, kb_reply) kbop" where
  "kb_request E u c s = (case kb_endpoint E u c s of (Inl e, t) \<Rightarrow> (Inl e, t\<lparr>kb_docs := kb_docs s\<rparr>) | (Inr r, t) \<Rightarrow> (Inr r, t))"

section \<open>Successful requests\<close>

lemma kb_request_Inr: "kb_request E u c s = (Inr r, t) \<longleftrightarrow> kb_endpoint E u c s = (Inr r, t)"
  by (auto simp: kb_request_def split: prod.splits sum.splits)

lemma replying_Inr: "replying f m s = (Inr r, t) \<longleftrightarrow> (\<exists>x. m s = (Inr x, t) \<and> r = f x)"
  by (auto simp: replying_def op_simps)

lemma admin_only_Inr: "admin_only u s = (Inr x, t) \<longleftrightarrow> is_admin u \<and> t = s"
  by (auto simp: admin_only_def op_simps)

lemma embed_query_docs: "embed_query E q s = (r, t) \<Longrightarrow> kb_docs t = kb_docs s"
  by (cases r) (auto simp: embed_query_def Let_def op_simps split: option.splits prod.splits)

end
