(* ===== verification/KnowledgeSearch.thy ===== *)
theory KnowledgeSearch
  imports Knowledge
begin

text \<open>
  What searches of the knowledge base return: the shape of vector, keyword and hybrid results, and the
  transparency of the cache of query vectors.
\<close>

section \<open>What a search returns\<close>

definition shows_doc :: "kb_hit \<Rightarrow> 'v kb_doc \<Rightarrow> bool" where
  "shows_doc h d \<longleftrightarrow> kh_id h = kd_id d \<and> kh_title h = kd_title d \<and> kh_content h = kd_content d \<and> kh_category h = kd_category d"

definition hits_from :: "string option \<Rightarrow> 'v kb_doc list \<Rightarrow> kb_hit list \<Rightarrow> bool" where
  "hits_from category docs hs \<longleftrightarrow> list_all (\<lambda>h. list_ex (\<lambda>d. searchable category d \<and> shows_doc h d) docs) hs"

lemma hits_from_iff: "hits_from category docs hs \<longleftrightarrow> (\<forall>h \<in> set hs. \<exists>d \<in> set docs. searchable category d \<and> shows_doc h d)"
  by (auto simp: hits_from_def list_all_iff list_ex_iff)

lemma match_rows_in: "p \<in> set (match_rows f category docs) \<Longrightarrow> fst p \<in> set docs \<and> searchable category (fst p)"
  by (auto simp: match_rows_def split: option.splits)

lemma match_rows_ids:
  "distinct (map kd_id docs) \<Longrightarrow> distinct (map (kd_id \<circ> fst) (match_rows f category docs))"
proof (induction docs)
  case (Cons d docs)
  have "kd_id d \<notin> (kd_id \<circ> fst) ` set (match_rows f category docs)"
    using Cons.prems match_rows_in [of _ f category docs] by fastforce
  with Cons show ?case by (auto simp: match_rows_def split: option.splits)
qed (simp add: match_rows_def)

lemma vector_hit_id: "kh_id \<circ> vector_hit E q = kd_id \<circ> fst"
  by (auto simp: vector_hit_def)

lemma match_documents_from: "hits_from category docs (match_documents E f q threshold k category docs)"
proof -
  have "\<exists>d \<in> set docs. searchable category d \<and> shows_doc (vector_hit E q p) d" if "p \<in> set (match_rows f category docs)" for p
    using match_rows_in [OF that] by (auto simp: vector_hit_def shows_doc_def split: prod.splits)
  then show ?thesis unfolding hits_from_iff match_documents_def by (auto dest!: in_set_takeD)
qed

lemma match_documents_ids:
  assumes "unique_by kd_id docs"
  shows "distinct (map kh_id (match_documents E f q threshold k category docs))"
  using match_rows_ids [of docs f category] assms
  by (auto simp: match_documents_def take_map [symmetric] vector_hit_id distinct_sort_key distinct_map_filter unique_by_def intro!: distinct_take)

lemma similarity_search_from: "hits_from category docs (similarity_search E q k threshold category f docs)"
  using match_documents_from by (auto simp: similarity_search_def Let_def) (simp_all add: hits_from_iff)

lemma similarity_search_ids:
  "unique_by kd_id docs \<Longrightarrow> distinct (map kh_id (similarity_search E q k threshold category f docs))"
  by (auto simp: similarity_search_def Let_def intro: match_documents_ids)

lemma similarity_search_length: "length (similarity_search E q k threshold category f docs) \<le> k"
  by (simp add: similarity_search_def Let_def match_documents_def)

text \<open>Keyword search offers every document there is room for.\<close>

definition scores_all :: "('v, 'r) kb_env \<Rightarrow> bool" where
  "scores_all E \<longleftrightarrow> (\<forall>corpus q. length (ke_bm25 E corpus q) = length corpus)"

lemma bm25_search_hits:
  assumes "scores_all E" and "category \<noteq> Some []"
  obtains hs where "bm25_search E query k category docs = Inr hs" and "hits_from category docs hs"
    and "length hs = min k (min 1000 (length (filter (searchable category) docs)))"
    and "unique_by kd_id docs \<Longrightarrow> distinct (map kh_id hs)"
proof -
  define rows where "rows = newest_docs (filter (searchable category) docs)"
  define ds where "ds = take 1000 rows"
  have filtered: "filter_docs category True docs = filter (searchable category) docs"
    using assms(2) by (auto simp: filter_docs_def searchable_def truthy_def intro!: filter_cong split: option.splits)
  have listed: "repo_list_documents 0 1000 category True docs = (ds, length (filter (searchable category) docs))"
    by (simp add: repo_list_documents_def filtered ds_def rows_def slice_def Let_def)
  have len: "length ds = min 1000 (length (filter (searchable category) docs))"
    by (simp add: ds_def rows_def newest_docs_def min.commute)
  have ids: "distinct (map kd_id ds)" if "unique_by kd_id docs"
    using that by (simp add: ds_def rows_def newest_docs_def take_map [symmetric] distinct_sort_key distinct_map_filter unique_by_def)
  have mem: "d \<in> set docs \<and> searchable category d" if "d \<in> set ds" for d
    using that by (auto simp: ds_def rows_def newest_docs_def dest!: in_set_takeD)
  show ?thesis
  proof (cases "ds = []")
    case True
    then show ?thesis using that [of "[]"] listed len by (simp add: bm25_search_def hits_from_iff)
  next
    case False
    define scores where "scores = ke_bm25 E (map doc_tokens ds) (kb_tokenize query)"
    define hit where "hit = bm25_hit E (Max (set scores))"
    define ps where "ps = take k (sort_key (\<lambda>p. - snd p) (zip ds scores))"
    have sl: "length scores = length ds" using assms(1) by (simp add: scores_all_def scores_def)
    have run: "bm25_search E query k category docs = Inr (map hit ps)"
      using False sl by (simp add: bm25_search_def listed Let_def scores_def [symmetric] hit_def ps_def)
    have hit: "kh_id (hit p) = kd_id (fst p)" "shows_doc (hit p) (fst p)" for p
      by (simp_all add: hit_def bm25_hit_def search_hit_def shows_doc_def)
    have from_docs: "hits_from category docs (map hit ps)"
      unfolding hits_from_iff using hit(2) mem by (fastforce simp: ps_def dest!: in_set_takeD set_zip_leftD)
    have "kd_id \<circ> fst = (\<lambda>p. kh_id (hit p))" by (simp add: hit(1) comp_def)
    then have "map kh_id (map hit ps) = take k (map (kd_id \<circ> fst) (sort_key (\<lambda>p. - snd p) (zip ds scores)))"
      by (simp add: ps_def take_map comp_def)
    moreover have "map (kd_id \<circ> fst) (zip ds scores) = map kd_id ds" using sl by (simp flip: map_map)
    ultimately have "unique_by kd_id docs \<Longrightarrow> distinct (map kh_id (map hit ps))"
      using ids by (simp add: distinct_take distinct_sort_key)
    with that [OF run from_docs] show ?thesis using sl len by (simp add: ps_def)
  qed
qed

text \<open>Iterating over a set yields each element once, in some order.\<close>

definition set_iterates :: "('v, 'r) kb_env \<Rightarrow> bool" where
  "set_iterates E \<longleftrightarrow> (\<forall>xs. distinct xs \<longrightarrow> distinct (ke_set_order E xs) \<and> set (ke_set_order E xs) = set xs)"

lemma hit_of_Some: "i \<in> kh_id ` set hs \<Longrightarrow> \<exists>h \<in> set hs. hit_of i hs = Some h \<and> kh_id h = i"
proof -
  assume "i \<in> kh_id ` set hs"
  then obtain h where "find_row kh_id i (rev hs) = Some h" by (auto simp: find_row_None_iff not_Some_eq [symmetric] simp del: not_Some_eq) (metis (no_types, lifting) find_row_None_iff image_eqI not_Some_eq set_rev)
  then show ?thesis using find_row_SomeD by (fastforce simp: hit_of_def)
qed

lemma hit_of_None: "i \<notin> kh_id ` set hs \<Longrightarrow> hit_of i hs = None"
  by (simp add: hit_of_def find_row_None_iff)

lemma blend_hit_from:
  assumes "i \<in> kh_id ` set semantic \<union> kh_id ` set keyword" and "hits_from category docs semantic" and "hits_from category docs keyword"
  shows "kh_id (blend_hit E semantic keyword i) = i \<and> (\<exists>d \<in> set docs. searchable category d \<and> shows_doc (blend_hit E semantic keyword i) d)"
proof (cases "i \<in> kh_id ` set semantic")
  case True
  from hit_of_Some [OF this] obtain h where h: "h \<in> set semantic" "hit_of i semantic = Some h" "kh_id h = i" by blast
  with assms(2) obtain d where "d \<in> set docs" "searchable category d" "shows_doc h d" unfolding hits_from_iff by blast
  with h show ?thesis by (auto simp: blend_hit_def Let_def shows_doc_def)
next
  case False
  with assms(1) have "i \<in> kh_id ` set keyword" by blast
  from hit_of_Some [OF this] obtain h where h: "h \<in> set keyword" "hit_of i keyword = Some h" "kh_id h = i" by blast
  with assms(3) obtain d where "d \<in> set docs" "searchable category d" "shows_doc h d" unfolding hits_from_iff by blast
  with h hit_of_None [OF False] show ?thesis by (auto simp: blend_hit_def Let_def shows_doc_def)
qed

lemma hybrid_search_hits:
  assumes "scores_all E" and "set_iterates E" and "category \<noteq> Some []" and "unique_by kd_id docs"
  obtains hs where "hybrid_search E query q k category f threshold docs = Inr hs" and "hits_from category docs hs"
    and "distinct (map kh_id hs)" and "sorted (rev (map kh_similarity hs))" and "length hs \<le> k"
    and "k \<le> 1000 \<Longrightarrow> length hs = min k (length (filter (searchable category) docs))"
proof -
  define semantic where "semantic = similarity_search E q (max (k * 3) k) threshold category f docs"
  obtain keyword where bm: "bm25_search E query (max (k * 5) 20) category docs = Inr keyword" "hits_from category docs keyword"
    "length keyword = min (max (k * 5) 20) (min 1000 (length (filter (searchable category) docs)))" "distinct (map kh_id keyword)"
    using bm25_search_hits [OF assms(1,3)] assms(4) by metis
  define ids where "ids = ke_set_order E (remdups (map kh_id semantic @ map kh_id keyword))"
  define hs where "hs = sort_key (\<lambda>h. - kh_similarity h) (map (blend_hit E semantic keyword) ids)"
  have ids: "distinct ids" "set ids = kh_id ` set semantic \<union> kh_id ` set keyword"
    using assms(2) by (simp_all add: set_iterates_def ids_def)
  have sem: "hits_from category docs semantic" unfolding semantic_def by (rule similarity_search_from)
  have blended: "kh_id (blend_hit E semantic keyword i) = i"
    "\<exists>d \<in> set docs. searchable category d \<and> shows_doc (blend_hit E semantic keyword i) d" if "i \<in> set ids" for i
    using blend_hit_from [OF _ sem bm(2), of i E] that ids(2) by auto
  have run: "hybrid_search E query q k category f threshold docs = Inr (take k hs)"
    by (simp only: hybrid_search_def Let_def bm(1) sum.case hs_def ids_def semantic_def)
  have from_docs: "hits_from category docs (take k hs)"
    unfolding hits_from_iff using blended(2) by (auto simp: hs_def dest!: in_set_takeD)
  have same: "map kh_id (map (blend_hit E semantic keyword) ids) = ids" using blended(1) by (simp add: map_idI)
  have once: "distinct (map kh_id (take k hs))"
    unfolding take_map [symmetric] hs_def by (intro distinct_take) (simp only: distinct_sort_key same ids(1))
  have "sorted (map (\<lambda>h. - kh_similarity h) (take k hs))"
    unfolding take_map [symmetric] hs_def by (intro sorted_wrt_take sorted_sort_key)
  then have order: "sorted (rev (map kh_similarity (take k hs)))"
    by (simp add: sorted_wrt_rev sorted_wrt_map)
  have "length hs = length ids" by (simp add: hs_def)
  also have "\<dots> = card (set ids)" using ids(1) by (simp add: distinct_card)
  finally have card: "length hs = card (kh_id ` set semantic \<union> kh_id ` set keyword)" by (simp add: ids(2))
  have "kh_id ` set keyword \<subseteq> kh_id ` set semantic \<union> kh_id ` set keyword" by blast
  then have "card (set (map kh_id keyword)) \<le> length hs" unfolding card by (intro card_mono) auto
  then have lower: "length keyword \<le> length hs" using bm(4) by (simp add: distinct_card del: set_map)
  have "kh_id ` set semantic \<union> kh_id ` set keyword \<subseteq> set (map kd_id (filter (searchable category) docs))"
    using sem bm(2) unfolding hits_from_iff shows_doc_def by fastforce
  then have "length hs \<le> card (set (map kd_id (filter (searchable category) docs)))"
    unfolding card by (intro card_mono) auto
  also have "\<dots> \<le> length (filter (searchable category) docs)" using card_length [of "map kd_id (filter (searchable category) docs)"] by simp
  finally have upper: "length hs \<le> length (filter (searchable category) docs)" .
  have "k \<le> 1000 \<Longrightarrow> length (take k hs) = min k (length (filter (searchable category) docs))"
    using lower upper bm(3) by (simp add: min_def max_def split: if_splits)
  with that [OF run from_docs once order] show ?thesis by simp
qed

lemma category_param_Inr: "category_param c = Inr x \<longleftrightarrow> (case c of None \<Rightarrow> True | Some t \<Rightarrow> t \<in> set kb_categories)"
  by (auto simp: category_param_def)

lemma category_not_empty: "Inr x = category_param c \<Longrightarrow> c \<noteq> Some []"
  by (auto simp: category_param_def kb_categories_def split: if_splits)


section \<open>The cache of query vectors\<close>

text \<open>Every cached entry is what the active provider answers.\<close>

definition cache_sound :: "('v, 'r) kb_env \<Rightarrow> 'r \<Rightarrow> bool" where
  "cache_sound E c \<longleftrightarrow>
     (\<forall>R q t raw. ke_redis E = Some R \<longrightarrow> ke_now E \<le> t \<longrightarrow> rd_get R t (query_cache_key E q) c = Some raw \<longrightarrow>
        (\<exists>r. ke_read E raw = Some r \<and> compute_query_embedding E q = Inr r))"

lemma cache_get_query_sound:
  "cache_sound E c \<Longrightarrow> cache_get_query E (query_cache_key E q) c = Some r \<Longrightarrow> compute_query_embedding E q = Inr r"
  by (fastforce simp: cache_sound_def cache_get_query_def split: option.splits if_splits)

lemma cache_set_query_sound:
  assumes "\<And>R. ke_redis E = Some R \<Longrightarrow> redis_store R" and "inj (ke_hash E)" and "\<And>v f. ke_read E (ke_entry E v f) = Some (v, f)"
    and "cache_sound E c" and "compute_query_embedding E q = Inr (v, f)"
  shows "cache_sound E (cache_set_query E (query_cache_key E q) v f c)"
  unfolding cache_sound_def
proof (intro allI impI)
  fix R p t raw
  assume R: "ke_redis E = Some R" and t: "ke_now E \<le> t"
    and got: "rd_get R t (query_cache_key E p) (cache_set_query E (query_cache_key E q) v f c) = Some raw"
  show "\<exists>r. ke_read E raw = Some r \<and> compute_query_embedding E p = Inr r"
  proof (cases "ke_ttl E \<le> 0 \<or> query_cache_key E p \<noteq> query_cache_key E q")
    case True
    then have "rd_get R t (query_cache_key E p) c = Some raw"
      using got R redis_store.get_setex_other [OF assms(1) [OF R]] by (auto simp: cache_set_query_def split: if_splits)
    with assms(4) R t show ?thesis unfolding cache_sound_def by blast
  next
    case False
    then have "p = q" using assms(2) by (simp add: query_cache_key_def inj_eq)
    moreover have "raw = ke_entry E v f"
      using False got R t redis_store.get_setex [OF assms(1) [OF R]] by (auto simp: cache_set_query_def split: if_splits)
    ultimately show ?thesis using assms(3,5) by simp
  qed
qed

lemma embed_query_sound:
  assumes "\<And>R. ke_redis E = Some R \<Longrightarrow> redis_store R" and "inj (ke_hash E)" and "\<And>v f. ke_read E (ke_entry E v f) = Some (v, f)"
    and "cache_sound E (kb_cache s)" and "embed_query E q s = (r, t)"
  shows "r = compute_query_embedding E q \<and> cache_sound E (kb_cache t) \<and> kb_docs t = kb_docs s"
proof (cases "cache_get_query E (query_cache_key E q) (kb_cache s)")
  case None
  then show ?thesis
    using assms(4,5) cache_set_query_sound [OF assms(1-4), of q]
    by (cases "compute_query_embedding E q") (auto simp: embed_query_def Let_def op_eval lift_result_def split: prod.splits)
next
  case (Some a)
  with assms(4) have "compute_query_embedding E q = Inr a" by (rule cache_get_query_sound)
  with Some assms(4,5) show ?thesis by (auto simp: embed_query_def Let_def op_eval)
qed

lemma uncached_same:
  "compute_query_embedding (E\<lparr>ke_redis := x\<rparr>) = compute_query_embedding E"
  "threshold_for_provider (E\<lparr>ke_redis := x\<rparr>) = threshold_for_provider E"
  "hybrid_search (E\<lparr>ke_redis := x\<rparr>) = hybrid_search E"
  "similarity_search (E\<lparr>ke_redis := x\<rparr>) = similarity_search E"
proof -
  let ?F = "E\<lparr>ke_redis := x\<rparr>"
  have v: "vector_hit ?F = vector_hit E" by (intro ext) (simp add: vector_hit_def split: prod.split)
  show s: "similarity_search ?F = similarity_search E"
    by (intro ext) (simp add: similarity_search_def match_documents_def Let_def v)
  have h: "bm25_hit ?F = bm25_hit E" by (intro ext) (simp add: bm25_hit_def)
  have b: "bm25_search ?F = bm25_search E" by (intro ext) (simp add: bm25_search_def Let_def h split: prod.split)
  have l: "blend_hit ?F = blend_hit E" by (intro ext) (simp add: blend_hit_def Let_def split: option.split)
  show "hybrid_search ?F = hybrid_search E"
    by (intro ext) (simp add: hybrid_search_def Let_def s b l split: sum.split)
  show "compute_query_embedding ?F = compute_query_embedding E"
    by (intro ext) (simp add: compute_query_embedding_def split: embedding_provider.split sum.split)
  show "threshold_for_provider ?F = threshold_for_provider E"
    by (simp add: threshold_for_provider_def split: embedding_provider.split)
qed

lemma cache_sound_later:
  assumes "cache_sound E c" and "ke_now E \<le> now"
  shows "cache_sound (E\<lparr>ke_now := now\<rparr>) c"
proof -
  have "compute_query_embedding (E\<lparr>ke_now := now\<rparr>) = compute_query_embedding E"
    by (intro ext) (simp add: compute_query_embedding_def split: embedding_provider.split sum.split)
  moreover have "query_cache_key (E\<lparr>ke_now := now\<rparr>) = query_cache_key E" by (intro ext) (simp add: query_cache_key_def)
  ultimately show ?thesis using assms unfolding cache_sound_def by simp (meson order_trans)
qed

lemma search_uncached:
  "text_normalize (ke_text E) query \<noteq> [] \<Longrightarrow> embed_query E (text_normalize (ke_text E) query) s = (x, s') \<Longrightarrow>
   search_documents E query k category use_hybrid s =
     (case x of Inl e \<Rightarrow> Inl e
      | Inr (v, f) \<Rightarrow>
          if use_hybrid then hybrid_search E (text_normalize (ke_text E) query) v k category f (threshold_for_provider E) (kb_docs s')
          else Inr (similarity_search E v k (threshold_for_provider E) category f (kb_docs s')), s')"
  by (cases x) (auto simp: search_documents_def Let_def op_eval lift_result_def split: sum.split)


end
