(* ===== verification/KnowledgeRuns.thy ===== *)
theory KnowledgeRuns
  imports KnowledgeSearch
begin

text \<open>
  Runs of knowledge-base requests: the vectors of a document follow its text, its row keeps the shape of
  the response schema, and the two ways in which the code loses these invariants, an exhausted quota and
  an unchecked import.
\<close>

section \<open>Vectors and texts\<close>

definition doc_vectors :: "'v kb_doc \<Rightarrow> 'v vectors" where
  "doc_vectors d = \<lparr>ve_gemini = kd_gemini d, ve_jina = kd_jina d, ve_ollama = kd_ollama d, ve_bge = kd_bge d\<rparr>"

text \<open>The vectors a provider setting gives a text; \<open>F\<close> is the embedding of each vector space.\<close>

definition provider_vectors :: "embedding_provider \<Rightarrow> (string \<Rightarrow> string \<Rightarrow> 'v) \<Rightarrow> string \<Rightarrow> 'v vectors" where
  "provider_vectors P F t =
     (case P of
        Gemini \<Rightarrow> no_vectors\<lparr>ve_gemini := Some (F ''match_documents'' t), ve_jina := Some (F ''match_documents_jina'' t)\<rparr>
      | Ollama \<Rightarrow> no_vectors\<lparr>ve_ollama := Some (F ''match_documents_ollama'' t)\<rparr>
      | Bge \<Rightarrow> no_vectors\<lparr>ve_bge := Some (F ''match_documents_bge'' t)\<rparr>)"

definition vectors_current :: "embedding_provider \<Rightarrow> (string \<Rightarrow> string \<Rightarrow> 'v) \<Rightarrow> 'v kb_doc \<Rightarrow> bool" where
  "vectors_current P F d \<longleftrightarrow> doc_vectors d = provider_vectors P F (embedding_text (kd_title d) (kd_content d))"

text \<open>The services answer with these vectors or fail, and Gemini is never exhausted.\<close>

definition answers :: "(string \<Rightarrow> 'v) \<Rightarrow> (string \<Rightarrow> llm_error + 'v) \<Rightarrow> (string list \<Rightarrow> llm_error + 'v list) \<Rightarrow> bool" where
  "answers f g gs \<longleftrightarrow> (\<forall>t v. g t = Inr v \<longrightarrow> v = f t) \<and> (\<forall>ts vs. gs ts = Inr vs \<longrightarrow> vs = map f ts)"

definition faithful :: "embedding_provider \<Rightarrow> (string \<Rightarrow> string \<Rightarrow> 'v) \<Rightarrow> ('v, 'r) kb_env \<Rightarrow> bool" where
  "faithful P F E \<longleftrightarrow> ke_provider E = P \<and>
     answers (F ''match_documents'') (ke_gemini E) (ke_gemini_batch E) \<and>
     answers (F ''match_documents_jina'') (ke_jina E ''retrieval.passage'') (ke_jina_batch E ''retrieval.passage'') \<and>
     answers (F ''match_documents_ollama'') (ke_ollama E) (ke_ollama_batch E) \<and>
     answers (F ''match_documents_bge'') (ke_bge E) (ke_bge_batch E) \<and>
     (\<forall>t e. ke_gemini E t = Inl e \<longrightarrow> \<not> quota_error e)"

lemma embed_document_faithful:
  "faithful P F E \<Longrightarrow> embed_document E title content = Inr v \<Longrightarrow> v = provider_vectors P F (embedding_text title content)"
  by (auto simp: faithful_def answers_def embed_document_def provider_vectors_def Let_def
      split: embedding_provider.splits sum.splits if_splits)

lemma batch_vectors_faithful:
  assumes "faithful P F E" and "batch_vectors E ts = Inr vs"
  shows "vs = map (provider_vectors P F) ts"
proof (cases P)
  case Gemini
  with assms have "vs = map (\<lambda>(v, w). no_vectors\<lparr>ve_gemini := Some v, ve_jina := Some w\<rparr>)
      (zip (map (F ''match_documents'') ts) (map (F ''match_documents_jina'') ts))"
    by (auto simp: faithful_def answers_def batch_vectors_def split: sum.splits if_splits)
  with Gemini show ?thesis by (simp add: zip_map_map zip_same_conv_map provider_vectors_def)
next
  case Ollama
  with assms obtain xs where x: "ke_ollama_batch E ts = Inr xs" "vs = map (\<lambda>v. no_vectors\<lparr>ve_ollama := Some v\<rparr>) xs"
    by (auto simp: faithful_def batch_vectors_def map_sum_def split: sum.splits)
  with assms(1) have "xs = map (F ''match_documents_ollama'') ts" by (simp add: faithful_def answers_def)
  with x Ollama show ?thesis by (simp add: provider_vectors_def)
next
  case Bge
  with assms obtain xs where x: "ke_bge_batch E ts = Inr xs" "vs = map (\<lambda>v. no_vectors\<lparr>ve_bge := Some v\<rparr>) xs"
    by (auto simp: faithful_def batch_vectors_def map_sum_def split: sum.splits)
  with assms(1) have "xs = map (F ''match_documents_bge'') ts" by (simp add: faithful_def answers_def)
  with x Bge show ?thesis by (simp add: provider_vectors_def)
qed

lemma sequence_Inr: "sequence rs = Inr xs \<Longrightarrow> rs = map Inr xs"
  by (induction rs arbitrary: xs) (auto simp: map_sum_def split: sum.splits)

lemma new_doc_fields:
  "new_doc E i r v = Inr d \<Longrightarrow> kr_title r = JStr (kd_title d) \<and> kr_content r = JStr (kd_content d) \<and> doc_vectors d = v \<and> kd_id d = i \<and>
   kr_category r = JStr (kd_category d) \<and> kd_active d \<and> kd_created d = ke_now E \<and> kd_metadata d = kr_metadata r \<and>
   kr_source r = (case kd_source d of None \<Rightarrow> JNull | Some t \<Rightarrow> JStr t)"
  by (auto simp: new_doc_def doc_vectors_def text_column_def content_column_def nullable_column_def map_sum_def
      split: sum.splits if_splits json.splits)

lemma new_doc_current:
  "new_doc E i r (provider_vectors P F (embedding_text (py_str (kr_title r)) (py_str (kr_content r)))) = Inr d \<Longrightarrow> vectors_current P F d"
  by (auto simp: vectors_current_def py_str_def dest!: new_doc_fields)

lemma update_current:
  assumes "vectors_current P F d" and "\<not> is_null (ku_title u)" and "\<not> is_null (ku_content u)"
    and "v = (if ku_title u \<noteq> Unset \<or> ku_content u \<noteq> Unset
              then provider_vectors P F (embedding_text (patched_text (ku_title u) (kd_title d)) (patched_text (ku_content u) (kd_content d)))
              else no_vectors)"
  shows "vectors_current P F (apply_kb_update u v d)"
proof -
  have p: "patched_text q old = patch_val q old" if "\<not> is_null q" for q old
    using that by (cases q) (simp_all add: patched_text_def)
  have same: "patch_val Unset x = x" for x :: string by simp
  show ?thesis
    using assms p [OF assms(2)] p [OF assms(3)]
    by (cases P; cases "ku_title u"; cases "ku_content u")
      (auto simp: vectors_current_def doc_vectors_def provider_vectors_def no_vectors_def apply_kb_update_def newer_def)
qed

text \<open>A request that succeeds does nothing to the table, or one of these.\<close>

lemma kb_request_docs:
  assumes "kb_request E u c s = (Inr r, t)"
  obtains (same) "kb_docs t = kb_docs s"
  | (created) k d v where "embed_document E (py_str (kr_title k)) (py_str (kr_content k)) = Inr v"
      "new_doc E (ke_ids E 0) k v = Inr d" "kb_docs t = kb_docs s @ [d]"
      "\<exists>x. kb_response_of d = Inr x"
  | (imported) rows vs ds where "batch_vectors E (map (\<lambda>r. embedding_text (py_str (kr_title r)) (py_str (kr_content r))) rows) = Inr vs"
      "length rows = length vs" "map (\<lambda>(i, r, v). new_doc E (ke_ids E i) r v) (enumerate 0 (zip rows vs)) = map Inr ds"
      "kb_docs t = kb_docs s @ ds" "\<exists>raw filename category. c = ImportFile raw filename category"
  | (updated) i p v d where "kb_by_id i s = Some d" "\<not> is_null (ku_title p)" "\<not> is_null (ku_content p)"
      "update_vectors E p d = Inr v"
      "kb_docs t = upd_row kd_id i (apply_kb_update p v) (kb_docs s)" "\<exists>x. kb_response_of (apply_kb_update p v d) = Inr x"
  | (deleted) i where "kb_docs t = upd_row kd_id i (\<lambda>d. d\<lparr>kd_active := False\<rparr>) (kb_docs s)"
proof (cases c)
  case (ListDocs skip limit category active_only)
  with assms show ?thesis
    by (intro same) (auto simp: kb_request_Inr replying_Inr admin_only_Inr op_simps lift_Inr list_documents_def ensure_kb_staff_def split: prod.splits)
next
  case (CreateDoc x)
  with assms obtain d v where "embed_document E (py_str (kr_title (normalize_payload (ke_text E) (create_row x)))) (py_str (kr_content (normalize_payload (ke_text E) (create_row x)))) = Inr v"
    "new_doc E (ke_ids E 0) (normalize_payload (ke_text E) (create_row x)) v = Inr d" "kb_docs t = kb_docs s @ [d]"
    "\<exists>x. kb_response_of d = Inr x"
    by (auto simp: kb_request_Inr replying_Inr admin_only_Inr op_simps lift_Inr create_document_def parse_kb_create_def ensure_kb_staff_def Let_def
        repo_kb_create_def insert_docs_def simp del: lift_result_eq split: if_splits)
  then show ?thesis by (rule created)
next
  case Statistics
  with assms show ?thesis
    by (intro same) (auto simp: kb_request_Inr replying_Inr admin_only_Inr op_simps lift_Inr kb_statistics_of_def ensure_kb_staff_def)
next
  case (ImportFile raw filename category)
  with assms obtain rows vs ds where "batch_vectors E (map (\<lambda>r. embedding_text (py_str (kr_title r)) (py_str (kr_content r))) rows) = Inr vs"
    "length rows = length vs" "sequence (map (\<lambda>(i, r, v). new_doc E (ke_ids E i) r v) (enumerate 0 (zip rows vs))) = Inr ds"
    "kb_docs t = kb_docs s @ ds"
    by (auto simp: kb_request_Inr replying_Inr admin_only_Inr op_simps lift_Inr bulk_import_def ensure_kb_staff_def
        repo_create_batch_def insert_docs_def simp del: lift_result_eq)
  then show ?thesis using sequence_Inr ImportFile by (intro imported) auto
next
  case (GetDoc i)
  with assms show ?thesis
    by (intro same) (auto simp: kb_request_Inr replying_Inr admin_only_Inr op_simps lift_Inr get_document_def ensure_kb_staff_def)
next
  case (UpdateDoc i p)
  with assms obtain v d where "kb_by_id i s = Some d" "\<not> is_null (ku_title (normalize_update (ke_text E) p))" "\<not> is_null (ku_content (normalize_update (ke_text E) p))"
      "update_vectors E (normalize_update (ke_text E) p) d = Inr v"
      "kb_docs t = upd_row kd_id i (apply_kb_update (normalize_update (ke_text E) p) v) (kb_docs s)"
      "\<exists>x. kb_response_of (apply_kb_update (normalize_update (ke_text E) p) v d) = Inr x"
    by (auto simp: kb_request_Inr replying_Inr admin_only_Inr op_simps lift_Inr update_document_def parse_kb_update_def ensure_kb_staff_def Let_def
        repo_kb_update_def simp del: lift_result_eq split: if_splits)
  then show ?thesis by (rule updated)
next
  case (DeleteDoc i)
  with assms have "kb_docs t = upd_row kd_id i (\<lambda>d. d\<lparr>kd_active := False\<rparr>) (kb_docs s)"
    by (auto simp: kb_request_Inr replying_Inr admin_only_Inr op_simps lift_Inr delete_document_def ensure_kb_staff_def repo_soft_delete_def
        split: if_splits)
  then show ?thesis by (rule deleted)
next
  case (SearchDocs query k category use_hybrid)
  with assms show ?thesis
    by (intro same) (auto simp: kb_request_Inr replying_Inr op_simps lift_Inr search_documents_def Let_def split: if_splits dest!: embed_query_docs)
qed

section \<open>Runs of requests\<close>

fun kb_run :: "(('v, 'r) kb_env \<times> user \<times> kb_call) list \<Rightarrow> ('v, 'r) kb_state \<Rightarrow> ('v, 'r) kb_state" where
  "kb_run [] s = s"
| "kb_run ((E, u, c) # steps) s = kb_run steps (snd (kb_request E u c s))"

lemma kb_request_failed: "kb_request E u c s = (Inl e, t) \<Longrightarrow> kb_docs t = kb_docs s"
  by (auto simp: kb_request_def split: prod.splits sum.splits)

text \<open>Every request draws ids that were never used.\<close>

definition fresh_for :: "('v, 'r) kb_env \<Rightarrow> 'v kb_doc list \<Rightarrow> bool" where
  "fresh_for E docs \<longleftrightarrow> inj (ke_ids E) \<and> range (ke_ids E) \<inter> kd_id ` set docs = {}"

fun fresh_ids :: "(('v, 'r) kb_env \<times> user \<times> kb_call) list \<Rightarrow> ('v, 'r) kb_state \<Rightarrow> bool" where
  "fresh_ids [] s \<longleftrightarrow> True"
| "fresh_ids ((E, u, c) # steps) s \<longleftrightarrow> fresh_for E (kb_docs s) \<and> fresh_ids steps (snd (kb_request E u c s))"

lemma kb_step_keeps:
  assumes "\<And>r t. kb_request E u c s = (Inr r, t) \<Longrightarrow> Q (kb_docs t)" and "Q (kb_docs s)"
  shows "Q (kb_docs (snd (kb_request E u c s)))"
proof -
  obtain r t where "kb_request E u c s = (r, t)" by force
  then show ?thesis using assms kb_request_failed [of E u c s _ t] by (cases r) auto
qed

lemma kb_run_keeps:
  assumes "\<And>E u c s r t. (E, u, c) \<in> set steps \<Longrightarrow> Q (kb_docs s) \<Longrightarrow> kb_request E u c s = (Inr r, t) \<Longrightarrow> Q (kb_docs t)"
    and "Q (kb_docs s)"
  shows "Q (kb_docs (kb_run steps s))"
  using assms
proof (induction steps arbitrary: s)
  case (Cons step steps)
  obtain E u c where step: "step = (E, u, c)" by (cases step)
  have "Q (kb_docs t)" if "kb_request E u c s = (Inr r, t)" for r t
    using Cons.prems(1) [OF _ Cons.prems(2) that] step by simp
  then have "Q (kb_docs (snd (kb_request E u c s)))" using Cons.prems(2) by (rule kb_step_keeps)
  moreover have "Q (kb_docs t)" if "(E, u, c) \<in> set steps" "Q (kb_docs s)" "kb_request E u c s = (Inr r, t)" for E u c s r t
    using Cons.prems(1) [OF _ that(2,3)] that(1) by simp
  ultimately show ?case unfolding step kb_run.simps by (rule Cons.IH [rotated])
qed simp

lemma kb_fresh_run_keeps:
  assumes "\<And>E u c s r t. (E, u, c) \<in> set steps \<Longrightarrow> fresh_for E (kb_docs s) \<Longrightarrow> Q (kb_docs s) \<Longrightarrow>
      kb_request E u c s = (Inr r, t) \<Longrightarrow> Q (kb_docs t)"
    and "Q (kb_docs s)" and "fresh_ids steps s"
  shows "Q (kb_docs (kb_run steps s))"
  using assms
proof (induction steps arbitrary: s)
  case (Cons step steps)
  obtain E u c where step: "step = (E, u, c)" by (cases step)
  have fresh: "fresh_for E (kb_docs s)" "fresh_ids steps (snd (kb_request E u c s))"
    using Cons.prems(3) by (simp_all add: step)
  have "Q (kb_docs t)" if "kb_request E u c s = (Inr r, t)" for r t
    using Cons.prems(1) [OF _ fresh(1) Cons.prems(2) that] step by simp
  then have "Q (kb_docs (snd (kb_request E u c s)))" using Cons.prems(2) by (rule kb_step_keeps)
  note start = this
  have later: "Q (kb_docs t)" if "(E, u, c) \<in> set steps" "fresh_for E (kb_docs s)" "Q (kb_docs s)" "kb_request E u c s = (Inr r, t)" for E u c s r t
    using Cons.prems(1) [OF _ that(2-4)] that(1) by simp
  show ?case unfolding step kb_run.simps by (rule Cons.IH [OF later start fresh(2)])
qed simp

lemma list_all_upd_row: "list_all P rows \<Longrightarrow> (\<And>d. d \<in> set rows \<Longrightarrow> P d \<Longrightarrow> key d = i \<Longrightarrow> P (f d)) \<Longrightarrow> list_all P (upd_row key i f rows)"
  by (auto simp: list_all_iff upd_row_def)

lemma update_vectors_faithful:
  assumes "faithful P F E" and "update_vectors E p d = Inr v" and "vectors_current P F d"
    and "\<not> is_null (ku_title p)" and "\<not> is_null (ku_content p)"
  shows "vectors_current P F (apply_kb_update p v d)"
  using assms by (intro update_current) (auto simp: update_vectors_def split: if_splits dest!: embed_document_faithful)

lemma apply_kb_update_id [simp]: "kd_id (apply_kb_update p v d) = kd_id d"
  by (simp add: apply_kb_update_def)

text \<open>The documents an import adds.\<close>

lemma imported_doc:
  assumes "map (\<lambda>(i, r, v). new_doc E (ke_ids E i) r v) (enumerate 0 (zip rows vs)) = map Inr ds" and "length rows = length vs"
    and "n < length rows"
  shows "n < length ds \<and> new_doc E (ke_ids E n) (rows ! n) (vs ! n) = Inr (ds ! n)"
proof -
  have "length ds = length rows" using arg_cong [OF assms(1), of length] assms(2) by simp
  moreover have "map (\<lambda>(i, r, v). new_doc E (ke_ids E i) r v) (enumerate 0 (zip rows vs)) ! n = map Inr ds ! n"
    by (simp only: assms(1))
  ultimately show ?thesis using assms(2,3) by (simp add: nth_enumerate_eq)
qed

lemma imported_length:
  "map (\<lambda>(i, r, v). new_doc E (ke_ids E i) r v) (enumerate 0 (zip rows vs)) = map Inr ds \<Longrightarrow> length rows = length vs \<Longrightarrow> length ds = length rows"
  by (drule arg_cong [of _ _ length]) simp

lemma imported_ids:
  assumes "map (\<lambda>(i, r, v). new_doc E (ke_ids E i) r v) (enumerate 0 (zip rows vs)) = map Inr ds" and "length rows = length vs"
  shows "map kd_id ds = map (ke_ids E) [0..<length rows]"
proof -
  have "kd_id (ds ! n) = ke_ids E n" if "n < length rows" for n
    using imported_doc [OF assms that] new_doc_fields by blast
  then show ?thesis using imported_length [OF assms] by (intro nth_equalityI) simp_all
qed

lemma kb_step_current:
  assumes "faithful P F E" and "fresh_for E (kb_docs s)" and "unique_by kd_id (kb_docs s) \<and> list_all (vectors_current P F) (kb_docs s)"
    and "kb_request E u c s = (Inr r, t)"
  shows "unique_by kd_id (kb_docs t) \<and> list_all (vectors_current P F) (kb_docs t)"
  using assms(4)
proof (cases rule: kb_request_docs)
  case same
  with assms(3) show ?thesis by simp
next
  case (created k d v)
  with assms(1) have "vectors_current P F d" by (auto intro!: new_doc_current dest!: embed_document_faithful)
  moreover have "kd_id d = ke_ids E 0" using created(2) new_doc_fields by blast
  then have "kd_id d \<notin> kd_id ` set (kb_docs s)" using assms(2) by (auto simp: fresh_for_def)
  ultimately show ?thesis using assms(3) created(3) by (simp add: unique_by_def)
next
  case (imported rows vs ds)
  note doc = imported_doc [OF imported(3,2)]
  note len = imported_length [OF imported(3,2)]
  from batch_vectors_faithful [OF assms(1) imported(1)] have vs: "vs = map (\<lambda>r. provider_vectors P F (embedding_text (py_str (kr_title r)) (py_str (kr_content r)))) rows"
    by simp
  have "list_all (vectors_current P F) ds"
    unfolding list_all_length using doc len by (auto intro!: new_doc_current simp: vs)
  moreover note imported_ids [OF imported(3,2)]
  then have "set (map kd_id ds) = set (map (ke_ids E) [0..<length rows])" "distinct (map kd_id ds)"
    using assms(2) by (simp_all only: fresh_for_def distinct_map inj_on_def) auto
  ultimately show ?thesis using assms(2,3) imported(4) by (auto simp: unique_by_def fresh_for_def)
next
  case (updated i p v d)
  have "vectors_current P F (apply_kb_update p v e)" if "e \<in> set (kb_docs s)" "kd_id e = i" "vectors_current P F e" for e
  proof -
    have "e = d" using that(1,2) updated(1) assms(3) find_row_unique [of kd_id "kb_docs s" e] by (simp add: kb_by_id_def)
    then show ?thesis using update_vectors_faithful [OF assms(1) updated(4)] updated(2,3) that(3) by simp
  qed
  then show ?thesis using assms(3) updated(5) by (simp add: list_all_upd_row unique_upd_row)
next
  case (deleted i)
  then show ?thesis using assms(3)
    by (auto simp: unique_upd_row vectors_current_def doc_vectors_def intro!: list_all_upd_row)
qed


section \<open>Rows that can be shown\<close>

definition doc_typed :: "'v kb_doc \<Rightarrow> bool" where
  "doc_typed d \<longleftrightarrow> (case kb_response_of d of Inr x \<Rightarrow> True | Inl e \<Rightarrow> False)"

lemma doc_typed_iff: "doc_typed d \<longleftrightarrow> (\<exists>x. kb_response_of d = Inr x)"
  by (auto simp: doc_typed_def split: sum.splits)

definition is_import :: "kb_call \<Rightarrow> bool" where
  "is_import c \<longleftrightarrow> (case c of ImportFile raw filename category \<Rightarrow> True | _ \<Rightarrow> False)"

text \<open>The conditions of the response schema on a row.\<close>

lemma doc_typed_fields:
  "doc_typed d \<longleftrightarrow> kb_fields_ok (kd_title d) (kd_content d) (kd_category d) (kd_source d) \<and> (\<exists>m. or_empty (kd_metadata d) = JObj m)"
  by (auto simp: doc_typed_def kb_response_of_def split: json.splits)

lemma update_typed:
  assumes "doc_typed d" and "doc_typed (apply_kb_update p v d)" and "doc_typed e"
  shows "doc_typed (apply_kb_update p v e)"
proof -
  let ?d = "apply_kb_update p v d" and ?e = "apply_kb_update p v e"
  have val: "patch_val q x = x \<or> patch_val q x = patch_val q y" for q and x y :: string by (cases q) auto
  have "kd_title ?e = kd_title e \<or> kd_title ?e = kd_title ?d" "kd_content ?e = kd_content e \<or> kd_content ?e = kd_content ?d"
    "kd_category ?e = kd_category e \<or> kd_category ?e = kd_category ?d"
    using val by (simp_all add: apply_kb_update_def)
  moreover have "kd_source ?e = kd_source e \<or> kd_source ?e = kd_source ?d"
    by (cases "ku_source p") (simp_all add: apply_kb_update_def)
  moreover have "kd_metadata ?e = kd_metadata e \<or> kd_metadata ?e = kd_metadata ?d"
    by (cases "ku_metadata p") (simp_all add: apply_kb_update_def)
  ultimately show ?thesis using assms unfolding doc_typed_fields kb_fields_ok_def by (elim disjE) simp_all
qed

lemma kb_step_typed:
  assumes "list_all doc_typed (kb_docs s)" and "\<not> is_import c" and "kb_request E u c s = (Inr r, t)"
  shows "list_all doc_typed (kb_docs t)"
  using assms(3)
proof (cases rule: kb_request_docs)
  case (updated i p v d)
  have "d \<in> set (kb_docs s)" using updated(1) find_row_SomeD by (fastforce simp: kb_by_id_def)
  then have "doc_typed d" using assms(1) by (simp add: list_all_iff)
  moreover have "doc_typed (apply_kb_update p v d)" using updated(6) by (simp add: doc_typed_iff)
  ultimately have "doc_typed (apply_kb_update p v e)" if "e \<in> set (kb_docs s)" for e
    using update_typed [of d p v e] that assms(1) by (simp add: list_all_iff)
  then show ?thesis using assms(1) updated(5) by (simp add: list_all_upd_row)
next
  case (deleted i)
  then show ?thesis using assms(1) by (auto simp: doc_typed_fields intro!: list_all_upd_row)
qed (use assms(1,2) in \<open>auto simp: doc_typed_iff is_import_def\<close>)

lemma sequence_total: "list_all (\<lambda>r. \<exists>x. r = Inr x) rs \<Longrightarrow> \<exists>xs. sequence rs = Inr xs"
  by (induction rs) auto

lemma list_request:
  assumes "is_admin u" and "category_param category = Inr ()" and "1 \<le> limit" and "limit \<le> 100"
  shows "fst (kb_request E u (ListDocs skip limit category active_only) s) =
    map_sum id (\<lambda>items. Page (make_page skip limit items (length (filter_docs category active_only (kb_docs s)))))
      (sequence (map kb_response_of (slice skip limit (newest_docs (filter_docs category active_only (kb_docs s))))))"
proof -
  have "is_staff u" using assms(1) by (simp add: is_admin_def is_staff_def)
  then show ?thesis
    using assms
    by (simp add: kb_request_def op_eval admin_only_def lift_result_def replying_def list_documents_def ensure_kb_staff_def
        repo_list_documents_def Let_def map_sum_def split: sum.split)
qed

text \<open>
  C39. The rows of the knowledge base are well typed: without file imports every row keeps the shape the
  response schema asks for, whatever is created, edited and deleted, and so every listing an admin asks
  for succeeds.
\<close>
theorem kb_rows_typed:
  assumes "list_all (\<lambda>(E, u, c). \<not> is_import c) steps" and "is_admin a" and "category_param category = Inr ()"
    and "1 \<le> limit" and "limit \<le> 100"
  shows "\<exists>items. fst (kb_request E a (ListDocs skip limit category active_only) (kb_run steps \<lparr>kb_docs = [], kb_cache = cache\<rparr>)) = Inr (Page items)"
proof -
  let ?s = "kb_run steps \<lparr>kb_docs = [], kb_cache = cache\<rparr>"
  have "\<not> is_import c" if "(E, u, c) \<in> set steps" for E u c
    using assms(1) that by (fastforce simp: list_all_iff)
  then have "list_all doc_typed (kb_docs ?s)"
    using kb_step_typed by (intro kb_run_keeps [where Q = "list_all doc_typed"]) (blast, simp)
  then have "list_all (\<lambda>r. \<exists>x. r = Inr x) (map kb_response_of (slice skip limit (newest_docs (filter_docs category active_only (kb_docs ?s)))))"
    by (auto simp: list_all_iff doc_typed_iff slice_def newest_docs_def filter_docs_def dest!: in_set_takeD in_set_dropD)
  from sequence_total [OF this] obtain xs where
    "sequence (map kb_response_of (slice skip limit (newest_docs (filter_docs category active_only (kb_docs ?s))))) = Inr xs" ..
  then show ?thesis unfolding list_request [OF assms(2-5)] by simp
qed

text \<open>The same conditions on a record of an imported file.\<close>

definition row_typed :: "kb_row \<Rightarrow> bool" where
  "row_typed r \<longleftrightarrow>
     (case (kr_title r, kr_content r, kr_category r) of
        (JStr title, JStr content, JStr category) \<Rightarrow>
          kb_fields_ok title content category (case kr_source r of JStr x \<Rightarrow> Some x | _ \<Rightarrow> None)
      | _ \<Rightarrow> False) \<and>
     (case or_empty (kr_metadata r) of JObj m \<Rightarrow> True | _ \<Rightarrow> False)"

lemma new_doc_typed: "new_doc E i r v = Inr d \<Longrightarrow> doc_typed d \<longleftrightarrow> row_typed r"
  by (drule new_doc_fields) (auto simp: doc_typed_fields row_typed_def split: json.splits option.splits)

lemma untyped_response: "\<not> doc_typed d \<Longrightarrow> kb_response_of d = Inl schema_error"
  by (auto simp: doc_typed_def kb_response_of_def split: json.splits if_splits)

lemma untyped_sequence: "d \<in> set ds \<Longrightarrow> \<not> doc_typed d \<Longrightarrow> sequence (map kb_response_of ds) = Inl schema_error"
proof (induction ds)
  case (Cons e ds)
  then show ?case using untyped_response [of e] by (cases "doc_typed e") (auto simp: doc_typed_iff)
qed simp

lemma import_request:
  assumes "parse_import (ke_text E) raw (if truthy filename then the filename else ''upload.txt'') category = Inr rows"
    and "kb_request E u (ImportFile raw filename category) s = (Inr r, t)"
  obtains vs ds where "length rows = length vs" "map (\<lambda>(i, r, v). new_doc E (ke_ids E i) r v) (enumerate 0 (zip rows vs)) = map Inr ds"
    "kb_docs t = kb_docs s @ ds"
proof -
  from assms obtain vs ds where "length rows = length vs"
    "sequence (map (\<lambda>(i, r, v). new_doc E (ke_ids E i) r v) (enumerate 0 (zip rows vs))) = Inr ds" "kb_docs t = kb_docs s @ ds"
    by (auto simp: kb_request_Inr replying_Inr admin_only_Inr op_simps lift_Inr bulk_import_def ensure_kb_staff_def
        repo_create_batch_def insert_docs_def simp del: lift_result_eq)
  then show ?thesis using sequence_Inr that by blast
qed

text \<open>
  C40. One imported record takes the listing down: an import stores what the file says and succeeds, also
  for a record whose category is not in the list, or with an empty title or content, or metadata that
  is no object; from then on reading that document and listing any page it is on fail with the server
  error of the response schema.
\<close>
theorem kb_import_blocks_listing:
  assumes "parse_import (ke_text E) raw (if truthy filename then the filename else ''upload.txt'') category = Inr rows"
    and "kb_request E u (ImportFile raw filename category) s = (Inr r, t)" and "fresh_for E (kb_docs s)"
    and "n < length rows" and "\<not> row_typed (rows ! n)"
    and "is_admin a" and "category_param shown = Inr ()" and "1 \<le> limit" and "limit \<le> 100"
    and "ke_ids E n \<in> set (map kd_id (slice skip limit (newest_docs (filter_docs shown active_only (kb_docs t)))))"
  shows "fst (kb_request F a (GetDoc (ke_ids E n)) t) = Inl schema_error \<and>
    fst (kb_request F a (ListDocs skip limit shown active_only) t) = Inl schema_error \<and> response_status schema_error = 500"
proof -
  obtain vs ds where i: "length rows = length vs"
    "map (\<lambda>(i, r, v). new_doc E (ke_ids E i) r v) (enumerate 0 (zip rows vs)) = map Inr ds" "kb_docs t = kb_docs s @ ds"
    using import_request [OF assms(1,2)] .
  note doc = imported_doc [OF i(2,1) assms(4)]
  then have bad: "\<not> doc_typed (ds ! n)" and id: "kd_id (ds ! n) = ke_ids E n"
    using new_doc_typed assms(5) new_doc_fields by blast+
  have ids: "map kd_id ds = map (ke_ids E) [0..<length rows]" by (rule imported_ids [OF i(2,1)])
  then have "unique_by kd_id ds"
    using assms(3) by (simp add: unique_by_def fresh_for_def distinct_map inj_on_def)
  then have found: "find_row kd_id (ke_ids E n) ds = Some (ds ! n)" using find_row_unique [of kd_id ds "ds ! n"] doc id by simp
  have old: "ke_ids E n \<notin> kd_id ` set (kb_docs s)" using assms(3) by (auto simp: fresh_for_def)
  have "kb_by_id (ke_ids E n) t = Some (ds ! n)"
    using found old by (simp add: kb_by_id_def i(3) find_row_append find_row_None_iff [THEN iffD2])
  then have get: "fst (kb_request F a (GetDoc (ke_ids E n)) t) = Inl schema_error"
    using assms(6) untyped_response [OF bad]
    by (simp add: kb_request_def op_eval admin_only_def replying_def get_document_def ensure_kb_staff_def lift_result_def is_staff_def is_admin_def)
  from assms(10) obtain d where d: "d \<in> set (slice skip limit (newest_docs (filter_docs shown active_only (kb_docs t))))" "kd_id d = ke_ids E n"
    by auto
  then have "d \<in> set (kb_docs t)" by (auto simp: slice_def newest_docs_def filter_docs_def dest!: in_set_takeD in_set_dropD)
  with d(2) old have "d \<in> set ds" unfolding i(3) by (metis Un_iff image_eqI set_append)
  with \<open>unique_by kd_id ds\<close> found d(2) have "d = ds ! n" using find_row_unique [of kd_id ds d] by simp
  with untyped_sequence [OF d(1)] bad have "fst (kb_request F a (ListDocs skip limit shown active_only) t) = Inl schema_error"
    unfolding list_request [OF assms(6-9)] by simp
  with get show ?thesis by (simp add: schema_error_def)
qed

section \<open>An exhausted quota\<close>

lemma sort_key_map: "sort_key k (map f xs) = map f (sort_key (k \<circ> f) xs)"
proof (induction xs)
  case (Cons x xs)
  have "insort_key k (f y) (map f ys) = map f (insort_key (k \<circ> f) y ys)" for y ys by (induction ys) auto
  with Cons show ?case by (simp add: comp_def)
qed simp

text \<open>
  An edit under an exhausted Gemini quota succeeds and leaves the old vector in place: the document
  has its new content, and every later search in the Gemini space ranks it, with the same similarity, by
  the text it no longer has.
\<close>
lemma kb_quota_keeps_stale_vector:
  assumes "ke_provider E = Gemini" and "\<And>x. \<exists>e. ke_gemini E x = Inl e \<and> quota_error e"
    and "kb_request E u (UpdateDoc i \<lparr>ku_title = Unset, ku_content = Val text_new, ku_category = Unset, ku_source = Unset,
       ku_metadata = Unset, ku_active = Unset\<rparr>) s = (Inr r, t)"
  shows "\<exists>d. kb_by_id i s = Some d \<and>
    (\<exists>w. kb_by_id i t = Some (d\<lparr>kd_content := text_normalize (ke_text E) text_new, kd_jina := w\<rparr>)) \<and>
    map (\<lambda>h. (kh_id h, kh_similarity h)) (match_documents F ''match_documents'' q threshold k category (kb_docs t)) =
    map (\<lambda>h. (kh_id h, kh_similarity h)) (match_documents F ''match_documents'' q threshold k category (kb_docs s))"
proof -
  let ?p = "\<lparr>ku_title = Unset, ku_content = Val text_new, ku_category = Unset, ku_source = Unset, ku_metadata = Unset, ku_active = Unset\<rparr>"
  let ?n = "normalize_update (ke_text E) ?p"
  from assms(3) obtain d v where d: "kb_by_id i s = Some d" "update_vectors E ?n d = Inr v"
    "kb_docs t = upd_row kd_id i (apply_kb_update ?n v) (kb_docs s)"
    by (auto simp: kb_request_Inr replying_Inr admin_only_Inr op_simps lift_Inr update_document_def parse_kb_update_def ensure_kb_staff_def Let_def
        repo_kb_update_def simp del: lift_result_eq split: if_splits)
  have "update_vectors E ?n d = embed_document E (kd_title d) (text_normalize (ke_text E) text_new)"
    by (simp add: update_vectors_def normalize_update_def normalize_patch_def patched_text_def)
  moreover obtain e where "ke_gemini E (embedding_text (kd_title d) (text_normalize (ke_text E) text_new)) = Inl e" "quota_error e"
    using assms(2) by blast
  ultimately obtain w where v: "v = no_vectors\<lparr>ve_jina := Some w\<rparr>"
    using d(2) assms(1) by (auto simp: embed_document_def Let_def split: sum.splits)
  define f where "f = (\<lambda>d :: 'a kb_doc. if kd_id d = i then d\<lparr>kd_content := text_normalize (ke_text E) text_new, kd_jina := Some w\<rparr> else d)"
  have edit: "apply_kb_update ?n v d = d\<lparr>kd_content := text_normalize (ke_text E) text_new, kd_jina := Some w\<rparr>" for d
    by (simp add: apply_kb_update_def normalize_update_def normalize_patch_def v no_vectors_def newer_def)
  then have t: "kb_docs t = map f (kb_docs s)" by (simp add: d(3) upd_row_def f_def)
  have f: "kd_id (f d) = kd_id d" "kd_gemini (f d) = kd_gemini d" "searchable category (f d) = searchable category d" for d
    by (simp_all add: f_def searchable_def split: option.split)
  have rows: "match_rows ''match_documents'' category (map f docs) = map (\<lambda>p. (f (fst p), snd p)) (match_rows ''match_documents'' category docs)" for docs
    by (induction docs) (auto simp: match_rows_def f kb_column_def split: option.splits)
  have "map (\<lambda>h. (kh_id h, kh_similarity h)) (match_documents F ''match_documents'' q threshold k category (kb_docs t)) =
      map (\<lambda>h. (kh_id h, kh_similarity h)) (match_documents F ''match_documents'' q threshold k category (kb_docs s))"
    by (simp add: match_documents_def t rows filter_map sort_key_map comp_def take_map [symmetric] vector_hit_def f case_prod_unfold)
  moreover have "kb_by_id i t = Some (d\<lparr>kd_content := text_normalize (ke_text E) text_new, kd_jina := Some w\<rparr>)"
    using d(1) by (simp add: kb_by_id_def d(3) find_upd_row edit)
  ultimately show ?thesis using d(1) by blast
qed

section \<open>A concrete knowledge base\<close>

text \<open>A vector is a number, the embedding of a text its length; \<open>k\<close> keeps the ids of three environments apart.\<close>

definition sample_kb :: "bool \<Rightarrow> nat \<Rightarrow> (nat, ttl_store) kb_env" where
  "sample_kb exhausted k = \<lparr>ke_now = 0, ke_ids = (\<lambda>n. 3 * n + k), ke_text = sample_text_env, ke_provider = Gemini, ke_dims = 768,
     ke_ttl = 3600, ke_redis = Some ttl_redis, ke_hash = id,
     ke_entry = (\<lambda>v f. replicate v (CHR ''1'') @ CHR '','' # f),
     ke_read = (\<lambda>s. let n = length (takeWhile (\<lambda>c. c = CHR ''1'') s) in Some (n, drop (n + 1) s)),
     ke_gemini = (\<lambda>t. if exhausted then Inl LlmQuota else Inr (length t)),
     ke_gemini_batch = (\<lambda>ts. if exhausted then Inl LlmQuota else Inr (map length ts)),
     ke_jina = (\<lambda>task t. Inr (Suc (length t))), ke_jina_batch = (\<lambda>task ts. Inr (map (\<lambda>t. Suc (length t)) ts)),
     ke_ollama = (\<lambda>t. Inl LlmConnection), ke_ollama_batch = (\<lambda>ts. Inl LlmConnection),
     ke_bge = (\<lambda>t. Inl LlmConnection), ke_bge_batch = (\<lambda>ts. Inl LlmConnection),
     ke_fits = (\<lambda>f v. True), ke_distance = (\<lambda>v w. of_nat (if v \<le> w then w - v else v - w)),
     ke_bm25 = (\<lambda>corpus q. map (\<lambda>d. 0) corpus), ke_ratio = (\<lambda>a b. a / b), ke_blend = (\<lambda>a b. (7 * a + 3 * b) / 10),
     ke_set_order = id, ke_threshold_ollama = 7 / 10, ke_threshold_bge = 55 / 100\<rparr>"

definition sample_embedding :: "string \<Rightarrow> string \<Rightarrow> nat" where
  "sample_embedding f t = (if f = ''match_documents'' then length t else Suc (length t))"

definition sample_note :: "nat kb_doc" where
  "sample_note = \<lparr>kd_id = 1, kd_title = ''Doi tra'', kd_content = ''Trong 7 ngay.'', kd_category = ''faq'', kd_source = None,
     kd_gemini = Some 22, kd_jina = Some 23, kd_ollama = None, kd_bge = None, kd_metadata = JObj [], kd_active = True, kd_created = 0\<rparr>"

definition sample_notes :: "(nat, ttl_store) kb_state" where
  "sample_notes = \<lparr>kb_docs = [sample_note], kb_cache = Map.empty\<rparr>"

lemma sample_kb_laws:
  "scores_all (sample_kb b k)" "set_iterates (sample_kb b k)" "inj (ke_hash (sample_kb b k))"
  "ke_read (sample_kb b k) (ke_entry (sample_kb b k) v f) = Some (v, f)"
  "faithful Gemini sample_embedding (sample_kb False k)" "ke_redis (sample_kb b k) = Some ttl_redis"
  by (auto simp: scores_all_def set_iterates_def sample_kb_def Let_def takeWhile_append faithful_def answers_def sample_embedding_def)

lemma sample_normal: "text_normalize (ke_text (sample_kb b k)) ''gas'' = ''gas''"
  "text_normalize (ke_text (sample_kb b k)) ''Hi'' = ''Hi''"
proof -
  have "text_normalize sample_text_env ''gas'' = ''gas''" "text_normalize sample_text_env ''Hi'' = ''Hi''" by code_simp+
  then show "text_normalize (ke_text (sample_kb b k)) ''gas'' = ''gas''"
    "text_normalize (ke_text (sample_kb b k)) ''Hi'' = ''Hi''" by (simp_all add: sample_kb_def)
qed


lemma sample_search:
  "fst (kb_request (sample_kb False 0) (sample_user 4 Admin) (SearchDocs ''gas'' 5 None True) sample_notes) =
   Inr (Hits [\<lparr>kh_id = 1, kh_title = ''Doi tra'', kh_content = ''Trong 7 ngay.'', kh_category = ''faq'', kh_similarity = 0, kh_source = None\<rparr>])"
  by code_simp

lemma sample_created:
  "kb_docs (snd (kb_request (sample_kb False 0) (sample_user 4 Admin) (CreateDoc \<lparr>kc_title = ''Hi'', kc_content = ''Hi'', kc_category = ''faq'', kc_source = None, kc_metadata = []\<rparr>) \<lparr>kb_docs = [], kb_cache = Map.empty\<rparr>)) =
   [\<lparr>kd_id = 0, kd_title = ''Hi'', kd_content = ''Hi'', kd_category = ''faq'', kd_source = None,
     kd_gemini = Some 6, kd_jina = Some 7, kd_ollama = None, kd_bge = None, kd_metadata = JObj [], kd_active = True, kd_created = 0\<rparr>]"
  by code_simp

definition promo_file :: string where
  "promo_file = ''---'' @ [CHR 0x0A] @ ''category: promo'' @ [CHR 0x0A] @ ''---'' @ [CHR 0x0A] @ ''Hi''"

lemma sample_import:
  "fst (kb_request (sample_kb False 0) (sample_user 4 Admin) (ImportFile promo_file None None) \<lparr>kb_docs = [], kb_cache = Map.empty\<rparr>) = Inr (Imported 1)"
  "map kd_id (slice 0 10 (newest_docs (filter_docs None True
     (kb_docs (snd (kb_request (sample_kb False 0) (sample_user 4 Admin) (ImportFile promo_file None None) \<lparr>kb_docs = [], kb_cache = Map.empty\<rparr>)))))) = [0]"
  "parse_import sample_text_env promo_file ''upload.txt'' None =
     Inr [\<lparr>kr_title = JStr ''upload'', kr_content = JStr ''Hi'', kr_category = JStr ''promo'', kr_source = JStr ''upload'',
       kr_metadata = JObj [(''category'', JStr ''promo'')]\<rparr>]"
  by code_simp+

lemma sample_stale:
  "fst (kb_request (sample_kb True 0) (sample_user 4 Admin) (UpdateDoc 1 \<lparr>ku_title = Unset, ku_content = Val ''Hi'', ku_category = Unset, ku_source = Unset,
       ku_metadata = Unset, ku_active = Unset\<rparr>) sample_notes) = Inr (Document \<lparr>kv_id = 1, kv_title = ''Doi tra'', kv_content = ''Hi'', kv_category = ''faq'', kv_source = None,
     kv_metadata = [], kv_active = True, kv_created = 0\<rparr>)"
  by code_simp

lemma sample_stale_docs:
  "kb_docs (snd (kb_request (sample_kb True 0) (sample_user 4 Admin) (UpdateDoc 1 \<lparr>ku_title = Unset, ku_content = Val ''Hi'', ku_category = Unset, ku_source = Unset,
       ku_metadata = Unset, ku_active = Unset\<rparr>) sample_notes)) = [sample_note\<lparr>kd_content := ''Hi'', kd_jina := Some 12\<rparr>]"
  "map kh_id (match_documents (sample_kb False 0) ''match_documents'' 22 (1/2) 5 None (kb_docs sample_notes)) = [1]"
  by code_simp+

lemma sample_query:
  "\<exists>r. fst (search_documents (sample_kb False 0) ''gas'' 5 None True sample_notes) = Inr r"
  "live 0 (kb_cache (snd (search_documents (sample_kb False 0) ''gas'' 5 None True sample_notes)) ''kbq:gemini:d768:gas'') \<noteq> None"
proof -
  have "map_sum id length (fst (search_documents (sample_kb False 0) ''gas'' 5 None True sample_notes)) = Inr 1" by code_simp
  then show "\<exists>r. fst (search_documents (sample_kb False 0) ''gas'' 5 None True sample_notes) = Inr r"
    by (cases "fst (search_documents (sample_kb False 0) ''gas'' 5 None True sample_notes)") auto
qed code_simp

abbreviation no_notes :: "(nat, ttl_store) kb_state" where
  "no_notes \<equiv> \<lparr>kb_docs = [], kb_cache = Map.empty\<rparr>"

definition note_steps :: "((nat, ttl_store) kb_env \<times> user \<times> kb_call) list" where
  "note_steps =
     [(sample_kb False 0, sample_user 4 Admin, CreateDoc \<lparr>kc_title = ''Hi'', kc_content = ''Hi'', kc_category = ''faq'', kc_source = None, kc_metadata = []\<rparr>),
      (sample_kb False 1, sample_user 4 Admin, UpdateDoc 0 \<lparr>ku_title = Unset, ku_content = Val ''Hello'', ku_category = Unset, ku_source = Unset,
         ku_metadata = Unset, ku_active = Unset\<rparr>)]"

lemma note_run:
  "kb_docs (kb_run note_steps no_notes) =
   [\<lparr>kd_id = 0, kd_title = ''Hi'', kd_content = ''Hello'', kd_category = ''faq'', kd_source = None,
     kd_gemini = Some 9, kd_jina = Some 10, kd_ollama = None, kd_bge = None, kd_metadata = JObj [], kd_active = True, kd_created = 0\<rparr>]"
  by code_simp

lemma note_fresh: "fresh_ids note_steps no_notes"
proof -
  have "kd_id ` set (kb_docs (snd (kb_request (sample_kb False 0) (sample_user 4 Admin)
      (CreateDoc \<lparr>kc_title = ''Hi'', kc_content = ''Hi'', kc_category = ''faq'', kc_source = None, kc_metadata = []\<rparr>) no_notes))) = {0}"
    unfolding sample_created by simp
  then show ?thesis by (auto simp: note_steps_def fresh_for_def sample_kb_def inj_on_def)
qed


lemma kb_rows_typed_witness:
  "\<exists>items. fst (kb_request (sample_kb False 2) (sample_user 4 Admin) (ListDocs 0 10 (Some ''faq'') True) (kb_run note_steps no_notes)) = Inr (Page items)"
  by (rule kb_rows_typed) (simp_all add: note_steps_def is_import_def is_admin_def sample_user_def category_param_def kb_categories_def)


lemma kb_import_blocks_listing_witness:
  "\<exists>t. kb_request (sample_kb False 0) (sample_user 4 Admin) (ImportFile promo_file None None) no_notes = (Inr (Imported 1), t) \<and>
     fst (kb_request (sample_kb False 0) (sample_user 4 Admin) (ListDocs 0 10 None True) t) = Inl schema_error"
proof -
  obtain t where run: "kb_request (sample_kb False 0) (sample_user 4 Admin) (ImportFile promo_file None None) no_notes = (Inr (Imported 1), t)"
    and t: "t = snd (kb_request (sample_kb False 0) (sample_user 4 Admin) (ImportFile promo_file None None) no_notes)"
    using sample_import(1) by (metis (no_types, lifting) prod.collapse)
  have id: "ke_ids (sample_kb False 0) 0 = 0" "ke_text (sample_kb False 0) = sample_text_env" by (simp_all add: sample_kb_def)
  have "fresh_for (sample_kb False 0) (kb_docs no_notes)" by (simp add: fresh_for_def sample_kb_def inj_on_def)
  moreover have "map kd_id (slice 0 10 (newest_docs (filter_docs None True (kb_docs t)))) = [0]" unfolding t by (rule sample_import(2))
  then have "ke_ids (sample_kb False 0) 0 \<in> set (map kd_id (slice 0 10 (newest_docs (filter_docs None True (kb_docs t)))))"
    by (simp only: id) simp
  moreover have "is_admin (sample_user 4 Admin)" "category_param None = Inr ()" by (simp_all add: is_admin_def sample_user_def category_param_def)
  ultimately have "fst (kb_request (sample_kb False 0) (sample_user 4 Admin) (ListDocs 0 10 None True) t) = Inl schema_error"
    using kb_import_blocks_listing [OF _ run, of _ 0 "sample_user 4 Admin" None 10 0 True "sample_kb False 0"] sample_import(3)
    by (simp add: id row_typed_def kb_fields_ok_def kb_categories_def truthy_def del: set_map)
  with run show ?thesis by blast
qed

lemma kb_quota_keeps_stale_vector_witness:
  "\<exists>r t. kb_request (sample_kb True 0) (sample_user 4 Admin) (UpdateDoc 1 \<lparr>ku_title = Unset, ku_content = Val ''Hi'', ku_category = Unset,
       ku_source = Unset, ku_metadata = Unset, ku_active = Unset\<rparr>) sample_notes = (Inr r, t) \<and> kb_docs t = [sample_note\<lparr>kd_content := ''Hi'', kd_jina := Some 12\<rparr>] \<and>
     map kh_id (match_documents (sample_kb False 0) ''match_documents'' 22 (1/2) 5 None (kb_docs t)) = [1]"
proof -
  let ?edit = "UpdateDoc 1 \<lparr>ku_title = Unset, ku_content = Val ''Hi'', ku_category = Unset, ku_source = Unset, ku_metadata = Unset, ku_active = Unset\<rparr>"
  obtain r t where run: "kb_request (sample_kb True 0) (sample_user 4 Admin) ?edit sample_notes = (Inr r, t)"
    and t: "t = snd (kb_request (sample_kb True 0) (sample_user 4 Admin) ?edit sample_notes)"
    using sample_stale(1) by (metis (no_types, lifting) prod.collapse)
  have "ke_provider (sample_kb True 0) = Gemini" "\<exists>e. ke_gemini (sample_kb True 0) x = Inl e \<and> quota_error e" for x
    by (simp_all add: sample_kb_def quota_error_def)
  from kb_quota_keeps_stale_vector [OF this run, of "sample_kb False 0" 22 "1/2" 5 None]
  have "map (\<lambda>h. (kh_id h, kh_similarity h)) (match_documents (sample_kb False 0) ''match_documents'' 22 (1/2) 5 None (kb_docs t)) =
    map (\<lambda>h. (kh_id h, kh_similarity h)) (match_documents (sample_kb False 0) ''match_documents'' 22 (1/2) 5 None (kb_docs sample_notes))"
    by blast
  from arg_cong [OF this, of "map fst"]
  have "map kh_id (match_documents (sample_kb False 0) ''match_documents'' 22 (1/2) 5 None (kb_docs t)) =
    map kh_id (match_documents (sample_kb False 0) ''match_documents'' 22 (1/2) 5 None (kb_docs sample_notes))" by (simp add: comp_def)
  also note sample_stale_docs(2)
  finally have found: "map kh_id (match_documents (sample_kb False 0) ''match_documents'' 22 (1/2) 5 None (kb_docs t)) = [1]" .
  have "kb_docs t = [sample_note\<lparr>kd_content := ''Hi'', kd_jina := Some 12\<rparr>]" unfolding t by (rule sample_stale_docs(1))
  with run found show ?thesis by (intro exI conjI)
qed

end
