(* ===== verification/Intent.thy ===== *)
theory Intent
  imports Rag Users ProductQuery
begin

text \<open>
  What a customer wants (\<^verbatim>\<open>intent/categories.py\<close>, \<^verbatim>\<open>intent/classifiers/\<close>) and who answers it
  (\<^verbatim>\<open>services/routing_service.py\<close>). The similarity of a message to the examples of an intent, the answer
  of the language model and the value of a float literal are parameters; the reasoning text of a result,
  which is only logged, is left out.
\<close>

section \<open>Intents\<close>

datatype intent =
    ProductInquiry | PlaceOrder | DeliveryStatus | Complaint | TechnicalIssue | SafetyEmergencyIntent
  | PaymentIssue | GeneralInfo

definition intents :: "intent list" where
  "intents = [ProductInquiry, PlaceOrder, DeliveryStatus, Complaint, TechnicalIssue, SafetyEmergencyIntent, PaymentIssue, GeneralInfo]"

fun intent_text :: "intent \<Rightarrow> string" where
  "intent_text ProductInquiry = ''product_inquiry''"
| "intent_text PlaceOrder = ''place_order''"
| "intent_text DeliveryStatus = ''delivery_status''"
| "intent_text Complaint = ''complaint''"
| "intent_text TechnicalIssue = ''technical_issue''"
| "intent_text SafetyEmergencyIntent = ''safety_emergency''"
| "intent_text PaymentIssue = ''payment_issue''"
| "intent_text GeneralInfo = ''general_info''"

definition intent_of_text :: "string \<Rightarrow> intent option" where
  "intent_of_text t = find (\<lambda>i. intent_text i = t) intents"

record intent_result =
  it_category :: intent
  it_confidence :: rat
  it_classifier :: string

definition confidence_ok :: "rat \<Rightarrow> bool" where
  "confidence_ok c \<longleftrightarrow> 0 \<le> c \<and> c \<le> 1"

section \<open>Classifiers\<close>

text \<open>
  \<open>im_similarity\<close> is the similarity of a text to the examples of each intent, \<open>im_generate\<close> the model's
  answer to the filled prompt, \<open>im_float\<close> the value of the text of a float, missing for a NaN and for
  what is no float.
\<close>

record intent_env =
  im_fold :: fold_text
  im_similarity :: "string \<Rightarrow> llm_error + (intent \<Rightarrow> rat)"
  im_generate :: "string \<Rightarrow> llm_error + string"
  im_float :: "string \<Rightarrow> rat option"

fun nearest_intent :: "(intent \<Rightarrow> rat) \<Rightarrow> intent \<Rightarrow> rat \<Rightarrow> intent list \<Rightarrow> intent \<times> rat" where
  "nearest_intent f best score [] = (best, score)"
| "nearest_intent f best score (i # is) = (if score < f i then nearest_intent f i (f i) is else nearest_intent f best score is)"

definition embedding_classify :: "intent_env \<Rightarrow> string \<Rightarrow> llm_error + intent_result" where
  "embedding_classify E text =
     map_sum id (\<lambda>f. case nearest_intent f GeneralInfo (- 1) intents of (i, score) \<Rightarrow>
         \<lparr>it_category = i, it_confidence = max 0 (min 1 score), it_classifier = ''embedding''\<rparr>)
       (im_similarity E text)"

text \<open>From the first opening to the last closing brace.\<close>

definition extract_json :: "string \<Rightarrow> string" where
  "extract_json t =
     (let start = length (takeWhile (\<lambda>c. c \<noteq> CHR ''{'') t); after = length (takeWhile (\<lambda>c. c \<noteq> CHR ''}'') (rev t)) in
      if CHR ''{'' \<in> set t \<and> CHR ''}'' \<in> set t \<and> start < length t - after - 1
      then drop start (take (length t - after) t) else py_strip t)"

text \<open>
  \<^verbatim>\<open>float(value)\<close> of a decoded JSON value; an integer beyond the range of floats raises
  \<^verbatim>\<open>OverflowError\<close>, which the parser does not catch, unless it has too many digits to be read at all.
\<close>

definition float_of_json :: "intent_env \<Rightarrow> json \<Rightarrow> llm_error + rat" where
  "float_of_json E v =
     (let number = (\<lambda>r. case r of None \<Rightarrow> Inl LlmParsing | Some x \<Rightarrow> Inr x) in
      case v of
        JBool b \<Rightarrow> Inr (if b then 1 else 0)
      | JInt n \<Rightarrow> if 2 ^ 1024 - 2 ^ 970 \<le> \<bar>n\<bar> \<and> \<bar>n\<bar> < 10 ^ 4300 then Inl (NotLlm ''OverflowError'') else Inr (of_int n)
      | JFloat t \<Rightarrow> number (im_float E t)
      | JStr t \<Rightarrow> number (im_float E t)
      | _ \<Rightarrow> Inl LlmParsing)"

definition payload_result :: "intent_env \<Rightarrow> (string \<times> json) list \<Rightarrow> llm_error + intent_result" where
  "payload_result E d =
     (case (map_of d ''intent'', map_of d ''confidence'') of
        (Some (JStr t), Some v) \<Rightarrow>
          (case intent_of_text t of
             None \<Rightarrow> Inl LlmParsing
           | Some i \<Rightarrow>
               (case float_of_json E v of
                  Inl e \<Rightarrow> Inl e
                | Inr c \<Rightarrow> if confidence_ok c then Inr \<lparr>it_category = i, it_confidence = c, it_classifier = ''llm''\<rparr> else Inl LlmParsing))
      | _ \<Rightarrow> Inl LlmParsing)"

definition parse_intent :: "intent_env \<Rightarrow> string \<Rightarrow> llm_error + intent_result" where
  "parse_intent E text = (case loads (extract_json text) of Some (JObj d) \<Rightarrow> payload_result E d | _ \<Rightarrow> Inl LlmParsing)"

definition llm_classify :: "intent_env \<Rightarrow> string \<Rightarrow> llm_error + intent_result" where
  "llm_classify E text = (case im_generate E text of Inl e \<Rightarrow> Inl e | Inr answer \<Rightarrow> parse_intent E answer)"

definition is_bare_product_category :: "fold_text \<Rightarrow> string \<Rightarrow> bool" where
  "is_bare_product_category F text \<longleftrightarrow> normalize_match_text F text \<in> set [''gas'', ''binh gas'', ''nuoc'', ''nuoc uong'']"

definition must_check :: "rat \<Rightarrow> intent_result \<Rightarrow> bool" where
  "must_check threshold r \<longleftrightarrow> it_category r = SafetyEmergencyIntent \<or> it_confidence r < threshold"

definition hybrid_classify :: "intent_env \<Rightarrow> rat \<Rightarrow> string \<Rightarrow> llm_error + intent_result" where
  "hybrid_classify E threshold text =
     (if is_bare_product_category (im_fold E) text
      then Inr \<lparr>it_category = ProductInquiry, it_confidence = 95 / 100, it_classifier = ''hybrid_category_keyword''\<rparr>
      else
        case embedding_classify E text of
          Inl e \<Rightarrow>
            if quota_error e then map_sum id (\<lambda>r. r\<lparr>it_classifier := ''llm_fallback''\<rparr>) (llm_classify E text) else Inl e
        | Inr r \<Rightarrow>
            if \<not> must_check threshold r then Inr (r\<lparr>it_classifier := ''hybrid_embedding''\<rparr>)
            else
              (case llm_classify E text of
                 Inl e \<Rightarrow> Inl e
               | Inr q \<Rightarrow>
                   if it_category r = SafetyEmergencyIntent \<or> it_category q = SafetyEmergencyIntent
                   then Inr \<lparr>it_category = SafetyEmergencyIntent, it_confidence = max (it_confidence r) (it_confidence q),
                          it_classifier = ''hybrid_safety''\<rparr>
                   else Inr (q\<lparr>it_classifier := ''hybrid_llm''\<rparr>)))"

section \<open>Routing\<close>

fun routing_rule :: "intent \<Rightarrow> bool \<times> nat" where
  "routing_rule ProductInquiry = (False, 3)"
| "routing_rule PlaceOrder = (False, 2)"
| "routing_rule DeliveryStatus = (False, 2)"
| "routing_rule Complaint = (True, 1)"
| "routing_rule TechnicalIssue = (False, 2)"
| "routing_rule SafetyEmergencyIntent = (True, 0)"
| "routing_rule PaymentIssue = (False, 1)"
| "routing_rule GeneralInfo = (False, 4)"

record routing =
  rt_human :: bool
  rt_priority :: nat
  rt_reason :: string
  rt_staff :: "uuid option"

definition find_available_staff :: "db \<Rightarrow> user option" where
  "find_available_staff s =
     (case filter u_is_active (fst (repo_list_users 0 50 (Some Staff) s)) of
        u # us \<Rightarrow> Some u
      | [] \<Rightarrow> find u_is_active (fst (repo_list_users 0 50 (Some Admin) s)))"

definition route_intent :: "intent \<Rightarrow> db \<Rightarrow> routing" where
  "route_intent i s =
     (case routing_rule i of (human, priority) \<Rightarrow>
        if i = SafetyEmergencyIntent
        then \<lparr>rt_human = True, rt_priority = 0, rt_reason = ''Safety emergency requires immediate staff attention'',
               rt_staff = map_option u_id (find_available_staff s)\<rparr>
        else if human
        then \<lparr>rt_human = True, rt_priority = priority, rt_reason = ''Intent requires staff'',
               rt_staff = map_option u_id (find_available_staff s)\<rparr>
        else \<lparr>rt_human = False, rt_priority = priority, rt_reason = ''Automatic response allowed'', rt_staff = None\<rparr>)"

section \<open>Facts\<close>

lemma intent_of_text_text: "intent_of_text (intent_text i) = Some i"
  by (cases i) (simp_all add: intent_of_text_def intents_def)

lemma intent_text_inject [simp]: "intent_text i = intent_text j \<longleftrightarrow> i = j"
  using intent_of_text_text by (metis option.inject)

lemma embedding_confidence: "embedding_classify E text = Inr r \<Longrightarrow> confidence_ok (it_confidence r)"
  by (cases "im_similarity E text") (auto simp: embedding_classify_def confidence_ok_def split: prod.splits)

lemma llm_confidence: "llm_classify E text = Inr r \<Longrightarrow> confidence_ok (it_confidence r)"
  by (auto simp: llm_classify_def parse_intent_def payload_result_def
      split: sum.splits option.splits json.splits if_splits)

text \<open>A confidence is always between 0 and 1, as the columns and the response schema require.\<close>

lemma hybrid_confidence:
  assumes "hybrid_classify E threshold text = Inr r"
  shows "confidence_ok (it_confidence r)"
proof -
  have m: "confidence_ok (max a b)" if "confidence_ok a" "confidence_ok b" for a b
    using that by (simp add: confidence_ok_def max_def)
  from assms show ?thesis
    using embedding_confidence [of E "text"] llm_confidence [of E "text"] m
    by (auto simp: hybrid_classify_def map_sum_def split: if_splits sum.splits) (simp add: confidence_ok_def)
qed

text \<open>Neither model can overrule the other on an emergency, once both are asked.\<close>

lemma hybrid_emergency:
  assumes "\<not> is_bare_product_category (im_fold E) text" and "embedding_classify E text = Inr r"
    and "llm_classify E text = Inr q" and "it_category r = SafetyEmergencyIntent \<or> it_category q = SafetyEmergencyIntent \<and> it_confidence r < threshold"
  shows "\<exists>c. hybrid_classify E threshold text = Inr \<lparr>it_category = SafetyEmergencyIntent, it_confidence = c, it_classifier = ''hybrid_safety''\<rparr>"
  using assms by (auto simp: hybrid_classify_def must_check_def)

text \<open>Who is chosen is active and staff, or an administrator.\<close>

lemma find_available_staff_ok: "find_available_staff s = Some u \<Longrightarrow> u \<in> set (users s) \<and> u_is_active u \<and> is_staff u"
proof -
  have rows: "v \<in> set (fst (repo_list_users 0 50 (Some r) s)) \<Longrightarrow> v \<in> set (users s) \<and> u_role v = r" for v r
    by (auto simp: repo_list_users_def slice_def order_rows_def Let_def dest!: in_set_takeD split: if_splits)
  assume "find_available_staff s = Some u"
  then have "u_is_active u \<and> (u \<in> set (fst (repo_list_users 0 50 (Some Staff) s)) \<or> u \<in> set (fst (repo_list_users 0 50 (Some Admin) s)))"
    by (auto simp: find_available_staff_def find_Some_iff split: list.splits dest!: filter_eq_ConsD)
  with rows show ?thesis by (auto simp: is_staff_def)
qed

end
