(* ===== verification/ChatCatalog.thy ===== *)
theory ChatCatalog
  imports ChatOrder Intent
begin

text \<open>
  Product questions in the chat (\<^verbatim>\<open>services/conversation_service.py\<close>, \<^verbatim>\<open>find_products\<close> of
  \<^verbatim>\<open>services/product_service.py\<close>): answers about prices computed from the catalog, the product cards of a
  reply, and the messages that name a product and so become orders or questions. What the catalog part of
  a prompt says is written without accents; the wording of an answer is left to its data.
\<close>

section \<open>Resolving a parsed question\<close>

text \<open>A bound of a price query, as the amounts of two decimal places inside it.\<close>

definition money_at_least :: "decimal \<Rightarrow> money" where
  "money_at_least d = (case d of (m, k) \<Rightarrow> - ((- 100 * m) div 10 ^ k))"

definition money_at_most :: "decimal \<Rightarrow> money" where
  "money_at_most d = (case d of (m, k) \<Rightarrow> 100 * m div 10 ^ k)"

text \<open>
  The bounds are always in order, so they play no part in the validation of the search parameters. A size
  the shop has no gas bottle of is left to the filter in memory.
\<close>

definition query_params :: "product_query \<Rightarrow> nat \<Rightarrow> product_search" where
  "query_params q limit =
     default_search\<lparr>ps_brand := pq_brand q, ps_category := pq_category q,
       ps_size_kg := (case pq_size_kg q of None \<Rightarrow> None
         | Some k \<Rightarrow> if pq_category q \<noteq> Some NuocUong \<and> k \<notin> set allowed_sizes then None else Some k),
       ps_sort_by := SortPrice, ps_ascending := True, ps_limit := limit\<rparr>"

definition with_bounds :: "product_query \<Rightarrow> product_search \<Rightarrow> product_search" where
  "with_bounds q ps = ps\<lparr>ps_min_price := map_option money_at_least (fst (price_bounds q)),
     ps_max_price := map_option money_at_most (snd (price_bounds q))\<rparr>"

definition find_products :: "fold_text \<Rightarrow> pg \<Rightarrow> product_query \<Rightarrow> nat \<Rightarrow> product list dbop" where
  "find_products F g q limit =
     andThen (make_params (query_params q limit)) (\<lambda>ps.
     andThen (search_products g (with_bounds q ps)) (\<lambda>result.
     ret (filter_products F (pg_items result) q)))"

section \<open>Answers about the catalog\<close>

datatype catalog_reply =
    NoMatch | CheapestIs product_query product | DearestIs product_query product | PriceRange product_query "product list"
  | SizeReply prompt | CatalogList "int option" "product list"

definition catalog_brands :: "product list \<Rightarrow> string list" where
  "catalog_brands catalog = sort (remdups (map p_brand catalog))"

definition price_inquiry :: "fold_text \<Rightarrow> pg \<Rightarrow> string \<Rightarrow> product list \<Rightarrow> catalog_reply option dbop" where
  "price_inquiry F g content catalog =
     (let q = parse_product_query F content (catalog_brands catalog) in
      case pq_price_kind q of
        None \<Rightarrow> ret None
      | Some kind \<Rightarrow>
          andThen (find_products F g q 20) (\<lambda>matches.
          ret (Some
            (if matches = [] then NoMatch
             else case kind of
               Cheapest \<Rightarrow> CheapestIs q (hd matches)
             | MostExpensive \<Rightarrow> DearestIs q (last matches)
             | _ \<Rightarrow> PriceRange q (take 5 matches)))))"

definition catalog_list_cues :: "string list" where
  "catalog_list_cues = [''cac loai'', ''nhung loai'', ''loai nao'', ''cac hang'', ''nhung hang'', ''danh sach'', ''tat ca'', ''menu'',
     ''co nhung'', ''gom nhung'', ''bao nhieu loai'', ''co gi'']"

definition weight_units :: "string list" where
  "weight_units = [''kg'', ''ki'', ''ky'']"

fun weight_tokens :: "string list \<Rightarrow> string list" where
  "weight_tokens [] = []"
| "weight_tokens [t] = (case number_with_unit weight_units t of None \<Rightarrow> [t] | Some n \<Rightarrow> [int_text n @ ''kg''])"
| "weight_tokens (t # u # ts) =
     (case number_with_unit weight_units t of
        Some n \<Rightarrow> (int_text n @ ''kg'') # weight_tokens (u # ts)
      | None \<Rightarrow>
          if u \<in> set weight_units \<and> small_number t \<noteq> None then (t @ ''kg'') # weight_tokens ts
          else t # weight_tokens (u # ts))"

definition normalize_weight_units :: "string \<Rightarrow> string" where
  "normalize_weight_units n = join '' '' (weight_tokens (tokens n))"

definition by_brand_and_price :: "fold_text \<Rightarrow> product list \<Rightarrow> product list" where
  "by_brand_and_price F ps =
     sort_key (\<lambda>p. (normalize_match_text F (p_brand p), effective_price (p_price p) (p_sale_price p))) ps"

definition catalog_list :: "fold_text \<Rightarrow> string \<Rightarrow> product list \<Rightarrow> catalog_reply option" where
  "catalog_list F query catalog =
     (let n = normalize_weight_units (normalize_match_text F query);
          listed = (\<lambda>size items. if items = [] then None else Some (CatalogList size (by_brand_and_price F items))) in
      if \<not> has_any catalog_list_cues n \<or> mentions_product_brand F n catalog then None
      else
        case extract_gas_size_query n of
          Some k \<Rightarrow>
            if 100 * k \<notin> set (available_gas_sizes catalog) then None
            else listed (Some k) (gas_products_for_size catalog k)
        | None \<Rightarrow>
            if category_filter n = Some NuocUong then listed None (filter (\<lambda>p. p_category p = NuocUong) catalog) else None)"

section \<open>Product cards\<close>

definition is_browse_query :: "fold_text \<Rightarrow> string \<Rightarrow> bool" where
  "is_browse_query F n \<longleftrightarrow> is_bare_category_query F (Some n) \<or> has_any (catalog_list_cues @ [''san pham'']) n"

definition brand_hit :: "fold_text \<Rightarrow> string \<Rightarrow> product \<Rightarrow> bool" where
  "brand_hit F n p \<longleftrightarrow>
     (let brand = normalize_match_text F (p_brand p); own = filter (\<lambda>t. t \<noteq> ''gas'') (tokens brand) in
      own \<noteq> [] \<and> (list_ex (\<lambda>t. t \<in> set (tokens n)) own \<or> contains brand n))"

definition size_value :: "fold_text \<Rightarrow> product \<Rightarrow> string" where
  "size_value F p = normalize_match_text F (plain_decimal (nat (p_size_kg p)))"

definition unit_value :: "fold_text \<Rightarrow> product \<Rightarrow> string" where
  "unit_value F p = normalize_match_text F (unit_text (p_unit p))"

definition size_hit :: "fold_text \<Rightarrow> string \<Rightarrow> product \<Rightarrow> bool" where
  "size_hit F n p \<longleftrightarrow>
     contains (size_value F p @ ''kg'') n \<or> contains (size_value F p @ unit_value F p) (py_remove (CHR '' '') n) \<or>
     size_value F p \<in> set (tokens n) \<and> unit_value F p \<in> set (tokens n)"

definition select_card_products :: "fold_text \<Rightarrow> string \<Rightarrow> product list \<Rightarrow> product list" where
  "select_card_products F query catalog =
     (let n = normalize_weight_units (normalize_match_text F query);
          candidates = (case category_filter n of None \<Rightarrow> catalog | Some c \<Rightarrow> filter (\<lambda>p. p_category p = c) catalog);
          both = filter (\<lambda>p. brand_hit F n p \<and> size_hit F n p) candidates;
          brand = filter (\<lambda>p. brand_hit F n p \<and> \<not> size_hit F n p) candidates;
          size = filter (\<lambda>p. \<not> brand_hit F n p \<and> size_hit F n p) candidates in
      if n = [] then catalog
      else if both \<noteq> [] then both
      else if brand \<noteq> [] then brand
      else if size \<noteq> [] then size
      else if category_filter n \<noteq> None \<or> is_browse_query F n then candidates
      else [])"

text \<open>A card quotes the sale price.\<close>

record product_card =
  pc_id :: uuid
  pc_name :: string
  pc_brand :: string
  pc_size_kg :: int
  pc_unit :: unit_kind
  pc_price :: money
  pc_image_url :: "string option"
  pc_sku :: string
  pc_stock_quantity :: int

definition product_to_card :: "product \<Rightarrow> product_card" where
  "product_to_card p =
     \<lparr>pc_id = p_id p, pc_name = p_name p, pc_brand = p_brand p, pc_size_kg = p_size_kg p, pc_unit = p_unit p,
      pc_price = effective_price (p_price p) (p_sale_price p), pc_image_url = (if truthy (p_image_url p) then p_image_url p else None),
      pc_sku = p_sku p, pc_stock_quantity = p_stock_quantity p\<rparr>"

section \<open>Messages that name a product\<close>

definition has_product_question_cue :: "string \<Rightarrow> bool" where
  "has_product_question_cue n \<longleftrightarrow>
     list_ex (has_word n) [''gia'', ''bao nhieu'', ''co ban'', ''con hang'', ''loai nao'', ''san pham nao'']"

definition has_order_action_cue :: "string \<Rightarrow> bool" where
  "has_order_action_cue n \<longleftrightarrow> has_any [''dat'', ''mua'', ''lay'', ''doi qua'', ''doi sang'', ''chuyen qua'', ''chuyen sang''] n"

definition is_short_product_phrase :: "fold_text \<Rightarrow> string \<Rightarrow> product \<Rightarrow> bool" where
  "is_short_product_phrase F n p \<longleftrightarrow>
     (let compact = py_remove (CHR '' '') n; brand = normalize_match_text F (p_brand p);
          own = filter (\<lambda>t. t \<noteq> []) (map (normalize_match_text F) [p_brand p, p_name p, product_display p, p_sku p]) in
      \<not> has_product_question_cue n \<and>
      (compact \<in> set (map (py_remove (CHR '' '')) own) \<or>
       brand \<noteq> [] \<and> take (length brand) n = brand \<and>
         (contains (size_value F p @ ''kg'') compact \<or> contains (size_value F p @ unit_value F p) compact)))"

definition catalog_intent :: "fold_text \<Rightarrow> string \<Rightarrow> product list \<Rightarrow> intent option" where
  "catalog_intent F content catalog =
     (let n = normalize_match_text F content in
      if is_bare_category_query F (Some n) then None
      else
        case match_product F (Some content) catalog of
          None \<Rightarrow> None
        | Some p \<Rightarrow>
            if has_product_question_cue n then Some ProductInquiry
            else if extract_quantity_candidate F content \<noteq> None \<or> leading_quantity content \<noteq> None \<or>
                    has_order_action_cue n \<or> is_short_product_phrase F n p
            then Some PlaceOrder else None)"

section \<open>The catalog in a prompt\<close>

fun dotted :: "string \<Rightarrow> string" where
  "dotted (a # b # c # d # s) = a # b # c # CHR ''.'' # dotted (d # s)"
| "dotted s = s"

definition chat_vnd :: "money \<Rightarrow> string" where
  "chat_vnd p = rev (dotted (rev (nat_digits (nat (p div 100))))) @ ''d''"

definition catalog_line :: "product \<Rightarrow> string" where
  "catalog_line p =
     ''- '' @ product_display p @ '' ('' @ p_brand p @ '', '' @ (if p_category p = NuocUong then ''nuoc uong'' else ''gas'') @ ''): '' @
     chat_vnd (effective_price (p_price p) (p_sale_price p)) @ '', '' @
     (if 0 < p_stock_quantity p then ''con '' @ int_text (p_stock_quantity p) @ '' binh'' else ''tam het hang'')"

definition catalog_context :: "product list \<Rightarrow> string option" where
  "catalog_context ps = (if ps = [] then None else Some (join [CHR 0x0A] (''Bang gia san pham hien co:'' # map catalog_line ps)))"

definition query_aware_context :: "fold_text \<Rightarrow> string \<Rightarrow> product list \<Rightarrow> string option" where
  "query_aware_context F content catalog =
     (let q = parse_product_query F content (catalog_brands catalog); narrowed = filter_products F catalog q in
      catalog_context (if is_specific q \<and> narrowed \<noteq> [] then narrowed else catalog))"

end
