(* ===== verification/ChatNotes.thy ===== *)
theory ChatNotes
  imports ChatCatalog
begin

text \<open>
  The readings of a chat message that decide who handles it (\<^verbatim>\<open>services/conversation_service.py\<close>,
  \<^verbatim>\<open>core/language.py\<close>): its language, a wish to talk to a person, a call-back or a delivery time for the
  staff, and whether an order is being taken. What is noted for the staff is written without accents.
\<close>

section \<open>Language\<close>

text \<open>The accented Vietnamese letters among the code points modelled.\<close>

definition vietnamese_letters :: "nat set" where
  "vietnamese_letters = {224, 225, 226, 227, 232, 233, 234, 236, 237, 242, 243, 244, 245, 249, 250, 253}"

definition english_markers :: "string list" where
  "english_markers = [''the'', ''is'', ''are'', ''hello'', ''hi'', ''hey'', ''please'', ''thanks'', ''thank'', ''you'', ''your'', ''how'',
     ''what'', ''where'', ''when'', ''which'', ''much'', ''cost'', ''price'', ''delivery'', ''deliver'', ''order'', ''available'', ''today'',
     ''need'', ''want'', ''can'', ''could'', ''does'', ''bottle'', ''buy'', ''refill'', ''hours'', ''have'', ''near'', ''open'']"

definition ascii_letter :: "char \<Rightarrow> bool" where
  "ascii_letter c \<longleftrightarrow> 97 \<le> code_point c \<and> code_point c \<le> 122"

text \<open>\<^verbatim>\<open>re.findall(r"[a-z]+", text)\<close>\<close>

fun ascii_words :: "string \<Rightarrow> string \<Rightarrow> string list" where
  "ascii_words cur [] = (if cur = [] then [] else [rev cur])"
| "ascii_words cur (c # s) =
     (if ascii_letter c then ascii_words (c # cur) s
      else (if cur = [] then [] else [rev cur]) @ ascii_words [] s)"

definition detect_language :: "string \<Rightarrow> language \<Rightarrow> language" where
  "detect_language text default_language =
     (let lowered = py_lower text in
      if list_ex (\<lambda>c. code_point c \<in> vietnamese_letters) lowered then Vi
      else if list_ex (\<lambda>w. w \<in> set english_markers) (ascii_words [] lowered) then En
      else default_language)"

section \<open>A person instead of the assistant\<close>

definition is_explicit_human_request :: "fold_text \<Rightarrow> string \<Rightarrow> bool" where
  "is_explicit_human_request F content \<longleftrightarrow>
     has_any [''gap nhan vien'', ''gap nguoi that'', ''cho gap nhan vien'', ''cho gap nguoi that'', ''goi nhan vien'', ''goi nguoi that'',
        ''chuyen nhan vien'', ''chuyen nguoi that'', ''can nhan vien'', ''keu nhan vien'', ''keu nguoi'', ''noi chuyen voi nhan vien'',
        ''gap nguoi'', ''can gap nguoi'', ''muon gap nhan vien''] (normalize_match_text F content)"

section \<open>Time windows\<close>

text \<open>One or two digits, not followed by a third one.\<close>

definition hour_here :: "string \<Rightarrow> (nat \<times> string) option" where
  "hour_here s =
     (let d = digits s in if d \<noteq> [] \<and> length d \<le> 2 then Some (parse_nat d, drop (length d) s) else None)"

text \<open>The rest behind the first of the given prefixes; the texts have at most one of them.\<close>

definition strip_prefix :: "string list \<Rightarrow> string \<Rightarrow> string option" where
  "strip_prefix ps s = map_option (\<lambda>p. drop (length p) s) (find (\<lambda>p. take (length p) s = p) ps)"

text \<open>What may follow the second hour: blanks, an end of word, or a closing h.\<close>

definition window_end :: "string \<Rightarrow> bool" where
  "window_end s \<longleftrightarrow> (case s of [] \<Rightarrow> True | c # t \<Rightarrow> if c = CHR ''h'' then ends_word t else \<not> py_word c)"

text \<open>\<^verbatim>\<open>\b(\d{1,2})\s*(?:unit)?\s*(?:-|den)\s*(\d{1,2})\s*h?\b\<close>\<close>

definition range_here :: "string list \<Rightarrow> bool \<Rightarrow> string \<Rightarrow> (nat \<times> nat) option" where
  "range_here units w s =
     (if w then None
      else
        case hour_here s of
          None \<Rightarrow> None
        | Some (a, r) \<Rightarrow>
            (let u = skip_blanks r; v = skip_blanks (case strip_prefix units u of None \<Rightarrow> u | Some t \<Rightarrow> t) in
             case strip_prefix [''-'', ''den''] v of
               None \<Rightarrow> None
             | Some t \<Rightarrow>
                 (case hour_here (skip_blanks t) of
                    None \<Rightarrow> None
                  | Some (b, z) \<Rightarrow> if window_end z then Some (a, b) else None)))"

definition window_text :: "nat \<Rightarrow> nat \<Rightarrow> string" where
  "window_text a b = nat_digits a @ ''-'' @ nat_digits b @ ''h''"

definition ambiguous_window :: "fold_text \<Rightarrow> string \<Rightarrow> string option" where
  "ambiguous_window F content =
     (if list_ex (\<lambda>t. t \<in> set [''sang'', ''trua'', ''chieu'', ''toi'', ''dem'']) (tokens (normalize_match_text F content)) then None
      else
        case search_at (range_here [''h'', ''gio'', ''g'']) False (F content) of
          None \<Rightarrow> None
        | Some (a, b) \<Rightarrow> if 1 \<le> a \<and> a \<le> 12 \<and> 1 \<le> b \<and> b \<le> 12 then Some (window_text a b) else None)"

text \<open>\<^verbatim>\<open>\b(\d{1,2})\s*h(\d{2})?\b\<close>: the hour and its minutes.\<close>

definition single_here :: "bool \<Rightarrow> string \<Rightarrow> (nat \<times> string) option" where
  "single_here w s =
     (if w then None
      else
        case hour_here s of
          None \<Rightarrow> None
        | Some (a, r) \<Rightarrow>
            (case strip_prefix [''h''] (skip_blanks r) of
               None \<Rightarrow> None
             | Some t \<Rightarrow>
                 if length (take 2 t) = 2 \<and> list_all is_digit (take 2 t) \<and> ends_word (drop 2 t) then Some (a, take 2 t)
                 else if ends_word t then Some (a, []) else None))"

definition window_hours :: "string \<Rightarrow> string option" where
  "window_hours plain =
     (let single = (case search_at single_here False plain of
            None \<Rightarrow> None
          | Some (a, m) \<Rightarrow> if 1 \<le> a \<and> a \<le> 24 then Some (nat_digits a @ ''h'' @ m) else None) in
      case search_at (range_here [''h'', ''gio'', ''gi'']) False plain of
        None \<Rightarrow> single
      | Some (a, b) \<Rightarrow> if 1 \<le> a \<and> a \<le> 24 \<and> 1 \<le> b \<and> b \<le> 24 then Some (window_text a b) else single)"

text \<open>The window and the part of the day that is named.\<close>

definition followup_window :: "fold_text \<Rightarrow> string \<Rightarrow> string option \<times> string option" where
  "followup_window F content =
     (let plain = F content; ts = tokens plain;
          period = find (\<lambda>p. p \<in> set ts) [''sang'', ''trua'', ''chieu'', ''toi''] in
      case window_hours plain of
        None \<Rightarrow> (None, None)
      | Some h \<Rightarrow>
          (Some (join '' '' (h # (case period of None \<Rightarrow> [] | Some p \<Rightarrow> [p]) @ (if ''mai'' \<in> set ts then [''mai''] else []))), period))"

section \<open>Notes for the staff\<close>

definition is_callback_decline :: "string \<Rightarrow> bool" where
  "is_callback_decline n \<longleftrightarrow>
     has_any [''khong can goi'', ''khoi goi'', ''dung goi'', ''khong goi lai'', ''khong phai goi'', ''khong can lien he''] n"

definition mentions_callback :: "string \<Rightarrow> bool" where
  "mentions_callback n \<longleftrightarrow>
     has_any [''goi lai'', ''goi cho'', ''goi minh'', ''goi tui'', ''goi em'', ''goi gium'', ''goi giup'', ''call lai'', ''lien he lai''] n"

definition followup_reminder :: "string \<Rightarrow> string option \<Rightarrow> bool \<Rightarrow> string" where
  "followup_reminder kind w declined =
     (if kind = ''delivery_window'' \<and> truthy w
      then (if declined then ''Giao '' @ the w @ '' (khach khong can goi lai)'' else ''Giao '' @ the w)
      else if declined then ''Khach khong can goi lai''
      else if truthy w then ''Goi lai '' @ the w
      else ''Khach yeu cau goi lai'')"

definition followup_note :: "string \<Rightarrow> string option \<Rightarrow> string option \<Rightarrow> bool \<Rightarrow> json" where
  "followup_note kind w period declined =
     JObj ([(''type'', JStr ''chat_followup_note''), (''note_type'', JStr kind), (''declined_callback'', JBool declined)] @
       (if truthy w then [(''time_window'', JStr (the w))] else []) @
       (if truthy period then [(''period'', JStr (the period))] else []) @
       [(''staff_reminder'', JStr (followup_reminder kind w declined))])"

definition detect_followup :: "fold_text \<Rightarrow> string \<Rightarrow> intent \<Rightarrow> json option" where
  "detect_followup F content i =
     (let n = normalize_match_text F content; giao = ''giao'' \<in> set (tokens n);
          w = fst (followup_window F content); period = snd (followup_window F content) in
      if is_callback_decline n
      then Some (followup_note (if giao \<and> truthy w then ''delivery_window'' else ''callback'') w period True)
      else if mentions_callback n \<and> truthy w then Some (followup_note ''callback'' w period False)
      else if giao \<and> truthy w \<and> i \<noteq> PlaceOrder then Some (followup_note ''delivery_window'' w period False)
      else None)"

definition order_delivery_note :: "fold_text \<Rightarrow> string \<Rightarrow> json" where
  "order_delivery_note F notes =
     followup_note ''delivery_window''
       (Some (case fst (followup_window F notes) of None \<Rightarrow> py_strip notes | Some w \<Rightarrow> w)) (snd (followup_window F notes)) False"

section \<open>An order being taken\<close>

fun in_progress_at :: "time \<Rightarrow> chat_message list \<Rightarrow> bool" where
  "in_progress_at now [] \<longleftrightarrow> False"
| "in_progress_at now (m # ms) \<longleftrightarrow>
     (if \<not> cm_assistant m then in_progress_at now ms
      else
        case documents (cm_documents m) of
          None \<Rightarrow> False
        | Some ds \<Rightarrow>
            \<not> has_metadata_type ''chat_order'' ds \<and> has_metadata_type ''chat_order_state'' ds \<and> is_order_state_fresh now m)"

definition is_order_in_progress :: "time \<Rightarrow> chat_message list \<Rightarrow> bool" where
  "is_order_in_progress now history \<longleftrightarrow> in_progress_at now (rev history)"

definition order_context_intent :: "intent_result \<Rightarrow> intent_result" where
  "order_context_intent r =
     \<lparr>it_category = PlaceOrder, it_confidence = max (it_confidence r) (9 / 10), it_classifier = it_classifier r @ ''+order_context''\<rparr>"

definition apply_order_context :: "time \<Rightarrow> chat_message list \<Rightarrow> intent_result \<Rightarrow> intent_result" where
  "apply_order_context now history r =
     (if it_category r \<noteq> SafetyEmergencyIntent \<and> is_order_in_progress now history then order_context_intent r else r)"

end
