(* ===== verification/Conversations.thy ===== *)
theory Conversations
  imports ChatNotes
begin

text \<open>
  The chatbot's conversations and messages (\<^verbatim>\<open>models/conversation.py\<close>, \<^verbatim>\<open>models/message.py\<close>) and their
  repositories (\<^verbatim>\<open>repositories/conversation_repository.py\<close>, \<^verbatim>\<open>repositories/message_repository.py\<close>). The
  messages embedded in a conversation response, which depend on what the session of the object-relational
  mapper has cached, are left out.
\<close>

section \<open>Rows\<close>

datatype conv_status = CActive | CEscalated | CFlagged | CResolved | CClosed | CAbandoned

fun conv_status_text :: "conv_status \<Rightarrow> string" where
  "conv_status_text CActive = ''active''"
| "conv_status_text CEscalated = ''escalated''"
| "conv_status_text CFlagged = ''flagged''"
| "conv_status_text CResolved = ''resolved''"
| "conv_status_text CClosed = ''closed''"
| "conv_status_text CAbandoned = ''abandoned''"

record conversation =
  cn_id :: uuid
  cn_user :: "uuid option"
  cn_session :: string
  cn_code :: "string option"
  cn_status :: conv_status
  cn_assigned :: "uuid option"
  cn_escalated_at :: "time option"
  cn_reason :: "string option"
  cn_resolved_at :: "time option"
  cn_rating :: "int option"
  cn_created :: time
  cn_updated :: time

datatype message_role = RUser | RAssistant | RStaff | RSystem

fun message_role_text :: "message_role \<Rightarrow> string" where
  "message_role_text RUser = ''user''"
| "message_role_text RAssistant = ''assistant''"
| "message_role_text RStaff = ''staff''"
| "message_role_text RSystem = ''system''"

datatype review_action = Approved | Rejected | AddedToKb

text \<open>A confidence is stored with two decimal places.\<close>

record message =
  ms_id :: uuid
  ms_conversation :: uuid
  ms_role :: message_role
  ms_content :: string
  ms_intent :: "string option"
  ms_confidence :: "int option"
  ms_provider :: "string option"
  ms_model :: "string option"
  ms_tokens :: "int option"
  ms_latency :: "int option"
  ms_documents :: json
  ms_feedback :: "int option"
  ms_flagged :: bool
  ms_reviewed_by :: "uuid option"
  ms_reviewed_at :: "time option"
  ms_action :: "review_action option"
  ms_corrected :: "string option"
  ms_created :: time

record conv_state =
  vs_convs :: "conversation list"
  vs_messages :: "message list"
  vs_db :: db

type_synonym 'a cvop = "(conv_state, 'a) op"

definition on_shop :: "'a dbop \<Rightarrow> 'a cvop" where
  "on_shop m s = (case m (vs_db s) of (r, d) \<Rightarrow> (r, s\<lparr>vs_db := d\<rparr>))"

section \<open>Conversation repository\<close>

definition conv_by_id :: "uuid \<Rightarrow> conv_state \<Rightarrow> conversation option" where
  "conv_by_id i s = find_row cn_id i (vs_convs s)"

definition next_conversation_code :: "time \<Rightarrow> conv_state \<Rightarrow> string" where
  "next_conversation_code now s = next_number ''CT'' (ymd now) (List.map_filter cn_code (vs_convs s))"

definition repo_create_conversation :: "time \<Rightarrow> uuid option \<Rightarrow> string \<Rightarrow> conversation cvop" where
  "repo_create_conversation now usr session =
     andThen (gets (next_conversation_code now)) (\<lambda>code.
     andThen (on_shop fresh_id) (\<lambda>i.
     let c = \<lparr>cn_id = i, cn_user = usr, cn_session = session, cn_code = Some code, cn_status = CActive, cn_assigned = None,
              cn_escalated_at = None, cn_reason = None, cn_resolved_at = None, cn_rating = None, cn_created = now, cn_updated = now\<rparr> in
     andThen (modify (\<lambda>s. s\<lparr>vs_convs := vs_convs s @ [c]\<rparr>)) (\<lambda>_. ret c)))"

definition latest_active :: "(conversation \<Rightarrow> bool) \<Rightarrow> conv_state \<Rightarrow> conversation option" where
  "latest_active P s =
     (case order_rows cn_updated False (filter (\<lambda>c. P c \<and> cn_status c = CActive) (vs_convs s)) of [] \<Rightarrow> None | c # cs \<Rightarrow> Some c)"

definition get_active_by_user :: "uuid \<Rightarrow> conv_state \<Rightarrow> conversation option" where
  "get_active_by_user u = latest_active (\<lambda>c. cn_user c = Some u)"

definition get_active_by_session :: "string \<Rightarrow> conv_state \<Rightarrow> conversation option" where
  "get_active_by_session session = latest_active (\<lambda>c. cn_session c = session)"

definition list_for_staff :: "uuid \<Rightarrow> string option \<Rightarrow> nat \<Rightarrow> nat \<Rightarrow> conv_state \<Rightarrow> conversation list \<times> nat" where
  "list_for_staff staff st skip limit s =
     (let rows = filter (\<lambda>c. (cn_assigned c = Some staff \<or> cn_assigned c = None) \<and>
            (truthy st \<longrightarrow> conv_status_text (cn_status c) = the st)) (vs_convs s) in
      (slice skip limit (order_rows cn_updated False rows), length rows))"

definition conv_not_found :: exn where
  "conv_not_found = AppError NotFound ''conversation_not_found''"

definition require_conversation :: "uuid \<Rightarrow> conversation cvop" where
  "require_conversation i = andThen (gets (conv_by_id i)) (require_some conv_not_found)"

text \<open>A row that changes gets a new \<^verbatim>\<open>updated_at\<close> from its trigger.\<close>

definition touched :: "time \<Rightarrow> (conversation \<Rightarrow> conversation) \<Rightarrow> conversation \<Rightarrow> conversation" where
  "touched now f c = (if f c = c then c else (f c)\<lparr>cn_updated := now\<rparr>)"

definition change_conversation :: "time \<Rightarrow> uuid \<Rightarrow> (conversation \<Rightarrow> conversation) \<Rightarrow> conversation cvop" where
  "change_conversation now i f =
     andThen (require_conversation i) (\<lambda>c.
     andThen (modify (\<lambda>s. s\<lparr>vs_convs := upd_row cn_id i (touched now f) (vs_convs s)\<rparr>)) (\<lambda>_. ret (touched now f c)))"

definition with_status :: "time \<Rightarrow> conv_status \<Rightarrow> conversation \<Rightarrow> conversation" where
  "with_status now st c =
     (let d = c\<lparr>cn_status := st\<rparr> in
      if st = CResolved then d\<lparr>cn_resolved_at := Some now\<rparr>
      else if st = CEscalated \<and> cn_escalated_at c = None then d\<lparr>cn_escalated_at := Some now\<rparr>
      else if st = CActive then d\<lparr>cn_resolved_at := None, cn_escalated_at := None\<rparr>
      else d)"

definition repo_set_status :: "time \<Rightarrow> uuid \<Rightarrow> conv_status \<Rightarrow> conversation cvop" where
  "repo_set_status now i st = change_conversation now i (with_status now st)"

definition last_activity :: "message list \<Rightarrow> conversation \<Rightarrow> time" where
  "last_activity ms c =
     (case map ms_created (filter (\<lambda>m. ms_conversation m = cn_id c) ms) of [] \<Rightarrow> cn_created c | t # ts \<Rightarrow> foldr max ts t)"

definition close_stale :: "time \<Rightarrow> time \<Rightarrow> nat cvop" where
  "close_stale now cutoff =
     andThen (gets (\<lambda>s. filter (\<lambda>c. cn_status c = CActive \<and> last_activity (vs_messages s) c < cutoff) (vs_convs s))) (\<lambda>stale.
     andThen (modify (\<lambda>s. s\<lparr>vs_convs := map (\<lambda>c. if cn_status c = CActive \<and> last_activity (vs_messages s) c < cutoff
         then c\<lparr>cn_status := CClosed, cn_updated := now\<rparr> else c) (vs_convs s)\<rparr>)) (\<lambda>_. ret (length stale)))"

definition assign_to_staff :: "time \<Rightarrow> uuid \<Rightarrow> uuid option \<Rightarrow> string \<Rightarrow> conversation cvop" where
  "assign_to_staff now i staff reason =
     change_conversation now i (\<lambda>c. c\<lparr>cn_status := CEscalated, cn_assigned := staff, cn_escalated_at := Some now, cn_reason := Some reason\<rparr>)"

text \<open>\<^verbatim>\<open>assigned_to\<close> is a foreign key.\<close>

definition repo_transfer :: "time \<Rightarrow> uuid \<Rightarrow> uuid \<Rightarrow> conversation cvop" where
  "repo_transfer now i staff =
     andThen (require_conversation i) (\<lambda>c.
     andThen (gets (\<lambda>s. user_by_id staff (vs_db s))) (\<lambda>u.
     andThen (ensure (cn_assigned c = Some staff \<or> u \<noteq> None) (PyError ''IntegrityError'')) (\<lambda>_.
     change_conversation now i (\<lambda>c. c\<lparr>cn_assigned := Some staff\<rparr>))))"

definition repo_resolve :: "time \<Rightarrow> uuid \<Rightarrow> int option \<Rightarrow> conversation cvop" where
  "repo_resolve now i rating =
     change_conversation now i (\<lambda>c. c\<lparr>cn_status := CResolved, cn_resolved_at := Some now, cn_rating := rating\<rparr>)"

section \<open>Message repository\<close>

record message_data =
  md_role :: message_role
  md_content :: string
  md_intent :: "intent option"
  md_confidence :: "rat option"
  md_served :: "string option \<times> string option \<times> int option"
  md_latency :: "int option"
  md_documents :: json
  md_flagged :: bool

definition plain_message :: "message_role \<Rightarrow> string \<Rightarrow> message_data" where
  "plain_message r content = \<lparr>md_role = r, md_content = content, md_intent = None, md_confidence = None,
     md_served = (None, None, None), md_latency = None, md_documents = JNull, md_flagged = False\<rparr>"

definition low_confidence :: "rat option \<Rightarrow> bool" where
  "low_confidence c \<longleftrightarrow> (case c of None \<Rightarrow> False | Some x \<Rightarrow> x < 6 / 10)"

text \<open>Half up, as the column type rounds.\<close>

definition two_places :: "rat \<Rightarrow> int" where
  "two_places x = \<lfloor>100 * x + 1 / 2\<rfloor>"

definition message_row :: "uuid \<Rightarrow> time \<Rightarrow> uuid \<Rightarrow> message_data \<Rightarrow> message" where
  "message_row i created conv d =
     \<lparr>ms_id = i, ms_conversation = conv, ms_role = md_role d, ms_content = md_content d, ms_intent = map_option intent_text (md_intent d),
      ms_confidence = map_option two_places (md_confidence d), ms_provider = fst (md_served d), ms_model = fst (snd (md_served d)),
      ms_tokens = snd (snd (md_served d)), ms_latency = md_latency d, ms_documents = md_documents d, ms_feedback = None,
      ms_flagged = (low_confidence (md_confidence d) \<or> md_flagged d), ms_reviewed_by = None, ms_reviewed_at = None, ms_action = None,
      ms_corrected = None, ms_created = created\<rparr>"

definition repo_create_message :: "time \<Rightarrow> uuid \<Rightarrow> message_data \<Rightarrow> message cvop" where
  "repo_create_message created conv d =
     andThen (on_shop fresh_id) (\<lambda>i.
     let m = message_row i created conv d in
     andThen (modify (\<lambda>s. s\<lparr>vs_messages := vs_messages s @ [m]\<rparr>)) (\<lambda>_. ret m))"

definition message_by_id :: "uuid \<Rightarrow> conv_state \<Rightarrow> message option" where
  "message_by_id i s = find_row ms_id i (vs_messages s)"

definition messages_of :: "uuid \<Rightarrow> conv_state \<Rightarrow> message list" where
  "messages_of conv s = filter (\<lambda>m. ms_conversation m = conv) (vs_messages s)"

definition list_by_conversation :: "uuid \<Rightarrow> nat \<Rightarrow> nat \<Rightarrow> conv_state \<Rightarrow> message list" where
  "list_by_conversation conv skip limit s = slice skip limit (order_rows ms_created True (messages_of conv s))"

definition get_recent :: "uuid \<Rightarrow> nat \<Rightarrow> conv_state \<Rightarrow> message list" where
  "get_recent conv limit s = rev (take limit (order_rows ms_created False (messages_of conv s)))"

definition msg_not_found :: exn where
  "msg_not_found = AppError NotFound ''message_not_found''"

definition change_message :: "uuid \<Rightarrow> (message \<Rightarrow> message) \<Rightarrow> message cvop" where
  "change_message i f =
     andThen (gets (message_by_id i)) (\<lambda>found.
     andThen (require_some msg_not_found found) (\<lambda>m.
     andThen (modify (\<lambda>s. s\<lparr>vs_messages := upd_row ms_id i f (vs_messages s)\<rparr>)) (\<lambda>_. ret (f m))))"

definition repo_update_feedback :: "uuid \<Rightarrow> int \<Rightarrow> message cvop" where
  "repo_update_feedback i score =
     change_message i (\<lambda>m. m\<lparr>ms_feedback := Some score, ms_flagged := (if score = - 1 then True else ms_flagged m)\<rparr>)"

definition flag_for_review :: "uuid \<Rightarrow> message cvop" where
  "flag_for_review i = change_message i (\<lambda>m. m\<lparr>ms_flagged := True\<rparr>)"

definition flagged_for_review :: "nat \<Rightarrow> nat \<Rightarrow> string option \<Rightarrow> conv_state \<Rightarrow> message list \<times> nat" where
  "flagged_for_review skip limit filter_intent s =
     (let rows = filter (\<lambda>m. ms_flagged m \<and> (truthy filter_intent \<longrightarrow> ms_intent m = filter_intent)) (vs_messages s) in
      (slice skip limit (order_rows ms_created True rows), length rows))"

definition previous_message :: "uuid \<Rightarrow> conv_state \<Rightarrow> message option" where
  "previous_message i s =
     (case message_by_id i s of
        None \<Rightarrow> None
      | Some m \<Rightarrow>
          (case order_rows ms_created False (filter (\<lambda>n. ms_created n < ms_created m \<and> ms_role n = RUser) (messages_of (ms_conversation m) s)) of
             [] \<Rightarrow> None | n # ns \<Rightarrow> Some n))"

end
