(* ===== verification/ChatTurn.thy ===== *)
theory ChatTurn
  imports Conversations
begin

text \<open>
  One turn of a conversation (\<^verbatim>\<open>_plan_response\<close> of \<^verbatim>\<open>services/conversation_service.py\<close>), blocking and
  streamed, the other operations of the service and its endpoints
  (\<^verbatim>\<open>api/v1/endpoints/conversations.py\<close>). A transaction that the database aborts for a serialisation
  failure is left out, as are the events' text format and the rate limits.
\<close>

section \<open>Environment\<close>

datatype chat_reply =
    Greeting "string option" | OrderReply prompt | CatalogReply catalog_reply | FollowupReply json | HandoffReply
  | ClarifyReply | AnswerReply rag_answer

text \<open>
  \<open>vc_clock k\<close> is the time at which a request creates its \<open>k\<close>-th message, \<open>vc_say\<close> the wording of a reply,
  \<open>vc_served\<close> and \<open>vc_latency\<close> what the model reports about a generated answer, \<open>vc_uuid_text\<close> the text of a
  new random identifier, \<open>vc_float_text\<close> of a float.
\<close>

record conv_env =
  vc_now :: time
  vc_clock :: "nat \<Rightarrow> time"
  vc_fold :: fold_text
  vc_intent :: intent_env
  vc_rag :: rag_env
  vc_chat :: chat_env
  vc_pg :: pg
  vc_say :: "language \<Rightarrow> chat_reply \<Rightarrow> string"
  vc_served :: "string option \<times> string option \<times> int option"
  vc_latency :: int
  vc_stale_days :: int
  vc_uuid_text :: string
  vc_float_text :: "rat \<Rightarrow> string"

definition intent_env_of :: "conv_env \<Rightarrow> intent_env" where
  "intent_env_of E = (vc_intent E)\<lparr>im_fold := vc_fold E\<rparr>"

definition rag_env_of :: "conv_env \<Rightarrow> rag_env" where
  "rag_env_of E = (vc_rag E)\<lparr>rg_fold := vc_fold E\<rparr>"

definition chat_env_of :: "conv_env \<Rightarrow> chat_env" where
  "chat_env_of E = (vc_chat E)\<lparr>ce_fold := vc_fold E, ce_now := vc_now E, ce_window := ambiguous_window (vc_fold E),
     ce_note := order_delivery_note (vc_fold E), ce_aborted := []\<rparr>"

definition chat_view :: "message \<Rightarrow> chat_message" where
  "chat_view m = \<lparr>cm_assistant = (ms_role m = RAssistant), cm_documents = ms_documents m, cm_created_at = Some (ms_created m)\<rparr>"

definition history_to_payload :: "message list \<Rightarrow> (string \<times> string) list" where
  "history_to_payload ms = map (\<lambda>m. (message_role_text (ms_role m), ms_content m)) ms"

section \<open>What the customer wants\<close>

text \<open>The overrides of the classified intent before the catalog is loaded.\<close>

definition overridden_intent :: "conv_env \<Rightarrow> chat_message list \<Rightarrow> string \<Rightarrow> intent_result \<Rightarrow> intent_result" where
  "overridden_intent E history content r0 =
     (let F = vc_fold E; calm = (\<lambda>r. it_category r \<noteq> SafetyEmergencyIntent);
          r1 = apply_order_context (vc_now E) history r0;
          r2 = (if calm r1 \<and> truthy (ambiguous_window F content) \<and> is_order_in_progress (vc_now E) history
                then order_context_intent r1 else r1);
          r3 = (if calm r2 \<and> is_explicit_human_request F content
                then \<lparr>it_category = Complaint, it_confidence = max (it_confidence r2) (9 / 10),
                       it_classifier = it_classifier r2 @ ''+explicit_human_request''\<rparr> else r2) in
      if calm r3 \<and> find_existing_chat_order history \<noteq> None \<and> is_post_order_change_request F content
      then order_context_intent r3 else r3)"

definition catalog_override :: "conv_env \<Rightarrow> string \<Rightarrow> product list \<Rightarrow> intent_result \<Rightarrow> intent_result" where
  "catalog_override E content catalog r =
     (case (if it_category r \<noteq> SafetyEmergencyIntent \<and> catalog \<noteq> [] then catalog_intent (vc_fold E) content catalog else None) of
        Some PlaceOrder \<Rightarrow> order_context_intent r
      | Some ProductInquiry \<Rightarrow>
          \<lparr>it_category = ProductInquiry, it_confidence = max (it_confidence r) (9 / 10),
           it_classifier = it_classifier r @ ''+catalog_product_inquiry''\<rparr>
      | _ \<Rightarrow> r)"

definition should_clarify :: "intent_result \<Rightarrow> bool" where
  "should_clarify r \<longleftrightarrow> it_confidence r < 6 / 10 \<and> it_category r \<notin> set [SafetyEmergencyIntent, Complaint, PlaceOrder]"

definition product_catalog :: "conv_env \<Rightarrow> product list cvop" where
  "product_catalog E = on_shop (list_active_catalog (vc_pg E) 50)"

section \<open>Answers\<close>

definition create_reply :: "conv_env \<Rightarrow> nat \<Rightarrow> uuid \<Rightarrow> message_data \<Rightarrow> message cvop" where
  "create_reply E k conv d = repo_create_message (vc_clock E k) conv d"

text \<open>\<^verbatim>\<open>_create_assistant_message\<close>\<close>

definition assistant_data :: "string \<Rightarrow> intent_result \<Rightarrow> json list \<Rightarrow> message_data" where
  "assistant_data content r docs =
     \<lparr>md_role = RAssistant, md_content = content, md_intent = Some (it_category r), md_confidence = Some (it_confidence r),
      md_served = (None, None, None), md_latency = Some 0, md_documents = JList docs, md_flagged = low_confidence (Some (it_confidence r))\<rparr>"

definition handoff_data :: "string \<Rightarrow> routing \<Rightarrow> message_data" where
  "handoff_data content rt =
     (plain_message RAssistant content)\<lparr>md_latency := Some 0, md_documents := JList [], md_flagged := rt_priority rt \<le> 1\<rparr>"

definition followup_data :: "string \<Rightarrow> intent_result \<Rightarrow> json \<Rightarrow> message_data" where
  "followup_data content r note = (assistant_data content r [note])\<lparr>md_flagged := True\<rparr>"

definition source_json :: "conv_env \<Rightarrow> retrieved_doc \<Rightarrow> json" where
  "source_json E d =
     JObj [(''id'', JStr (uuid_text (rd_id d))), (''title'', JStr (rd_title d)), (''category'', JStr (rd_category d)),
       (''similarity'', JFloat (vc_float_text E (rd_similarity d))), (''source_type'', JStr ''hybrid'')]"

definition answer_language :: "string \<Rightarrow> language option \<Rightarrow> language" where
  "answer_language content locale = detect_language content (if locale = Some En then En else Vi)"

definition resolve_product_context :: "conv_env \<Rightarrow> string \<Rightarrow> intent \<Rightarrow> product list option \<Rightarrow> string option cvop" where
  "resolve_product_context E content i catalog =
     (if i = SafetyEmergencyIntent then ret None
      else
        andThen (case catalog of Some ps \<Rightarrow> ret ps | None \<Rightarrow> product_catalog E) (\<lambda>ps.
        ret (query_aware_context (vc_fold E) content ps)))"

definition say_language :: "language option \<Rightarrow> language" where
  "say_language locale = (case locale of None \<Rightarrow> Vi | Some l \<Rightarrow> l)"

definition reply_text :: "conv_env \<Rightarrow> language \<Rightarrow> rag_answer \<Rightarrow> string" where
  "reply_text E l a = (case a of Generated t \<Rightarrow> t | Fixed f \<Rightarrow> vc_say E l (AnswerReply a))"

definition is_generated :: "rag_answer \<Rightarrow> bool" where
  "is_generated a \<longleftrightarrow> (case a of Generated t \<Rightarrow> True | Fixed f \<Rightarrow> False)"

text \<open>The row of an answer, blocking (\<^verbatim>\<open>_create_rag_answer\<close>) or streamed (\<^verbatim>\<open>_persist_streamed_answer\<close>).\<close>

definition rag_data ::
    "conv_env \<Rightarrow> intent_result \<Rightarrow> string \<Rightarrow> retrieved_doc list \<Rightarrow> string option \<times> string option \<times> int option \<Rightarrow> message_data" where
  "rag_data E r answer sources served =
     (assistant_data answer r (map (source_json E) sources))\<lparr>md_served := served, md_latency := Some (vc_latency E)\<rparr>"

definition create_rag_answer ::
    "conv_env \<Rightarrow> nat \<Rightarrow> uuid \<Rightarrow> string \<Rightarrow> (string \<times> string) list \<Rightarrow> intent_result \<Rightarrow> product list option \<Rightarrow> language option \<Rightarrow>
     message cvop" where
  "create_rag_answer E k conv content history r catalog locale =
     andThen (resolve_product_context E content (it_category r) catalog) (\<lambda>ctx.
     let l = answer_language content locale in
     andThen (lift_result (rag_query (rag_env_of E) content history None 5 ctx l)) (\<lambda>a.
     create_reply E k conv (rag_data E r (reply_text E l (ra_answer a)) (ra_sources a)
       (if is_generated (ra_answer a) then vc_served E else (None, None, None)))))"

section \<open>The plan of a turn\<close>

record message_request =
  mr_content :: string
  mr_locale :: "language option"

record stream_plan =
  sp_content :: string
  sp_history :: "(string \<times> string) list"
  sp_catalog :: "product list option"
  sp_intent :: intent_result
  sp_locale :: "language option"

record response_plan =
  rp_user :: message
  rp_conversation :: uuid
  rp_cards :: "product_card list"
  rp_reply :: "message option"
  rp_stream :: "stream_plan option"

text \<open>What is known of a turn when its branch is chosen.\<close>

record turn_context =
  tc_conv :: uuid
  tc_history :: "message list"
  tc_intent :: intent_result
  tc_catalog :: "product list option"
  tc_routing :: routing
  tc_note :: "json option"
  tc_product :: "catalog_reply option"
  tc_cards :: "product_card list"

text \<open>The classified intent, after the overrides, and the catalog that was loaded on the way.\<close>

definition understand :: "conv_env \<Rightarrow> message list \<Rightarrow> string \<Rightarrow> (intent_result \<times> product list option) cvop" where
  "understand E history content =
     andThen (lift_result (map_sum llm_exn id (hybrid_classify (intent_env_of E) (7 / 10) content))) (\<lambda>r0.
     let r = overridden_intent E (map chat_view history) content r0 in
     if it_category r = SafetyEmergencyIntent then ret (r, None)
     else andThen (product_catalog E) (\<lambda>ps. ret (catalog_override E content ps r, Some ps)))"

definition followup_request :: "conv_env \<Rightarrow> message list \<Rightarrow> string \<Rightarrow> intent \<Rightarrow> json option" where
  "followup_request E history content i =
     (if i \<noteq> SafetyEmergencyIntent \<and> \<not> is_order_in_progress (vc_now E) (map chat_view history) \<and>
         find_existing_chat_order (map chat_view history) = None
      then detect_followup (vc_fold E) content i else None)"

definition product_inquiry ::
    "conv_env \<Rightarrow> string \<Rightarrow> product list \<Rightarrow> (catalog_reply option \<times> product_card list) cvop" where
  "product_inquiry E content catalog =
     andThen (on_shop (price_inquiry (vc_fold E) (vc_pg E) content catalog)) (\<lambda>priced.
     ret (case priced of
            Some p \<Rightarrow> (Some p, [])
          | None \<Rightarrow>
              (case gas_size_inquiry (vc_fold E) content catalog of
                 Some q \<Rightarrow> (Some (SizeReply q), [])
               | None \<Rightarrow>
                   (case catalog_list (vc_fold E) content catalog of
                      Some l \<Rightarrow> (Some l, [])
                    | None \<Rightarrow> (None, map product_to_card (select_card_products (vc_fold E) content catalog))))))"

definition escalate :: "conv_env \<Rightarrow> uuid \<Rightarrow> routing \<Rightarrow> unit cvop" where
  "escalate E conv rt =
     (if rt_human rt
      then andThen (assign_to_staff (vc_now E) conv (rt_staff rt) (rt_reason rt)) (\<lambda>_. ret ()) else ret ())"

text \<open>The order dialog, which reads the first 200 messages of the conversation.\<close>

definition order_turn ::
    "conv_env \<Rightarrow> uuid \<Rightarrow> message list \<Rightarrow> user option \<Rightarrow> product list \<Rightarrow> string \<Rightarrow> chat_turn cvop" where
  "order_turn E conv history usr catalog content =
     andThen (gets (list_by_conversation conv 0 200)) (\<lambda>ms.
     on_shop (handle_chat_order (chat_env_of E) conv (map chat_view history) (map chat_view ms) usr catalog content))"

definition answered :: "product_card list \<Rightarrow> message cvop \<Rightarrow> (product_card list \<times> message option \<times> stream_plan option) cvop" where
  "answered cards m = andThen m (\<lambda>reply. ret (cards, Some reply, None))"

definition dispatch_turn ::
    "conv_env \<Rightarrow> message_request \<Rightarrow> user option \<Rightarrow> turn_context \<Rightarrow> (product_card list \<times> message option \<times> stream_plan option) cvop" where
  "dispatch_turn E rq usr T =
     (let r = tc_intent T; conv = tc_conv T; l = say_language (mr_locale rq); say = vc_say E l;
          catalog = (case tc_catalog T of None \<Rightarrow> [] | Some ps \<Rightarrow> ps) in
      if it_category r = SafetyEmergencyIntent
      then answered (tc_cards T)
             (create_rag_answer E 1 conv (mr_content rq) (history_to_payload (tc_history T)) r None (mr_locale rq))
      else case tc_note T of
        Some note \<Rightarrow> answered (tc_cards T) (create_reply E 1 conv (followup_data (say (FollowupReply note)) r note))
      | None \<Rightarrow>
          if rt_human (tc_routing T)
          then answered (tc_cards T) (create_reply E 1 conv (handoff_data (say HandoffReply) (tc_routing T)))
          else if should_clarify r
          then answered (tc_cards T) (create_reply E 1 conv (assistant_data (say ClarifyReply) r []))
          else case tc_product T of
            Some p \<Rightarrow> answered (tc_cards T) (create_reply E 1 conv (assistant_data (say (CatalogReply p)) r []))
          | None \<Rightarrow>
              if it_category r = PlaceOrder
              then andThen (order_turn E conv (tc_history T) usr catalog (mr_content rq)) (\<lambda>t.
                   answered (map product_to_card (ct_cards t))
                     (create_reply E 1 conv (assistant_data (say (OrderReply (ct_prompt t))) r (ct_documents t))))
              else ret (tc_cards T, None,
                     Some \<lparr>sp_content = mr_content rq, sp_history = history_to_payload (tc_history T), sp_catalog = tc_catalog T,
                           sp_intent = r, sp_locale = mr_locale rq\<rparr>))"

definition user_data :: "string \<Rightarrow> intent_result \<Rightarrow> message_data" where
  "user_data content r =
     (plain_message RUser content)\<lparr>md_intent := Some (it_category r), md_confidence := Some (it_confidence r)\<rparr>"

text \<open>\<^verbatim>\<open>_plan_response\<close>\<close>

definition plan_response :: "conv_env \<Rightarrow> uuid \<Rightarrow> message_request \<Rightarrow> user option \<Rightarrow> response_plan cvop" where
  "plan_response E conv rq usr =
     andThen (require_conversation conv) (\<lambda>_.
     andThen (gets (get_recent conv 10)) (\<lambda>history.
     andThen (understand E history (mr_content rq)) (\<lambda>(r, catalog).
     andThen (create_reply E 0 conv (user_data (mr_content rq) r)) (\<lambda>um.
     andThen (gets (\<lambda>s. route_intent (it_category r) (vs_db s))) (\<lambda>rt.
     andThen (escalate E conv rt) (\<lambda>_.
     andThen (case catalog of
                Some ps \<Rightarrow> if it_category r = ProductInquiry \<and> \<not> should_clarify r then product_inquiry E (mr_content rq) ps else ret (None, [])
              | None \<Rightarrow> ret (None, [])) (\<lambda>(reply, cards).
     andThen (dispatch_turn E rq usr
       \<lparr>tc_conv = conv, tc_history = history, tc_intent = r, tc_catalog = catalog, tc_routing = rt,
        tc_note = followup_request E history (mr_content rq) (it_category r), tc_product = reply, tc_cards = cards\<rparr>)
       (\<lambda>(cards', answer, stream).
     ret \<lparr>rp_user = um, rp_conversation = conv, rp_cards = cards', rp_reply = answer, rp_stream = stream\<rparr>))))))))"

section \<open>Sending a message\<close>

record turn_response =
  tr_user :: message
  tr_reply :: "message option"
  tr_conversation :: conversation
  tr_cards :: "product_card list"

definition finish_turn :: "response_plan \<Rightarrow> message option \<Rightarrow> turn_response cvop" where
  "finish_turn P reply =
     andThen (require_conversation (rp_conversation P)) (\<lambda>c.
     ret \<lparr>tr_user = rp_user P, tr_reply = reply, tr_conversation = c, tr_cards = rp_cards P\<rparr>)"

definition send_message :: "conv_env \<Rightarrow> uuid \<Rightarrow> message_request \<Rightarrow> user option \<Rightarrow> turn_response cvop" where
  "send_message E conv rq usr =
     andThen (plan_response E conv rq usr) (\<lambda>P.
     andThen (case rp_stream P of
                None \<Rightarrow> ret (rp_reply P)
              | Some p \<Rightarrow>
                  andThen (create_rag_answer E 1 conv (sp_content p) (sp_history p) (sp_intent p) (sp_catalog p) (sp_locale p))
                    (\<lambda>m. ret (Some m))) (\<lambda>reply.
     finish_turn P reply))"

text \<open>
  The streamed turn is a generator: what it has sent, and how it ends. \<open>gone\<close> is the number of pieces after
  which the client is gone; then the turn ends without its last event. Empty pieces are not sent. What was
  sent is stored even when the stream breaks.
\<close>

datatype stream_end = StreamDone turn_response | ClientGone

definition is_cut :: "nat option \<Rightarrow> 'a list \<Rightarrow> bool" where
  "is_cut gone pieces \<longleftrightarrow> (case gone of None \<Rightarrow> False | Some n \<Rightarrow> n \<le> length pieces)"

definition sent_pieces :: "nat option \<Rightarrow> 'a list \<Rightarrow> 'a list" where
  "sent_pieces gone pieces = (case gone of None \<Rightarrow> pieces | Some n \<Rightarrow> take n pieces)"

definition end_stream :: "nat option \<Rightarrow> string list \<Rightarrow> response_plan \<Rightarrow> message option \<Rightarrow> stream_end cvop" where
  "end_stream gone pieces P reply =
     (if is_cut gone pieces then ret ClientGone else andThen (finish_turn P reply) (\<lambda>t. ret (StreamDone t)))"

definition generated_pieces :: "conv_env \<Rightarrow> language \<Rightarrow> rag_streamed \<Rightarrow> string list" where
  "generated_pieces E l R = filter (\<lambda>t. t \<noteq> []) (map (reply_text E l) (rs_pieces R))"

definition stream_answer ::
    "conv_env \<Rightarrow> nat option \<Rightarrow> response_plan \<Rightarrow> stream_plan \<Rightarrow> language \<Rightarrow> rag_streamed \<Rightarrow> stream_end cvop" where
  "stream_answer E gone P p l R =
     (let pieces = generated_pieces E l R; sent = sent_pieces gone pieces; over = \<not> is_cut gone pieces;
          served = (case rs_sink R of Some x \<Rightarrow> if over then x else (None, None, None) | None \<Rightarrow> (None, None, None)) in
      andThen (if sent = [] then ret None
               else andThen (create_reply E 1 (rp_conversation P) (rag_data E (sp_intent p) (concat sent) (rs_sources R) served))
                      (\<lambda>m. ret (Some m))) (\<lambda>reply.
      case rs_error R of
        Some e \<Rightarrow> if over then raise (case e of Inl x \<Rightarrow> x | Inr x \<Rightarrow> llm_exn x) else ret ClientGone
      | None \<Rightarrow> end_stream gone pieces P reply))"

definition stream_message ::
    "conv_env \<Rightarrow> nat option \<Rightarrow> uuid \<Rightarrow> message_request \<Rightarrow> user option \<Rightarrow> conv_state \<Rightarrow>
     string list \<times> (exn + stream_end) \<times> conv_state" where
  "stream_message E gone conv rq usr s =
     (case plan_response E conv rq usr s of
        (Inl e, t) \<Rightarrow> ([], Inl e, t)
      | (Inr P, t) \<Rightarrow>
          (case rp_stream P of
             None \<Rightarrow>
               (let pieces = (case rp_reply P of None \<Rightarrow> [] | Some m \<Rightarrow> if ms_content m = [] then [] else [ms_content m]) in
                (sent_pieces gone pieces, end_stream gone pieces P (rp_reply P) t))
           | Some p \<Rightarrow>
               (case resolve_product_context E (sp_content p) (it_category (sp_intent p)) (sp_catalog p) t of
                  (Inl e, u) \<Rightarrow> ([], Inl e, u)
                | (Inr ctx, u) \<Rightarrow>
                    (let l = answer_language (sp_content p) (sp_locale p);
                         R = rag_stream (rag_env_of E) (sp_content p) (sp_history p) None 5 ctx l in
                     (sent_pieces gone (generated_pieces E l R), stream_answer E gone P p l R u)))))"

section \<open>The other operations\<close>

definition start_conversation ::
    "conv_env \<Rightarrow> user option \<Rightarrow> string option \<Rightarrow> string option \<Rightarrow> language option \<Rightarrow> conversation cvop" where
  "start_conversation E usr session initial locale =
     (let ui = say_language locale in
      andThen (repo_create_conversation (vc_now E) (map_option u_id usr) (if truthy session then the session else vc_uuid_text E)) (\<lambda>c.
      andThen (create_reply E 0 (cn_id c) (plain_message RAssistant
        (vc_say E ui (Greeting (if truthy (Option.bind usr u_full_name) then Option.bind usr u_full_name else None))))) (\<lambda>_.
      andThen (if truthy initial
               then andThen (send_message (E\<lparr>vc_clock := \<lambda>k. vc_clock E (k + 1)\<rparr>) (cn_id c)
                      \<lparr>mr_content = the initial, mr_locale = Some ui\<rparr> usr) (\<lambda>_. ret ())
               else ret ()) (\<lambda>_.
      require_conversation (cn_id c)))))"

definition get_active_conversation :: "user option \<Rightarrow> string option \<Rightarrow> conversation option cvop" where
  "get_active_conversation usr session =
     gets (\<lambda>s.
       case Option.bind usr (\<lambda>u. get_active_by_user (u_id u) s) of
         Some c \<Rightarrow> Some c
       | None \<Rightarrow> if truthy session then get_active_by_session (the session) s else None)"

definition submit_feedback :: "uuid \<Rightarrow> int \<Rightarrow> message cvop" where
  "submit_feedback i score =
     andThen (repo_update_feedback i score) (\<lambda>m. if score = - 1 then flag_for_review i else ret m)"

definition staff_send_message :: "conv_env \<Rightarrow> uuid \<Rightarrow> string \<Rightarrow> message cvop" where
  "staff_send_message E conv content =
     andThen (require_conversation conv) (\<lambda>_. create_reply E 0 conv (plain_message RStaff content))"

definition list_staff_conversations ::
    "conv_env \<Rightarrow> uuid \<Rightarrow> string option \<Rightarrow> nat \<Rightarrow> nat \<Rightarrow> (conversation list \<times> nat) cvop" where
  "list_staff_conversations E staff st skip limit =
     andThen (close_stale (vc_now E) (vc_now E - secs (86400 * vc_stale_days E))) (\<lambda>_.
     gets (list_for_staff staff st skip limit))"

section \<open>Endpoints\<close>

datatype conv_call =
    StartChat "string option" "string option" "language option"
  | ActiveChat "string option"
  | GetChat uuid
  | ListMessages uuid nat nat
  | SendMessage uuid string "string option" "language option"
  | StreamMessage uuid string "string option" "language option" "nat option"
  | SubmitFeedback uuid uuid int
  | ResolveChat uuid "int option"
  | StaffChats "string option" nat nat
  | StaffReply uuid string
  | SetChatStatus uuid conv_status
  | TransferChat uuid uuid

datatype conv_reply =
    ChatIs conversation | ActiveIs "conversation option" | MessagesAre "message list" | TurnIs turn_response
  | StreamEnds stream_end | MessageIs message | ChatsAre "conversation list" nat

definition giving :: "('a \<Rightarrow> conv_reply) \<Rightarrow> 'a cvop \<Rightarrow> conv_reply cvop" where
  "giving f m = andThen m (\<lambda>x. ret (f x))"

definition checked :: "bool \<Rightarrow> 'a cvop \<Rightarrow> 'a cvop" where
  "checked ok m = andThen (ensure ok request_error) (\<lambda>_. m)"

definition content_ok :: "string \<Rightarrow> bool" where
  "content_ok t \<longleftrightarrow> 1 \<le> length t \<and> length t \<le> 2000"

definition session_ok :: "string option \<Rightarrow> bool" where
  "session_ok t \<longleftrightarrow> (case t of None \<Rightarrow> True | Some x \<Rightarrow> length x \<le> 100)"

definition page_ok :: "nat \<Rightarrow> bool" where
  "page_ok limit \<longleftrightarrow> 1 \<le> limit \<and> limit \<le> 100"

text \<open>A path without a current user is rejected by its dependency.\<close>

definition for_staff :: "user option \<Rightarrow> (user \<Rightarrow> 'a cvop) \<Rightarrow> 'a cvop" where
  "for_staff usr m =
     (case usr of
        None \<Rightarrow> raise (AppError Unauthorized ''not_authenticated'')
      | Some u \<Rightarrow> andThen (ensure (is_staff u) (AppError Forbidden ''staff_required'')) (\<lambda>_. m u))"

fun conv_endpoint :: "conv_env \<Rightarrow> user option \<Rightarrow> conv_call \<Rightarrow> conv_reply cvop" where
  "conv_endpoint E usr (StartChat session initial locale) =
     checked (session_ok session \<and> (case initial of None \<Rightarrow> True | Some t \<Rightarrow> content_ok t))
       (giving ChatIs (start_conversation E usr session initial locale))"
| "conv_endpoint E usr (ActiveChat session) = checked (session_ok session) (giving ActiveIs (get_active_conversation usr session))"
| "conv_endpoint E usr (GetChat i) = giving ChatIs (require_conversation i)"
| "conv_endpoint E usr (ListMessages i skip limit) =
     checked (page_ok limit) (giving MessagesAre (gets (list_by_conversation i skip limit)))"
| "conv_endpoint E usr (SendMessage i content session locale) =
     checked (content_ok content \<and> session_ok session)
       (giving TurnIs (send_message E i \<lparr>mr_content = content, mr_locale = locale\<rparr> usr))"
| "conv_endpoint E usr (StreamMessage i content session locale gone) =
     checked (content_ok content \<and> session_ok session)
       (giving StreamEnds (\<lambda>s. snd (stream_message E gone i \<lparr>mr_content = content, mr_locale = locale\<rparr> usr s)))"
| "conv_endpoint E usr (SubmitFeedback c i score) =
     checked (score \<in> set [- 1, 0, 1]) (giving MessageIs (submit_feedback i score))"
| "conv_endpoint E usr (ResolveChat i rating) =
     checked (case rating of None \<Rightarrow> True | Some n \<Rightarrow> 1 \<le> n \<and> n \<le> 5) (giving ChatIs (repo_resolve (vc_now E) i rating))"
| "conv_endpoint E usr (StaffChats st skip limit) =
     for_staff usr (\<lambda>u. checked (page_ok limit) (giving (\<lambda>(cs, n). ChatsAre cs n) (list_staff_conversations E (u_id u) st skip limit)))"
| "conv_endpoint E usr (StaffReply i content) =
     for_staff usr (\<lambda>u. checked (content_ok content) (giving MessageIs (staff_send_message E i content)))"
| "conv_endpoint E usr (SetChatStatus i st) =
     for_staff usr (\<lambda>u. checked (st \<noteq> CAbandoned) (giving ChatIs (repo_set_status (vc_now E) i st)))"
| "conv_endpoint E usr (TransferChat i staff) = for_staff usr (\<lambda>u. giving ChatIs (repo_transfer (vc_now E) i staff))"

text \<open>One request is one transaction.\<close>

definition conv_request :: "conv_env \<Rightarrow> user option \<Rightarrow> conv_call \<Rightarrow> conv_reply cvop" where
  "conv_request E usr c = transact (conv_endpoint E usr c)"

end
