(* ===== verification/Review.thy ===== *)
theory Review
  imports Conversations Knowledge
begin

text \<open>
  The review of flagged chat messages (\<^verbatim>\<open>services/review_service.py\<close>, \<^verbatim>\<open>api/v1/endpoints/review.py\<close>): the
  queue, the three decisions of a reviewer and the statistics. A decision may put the answer into the
  knowledge base. The average review time is the exact mean; groups of equal size have no order of their own.
\<close>

section \<open>State\<close>

record ('v, 'r) review_state =
  rw_chat :: conv_state
  rw_kb :: "('v, 'r) kb_state"

type_synonym ('v, 'r, 'a) rwop = "(('v, 'r) review_state, 'a) op"

definition on_chat :: "'a cvop \<Rightarrow> ('v, 'r, 'a) rwop" where
  "on_chat m s = (case m (rw_chat s) of (r, c) \<Rightarrow> (r, s\<lparr>rw_chat := c\<rparr>))"

definition on_kb :: "('v, 'r, 'a) kbop \<Rightarrow> ('v, 'r, 'a) rwop" where
  "on_kb m s = (case m (rw_kb s) of (r, k) \<Rightarrow> (r, s\<lparr>rw_kb := k\<rparr>))"

lemma on_chat_eq [op_simps]: "on_chat m s = (r, t) \<longleftrightarrow> (\<exists>c. m (rw_chat s) = (r, c) \<and> t = s\<lparr>rw_chat := c\<rparr>)"
  by (auto simp: on_chat_def split: prod.splits)

lemma on_kb_eq [op_simps]: "on_kb m s = (r, t) \<longleftrightarrow> (\<exists>k. m (rw_kb s) = (r, k) \<and> t = s\<lparr>rw_kb := k\<rparr>)"
  by (auto simp: on_kb_def split: prod.splits)

section \<open>The queue\<close>

datatype review_reason = NegativeFeedback | LowConfidence int | NeedsReview

definition infer_reason :: "message \<Rightarrow> review_reason" where
  "infer_reason m =
     (if ms_feedback m = Some (- 1) then NegativeFeedback
      else case ms_confidence m of
        Some c \<Rightarrow> if c < 60 then LowConfidence c else NeedsReview
      | None \<Rightarrow> NeedsReview)"

record flagged_message =
  fg_message :: uuid
  fg_conversation :: uuid
  fg_response :: string
  fg_query :: string
  fg_intent :: "string option"
  fg_confidence :: "int option"
  fg_feedback :: "int option"
  fg_created :: time
  fg_documents :: json
  fg_reason :: review_reason

definition flagged_response :: "conv_state \<Rightarrow> message \<Rightarrow> flagged_message" where
  "flagged_response s m =
     \<lparr>fg_message = ms_id m, fg_conversation = ms_conversation m, fg_response = ms_content m,
      fg_query = (case previous_message (ms_id m) s of None \<Rightarrow> [] | Some p \<Rightarrow> ms_content p), fg_intent = ms_intent m,
      fg_confidence = ms_confidence m, fg_feedback = ms_feedback m, fg_created = ms_created m, fg_documents = ms_documents m,
      fg_reason = infer_reason m\<rparr>"

definition get_flagged_messages :: "nat \<Rightarrow> nat \<Rightarrow> string option \<Rightarrow> ('v, 'r, flagged_message list \<times> nat) rwop" where
  "get_flagged_messages skip limit intent_filter =
     on_chat (gets (\<lambda>s. case flagged_for_review skip limit intent_filter s of (ms, n) \<Rightarrow> (map (flagged_response s) ms, n)))"

section \<open>Decisions\<close>

definition reviewable :: "uuid \<Rightarrow> user \<Rightarrow> ('v, 'r, message) rwop" where
  "reviewable i u =
     andThen (ensure (is_staff u) (AppError Forbidden (default_error_code Forbidden))) (\<lambda>_.
     andThen (on_chat (gets (message_by_id i))) (require_some (AppError NotFound (default_error_code NotFound))))"

definition reviewed :: "review_action \<Rightarrow> user \<Rightarrow> time \<Rightarrow> message \<Rightarrow> message" where
  "reviewed a u now m = m\<lparr>ms_action := Some a, ms_reviewed_by := Some (u_id u), ms_reviewed_at := Some now, ms_flagged := False\<rparr>"

definition approve_message :: "time \<Rightarrow> uuid \<Rightarrow> string option \<Rightarrow> user \<Rightarrow> ('v, 'r, bool) rwop" where
  "approve_message now i corrected u =
     andThen (reviewable i u) (\<lambda>_.
     andThen (on_chat (change_message i (\<lambda>m. (reviewed Approved u now m)\<lparr>ms_corrected := corrected\<rparr>))) (\<lambda>_. ret True))"

definition reject_message :: "time \<Rightarrow> uuid \<Rightarrow> user \<Rightarrow> ('v, 'r, bool) rwop" where
  "reject_message now i u =
     andThen (reviewable i u) (\<lambda>_. andThen (on_chat (change_message i (reviewed Rejected u now))) (\<lambda>_. ret True))"

definition learned_row :: "string \<Rightarrow> string \<Rightarrow> string \<Rightarrow> kb_row" where
  "learned_row title content category =
     \<lparr>kr_title = JStr title, kr_content = JStr content, kr_category = JStr category, kr_source = JStr ''user_chat_approved'',
      kr_metadata = JObj []\<rparr>"

text \<open>The answer is embedded by the one embedding service the reviewer has.\<close>

definition add_to_knowledge_base :: "('v, 'r) kb_env \<Rightarrow> uuid \<Rightarrow> string \<Rightarrow> string \<Rightarrow> user \<Rightarrow> ('v, 'r, uuid) rwop" where
  "add_to_knowledge_base E i category title u =
     andThen (reviewable i u) (\<lambda>m.
     let content = (if truthy (ms_corrected m) then the (ms_corrected m) else ms_content m) in
     andThen (lift_result (map_sum llm_exn id (ke_gemini E (embedding_text title content)))) (\<lambda>v.
     andThen (on_kb (repo_kb_create E (learned_row title content category) (no_vectors\<lparr>ve_gemini := Some v\<rparr>))) (\<lambda>d.
     andThen (on_chat (change_message i (reviewed AddedToKb u (ke_now E)))) (\<lambda>_. ret (kd_id d)))))"

section \<open>Statistics\<close>

record review_statistics =
  rs_flagged :: nat
  rs_pending :: nat
  rs_approved :: nat
  rs_rejected :: nat
  rs_added :: nat
  rs_by_intent :: "(string \<times> nat) list"
  rs_average :: "rat option"
  rs_reviewers :: "(uuid \<times> nat) list"

definition in_period :: "time option \<Rightarrow> time option \<Rightarrow> message \<Rightarrow> bool" where
  "in_period date_from date_to m \<longleftrightarrow>
     (case date_from of None \<Rightarrow> True | Some a \<Rightarrow> a \<le> ms_created m) \<and> (case date_to of None \<Rightarrow> True | Some b \<Rightarrow> ms_created m \<le> b)"

definition counted :: "'a list \<Rightarrow> ('a \<times> nat) list" where
  "counted xs = map (\<lambda>x. (x, count_list xs x)) (remdups xs)"

definition review_minutes :: "message list \<Rightarrow> rat list" where
  "review_minutes ms =
     List.map_filter (\<lambda>m. map_option (\<lambda>t. of_int (t - ms_created m) / 60000000) (if ms_action m = None then None else ms_reviewed_at m)) ms"

definition review_statistics_of :: "time option \<Rightarrow> time option \<Rightarrow> ('v, 'r, review_statistics) rwop" where
  "review_statistics_of date_from date_to =
     on_chat (gets (\<lambda>s.
       let ms = filter (in_period date_from date_to) (vs_messages s); seen = filter (\<lambda>m. ms_flagged m \<or> ms_action m \<noteq> None) ms;
           times = review_minutes ms in
       \<lparr>rs_flagged = length seen, rs_pending = length (filter ms_flagged ms),
        rs_approved = length (filter (\<lambda>m. ms_action m = Some Approved) ms),
        rs_rejected = length (filter (\<lambda>m. ms_action m = Some Rejected) ms),
        rs_added = length (filter (\<lambda>m. ms_action m = Some AddedToKb) ms),
        rs_by_intent = counted (map (\<lambda>m. if truthy (ms_intent m) then the (ms_intent m) else ''unknown'') seen),
        rs_average = (if times = [] then None else Some (sum_list times / of_nat (length times))),
        rs_reviewers = take 5 (sort_key (\<lambda>(u, n). - int n) (counted (List.map_filter ms_reviewed_by ms)))\<rparr>))"

section \<open>Endpoints\<close>

datatype review_call =
    ListFlagged nat nat "string option" | ApproveMessage uuid "string option" | RejectMessage uuid
  | AddMessageToKb uuid string string | ReviewStats "time option" "time option"

datatype review_reply = FlaggedAre "flagged_message list" nat | Decided bool | LearnedAs uuid | StatisticsAre review_statistics

fun review_endpoint :: "('v, 'r) kb_env \<Rightarrow> user \<Rightarrow> review_call \<Rightarrow> ('v, 'r, review_reply) rwop" where
  "review_endpoint E u (ListFlagged skip limit intent_filter) =
     andThen (ensure (1 \<le> limit \<and> limit \<le> 100 \<and> (case intent_filter of None \<Rightarrow> True | Some t \<Rightarrow> length t \<le> 50)) request_error) (\<lambda>_.
     andThen (get_flagged_messages skip limit intent_filter) (\<lambda>(ms, n). ret (FlaggedAre ms n)))"
| "review_endpoint E u (ApproveMessage i corrected) =
     andThen (ensure (corrected \<noteq> Some []) request_error) (\<lambda>_.
     andThen (approve_message (ke_now E) i corrected u) (\<lambda>b. ret (Decided b)))"
| "review_endpoint E u (RejectMessage i) = andThen (reject_message (ke_now E) i u) (\<lambda>b. ret (Decided b))"
| "review_endpoint E u (AddMessageToKb i category title) =
     andThen (ensure (category \<in> set kb_categories \<and> 1 \<le> length title \<and> length title \<le> 255) request_error) (\<lambda>_.
     andThen (add_to_knowledge_base E i category title u) (\<lambda>d. ret (LearnedAs d)))"
| "review_endpoint E u (ReviewStats date_from date_to) = andThen (review_statistics_of date_from date_to) (\<lambda>x. ret (StatisticsAre x))"

definition review_request :: "('v, 'r) kb_env \<Rightarrow> user \<Rightarrow> review_call \<Rightarrow> ('v, 'r, review_reply) rwop" where
  "review_request E u c =
     transact (andThen (ensure (is_staff u) (AppError Forbidden ''staff_required'')) (\<lambda>_. review_endpoint E u c))"

end
