(* ===== verification/ConversationRuns.thy ===== *)
theory ConversationRuns
  imports ChatTurn ChatConfirm Review
begin

text \<open>
  What every sequence of chat and review requests keeps: the time stamps of the conversations and the
  completeness of the review queue, both instances of a law on single rows.
\<close>

section \<open>Rows over requests\<close>

text \<open>
  The interface between the repositories and a property of single rows: the property holds of a row as it is
  created and of every change a repository makes to one.
\<close>

lemma keeps_prod [keeps_intros]:
  "(\<And>x y. p = (x, y) \<Longrightarrow> keeps P (f x y)) \<Longrightarrow> keeps P (case p of (x, y) \<Rightarrow> f x y)"
  by (cases p) simp

lemma upd_row_all: "r \<in> set (upd_row key i f rows) \<Longrightarrow> \<exists>q \<in> set rows. r = q \<or> r = f q"
  by (auto simp: upd_row_def)

locale row_law =
  fixes C :: "conversation \<Rightarrow> bool" and M :: "message \<Rightarrow> bool"
  assumes new_conversation: "C \<lparr>cn_id = i, cn_user = usr, cn_session = session, cn_code = Some code, cn_status = CActive,
      cn_assigned = None, cn_escalated_at = None, cn_reason = None, cn_resolved_at = None, cn_rating = None,
      cn_created = now, cn_updated = now\<rparr>"
    and touch: "C c \<Longrightarrow> C (c\<lparr>cn_updated := now\<rparr>)"
    and status: "C c \<Longrightarrow> C (with_status now st c)"
    and stale: "C c \<Longrightarrow> cn_status c = CActive \<Longrightarrow> C (c\<lparr>cn_status := CClosed, cn_updated := now\<rparr>)"
    and escalation: "C c \<Longrightarrow> C (c\<lparr>cn_status := CEscalated, cn_assigned := staff, cn_escalated_at := Some now, cn_reason := Some reason\<rparr>)"
    and handover: "C c \<Longrightarrow> C (c\<lparr>cn_assigned := staff\<rparr>)"
    and resolution: "C c \<Longrightarrow> C (c\<lparr>cn_status := CResolved, cn_resolved_at := Some now, cn_rating := rating\<rparr>)"
    and new_message: "M (message_row i created conv d)"
    and feedback: "M m \<Longrightarrow> M (m\<lparr>ms_feedback := Some score, ms_flagged := (if score = - 1 then True else ms_flagged m)\<rparr>)"
    and flag: "M m \<Longrightarrow> M (m\<lparr>ms_flagged := True\<rparr>)"
begin

definition rows_ok :: "conv_state \<Rightarrow> bool" where
  "rows_ok s \<longleftrightarrow> (\<forall>c \<in> set (vs_convs s). C c) \<and> (\<forall>m \<in> set (vs_messages s). M m)"

lemma shop_keeps: "keeps rows_ok (on_shop m)"
  by (auto simp: keeps_def on_shop_def rows_ok_def split: prod.splits)

lemma convs_keep: "(\<And>s. rows_ok s \<Longrightarrow> \<forall>c \<in> set (f s). C c) \<Longrightarrow> keeps rows_ok (modify (\<lambda>s. s\<lparr>vs_convs := f s\<rparr>))"
  by (auto simp: keeps_def modify_def rows_ok_def)

lemma messages_keep: "(\<And>s. rows_ok s \<Longrightarrow> \<forall>m \<in> set (f s). M m) \<Longrightarrow> keeps rows_ok (modify (\<lambda>s. s\<lparr>vs_messages := f s\<rparr>))"
  by (auto simp: keeps_def modify_def rows_ok_def)

lemma change_keeps:
  assumes "\<And>c. C c \<Longrightarrow> C (f c)"
  shows "keeps rows_ok (change_conversation now i f)"
proof -
  have "C (touched now f c)" if "C c" for c using that assms touch [of "f c"] by (auto simp: touched_def)
  then show ?thesis
    unfolding change_conversation_def require_conversation_def
    by (intro keeps_intros convs_keep) (auto simp: rows_ok_def dest!: upd_row_all)
qed

lemma message_change_keeps: "(\<And>m. M m \<Longrightarrow> M (f m)) \<Longrightarrow> keeps rows_ok (change_message i f)"
  unfolding change_message_def by (intro keeps_intros messages_keep) (auto simp: rows_ok_def dest!: upd_row_all)

lemma create_keeps: "keeps rows_ok (create_reply E k conv d)"
  unfolding create_reply_def repo_create_message_def Let_def
  by (intro keeps_intros messages_keep shop_keeps) (auto simp: rows_ok_def new_message)

lemma answered_keeps: "keeps rows_ok m \<Longrightarrow> keeps rows_ok (answered cards m)"
  unfolding answered_def by (intro keeps_intros)

lemma context_keeps: "keeps rows_ok (resolve_product_context E content i catalog)"
  unfolding resolve_product_context_def product_catalog_def by (intro keeps_intros shop_keeps)

lemma rag_keeps: "keeps rows_ok (create_rag_answer E k conv content history r catalog locale)"
  unfolding create_rag_answer_def Let_def by (intro keeps_intros context_keeps create_keeps)

lemma dispatch_keeps: "keeps rows_ok (dispatch_turn E rq usr T)"
  unfolding dispatch_turn_def order_turn_def Let_def
  by (intro keeps_intros answered_keeps rag_keeps create_keeps shop_keeps)

lemma escalate_keeps: "keeps rows_ok (escalate E conv rt)"
  unfolding escalate_def assign_to_staff_def by (intro keeps_intros change_keeps escalation)

lemma planning_keeps: "keeps rows_ok (plan_response E conv rq usr)"
  unfolding plan_response_def understand_def product_inquiry_def product_catalog_def require_conversation_def Let_def
  by (intro keeps_intros create_keeps escalate_keeps dispatch_keeps shop_keeps)

lemma send_keeps: "keeps rows_ok (send_message E conv rq usr)"
  unfolding send_message_def finish_turn_def require_conversation_def
  by (intro keeps_intros planning_keeps rag_keeps)

lemma stream_answer_keeps: "keeps rows_ok (stream_answer E gone P p l R)"
  unfolding stream_answer_def end_stream_def finish_turn_def require_conversation_def Let_def
  by (intro keeps_intros create_keeps)

lemma stream_keeps: "keeps rows_ok (\<lambda>s. snd (stream_message E gone conv rq usr s))"
proof -
  have e: "keeps rows_ok (end_stream gone pieces P reply)" for gone P reply and pieces :: "string list"
    unfolding end_stream_def finish_turn_def require_conversation_def by (intro keeps_intros)
  have "rows_ok (snd (snd (stream_message E gone conv rq usr s)))" if ok: "rows_ok s" for s
  proof -
    obtain r t where t: "plan_response E conv rq usr s = (r, t)" by force
    with ok have okt: "rows_ok t" using planning_keeps by (rule keepsD [rotated])
    show ?thesis
    proof (cases "\<exists>P p. r = Inr P \<and> rp_stream P = Some p")
      case False
      with t okt e show ?thesis
        by (auto simp: stream_message_def Let_def keeps_def split: sum.splits option.splits)
    next
      case True
      then obtain P p where P: "r = Inr P" "rp_stream P = Some p" by blast
      obtain q u where u: "resolve_product_context E (sp_content p) (it_category (sp_intent p)) (sp_catalog p) t = (q, u)" by force
      with okt have "rows_ok u" using context_keeps by (rule keepsD [rotated])
      then have "rows_ok (snd (stream_answer E gone P p l R u))" for l R using stream_answer_keeps by (simp add: keeps_def)
      with t P u \<open>rows_ok u\<close> show ?thesis
        by (cases q) (simp_all add: stream_message_def Let_def)
    qed
  qed
  then show ?thesis by (simp add: keeps_def)
qed

lemma start_keeps: "keeps rows_ok (start_conversation E usr session initial locale)"
  unfolding start_conversation_def repo_create_conversation_def require_conversation_def Let_def
  by (intro keeps_intros create_keeps send_keeps shop_keeps convs_keep) (auto simp: rows_ok_def new_conversation)

lemma close_keeps: "keeps rows_ok (close_stale now t)"
  unfolding close_stale_def by (intro keeps_intros convs_keep) (auto simp: rows_ok_def stale)

lemma status_keeps: "keeps rows_ok (repo_set_status now i st)"
  unfolding repo_set_status_def by (rule change_keeps) (rule status)

lemma transfer_keeps: "keeps rows_ok (repo_transfer now i staff)"
  unfolding repo_transfer_def require_conversation_def
  by (intro keeps_intros change_keeps) (rule handover)

lemma resolve_keeps: "keeps rows_ok (repo_resolve now i rating)"
  unfolding repo_resolve_def by (rule change_keeps) (rule resolution)

lemma feedback_keeps: "keeps rows_ok (submit_feedback i score)"
proof -
  have "keeps rows_ok (repo_update_feedback i score)" unfolding repo_update_feedback_def by (rule message_change_keeps) (rule feedback)
  moreover have "keeps rows_ok (flag_for_review i)" unfolding flag_for_review_def by (rule message_change_keeps) (rule flag)
  ultimately show ?thesis unfolding submit_feedback_def by (intro keeps_intros)
qed

lemma request_keeps: "keeps rows_ok (conv_request E usr c)"
proof -
  have g: "keeps rows_ok (giving f m)" if "keeps rows_ok m" for f and m :: "'x cvop"
    unfolding giving_def using that by (intro keeps_intros)
  have k: "keeps rows_ok (checked ok m)" if "keeps rows_ok m" for ok and m :: "conv_reply cvop"
    unfolding checked_def using that by (intro keeps_intros)
  have h: "keeps rows_ok (for_staff usr m)" if "\<And>u. keeps rows_ok (m u)" for m :: "user \<Rightarrow> conv_reply cvop"
    unfolding for_staff_def using that by (intro keeps_intros)
  have "keeps rows_ok (conv_endpoint E usr c)"
    by (cases c)
      (simp_all only: conv_endpoint.simps get_active_conversation_def require_conversation_def staff_send_message_def
        list_staff_conversations_def,
       (intro keeps_intros g k h start_keeps send_keeps stream_keeps status_keeps transfer_keeps resolve_keeps
         feedback_keeps create_keeps close_keeps)+)
  then show ?thesis unfolding conv_request_def keeps_def transact_def by (auto split: prod.splits sum.splits)
qed

end

text \<open>A law that the reviewers keep as well.\<close>

locale review_law = row_law +
  assumes decision: "M m \<Longrightarrow> M (reviewed a u now m)"
    and correction: "M m \<Longrightarrow> M ((reviewed a u now m)\<lparr>ms_corrected := corrected\<rparr>)"
begin

abbreviation both_ok :: "('v, 'r) review_state \<Rightarrow> bool" where
  "both_ok s \<equiv> rows_ok (rw_chat s)"

lemma chat_keeps: "keeps rows_ok m \<Longrightarrow> keeps both_ok (on_chat m)"
  by (auto simp: keeps_def on_chat_def split: prod.splits)

lemma kb_keeps: "keeps both_ok (on_kb m)"
  by (auto simp: keeps_def on_kb_def split: prod.splits)

lemma review_keeps: "keeps both_ok (review_request E u c)"
proof -
  have r: "keeps both_ok (reviewable i u)" for i
    unfolding reviewable_def by (intro keeps_intros chat_keeps)
  have m: "keeps both_ok (on_chat (change_message i (reviewed a u now)))"
      "keeps both_ok (on_chat (change_message i (\<lambda>m. (reviewed a u now m)\<lparr>ms_corrected := t\<rparr>)))" for i a now t
    by (rule chat_keeps, rule message_change_keeps, erule decision, rule chat_keeps, rule message_change_keeps, erule correction)
  have "keeps both_ok (review_endpoint E u c)"
    by (cases c)
      (simp_all only: review_endpoint.simps get_flagged_messages_def approve_message_def reject_message_def
        add_to_knowledge_base_def review_statistics_of_def Let_def,
       (intro keeps_intros r m kb_keeps chat_keeps)+)
  then have "keeps both_ok (andThen (ensure (is_staff u) (AppError Forbidden ''staff_required'')) (\<lambda>_. review_endpoint E u c))"
    by (intro keeps_intros)
  then show ?thesis unfolding review_request_def keeps_def transact_def by (auto split: prod.splits sum.splits)
qed

end

section \<open>Runs\<close>

datatype ('v, 'r) chat_event =
    Chat conv_env "user option" conv_call | Reviewing "('v, 'r) kb_env" user review_call

fun chat_step :: "('v, 'r) chat_event \<Rightarrow> ('v, 'r) review_state \<Rightarrow> ('v, 'r) review_state" where
  "chat_step (Chat E usr c) s = snd (on_chat (conv_request E usr c) s)"
| "chat_step (Reviewing E u c) s = snd (review_request E u c s)"

definition chat_run :: "('v, 'r) chat_event list \<Rightarrow> ('v, 'r) review_state \<Rightarrow> ('v, 'r) review_state" where
  "chat_run steps s = fold chat_step steps s"

context review_law
begin

lemma step_keeps: "both_ok s \<Longrightarrow> both_ok (chat_step x s)"
  by (cases x) (simp_all add: chat_keeps [OF request_keeps, unfolded keeps_def, rule_format] review_keeps [unfolded keeps_def, rule_format])

lemma run_keeps: "both_ok s \<Longrightarrow> both_ok (chat_run steps s)"
  unfolding chat_run_def by (induction steps arbitrary: s) (auto intro: step_keeps)

end

section \<open>Time stamps\<close>

definition stamped :: "conversation \<Rightarrow> bool" where
  "stamped c \<longleftrightarrow> (cn_status c = CResolved \<longrightarrow> cn_resolved_at c \<noteq> None) \<and> (cn_status c = CEscalated \<longrightarrow> cn_escalated_at c \<noteq> None) \<and>
     (cn_status c = CActive \<longrightarrow> cn_resolved_at c = None \<and> cn_escalated_at c = None)"

interpretation stamps: review_law stamped "\<lambda>m. True"
  by unfold_locales (auto simp: stamped_def with_status_def Let_def)

text \<open>
  C17. Whatever customers, staff and reviewers do, a conversation that is resolved says since when, so does one that
  is escalated, and an active conversation carries neither time.
\<close>
theorem conversation_stamps:
  assumes "\<forall>c \<in> set (vs_convs (rw_chat s)). stamped c" and "c \<in> set (vs_convs (rw_chat (chat_run steps s)))"
  shows "stamped c"
  using stamps.run_keeps [of s steps] assms by (simp add: stamps.rows_ok_def)

section \<open>The review queue\<close>

definition questionable :: "message \<Rightarrow> bool" where
  "questionable m \<longleftrightarrow> ms_feedback m = Some (- 1) \<or> (case ms_confidence m of None \<Rightarrow> False | Some c \<Rightarrow> c < 60)"

definition queued :: "message \<Rightarrow> bool" where
  "queued m \<longleftrightarrow> (questionable m \<and> ms_action m = None \<longrightarrow> ms_flagged m)"

lemma low_stored: "two_places x < 60 \<Longrightarrow> x < 6 / 10"
  unfolding two_places_def by (simp add: floor_less_iff field_simps)

interpretation queue: review_law "\<lambda>c. True" queued
proof
  show "queued (message_row i created conv d)" for i created conv d
    by (auto simp: queued_def questionable_def message_row_def low_confidence_def dest: low_stored split: option.splits)
qed (auto simp: queued_def questionable_def reviewed_def split: if_splits)

text \<open>
  C16. Every message whose intent was uncertain or that a customer marked as bad, and that no reviewer has decided
  on, is in the review queue, whatever has happened before.
\<close>
theorem review_queue_complete:
  assumes "vs_messages (rw_chat s) = []" and "m \<in> set (vs_messages (rw_chat (chat_run steps s)))"
    and "questionable m" and "ms_action m = None" and "length (vs_messages (rw_chat (chat_run steps s))) \<le> limit"
    and "get_flagged_messages 0 limit None (chat_run steps s) = (Inr (listed, n), t)"
  shows "ms_id m \<in> fg_message ` set listed"
proof -
  have "queued m" using queue.run_keeps [of s steps] assms(1,2) by (simp add: queue.rows_ok_def)
  with assms(3,4) have f: "ms_flagged m" by (simp add: queued_def)
  let ?s = "rw_chat (chat_run steps s)"
  have "fst (flagged_for_review 0 limit None ?s) = order_rows ms_created True (filter ms_flagged (vs_messages ?s))"
    using assms(5) by (simp add: flagged_for_review_def Let_def slice_def order_rows_def take_all order_trans [OF length_filter_le])
  moreover have "listed = map (flagged_response ?s) (fst (flagged_for_review 0 limit None ?s))"
    using assms(6) by (auto simp: get_flagged_messages_def on_chat_def op_eval split: prod.splits)
  ultimately have "flagged_response ?s m \<in> set listed" using f assms(2) by (simp add: order_rows_def)
  then show ?thesis by (force simp: flagged_response_def)
qed

end
