(* ===== verification/TurnSafety.thy ===== *)
theory TurnSafety
  imports ConversationRuns KnowledgeRuns
begin

text \<open>
  What one turn of a conversation does: to the shop, to the history the customer sees, on an emergency, and
  when it quotes the cheapest product; and what a reviewed answer becomes in the knowledge base.
\<close>

section \<open>The shop in a turn\<close>

text \<open>Everything but the supply of identifiers.\<close>

definition same_shop :: "db \<Rightarrow> db \<Rightarrow> bool" where
  "same_shop d e \<longleftrightarrow> e = d\<lparr>next_id := next_id e\<rparr>"

lemma same_shop_refl [simp]: "same_shop d d"
  by (simp add: same_shop_def)

lemma same_shop_next: "same_shop d e \<Longrightarrow> same_shop d (e\<lparr>next_id := n\<rparr>)"
  by (cases d; cases e) (simp add: same_shop_def)

text \<open>The customer answers a summary, or a choice between two products, with a confirmation.\<close>

definition confirming :: "conv_env \<Rightarrow> message list \<Rightarrow> string \<Rightarrow> bool" where
  "confirming E history content \<longleftrightarrow>
     is_affirmation (vc_fold E) content \<and>
     (case find_order_state (chat_env_of E) (map chat_view history) content of
        None \<Rightarrow> False
      | Some d \<Rightarrow> state_status (Some d) \<in> {''awaiting_confirmation'', ''awaiting_product_choice''})"

abbreviation shop_is :: "db \<Rightarrow> conv_state \<Rightarrow> bool" where
  "shop_is d s \<equiv> same_shop d (vs_db s)"

lemma shop_create: "keeps (shop_is d) (create_reply E k conv x)"
  by (auto simp: keeps_def create_reply_def repo_create_message_def on_shop_def op_eval Let_def fresh_id_def same_shop_next)

lemma shop_reads:
  assumes "\<And>e. keeps (\<lambda>s. s = e) m"
  shows "keeps (shop_is d) (on_shop m)"
proof -
  have "snd (m e) = e" for e using assms [of e] by (simp add: keeps_def)
  then show ?thesis by (auto simp: keeps_def on_shop_def split: prod.splits) (metis snd_conv)
qed

lemma shop_modify [keeps_intros]: "keeps (shop_is d) (modify (\<lambda>s. s\<lparr>vs_convs := f s\<rparr>))"
  "keeps (shop_is d) (modify (\<lambda>s. s\<lparr>vs_messages := g s\<rparr>))"
  by (simp_all add: keeps_def modify_def)

lemma shop_catalog: "keeps (shop_is d) (product_catalog E)"
  unfolding product_catalog_def list_active_catalog_def make_params_def
  by (intro shop_reads keeps_intros keeps_search_products)

lemma shop_context: "keeps (shop_is d) (resolve_product_context E content i catalog)"
  unfolding resolve_product_context_def by (intro keeps_intros shop_catalog)

lemma shop_rag: "keeps (shop_is d) (create_rag_answer E k conv content history r catalog locale)"
  unfolding create_rag_answer_def Let_def by (intro keeps_intros shop_context shop_create)

lemma shop_inquiry: "keeps (shop_is d) (product_inquiry E content catalog)"
  unfolding product_inquiry_def price_inquiry_def find_products_def make_params_def Let_def
  by (intro keeps_intros shop_reads keeps_search_products)

lemma shop_escalate: "keeps (shop_is d) (escalate E conv rt)"
  unfolding escalate_def assign_to_staff_def change_conversation_def require_conversation_def by (intro keeps_intros)

lemma shop_order:
  assumes "\<not> confirming E history content"
  shows "keeps (shop_is d) (order_turn E conv history usr catalog content)"
proof -
  have "\<exists>t. plan_chat_order (chat_env_of E) (map chat_view history) ms usr catalog content = Inl t" for ms
  proof (cases "plan_chat_order (chat_env_of E) (map chat_view history) ms usr catalog content")
    case (Inr R)
    from plan_ready [OF Inr] assms show ?thesis by (auto simp: confirming_def chat_env_of_def)
  qed simp
  then have "keeps (\<lambda>s. s = e) (handle_chat_order (chat_env_of E) conv (map chat_view history) ms usr catalog content)" for e ms
    by (metis handle_unchanged keeps_def snd_conv)
  then show ?thesis unfolding order_turn_def by (intro keeps_intros shop_reads)
qed

lemma shop_dispatch:
  assumes "\<not> confirming E (tc_history T) (mr_content rq)"
  shows "keeps (shop_is d) (dispatch_turn E rq usr T)"
  unfolding dispatch_turn_def answered_def Let_def
  by (intro keeps_intros shop_rag shop_create shop_order [OF assms])

text \<open>The rest of a turn once the conversation and its history are read.\<close>

definition turn_with :: "conv_env \<Rightarrow> uuid \<Rightarrow> message_request \<Rightarrow> user option \<Rightarrow> message list \<Rightarrow> response_plan cvop" where
  "turn_with E conv rq usr history =
     andThen (understand E history (mr_content rq)) (\<lambda>(r, catalog).
     andThen (create_reply E 0 conv (user_data (mr_content rq) r)) (\<lambda>um.
     andThen (gets (\<lambda>s. route_intent (it_category r) (vs_db s))) (\<lambda>rt.
     andThen (escalate E conv rt) (\<lambda>_.
     andThen (case catalog of
                Some ps \<Rightarrow> if it_category r = ProductInquiry \<and> \<not> should_clarify r then product_inquiry E (mr_content rq) ps else ret (None, [])
              | None \<Rightarrow> ret (None, [])) (\<lambda>(reply, cards).
     andThen (dispatch_turn E rq usr
       \<lparr>tc_conv = conv, tc_history = history, tc_intent = r, tc_catalog = catalog, tc_routing = rt,
        tc_note = followup_request E history (mr_content rq) (it_category r), tc_product = reply, tc_cards = cards\<rparr>)
       (\<lambda>(cards', answer, stream).
     ret \<lparr>rp_user = um, rp_conversation = conv, rp_cards = cards', rp_reply = answer, rp_stream = stream\<rparr>))))))"

lemma plan_turn_with:
  "plan_response E conv rq usr s =
     (if conv_by_id conv s = None then (Inl conv_not_found, s) else turn_with E conv rq usr (get_recent conv 10 s) s)"
  by (auto simp: plan_response_def turn_with_def require_conversation_def andThen_def gets_def raise_def ret_def)

lemma shop_turn:
  assumes "\<not> confirming E history (mr_content rq)"
  shows "keeps (shop_is d) (turn_with E conv rq usr history)"
  unfolding turn_with_def understand_def Let_def
  by (intro keeps_intros shop_catalog shop_create shop_escalate shop_inquiry shop_dispatch) (simp add: assms)

lemma shop_plan:
  assumes "\<not> confirming E (get_recent conv 10 s) (mr_content rq)" and "shop_is d s"
  shows "shop_is d (snd (plan_response E conv rq usr s))"
  using shop_turn [OF assms(1), of d conv usr] assms(2) by (simp add: plan_turn_with keeps_def)

lemma shop_send:
  assumes "\<not> confirming E (get_recent conv 10 s) (mr_content rq)" and "shop_is d s"
  shows "shop_is d (snd (send_message E conv rq usr s))"
proof -
  obtain r t where t: "plan_response E conv rq usr s = (r, t)" by force
  with shop_plan [OF assms, of usr] have "shop_is d t" by simp
  moreover have "keeps (shop_is d) (andThen (case rp_stream P of
                None \<Rightarrow> ret (rp_reply P)
              | Some p \<Rightarrow>
                  andThen (create_rag_answer E 1 conv (sp_content p) (sp_history p) (sp_intent p) (sp_catalog p) (sp_locale p))
                    (\<lambda>m. ret (Some m))) (\<lambda>reply. finish_turn P reply))" for P
    unfolding finish_turn_def require_conversation_def by (intro keeps_intros shop_rag)
  ultimately show ?thesis using t by (cases r) (simp_all add: send_message_def andThen_def keeps_def)
qed

lemma shop_stream:
  assumes "\<not> confirming E (get_recent conv 10 s) (mr_content rq)" and "shop_is d s"
  shows "shop_is d (snd (snd (stream_message E gone conv rq usr s)))"
proof -
  obtain r t where t: "plan_response E conv rq usr s = (r, t)" by force
  with shop_plan [OF assms, of usr] have okt: "shop_is d t" by simp
  have e: "keeps (shop_is d) (end_stream gone pieces P reply)" for P reply and pieces :: "string list"
    unfolding end_stream_def finish_turn_def require_conversation_def by (intro keeps_intros)
  have a: "keeps (shop_is d) (stream_answer E gone P p l R)" for P p l R
    unfolding stream_answer_def end_stream_def finish_turn_def require_conversation_def Let_def
    by (intro keeps_intros shop_create)
  show ?thesis
  proof (cases "\<exists>P p. r = Inr P \<and> rp_stream P = Some p")
    case False
    with t okt e show ?thesis by (auto simp: stream_message_def Let_def keeps_def split: sum.splits option.splits)
  next
    case True
    then obtain P p where P: "r = Inr P" "rp_stream P = Some p" by blast
    obtain q u where u: "resolve_product_context E (sp_content p) (it_category (sp_intent p)) (sp_catalog p) t = (q, u)" by force
    with okt have "shop_is d u" using shop_context by (rule keepsD [rotated])
    with a have "shop_is d (snd (stream_answer E gone P p l R u))" for l R by (simp add: keeps_def)
    with t P u \<open>shop_is d u\<close> show ?thesis by (cases q) (simp_all add: stream_message_def Let_def)
  qed
qed

text \<open>No message of the request confirms an order.\<close>

fun unconfirmed :: "conv_env \<Rightarrow> conv_state \<Rightarrow> conv_call \<Rightarrow> bool" where
  "unconfirmed E s (SendMessage i content session locale) \<longleftrightarrow> \<not> confirming E (get_recent i 10 s) content"
| "unconfirmed E s (StreamMessage i content session locale gone) \<longleftrightarrow> \<not> confirming E (get_recent i 10 s) content"
| "unconfirmed E s (StartChat session initial locale) \<longleftrightarrow> (case initial of None \<Rightarrow> True | Some t \<Rightarrow> \<not> is_affirmation (vc_fold E) t)"
| "unconfirmed E s c \<longleftrightarrow> True"

lemma shop_start:
  assumes "case initial of None \<Rightarrow> True | Some t \<Rightarrow> \<not> is_affirmation (vc_fold E) t"
  shows "keeps (shop_is d) (start_conversation E usr session initial locale)"
proof -
  have fresh: "keeps (shop_is d) (on_shop fresh_id)"
    by (auto simp: keeps_def on_shop_def fresh_id_def same_shop_next)
  have "keeps (shop_is d) (send_message (E\<lparr>vc_clock := k\<rparr>) conv \<lparr>mr_content = the initial, mr_locale = l\<rparr> usr)"
    if "truthy initial" for k conv l
    unfolding keeps_def using assms that by (auto intro!: shop_send simp: confirming_def truthy_def)
  then show ?thesis
    unfolding start_conversation_def repo_create_conversation_def require_conversation_def Let_def
    by (intro keeps_intros shop_create fresh)
qed

lemma shop_message: "keeps (shop_is d) (change_message i f)"
  unfolding change_message_def by (intro keeps_intros)

lemma shop_conversation: "keeps (shop_is d) (change_conversation now i f)"
  unfolding change_conversation_def require_conversation_def by (intro keeps_intros)

lemma shop_endpoint:
  assumes "unconfirmed E s c"
  shows "same_shop (vs_db s) (vs_db (snd (conv_endpoint E usr c s)))"
proof -
  let ?P = "shop_is (vs_db s)"
  have now: "?P (snd (checked ok (giving f m) s))" if "?P (snd (m s))" for ok f and m :: "'x cvop"
    using that by (cases "m s"; cases "fst (m s)") (auto simp: checked_def giving_def op_eval)
  have any: "keeps ?P (giving f m)" if "keeps ?P m" for f and m :: "'x cvop"
    unfolding giving_def using that by (intro keeps_intros)
  have check: "keeps ?P (checked ok m)" if "keeps ?P m" for ok and m :: "conv_reply cvop"
    unfolding checked_def using that by (intro keeps_intros)
  have staff: "keeps ?P (for_staff usr m)" if "\<And>u. keeps ?P (m u)" for m :: "user \<Rightarrow> conv_reply cvop"
    unfolding for_staff_def using that by (intro keeps_intros)
  note here = any check staff keeps_intros shop_message shop_conversation shop_create
  note ops = conv_endpoint.simps get_active_conversation_def require_conversation_def submit_feedback_def
    repo_update_feedback_def flag_for_review_def staff_send_message_def repo_set_status_def list_staff_conversations_def
    repo_transfer_def repo_resolve_def close_stale_def
  have within: "?P (snd (m s))" if "keeps ?P m" for m :: "conv_reply cvop"
    using that by (simp add: keeps_def)
  show ?thesis
  proof (cases c)
    case (StartChat x y z)
    with assms show ?thesis by (auto simp only: conv_endpoint.simps unconfirmed.simps intro!: within check any shop_start)
  next
    case (SendMessage i x y z)
    with assms show ?thesis by (auto intro!: now shop_send)
  next
    case (StreamMessage i x y z n)
    with assms show ?thesis by (auto intro!: now shop_stream)
  qed (simp_all only: ops, (rule within, intro here)+)
qed

text \<open>
  C12. No request of the chat changes anything in the shop (stock, prices, orders, coupons, accounts), unless it
  carries a customer's confirmation and the dialog, in its last ten messages, has an order waiting for one.
\<close>
theorem chat_turn_leaves_shop:
  assumes "unconfirmed E s c"
  shows "same_shop (vs_db s) (vs_db (snd (conv_request E usr c s)))"
  using shop_endpoint [OF assms, of usr] by (auto simp: conv_request_def transact_def split: prod.splits sum.splits)

section \<open>An emergency\<close>

lemma calm_overrides: "it_category r = SafetyEmergencyIntent \<Longrightarrow> overridden_intent E h content r = r"
  by (simp add: overridden_intent_def apply_order_context_def Let_def)

lemma understand_emergency:
  assumes "hybrid_classify (intent_env_of E) (7 / 10) content = Inr r" and "it_category r = SafetyEmergencyIntent"
  shows "understand E history content s = (Inr (r, None), s)"
  using assms by (simp add: understand_def op_eval lift_result_def calm_overrides)

lemma create_reply_stored:
  assumes "create_reply E k conv x s = (Inr m, t)"
  shows "m \<in> set (vs_messages t)" "ms_conversation m = conv" "ms_role m = md_role x" "ms_content m = md_content x"
    "ms_intent m = map_option intent_text (md_intent x)" "ms_provider m = fst (md_served x)" "vs_convs t = vs_convs s"
  using assms by (auto simp: create_reply_def repo_create_message_def on_shop_def message_row_def Let_def op_simps fresh_id_def split: prod.splits)

lemma rag_answer_stored:
  assumes "create_rag_answer E k conv content history r catalog l s = (Inr m, t)"
  shows "m \<in> set (vs_messages t)" "ms_conversation m = conv" "ms_role m = RAssistant" "ms_intent m = Some (intent_text (it_category r))"
    and "it_category r = SafetyEmergencyIntent \<Longrightarrow> vs_convs t = vs_convs s"
    and "sr_emergency (check_query (vc_fold E) content) \<Longrightarrow>
      ms_content m = vc_say E (answer_language content l) (AnswerReply (Fixed (emergency_response (answer_language content l)))) \<and>
      ms_provider m = None"
proof -
  let ?l = "answer_language content l"
  from assms obtain ctx u a where c: "resolve_product_context E content (it_category r) catalog s = (Inr ctx, u)"
    and a: "rag_query (rag_env_of E) content history None 5 ctx ?l = Inr a"
    and m: "create_reply E k conv (rag_data E r (reply_text E ?l (ra_answer a)) (ra_sources a)
       (if is_generated (ra_answer a) then vc_served E else (None, None, None))) u = (Inr m, t)"
    unfolding create_rag_answer_def Let_def andThen_Inr lift_Inr by blast
  note st = create_reply_stored [OF m]
  show "m \<in> set (vs_messages t)" "ms_conversation m = conv" "ms_role m = RAssistant" "ms_intent m = Some (intent_text (it_category r))"
    using st by (simp_all add: rag_data_def assistant_data_def)
  show "vs_convs t = vs_convs s" if "it_category r = SafetyEmergencyIntent"
    using c st(7) that by (simp add: resolve_product_context_def ret_def)
  show "ms_content m = vc_say E ?l (AnswerReply (Fixed (emergency_response ?l))) \<and> ms_provider m = None"
    if "sr_emergency (check_query (vc_fold E) content)"
  proof -
    from a that have "ra_answer a = Fixed (emergency_response ?l)" by (auto simp: rag_query_def rag_env_of_def)
    with st show ?thesis by (simp add: rag_data_def assistant_data_def reply_text_def is_generated_def)
  qed
qed

lemma find_available_staff_next: "find_available_staff (d\<lparr>next_id := n\<rparr>) = find_available_staff d"
proof -
  have "repo_list_users a b c (d\<lparr>next_id := n\<rparr>) = repo_list_users a b c d" for a b c
    by (cases c) (simp_all add: repo_list_users_def)
  then show ?thesis by (simp add: find_available_staff_def split: list.split)
qed

lemma escalate_done:
  assumes "escalate E conv rt s = (r, t)" and "conv_by_id conv s \<noteq> None" and "rt_human rt"
  shows "r = Inr ()" and "\<exists>c. conv_by_id conv t = Some c \<and> cn_status c = CEscalated \<and> cn_assigned c = rt_staff rt \<and> cn_reason c = Some (rt_reason rt)"
    and "vs_db t = vs_db s"
proof -
  from assms(2) obtain c where c: "find_row cn_id conv (vs_convs s) = Some c" by (auto simp: conv_by_id_def)
  let ?f = "touched (vc_now E) (\<lambda>c. c\<lparr>cn_status := CEscalated, cn_assigned := rt_staff rt, cn_escalated_at := Some (vc_now E), cn_reason := Some (rt_reason rt)\<rparr>)"
  have "r = Inr ()" and t: "t = s\<lparr>vs_convs := upd_row cn_id conv ?f (vs_convs s)\<rparr>"
    using assms(1,3) c
    by (auto simp: escalate_def assign_to_staff_def change_conversation_def require_conversation_def conv_by_id_def op_eval)
  have k: "\<And>q. cn_id (?f q) = cn_id q" by (simp add: touched_def)
  show "r = Inr ()" "vs_db t = vs_db s" by fact (simp add: t)
  have "cn_status (?f c) = CEscalated" "cn_assigned (?f c) = rt_staff rt" "cn_reason (?f c) = Some (rt_reason rt)"
    by (cases c; auto simp: touched_def)+
  moreover have "find_row cn_id conv (upd_row cn_id conv ?f (vs_convs s)) = Some (?f c)"
    using c k by (simp add: find_upd_row)
  ultimately show "\<exists>c. conv_by_id conv t = Some c \<and> cn_status c = CEscalated \<and> cn_assigned c = rt_staff rt \<and> cn_reason c = Some (rt_reason rt)"
    by (simp add: t conv_by_id_def)
qed


section \<open>What the customer has seen\<close>

lemma answered_Inr: "answered cards m s = (Inr y, t) \<longleftrightarrow> (\<exists>a. m s = (Inr a, t) \<and> y = (cards, Some a, None))"
  by (auto simp: answered_def op_simps)

definition kept :: "uuid \<Rightarrow> message \<Rightarrow> conv_state \<Rightarrow> bool" where
  "kept conv m t \<longleftrightarrow> m \<in> set (vs_messages t) \<and> ms_conversation m = conv \<and> ms_role m = RAssistant"

lemma create_reply_kept: "create_reply E k conv d s = (Inr m, t) \<Longrightarrow> md_role d = RAssistant \<Longrightarrow> kept conv m t"
  by (simp add: kept_def create_reply_stored)

lemma rag_answer_kept: "create_rag_answer E k conv content history r catalog l s = (Inr m, t) \<Longrightarrow> kept conv m t"
  by (simp add: kept_def rag_answer_stored)

lemma dispatch_stored:
  assumes "dispatch_turn E rq usr T s = (Inr (cards, Some m, p), t)"
  shows "kept (tc_conv T) m t"
  using assms
  by (auto simp: dispatch_turn_def Let_def andThen_Inr ret_eq answered_Inr followup_data_def handoff_data_def assistant_data_def plain_message_def
      split: if_splits option.splits elim!: create_reply_kept rag_answer_kept)

lemma plan_stored:
  assumes "plan_response E conv rq usr s = (Inr P, t)"
  shows "rp_conversation P = conv" and "rp_reply P = Some m \<Longrightarrow> kept conv m t"
  using assms unfolding plan_response_def
  by (auto simp: andThen_Inr ret_eq split: prod.splits dest!: dispatch_stored)

lemma end_stream_state: "end_stream gone pieces P reply s = (r, t) \<Longrightarrow> t = s"
  by (cases r) (auto simp: end_stream_def finish_turn_def require_conversation_def op_simps split: if_splits)


section \<open>The cheapest product\<close>

definition as_shown :: "product \<Rightarrow> product \<Rightarrow> bool" where
  "as_shown x y \<longleftrightarrow> (\<exists>k. y = x\<lparr>p_sku := k\<rparr>)"

lemma as_shown_same: "as_shown x y \<Longrightarrow> p_price y = p_price x \<and> (query_matches F q y \<longleftrightarrow> query_matches F q x)"
  by (force simp: as_shown_def query_matches_def cong: option.case_cong)

lemma shown_products: "map_op product_response rows s = (Inr items, t) \<Longrightarrow> list_all2 as_shown rows items"
  by (drule map_op_Inr_list_all2 [where R = as_shown])
    (auto simp: product_response_def as_shown_def op_simps split: if_splits sum.splits)

lemma shown_member:
  assumes "list_all2 as_shown rows items"
  shows "y \<in> set items \<Longrightarrow> \<exists>x \<in> set rows. as_shown x y" and "x \<in> set rows \<Longrightarrow> \<exists>y \<in> set items. as_shown x y"
  using assms by (induction rows items rule: list_all2_induct) auto

text \<open>The first rows of the price order cost no more than any other row.\<close>

lemma first_rows_cheapest:
  assumes "x \<in> set (take n (sort_key p_price L))" and "x' \<in> set L" and "x' \<notin> set (take n (sort_key p_price L))"
  shows "p_price x \<le> p_price x'"
proof -
  have "sorted (map p_price (take n (sort_key p_price L) @ drop n (sort_key p_price L)))" by simp
  moreover have "x' \<in> set (drop n (sort_key p_price L))"
    using assms(2,3) by (metis append_take_drop_id Un_iff set_append set_sort)
  ultimately show ?thesis using assms(1) by (auto simp only: map_append sorted_append set_map)
qed

text \<open>
  C15. The product quoted as the cheapest one is on sale and fits the question, and no product that is on sale and
  fits the question has a lower list price, even when more products fit than one search returns.
\<close>
theorem cheapest_is_cheapest:
  assumes "price_inquiry F g content catalog s = (Inr (Some (CheapestIs q p)), t)"
  shows "\<exists>x \<in> set (products s). as_shown x p \<and> p_is_active x \<and> query_matches F q x \<and>
    (\<forall>x' \<in> set (products s). product_matches g (with_bounds q (query_params q 20)) True x' \<and> query_matches F q x' \<longrightarrow>
      p_price p \<le> p_price x')"
proof -
  let ?ps = "with_bounds q (query_params q 20)"
  let ?L = "filter (product_matches g ?ps True) (products s)"
  let ?rows = "take 20 (sort_key p_price ?L)"
  from assms obtain ms where "find_products F g q 20 s = (Inr ms, t)" and ms: "ms \<noteq> []" "p = hd ms"
    by (auto simp: price_inquiry_def Let_def op_simps split: option.splits if_splits price_kind.splits)
  then obtain page where page: "search_products g ?ps s = (Inr page, t)" and f: "ms = filter_products F (pg_items page) q"
    by (auto simp: find_products_def make_params_def op_simps)
  have rows: "fst (list_products g ?ps True s) = ?rows"
    by (simp add: list_products_def Let_def slice_def order_rows_def with_bounds_def query_params_def default_search_def)
  from page have shown: "list_all2 as_shown ?rows (pg_items page)"
    by (auto simp: search_products_def make_page_def op_simps rows [symmetric] split: prod.splits dest!: shown_products)
  have p: "p \<in> set (pg_items page)" "query_matches F q p"
    using ms f hd_in_set [of ms] by (auto simp: filter_products_def)
  have min: "p_price p \<le> p_price y" if "y \<in> set (pg_items page)" "query_matches F q y" for y
  proof -
    have "sorted (map p_price ms)" "y \<in> set ms" using that f by (auto simp: filter_products_def)
    with ms show ?thesis by (cases ms) auto
  qed
  from shown_member(1) [OF shown p(1)] obtain x where x: "x \<in> set ?rows" "as_shown x p" by blast
  have L: "x \<in> set ?L" using in_set_takeD [OF x(1)] by simp
  have "p_price p \<le> p_price x'" if "x' \<in> set (products s)" "product_matches g ?ps True x'" "query_matches F q x'" for x'
  proof (cases "x' \<in> set ?rows")
    case True
    from shown_member(2) [OF shown True] obtain y where "y \<in> set (pg_items page)" "as_shown x' y" by blast
    with min [of y] as_shown_same [of x' y F q] that(3) show ?thesis by simp
  next
    case False
    with first_rows_cheapest [OF x(1), of x'] that as_shown_same [OF x(2)] show ?thesis by simp
  qed
  moreover have "p_is_active x" using L by (simp add: product_matches_def)
  ultimately show ?thesis using L x(2) p(2) as_shown_same [OF x(2), of F q] by auto
qed

section \<open>A reviewed answer in the knowledge base\<close>

text \<open>
  A reviewed answer that is added to the knowledge base is stored, active, with the reviewed text, but with a
  vector of the remote embedding service only: whatever the question, the search of a local embedding provider
  in its own vector column never returns it.
\<close>
lemma reviewed_answer_unfindable:
  assumes "add_to_knowledge_base E i category title u s = (Inr d, t)" and "d \<notin> kd_id ` set (kb_docs (rw_kb s))"
    and "f \<in> {''match_documents_ollama'', ''match_documents_bge''}"
  shows "(\<exists>doc \<in> set (kb_docs (rw_kb t)). kd_id doc = d \<and> kd_active doc \<and> kd_source doc = Some ''user_chat_approved'') \<and>
    d \<notin> kh_id ` set (similarity_search E' q k threshold c f (kb_docs (rw_kb t)))"
proof -
  from assms(1) obtain m s1 v s2 doc s3 where m: "reviewable i u s = (Inr m, s1)"
    and k: "on_kb (repo_kb_create E (learned_row title (if truthy (ms_corrected m) then the (ms_corrected m) else ms_content m) category)
        (no_vectors\<lparr>ve_gemini := Some v\<rparr>)) s1 = (Inr doc, s2)"
    and c: "on_chat (change_message i (reviewed AddedToKb u (ke_now E))) s2 = (Inr s3, t)" and d: "d = kd_id doc"
    unfolding add_to_knowledge_base_def Let_def andThen_Inr lift_Inr ret_eq by blast
  have "rw_kb s1 = rw_kb s" using m by (auto simp: reviewable_def andThen_Inr ensure_Inr require_some_Inr on_chat_eq gets_eq)
  moreover have "rw_kb t = rw_kb s2" using c by (auto simp: on_chat_eq)
  ultimately obtain content where doc: "new_doc E (ke_ids E 0) (learned_row title content category) (no_vectors\<lparr>ve_gemini := Some v\<rparr>) = Inr doc"
    and t: "kb_docs (rw_kb t) = kb_docs (rw_kb s) @ [doc]"
    using k by (auto simp: repo_kb_create_def insert_docs_def on_kb_eq andThen_Inr lift_Inr modify_eq ret_eq)
  have new: "kd_active doc" "kd_source doc = Some ''user_chat_approved''" "kd_ollama doc = None" "kd_bge doc = None"
    using doc by (auto simp: new_doc_def learned_row_def no_vectors_def nullable_column_def text_column_def split: sum.splits if_splits)
  have "f = ''match_documents_ollama'' \<or> f = ''match_documents_bge''" using assms(3) by blast
  then have col: "kb_column f doc = None" and fn: "f \<in> set match_fns"
    using new(3,4) by (elim disjE; simp add: kb_column_def match_fns_def)+
  have rows: "d \<notin> (\<lambda>p. kd_id (fst p)) ` set (match_rows f c (kb_docs (rw_kb t)))"
    using assms(2) col by (auto simp: match_rows_def t d split: option.splits)
  have "kh_id (vector_hit E' q p) = kd_id (fst p)" for p by (cases p) (simp add: vector_hit_def)
  with rows have "d \<notin> kh_id ` set (match_documents E' f q threshold k c (kb_docs (rw_kb t)))"
    by (force simp: match_documents_def dest!: in_set_takeD)
  then show ?thesis
    using new(1,2) fn d by (auto simp: similarity_search_def t Let_def)
qed

section \<open>A sample conversation\<close>

definition sample_answer :: json where
  "sample_answer = JObj [(''intent'', JStr ''general_info''), (''confidence'', JInt 0)]"

definition sample_conv_env :: conv_env where
  "sample_conv_env = \<lparr>vc_now = 1000, vc_clock = (\<lambda>k. 1000 + int k), vc_fold = id,
     vc_intent = \<lparr>im_fold = id,
       im_similarity = (\<lambda>t. Inr (\<lambda>i. if t = ''xi gas'' \<and> i = SafetyEmergencyIntent \<or> t = ''gio mo cua'' \<and> i = GeneralInfo then 1 else 0)),
       im_generate = (\<lambda>t. Inr (dumps sample_answer)), im_float = (\<lambda>t. None)\<rparr>,
     vc_rag = sample_rag\<lparr>rg_retrieve := (\<lambda>_ _ _. Inr []), rg_stream := (\<lambda>x y.
       (map (\<lambda>d. \<lparr>sc_delta = d, sc_provider = None, sc_model = None, sc_tokens = None\<rparr>) [''xin '', ''chao''], None))\<rparr>,
     vc_chat = sample_chat, vc_pg = sample_pg, vc_say = (\<lambda>l r. ''text''), vc_served = (None, None, None), vc_latency = 7,
     vc_stale_days = 3, vc_uuid_text = ''u'', vc_float_text = (\<lambda>r. ''0'')\<rparr>"

definition sample_conversation :: conversation where
  "sample_conversation = \<lparr>cn_id = 40, cn_user = None, cn_session = ''s'', cn_code = None, cn_status = CActive, cn_assigned = None,
     cn_escalated_at = None, cn_reason = None, cn_resolved_at = None, cn_rating = None, cn_created = 0, cn_updated = 0\<rparr>"

definition sample_talk :: conv_state where
  "sample_talk = \<lparr>vs_convs = [sample_conversation], vs_messages = [], vs_db = sample_db\<rparr>"

definition sample_review :: "(nat, ttl_store) review_state" where
  "sample_review = \<lparr>rw_chat = sample_talk, rw_kb = \<lparr>kb_docs = [], kb_cache = \<lambda>k. None\<rparr>\<rparr>"

definition sample_events :: "(nat, ttl_store) chat_event list" where
  "sample_events = [Chat sample_conv_env (Some (sample_user 4 Admin)) (StaffReply 40 ''chao''),
     Chat sample_conv_env None (SubmitFeedback 40 10 (- 1))]"

lemma sample_run:
  "\<exists>m. vs_messages (rw_chat (chat_run sample_events sample_review)) = [m] \<and> questionable m \<and> ms_action m = None"
  "vs_convs (rw_chat (chat_run sample_events sample_review)) = [sample_conversation]"
  by (simp_all add: chat_run_def sample_events_def sample_review_def sample_talk_def sample_conversation_def on_chat_def conv_request_def
      for_staff_def is_staff_def sample_user_def checked_def giving_def content_ok_def staff_send_message_def submit_feedback_def
      repo_update_feedback_def flag_for_review_def change_message_def message_by_id_def require_conversation_def conv_by_id_def
      create_reply_def repo_create_message_def on_shop_def fresh_id_def sample_db_def empty_db_def message_row_def plain_message_def
      questionable_def op_eval Let_def)

lemma sample_emergency:
  "hybrid_classify (intent_env_of sample_conv_env) (7 / 10) ''xi gas'' =
      Inr \<lparr>it_category = SafetyEmergencyIntent, it_confidence = 1, it_classifier = ''hybrid_safety''\<rparr>"
  "sr_emergency (check_query (vc_fold sample_conv_env) ''xi gas'')"
  by code_simp+

lemma sample_say: "vc_say sample_conv_env l a = ''text''"
  by (simp add: sample_conv_env_def)

lemma sample_turn_plan:
  "\<exists>P t. plan_response sample_conv_env 40 \<lparr>mr_content = ''xi gas'', mr_locale = None\<rparr> None sample_talk = (Inr P, t) \<and>
     rp_conversation P = 40 \<and> rp_stream P = None \<and> (\<exists>m. rp_reply P = Some m \<and> ms_content m = ''text'') \<and> conv_by_id 40 t \<noteq> None"
  using sample_emergency(2) understand_emergency [OF sample_emergency(1)] sample_say
  by (simp add: plan_response_def require_conversation_def conv_by_id_def sample_talk_def sample_conversation_def op_eval Let_def
      create_reply_def repo_create_message_def on_shop_def fresh_id_def message_row_def user_data_def plain_message_def
      route_intent_def escalate_def assign_to_staff_def change_conversation_def touched_def dispatch_turn_def answered_def
      create_rag_answer_def resolve_product_context_def lift_result_def rag_query_def rag_env_of_def reply_text_def is_generated_def
      rag_data_def assistant_data_def emergency_response_def)

lemma chat_turn_leaves_shop_witness:
  "same_shop (vs_db sample_talk) (vs_db (snd (conv_request sample_conv_env None (SendMessage 40 ''gio mo cua'' None None) sample_talk)))"
proof -
  have "unconfirmed sample_conv_env sample_talk (SendMessage 40 ''gio mo cua'' None None)" by code_simp
  then show ?thesis by (rule chat_turn_leaves_shop)
qed



lemma cheapest_is_cheapest_witness:
  "\<exists>q p t. price_inquiry id sample_pg ''binh gas re nhat'' [sample_gas, sample_water] sample_db = (Inr (Some (CheapestIs q p)), t) \<and>
     (\<exists>x \<in> set (products sample_db). as_shown x p \<and> p_is_active x)"
proof -
  let ?run = "price_inquiry id sample_pg ''binh gas re nhat'' [sample_gas, sample_water] sample_db"
  have "case fst ?run of Inr (Some (CheapestIs q p)) \<Rightarrow> True | _ \<Rightarrow> False" by code_simp
  then obtain q p where "fst ?run = Inr (Some (CheapestIs q p))" by (auto split: sum.splits option.splits catalog_reply.splits)
  then obtain t where run: "?run = (Inr (Some (CheapestIs q p)), t)" by (cases ?run) auto
  from cheapest_is_cheapest [OF run] run show ?thesis by blast
qed

lemma review_queue_complete_witness:
  "\<exists>listed n t. get_flagged_messages 0 10 None (chat_run sample_events sample_review) = (Inr (listed, n), t) \<and> listed \<noteq> []"
proof -
  let ?s = "chat_run sample_events sample_review"
  from sample_run(1) obtain m where m: "m \<in> set (vs_messages (rw_chat ?s))" "questionable m" "ms_action m = None"
    and n: "length (vs_messages (rw_chat ?s)) \<le> 10" by auto
  have start: "vs_messages (rw_chat sample_review) = []" by (simp add: sample_review_def sample_talk_def sample_conversation_def stamped_def)
  obtain listed k t where l: "get_flagged_messages 0 10 None ?s = (Inr (listed, k), t)"
    by (cases "flagged_for_review 0 10 None (rw_chat ?s)") (auto simp: get_flagged_messages_def on_chat_def op_eval)
  from review_queue_complete [OF start m n l] l show ?thesis by auto
qed

lemma conversation_stamps_witness:
  "\<exists>c \<in> set (vs_convs (rw_chat (chat_run sample_events sample_review))). stamped c"
proof -
  have start: "\<forall>c \<in> set (vs_convs (rw_chat sample_review)). stamped c" by (simp add: sample_review_def sample_talk_def sample_conversation_def stamped_def)
  have c: "sample_conversation \<in> set (vs_convs (rw_chat (chat_run sample_events sample_review)))" by (simp add: sample_run(2))
  from conversation_stamps [OF start c] c show ?thesis by blast
qed

end
