(* ===== verification/Wishlist.thy ===== *)
theory Wishlist
  imports Catalog
begin

text \<open>
  Saved products (\<^verbatim>\<open>services/wishlist_service.py\<close>, \<^verbatim>\<open>repositories/wishlist_repository.py\<close>,
  \<^verbatim>\<open>api/v1/endpoints/wishlist.py\<close>): a customer saves and removes products and lists the active ones.
\<close>

section \<open>Repository\<close>

text \<open>The unique constraint on user and product makes a second insertion do nothing.\<close>

definition wishlist_add :: "time \<Rightarrow> uuid \<Rightarrow> uuid \<Rightarrow> unit dbop" where
  "wishlist_add now user pid =
     modify (\<lambda>s. if list_ex (\<lambda>w. w_user_id w = user \<and> w_product_id w = pid) (wishes s) then s
                 else s\<lparr>wishes := wishes s @ [\<lparr>w_user_id = user, w_product_id = pid, w_created_at = now\<rparr>]\<rparr>)"

definition wishlist_remove :: "uuid \<Rightarrow> uuid \<Rightarrow> unit dbop" where
  "wishlist_remove user pid =
     modify (\<lambda>s. s\<lparr>wishes := filter (\<lambda>w. \<not> (w_user_id w = user \<and> w_product_id w = pid)) (wishes s)\<rparr>)"

definition wishlist_products :: "uuid \<Rightarrow> db \<Rightarrow> product list" where
  "wishlist_products user s =
     List.map_filter (\<lambda>w. product_by_id (w_product_id w) True s)
       (order_rows w_created_at False (filter (\<lambda>w. w_user_id w = user) (wishes s)))"

section \<open>Service and endpoints\<close>

definition add_wish :: "time \<Rightarrow> uuid \<Rightarrow> uuid \<Rightarrow> unit dbop" where
  "add_wish now user pid =
     andThen (gets (product_by_id pid True)) (\<lambda>found.
     andThen (require_some (AppError NotFound ''product_not_found'') found) (\<lambda>_. wishlist_add now user pid))"

definition list_wishes :: "uuid \<Rightarrow> product list dbop" where
  "list_wishes user = andThen (gets (wishlist_products user)) (map_op product_response)"

datatype wish_call = ListWishes | AddWish uuid | RemoveWish uuid

fun wish_endpoint :: "time \<Rightarrow> user \<Rightarrow> wish_call \<Rightarrow> product list dbop" where
  "wish_endpoint now u ListWishes = list_wishes (u_id u)"
| "wish_endpoint now u (AddWish pid) = andThen (add_wish now (u_id u) pid) (\<lambda>_. ret [])"
| "wish_endpoint now u (RemoveWish pid) = andThen (wishlist_remove (u_id u) pid) (\<lambda>_. ret [])"

definition wish_request :: "time \<Rightarrow> user \<Rightarrow> wish_call \<Rightarrow> product list dbop" where
  "wish_request now u c = transact (wish_endpoint now u c)"

section \<open>What a customer has saved\<close>

definition saved :: "uuid \<Rightarrow> db \<Rightarrow> uuid set" where
  "saved user s = w_product_id ` {w \<in> set (wishes s). w_user_id w = user}"

definition wishes_unique :: "db \<Rightarrow> bool" where
  "wishes_unique s \<longleftrightarrow> unique_by (\<lambda>w. (w_user_id w, w_product_id w)) (wishes s)"

lemma wishlist_add_saved:
  assumes "wishlist_add now user pid s = (r, t)"
  shows "saved u t = (if u = user then insert pid (saved u s) else saved u s) \<and> (wishes_unique s \<longrightarrow> wishes_unique t)"
proof (cases "list_ex (\<lambda>w. w_user_id w = user \<and> w_product_id w = pid) (wishes s)")
  case True
  with assms have "t = s" by (simp add: wishlist_add_def op_simps)
  with True show ?thesis by (auto simp: saved_def list_ex_iff)
next
  case False
  let ?w = "\<lparr>w_user_id = user, w_product_id = pid, w_created_at = now\<rparr>"
  from False assms have t: "wishes t = wishes s @ [?w]" by (auto simp: wishlist_add_def op_simps)
  have "{w \<in> set (wishes t). w_user_id w = u} = (if u = user then insert ?w else id) {w \<in> set (wishes s). w_user_id w = u}"
    unfolding t by (auto simp: set_append)
  with False show ?thesis by (auto simp: saved_def wishes_unique_def unique_by_def t list_ex_iff)
qed

lemma wishlist_remove_saved:
  "wishlist_remove user pid s = (r, t) \<Longrightarrow>
   saved u t = (if u = user then saved u s - {pid} else saved u s) \<and> (wishes_unique s \<longrightarrow> wishes_unique t)"
  by (auto simp: wishlist_remove_def saved_def wishes_unique_def unique_by_def op_simps intro: distinct_map_filter)

fun wish_run :: "(time \<times> user \<times> wish_call) list \<Rightarrow> db \<Rightarrow> db" where
  "wish_run [] s = s"
| "wish_run ((now, u, c) # steps) s = wish_run steps (snd (wish_request now u c s))"

text \<open>What the requests of one customer leave: a product is added when it is active, other customers change nothing.\<close>

fun wish_spec :: "db \<Rightarrow> uuid \<Rightarrow> (time \<times> user \<times> wish_call) list \<Rightarrow> uuid set \<Rightarrow> uuid set" where
  "wish_spec s me [] A = A"
| "wish_spec s me ((now, u, c) # steps) A =
     wish_spec s me steps
       (if u_id u \<noteq> me then A
        else case c of
          ListWishes \<Rightarrow> A
        | AddWish pid \<Rightarrow> if product_by_id pid True s = None then A else insert pid A
        | RemoveWish pid \<Rightarrow> A - {pid})"

lemma wish_list_state: "list_wishes user s = (r, t) \<Longrightarrow> t = s"
proof -
  have "keeps (\<lambda>x. x = s) (map_op product_response ps)" for ps
    by (intro keeps_map_op) (rule keeps_product_response)
  then show "list_wishes user s = (r, t) \<Longrightarrow> t = s"
    by (auto simp: list_wishes_def andThen_def gets_def keeps_def split: prod.splits sum.splits) (metis snd_conv)
qed

lemma product_by_id_cong: "products t = products s \<Longrightarrow> product_by_id pid b t = product_by_id pid b s"
  by (simp add: product_by_id_def)

lemma saved_cong: "wishes t = wishes s \<Longrightarrow> saved u t = saved u s"
  by (simp add: saved_def)

lemma wish_step:
  assumes "wish_request now u c s = (r, t)"
  shows "products t = products s" and "wishes_unique s \<Longrightarrow> wishes_unique t"
    and "saved me t = wish_spec s me [(now, u, c)] (saved me s)"
proof -
  have "products t = products s \<and> (wishes_unique s \<longrightarrow> wishes_unique t) \<and> saved me t = wish_spec s me [(now, u, c)] (saved me s)"
  proof (cases c)
    case ListWishes
    with assms have "t = s"
      by (cases "list_wishes (u_id u) s") (auto simp: wish_request_def transact_def dest: wish_list_state split: prod.splits sum.splits)
    with ListWishes show ?thesis by simp
  next
    case (AddWish pid)
    show ?thesis
    proof (cases "product_by_id pid True s")
      case None
      with assms AddWish show ?thesis by (auto simp: wish_request_def add_wish_def op_eval split: prod.splits)
    next
      case (Some p)
      with assms AddWish have "wishlist_add now (u_id u) pid s = (Inr (), t)"
        by (auto simp: wish_request_def add_wish_def op_eval wishlist_add_def split: if_splits)
      with wishlist_add_saved [OF this, of me] show ?thesis
        by (auto simp: AddWish Some wishlist_add_def op_simps)
    qed
  next
    case (RemoveWish pid)
    with assms have "wishlist_remove (u_id u) pid s = (Inr (), t)"
      by (auto simp: wish_request_def op_eval wishlist_remove_def)
    with wishlist_remove_saved [OF this, of me] show ?thesis
      by (auto simp: RemoveWish wishlist_remove_def op_simps)
  qed
  then show "products t = products s" "wishes_unique s \<Longrightarrow> wishes_unique t" "saved me t = wish_spec s me [(now, u, c)] (saved me s)"
    by blast+
qed

lemma wish_spec_cong: "products t = products s \<Longrightarrow> wish_spec t me steps A = wish_spec s me steps A"
proof (induction steps arbitrary: A)
  case (Cons x xs)
  then show ?case by (cases x) (simp add: product_by_id_cong [of t s] split: wish_call.splits)
qed simp

text \<open>
  The saved products of a customer are what the customer's own requests make of them, each product once:
  saving a product that is already saved or removing one that is not changes nothing, a product that is not
  on sale is not saved, and no other customer's requests matter.
\<close>
lemma wishlist_is_a_set:
  assumes "wishes_unique s"
  shows "saved me (wish_run steps s) = wish_spec s me steps (saved me s) \<and> wishes_unique (wish_run steps s)"
  using assms
proof (induction steps arbitrary: s)
  case Nil
  then show ?case by simp
next
  case (Cons x steps)
  obtain now u c where x: "x = (now, u, c)" by (cases x)
  obtain r t where t: "wish_request now u c s = (r, t)" by force
  have "wish_spec t me steps (saved me t) = wish_spec s me steps (wish_spec s me [(now, u, c)] (saved me s))"
    by (simp only: wish_spec_cong [OF wish_step(1) [OF t]] wish_step(3) [OF t])
  with Cons(1) [of t] Cons(2) wish_step(2) [OF t] show ?case by (auto simp: x t)
qed

lemma wishlist_is_a_set_witness:
  "saved 7 (wish_run [(1, sample_user 7 Customer, AddWish 1), (2, sample_user 7 Customer, AddWish 1), (3, sample_user 8 Customer, RemoveWish 1)]
     (empty_db\<lparr>products := [sample_gas]\<rparr>)) = {1}"
proof -
  have "wishes_unique (empty_db\<lparr>products := [sample_gas]\<rparr>)" by (simp add: wishes_unique_def unique_by_def empty_db_def)
  moreover have "saved 7 (empty_db\<lparr>products := [sample_gas]\<rparr>) = {}" by (simp add: saved_def empty_db_def)
  moreover have "wish_spec (empty_db\<lparr>products := [sample_gas]\<rparr>) 7
      [(1, sample_user 7 Customer, AddWish 1), (2, sample_user 7 Customer, AddWish 1), (3, sample_user 8 Customer, RemoveWish 1)] {} = {1}"
    by code_simp
  ultimately show ?thesis by (metis wishlist_is_a_set)
qed

end
