(* ===== verification/Spec2Isabelle.thy ===== *)
theory Spec2Isabelle
  imports Shop ChatConfirm Recovery PriceAlerts Agent KnowledgeRuns TurnSafety Wishlist
begin

text \<open>
  Verification development of the backend of a gas and drinking-water shop, \<^verbatim>\<open>src/backend/app\<close>: a web shop
  with accounts, coupons, orders, deliveries and price e-mails, and an assistant that answers questions from
  a knowledge base, takes orders in a chat and lets administrators change the catalog by chat.

  \<^bold>\<open>The program and its model.\<close> An endpoint validates a payload, calls a service, which calls repositories on
  one database session; the session is committed when the request ends and rolled back when it raises. An
  operation here is a function from a state to an exception or a value, and the state it leaves (\<open>op\<close> in
  Prelude); a handler is composed with \<open>andThen\<close> in the order of the code, with every guard and every
  exception of the source as a branch, and \<open>transact\<close> makes it one transaction. The tables are the fields of
  \<open>db\<close> (Database): lists of records with the columns of \<^verbatim>\<open>models/\<close>. Redis is an interface with stated laws
  (KeyValue), instantiated by a store with expiry times. Text is a list of characters with code points up to
  255, money counts hundredths of a dong, an instant counts microseconds, a UUID is a number.

  \<^bold>\<open>Theories and sources.\<close>
  \<^item> Prelude, PyText, Json, KeyValue: exceptions and their statuses (\<^verbatim>\<open>core/exceptions.py\<close>), Python's text
    functions, the number generator of orders and conversations, JSON as text, Redis.
  \<^item> Products, Catalog, Wishlist: pricing, schemas, \<^verbatim>\<open>product_repository.py\<close>, \<^verbatim>\<open>product_service.py\<close> and the
    saved products.
  \<^item> Coupons, Stock, Lifecycle, Orders, Checkout, OrderLife: \<^verbatim>\<open>coupon_service.py\<close>, \<^verbatim>\<open>order_service.py\<close>, their
    repositories and the checkout endpoint with its retries.
  \<^item> Deliveries: the trips of an order; Shop: all requests of these parts as steps on one database.
  \<^item> Auth, Sessions, Accounts, Recovery, Users: \<^verbatim>\<open>auth_service.py\<close>, \<^verbatim>\<open>core/security.py\<close>, user management.
  \<^item> PriceAlerts: \<^verbatim>\<open>price_alert_service.py\<close>.
  \<^item> Address, Safety, Llm, Rag: ward lookup, emergency detection, the provider chain, chunking, reranking and
    the answer pipeline (\<^verbatim>\<open>rag/\<close>, \<^verbatim>\<open>llm/\<close>).
  \<^item> KnowledgeFile, Knowledge, KnowledgeSearch, KnowledgeRuns: imports, documents, vectors, search, query cache.
  \<^item> ProductQuery, AdminChat: \<^verbatim>\<open>product_query.py\<close>, \<^verbatim>\<open>admin_chat_parser.py\<close>, \<^verbatim>\<open>admin_chat_service.py\<close>.
  \<^item> Agent: the agent graph and its tools (\<^verbatim>\<open>agent/\<close>).
  \<^item> ChatText, ChatSlots, ChatOrder, ChatConfirm: the order dialog of \<^verbatim>\<open>conversation_service.py\<close>.
  \<^item> Intent, ChatCatalog, ChatNotes, Conversations, ChatTurn: the classifiers and the routing, answers about the
    catalog, follow-up notes, the conversation tables, and one turn of a conversation, blocking and streamed.
  \<^item> Review: the reviewers' queue (\<^verbatim>\<open>review_service.py\<close>); ConversationRuns, TurnSafety: what runs and turns keep.

  \<^bold>\<open>What the lemmas show.\<close> Orders: the amounts of a checkout, stock taken and given back exactly, coupon limits,
  idempotent repetition, the invariant of all shop tables over every run, the conservation of units, and a
  refinement of an abstract order book. Accounts: revocation that lasts, the lock after five failures, single
  use of reset tokens, an administrator that always remains. Chat: no message changes the shop unless it
  confirms a pending order; emergencies are answered with the fixed text and escalated; what a customer has
  seen streamed is stored; the cheapest product is the cheapest; the review queue misses nothing. Agent: every
  turn ends, tools that write need an approval. Knowledge base: search results, transparency of the cache,
  vectors that follow their text. Several lemmas state where the code does not do what it says; these are in
  the findings of the manifest.

  \<^bold>\<open>Interfaces.\<close> A store of stock (Stock), a status table (Lifecycle), Redis and JWT (KeyValue, Sessions), the
  abstract order book (Shop) and the laws on rows of a conversation (ConversationRuns) are locales, each
  interpreted on the definitions of the code.

  \<^bold>\<open>Bounds and fuel.\<close> Checkout is tried three times, as in the code. The JSON reader gets twice the length of
  the text plus two as fuel, which \<open>json_value_enough\<close> shows to be enough. The agent graph runs under the
  recursion limit 25 of the code; a turn takes at most five nodes. The page loop of the admin chat is shown to
  end. All other loops are structural recursion or have a termination proof.

  \<^bold>\<open>Parameters.\<close> What is not under \<^verbatim>\<open>src\<close> is an argument: bcrypt, JWT, Redis, the mail and invoice providers,
  language models, embeddings, BM25, vector distance and float arithmetic, Unicode composition, \<^verbatim>\<open>uuid5\<close>, the
  order of ties and of sets, trigram similarity and collation of the database. So are the readings of a chat message by patterns with
  accented alternatives, and the wording of replies.

  \<^bold>\<open>Not modelled.\<close> Concurrency: locks and serialisation failures are the sequential execution the model assumes,
  apart from the retry loops; failures at commit time; rate limits; the range of 32-bit and numeric columns;
  \<^verbatim>\<open>updated_at\<close> except for conversations; letters beyond code point 255; coordinates; the messages embedded in
  a conversation response; the coercions of tool arguments; the 28 digits of decimals. Left out as a whole are
  the provider clients, the recommendations and insights (float statistics and reports), the evaluation and benchmark
  scripts, the MCP server, e-mail rendering, tracing, middleware, configuration, migrations and the front end:
  they are input and output, measurements or glue around the services modelled here.
\<close>

end
